(* ===== verification/Go_Base.thy ===== *)
theory Go_Base
  imports Main "HOL-Library.Sublist"
begin

text \<open>
  The prelude: what the modelled Go code uses of the Go language and of its standard library.
  Strings are byte strings (Isabelle's \<open>string\<close>, one \<open>char\<close> per byte), \<open>int\<close> and \<open>int64\<close> values
  are \<open>int\<close> with the wrap-around of 64-bit arithmetic written out where an operation can overflow,
  a \<open>time.Time\<close> is the number of nanoseconds since the Go zero instant (so \<open>IsZero\<close> is \<open>= 0\<close>),
  a \<open>time.Duration\<close> is a number of nanoseconds.  The errors of the domain are one datatype, and a
  fallible function returns a sum whose left component is the error.
\<close>

named_theorems go_simps "unfolding equations of the Go library functions"

section \<open>Results\<close>

text \<open>
  \<^verbatim>\<open>internal/domain/model/errors.go\<close>: the sentinel errors.  \<open>fmt.Errorf("%w: ...", ErrX)\<close> is modelled by
  the sentinel \<open>ErrX\<close> it wraps (what \<open>errors.Is\<close> observes); the appended detail text is dropped.
  \<open>Err_Port\<close> is an error that a driven port reports and that wraps no sentinel of the domain.
\<close>

datatype err =
    ErrNotFound | ErrConflict | ErrInvalidStateTransition | ErrTerminalState
  | ErrInvalidPlatform | ErrInvalidCronExpression | ErrInvalidResourceQuantity | ErrEmptyName
  | ErrInvalidChecksum | ErrEmptyS3Key | ErrValidation | ErrTimeout | ErrBuildFailed
  | ErrInvalidAffinity | ErrInvalidToleration | ErrInvalidDeadline | ErrBarrierNotFound
  | ErrBarrierAborted | ErrBarrierTimeout | ErrBarrierReleased | ErrWorkerAlreadyRegistered
  | ErrInvalidWorkerCount | ErrInvalidWorkerIndex | ErrNoScenariosDefined | ErrRunInFlight
  | ErrReportNotFound | ErrLogsNotFound | ErrMissingGoMod | ErrMissingVuhiveDependency
  | ErrForbiddenImport | ErrForbiddenPackageMain | ErrMissingScenarioContract | ErrInvalidArchive
  | ErrInsecureOverrideForbidden | ErrUnauthorized | ErrForbidden | ErrTokenExpired
  | ErrInvalidToken | ErrUnsupportedGoVersion | ErrInvalidSecretKey | ErrMissingSecret
  | ErrSecretsDisabled
  | Err_Port string

type_synonym 'a result = "err + 'a"

definition is_ok :: "'e + 'a \<Rightarrow> bool" where
  "is_ok r = (case r of Inl _ \<Rightarrow> False | Inr _ \<Rightarrow> True)"

lemma is_ok_simps [simp]: "is_ok (Inr x)" "\<not> is_ok (Inl e)"
  by (simp_all add: is_ok_def)

lemma is_ok_iff: "is_ok r \<longleftrightarrow> (\<exists>x. r = Inr x)"
  by (cases r) simp_all

text \<open>A loop that stops at the first error and otherwise collects the results.\<close>

fun collect_results :: "'a result list \<Rightarrow> 'a list result" where
  "collect_results [] = Inr []"
| "collect_results (x # xs) =
     (case x of Inl e \<Rightarrow> Inl e
      | Inr a \<Rightarrow> (case collect_results xs of Inl e \<Rightarrow> Inl e | Inr as \<Rightarrow> Inr (a # as)))"

lemma collect_loaded: "(\<And>x. x \<in> set xs \<Longrightarrow> f x = Inr x) \<Longrightarrow> collect_results (map f xs) = Inr xs"
  by (induction xs) auto

lemma collect_results_Inr:
  "collect_results xs = Inr ys \<longleftrightarrow> xs = map Inr ys"
proof (induction xs arbitrary: ys)
  case (Cons x xs)
  show ?case
  proof (cases x)
    case (Inl e)
    then show ?thesis by (cases ys) simp_all
  next
    case (Inr a)
    then have "collect_results (x # xs) = Inr ys \<longleftrightarrow> (\<exists>as. collect_results xs = Inr as \<and> ys = a # as)"
      by (auto split: sum.splits)
    with Cons.IH Inr show ?thesis by (auto simp: Cons_eq_map_conv)
  qed
qed auto

section \<open>Times, durations, 64-bit arithmetic\<close>

type_synonym time = int
type_synonym duration = int

abbreviation millisecond :: duration where "millisecond \<equiv> 1000000"
abbreviation second :: duration where "second \<equiv> 1000000000"
abbreviation hour :: duration where "hour \<equiv> 3600000000000"

abbreviation max_int64 :: int where "max_int64 \<equiv> 9223372036854775807"
abbreviation min_int64 :: int where "min_int64 \<equiv> - 9223372036854775808"

definition wrap64 :: "int \<Rightarrow> int" where
  "wrap64 x = (x + 9223372036854775808) mod 18446744073709551616 - 9223372036854775808"

definition in_int64 :: "int \<Rightarrow> bool" where
  "in_int64 x \<longleftrightarrow> min_int64 \<le> x \<and> x \<le> max_int64"

lemma wrap64_id: "in_int64 x \<Longrightarrow> wrap64 x = x"
  by (simp add: wrap64_def in_int64_def)

lemma wrap64_in: "in_int64 (wrap64 x)"
proof -
  have "0 \<le> (x + 9223372036854775808) mod 18446744073709551616"
    and "(x + 9223372036854775808) mod 18446744073709551616 < 18446744073709551616"
    by simp_all
  then show ?thesis by (simp add: wrap64_def in_int64_def)
qed

text \<open>\<open>t.Sub(u)\<close> saturates at the largest and smallest duration.\<close>

definition time_sub :: "time \<Rightarrow> time \<Rightarrow> duration" where
  "time_sub t u = max min_int64 (min max_int64 (t - u))"

text \<open>Go's integer division truncates towards zero, and \<open>%\<close> has the dividend's sign.\<close>

definition go_div :: "int \<Rightarrow> int \<Rightarrow> int" where
  "go_div a b = sgn a * sgn b * (\<bar>a\<bar> div \<bar>b\<bar>)"

definition go_mod :: "int \<Rightarrow> int \<Rightarrow> int" where
  "go_mod a b = a - b * go_div a b"

lemma go_div_nonneg: "0 \<le> a \<Longrightarrow> 0 < b \<Longrightarrow> go_div a b = a div b"
  by (cases "a = 0") (simp_all add: go_div_def)

lemma go_mod_nonneg: "0 \<le> a \<Longrightarrow> 0 < b \<Longrightarrow> go_mod a b = a mod b"
  by (simp add: go_mod_def go_div_nonneg minus_mult_div_eq_mod)

section \<open>strings.TrimSpace\<close>

text \<open>
  \<open>strings.TrimSpace\<close> strips the code points for which \<open>unicode.IsSpace\<close> holds from both ends.
  On bytes these are the UTF-8 encodings listed here, and because each of them starts with a lead
  byte, decoding a rune from either end of a string yields white space exactly when the string
  starts (ends) with one of them.
\<close>

definition space_codes :: "string list" where
  "space_codes =
     [[CHR 0x20], [CHR 0x09], [CHR 0x0A], [CHR 0x0B], [CHR 0x0C], [CHR 0x0D],
      [CHR 0xC2, CHR 0x85], [CHR 0xC2, CHR 0xA0], [CHR 0xE1, CHR 0x9A, CHR 0x80],
      [CHR 0xE2, CHR 0x80, CHR 0x80], [CHR 0xE2, CHR 0x80, CHR 0x81], [CHR 0xE2, CHR 0x80, CHR 0x82],
      [CHR 0xE2, CHR 0x80, CHR 0x83], [CHR 0xE2, CHR 0x80, CHR 0x84], [CHR 0xE2, CHR 0x80, CHR 0x85],
      [CHR 0xE2, CHR 0x80, CHR 0x86], [CHR 0xE2, CHR 0x80, CHR 0x87], [CHR 0xE2, CHR 0x80, CHR 0x88],
      [CHR 0xE2, CHR 0x80, CHR 0x89], [CHR 0xE2, CHR 0x80, CHR 0x8A], [CHR 0xE2, CHR 0x80, CHR 0xA8],
      [CHR 0xE2, CHR 0x80, CHR 0xA9], [CHR 0xE2, CHR 0x80, CHR 0xAF], [CHR 0xE2, CHR 0x81, CHR 0x9F],
      [CHR 0xE3, CHR 0x80, CHR 0x80]]"

definition front_code :: "string list \<Rightarrow> string \<Rightarrow> string option" where
  "front_code cs s = List.find (\<lambda>c. c \<noteq> [] \<and> prefix c s) cs"

lemma front_code_Some: "front_code cs s = Some c \<Longrightarrow> c \<noteq> [] \<and> prefix c s"
  by (auto simp: front_code_def find_Some_iff)

lemma front_code_None: "front_code cs s = None \<longleftrightarrow> (\<forall>c \<in> set cs. c = [] \<or> \<not> prefix c s)"
  by (auto simp: front_code_def find_None_iff)

function strip_front :: "string list \<Rightarrow> string \<Rightarrow> string" where
  "strip_front cs s =
     (case front_code cs s of None \<Rightarrow> s | Some c \<Rightarrow> strip_front cs (drop (length c) s))"
  by pat_completeness auto
termination
  by (relation "measure (\<lambda>(cs, s). length s)")
    (auto dest!: front_code_Some simp: prefix_def)

declare strip_front.simps [simp del]

definition trim_left :: "string \<Rightarrow> string" where
  "trim_left s = strip_front space_codes s"

definition trim_right :: "string \<Rightarrow> string" where
  "trim_right s = rev (strip_front (map rev space_codes) (rev s))"

definition trim_space :: "string \<Rightarrow> string" where
  "trim_space s = trim_right (trim_left s)"

lemma strip_front_fixed: "front_code cs (strip_front cs s) = None"
proof (induction cs s rule: strip_front.induct)
  case (1 cs s)
  then show ?case
    by (cases "front_code cs s") (simp_all add: strip_front.simps [of cs s])
qed

lemma strip_front_id: "front_code cs s = None \<Longrightarrow> strip_front cs s = s"
  by (simp add: strip_front.simps)

lemma strip_front_suffix: "suffix (strip_front cs s) s"
proof (induction cs s rule: strip_front.induct)
  case (1 cs s)
  show ?case
  proof (cases "front_code cs s")
    case None
    then show ?thesis by (simp add: strip_front.simps [of cs s])
  next
    case (Some c)
    with 1 have "suffix (strip_front cs (drop (length c) s)) (drop (length c) s)" by simp
    also have "suffix (drop (length c) s) s" by (rule suffix_drop)
    finally show ?thesis using Some by (simp add: strip_front.simps [of cs s])
  qed
qed

lemma trim_right_prefix: "prefix (trim_right s) s"
  using strip_front_suffix [of "map rev space_codes" "rev s"]
  by (simp add: trim_right_def suffix_to_prefix)

lemma trim_left_trim_space: "trim_left (trim_space s) = trim_space s"
proof -
  have "front_code space_codes (trim_left s) = None"
    by (simp add: trim_left_def strip_front_fixed)
  moreover have "prefix (trim_space s) (trim_left s)"
    by (simp add: trim_space_def trim_right_prefix)
  ultimately have "front_code space_codes (trim_space s) = None"
    unfolding front_code_None by (meson prefix_order.trans)
  then show ?thesis by (simp add: trim_left_def strip_front_id)
qed

lemma trim_right_idem: "trim_right (trim_right s) = trim_right s"
  by (simp add: trim_right_def strip_front_id strip_front_fixed)

lemma trim_space_idem [simp]: "trim_space (trim_space s) = trim_space s"
proof -
  have "trim_space (trim_space s) = trim_right (trim_left (trim_space s))"
    by (rule trim_space_def)
  also have "\<dots> = trim_right (trim_space s)" by (simp add: trim_left_trim_space)
  also have "\<dots> = trim_space s" by (simp add: trim_space_def trim_right_idem)
  finally show ?thesis .
qed

lemma trim_space_Nil [simp]: "trim_space [] = []"
  by (simp add: trim_space_def trim_left_def trim_right_def strip_front.simps front_code_def
      space_codes_def)

text \<open>A string that starts and ends with a printable ASCII byte is trimmed.\<close>

definition graphic :: "char \<Rightarrow> bool" where
  "graphic c = (let n = (of_char c :: nat) in 32 < n \<and> n < 127)"

lemma trim_space_graphic:
  assumes "s \<noteq> []" and "graphic (hd s)" and "graphic (last s)"
  shows "trim_space s = s"
proof -
  have "\<And>c cs. graphic c \<Longrightarrow> front_code space_codes (c # cs) = None"
    by (auto simp: front_code_None space_codes_def graphic_def)
  with assms(1,2) have "trim_left s = s"
    by (cases s) (simp_all add: trim_left_def strip_front_id)
  moreover have "\<And>c cs. graphic c \<Longrightarrow> front_code (map rev space_codes) (c # cs) = None"
    by (auto simp: front_code_None space_codes_def graphic_def)
  with assms(1,3) have "trim_right s = s"
    by (cases s rule: rev_cases) (simp_all add: trim_right_def strip_front_id)
  ultimately show ?thesis by (simp add: trim_space_def)
qed

definition trimmed :: "string \<Rightarrow> bool" where
  "trimmed s \<longleftrightarrow> trim_space s = s"

lemma trimmed_trim [simp, intro]: "trimmed (trim_space s)"
  by (simp add: trimmed_def)

text \<open>An optional pointer argument that counts as absent when it is nil or blank.\<close>

definition opt_trim :: "string option \<Rightarrow> string option" where
  "opt_trim p = (case p of None \<Rightarrow> None
     | Some s \<Rightarrow> if trim_space s = '''' then None else Some (trim_space s))"

lemma opt_trim_nonblank: "opt_trim p = Some s \<Longrightarrow> s \<noteq> '''' \<and> trimmed s"
  by (auto simp: opt_trim_def split: option.splits if_splits)

text \<open>The evaluation of \<open>trim_space\<close> on literals by the simplifier.\<close>

lemmas trim_eval = trim_space_def trim_left_def trim_right_def strip_front.simps front_code_def
  space_codes_def

end
