(* ===== verification/Go_Text.thy ===== *)
theory Go_Text
  imports Go_Base
begin

text \<open>
  The text functions of the Go library that the modelled code calls: \<open>strconv.Itoa\<close> and
  \<open>strconv.Atoi\<close>, \<open>strings.Split\<close>, \<open>HasPrefix\<close>, \<open>TrimPrefix\<close>, \<open>ToUpper\<close>, \<open>ToLower\<close>,
  \<open>TrimRight\<close>, \<open>ReplaceAll\<close> of one byte.  Case mapping is given on ASCII letters; every other byte is left
  alone, which is what Go does for ASCII input.
\<close>

section \<open>Decimal numbers\<close>

definition digit_char :: "nat \<Rightarrow> char" where
  "digit_char d = char_of (48 + d)"

definition digit_of :: "char \<Rightarrow> nat option" where
  "digit_of c = (let n = (of_char c :: nat) in if 48 \<le> n \<and> n \<le> 57 then Some (n - 48) else None)"

fun nat_digits :: "nat \<Rightarrow> string" where
  "nat_digits n = (if n < 10 then [digit_char n] else nat_digits (n div 10) @ [digit_char (n mod 10)])"

declare nat_digits.simps [simp del]

definition itoa :: "int \<Rightarrow> string" where
  "itoa n = (if n < 0 then CHR ''-'' # nat_digits (nat (- n)) else nat_digits (nat n))"

fun parse_digits :: "nat \<Rightarrow> string \<Rightarrow> nat option" where
  "parse_digits acc [] = Some acc"
| "parse_digits acc (c # cs) =
     (case digit_of c of None \<Rightarrow> None | Some d \<Rightarrow> parse_digits (10 * acc + d) cs)"

text \<open>
  \<open>strconv.Atoi\<close> returns a value and an error.  A syntax error leaves the value 0, and a number
  outside \<open>int64\<close> leaves the nearest bound: code that drops the error still uses that value.
\<close>

definition atoi_unsigned :: "bool \<Rightarrow> string \<Rightarrow> int \<times> bool" where
  "atoi_unsigned neg ds =
     (if ds = [] then (0, False)
      else case parse_digits 0 ds of
             None \<Rightarrow> (0, False)
           | Some n \<Rightarrow>
               (if neg then (if int n \<le> max_int64 + 1 then (- int n, True) else (min_int64, False))
                else (if int n \<le> max_int64 then (int n, True) else (max_int64, False))))"

definition atoi :: "string \<Rightarrow> int \<times> bool" where
  "atoi s =
     (case s of
        [] \<Rightarrow> (0, False)
      | c # cs \<Rightarrow> (if c = CHR ''-'' then atoi_unsigned True cs
                   else if c = CHR ''+'' then atoi_unsigned False cs
                   else atoi_unsigned False (c # cs)))"

lemma digit_of_digit_char: "d < 10 \<Longrightarrow> digit_of (digit_char d) = Some d"
  by (simp add: digit_of_def digit_char_def Let_def of_char_of)

lemma digit_char_no_sign: "d < 10 \<Longrightarrow> digit_char d \<noteq> CHR ''-'' \<and> digit_char d \<noteq> CHR ''+''"
proof -
  assume d: "d < 10"
  have "digit_of (CHR ''-'') = None" "digit_of (CHR ''+'') = None"
    by (simp_all add: digit_of_def)
  with digit_of_digit_char [OF d] show ?thesis by auto
qed

lemma parse_digits_append:
  "parse_digits acc (xs @ ys) =
     (case parse_digits acc xs of None \<Rightarrow> None | Some a \<Rightarrow> parse_digits a ys)"
  by (induction xs arbitrary: acc) (auto split: option.splits)

lemma parse_nat_digits: "parse_digits 0 (nat_digits n) = Some n"
proof (induction n rule: nat_digits.induct)
  case (1 n)
  show ?case
  proof (cases "n < 10")
    case True
    then show ?thesis by (simp add: nat_digits.simps [of n] digit_of_digit_char)
  next
    case False
    with 1 have "parse_digits 0 (nat_digits (n div 10)) = Some (n div 10)" by simp
    with False show ?thesis
      by (simp add: nat_digits.simps [of n] parse_digits_append digit_of_digit_char)
  qed
qed

lemma nat_digits_Cons: "\<exists>d ds. nat_digits n = digit_char d # ds \<and> d < 10"
proof (induction n rule: nat_digits.induct)
  case (1 n)
  show ?case
  proof (cases "n < 10")
    case True
    then show ?thesis by (auto simp: nat_digits.simps [of n])
  next
    case False
    with 1 obtain d ds where "nat_digits (n div 10) = digit_char d # ds" "d < 10" by auto
    with False show ?thesis by (auto simp: nat_digits.simps [of n])
  qed
qed

lemma atoi_itoa:
  assumes "in_int64 n"
  shows "atoi (itoa n) = (n, True)"
proof (cases "n < 0")
  case True
  obtain d ds where ds: "nat_digits (nat (- n)) = digit_char d # ds" "d < 10"
    using nat_digits_Cons by blast
  then have "parse_digits 0 (digit_char d # ds) = Some (nat (- n))"
    using parse_nat_digits [of "nat (- n)"] by simp
  with True ds assms show ?thesis
    by (simp add: itoa_def atoi_def atoi_unsigned_def in_int64_def del: parse_digits.simps)
next
  case False
  obtain d ds where ds: "nat_digits (nat n) = digit_char d # ds" "d < 10"
    using nat_digits_Cons by blast
  then have "parse_digits 0 (digit_char d # ds) = Some (nat n)"
    using parse_nat_digits [of "nat n"] by simp
  with False ds assms digit_char_no_sign [OF ds(2)] show ?thesis
    by (simp add: itoa_def atoi_def atoi_unsigned_def in_int64_def del: parse_digits.simps)
qed

lemma atoi_in_int64: "in_int64 (fst (atoi s))"
  by (auto simp: atoi_def atoi_unsigned_def in_int64_def split: list.splits option.splits)

section \<open>Case, prefixes, separators\<close>

definition to_lower_char :: "char \<Rightarrow> char" where
  "to_lower_char c = (let n = (of_char c :: nat) in if 65 \<le> n \<and> n \<le> 90 then char_of (n + 32) else c)"

definition to_upper_char :: "char \<Rightarrow> char" where
  "to_upper_char c = (let n = (of_char c :: nat) in if 97 \<le> n \<and> n \<le> 122 then char_of (n - 32) else c)"

definition to_lower :: "string \<Rightarrow> string" where "to_lower s = map to_lower_char s"
definition to_upper :: "string \<Rightarrow> string" where "to_upper s = map to_upper_char s"

definition equal_fold :: "string \<Rightarrow> string \<Rightarrow> bool" where
  "equal_fold s t \<longleftrightarrow> to_lower s = to_lower t"

definition trim_prefix :: "string \<Rightarrow> string \<Rightarrow> string" where
  "trim_prefix s p = (if prefix p s then drop (length p) s else s)"

definition trim_suffix :: "string \<Rightarrow> string \<Rightarrow> string" where
  "trim_suffix s p = (if suffix p s then take (length s - length p) s else s)"

definition trim_right_char :: "string \<Rightarrow> char \<Rightarrow> string" where
  "trim_right_char s c = rev (dropWhile (\<lambda>x. x = c) (rev s))"

definition replace_char :: "char \<Rightarrow> char \<Rightarrow> string \<Rightarrow> string" where
  "replace_char a b s = map (\<lambda>c. if c = a then b else c) s"

text \<open>\<open>strings.Split\<close> with a one-byte separator: never the empty list.\<close>

fun split_on :: "char \<Rightarrow> string \<Rightarrow> string list" where
  "split_on sep [] = [[]]"
| "split_on sep (c # cs) =
     (if c = sep then [] # split_on sep cs
      else case split_on sep cs of [] \<Rightarrow> [[c]] | w # ws \<Rightarrow> (c # w) # ws)"

lemma split_on_nonempty: "split_on sep s \<noteq> []"
  by (induction s) (auto split: list.splits)

text \<open>\<open>strings.Join\<close>.\<close>

fun join :: "string \<Rightarrow> string list \<Rightarrow> string" where
  "join sep [] = []"
| "join sep [s] = s"
| "join sep (s # ss) = s @ sep @ join sep ss"

lemma join_split_on: "join [sep] (split_on sep s) = s"
proof (induction s)
  case Nil
  then show ?case by simp
next
  case (Cons c cs)
  obtain w ws where ws: "split_on sep cs = w # ws"
    using split_on_nonempty by (meson neq_Nil_conv)
  with Cons show ?case by (cases ws) auto
qed

text \<open>\<open>strings.Contains\<close>.\<close>

definition contains :: "string \<Rightarrow> string \<Rightarrow> bool" where
  "contains s t \<longleftrightarrow> sublist t s"

text \<open>\<open>strings.Fields\<close> on ASCII white space.\<close>

definition ascii_space :: "char \<Rightarrow> bool" where
  "ascii_space c \<longleftrightarrow> c \<in> {CHR 0x20, CHR 0x09, CHR 0x0A, CHR 0x0B, CHR 0x0C, CHR 0x0D}"

fun fields_acc :: "string \<Rightarrow> string \<Rightarrow> string list" where
  "fields_acc cur [] = (if cur = [] then [] else [rev cur])"
| "fields_acc cur (c # cs) =
     (if ascii_space c then (if cur = [] then fields_acc [] cs else rev cur # fields_acc [] cs)
      else fields_acc (c # cur) cs)"

definition fields :: "string \<Rightarrow> string list" where
  "fields s = fields_acc [] s"

end
