(* ===== verification/Configs_Secrets.thy ===== *)
theory Configs_Secrets
  imports Go_Text
begin

text \<open>
  \<^verbatim>\<open>internal/domain/model/configuration.go\<close> and \<^verbatim>\<open>internal/domain/model/secret.go\<close>: the scenario
  configurations attached to a suite and its encrypted secrets.  An encrypted value is a byte string.
  The regular expression of secret keys is a recogniser over bytes.
\<close>

section \<open>Configurations\<close>

record configuration =
  cfg_id :: string
  cfg_suite_id :: string
  cfg_name :: string
  cfg_description :: string
  content_yaml :: string
  s3_config_key :: string
  is_default :: bool
  cfg_created_at :: time

definition new_configuration ::
  "string \<Rightarrow> time \<Rightarrow> string \<Rightarrow> string \<Rightarrow> string \<Rightarrow> string \<Rightarrow> string \<Rightarrow> bool \<Rightarrow> configuration result" where
  "new_configuration uuid now suite name desc yaml key dflt =
     (let s = trim_space suite; n = trim_space name; y = trim_space yaml; k = trim_space key
      in if s = '''' \<or> y = '''' then Inl ErrValidation
         else if n = '''' then Inl ErrEmptyName
         else if k = '''' then Inl ErrEmptyS3Key
         else Inr \<lparr>cfg_id = uuid, cfg_suite_id = s, cfg_name = n, cfg_description = trim_space desc,
                content_yaml = yaml, s3_config_key = k, is_default = dflt, cfg_created_at = now\<rparr>)"

definition new_configuration_with_id ::
  "string \<Rightarrow> string \<Rightarrow> string \<Rightarrow> string \<Rightarrow> string \<Rightarrow> string \<Rightarrow> bool \<Rightarrow> time \<Rightarrow> configuration result" where
  "new_configuration_with_id i suite name desc yaml key dflt created =
     new_configuration i created suite name desc yaml key dflt"

definition set_default :: "bool \<Rightarrow> configuration \<Rightarrow> configuration" where
  "set_default d c = c\<lparr>is_default := d\<rparr>"

definition update_content :: "string \<Rightarrow> string \<Rightarrow> configuration \<Rightarrow> configuration result" where
  "update_content yaml key c =
     (if trim_space yaml = '''' then Inl ErrValidation
      else if trim_space key = '''' then Inl ErrEmptyS3Key
      else Inr (c\<lparr>content_yaml := yaml, s3_config_key := trim_space key\<rparr>))"

definition set_name :: "string \<Rightarrow> configuration \<Rightarrow> configuration result" where
  "set_name name c =
     (if trim_space name = '''' then Inl ErrEmptyName else Inr (c\<lparr>cfg_name := trim_space name\<rparr>))"

definition cfg_set_description :: "string \<Rightarrow> configuration \<Rightarrow> configuration" where
  "cfg_set_description d c = c\<lparr>cfg_description := trim_space d\<rparr>"

definition cfg_update_details :: "string \<Rightarrow> string \<Rightarrow> configuration \<Rightarrow> configuration result" where
  "cfg_update_details name d c =
     (if trim_space name = '''' then Inl ErrEmptyName
      else Inr (c\<lparr>cfg_name := trim_space name, cfg_description := trim_space d\<rparr>))"

definition configuration_wf :: "configuration \<Rightarrow> bool" where
  "configuration_wf c \<longleftrightarrow>
     cfg_suite_id c \<noteq> '''' \<and> trimmed (cfg_suite_id c) \<and> cfg_name c \<noteq> '''' \<and> trimmed (cfg_name c) \<and>
     trimmed (cfg_description c) \<and> trim_space (content_yaml c) \<noteq> '''' \<and>
     s3_config_key c \<noteq> '''' \<and> trimmed (s3_config_key c)"

lemma new_configuration_wf: "new_configuration u t s n d y k b = Inr c \<Longrightarrow> configuration_wf c"
  by (auto simp: new_configuration_def configuration_wf_def Let_def split: if_splits)

text \<open>
  Every operation on a configuration keeps it well formed (non-blank trimmed suite, name and
  storage key, and content that is not blank), and storing and rebuilding it gives it back.
\<close>

theorem configuration_ops_wf:
  assumes "configuration_wf c"
  shows "configuration_wf (set_default b c) \<and> configuration_wf (cfg_set_description d c) \<and>
    (\<forall>c'. update_content y k c = Inr c' \<or> set_name n c = Inr c' \<or> cfg_update_details n d c = Inr c'
       \<longrightarrow> configuration_wf c' \<and> cfg_id c' = cfg_id c \<and> cfg_suite_id c' = cfg_suite_id c) \<and>
    new_configuration_with_id (cfg_id c) (cfg_suite_id c) (cfg_name c) (cfg_description c)
      (content_yaml c) (s3_config_key c) (is_default c) (cfg_created_at c) = Inr c"
  using assms
  by (auto simp: set_default_def cfg_set_description_def update_content_def set_name_def
      cfg_update_details_def configuration_wf_def new_configuration_with_id_def
      new_configuration_def trimmed_def split: if_splits)

definition sample_configuration :: configuration where
  "sample_configuration = \<lparr>cfg_id = ''c1'', cfg_suite_id = ''s1'', cfg_name = ''main'',
     cfg_description = '''', content_yaml = ''a: b'', s3_config_key = ''k'', is_default = True,
     cfg_created_at = 7\<rparr>"

theorem configuration_ops_wf_witness:
  "configuration_wf sample_configuration \<and> configuration_wf (set_default False sample_configuration)"
proof -
  have "configuration_wf sample_configuration"
    by (simp add: configuration_wf_def sample_configuration_def trimmed_def trim_space_graphic graphic_def)
  with configuration_ops_wf [OF this] show ?thesis by blast
qed

section \<open>Secrets\<close>

definition key_start :: "char \<Rightarrow> bool" where
  "key_start c = (let n = (of_char c :: nat) in 65 \<le> n \<and> n \<le> 90)"

definition key_char :: "char \<Rightarrow> bool" where
  "key_char c = (let n = (of_char c :: nat) in (65 \<le> n \<and> n \<le> 90) \<or> (48 \<le> n \<and> n \<le> 57) \<or> n = 95)"

definition secret_key_pattern :: "string \<Rightarrow> bool" where
  "secret_key_pattern s = (case s of [] \<Rightarrow> False | c # cs \<Rightarrow> key_start c \<and> list_all key_char cs)"

definition validate_secret_key :: "string \<Rightarrow> unit result" where
  "validate_secret_key key =
     (if trim_space key = '''' \<or> \<not> secret_key_pattern (trim_space key) then Inl ErrInvalidSecretKey
      else Inr ())"

record secret =
  sec_id :: string
  sec_suite_id :: string
  sec_key :: string
  encrypted_value :: string
  sec_created_at :: time
  sec_updated_at :: time

definition new_secret_with_id ::
  "string \<Rightarrow> string \<Rightarrow> string \<Rightarrow> string \<Rightarrow> time \<Rightarrow> time \<Rightarrow> secret result" where
  "new_secret_with_id i suite key enc created updated =
     (let s = trim_space suite; k = trim_space key
      in if s = '''' then Inl ErrValidation
         else case validate_secret_key k of
                Inl e \<Rightarrow> Inl e
              | Inr _ \<Rightarrow>
                  if enc = '''' then Inl ErrValidation
                  else Inr \<lparr>sec_id = i, sec_suite_id = s, sec_key = k, encrypted_value = enc,
                         sec_created_at = created, sec_updated_at = updated\<rparr>)"

definition new_secret :: "string \<Rightarrow> time \<Rightarrow> string \<Rightarrow> string \<Rightarrow> string \<Rightarrow> secret result" where
  "new_secret uuid now suite key enc = new_secret_with_id uuid suite key enc now now"

definition secret_update_value :: "time \<Rightarrow> string \<Rightarrow> secret \<Rightarrow> secret result" where
  "secret_update_value now enc s =
     (if enc = '''' then Inl ErrValidation
      else Inr (s\<lparr>encrypted_value := enc, sec_updated_at := now\<rparr>))"

definition secret_wf :: "secret \<Rightarrow> bool" where
  "secret_wf s \<longleftrightarrow> sec_suite_id s \<noteq> '''' \<and> secret_key_pattern (sec_key s) \<and> encrypted_value s \<noteq> ''''"

lemma key_char_start: "key_start c \<Longrightarrow> key_char c"
  by (auto simp: key_start_def key_char_def Let_def)

lemma key_char_graphic: "key_char c \<Longrightarrow> graphic c"
  by (auto simp: key_char_def graphic_def Let_def)

lemma secret_key_pattern_chars: "secret_key_pattern s \<Longrightarrow> s \<noteq> '''' \<and> list_all key_char s"
  by (auto simp: secret_key_pattern_def key_char_start split: list.splits)

lemma secret_key_trimmed: "secret_key_pattern s \<Longrightarrow> trim_space s = s"
  using secret_key_pattern_chars [of s]
  by (intro trim_space_graphic) (auto simp: list_all_iff key_char_graphic)

lemma validate_secret_key_result:
  "validate_secret_key k =
     (if secret_key_pattern (trim_space k) then Inr () else Inl ErrInvalidSecretKey)"
  by (simp add: validate_secret_key_def) (simp add: secret_key_pattern_def)

lemma new_secret_with_id_result:
  "new_secret_with_id i suite key enc c u =
     (if trim_space suite = '''' then Inl ErrValidation
      else if \<not> secret_key_pattern (trim_space key) then Inl ErrInvalidSecretKey
      else if enc = '''' then Inl ErrValidation
      else Inr \<lparr>sec_id = i, sec_suite_id = trim_space suite, sec_key = trim_space key,
             encrypted_value = enc, sec_created_at = c, sec_updated_at = u\<rparr>)"
  by (simp add: new_secret_with_id_def validate_secret_key_result Let_def)

lemma new_secret_wf: "new_secret u t suite key enc = Inr s \<Longrightarrow> secret_wf s"
  by (auto simp: new_secret_def new_secret_with_id_result secret_wf_def split: if_splits)

lemma secret_update_value_wf: "secret_update_value t e s = Inr s' \<Longrightarrow> secret_wf s \<Longrightarrow> secret_wf s'"
  by (auto simp: secret_update_value_def secret_wf_def split: if_splits)

end
