(* ===== verification/Templates.thy ===== *)
theory Templates
  imports Configs_Secrets "HOL-Library.List_Lexorder" "HOL-Library.Char_ord"
begin

text \<open>
  \<^verbatim>\<open>internal/domain/service/template_resolver.go\<close>: the placeholders \<open>${secrets.KEY}\<close> of a configuration.
  The scan of the regular expression \<open>\$\{secrets\.([A-Z][A-Z0-9_]*)\}\<close> over a text (leftmost,
  non-overlapping) is the function \<open>segments\<close>, which cuts the text into placeholders and other bytes.
  The closing brace is not a key byte, so the greedy repetition has one way to match.
\<close>

section \<open>The scanner\<close>

definition opener :: string where "opener = ''${secrets.''"

definition placeholder :: "string \<Rightarrow> string" where
  "placeholder k = opener @ k @ ''}''"

definition match_placeholder :: "string \<Rightarrow> (string \<times> string) option" where
  "match_placeholder s =
     (if prefix opener s then
        (let r = drop (length opener) s; k = takeWhile key_char r
         in case dropWhile key_char r of
              c # rest \<Rightarrow> if c = CHR ''}'' \<and> secret_key_pattern k then Some (k, rest) else None
            | [] \<Rightarrow> None)
      else None)"

lemma match_placeholder_Some:
  assumes "match_placeholder s = Some (k, rest)"
  shows "s = placeholder k @ rest" and "secret_key_pattern k"
proof -
  from assms have p: "prefix opener s"
    by (auto simp: match_placeholder_def split: if_splits)
  then have s: "s = opener @ drop (length opener) s" by (auto simp: prefix_def)
  have "takeWhile key_char (drop (length opener) s) = k"
    and "dropWhile key_char (drop (length opener) s) = CHR ''}'' # rest"
    and k: "secret_key_pattern k"
    using assms p by (auto simp: match_placeholder_def Let_def split: list.splits if_splits)
  with takeWhile_dropWhile_id [of key_char "drop (length opener) s"]
  have "drop (length opener) s = k @ CHR ''}'' # rest" by simp
  with s show "s = placeholder k @ rest" by (simp add: placeholder_def)
  show "secret_key_pattern k" by (rule k)
qed

lemma match_placeholder_complete:
  assumes "secret_key_pattern k"
  shows "match_placeholder (placeholder k @ rest) = Some (k, rest)"
proof -
  have k: "\<forall>c \<in> set k. key_char c"
    using secret_key_pattern_chars [OF assms] by (simp add: list_all_iff)
  have brace: "\<not> key_char (CHR ''}'')" by (simp add: key_char_def)
  have "takeWhile key_char (k @ CHR ''}'' # rest) = k"
    and "dropWhile key_char (k @ CHR ''}'' # rest) = CHR ''}'' # rest"
    using k brace by (simp_all add: takeWhile_append dropWhile_append)
  with assms show ?thesis
    by (simp add: match_placeholder_def placeholder_def Let_def)
qed

datatype segment = Literal char | Placeholder string

function segments :: "string \<Rightarrow> segment list" where
  "segments s =
     (case match_placeholder s of
        Some (k, rest) \<Rightarrow> Placeholder k # segments rest
      | None \<Rightarrow> (case s of [] \<Rightarrow> [] | c # cs \<Rightarrow> Literal c # segments cs))"
  by pat_completeness auto
termination
  by (relation "measure length") (auto dest: match_placeholder_Some simp: placeholder_def)

declare segments.simps [simp del]

fun render :: "(string \<Rightarrow> string) \<Rightarrow> segment list \<Rightarrow> string" where
  "render f [] = ''''"
| "render f (Literal c # xs) = c # render f xs"
| "render f (Placeholder k # xs) = f k @ render f xs"

definition placeholder_keys :: "string \<Rightarrow> string list" where
  "placeholder_keys s =
     concat (map (\<lambda>x. case x of Placeholder k \<Rightarrow> [k] | Literal _ \<Rightarrow> []) (segments s))"

section \<open>The three operations\<close>

fun first_occurrences :: "string list \<Rightarrow> string list \<Rightarrow> string list" where
  "first_occurrences seen [] = []"
| "first_occurrences seen (k # ks) =
     (if k \<in> set seen then first_occurrences seen ks else k # first_occurrences (k # seen) ks)"

definition extract_placeholder_keys :: "string \<Rightarrow> string list" where
  "extract_placeholder_keys content = sort (first_occurrences [] (placeholder_keys content))"

definition resolve_template_placeholders :: "string \<Rightarrow> (string \<rightharpoonup> string) \<Rightarrow> string" where
  "resolve_template_placeholders content secrets =
     render (\<lambda>k. case secrets k of Some v \<Rightarrow> v | None \<Rightarrow> placeholder k) (segments content)"

definition validate_placeholders :: "string \<Rightarrow> (string \<Rightarrow> bool) \<Rightarrow> string list \<times> unit result" where
  "validate_placeholders content available =
     (let missing = filter (\<lambda>k. \<not> available k) (extract_placeholder_keys content)
      in if missing \<noteq> [] then (missing, Inl ErrMissingSecret) else ([], Inr ()))"

section \<open>Which placeholders the scan finds\<close>

lemma segments_match:
  "match_placeholder s = Some (k, rest) \<Longrightarrow> segments s = Placeholder k # segments rest"
  by (subst segments.simps) simp

lemma segments_literal:
  "match_placeholder (c # cs) = None \<Longrightarrow> segments (c # cs) = Literal c # segments cs"
  by (subst segments.simps) simp

lemma segments_Nil: "segments [] = []"
  by (subst segments.simps) (simp add: match_placeholder_def opener_def)

lemma render_segments: "render placeholder (segments s) = s"
proof (induction s rule: segments.induct)
  case (1 s)
  show ?case
  proof (cases "match_placeholder s")
    case (Some kr)
    obtain k rest where kr: "kr = (k, rest)" by (cases kr)
    have "render placeholder (segments rest) = rest" using "1.IH"(2) [OF Some kr [symmetric]] by simp
    with Some kr show ?thesis
      using match_placeholder_Some(1) [of s k rest] by (simp add: segments_match)
  next
    case None
    then show ?thesis
      using "1.IH"(1) by (cases s) (simp_all add: segments_Nil segments_literal)
  qed
qed

lemma placeholder_dollar:
  assumes "secret_key_pattern k" and "i < length (placeholder k)" and "placeholder k ! i = CHR ''$''"
  shows "i = 0"
proof (rule ccontr)
  assume "i \<noteq> 0"
  have "\<forall>c \<in> set k. c \<noteq> CHR ''$''"
    using secret_key_pattern_chars [OF assms(1)] by (auto simp: list_all_iff key_char_def)
  then have "CHR ''$'' \<notin> set (tl (placeholder k))"
    by (auto simp: placeholder_def opener_def)
  moreover have "tl (placeholder k) ! (i - 1) = CHR ''$''" and "i - 1 < length (tl (placeholder k))"
    using assms(2,3) \<open>i \<noteq> 0\<close> by (simp_all add: nth_tl)
  ultimately show False by (metis nth_mem)
qed

lemma segments_complete:
  assumes "secret_key_pattern k" and "s = a @ placeholder k @ b"
  shows "Placeholder k \<in> set (segments s)"
  using assms
proof (induction s arbitrary: a rule: segments.induct)
  case (1 s)
  show ?case
  proof (cases "match_placeholder s")
    case (Some kr)
    obtain j rest where kr: "kr = (j, rest)" by (cases kr)
    note m = match_placeholder_Some [OF Some [unfolded kr]]
    show ?thesis
    proof (cases "a = []")
      case True
      with 1 match_placeholder_complete [of k b] show ?thesis by (simp add: segments_match)
    next
      case False
      have "length (placeholder j) \<le> length a"
      proof (rule ccontr)
        assume "\<not> length (placeholder j) \<le> length a"
        then have l: "length a < length (placeholder j)" by simp
        have "s ! length a = CHR ''$''"
          using "1.prems"(2) by (simp add: placeholder_def opener_def)
        moreover have "s ! length a = placeholder j ! length a"
          using m(1) l by (simp add: nth_append)
        ultimately have "length a = 0" using placeholder_dollar [OF m(2) l] by simp
        with False show False by simp
      qed
      with m(1) "1.prems"(2) obtain a' where "rest = a' @ placeholder k @ b"
        by (metis append_eq_append_conv_if append_eq_conv_conj append_assoc)
      from "1.IH"(2) [OF Some kr [symmetric] "1.prems"(1) this] Some kr show ?thesis
        by (simp add: segments_match)
    qed
  next
    case None
    with 1 match_placeholder_complete [of k b] obtain c a' where a: "a = c # a'"
      by (cases a) auto
    with "1.prems"(2) have s: "s = c # (a' @ placeholder k @ b)" by simp
    from "1.IH"(1) [OF None s "1.prems"(1) refl] None s show ?thesis
      by (simp add: segments_literal)
  qed
qed

lemma segments_sound:
  "Placeholder k \<in> set (segments s) \<Longrightarrow> secret_key_pattern k \<and> (\<exists>a b. s = a @ placeholder k @ b)"
proof (induction s rule: segments.induct)
  case (1 s)
  show ?case
  proof (cases "match_placeholder s")
    case (Some kr)
    obtain j rest where kr: "kr = (j, rest)" by (cases kr)
    note m = match_placeholder_Some [OF Some [unfolded kr]]
    from "1.prems" Some kr consider "k = j" | "Placeholder k \<in> set (segments rest)"
      by (auto simp: segments_match)
    then show ?thesis
    proof cases
      case 1
      with m show ?thesis by (metis append_Nil)
    next
      case 2
      from "1.IH"(2) [OF Some kr [symmetric] 2] m(1) show ?thesis by (metis append_assoc)
    qed
  next
    case None
    with "1.prems" obtain c cs where s: "s = c # cs" by (cases s) (auto simp: segments_Nil)
    with "1.prems" None have "Placeholder k \<in> set (segments cs)" by (simp add: segments_literal)
    from "1.IH"(1) [OF None s this] s show ?thesis by (metis append_Cons)
  qed
qed

lemma set_placeholder_keys:
  "set (placeholder_keys s) = {k. secret_key_pattern k \<and> (\<exists>a b. s = a @ placeholder k @ b)}"
proof -
  have "set (placeholder_keys s) = {k. Placeholder k \<in> set (segments s)}"
    by (force simp: placeholder_keys_def split: segment.splits)
  then show ?thesis using segments_sound segments_complete by blast
qed

lemma first_occurrences_set: "set (first_occurrences seen ks) = set ks - set seen"
  by (induction ks arbitrary: seen) auto

lemma first_occurrences_distinct: "distinct (first_occurrences seen ks)"
  by (induction ks arbitrary: seen) (auto simp: first_occurrences_set)


section \<open>Correctness\<close>

definition references :: "string \<Rightarrow> string \<Rightarrow> bool" where
  "references content k \<longleftrightarrow> secret_key_pattern k \<and> sublist (placeholder k) content"

lemma set_extract: "set (extract_placeholder_keys s) = {k. references s k}"
  by (auto simp: extract_placeholder_keys_def first_occurrences_set set_placeholder_keys
      references_def sublist_def)

text \<open>
  the keys extracted from a configuration are, in ascending order and without repetition, exactly
  the well-formed secret keys \<open>k\<close> whose placeholder \<open>${secrets.k}\<close> occurs anywhere in the text.
\<close>

theorem extract_placeholder_keys_spec:
  "sorted (extract_placeholder_keys s) \<and> distinct (extract_placeholder_keys s) \<and>
   set (extract_placeholder_keys s) = {k. secret_key_pattern k \<and> sublist (placeholder k) s}"
  using set_extract [of s]
  by (simp add: extract_placeholder_keys_def first_occurrences_distinct references_def)

text \<open>
  validation succeeds exactly when every referenced key is available; otherwise the missing keys
  it names are, in order, exactly the referenced keys that are not available.
\<close>

theorem validate_placeholders_spec:
  "(validate_placeholders s avail = ([], Inr ()) \<longleftrightarrow> (\<forall>k. references s k \<longrightarrow> avail k)) \<and>
   (\<forall>missing e. validate_placeholders s avail = (missing, Inl e) \<longrightarrow>
      e = ErrMissingSecret \<and> sorted missing \<and> distinct missing \<and>
      set missing = {k. references s k \<and> \<not> avail k})"
proof (intro conjI allI impI)
  show "validate_placeholders s avail = ([], Inr ()) \<longleftrightarrow> (\<forall>k. references s k \<longrightarrow> avail k)"
    using set_extract [of s] by (auto simp: validate_placeholders_def Let_def filter_empty_conv)
next
  fix missing e assume "validate_placeholders s avail = (missing, Inl e)"
  then have "e = ErrMissingSecret \<and> missing = filter (\<lambda>k. \<not> avail k) (extract_placeholder_keys s)"
    by (auto simp: validate_placeholders_def Let_def split: if_splits)
  then show "e = ErrMissingSecret" "sorted missing" "distinct missing"
      "set missing = {k. references s k \<and> \<not> avail k}"
    by (auto simp: set_extract extract_placeholder_keys_def first_occurrences_distinct
        intro!: sorted_filter [where f = "\<lambda>x. x", simplified]) (use set_extract in
        \<open>auto simp: extract_placeholder_keys_def\<close>)
qed

lemma segments_plain:
  "CHR ''$'' \<notin> set t \<Longrightarrow> segments (t @ s) = map Literal t @ segments s"
proof (induction t)
  case (Cons c t)
  then have "match_placeholder (c # (t @ s)) = None"
    by (auto simp: match_placeholder_def opener_def)
  with Cons show ?case by (simp add: segments_literal)
qed simp

lemma render_append: "render f (xs @ ys) = render f xs @ render f ys"
  by (induction f xs rule: render.induct) simp_all

lemma render_Literal: "render f (map Literal t) = t"
  by (induction t) simp_all

text \<open>
  resolving a template copies text that has no dollar sign, puts in the place of each placeholder
  the value of its key, or leaves the placeholder as it is when the key is unknown, and goes on after
  it: an inserted value is never scanned again.  With no secrets the text is unchanged.
\<close>

theorem resolve_template_placeholders_spec:
  "resolve_template_placeholders s Map.empty = s \<and>
   (CHR ''$'' \<notin> set t \<longrightarrow>
      resolve_template_placeholders (t @ s) m = t @ resolve_template_placeholders s m) \<and>
   (secret_key_pattern k \<longrightarrow>
      resolve_template_placeholders (placeholder k @ s) m =
        (case m k of Some v \<Rightarrow> v | None \<Rightarrow> placeholder k) @ resolve_template_placeholders s m)"
  by (simp add: resolve_template_placeholders_def render_segments segments_plain render_append
      render_Literal match_placeholder_complete segments_match)

lemma sample_key: "secret_key_pattern ''TOKEN_1''"
  by (simp add: secret_key_pattern_def key_start_def key_char_def)

theorem resolve_template_placeholders_spec_witness:
  "resolve_template_placeholders (placeholder ''TOKEN_1'' @ '' ok'') [''TOKEN_1'' \<mapsto> ''x''] = ''x ok''"
proof -
  have "resolve_template_placeholders ('' ok'' @ '''') [''TOKEN_1'' \<mapsto> ''x''] =
      '' ok'' @ resolve_template_placeholders '''' [''TOKEN_1'' \<mapsto> ''x'']"
    using resolve_template_placeholders_spec [of "''''" "'' ok''" "[''TOKEN_1'' \<mapsto> ''x'']"] by simp
  moreover have "resolve_template_placeholders '''' [''TOKEN_1'' \<mapsto> ''x''] = ''''"
    by (simp add: resolve_template_placeholders_def segments_Nil)
  ultimately show ?thesis
    using resolve_template_placeholders_spec [of "'' ok''" "''''" "[''TOKEN_1'' \<mapsto> ''x'']" "''TOKEN_1''"]
      sample_key by simp
qed

theorem validate_placeholders_spec_witness:
  "references (''key: '' @ placeholder ''TOKEN_1'') ''TOKEN_1'' \<and>
   snd (validate_placeholders (''key: '' @ placeholder ''TOKEN_1'') (\<lambda>k. False)) = Inl ErrMissingSecret"
proof -
  let ?s = "''key: '' @ placeholder ''TOKEN_1''"
  have r: "references ?s ''TOKEN_1''"
    by (simp add: references_def sample_key sublist_appendI suffix_imp_sublist suffixI)
  then have "validate_placeholders ?s (\<lambda>k. False) \<noteq> ([], Inr ())"
    using validate_placeholders_spec [of ?s "\<lambda>k. False"] by blast
  then have "snd (validate_placeholders ?s (\<lambda>k. False)) = Inl ErrMissingSecret"
    by (auto simp: validate_placeholders_def Let_def split: if_splits)
  with r show ?thesis by blast
qed

end
