(* ===== verification/Partitioner.thy ===== *)
theory Partitioner
  imports Go_Text
begin

text \<open>
  \<^verbatim>\<open>internal/domain/service/workload_partitioner.go\<close> and \<^verbatim>\<open>internal/domain/model/partition.go\<close>: the
  division of the virtual users and request rates of a configuration among \<open>N\<close> workers.
  A \<open>yaml.Node\<close> is its kind, its value, its remaining attributes (style, tag, anchor, comments,
  position) and its content.  The YAML decoder and encoder are third-party code and parameters of the
  model.  A node of the cloned tree has one parent, so assigning to the value of a node found below
  a mapping is an update along that path.
\<close>

section \<open>YAML trees\<close>

datatype ykind = DocumentNode | MappingNode | SequenceNode | ScalarNode | AliasNode

datatype ynode =
  YNode (y_kind: ykind) (y_value: string) (y_attributes: string) (y_content: "ynode list")

fun with_value :: "string \<Rightarrow> ynode \<Rightarrow> ynode" where
  "with_value v (YNode k _ a c) = YNode k v a c"

text \<open>
  \<open>cloneYAMLNode\<close> rebuilds the tree node by node; as a value it is the tree itself.
\<close>

fun clone_yaml_node :: "ynode \<Rightarrow> ynode" where
  "clone_yaml_node (YNode k v a c) = YNode k v a (map clone_yaml_node c)"

lemma clone_yaml_node_id [simp]: "clone_yaml_node n = n"
  by (induction n rule: clone_yaml_node.induct) (simp add: map_idI)

text \<open>The content of a mapping alternates keys and values; the first matching key wins.\<close>

fun find_pair :: "string \<Rightarrow> ynode list \<Rightarrow> ynode option" where
  "find_pair key (k # v # rest) = (if y_value k = key then Some v else find_pair key rest)"
| "find_pair key _ = None"

definition find_node_in_mapping :: "ynode \<Rightarrow> string \<Rightarrow> ynode option" where
  "find_node_in_mapping n key =
     (if y_kind n \<noteq> MappingNode then None else find_pair key (y_content n))"

fun find_node_by_key :: "ynode \<Rightarrow> string \<Rightarrow> ynode option" where
  "find_node_by_key (YNode k v a c) key =
     (if k = DocumentNode then
        (case filter (\<lambda>x. x \<noteq> None) (map (\<lambda>child. find_node_by_key child key) c) of
           [] \<Rightarrow> None | x # _ \<Rightarrow> x)
      else if k = MappingNode then find_node_in_mapping (YNode k v a c) key
      else None)"

text \<open>Applying a change to the node that \<open>find_node_in_mapping\<close> or \<open>find_node_by_key\<close> finds.\<close>

fun update_pair :: "string \<Rightarrow> (ynode \<Rightarrow> ynode) \<Rightarrow> ynode list \<Rightarrow> ynode list" where
  "update_pair key f (k # v # rest) =
     (if y_value k = key then k # f v # rest else k # v # update_pair key f rest)"
| "update_pair key f xs = xs"

fun update_in_mapping :: "string \<Rightarrow> (ynode \<Rightarrow> ynode) \<Rightarrow> ynode \<Rightarrow> ynode" where
  "update_in_mapping key f (YNode k v a c) =
     (if k \<noteq> MappingNode then YNode k v a c else YNode k v a (update_pair key f c))"

fun update_first :: "(ynode \<Rightarrow> ynode option) \<Rightarrow> ynode list \<Rightarrow> ynode list option" where
  "update_first g [] = None"
| "update_first g (x # xs) =
     (case g x of Some x' \<Rightarrow> Some (x' # xs) | None \<Rightarrow> map_option ((#) x) (update_first g xs))"

lemma update_first_cong [fundef_cong]:
  "xs = ys \<Longrightarrow> (\<And>x. x \<in> set ys \<Longrightarrow> g x = h x) \<Longrightarrow> update_first g xs = update_first h ys"
  by (induction xs arbitrary: ys) (auto split: option.split)

fun update_by_key :: "string \<Rightarrow> (ynode \<Rightarrow> ynode) \<Rightarrow> ynode \<Rightarrow> ynode option" where
  "update_by_key key f (YNode k v a c) =
     (if k = DocumentNode then map_option (YNode k v a) (update_first (update_by_key key f) c)
      else if k = MappingNode \<and> find_pair key c \<noteq> None then Some (YNode k v a (update_pair key f c))
      else None)"

section \<open>The share of one worker\<close>

definition partition_value :: "int \<Rightarrow> int \<Rightarrow> int \<Rightarrow> int" where
  "partition_value n idx cnt =
     (if n \<le> 0 \<or> cnt \<le> 0 then 0
      else let base = go_div n cnt; rem = go_mod n cnt
           in if idx < rem then base + 1 else base)"

lemma partition_value_pos:
  "0 < n \<Longrightarrow> 0 < cnt \<Longrightarrow>
     partition_value n idx cnt = n div cnt + (if idx < n mod cnt then 1 else 0)"
  by (simp add: partition_value_def Let_def go_div_nonneg go_mod_nonneg)

lemma sum_threshold: "m \<le> n \<Longrightarrow> (\<Sum>i<n. if i < m then 1 else (0::int)) = int m"
proof -
  assume "m \<le> n"
  then have "{i. i < n \<and> i < m} = {..<m}" by auto
  then have "(\<Sum>i<n. if i < m then 1 else (0::int)) = int (card {..<m})"
    by (simp add: sum.If_cases Int_def Collect_conj_eq [symmetric] lessThan_def)
  then show ?thesis by simp
qed

lemma partition_value_sum:
  assumes "0 < cnt"
  shows "(\<Sum>i<cnt. partition_value n (int i) (int cnt)) = max 0 n"
proof (cases "0 < n")
  case True
  let ?m = "nat (n mod int cnt)"
  have "?m \<le> cnt" using assms by (simp add: nat_le_iff less_imp_le)
  have "(\<Sum>i<cnt. partition_value n (int i) (int cnt)) =
      (\<Sum>i<cnt. n div int cnt + (if i < ?m then 1 else 0))"
    using assms True by (intro sum.cong) (auto simp: partition_value_pos zless_nat_eq_int_zless)
  also have "\<dots> = int cnt * (n div int cnt) + int ?m"
    using \<open>?m \<le> cnt\<close> by (simp add: sum.distrib sum_threshold)
  also have "\<dots> = n" using assms by simp
  finally show ?thesis using True by simp
next
  case False
  then show ?thesis by (simp add: partition_value_def)
qed

text \<open>
  the shares of the \<open>N\<close> workers add up to the configured total (a non-positive total counts as
  zero), every share is non-negative, a worker with a smaller index never gets less than one with a
  larger, and no two shares differ by more than one.
\<close>

theorem partition_value_fair:
  assumes "0 < cnt" and "i \<le> j"
  shows "(\<Sum>k<cnt. partition_value n (int k) (int cnt)) = max 0 n \<and>
    0 \<le> partition_value n j (int cnt) \<and>
    partition_value n j (int cnt) \<le> partition_value n i (int cnt) \<and>
    partition_value n i (int cnt) \<le> partition_value n j (int cnt) + 1"
proof (cases "0 < n")
  case True
  then have "0 \<le> n div int cnt" using assms(1) by (simp add: pos_imp_zdiv_nonneg_iff)
  with True assms have "0 \<le> partition_value n j (int cnt) \<and>
      partition_value n j (int cnt) \<le> partition_value n i (int cnt) \<and>
      partition_value n i (int cnt) \<le> partition_value n j (int cnt) + 1"
    by (simp add: partition_value_pos)
  with partition_value_sum [OF assms(1)] show ?thesis by blast
next
  case False
  with assms(1) show ?thesis by (simp add: partition_value_sum) (simp add: partition_value_def)
qed

theorem partition_value_fair_witness:
  "(\<Sum>k<3. partition_value 10 (int k) 3) = 10 \<and> partition_value 10 2 3 = 3 \<and>
   partition_value 10 0 3 \<le> partition_value 10 2 3 + 1"
  using partition_value_fair [of 3 0 2 10] by (simp add: partition_value_pos)

section \<open>The partition of one worker\<close>

record scenario_partition =
  sp_type :: string
  sp_vus :: int
  sp_target_tps :: int
  sp_max_vus :: int
  sp_burst_buffer :: int
  sp_stage_targets :: "int list"

record workload_partition =
  wp_index :: int
  wp_count :: int
  wp_config_yaml :: string
  wp_env :: "string \<rightharpoonup> string"
  wp_scenarios :: "string \<rightharpoonup> scenario_partition"

definition new_workload_partition ::
  "int \<Rightarrow> int \<Rightarrow> string \<Rightarrow> (string \<rightharpoonup> string) \<Rightarrow> (string \<rightharpoonup> scenario_partition)
    \<Rightarrow> workload_partition result" where
  "new_workload_partition idx cnt yaml env scs =
     (if cnt < 1 then Inl ErrInvalidWorkerCount
      else if idx < 0 \<or> idx \<ge> cnt then Inl ErrInvalidWorkerIndex
      else Inr \<lparr>wp_index = idx, wp_count = cnt, wp_config_yaml = yaml, wp_env = env,
             wp_scenarios = scs\<rparr>)"

definition normalize_env_name :: "string \<Rightarrow> string" where
  "normalize_env_name name =
     to_upper (replace_char (CHR ''.'') (CHR ''_'')
       (replace_char (CHR '' '') (CHR ''_'') (replace_char (CHR ''-'') (CHR ''_'') name)))"

definition env_name :: "string \<Rightarrow> string \<Rightarrow> string" where
  "env_name norm field = ''VUHIVE_SCENARIOS_'' @ norm @ field"

text \<open>The share of a scalar node, and the node rewritten with it.\<close>

definition share :: "int \<Rightarrow> int \<Rightarrow> ynode \<Rightarrow> int" where
  "share idx cnt n = partition_value (fst (atoi (y_value n))) idx cnt"

definition rewrite_share :: "int \<Rightarrow> int \<Rightarrow> ynode \<Rightarrow> ynode" where
  "rewrite_share idx cnt n = with_value (itoa (share idx cnt n)) n"

text \<open>
  One scenario: the summary, the overrides in the order they are written, and the rewritten body.
\<close>

definition empty_scenario :: "string \<Rightarrow> scenario_partition" where
  "empty_scenario ty = \<lparr>sp_type = ty, sp_vus = 0, sp_target_tps = 0, sp_max_vus = 0,
     sp_burst_buffer = 0, sp_stage_targets = []\<rparr>"

type_synonym scenario_state = "scenario_partition \<times> (string \<times> string) list \<times> ynode"

definition split_field ::
  "string \<Rightarrow> string \<Rightarrow> (int \<Rightarrow> scenario_partition \<Rightarrow> scenario_partition) \<Rightarrow> bool \<Rightarrow> int \<Rightarrow> int \<Rightarrow> string
    \<Rightarrow> scenario_state \<Rightarrow> scenario_state" where
  "split_field key envsuffix put only_positive idx cnt norm st =
     (case st of (sp, env, body) \<Rightarrow>
        (case find_node_in_mapping body key of
           None \<Rightarrow> st
         | Some n \<Rightarrow>
             if only_positive \<and> fst (atoi (y_value n)) \<le> 0 then st
             else (put (share idx cnt n) sp,
                   env @ [(env_name norm envsuffix, itoa (share idx cnt n))],
                   update_in_mapping key (rewrite_share idx cnt) body)))"

definition stage_target :: "int \<Rightarrow> int \<Rightarrow> ynode \<Rightarrow> int" where
  "stage_target idx cnt stage =
     (case find_node_in_mapping stage ''target'' of None \<Rightarrow> 0 | Some n \<Rightarrow> share idx cnt n)"

fun rewrite_stages :: "int \<Rightarrow> int \<Rightarrow> ynode \<Rightarrow> ynode" where
  "rewrite_stages idx cnt (YNode k v a c) =
     YNode k v a (map (update_in_mapping ''target'' (rewrite_share idx cnt)) c)"

definition split_stages :: "int \<Rightarrow> int \<Rightarrow> scenario_state \<Rightarrow> scenario_state" where
  "split_stages idx cnt st =
     (case st of (sp, env, body) \<Rightarrow>
        (case find_node_in_mapping body ''stages'' of
           None \<Rightarrow> st
         | Some n \<Rightarrow>
             if y_kind n \<noteq> SequenceNode then st
             else (sp\<lparr>sp_stage_targets := map (stage_target idx cnt) (y_content n)\<rparr>, env,
                   update_in_mapping ''stages'' (rewrite_stages idx cnt) body)))"

definition scenario_type :: "ynode \<Rightarrow> string" where
  "scenario_type body =
     (case find_node_in_mapping body ''type'' of
        None \<Rightarrow> ''constant_vus'' | Some t \<Rightarrow> trim_space (y_value t))"

definition split_scenario :: "int \<Rightarrow> int \<Rightarrow> string \<Rightarrow> ynode \<Rightarrow> scenario_state" where
  "split_scenario idx cnt name body =
     (let ty = scenario_type body; norm = normalize_env_name name;
          st = (empty_scenario ty, [], body)
      in if ty = ''constant_vus'' then
           split_field ''vus'' ''_VUS'' (\<lambda>x sp. sp\<lparr>sp_vus := x\<rparr>) False idx cnt norm st
         else if ty = ''arrival_rate'' then
           split_field ''burst_buffer'' ''_BURST_BUFFER'' (\<lambda>x sp. sp\<lparr>sp_burst_buffer := x\<rparr>) True idx cnt norm
             (split_field ''max_vus'' ''_MAX_VUS'' (\<lambda>x sp. sp\<lparr>sp_max_vus := x\<rparr>) False idx cnt norm
               (split_field ''target_tps'' ''_TARGET_TPS'' (\<lambda>x sp. sp\<lparr>sp_target_tps := x\<rparr>) False
                 idx cnt norm st))
         else if ty = ''ramping_vus'' then split_stages idx cnt st
         else st)"

fun split_scenarios ::
  "int \<Rightarrow> int \<Rightarrow> (string \<rightharpoonup> scenario_partition) \<Rightarrow> (string \<rightharpoonup> string) \<Rightarrow> ynode list
    \<Rightarrow> (string \<rightharpoonup> scenario_partition) \<times> (string \<rightharpoonup> string) \<times> ynode list" where
  "split_scenarios idx cnt scs env (k # body # rest) =
     (if y_kind body \<noteq> MappingNode then
        (let (scs', env', rest') = split_scenarios idx cnt scs env rest in (scs', env', k # body # rest'))
      else
        (let (sp, ov, body') = split_scenario idx cnt (y_value k) body;
             (scs', env', rest') =
               split_scenarios idx cnt (scs(y_value k \<mapsto> sp)) (env ++ map_of (rev ov)) rest
         in (scs', env', k # body' # rest')))"
| "split_scenarios idx cnt scs env xs = (scs, env, xs)"

definition base_env :: "int \<Rightarrow> int \<Rightarrow> string \<rightharpoonup> string" where
  "base_env idx cnt =
     [''VUHIVE_WORKER_INDEX'' \<mapsto> itoa idx, ''VUHIVE_WORKER_COUNT'' \<mapsto> itoa cnt,
      ''VUHIVE_POD_INDEX'' \<mapsto> itoa idx, ''VUHIVE_POD_COUNT'' \<mapsto> itoa cnt]"

fun set_content :: "ynode list \<Rightarrow> ynode \<Rightarrow> ynode" where
  "set_content c' (YNode k v a c) = YNode k v a c'"

definition split_settings :: "int \<Rightarrow> int \<Rightarrow> ynode \<Rightarrow> ynode" where
  "split_settings idx cnt root =
     (case find_node_by_key root ''settings'' of
        None \<Rightarrow> root
      | Some s \<Rightarrow>
          if y_kind s \<noteq> MappingNode then root
          else (case update_by_key ''settings'' (update_in_mapping ''concurrency'' (rewrite_share idx cnt))
                       root of
                  None \<Rightarrow> root | Some root' \<Rightarrow> root'))"

definition partition_for_index ::
  "(ynode \<Rightarrow> string option) \<Rightarrow> ynode \<Rightarrow> int \<Rightarrow> int \<Rightarrow> workload_partition result" where
  "partition_for_index encode root idx cnt =
     (let root = clone_yaml_node root
      in case find_node_by_key root ''scenarios'' of
           None \<Rightarrow> Inl ErrNoScenariosDefined
         | Some scn \<Rightarrow>
             if y_kind scn \<noteq> MappingNode then Inl ErrNoScenariosDefined
             else
               (let (scs, env, c') = split_scenarios idx cnt Map.empty (base_env idx cnt) (y_content scn);
                    root1 = (case update_by_key ''scenarios'' (set_content c') root of
                               None \<Rightarrow> root | Some r \<Rightarrow> r);
                    root2 = split_settings idx cnt root1
                in case encode root2 of
                     None \<Rightarrow> Inl ErrValidation
                   | Some yaml \<Rightarrow> new_workload_partition idx cnt yaml env scs))"

definition usable_scenarios :: "ynode \<Rightarrow> bool" where
  "usable_scenarios root =
     (case find_node_by_key root ''scenarios'' of
        None \<Rightarrow> False | Some n \<Rightarrow> y_kind n = MappingNode \<and> y_content n \<noteq> [])"

definition partition_workload ::
  "(string \<Rightarrow> ynode option) \<Rightarrow> (ynode \<Rightarrow> string option) \<Rightarrow> string \<Rightarrow> int
    \<Rightarrow> workload_partition list result" where
  "partition_workload decode encode raw cnt =
     (if trim_space raw = '''' then Inl ErrValidation
      else if cnt < 1 then Inl ErrInvalidWorkerCount
      else case decode (trim_space raw) of
             None \<Rightarrow> Inl ErrValidation
           | Some root \<Rightarrow>
               if \<not> usable_scenarios root then Inl ErrNoScenariosDefined
               else collect_results (map (\<lambda>i. partition_for_index encode root (int i) cnt) [0..<nat cnt]))"

definition partition_for_worker ::
  "(string \<Rightarrow> ynode option) \<Rightarrow> (ynode \<Rightarrow> string option) \<Rightarrow> string \<Rightarrow> int \<Rightarrow> int
    \<Rightarrow> workload_partition result" where
  "partition_for_worker decode encode raw idx cnt =
     (if trim_space raw = '''' then Inl ErrValidation
      else if cnt < 1 then Inl ErrInvalidWorkerCount
      else if idx < 0 \<or> idx \<ge> cnt then Inl ErrInvalidWorkerIndex
      else case decode (trim_space raw) of
             None \<Rightarrow> Inl ErrValidation
           | Some root \<Rightarrow>
               if \<not> usable_scenarios root then Inl ErrNoScenariosDefined
               else partition_for_index encode root idx cnt)"


section \<open>Correctness\<close>

text \<open>
  Asking for the partition of one worker gives the entry of the full partition at that worker's
  index: the two entry points agree.
\<close>

theorem partition_for_worker_agrees:
  assumes "partition_workload decode encode raw cnt = Inr ps"
  shows "length ps = nat cnt \<and>
    (\<forall>i<nat cnt. partition_for_worker decode encode raw (int i) cnt = Inr (ps ! i))"
proof -
  from assms obtain root where ok: "trim_space raw \<noteq> ''''" "\<not> cnt < 1"
      "decode (trim_space raw) = Some root" "usable_scenarios root"
    and "collect_results (map (\<lambda>i. partition_for_index encode root (int i) cnt) [0..<nat cnt]) = Inr ps"
    by (auto simp: partition_workload_def split: if_splits option.splits)
  then have m: "map (\<lambda>i. partition_for_index encode root (int i) cnt) [0..<nat cnt] = map Inr ps"
    by (simp add: collect_results_Inr)
  then have len: "length ps = nat cnt" by (metis length_map length_upt minus_nat.diff_0)
  have "partition_for_worker decode encode raw (int i) cnt = Inr (ps ! i)" if "i < nat cnt" for i
  proof -
    have "partition_for_index encode root (int i) cnt = Inr (ps ! i)"
      using arg_cong [OF m, of "\<lambda>xs. xs ! i"] that len by simp
    with ok that show ?thesis by (simp add: partition_for_worker_def)
  qed
  with len show ?thesis by blast
qed

lemma find_pair_update:
  "find_pair j (update_pair k f c) = (if j = k then map_option f (find_pair j c) else find_pair j c)"
  by (induction k f c rule: update_pair.induct) auto

lemma find_node_update:
  "find_node_in_mapping (update_in_mapping k f b) j =
     (if j = k then map_option f (find_node_in_mapping b j) else find_node_in_mapping b j)"
  by (cases b) (simp add: find_node_in_mapping_def find_pair_update)

text \<open>The body that the summary of a scenario name describes: its last mapping entry.\<close>

fun last_body :: "string \<Rightarrow> ynode list \<Rightarrow> ynode option" where
  "last_body name (k # body # rest) =
     (case last_body name rest of
        Some b \<Rightarrow> Some b
      | None \<Rightarrow> if y_kind body = MappingNode \<and> y_value k = name then Some body else None)"
| "last_body name _ = None"

lemma split_scenarios_lookup:
  "fst (split_scenarios idx cnt scs env c) name =
     (case last_body name c of None \<Rightarrow> scs name | Some b \<Rightarrow> Some (fst (split_scenario idx cnt name b)))"
proof (induction idx cnt scs env c rule: split_scenarios.induct)
  case (1 idx cnt scs env k body rest)
  show ?case
  proof (cases "y_kind body = MappingNode")
    case True
    obtain sp ov body' where s: "split_scenario idx cnt (y_value k) body = (sp, ov, body')"
      by (cases "split_scenario idx cnt (y_value k) body")
    have e: "fst (split_scenarios idx cnt scs env (k # body # rest)) =
        fst (split_scenarios idx cnt (scs(y_value k \<mapsto> sp)) (env ++ map_of (rev ov)) rest)"
      using True s by (simp split: prod.split)
    have "fst (split_scenarios idx cnt (scs(y_value k \<mapsto> sp)) (env ++ map_of (rev ov)) rest) name =
        (case last_body name rest of None \<Rightarrow> (scs(y_value k \<mapsto> sp)) name
         | Some b \<Rightarrow> Some (fst (split_scenario idx cnt name b)))"
      using "1.IH"(2) [OF _ s [symmetric] refl] True by (simp add: fun_upd_def)
    with e True s show ?thesis by (auto split: option.split)
  next
    case False
    then have "fst (split_scenarios idx cnt scs env (k # body # rest)) =
        fst (split_scenarios idx cnt scs env rest)"
      by (simp split: prod.split)
    with "1.IH"(1) False show ?thesis by (simp split: option.split)
  qed
qed simp_all

text \<open>What a configuration asks for in total: the non-negative value of a field of a scenario.\<close>

definition configured :: "string \<Rightarrow> string \<Rightarrow> ynode \<Rightarrow> int" where
  "configured ty key body =
     (if scenario_type body = ty then
        (case find_node_in_mapping body key of None \<Rightarrow> 0 | Some n \<Rightarrow> max 0 (fst (atoi (y_value n))))
      else 0)"

definition scenario_share :: "int \<Rightarrow> int \<Rightarrow> string \<Rightarrow> string \<Rightarrow> ynode \<Rightarrow> int" where
  "scenario_share idx cnt ty key body = partition_value (configured ty key body) idx cnt"

lemma partition_value_max: "partition_value (max 0 n) idx cnt = partition_value n idx cnt"
  by (simp add: partition_value_def)

lemma partition_value_nonpos [simp]: "n \<le> 0 \<Longrightarrow> partition_value n idx cnt = 0"
  by (simp add: partition_value_def)

lemma split_scenario_fields:
  "sp_vus (fst (split_scenario idx cnt name b)) = scenario_share idx cnt ''constant_vus'' ''vus'' b"
  "sp_target_tps (fst (split_scenario idx cnt name b)) =
     scenario_share idx cnt ''arrival_rate'' ''target_tps'' b"
  "sp_max_vus (fst (split_scenario idx cnt name b)) =
     scenario_share idx cnt ''arrival_rate'' ''max_vus'' b"
  "sp_burst_buffer (fst (split_scenario idx cnt name b)) =
     scenario_share idx cnt ''arrival_rate'' ''burst_buffer'' b"
  "sp_type (fst (split_scenario idx cnt name b)) = scenario_type b"
  by (auto simp: split_scenario_def split_field_def split_stages_def empty_scenario_def Let_def
      scenario_share_def configured_def share_def find_node_update partition_value_max
      split: option.split prod.split)


lemma scenario_share_sum:
  "0 < cnt \<Longrightarrow> (\<Sum>i<cnt. scenario_share (int i) (int cnt) ty key b) = configured ty key b"
  by (simp add: scenario_share_def partition_value_sum configured_def split: option.split)

lemma partition_workload_Inr:
  assumes "partition_workload decode encode raw cnt = Inr ps"
  obtains root scn where "decode (trim_space raw) = Some root"
    and "find_node_by_key root ''scenarios'' = Some scn" and "0 < cnt" and "length ps = nat cnt"
    and "\<And>i. i < nat cnt \<Longrightarrow> partition_for_index encode root (int i) cnt = Inr (ps ! i)"
proof -
  from assms obtain root where ok: "\<not> cnt < 1" "decode (trim_space raw) = Some root"
      "usable_scenarios root"
    and "collect_results (map (\<lambda>i. partition_for_index encode root (int i) cnt) [0..<nat cnt]) = Inr ps"
    by (auto simp: partition_workload_def split: if_splits option.splits)
  then have m: "map (\<lambda>i. partition_for_index encode root (int i) cnt) [0..<nat cnt] = map Inr ps"
    by (simp add: collect_results_Inr)
  then have len: "length ps = nat cnt" by (metis length_map length_upt minus_nat.diff_0)
  have "partition_for_index encode root (int i) cnt = Inr (ps ! i)" if "i < nat cnt" for i
    using arg_cong [OF m, of "\<lambda>xs. xs ! i"] that len by simp
  moreover obtain scn where "find_node_by_key root ''scenarios'' = Some scn"
    using ok(3) by (auto simp: usable_scenarios_def split: option.splits)
  ultimately show ?thesis using that ok len by simp
qed

lemma partition_for_index_scenarios:
  assumes "partition_for_index encode root idx cnt = Inr p"
    and "find_node_by_key root ''scenarios'' = Some scn" and "last_body name (y_content scn) = Some b"
  shows "wp_scenarios p name = Some (fst (split_scenario idx cnt name b))"
    and "wp_index p = idx" and "wp_count p = cnt"
proof -
  obtain scs env c' where s: "split_scenarios idx cnt Map.empty (base_env idx cnt) (y_content scn)
      = (scs, env, c')"
    by (cases "split_scenarios idx cnt Map.empty (base_env idx cnt) (y_content scn)")
  from assms(1,2) s obtain yaml where "new_workload_partition idx cnt yaml env scs = Inr p"
    by (auto simp: partition_for_index_def Let_def split: if_splits option.splits)
  then have "wp_scenarios p = scs" "wp_index p = idx" "wp_count p = cnt"
    by (auto simp: new_workload_partition_def split: if_splits)
  moreover have "scs name = Some (fst (split_scenario idx cnt name b))"
    using split_scenarios_lookup [of idx cnt Map.empty "base_env idx cnt" "y_content scn" name]
      s assms(3) by simp
  ultimately show "wp_scenarios p name = Some (fst (split_scenario idx cnt name b))"
    and "wp_index p = idx" and "wp_count p = cnt" by simp_all
qed

section \<open>What the produced configurations ask for\<close>

lemma y_value_with [simp]: "y_value (with_value v n) = v" "y_kind (with_value v n) = y_kind n"
  by (cases n; simp)+

lemma y_set_content [simp]: "y_content (set_content c n) = c" "y_kind (set_content c n) = y_kind n"
  by (cases n; simp)+

lemma y_kind_update [simp]:
  "y_kind (update_in_mapping k f n) = y_kind n" "y_kind (rewrite_stages idx cnt n) = y_kind n"
  by (cases n; simp)+

lemma y_content_stages [simp]:
  "y_content (rewrite_stages idx cnt n) = map (update_in_mapping ''target'' (rewrite_share idx cnt)) (y_content n)"
  by (cases n) simp

text \<open>The node that a key finds after an update, and when there is something to update.\<close>

definition first_hit :: "ynode option list \<Rightarrow> ynode option" where
  "first_hit xs = (case filter (\<lambda>x. x \<noteq> None) xs of [] \<Rightarrow> None | x # _ \<Rightarrow> x)"

lemma first_hit_simps [simp]:
  "first_hit [] = None" "first_hit (None # xs) = first_hit xs" "first_hit (Some x # xs) = Some x"
  by (simp_all add: first_hit_def)

lemma find_in_document:
  "find_node_by_key (YNode DocumentNode v a c) j = first_hit (map (\<lambda>child. find_node_by_key child j) c)"
  by (simp add: first_hit_def)

lemma find_in_other:
  "kd \<noteq> DocumentNode \<Longrightarrow>
     find_node_by_key (YNode kd v a c) j = (if kd = MappingNode then find_pair j c else None)"
  by (simp add: find_node_in_mapping_def)

lemma update_finds:
  "(update_by_key k f n = None \<longleftrightarrow> find_node_by_key n k = None) \<and>
   (\<forall>n' j. update_by_key k f n = Some n' \<longrightarrow>
     find_node_by_key n' j = (if j = k then map_option f (find_node_by_key n j) else find_node_by_key n j))"
proof (induction n)
  case (YNode kd v a c)
  have docs: "(update_first (update_by_key k f) cs = None \<longleftrightarrow>
        first_hit (map (\<lambda>child. find_node_by_key child k) cs) = None) \<and>
      (\<forall>c' j. update_first (update_by_key k f) cs = Some c' \<longrightarrow>
        first_hit (map (\<lambda>child. find_node_by_key child j) c') =
          (if j = k then map_option f (first_hit (map (\<lambda>child. find_node_by_key child j) cs))
           else first_hit (map (\<lambda>child. find_node_by_key child j) cs)))"
    if "set cs \<subseteq> set c" for cs
    using that
  proof (induction cs)
    case (Cons x xs)
    then have x: "(update_by_key k f x = None) = (find_node_by_key x k = None)"
      "\<And>x' j. update_by_key k f x = Some x' \<Longrightarrow>
         find_node_by_key x' j = (if j = k then map_option f (find_node_by_key x j) else find_node_by_key x j)"
      using YNode.IH [of x] by auto
    show ?case
    proof (cases "update_by_key k f x")
      case (Some x')
      have "first_hit (map (\<lambda>child. find_node_by_key child j) (x' # xs)) =
          (if j = k then map_option f (first_hit (map (\<lambda>child. find_node_by_key child j) (x # xs)))
           else first_hit (map (\<lambda>child. find_node_by_key child j) (x # xs)))" for j
        using x Some by (cases "find_node_by_key x j") auto
      then show ?thesis using Some x(1) by auto
    next
      case None
      then have "find_node_by_key x k = None" using x(1) by simp
      moreover have "first_hit (map (\<lambda>child. find_node_by_key child j) (x # c')) =
          (if j = k then map_option f (first_hit (map (\<lambda>child. find_node_by_key child j) (x # xs)))
           else first_hit (map (\<lambda>child. find_node_by_key child j) (x # xs)))"
        if "update_first (update_by_key k f) xs = Some c'" for c' j
        using Cons that calculation by (cases "find_node_by_key x j") auto
      ultimately show ?thesis using None Cons by auto
    qed
  qed simp
  show ?case
  proof (cases "kd = DocumentNode")
    case True
    then show ?thesis using docs [OF subset_refl] by (auto simp: find_in_document simp del: find_node_by_key.simps)
  next
    case False
    then show ?thesis by (auto simp: find_in_other find_pair_update simp del: find_node_by_key.simps)
  qed
qed

lemma find_by_key_update:
  "update_by_key k f n = Some n' \<Longrightarrow>
     find_node_by_key n' j = (if j = k then map_option f (find_node_by_key n j) else find_node_by_key n j)"
  "find_node_by_key n k = Some x \<Longrightarrow> \<exists>n'. update_by_key k f n = Some n'"
  using update_finds [of k f n] by (auto simp del: find_node_by_key.simps update_by_key.simps)

text \<open>
  The targets that the stages of a ramping scenario ask for, the configured concurrency, and the body of
  a scenario in a tree.
\<close>

definition target_of :: "ynode \<Rightarrow> int" where
  "target_of stage =
     (case find_node_in_mapping stage ''target'' of None \<Rightarrow> 0 | Some n \<Rightarrow> max 0 (fst (atoi (y_value n))))"

definition configured_targets :: "ynode \<Rightarrow> int list" where
  "configured_targets body =
     (if scenario_type body = ''ramping_vus'' then
        (case find_node_in_mapping body ''stages'' of
           None \<Rightarrow> []
         | Some n \<Rightarrow> if y_kind n = SequenceNode then map target_of (y_content n) else [])
      else [])"

definition configured_concurrency :: "ynode \<Rightarrow> int" where
  "configured_concurrency root =
     (case find_node_by_key root ''settings'' of
        None \<Rightarrow> 0
      | Some s \<Rightarrow> (case find_node_in_mapping s ''concurrency'' of
                    None \<Rightarrow> 0 | Some n \<Rightarrow> max 0 (fst (atoi (y_value n)))))"

definition scenario_body :: "ynode \<Rightarrow> string \<Rightarrow> ynode option" where
  "scenario_body root name =
     (case find_node_by_key root ''scenarios'' of None \<Rightarrow> None | Some s \<Rightarrow> last_body name (y_content s))"

lemma share_le:
  "cnt * k + m = z \<Longrightarrow> 0 \<le> m \<Longrightarrow> k \<le> cnt * k \<Longrightarrow> 0 \<le> idx \<Longrightarrow>
     k + (if idx < m then 1 else 0) \<le> (z::int)"
  by auto

lemma share_bounds:
  assumes "0 \<le> idx" and "idx < cnt"
  shows "0 \<le> share idx cnt n \<and> share idx cnt n \<le> max 0 (fst (atoi (y_value n)))"
proof (cases "0 < fst (atoi (y_value n))")
  case True
  let ?n = "fst (atoi (y_value n))"
  have mm: "cnt * (?n div cnt) + ?n mod cnt = ?n" by simp
  have q: "0 \<le> ?n div cnt" using True assms by (simp add: pos_imp_zdiv_nonneg_iff)
  then have "?n div cnt \<le> cnt * (?n div cnt)" using assms by (simp add: mult_le_cancel_right1)
  then have "?n div cnt + (if idx < ?n mod cnt then 1 else 0) \<le> ?n"
    by (intro share_le [OF mm]) (use assms in simp_all)
  with q True assms show ?thesis by (simp add: share_def partition_value_pos)
qed (simp add: share_def)

lemma share_reads_back:
  assumes "0 \<le> idx" and "idx < cnt"
  shows "fst (atoi (itoa (share idx cnt n))) = share idx cnt n"
proof -
  have "in_int64 (share idx cnt n)"
    using share_bounds [OF assms, of n] atoi_in_int64 [of "y_value n"]
    by (auto simp: in_int64_def max_def split: if_splits)
  then show ?thesis by (simp add: atoi_itoa)
qed

lemma share_nonpos [simp]: "fst (atoi (y_value n)) \<le> 0 \<Longrightarrow> share idx cnt n = 0"
  by (simp add: share_def)

lemma share_of_value:
  "share idx cnt n = partition_value (max 0 (fst (atoi (y_value n)))) idx cnt"
  by (simp add: share_def partition_value_max)

lemma rewritten_value:
  assumes "0 \<le> idx" and "idx < cnt"
  shows "max 0 (fst (atoi (y_value (rewrite_share idx cnt n)))) = share idx cnt n"
  using share_bounds [OF assms, of n] by (simp add: rewrite_share_def share_reads_back [OF assms])

text \<open>The body that is written asks for exactly what the summary says.\<close>

lemma split_scenario_body:
  assumes "0 \<le> idx" and "idx < cnt"
  shows "y_kind (snd (snd (split_scenario idx cnt name b))) = y_kind b \<and>
    scenario_type (snd (snd (split_scenario idx cnt name b))) = scenario_type b"
  by (simp add: split_scenario_def split_field_def split_stages_def Let_def scenario_type_def find_node_update
      split: option.split)

lemma split_scenario_asks:
  assumes "0 \<le> idx" and "idx < cnt"
  shows "configured ''constant_vus'' ''vus'' (snd (snd (split_scenario idx cnt name b))) =
      scenario_share idx cnt ''constant_vus'' ''vus'' b"
    "configured ''arrival_rate'' ''target_tps'' (snd (snd (split_scenario idx cnt name b))) =
      scenario_share idx cnt ''arrival_rate'' ''target_tps'' b"
    "configured ''arrival_rate'' ''max_vus'' (snd (snd (split_scenario idx cnt name b))) =
      scenario_share idx cnt ''arrival_rate'' ''max_vus'' b"
    "configured ''arrival_rate'' ''burst_buffer'' (snd (snd (split_scenario idx cnt name b))) =
      scenario_share idx cnt ''arrival_rate'' ''burst_buffer'' b"
  unfolding configured_def split_scenario_body [OF assms, THEN conjunct2]
  by (auto simp: split_scenario_def split_field_def split_stages_def Let_def scenario_share_def configured_def
      find_node_update rewritten_value [OF assms] share_of_value [symmetric] split: option.split)

lemma target_rewritten:
  assumes "0 \<le> idx" and "idx < cnt"
  shows "target_of (update_in_mapping ''target'' (rewrite_share idx cnt) s) = partition_value (target_of s) idx cnt"
    "stage_target idx cnt s = partition_value (target_of s) idx cnt"
  by (simp_all add: target_of_def stage_target_def find_node_update rewritten_value [OF assms]
      share_of_value [symmetric] split: option.split)

lemma split_scenario_targets:
  assumes "0 \<le> idx" and "idx < cnt"
  shows "sp_stage_targets (fst (split_scenario idx cnt name b)) =
      map (\<lambda>n. partition_value n idx cnt) (configured_targets b)"
    "configured_targets (snd (snd (split_scenario idx cnt name b))) =
      map (\<lambda>n. partition_value n idx cnt) (configured_targets b)"
proof -
  have "target_of \<circ> update_in_mapping ''target'' (rewrite_share idx cnt) = (\<lambda>s. partition_value (target_of s) idx cnt)"
    by (rule ext) (simp add: target_rewritten [OF assms])
  then show "configured_targets (snd (snd (split_scenario idx cnt name b))) =
      map (\<lambda>n. partition_value n idx cnt) (configured_targets b)"
    unfolding configured_targets_def split_scenario_body [OF assms, THEN conjunct2]
    by (auto simp: split_scenario_def split_stages_def Let_def find_node_update comp_def split: option.split)
  show "sp_stage_targets (fst (split_scenario idx cnt name b)) =
      map (\<lambda>n. partition_value n idx cnt) (configured_targets b)"
    by (simp add: configured_targets_def split_scenario_def split_field_def split_stages_def Let_def
        empty_scenario_def target_rewritten [OF assms] comp_def split: option.split)
qed

lemma split_scenarios_bodies:
  assumes "0 \<le> idx" and "idx < cnt"
  shows "last_body name (snd (snd (split_scenarios idx cnt scs env c))) =
    map_option (\<lambda>b. snd (snd (split_scenario idx cnt name b))) (last_body name c)"
  using assms
proof (induction idx cnt scs env c rule: split_scenarios.induct)
  case (1 idx cnt scs env k body rest)
  show ?case
  proof (cases "y_kind body = MappingNode")
    case True
    obtain sp ov body' where s: "split_scenario idx cnt (y_value k) body = (sp, ov, body')"
      by (cases "split_scenario idx cnt (y_value k) body")
    then have "y_kind body' = MappingNode"
      using split_scenario_body [OF "1.prems", of "y_value k" body] True by simp
    moreover have "last_body name (snd (snd (split_scenarios idx cnt (scs(y_value k \<mapsto> sp)) (env ++ map_of (rev ov)) rest))) =
        map_option (\<lambda>b. snd (snd (split_scenario idx cnt name b))) (last_body name rest)"
      using "1.IH"(2) [OF _ s [symmetric] refl refl "1.prems"] True by (simp add: fun_upd_def)
    ultimately show ?thesis using True s
      by (cases "last_body name rest") (auto split: prod.split)
  next
    case False
    then show ?thesis using "1.IH"(1) [OF _ "1.prems"]
      by (cases "last_body name rest") (auto split: prod.split)
  qed
qed simp_all

text \<open>The tree that is encoded for one worker.\<close>

lemma partition_for_index_tree:
  assumes "partition_for_index encode root idx cnt = Inr p" and "0 \<le> idx" and "idx < cnt"
    and "find_node_by_key root ''scenarios'' = Some scn"
  shows "\<exists>t. encode t = Some (wp_config_yaml p) \<and>
    (\<forall>name. scenario_body t name = map_option (\<lambda>b. snd (snd (split_scenario idx cnt name b))) (last_body name (y_content scn))) \<and>
    configured_concurrency t = partition_value (configured_concurrency root) idx cnt"
proof -
  obtain scs env c' where s: "split_scenarios idx cnt Map.empty (base_env idx cnt) (y_content scn) = (scs, env, c')"
    by (cases "split_scenarios idx cnt Map.empty (base_env idx cnt) (y_content scn)")
  obtain r where r: "update_by_key ''scenarios'' (set_content c') root = Some r"
    using find_by_key_update(2) [OF assms(4)] by blast
  have fr: "find_node_by_key r j = (if j = ''scenarios'' then Some (set_content c' scn) else find_node_by_key root j)" for j
    using find_by_key_update(1) [OF r, of j] assms(4) by simp
  let ?t = "split_settings idx cnt r"
  have yaml: "encode ?t = Some (wp_config_yaml p)"
    using assms(1,4) s r
    by (auto simp: partition_for_index_def Let_def new_workload_partition_def split: if_splits option.splits)
  have settings: "(find_node_by_key ?t ''scenarios'' = find_node_by_key r ''scenarios'') \<and>
      configured_concurrency ?t = partition_value (configured_concurrency r) idx cnt"
  proof (cases "find_node_by_key r ''settings''")
    case None
    then show ?thesis by (simp add: split_settings_def configured_concurrency_def)
  next
    case (Some st)
    show ?thesis
    proof (cases "y_kind st = MappingNode")
      case True
      with Some show ?thesis
        using find_by_key_update(2) [OF Some, of "update_in_mapping ''concurrency'' (rewrite_share idx cnt)"]
        by (auto simp: split_settings_def configured_concurrency_def find_by_key_update(1) find_node_update
            rewritten_value [OF assms(2,3)] share_of_value [symmetric] split: option.split)
    next
      case False
      with Some show ?thesis by (simp add: split_settings_def configured_concurrency_def find_node_in_mapping_def)
    qed
  qed
  have "scenario_body ?t name = last_body name c'" for name
    using settings fr [of "''scenarios''"] by (simp add: scenario_body_def)
  then have "scenario_body ?t name = map_option (\<lambda>b. snd (snd (split_scenario idx cnt name b))) (last_body name (y_content scn))" for name
    using split_scenarios_bodies [OF assms(2,3), of name Map.empty "base_env idx cnt" "y_content scn"] s by simp
  moreover have "configured_concurrency r = configured_concurrency root"
    using fr [of "''settings''"] by (simp add: configured_concurrency_def)
  ultimately show ?thesis using yaml settings by auto
qed


lemma partition_targets_sum:
  assumes "0 < cnt" and "j < length (configured_targets b)"
  shows "(\<Sum>i<cnt. map (\<lambda>n. partition_value n (int i) (int cnt)) (configured_targets b) ! j) = configured_targets b ! j"
proof -
  have "0 \<le> configured_targets b ! j"
    using assms(2) by (auto simp: configured_targets_def target_of_def split: if_splits option.splits)
  then show ?thesis using assms by (simp add: partition_value_sum)
qed

text \<open>
  C10: partitioning loses no load.  When a configuration is partitioned for \<open>cnt\<close> workers there are
  \<open>cnt\<close> partitions, numbered from zero, for any YAML decoder and encoder.  For every scenario of the
  configuration the virtual users, the target rates, the VU caps, the burst buffers and, stage by stage,
  the targets of the workers' summaries add up to the values that the configuration asks for.  The
  configuration of a worker is the encoding of a tree in which the scenario has the same type and asks for
  exactly the figures of that worker's summary, so the produced documents add up as well; the concurrency
  of their settings adds up to the configured one.  A missing or negative value counts as zero.
\<close>

theorem partition_workload_conserves:
  assumes "partition_workload decode encode raw cnt = Inr ps"
    and "decode (trim_space raw) = Some root" and "find_node_by_key root ''scenarios'' = Some scn"
    and "last_body name (y_content scn) = Some b"
  shows "length ps = nat cnt \<and> map wp_index ps = map int [0..<nat cnt] \<and>
    (\<Sum>i<nat cnt. sp_vus (the (wp_scenarios (ps ! i) name))) = configured ''constant_vus'' ''vus'' b \<and>
    (\<Sum>i<nat cnt. sp_target_tps (the (wp_scenarios (ps ! i) name))) =
      configured ''arrival_rate'' ''target_tps'' b \<and>
    (\<Sum>i<nat cnt. sp_max_vus (the (wp_scenarios (ps ! i) name))) =
      configured ''arrival_rate'' ''max_vus'' b \<and>
    (\<Sum>i<nat cnt. sp_burst_buffer (the (wp_scenarios (ps ! i) name))) =
      configured ''arrival_rate'' ''burst_buffer'' b \<and>
    (\<forall>j<length (configured_targets b).
      (\<Sum>i<nat cnt. sp_stage_targets (the (wp_scenarios (ps ! i) name)) ! j) = configured_targets b ! j) \<and>
    (\<exists>tree. (\<Sum>i<nat cnt. configured_concurrency (tree i)) = configured_concurrency root \<and>
      (\<forall>i<nat cnt. \<exists>body sp. encode (tree i) = Some (wp_config_yaml (ps ! i)) \<and>
        scenario_body (tree i) name = Some body \<and> wp_scenarios (ps ! i) name = Some sp \<and>
        scenario_type body = scenario_type b \<and> sp_type sp = scenario_type b \<and>
        configured ''constant_vus'' ''vus'' body = sp_vus sp \<and>
        configured ''arrival_rate'' ''target_tps'' body = sp_target_tps sp \<and>
        configured ''arrival_rate'' ''max_vus'' body = sp_max_vus sp \<and>
        configured ''arrival_rate'' ''burst_buffer'' body = sp_burst_buffer sp \<and>
        configured_targets body = sp_stage_targets sp \<and>
        length (sp_stage_targets sp) = length (configured_targets b)))"
proof -
  obtain root' scn' where r: "decode (trim_space raw) = Some root'"
      "find_node_by_key root' ''scenarios'' = Some scn'" and pos: "0 < cnt"
    and len: "length ps = nat cnt"
    and p: "\<And>i. i < nat cnt \<Longrightarrow> partition_for_index encode root' (int i) cnt = Inr (ps ! i)"
    by (rule partition_workload_Inr [OF assms(1)]) blast
  have [simp]: "root' = root" "scn' = scn" using assms(2,3) r by simp_all
  have e: "wp_scenarios (ps ! i) name = Some (fst (split_scenario (int i) cnt name b))"
    and "wp_index (ps ! i) = int i" if "i < nat cnt" for i
    using partition_for_index_scenarios [of encode root "int i" cnt "ps ! i" scn name b] p [OF that] r
      assms(4) by simp_all
  then have nums: "map wp_index ps = map int [0..<nat cnt]"
    by (intro nth_equalityI) (simp_all add: len)
  have in_range: "0 \<le> int i \<and> int i < cnt" if "i < nat cnt" for i using that by simp
  note bodies = split_scenario_body [THEN conjunct2] split_scenario_asks split_scenario_targets split_scenario_fields
  have "\<forall>i. \<exists>t. i < nat cnt \<longrightarrow> encode t = Some (wp_config_yaml (ps ! i)) \<and>
      scenario_body t name = Some (snd (snd (split_scenario (int i) cnt name b))) \<and>
      configured_concurrency t = partition_value (configured_concurrency root) (int i) cnt"
    using partition_for_index_tree [OF p] in_range r(2) assms(4) by fastforce
  then obtain tree where tree: "\<And>i. i < nat cnt \<Longrightarrow> encode (tree i) = Some (wp_config_yaml (ps ! i)) \<and>
      scenario_body (tree i) name = Some (snd (snd (split_scenario (int i) cnt name b))) \<and>
      configured_concurrency (tree i) = partition_value (configured_concurrency root) (int i) cnt"
    by metis
  have "0 \<le> configured_concurrency root" by (simp add: configured_concurrency_def split: option.split)
  then have "(\<Sum>i<nat cnt. configured_concurrency (tree i)) = configured_concurrency root"
    using partition_value_sum [of "nat cnt" "configured_concurrency root"] pos tree by simp
  moreover have "\<forall>j<length (configured_targets b).
      (\<Sum>i<nat cnt. sp_stage_targets (the (wp_scenarios (ps ! i) name)) ! j) = configured_targets b ! j"
    using partition_targets_sum [of "nat cnt"] pos by (simp add: e split_scenario_targets(1))
  moreover have "\<exists>body sp. encode (tree i) = Some (wp_config_yaml (ps ! i)) \<and>
        scenario_body (tree i) name = Some body \<and> wp_scenarios (ps ! i) name = Some sp \<and>
        scenario_type body = scenario_type b \<and> sp_type sp = scenario_type b \<and>
        configured ''constant_vus'' ''vus'' body = sp_vus sp \<and>
        configured ''arrival_rate'' ''target_tps'' body = sp_target_tps sp \<and>
        configured ''arrival_rate'' ''max_vus'' body = sp_max_vus sp \<and>
        configured ''arrival_rate'' ''burst_buffer'' body = sp_burst_buffer sp \<and>
        configured_targets body = sp_stage_targets sp \<and>
        length (sp_stage_targets sp) = length (configured_targets b)" if i: "i < nat cnt" for i
    using tree [OF i] in_range [OF i] by (simp add: e [OF i] bodies)
  ultimately show ?thesis
    using scenario_share_sum [of "nat cnt"] pos len nums e by (simp add: split_scenario_fields) blast
qed


text \<open>A configuration with one scenario of seven virtual users.\<close>

definition scalar :: "string \<Rightarrow> ynode" where
  "scalar v = YNode ScalarNode v '''' []"

definition sample_body :: ynode where
  "sample_body = YNode MappingNode '''' '''' [scalar ''vus'', scalar ''7'']"

definition sample_root :: ynode where
  "sample_root = YNode DocumentNode '''' ''''
     [YNode MappingNode '''' '''' [scalar ''scenarios'',
        YNode MappingNode '''' '''' [scalar ''load'', sample_body]]]"

lemmas sample_root_eval = sample_root_def sample_body_def scalar_def find_node_in_mapping_def

lemma sample_partition:
  "\<exists>ps. partition_workload (\<lambda>_. Some sample_root) (\<lambda>_. Some ''y'') ''x'' 2 = Inr ps"
proof -
  have t: "trim_space ''x'' = ''x''" by (simp add: trim_space_graphic graphic_def)
  have "\<exists>p. partition_for_index (\<lambda>_. Some ''y'') sample_root i 2 = Inr p" if "0 \<le> i" "i < 2" for i
    using that
    by (auto simp: partition_for_index_def sample_root_eval new_workload_partition_def Let_def
        split: prod.split)
  from this [of 0] this [of 1] obtain p0 p1
    where "partition_for_index (\<lambda>_. Some ''y'') sample_root 0 2 = Inr p0"
      and "partition_for_index (\<lambda>_. Some ''y'') sample_root 1 2 = Inr p1" by auto
  moreover have "usable_scenarios sample_root"
    by (simp add: usable_scenarios_def sample_root_eval)
  ultimately show ?thesis
    by (simp add: partition_workload_def t upt_rec numeral_2_eq_2)
qed

theorem partition_workload_conserves_witness:
  "\<exists>ps. partition_workload (\<lambda>_. Some sample_root) (\<lambda>_. Some ''y'') ''x'' 2 = Inr ps \<and>
     (\<Sum>i<2. sp_vus (the (wp_scenarios (ps ! i) ''load''))) = 7"
proof -
  obtain ps where ps: "partition_workload (\<lambda>_. Some sample_root) (\<lambda>_. Some ''y'') ''x'' 2 = Inr ps"
    using sample_partition by blast
  obtain scn where scn: "find_node_by_key sample_root ''scenarios'' = Some scn"
      "last_body ''load'' (y_content scn) = Some sample_body"
    by (simp add: sample_root_eval)
  have "configured ''constant_vus'' ''vus'' sample_body = 7"
    by (simp add: configured_def scenario_type_def sample_root_eval atoi_def atoi_unsigned_def
        digit_of_def)
  with partition_workload_conserves [OF ps refl scn] ps show ?thesis by auto
qed

theorem partition_for_worker_agrees_witness:
  "\<exists>ps. partition_workload (\<lambda>_. Some sample_root) (\<lambda>_. Some ''y'') ''x'' 2 = Inr ps \<and>
     partition_for_worker (\<lambda>_. Some sample_root) (\<lambda>_. Some ''y'') ''x'' 1 2 = Inr (ps ! 1)"
proof -
  obtain ps where ps: "partition_workload (\<lambda>_. Some sample_root) (\<lambda>_. Some ''y'') ''x'' 2 = Inr ps"
    using sample_partition by blast
  with partition_for_worker_agrees [OF ps] show ?thesis by (metis nat_2 lessI of_nat_1 One_nat_def
      numeral_2_eq_2 nat_numeral)
qed

end
