(* ===== verification/Lifecycle.thy ===== *)
theory Lifecycle
  imports Main
begin

text \<open>
  The contract shared by the aggregates that have a lifecycle state (test runs, barrier sessions):
  a step either keeps the state or moves it strictly up in a rank, and keeps an invariant.
  What follows for whole executions is proved once here.
\<close>

locale lifecycle =
  fixes status :: "'x \<Rightarrow> 's"
    and step :: "'x \<Rightarrow> 'x \<Rightarrow> bool"
    and rank :: "'s \<Rightarrow> nat"
  assumes step_rank: "step x y \<Longrightarrow> status y = status x \<or> rank (status x) < rank (status y)"
begin

lemma reach_rank: "step\<^sup>*\<^sup>* x y \<Longrightarrow> status y = status x \<or> rank (status x) < rank (status y)"
proof (induction rule: rtranclp_induct)
  case base
  then show ?case by simp
next
  case (step y z)
  then show ?case using step_rank [of y z] by auto
qed

lemma never_returns:
  assumes "step\<^sup>*\<^sup>* x y" and "status y \<noteq> status x" and "step\<^sup>*\<^sup>* y z"
  shows "status z \<noteq> status x"
  using reach_rank [OF assms(1)] reach_rank [OF assms(3)] assms(2) by auto

lemma top_rank_final:
  assumes "\<And>s. rank s \<le> rank (status x)" and "step\<^sup>*\<^sup>* x y"
  shows "status y = status x"
  using reach_rank [OF assms(2)] assms(1) [of "status y"] by auto

end

locale lifecycle_invariant = lifecycle status step rank
  for status :: "'x \<Rightarrow> 's" and step :: "'x \<Rightarrow> 'x \<Rightarrow> bool" and rank :: "'s \<Rightarrow> nat" +
  fixes initial :: "'x \<Rightarrow> bool"
    and inv :: "'x \<Rightarrow> bool"
  assumes initial_inv: "initial x \<Longrightarrow> inv x"
    and step_inv: "step x y \<Longrightarrow> inv x \<Longrightarrow> inv y"
begin

lemma reach_inv_from: "step\<^sup>*\<^sup>* x y \<Longrightarrow> inv x \<Longrightarrow> inv y"
  by (induction rule: rtranclp_induct) (auto intro: step_inv)

lemma reach_inv: "initial x \<Longrightarrow> step\<^sup>*\<^sup>* x y \<Longrightarrow> inv y"
  by (blast intro: reach_inv_from initial_inv)

end

end
