(* ===== verification/Barrier.thy ===== *)
theory Barrier
  imports Go_Base Lifecycle "HOL-Library.AList"
begin

text \<open>
  The distributed start barrier: the session aggregate of \<^verbatim>\<open>internal/domain/model/barrier.go\<close> and the
  in-memory coordinator of
  \<^verbatim>\<open>internal/adapters/outbound/coordinator/memory_coordinator.go\<close>.
  The map of participants is an association list; the participants' addresses never leave it, so
  updating the pointed-to record is updating the entry.  Every \<open>time.Now()\<close> is an argument.
\<close>

section \<open>The session aggregate\<close>

datatype barrier_status =
  BarrierStatusPending | BarrierStatusReady | BarrierStatusReleased | BarrierStatusAborted
  | BarrierStatusTimedOut

datatype worker_status = WorkerStatusWaiting | WorkerStatusReady | WorkerStatusAborted

definition default_barrier_timeout :: duration where "default_barrier_timeout = 60 * second"
definition default_release_delay :: duration where "default_release_delay = 300 * millisecond"
definition max_barrier_workers :: int where "max_barrier_workers = 10000"

record participant =
  p_worker_id :: string
  p_status :: worker_status
  p_joined_at :: time
  p_ready_at :: "time option"
  p_error_reason :: string

record barrier_session =
  b_run_id :: string
  b_total :: int
  b_status :: barrier_status
  b_timeout :: duration
  b_delay :: duration
  b_target :: "time option"
  b_abort_reason :: string
  b_created :: time
  b_parts :: "(string \<times> participant) list"

definition new_barrier_session ::
  "time \<Rightarrow> string \<Rightarrow> int \<Rightarrow> duration \<Rightarrow> duration \<Rightarrow> barrier_session result" where
  "new_barrier_session now run n timeout delay =
     (if trim_space run = '''' then Inl ErrValidation
      else if n < 1 \<or> n > max_barrier_workers then Inl ErrInvalidWorkerCount
      else Inr \<lparr>b_run_id = trim_space run, b_total = n, b_status = BarrierStatusPending,
             b_timeout = (if timeout \<le> 0 then default_barrier_timeout else timeout),
             b_delay = (if delay \<le> 0 then default_release_delay else delay),
             b_target = None, b_abort_reason = '''', b_created = now, b_parts = []\<rparr>)"

definition barrier_terminal :: "barrier_session \<Rightarrow> bool" where
  "barrier_terminal s \<longleftrightarrow> b_status s = BarrierStatusReleased \<or> b_status s = BarrierStatusAborted
     \<or> b_status s = BarrierStatusTimedOut"

definition ready_count :: "barrier_session \<Rightarrow> int" where
  "ready_count s = int (length (filter (\<lambda>(k, p). p_status p = WorkerStatusReady) (b_parts s)))"

definition register_worker :: "time \<Rightarrow> string \<Rightarrow> barrier_session \<Rightarrow> barrier_session result" where
  "register_worker now worker s =
     (let w = trim_space worker
      in if w = '''' then Inl ErrValidation
         else if b_status s = BarrierStatusAborted then Inl ErrBarrierAborted
         else if b_status s = BarrierStatusTimedOut then Inl ErrBarrierTimeout
         else if b_status s = BarrierStatusReleased then Inl ErrBarrierReleased
         else if map_of (b_parts s) w \<noteq> None then Inl ErrWorkerAlreadyRegistered
         else Inr (s\<lparr>b_parts := AList.update w
                     \<lparr>p_worker_id = w, p_status = WorkerStatusWaiting, p_joined_at = now,
                      p_ready_at = None, p_error_reason = ''''\<rparr> (b_parts s)\<rparr>))"

definition mark_worker_ready ::
  "time \<Rightarrow> string \<Rightarrow> barrier_session \<Rightarrow> (bool \<times> barrier_session) result" where
  "mark_worker_ready now worker s =
     (let w = trim_space worker
      in if b_status s = BarrierStatusAborted then Inl ErrBarrierAborted
         else if b_status s = BarrierStatusTimedOut then Inl ErrBarrierTimeout
         else if b_status s = BarrierStatusReleased then Inl ErrBarrierReleased
         else case map_of (b_parts s) w of
                None \<Rightarrow> Inl ErrNotFound
              | Some p \<Rightarrow>
                  let s1 = s\<lparr>b_parts := AList.update w
                               (p\<lparr>p_status := WorkerStatusReady, p_ready_at := Some now\<rparr>) (b_parts s)\<rparr>;
                      all_ready = (ready_count s1 \<ge> b_total s1)
                  in Inr (all_ready, if all_ready then s1\<lparr>b_status := BarrierStatusReady\<rparr> else s1))"

definition mark_worker_aborted :: "string \<Rightarrow> string \<Rightarrow> barrier_session \<Rightarrow> barrier_session" where
  "mark_worker_aborted worker reason s =
     (let w = trim_space worker;
          r = (if trim_space reason = '''' then ''worker aborted rendezvous'' else trim_space reason);
          s1 = (case map_of (b_parts s) w of
                  None \<Rightarrow> s
                | Some p \<Rightarrow> s\<lparr>b_parts := AList.update w
                     (p\<lparr>p_status := WorkerStatusAborted, p_error_reason := r\<rparr>) (b_parts s)\<rparr>)
      in s1\<lparr>b_status := BarrierStatusAborted, b_abort_reason := r\<rparr>)"

definition barrier_release :: "time \<Rightarrow> barrier_session \<Rightarrow> (time \<times> barrier_session) result" where
  "barrier_release now s =
     (if b_status s = BarrierStatusReleased then Inl ErrBarrierReleased
      else if b_status s = BarrierStatusAborted then Inl ErrBarrierAborted
      else if b_status s = BarrierStatusTimedOut then Inl ErrBarrierTimeout
      else Inr (now + b_delay s,
                s\<lparr>b_target := Some (now + b_delay s), b_status := BarrierStatusReleased\<rparr>))"

definition has_timed_out :: "time \<Rightarrow> barrier_session \<Rightarrow> bool" where
  "has_timed_out now s \<longleftrightarrow> now > b_created s + b_timeout s"

definition timeout_session :: "barrier_session \<Rightarrow> barrier_session result" where
  "timeout_session s =
     (if barrier_terminal s then Inl ErrTerminalState
      else Inr (s\<lparr>b_status := BarrierStatusTimedOut\<rparr>))"

section \<open>The lifecycle of a session\<close>

inductive barrier_step :: "barrier_session \<Rightarrow> barrier_session \<Rightarrow> bool" where
  register: "register_worker t w s = Inr s' \<Longrightarrow> barrier_step s s'"
| ready: "mark_worker_ready t w s = Inr (b, s') \<Longrightarrow> barrier_step s s'"
| aborted: "barrier_step s (mark_worker_aborted w r s)"
| release: "barrier_release t s = Inr (t', s') \<Longrightarrow> barrier_step s s'"
| timeout: "timeout_session s = Inr s' \<Longrightarrow> barrier_step s s'"

fun barrier_rank :: "barrier_status \<Rightarrow> nat" where
  "barrier_rank BarrierStatusPending = 0"
| "barrier_rank BarrierStatusReady = 1"
| "barrier_rank BarrierStatusReleased = 2"
| "barrier_rank BarrierStatusTimedOut = 2"
| "barrier_rank BarrierStatusAborted = 3"

definition parts_ok :: "(string \<times> participant) list \<Rightarrow> bool" where
  "parts_ok ps \<longleftrightarrow> distinct (map fst ps) \<and>
     (\<forall>(k, p) \<in> set ps. k \<noteq> '''' \<and> trimmed k \<and> p_worker_id p = k)"

definition barrier_wf :: "barrier_session \<Rightarrow> bool" where
  "barrier_wf s \<longleftrightarrow>
     1 \<le> b_total s \<and> b_total s \<le> max_barrier_workers \<and> 0 < b_timeout s \<and> 0 < b_delay s \<and>
     parts_ok (b_parts s) \<and>
     (b_status s = BarrierStatusPending \<longrightarrow> ready_count s < b_total s) \<and>
     (b_status s \<in> {BarrierStatusPending, BarrierStatusReady, BarrierStatusTimedOut} \<longrightarrow>
        b_target s = None) \<and>
     (b_status s = BarrierStatusReleased \<longrightarrow> b_target s \<noteq> None)"

lemma new_barrier_session_wf: "new_barrier_session t r n to d = Inr s \<Longrightarrow> barrier_wf s"
  by (auto simp: new_barrier_session_def barrier_wf_def parts_ok_def ready_count_def
      default_barrier_timeout_def
      default_release_delay_def split: if_splits)

lemma update_fresh: "map_of xs k = None \<Longrightarrow> AList.update k v xs = xs @ [(k, v)]"
  by (induction xs) (auto split: if_splits)

lemma distinct_keys_update: "distinct (map fst xs) \<Longrightarrow> distinct (map fst (AList.update k v xs))"
  by (rule AList.distinct_update)

lemma set_update:
  "distinct (map fst xs) \<Longrightarrow> set (AList.update k v xs) = {(k, v)} \<union> {x \<in> set xs. fst x \<noteq> k}"
  by (induction xs) (auto simp: image_iff)

lemma length_update_present: "map_of xs k \<noteq> None \<Longrightarrow> length (AList.update k v xs) = length xs"
  by (induction xs) (auto split: if_splits)

lemma keys_update_present:
  "map_of xs k \<noteq> None \<Longrightarrow> map fst (AList.update k v xs) = map fst xs"
  by (induction xs) (auto split: if_splits)

lemma keys_update_fresh:
  "map_of xs k = None \<Longrightarrow> map fst (AList.update k v xs) = map fst xs @ [k]"
  by (simp add: update_fresh)

lemma parts_ok_update:
  assumes "parts_ok ps" and "map_of ps k = Some p" and "p_worker_id p' = p_worker_id p"
  shows "parts_ok (AList.update k p' ps)"
proof -
  have "(k, p) \<in> set ps" using assms(2) by (rule map_of_SomeD)
  with assms show ?thesis
    by (auto simp: parts_ok_def set_update distinct_keys_update)
qed

lemma parts_ok_fresh:
  assumes "parts_ok ps" and "map_of ps k = None" and "k \<noteq> ''''" and "trimmed k" and "p_worker_id p = k"
  shows "parts_ok (ps @ [(k, p)])"
  using assms by (auto simp: parts_ok_def map_of_eq_None_iff)

lemma register_worker_wf:
  assumes "register_worker t w s = Inr s'" and wf: "barrier_wf s"
  shows "barrier_wf s'"
proof -
  let ?p = "\<lparr>p_worker_id = trim_space w, p_status = WorkerStatusWaiting, p_joined_at = t,
              p_ready_at = None, p_error_reason = ''''\<rparr>"
  have s': "s' = s\<lparr>b_parts := b_parts s @ [(trim_space w, ?p)]\<rparr>"
      "map_of (b_parts s) (trim_space w) = None" "trim_space w \<noteq> ''''"
    using assms(1) by (auto simp: register_worker_def Let_def update_fresh split: if_splits)
  moreover have "parts_ok (b_parts s @ [(trim_space w, ?p)])"
    using wf s' by (intro parts_ok_fresh) (simp_all add: barrier_wf_def)
  ultimately show ?thesis using wf by (simp add: barrier_wf_def ready_count_def)
qed

lemma mark_worker_ready_Inr:
  assumes "mark_worker_ready t w s = Inr (b, s')"
  obtains p s1 where "map_of (b_parts s) (trim_space w) = Some p"
    and "s1 = s\<lparr>b_parts := AList.update (trim_space w)
                  (p\<lparr>p_status := WorkerStatusReady, p_ready_at := Some t\<rparr>) (b_parts s)\<rparr>"
    and "b \<longleftrightarrow> ready_count s1 \<ge> b_total s1"
    and "s' = (if b then s1\<lparr>b_status := BarrierStatusReady\<rparr> else s1)"
    and "b_status s = BarrierStatusPending \<or> b_status s = BarrierStatusReady"
  using assms
  by (cases "b_status s")
    (auto simp: mark_worker_ready_def Let_def split: if_splits option.splits)

lemma mark_worker_ready_wf:
  assumes "mark_worker_ready t w s = Inr (b, s')" and wf: "barrier_wf s"
  shows "barrier_wf s'"
proof (rule mark_worker_ready_Inr [OF assms(1)])
  fix p s1
  assume p: "map_of (b_parts s) (trim_space w) = Some p"
    and s1: "s1 = s\<lparr>b_parts := AList.update (trim_space w)
                  (p\<lparr>p_status := WorkerStatusReady, p_ready_at := Some t\<rparr>) (b_parts s)\<rparr>"
    and b: "b \<longleftrightarrow> ready_count s1 \<ge> b_total s1"
    and s': "s' = (if b then s1\<lparr>b_status := BarrierStatusReady\<rparr> else s1)"
    and st: "b_status s = BarrierStatusPending \<or> b_status s = BarrierStatusReady"
  have parts: "parts_ok (b_parts s1)"
    using wf p by (simp add: s1 parts_ok_update barrier_wf_def)
  have same: "b_total s1 = b_total s" "b_timeout s1 = b_timeout s" "b_delay s1 = b_delay s"
      "b_target s1 = b_target s" "b_status s1 = b_status s"
    by (simp_all add: s1)
  show ?thesis
  proof (cases b)
    case True
    with wf parts same s' st show ?thesis by (auto simp: barrier_wf_def)
  next
    case False
    with wf parts same s' st b show ?thesis by (auto simp: barrier_wf_def)
  qed
qed

lemma mark_worker_aborted_wf: "barrier_wf s \<Longrightarrow> barrier_wf (mark_worker_aborted w r s)"
  by (cases "map_of (b_parts s) (trim_space w)")
    (simp_all add: mark_worker_aborted_def barrier_wf_def Let_def parts_ok_update)

lemma barrier_release_wf: "barrier_release t s = Inr (t', s') \<Longrightarrow> barrier_wf s \<Longrightarrow> barrier_wf s'"
  by (auto simp: barrier_release_def barrier_wf_def ready_count_def split: if_splits)

lemma timeout_session_wf: "timeout_session s = Inr s' \<Longrightarrow> barrier_wf s \<Longrightarrow> barrier_wf s'"
  by (cases "b_status s")
    (auto simp: timeout_session_def barrier_terminal_def barrier_wf_def ready_count_def)

lemmas barrier_wf_intros = register_worker_wf mark_worker_ready_wf mark_worker_aborted_wf
  barrier_release_wf timeout_session_wf

lemma register_worker_status: "register_worker t w s = Inr s' \<Longrightarrow> b_status s' = b_status s"
  by (auto simp: register_worker_def Let_def split: if_splits)

lemma mark_worker_ready_status:
  "mark_worker_ready t w s = Inr (b, s') \<Longrightarrow>
     b_status s \<in> {BarrierStatusPending, BarrierStatusReady} \<and>
     b_status s' = (if b then BarrierStatusReady else b_status s)"
  by (cases "b_status s") (auto simp: mark_worker_ready_def Let_def split: option.splits if_splits)

lemma barrier_step_rank:
  "barrier_step s s' \<Longrightarrow> b_status s' = b_status s \<or> barrier_rank (b_status s) < barrier_rank (b_status s')"
proof (induction rule: barrier_step.induct)
  case (register t w s s')
  then show ?case by (simp add: register_worker_status)
next
  case (ready t w s b s')
  from mark_worker_ready_status [OF this] show ?case by auto
next
  case (aborted s w r)
  then show ?case by (cases "b_status s") (simp_all add: mark_worker_aborted_def Let_def)
next
  case (release t s t' s')
  then show ?case by (cases "b_status s") (auto simp: barrier_release_def)
next
  case (timeout s s')
  then show ?case by (cases "b_status s") (auto simp: timeout_session_def barrier_terminal_def)
qed

interpretation barrier_life: lifecycle_invariant b_status barrier_step barrier_rank
  "\<lambda>s. \<exists>t r n to d. new_barrier_session t r n to d = Inr s" barrier_wf
proof unfold_locales
  show "b_status y = b_status x \<or> barrier_rank (b_status x) < barrier_rank (b_status y)"
    if "barrier_step x y" for x y using that by (rule barrier_step_rank)
  show "barrier_wf x" if "\<exists>t r n to d. new_barrier_session t r n to d = Inr x" for x
    using that by (elim exE) (rule new_barrier_session_wf)
  show "barrier_wf y" if "barrier_step x y" and "barrier_wf x" for x y
    using that by (induction rule: barrier_step.induct) (blast intro: barrier_wf_intros)+
qed

text \<open>
  in every session that the aggregate's operations can produce, the states \<open>RELEASED\<close> and
  \<open>TIMED_OUT\<close> are never left for an open state and never for one another; the one state that follows
  them is \<open>ABORTED\<close>, because \<open>MarkWorkerAborted\<close> has no terminal check although \<open>IsTerminal\<close> calls
  these states immutable.  \<open>ABORTED\<close> is final.
\<close>

theorem barrier_terminal_exits:
  "(\<forall>s s'. barrier_terminal s \<and> barrier_step\<^sup>*\<^sup>* s s' \<longrightarrow>
      b_status s' = b_status s \<or> b_status s' = BarrierStatusAborted) \<and>
   (\<forall>s. barrier_terminal s \<longrightarrow> b_status (mark_worker_aborted w r s) = BarrierStatusAborted)"
proof (intro conjI allI impI)
  fix s s' assume a: "barrier_terminal s \<and> barrier_step\<^sup>*\<^sup>* s s'"
  then have "barrier_rank (b_status s) \<ge> 2" by (auto simp: barrier_terminal_def)
  with barrier_life.reach_rank [of s s'] a
  show "b_status s' = b_status s \<or> b_status s' = BarrierStatusAborted"
    by (cases "b_status s'") auto
qed (simp add: mark_worker_aborted_def Let_def)

definition sample_session :: barrier_session where
  "sample_session = \<lparr>b_run_id = ''r1'', b_total = 2, b_status = BarrierStatusReleased,
     b_timeout = default_barrier_timeout, b_delay = default_release_delay, b_target = Some 10,
     b_abort_reason = '''', b_created = 5, b_parts = []\<rparr>"

theorem barrier_terminal_exits_witness:
  "barrier_terminal sample_session \<and>
   b_status (mark_worker_aborted ''w'' '''' sample_session) = BarrierStatusAborted"
proof -
  have "barrier_terminal sample_session" by (simp add: barrier_terminal_def sample_session_def)
  then show ?thesis using barrier_terminal_exits [of "''w''" "''''"] by blast
qed

end
