(* ===== verification/Barrier_Coordinator.thy ===== *)
theory Barrier_Coordinator
  imports Barrier
begin

text \<open>
  \<^verbatim>\<open>internal/adapters/outbound/coordinator/memory_coordinator.go\<close> and
  \<^verbatim>\<open>internal/application/service/barrier_service.go\<close>.  The two channels of an active session are only
  ever closed, so each is a bit.  A call of \<open>Await\<close> is split where it releases the session's mutex:
  \<open>coord_await\<close> is \<open>getOrCreate\<close> followed by the first critical section (atomic, because
  sessions are never removed or replaced), and \<open>coord_wake\<close> is one branch of the \<open>select\<close> statement.
  \<open>getOrCreate\<close> drops the error of \<open>NewBarrierSession\<close>, so a session can be nil; dereferencing it
  panics while the mutex is held, after which every call on that run blocks.
\<close>

section \<open>State and operations\<close>

record active_session =
  act_session :: "barrier_session option"
  release_closed :: bool
  abort_closed :: bool
  act_stuck :: bool

type_synonym coord = "string \<Rightarrow> active_session option"

datatype await_outcome =
    Await_returned "barrier_session result"
  | Await_blocked
  | Await_panicked
  | Await_stuck

definition get_or_create ::
  "time \<Rightarrow> string \<Rightarrow> int \<Rightarrow> duration \<Rightarrow> duration \<Rightarrow> coord \<Rightarrow> active_session \<times> coord" where
  "get_or_create now run n timeout delay c =
     (case c run of
        Some act \<Rightarrow> (act, c)
      | None \<Rightarrow>
          let act = \<lparr>act_session = (case new_barrier_session now run n timeout delay of
                                      Inl _ \<Rightarrow> None | Inr s \<Rightarrow> Some s),
                     release_closed = False, abort_closed = False, act_stuck = False\<rparr>
          in (act, c(run \<mapsto> act)))"

text \<open>\<open>_ = sess.RegisterWorker(..)\<close>: an error, such as for a worker already present, is dropped.\<close>

definition registered :: "time \<Rightarrow> string \<Rightarrow> barrier_session \<Rightarrow> barrier_session" where
  "registered t w s = (case register_worker t w s of Inl _ \<Rightarrow> s | Inr s' \<Rightarrow> s')"

definition await_session ::
  "time \<Rightarrow> time \<Rightarrow> time \<Rightarrow> string \<Rightarrow> active_session \<Rightarrow> barrier_session
    \<Rightarrow> active_session \<times> await_outcome" where
  "await_session tj tr te w act s =
     (if b_status s = BarrierStatusAborted then (act, Await_returned (Inl ErrBarrierAborted))
      else if b_status s = BarrierStatusTimedOut then (act, Await_returned (Inl ErrBarrierTimeout))
      else if b_status s = BarrierStatusReleased then (act, Await_returned (Inr s))
      else
        let s1 = registered tj w s
        in case mark_worker_ready tr w s1 of
             Inl e \<Rightarrow> (act\<lparr>act_session := Some s1\<rparr>, Await_returned (Inl e))
           | Inr (True, s2) \<Rightarrow>
               let s3 = (case barrier_release te s2 of Inl _ \<Rightarrow> s2 | Inr (_, s') \<Rightarrow> s')
               in (act\<lparr>act_session := Some s3, release_closed := True\<rparr>, Await_returned (Inr s3))
           | Inr (False, s2) \<Rightarrow> (act\<lparr>act_session := Some s2\<rparr>, Await_blocked))"

text \<open>The times are those of session creation, registration, readiness and release.\<close>

definition coord_await ::
  "time \<times> time \<times> time \<times> time \<Rightarrow> string \<Rightarrow> string \<Rightarrow> int \<Rightarrow> duration \<Rightarrow> duration \<Rightarrow> coord
    \<Rightarrow> coord \<times> await_outcome" where
  "coord_await ts runID workerID n timeout delay c =
     (let (tc, tj, tr, te) = ts; run = trim_space runID; w = trim_space workerID;
          (act, c1) = get_or_create tc run n timeout delay c
      in if act_stuck act then (c1, Await_stuck)
         else case act_session act of
                None \<Rightarrow> (c1(run \<mapsto> act\<lparr>act_stuck := True\<rparr>), Await_panicked)
              | Some s \<Rightarrow>
                  let (act', out) = await_session tj tr te w act s
                  in (c1(run \<mapsto> act'), out))"

datatype wake = Wake_release | Wake_abort | Wake_timer | Wake_context err

text \<open>
  One ready branch of the \<open>select\<close> on which a blocked \<open>Await\<close> waits: \<open>None\<close> when that branch is not
  ready.  The waiter exists only for a session that is not nil.
\<close>

definition coord_wake :: "wake \<Rightarrow> string \<Rightarrow> coord \<Rightarrow> (coord \<times> barrier_session result) option" where
  "coord_wake k run c =
     (case c run of
        None \<Rightarrow> None
      | Some act \<Rightarrow>
          (case act_session act of
             None \<Rightarrow> None
           | Some s \<Rightarrow>
               (case k of
                  Wake_release \<Rightarrow> if release_closed act then Some (c, Inr s) else None
                | Wake_abort \<Rightarrow> if abort_closed act then Some (c, Inl ErrBarrierAborted) else None
                | Wake_timer \<Rightarrow>
                    Some (c(run \<mapsto> act\<lparr>act_session := Some (case timeout_session s of
                                                     Inl _ \<Rightarrow> s | Inr s' \<Rightarrow> s')\<rparr>),
                          Inl ErrBarrierTimeout)
                | Wake_context e \<Rightarrow> Some (c, Inl e))))"

datatype abort_outcome = Abort_returned "unit result" | Abort_panicked | Abort_stuck

text \<open>The deferred \<open>Unlock\<close> of \<open>Abort\<close> runs even when the nil session panics.\<close>

definition coord_abort :: "string \<Rightarrow> string \<Rightarrow> string \<Rightarrow> coord \<Rightarrow> coord \<times> abort_outcome" where
  "coord_abort runID workerID reason c =
     (let run = trim_space runID
      in case c run of
           None \<Rightarrow> (c, Abort_returned (Inl ErrBarrierNotFound))
         | Some act \<Rightarrow>
             if act_stuck act then (c, Abort_stuck)
             else (case act_session act of
                     None \<Rightarrow> (c, Abort_panicked)
                   | Some s \<Rightarrow>
                       (c(run \<mapsto> act\<lparr>act_session := Some (mark_worker_aborted workerID reason s),
                                      abort_closed := True\<rparr>),
                        Abort_returned (Inr ()))))"

text \<open>\<open>Get\<close> takes the same lock, and returns a nil session as it is; its caller looks into the session.\<close>

datatype get_outcome = Get_returned "barrier_session option result" | Get_panicked | Get_stuck

definition coord_get :: "string \<Rightarrow> coord \<Rightarrow> get_outcome" where
  "coord_get runID c =
     (case c (trim_space runID) of
        None \<Rightarrow> Get_returned (Inl ErrBarrierNotFound)
      | Some act \<Rightarrow> if act_stuck act then Get_stuck else Get_returned (Inr (act_session act)))"

section \<open>The barrier service\<close>

record rendezvous_result =
  rz_status :: barrier_status
  rz_run_id :: string
  rz_worker_id :: string
  rz_total :: int
  rz_target :: time
  rz_start_in :: duration

definition rendezvous_result :: "time \<Rightarrow> time \<Rightarrow> string \<Rightarrow> barrier_session \<Rightarrow> rendezvous_result" where
  "rendezvous_result now1 now2 worker s =
     (let target = (case b_target s of None \<Rightarrow> now1 | Some t \<Rightarrow> t);
          d = time_sub target now2
      in \<lparr>rz_status = b_status s, rz_run_id = b_run_id s, rz_worker_id = worker,
          rz_total = b_total s, rz_target = target, rz_start_in = (if d < 0 then 0 else d)\<rparr>)"

definition await_rendezvous ::
  "time \<times> time \<times> time \<times> time \<Rightarrow> string \<Rightarrow> string \<Rightarrow> int \<Rightarrow> duration \<Rightarrow> duration \<Rightarrow> coord
    \<Rightarrow> coord \<times> await_outcome" where
  "await_rendezvous ts runID workerID n timeout delay c =
     (let run = trim_space runID; w = trim_space workerID
      in if run = '''' then (c, Await_returned (Inl ErrValidation))
         else if w = '''' then (c, Await_returned (Inl ErrValidation))
         else if n < 1 then (c, Await_returned (Inl ErrInvalidWorkerCount))
         else coord_await ts run w n timeout delay c)"

definition signal_abort :: "string \<Rightarrow> string \<Rightarrow> string \<Rightarrow> coord \<Rightarrow> coord \<times> abort_outcome" where
  "signal_abort runID workerID reason c =
     (let run = trim_space runID; w = trim_space workerID; r = trim_space reason
      in if run = '''' then (c, Abort_returned (Inl ErrValidation))
         else coord_abort run w r c)"

definition get_barrier_status :: "string \<Rightarrow> coord \<Rightarrow> get_outcome" where
  "get_barrier_status runID c =
     (let run = trim_space runID
      in if run = '''' then Get_returned (Inl ErrValidation)
         else case coord_get run c of Get_returned (Inr None) \<Rightarrow> Get_panicked | r \<Rightarrow> r)"

section \<open>The invariant of the coordinator\<close>

definition active_ok :: "string \<Rightarrow> active_session \<Rightarrow> bool" where
  "active_ok run act \<longleftrightarrow>
     (case act_session act of
        None \<Rightarrow> \<not> release_closed act \<and> \<not> abort_closed act
      | Some s \<Rightarrow>
          \<not> act_stuck act \<and> b_run_id s = run \<and> barrier_wf s \<and>
          b_status s \<noteq> BarrierStatusReady \<and>
          (b_status s = BarrierStatusReleased \<longrightarrow> release_closed act) \<and>
          (release_closed act \<longrightarrow>
             b_status s \<in> {BarrierStatusReleased, BarrierStatusAborted} \<and>
             b_target s \<noteq> None \<and> b_total s \<le> int (length (b_parts s))) \<and>
          (abort_closed act \<longleftrightarrow> b_status s = BarrierStatusAborted))"

definition coord_ok :: "coord \<Rightarrow> bool" where
  "coord_ok c \<longleftrightarrow> (\<forall>run act. c run = Some act \<longrightarrow> trimmed run \<and> active_ok run act)"

lemma coord_okD: "coord_ok c \<Longrightarrow> c run = Some act \<Longrightarrow> trimmed run \<and> active_ok run act"
  by (simp add: coord_ok_def)

lemma coord_ok_upd: "coord_ok c \<Longrightarrow> trimmed run \<Longrightarrow> active_ok run act \<Longrightarrow> coord_ok (c(run \<mapsto> act))"
  by (simp add: coord_ok_def)

lemma new_barrier_session_fields:
  assumes "new_barrier_session t run n to d = Inr s"
  shows "b_run_id s = trim_space run" and "b_status s = BarrierStatusPending" and "b_total s = n"
    and "b_parts s = []"
  using assms by (auto simp: new_barrier_session_def split: if_splits)

lemma get_or_create_ok:
  assumes "coord_ok c" and "trimmed run" and "get_or_create t run n to d c = (act, c1)"
  shows "coord_ok c1 \<and> c1 run = Some act \<and> active_ok run act \<and> (\<forall>r. r \<noteq> run \<longrightarrow> c1 r = c r)"
proof (cases "c run")
  case None
  with assms(3) have act: "act = \<lparr>act_session = (case new_barrier_session t run n to d of
      Inl _ \<Rightarrow> None | Inr s \<Rightarrow> Some s), release_closed = False, abort_closed = False, act_stuck = False\<rparr>"
    and c1: "c1 = c(run \<mapsto> act)"
    by (auto simp: get_or_create_def Let_def)
  have "active_ok run act"
  proof (cases "new_barrier_session t run n to d")
    case (Inl e)
    then show ?thesis by (simp add: act active_ok_def)
  next
    case (Inr s)
    have "barrier_wf s" using Inr by (rule new_barrier_session_wf)
    with new_barrier_session_fields [OF Inr] Inr \<open>trimmed run\<close> show ?thesis
      by (simp add: act active_ok_def trimmed_def)
  qed
  with assms c1 show ?thesis by (simp add: coord_ok_upd)
next
  case (Some a)
  with assms coord_okD [of c run a] show ?thesis by (auto simp: get_or_create_def)
qed

lemma registered_wf: "barrier_wf s \<Longrightarrow> barrier_wf (registered t w s)"
  by (auto simp: registered_def register_worker_wf split: sum.split)

lemma registered_fields:
  "b_status (registered t w s) = b_status s" "b_total (registered t w s) = b_total s"
  "b_run_id (registered t w s) = b_run_id s" "b_target (registered t w s) = b_target s"
  "b_delay (registered t w s) = b_delay s" "b_timeout (registered t w s) = b_timeout s"
  by (auto simp: registered_def register_worker_def Let_def split: if_splits)

lemma mark_worker_ready_fields:
  assumes "mark_worker_ready t w s = Inr (b, s')"
  shows "b_total s' = b_total s" and "b_run_id s' = b_run_id s" and "b_target s' = b_target s"
    and "map fst (b_parts s') = map fst (b_parts s)"
    and "b \<longleftrightarrow> ready_count s' \<ge> b_total s'"
    and "b_delay s' = b_delay s" and "b_timeout s' = b_timeout s"
proof -
  obtain p s1 where p: "map_of (b_parts s) (trim_space w) = Some p"
    and s1: "s1 = s\<lparr>b_parts := AList.update (trim_space w)
                  (p\<lparr>p_status := WorkerStatusReady, p_ready_at := Some t\<rparr>) (b_parts s)\<rparr>"
    and b: "b \<longleftrightarrow> ready_count s1 \<ge> b_total s1"
    and s': "s' = (if b then s1\<lparr>b_status := BarrierStatusReady\<rparr> else s1)"
    by (rule mark_worker_ready_Inr [OF assms])
  have same: "b_parts s' = b_parts s1" "b_total s' = b_total s" "b_run_id s' = b_run_id s"
      "b_target s' = b_target s" "b_delay s' = b_delay s" "b_timeout s' = b_timeout s"
    by (simp_all add: s' s1)
  then show "b_total s' = b_total s" "b_run_id s' = b_run_id s" "b_target s' = b_target s"
      "b_delay s' = b_delay s" "b_timeout s' = b_timeout s"
    by simp_all
  show "map fst (b_parts s') = map fst (b_parts s)"
    unfolding same(1) s1 using p by (simp add: keys_update_present)
  have "ready_count s' = ready_count s1" by (simp add: ready_count_def same(1))
  with b same(2) s1 show "b \<longleftrightarrow> ready_count s' \<ge> b_total s'" by simp
qed

lemma ready_count_le: "ready_count s \<le> int (length (b_parts s))"
  by (simp add: ready_count_def)

lemma barrier_release_open:
  assumes "b_status s \<in> {BarrierStatusPending, BarrierStatusReady}"
  shows "barrier_release t s = Inr (t + b_delay s,
     s\<lparr>b_target := Some (t + b_delay s), b_status := BarrierStatusReleased\<rparr>)"
  using assms by (auto simp: barrier_release_def)


lemma await_session_ok:
  assumes ok: "active_ok run act" and s: "act_session act = Some s"
    and out: "await_session tj tr te w act s = (act', r)"
  shows "active_ok run act'"
proof -
  have wf: "barrier_wf s" and not_ready: "b_status s \<noteq> BarrierStatusReady" and "b_run_id s = run"
    and stuck: "\<not> act_stuck act"
    using ok s by (simp_all add: active_ok_def)
  show ?thesis
  proof (cases "b_status s = BarrierStatusPending")
    case False
    with out have "act' = act"
      using not_ready by (cases "b_status s") (auto simp: await_session_def)
    with ok show ?thesis by simp
  next
    case True
    let ?s1 = "registered tj w s"
    have open_act: "\<not> release_closed act" "\<not> abort_closed act"
      using ok s True by (auto simp: active_ok_def)
    have s1: "barrier_wf ?s1" "b_status ?s1 = BarrierStatusPending" "b_run_id ?s1 = run"
      using wf True \<open>b_run_id s = run\<close> by (simp_all add: registered_wf registered_fields)
    show ?thesis
    proof (cases "mark_worker_ready tr w ?s1")
      case (Inl e)
      with out True have "act' = act\<lparr>act_session := Some ?s1\<rparr>"
        by (simp add: await_session_def Let_def)
      with s1 open_act stuck show ?thesis by (simp add: active_ok_def)
    next
      case (Inr bs)
      obtain b s2 where bs: "bs = (b, s2)" by (cases bs)
      have m: "mark_worker_ready tr w ?s1 = Inr (b, s2)" using Inr bs by simp
      have wf2: "barrier_wf s2" using m s1(1) by (rule mark_worker_ready_wf)
      have st2: "b_status s2 = (if b then BarrierStatusReady else BarrierStatusPending)"
        using mark_worker_ready_status [OF m] s1(2) by simp
      note f = mark_worker_ready_fields [OF m]
      show ?thesis
      proof (cases b)
        case True
        let ?s3 = "s2\<lparr>b_target := Some (te + b_delay s2), b_status := BarrierStatusReleased\<rparr>"
        have rel: "barrier_release te s2 = Inr (te + b_delay s2, ?s3)"
          using st2 True by (intro barrier_release_open) simp
        have "act' = act\<lparr>act_session := Some ?s3, release_closed := True\<rparr>"
          using out m True \<open>b_status s = BarrierStatusPending\<close> rel
          by (simp add: await_session_def Let_def)
        moreover have "barrier_wf ?s3" using rel wf2 by (rule barrier_release_wf)
        moreover have "b_total s2 \<le> int (length (b_parts s2))"
          using f(5) True ready_count_le [of s2] by simp
        ultimately show ?thesis using f s1 open_act stuck by (simp add: active_ok_def)
      next
        case False
        have "act' = act\<lparr>act_session := Some s2\<rparr>"
          using out m False \<open>b_status s = BarrierStatusPending\<close>
          by (simp add: await_session_def Let_def)
        with wf2 st2 False f s1 open_act stuck show ?thesis by (simp add: active_ok_def)
      qed
    qed
  qed
qed

lemma coord_await_cases:
  assumes "coord_await (tc, tj, tr, te) r w n to d c = (c', out)"
  obtains act c1 where "get_or_create tc (trim_space r) n to d c = (act, c1)"
    and "(act_stuck act \<and> c' = c1 \<and> out = Await_stuck)
       \<or> (\<not> act_stuck act \<and> act_session act = None \<and>
          c' = c1(trim_space r \<mapsto> act\<lparr>act_stuck := True\<rparr>) \<and> out = Await_panicked)
       \<or> (\<exists>s act'. \<not> act_stuck act \<and> act_session act = Some s \<and>
          await_session tj tr te (trim_space w) act s = (act', out) \<and> c' = c1(trim_space r \<mapsto> act'))"
proof -
  obtain act c1 where g: "get_or_create tc (trim_space r) n to d c = (act, c1)"
    by (cases "get_or_create tc (trim_space r) n to d c")
  with assms show ?thesis
    by (intro that [OF g]) (auto simp: coord_await_def Let_def split: if_splits option.splits prod.splits)
qed

lemma coord_await_ok:
  assumes ok: "coord_ok c" and aw: "coord_await ts r w n to d c = (c', out)"
  shows "coord_ok c'"
proof -
  obtain tc tj tr te where ts: "ts = (tc, tj, tr, te)" by (cases ts)
  obtain act c1 where g: "get_or_create tc (trim_space r) n to d c = (act, c1)"
    and cs: "(act_stuck act \<and> c' = c1 \<and> out = Await_stuck)
       \<or> (\<not> act_stuck act \<and> act_session act = None \<and>
          c' = c1(trim_space r \<mapsto> act\<lparr>act_stuck := True\<rparr>) \<and> out = Await_panicked)
       \<or> (\<exists>s act'. \<not> act_stuck act \<and> act_session act = Some s \<and>
          await_session tj tr te (trim_space w) act s = (act', out) \<and> c' = c1(trim_space r \<mapsto> act'))"
    using coord_await_cases [OF aw [unfolded ts]] by metis
  have c1: "coord_ok c1" "active_ok (trim_space r) act"
    using get_or_create_ok [OF ok _ g] by simp_all
  from cs show ?thesis
  proof (elim disjE conjE exE)
    assume "c' = c1" then show ?thesis using c1 by simp
  next
    assume "act_session act = None" and "c' = c1(trim_space r \<mapsto> act\<lparr>act_stuck := True\<rparr>)"
    then show ?thesis using c1 by (simp add: coord_ok_upd active_ok_def)
  next
    fix s act'
    assume "act_session act = Some s" and "await_session tj tr te (trim_space w) act s = (act', out)"
      and "c' = c1(trim_space r \<mapsto> act')"
    then show ?thesis using c1 by (simp add: coord_ok_upd await_session_ok)
  qed
qed

lemma mark_worker_aborted_fields:
  "b_status (mark_worker_aborted w r s) = BarrierStatusAborted"
  "b_run_id (mark_worker_aborted w r s) = b_run_id s"
  "b_total (mark_worker_aborted w r s) = b_total s"
  "b_target (mark_worker_aborted w r s) = b_target s"
  "map fst (b_parts (mark_worker_aborted w r s)) = map fst (b_parts s)"
  by (simp_all add: mark_worker_aborted_def Let_def keys_update_present split: option.split)

lemma mark_worker_aborted_length:
  "length (b_parts (mark_worker_aborted w r s)) = length (b_parts s)"
  using mark_worker_aborted_fields(5) by (metis length_map)

lemma abort_active_ok:
  assumes "active_ok run act" and "act_session act = Some s"
  shows "active_ok run (act\<lparr>act_session := Some (mark_worker_aborted w r s), abort_closed := True\<rparr>)"
  using assms
  by (simp add: active_ok_def mark_worker_aborted_wf mark_worker_aborted_fields
      mark_worker_aborted_length)

lemma coord_abort_ok:
  assumes "coord_ok c"
  shows "coord_ok (fst (coord_abort r w reason c))"
proof (cases "c (trim_space r)")
  case None
  with assms show ?thesis by (simp add: coord_abort_def Let_def)
next
  case (Some act)
  with coord_okD [OF assms Some] assms show ?thesis
    by (cases "act_session act")
      (simp_all add: coord_abort_def Let_def coord_ok_upd abort_active_ok)
qed

lemma coord_wake_ok:
  assumes ok: "coord_ok c" and w: "coord_wake k run c = Some (c', res)"
  shows "coord_ok c'"
proof (cases "c' = c")
  case True
  with ok show ?thesis by simp
next
  case False
  with w obtain act s where act: "c run = Some act" "act_session act = Some s"
    and c': "c' = c(run \<mapsto> act\<lparr>act_session := Some (case timeout_session s of
                                                     Inl _ \<Rightarrow> s | Inr s' \<Rightarrow> s')\<rparr>)"
    by (auto simp: coord_wake_def split: option.splits wake.splits if_splits)
  from coord_okD [OF ok act(1)] act(2)
  have a: "active_ok run act" "trimmed run" by simp_all
  have "active_ok run (act\<lparr>act_session := Some (case timeout_session s of Inl _ \<Rightarrow> s | Inr s' \<Rightarrow> s')\<rparr>)"
  proof (cases "timeout_session s")
    case (Inl e)
    with a act show ?thesis by (simp add: active_ok_def)
  next
    case (Inr s')
    with a act have "barrier_wf s'" by (auto simp: active_ok_def intro: timeout_session_wf)
    with Inr a act show ?thesis
      by (cases "b_status s") (auto simp: active_ok_def timeout_session_def barrier_terminal_def)
  qed
  with ok a c' show ?thesis by (simp add: coord_ok_upd)
qed


text \<open>
  a barrier for more than 10000 workers is accepted by the service's validation but its session is
  nil: the first call panics with the session's mutex held, and from then on every valid call for that
  run, whatever its worker count, and every look at its status blocks on the mutex and never returns.
\<close>

theorem oversized_barrier_deadlocks:
  assumes "c (trim_space r) = None" and "trim_space r \<noteq> ''''" and "trim_space w \<noteq> ''''"
    and "n > max_barrier_workers" and "trim_space w' \<noteq> ''''" and "n' \<ge> 1"
  shows "snd (await_rendezvous ts r w n to d c) = Await_panicked \<and>
    snd (await_rendezvous ts' r w' n' to' d' (fst (await_rendezvous ts r w n to d c))) = Await_stuck \<and>
    get_barrier_status r (fst (await_rendezvous ts r w n to d c)) = Get_stuck"
proof -
  obtain tc tj tr te where ts: "ts = (tc, tj, tr, te)" by (cases ts)
  obtain tc' tj' tr' te' where ts': "ts' = (tc', tj', tr', te')" by (cases ts')
  have n: "\<not> n < 1" using assms(4) by (simp add: max_barrier_workers_def)
  then have "await_rendezvous ts r w n to d c =
      (c(trim_space r \<mapsto> \<lparr>act_session = None, release_closed = False, abort_closed = False,
                           act_stuck = True\<rparr>), Await_panicked)"
    using assms(1-4)
    by (simp add: ts await_rendezvous_def coord_await_def get_or_create_def new_barrier_session_def
        Let_def)
  then show ?thesis using assms(2,5,6)
    by (simp add: ts' await_rendezvous_def coord_await_def get_or_create_def get_barrier_status_def coord_get_def Let_def)
qed

theorem oversized_barrier_deadlocks_witness:
  "snd (await_rendezvous (1, 2, 3, 4) ''r'' ''w'' 10001 0 0 (\<lambda>_. None)) = Await_panicked"
proof -
  have "trim_space ''r'' = ''r''" "trim_space ''w'' = ''w''"
    by (simp_all add: trim_space_graphic graphic_def)
  then show ?thesis
    using oversized_barrier_deadlocks [of "\<lambda>_. None" "''r''" "''w''" 10001 "''w''" 1 "(1, 2, 3, 4)" 0 0]
    by (simp add: max_barrier_workers_def)
qed

end
