(* ===== verification/Barrier_System.thy ===== *)
theory Barrier_System
  imports Barrier_Coordinator
begin

text \<open>
  Any number of workers using one coordinator concurrently: a step is one critical section of
  \<open>Await\<close> or \<open>Abort\<close>, or one branch of the \<open>select\<close> of a waiting call.  Two ghost components record
  which workers have called \<open>Await\<close> and what the finished calls returned.
\<close>

record barrier_system =
  bs_coord :: coord
  bs_waiting :: "(string \<times> string) list"
  bs_called :: "(string \<times> string) list"
  bs_done :: "(string \<times> string \<times> barrier_session result) list"

definition initial_system :: barrier_system where
  "initial_system = \<lparr>bs_coord = (\<lambda>_. None), bs_waiting = [], bs_called = [], bs_done = []\<rparr>"

definition arrive :: "string \<Rightarrow> string \<Rightarrow> coord \<times> await_outcome \<Rightarrow> barrier_system \<Rightarrow> barrier_system" where
  "arrive r w res S =
     \<lparr>bs_coord = fst res,
      bs_waiting = (if snd res = Await_blocked then (r, w) # bs_waiting S else bs_waiting S),
      bs_called = (r, w) # bs_called S,
      bs_done = (case snd res of Await_returned x \<Rightarrow> (r, w, x) # bs_done S | _ \<Rightarrow> bs_done S)\<rparr>"

inductive system_step :: "barrier_system \<Rightarrow> barrier_system \<Rightarrow> bool" where
  await: "coord_await ts r w n to d (bs_coord S) = res \<Longrightarrow>
     system_step S (arrive (trim_space r) (trim_space w) res S)"
| wake: "bs_waiting S = xs @ (r, w) # ys \<Longrightarrow> coord_wake k r (bs_coord S) = Some (c', x) \<Longrightarrow>
     system_step S (S\<lparr>bs_coord := c', bs_waiting := xs @ ys, bs_done := (r, w, x) # bs_done S\<rparr>)"
| abort: "coord_abort r w reason (bs_coord S) = (c', out) \<Longrightarrow> system_step S (S\<lparr>bs_coord := c'\<rparr>)"

definition callers :: "barrier_system \<Rightarrow> string \<Rightarrow> string set" where
  "callers S r = {w. (r, w) \<in> set (bs_called S)}"

lemma finite_callers [simp]: "finite (callers S r)"
proof -
  have "callers S r \<subseteq> snd ` set (bs_called S)" by (force simp: callers_def)
  then show ?thesis by (rule finite_subset) simp
qed

definition workers :: "barrier_session \<Rightarrow> string set" where
  "workers s = fst ` set (b_parts s)"

definition sessions_heard :: "coord \<Rightarrow> (string \<Rightarrow> string set) \<Rightarrow> bool" where
  "sessions_heard c called \<longleftrightarrow>
     (\<forall>r act s. c r = Some act \<and> act_session act = Some s \<longrightarrow> workers s \<subseteq> called r)"

definition done_ok :: "(string \<Rightarrow> string set) \<Rightarrow> string \<times> string \<times> barrier_session result \<Rightarrow> bool" where
  "done_ok called x = (case x of (r, w, Inl e) \<Rightarrow> True
     | (r, w, Inr s) \<Rightarrow> b_run_id s = r \<and> b_target s \<noteq> None \<and> b_total s \<le> int (card (called r)))"

definition waiting_ok :: "coord \<Rightarrow> (string \<times> string) list \<Rightarrow> bool" where
  "waiting_ok c ws \<longleftrightarrow> (\<forall>(r, w) \<in> set ws. \<exists>act. c r = Some act \<and> act_session act \<noteq> None)"

definition system_ok :: "barrier_system \<Rightarrow> bool" where
  "system_ok S \<longleftrightarrow> coord_ok (bs_coord S) \<and> sessions_heard (bs_coord S) (callers S) \<and>
     (\<forall>x \<in> set (bs_done S). done_ok (callers S) x) \<and>
     waiting_ok (bs_coord S) (bs_waiting S)"

section \<open>What one critical section does to a session\<close>

lemma registered_workers: "workers (registered t w s) \<subseteq> insert (trim_space w) (workers s)"
  by (auto simp: workers_def registered_def register_worker_def Let_def update_fresh
      split: if_splits)

lemma mark_worker_ready_workers:
  "mark_worker_ready t w s = Inr (b, s') \<Longrightarrow> workers s' = workers s"
  using mark_worker_ready_fields(4) unfolding workers_def by (metis list.set_map)

lemma barrier_release_workers: "barrier_release t s = Inr (t', s') \<Longrightarrow> workers s' = workers s"
  by (auto simp: workers_def barrier_release_def split: if_splits)

lemma await_session_effect:
  assumes "await_session tj tr te w act s = (act', out)" and "act_session act = Some s"
    and "active_ok run act"
  shows "\<exists>s'. act_session act' = Some s' \<and> workers s' \<subseteq> insert (trim_space w) (workers s)"
    and "out = Await_returned (Inr s') \<Longrightarrow> act_session act' = Some s' \<and> release_closed act'"
    and "out \<noteq> Await_panicked \<and> out \<noteq> Await_stuck"
proof -
  have sub: "\<And>b s2. mark_worker_ready tr w (registered tj w s) = Inr (b, s2) \<Longrightarrow>
      workers s2 \<subseteq> insert (trim_space w) (workers s)"
    using mark_worker_ready_workers registered_workers by metis
  show "\<exists>s'. act_session act' = Some s' \<and> workers s' \<subseteq> insert (trim_space w) (workers s)"
    using assms(1,2) sub registered_workers [of tj w s]
    by (auto simp: await_session_def Let_def split: if_splits sum.splits bool.splits
        dest!: barrier_release_workers)
  show "out = Await_returned (Inr s') \<Longrightarrow> act_session act' = Some s' \<and> release_closed act'"
    using assms
    by (auto simp: await_session_def Let_def active_ok_def split: if_splits sum.splits bool.splits)
  show "out \<noteq> Await_panicked \<and> out \<noteq> Await_stuck"
    using assms(1) by (auto simp: await_session_def Let_def split: if_splits sum.splits bool.splits)
qed

lemma released_session_done:
  assumes "active_ok r act" and "act_session act = Some s" and "release_closed act"
    and "workers s \<subseteq> C" and "finite C"
  shows "b_run_id s = r \<and> b_target s \<noteq> None \<and> b_total s \<le> int (card C)"
proof -
  from assms have ok: "b_run_id s = r" "b_target s \<noteq> None" "b_total s \<le> int (length (b_parts s))"
    and "parts_ok (b_parts s)"
    by (simp_all add: active_ok_def barrier_wf_def)
  then have "length (b_parts s) = card (workers s)"
    by (simp add: workers_def parts_ok_def) (metis distinct_card length_map list.set_map)
  also have "\<dots> \<le> card C" using assms(4,5) by (rule card_mono [rotated])
  finally show ?thesis using ok by simp
qed

lemma done_ok_mono:
  "done_ok C x \<Longrightarrow> (\<And>r. C r \<subseteq> D r) \<Longrightarrow> (\<And>r. finite (D r)) \<Longrightarrow> done_ok D x"
  by (auto simp: done_ok_def split: prod.splits sum.splits) (meson card_mono of_nat_mono order_trans)

lemma waiting_ok_upd:
  "waiting_ok c ws \<Longrightarrow> c r = Some act \<Longrightarrow> (act_session act \<noteq> None \<Longrightarrow> act_session act' \<noteq> None) \<Longrightarrow>
     waiting_ok (c(r \<mapsto> act')) ws"
  by (fastforce simp: waiting_ok_def)

lemma sessions_heard_upd:
  "sessions_heard c C \<Longrightarrow> (\<And>s. act_session act' = Some s \<Longrightarrow> workers s \<subseteq> C r) \<Longrightarrow>
     sessions_heard (c(r \<mapsto> act')) C"
  by (auto simp: sessions_heard_def)

lemma get_or_create_heard:
  assumes "get_or_create t run n to d c = (act, c1)" and "sessions_heard c C"
  shows "sessions_heard c1 C \<and> c1 run = Some act \<and> (\<forall>r a. c r = Some a \<longrightarrow> c1 r = Some a)"
proof (cases "c run")
  case None
  have "workers s = {}" if "new_barrier_session t run n to d = Inr s" for s
    using new_barrier_session_fields(4) [OF that] by (simp add: workers_def)
  moreover have c1: "c1 = c(run \<mapsto> act)"
    and "act_session act = (case new_barrier_session t run n to d of Inl _ \<Rightarrow> None | Inr s \<Rightarrow> Some s)"
    using assms(1) None by (auto simp: get_or_create_def Let_def)
  ultimately have "\<And>s. act_session act = Some s \<Longrightarrow> workers s \<subseteq> C run"
    by (auto split: sum.splits)
  then have "sessions_heard c1 C" unfolding c1 by (rule sessions_heard_upd [OF assms(2)])
  with None show ?thesis by (auto simp: c1)
next
  case (Some a)
  with assms show ?thesis by (auto simp: get_or_create_def)
qed

section \<open>Preservation\<close>

lemma coord_await_effect:
  assumes ok: "coord_ok c" and heard: "sessions_heard c C" and fin: "\<And>r. finite (C r)"
    and aw: "coord_await ts r w n to d c = (c', out)"
    and w: "trim_space w \<in> C (trim_space r)"
  shows "sessions_heard c' C"
    and "waiting_ok c ws \<Longrightarrow> waiting_ok c' ws"
    and "out = Await_blocked \<Longrightarrow> waiting_ok c' [(trim_space r, trim_space w)]"
    and "out = Await_returned x \<Longrightarrow> done_ok C (trim_space r, trim_space w, x)"
proof -
  obtain tc tj tr te where ts: "ts = (tc, tj, tr, te)" by (cases ts)
  let ?r = "trim_space r" and ?w = "trim_space w"
  obtain act c1 where g: "get_or_create tc ?r n to d c = (act, c1)"
    and cs: "(act_stuck act \<and> c' = c1 \<and> out = Await_stuck)
       \<or> (\<not> act_stuck act \<and> act_session act = None \<and>
          c' = c1(?r \<mapsto> act\<lparr>act_stuck := True\<rparr>) \<and> out = Await_panicked)
       \<or> (\<exists>s act'. \<not> act_stuck act \<and> act_session act = Some s \<and>
          await_session tj tr te ?w act s = (act', out) \<and> c' = c1(?r \<mapsto> act'))"
    using coord_await_cases [OF aw [unfolded ts]] by metis
  have g1: "sessions_heard c1 C" "c1 ?r = Some act" "\<And>q a. c q = Some a \<Longrightarrow> c1 q = Some a"
    using get_or_create_heard [OF g heard] by auto
  have g2: "active_ok ?r act" using get_or_create_ok [OF ok _ g] by simp
  have keep: "waiting_ok c1 ws" if "waiting_ok c ws" for ws
    using that g1(3) by (fastforce simp: waiting_ok_def)
  have all: "sessions_heard c' C \<and> (waiting_ok c ws \<longrightarrow> waiting_ok c' ws) \<and>
      (out = Await_blocked \<longrightarrow> waiting_ok c' [(?r, ?w)]) \<and>
      (out = Await_returned x \<longrightarrow> done_ok C (?r, ?w, x))"
    using cs
  proof (elim disjE conjE exE)
    assume "c' = c1" "out = Await_stuck"
    then show ?thesis using g1 keep by simp
  next
    assume "act_session act = None" "c' = c1(?r \<mapsto> act\<lparr>act_stuck := True\<rparr>)" "out = Await_panicked"
    then show ?thesis
      using g1 keep sessions_heard_upd [OF g1(1), of "act\<lparr>act_stuck := True\<rparr>" ?r]
        waiting_ok_upd [of c1 ws ?r act "act\<lparr>act_stuck := True\<rparr>"]
      by simp
  next
    fix s act'
    assume s: "act_session act = Some s" and as: "await_session tj tr te ?w act s = (act', out)"
      and c': "c' = c1(?r \<mapsto> act')"
    note eff = await_session_effect [OF as s g2]
    from eff(1) obtain s' where s': "act_session act' = Some s'" "workers s' \<subseteq> insert ?w (workers s)"
      by auto
    have "workers s \<subseteq> C ?r" using g1 s by (auto simp: sessions_heard_def)
    with s'(2) w have sub: "workers s' \<subseteq> C ?r" by auto
    have ok': "active_ok ?r act'" using g2 s as by (rule await_session_ok)
    have "done_ok C (?r, ?w, x)" if "out = Await_returned x"
    proof (cases x)
      case (Inr q)
      with that eff(2) s' have "q = s'" "release_closed act'" by auto
      with released_session_done [OF ok' s'(1) _ sub fin] Inr show ?thesis
        by (simp add: done_ok_def)
    qed (simp add: done_ok_def)
    moreover have "sessions_heard c' C" using sessions_heard_upd [OF g1(1), of act' ?r] c' s' sub by auto
    moreover have "waiting_ok c ws \<longrightarrow> waiting_ok c' ws"
      using g1 keep c' s' by (simp add: waiting_ok_upd)
    moreover have "waiting_ok c' [(?r, ?w)]" using c' s' by (simp add: waiting_ok_def)
    ultimately show ?thesis by blast
  qed
  then show "sessions_heard c' C" and "waiting_ok c ws \<Longrightarrow> waiting_ok c' ws"
    and "out = Await_blocked \<Longrightarrow> waiting_ok c' [(?r, ?w)]"
    and "out = Await_returned x \<Longrightarrow> done_ok C (?r, ?w, x)"
    by blast+
qed


lemma coord_wake_effect:
  assumes ok: "coord_ok c" and heard: "sessions_heard c C" and fin: "\<And>r. finite (C r)"
    and w: "coord_wake k r c = Some (c', x)"
  shows "sessions_heard c' C" and "waiting_ok c ws \<Longrightarrow> waiting_ok c' ws" and "done_ok C (r, w, x)"
proof -
  obtain act s where act: "c r = Some act" "act_session act = Some s"
    using w by (auto simp: coord_wake_def split: option.splits)
  have a: "active_ok r act" using coord_okD [OF ok act(1)] by simp
  have sub: "workers s \<subseteq> C r" using heard act by (auto simp: sessions_heard_def)
  let ?s' = "case timeout_session s of Inl _ \<Rightarrow> s | Inr s' \<Rightarrow> s'"
  have t: "workers ?s' = workers s"
    by (auto simp: workers_def timeout_session_def split: sum.split)
  have c': "c' = c \<or> c' = c(r \<mapsto> act\<lparr>act_session := Some ?s'\<rparr>)"
    using w act by (auto simp: coord_wake_def split: wake.splits if_splits)
  show "sessions_heard c' C"
    using c' heard sub t
      sessions_heard_upd [OF heard, of "act\<lparr>act_session := Some ?s'\<rparr>" r] by auto
  show "waiting_ok c ws \<Longrightarrow> waiting_ok c' ws"
    using c' act by (auto intro: waiting_ok_upd)
  show "done_ok C (r, w, x)"
  proof (cases x)
    case (Inr q)
    with w act have "q = s" "release_closed act"
      by (auto simp: coord_wake_def split: wake.splits if_splits)
    with released_session_done [OF a act(2) _ sub fin] Inr show ?thesis by (simp add: done_ok_def)
  qed (simp add: done_ok_def)
qed

lemma coord_abort_effect:
  assumes "sessions_heard c C" and "coord_abort r w reason c = (c', out)"
  shows "sessions_heard c' C" and "waiting_ok c ws \<Longrightarrow> waiting_ok c' ws"
proof -
  have parts: "workers (mark_worker_aborted w reason s) = workers s" for s
    using mark_worker_aborted_fields(5) unfolding workers_def by (metis list.set_map)
  have c': "c' = c \<or> (\<exists>act s. c (trim_space r) = Some act \<and> act_session act = Some s \<and>
      c' = c(trim_space r \<mapsto> act\<lparr>act_session := Some (mark_worker_aborted w reason s),
                                 abort_closed := True\<rparr>))"
    using assms(2) by (auto simp: coord_abort_def Let_def split: option.splits if_splits)
  show "sessions_heard c' C"
    using c'
  proof (elim disjE exE conjE)
    fix act s assume "c (trim_space r) = Some act" "act_session act = Some s" and c':
      "c' = c(trim_space r \<mapsto> act\<lparr>act_session := Some (mark_worker_aborted w reason s),
                                 abort_closed := True\<rparr>)"
    then have "workers s \<subseteq> C (trim_space r)" using assms(1) by (auto simp: sessions_heard_def)
    with parts show ?thesis unfolding c' by (intro sessions_heard_upd [OF assms(1)]) auto
  qed (simp add: assms(1))
  show "waiting_ok c ws \<Longrightarrow> waiting_ok c' ws"
    using c' by (auto intro: waiting_ok_upd)
qed

lemma sessions_heard_mono: "sessions_heard c C \<Longrightarrow> (\<And>r. C r \<subseteq> D r) \<Longrightarrow> sessions_heard c D"
  unfolding sessions_heard_def by blast

lemma system_step_ok: "system_step S S' \<Longrightarrow> system_ok S \<Longrightarrow> system_ok S'"
proof (induction rule: system_step.induct)
  case (await ts r w n to d S res)
  obtain c' out where res: "res = (c', out)" by (cases res)
  let ?r = "trim_space r" and ?w = "trim_space w"
  let ?S' = "arrive ?r ?w res S"
  have sub: "callers S q \<subseteq> callers ?S' q" for q by (auto simp: callers_def arrive_def)
  have mem: "?w \<in> callers ?S' ?r" by (simp add: callers_def arrive_def)
  have ok: "coord_ok (bs_coord S)" and heard: "sessions_heard (bs_coord S) (callers ?S')"
    and wait: "waiting_ok (bs_coord S) (bs_waiting S)"
    and old: "\<forall>x \<in> set (bs_done S). done_ok (callers ?S') x"
    using await.prems sub sessions_heard_mono done_ok_mono [OF _ sub]
    by (auto simp: system_ok_def)
  note eff = coord_await_effect [OF ok heard finite_callers await.hyps [unfolded res] mem]
  have "coord_ok c'" using ok await.hyps unfolding res by (rule coord_await_ok)
  moreover have "waiting_ok c' (bs_waiting ?S')"
    using eff(2) [OF wait] eff(3) by (auto simp: arrive_def res waiting_ok_def)
  moreover have "\<forall>x \<in> set (bs_done ?S'). done_ok (callers ?S') x"
    using old eff(4) by (auto simp: arrive_def res split: await_outcome.splits)
  ultimately show ?case using eff(1) by (simp add: system_ok_def arrive_def res)
next
  case (wake S xs r w ys k c' x)
  let ?S' = "S\<lparr>bs_coord := c', bs_waiting := xs @ ys, bs_done := (r, w, x) # bs_done S\<rparr>"
  have same: "callers ?S' = callers S" by (simp add: callers_def fun_eq_iff)
  have ok: "coord_ok (bs_coord S)" and heard: "sessions_heard (bs_coord S) (callers S)"
    and wait: "waiting_ok (bs_coord S) (xs @ ys)"
    using wake.prems wake.hyps(1) by (auto simp: system_ok_def waiting_ok_def)
  note eff = coord_wake_effect [OF ok heard finite_callers wake.hyps(2)]
  have "coord_ok c'" using ok wake.hyps(2) by (rule coord_wake_ok)
  with eff(1) eff(2) [OF wait] eff(3) wake.prems show ?case
    by (simp add: system_ok_def same)
next
  case (abort r w reason S c' out)
  have same: "callers (S\<lparr>bs_coord := c'\<rparr>) = callers S" by (simp add: callers_def fun_eq_iff)
  have "coord_ok c'" using abort coord_abort_ok [of "bs_coord S" r w reason] by (simp add: system_ok_def)
  with abort coord_abort_effect [of "bs_coord S" "callers S" r w reason c' out] show ?case
    by (simp add: system_ok_def same)
qed

lemma initial_system_ok: "system_ok initial_system"
  by (simp add: system_ok_def initial_system_def coord_ok_def sessions_heard_def waiting_ok_def)

lemma system_reachable_ok: "system_step\<^sup>*\<^sup>* initial_system S \<Longrightarrow> system_ok S"
  by (induction rule: rtranclp_induct) (auto intro: system_step_ok initial_system_ok)

text \<open>
  C1: no worker is ever let through the barrier early.  In every interleaving of workers, aborts,
  timeouts and cancellations, a call of \<open>Await\<close> that returns a session returns it with a start time
  set, for its own run, and by then at least the session's total number of distinct workers have
  called \<open>Await\<close> on that run.
\<close>

theorem barrier_release_safe:
  assumes "system_step\<^sup>*\<^sup>* initial_system S" and "(r, w, Inr s) \<in> set (bs_done S)"
  shows "b_run_id s = r \<and> b_target s \<noteq> None \<and> b_total s \<le> int (card (callers S r))"
  using system_reachable_ok [OF assms(1)] assms(2) by (auto simp: system_ok_def done_ok_def)

text \<open>Two sample executions: a barrier for one worker, and the first of two workers.\<close>

definition sample_arrival :: "int \<Rightarrow> barrier_system" where
  "sample_arrival n =
     arrive ''r'' ''w'' (coord_await (1, 2, 3, 4) ''r'' ''w'' n 0 0 (\<lambda>_. None)) initial_system"

lemma sample_trim: "trim_space ''r'' = ''r''" "trim_space ''w'' = ''w''"
  by (simp_all add: trim_space_graphic graphic_def)

lemma sample_arrival_step: "system_step\<^sup>*\<^sup>* initial_system (sample_arrival n)"
  using system_step.await [of "(1, 2, 3, 4)" "''r''" "''w''" n 0 0 initial_system]
  by (simp add: sample_arrival_def initial_system_def sample_trim r_into_rtranclp)

lemmas sample_eval = sample_arrival_def arrive_def coord_await_def get_or_create_def
  new_barrier_session_def await_session_def registered_def register_worker_def
  mark_worker_ready_def barrier_release_def ready_count_def initial_system_def Let_def sample_trim
  max_barrier_workers_def

theorem barrier_release_safe_witness:
  "\<exists>s. (''r'', ''w'', Inr s) \<in> set (bs_done (sample_arrival 1)) \<and> b_total s = 1 \<and>
     b_target s \<noteq> None \<and> 1 \<le> card (callers (sample_arrival 1) ''r'')"
proof -
  obtain s where s: "(''r'', ''w'', Inr s) \<in> set (bs_done (sample_arrival 1))" "b_total s = 1"
    by (simp add: sample_eval)
  with barrier_release_safe [OF sample_arrival_step this(1)] show ?thesis by fastforce
qed

text \<open>
  C15: no waiter is left behind.  A waiting call can always return through its timer; once the session
  of its run is \<open>RELEASED\<close> the release channel is closed and it can return the session, and once it is
  \<open>ABORTED\<close> the abort channel is closed and it can return the abort error.
\<close>

theorem barrier_no_stranded_waiter:
  assumes "system_step\<^sup>*\<^sup>* initial_system S" and "(r, w) \<in> set (bs_waiting S)"
  shows "\<exists>act s. bs_coord S r = Some act \<and> act_session act = Some s \<and>
    (\<exists>c'. coord_wake Wake_timer r (bs_coord S) = Some (c', Inl ErrBarrierTimeout)) \<and>
    (b_status s = BarrierStatusReleased \<longrightarrow>
       coord_wake Wake_release r (bs_coord S) = Some (bs_coord S, Inr s)) \<and>
    (b_status s = BarrierStatusAborted \<longrightarrow>
       coord_wake Wake_abort r (bs_coord S) = Some (bs_coord S, Inl ErrBarrierAborted))"
proof -
  have ok: "system_ok S" using assms(1) by (rule system_reachable_ok)
  with assms(2) obtain act s where act: "bs_coord S r = Some act" "act_session act = Some s"
    by (fastforce simp: system_ok_def waiting_ok_def)
  with ok coord_okD [of "bs_coord S" r act] have "active_ok r act" by (simp add: system_ok_def)
  with act show ?thesis by (auto simp: coord_wake_def active_ok_def)
qed


theorem barrier_no_stranded_waiter_witness:
  "(''r'', ''w'') \<in> set (bs_waiting (sample_arrival 2)) \<and>
   (\<exists>c'. coord_wake Wake_timer ''r'' (bs_coord (sample_arrival 2)) = Some (c', Inl ErrBarrierTimeout))"
proof -
  have w: "(''r'', ''w'') \<in> set (bs_waiting (sample_arrival 2))"
    by (simp add: sample_eval)
  with barrier_no_stranded_waiter [OF sample_arrival_step w] show ?thesis by blast
qed

section \<open>The barrier as an abstract rendezvous\<close>

text \<open>
  The contract of a barrier for \<open>n\<close> workers: it gathers the set of arrived workers, opens when
  \<open>n\<close> of them have arrived, and is broken by an abort or a timeout.
\<close>

datatype rendezvous = Gathering "string set" | Opened | Aborted | Expired

definition spec_arrive :: "int \<Rightarrow> string \<Rightarrow> rendezvous \<Rightarrow> rendezvous" where
  "spec_arrive n w b =
     (case b of Gathering A \<Rightarrow> if n \<le> int (card (insert w A)) then Opened else Gathering (insert w A)
      | _ \<Rightarrow> b)"

definition ready_workers :: "barrier_session \<Rightarrow> string set" where
  "ready_workers s = {w. \<exists>p. map_of (b_parts s) w = Some p \<and> p_status p = WorkerStatusReady}"

definition abs_session :: "barrier_session \<Rightarrow> rendezvous" where
  "abs_session s =
     (case b_status s of
        BarrierStatusReleased \<Rightarrow> Opened
      | BarrierStatusAborted \<Rightarrow> Aborted
      | BarrierStatusTimedOut \<Rightarrow> Expired
      | _ \<Rightarrow> Gathering (ready_workers s))"

lemma ready_count_card:
  assumes "distinct (map fst (b_parts s))"
  shows "ready_count s = int (card (ready_workers s))"
proof -
  let ?xs = "filter (\<lambda>(k, p). p_status p = WorkerStatusReady) (b_parts s)"
  have "ready_workers s = fst ` set ?xs"
    using assms by (force simp: ready_workers_def map_of_eq_Some_iff)
  moreover have "distinct (map fst ?xs)" using assms by (simp add: distinct_map_filter)
  then have "card (fst ` set ?xs) = length ?xs" using distinct_card [of "map fst ?xs"] by simp
  ultimately show ?thesis by (simp add: ready_count_def)
qed

lemma ready_workers_registered:
  assumes "trim_space w \<noteq> ''''" and "b_status s = BarrierStatusPending"
  shows "ready_workers (registered t w s) = ready_workers s \<and>
    map_of (b_parts (registered t w s)) (trim_space w) \<noteq> None"
  using assms
  by (auto simp: registered_def register_worker_def Let_def ready_workers_def update_conv
      split: if_splits)

lemma ready_workers_marked:
  assumes "mark_worker_ready t w s = Inr (b, s')"
  shows "ready_workers s' = insert (trim_space w) (ready_workers s)"
proof -
  obtain p s1 where s1: "s1 = s\<lparr>b_parts := AList.update (trim_space w)
                  (p\<lparr>p_status := WorkerStatusReady, p_ready_at := Some t\<rparr>) (b_parts s)\<rparr>"
    and s': "s' = (if b then s1\<lparr>b_status := BarrierStatusReady\<rparr> else s1)"
    by (rule mark_worker_ready_Inr [OF assms])
  have parts: "b_parts s' = b_parts s1" by (simp add: s')
  show ?thesis
    unfolding ready_workers_def parts by (auto simp: s1 update_conv')
qed

lemma mark_worker_ready_succeeds:
  assumes "b_status s = BarrierStatusPending" and "map_of (b_parts s) (trim_space w) \<noteq> None"
  shows "\<exists>b s'. mark_worker_ready t w s = Inr (b, s')"
  using assms by (auto simp: mark_worker_ready_def Let_def)

text \<open>
  C8: the coordinator implements the rendezvous.  The first critical section of \<open>Await\<close> of a named
  worker takes the session to the state the abstract barrier reaches by that worker's arrival, and the
  call returns the session exactly when the abstract barrier is then open and blocks exactly when it
  is still gathering.
\<close>

theorem await_refines_rendezvous:
  assumes "active_ok run act" and "act_session act = Some s" and "trim_space w \<noteq> ''''"
    and "await_session tj tr te w act s = (act', out)"
  shows "\<exists>s'. act_session act' = Some s' \<and>
    abs_session s' = spec_arrive (b_total s) (trim_space w) (abs_session s) \<and>
    (out = Await_returned (Inr s') \<longleftrightarrow> abs_session s' = Opened) \<and>
    (out = Await_blocked \<longleftrightarrow> (\<exists>A. abs_session s' = Gathering A))"
proof (cases "b_status s = BarrierStatusPending")
  case False
  moreover have "b_status s \<noteq> BarrierStatusReady" using assms(1,2) by (simp add: active_ok_def)
  ultimately show ?thesis
    using assms(2,4) by (cases "b_status s") (auto simp: await_session_def abs_session_def spec_arrive_def)
next
  case True
  let ?s1 = "registered tj w s"
  have wf: "barrier_wf s" using assms(1,2) by (simp add: active_ok_def)
  note reg = ready_workers_registered [OF assms(3) True, of tj]
  obtain b s2 where m: "mark_worker_ready tr w ?s1 = Inr (b, s2)"
    using mark_worker_ready_succeeds [of ?s1 w tr] reg True registered_fields(1) by metis
  note f = mark_worker_ready_fields [OF m]
  have ready: "ready_workers s2 = insert (trim_space w) (ready_workers s)"
    using ready_workers_marked [OF m] reg by simp
  have "barrier_wf s2" using m registered_wf [OF wf] by (rule mark_worker_ready_wf)
  then have count: "ready_count s2 = int (card (insert (trim_space w) (ready_workers s)))"
    using ready_count_card [of s2] ready by (simp add: barrier_wf_def parts_ok_def)
  have b: "b \<longleftrightarrow> b_total s \<le> int (card (insert (trim_space w) (ready_workers s)))"
    using f(1,5) count registered_fields(2) [of tj w s] by simp
  have st2: "b_status s2 = (if b then BarrierStatusReady else BarrierStatusPending)"
    using mark_worker_ready_status [OF m] True by (simp add: registered_fields)
  show ?thesis
  proof (cases b)
    case True
    then have rel: "barrier_release te s2 = Inr (te + b_delay s2,
        s2\<lparr>b_target := Some (te + b_delay s2), b_status := BarrierStatusReleased\<rparr>)"
      using st2 by (intro barrier_release_open) simp
    with assms(4) m True b \<open>b_status s = BarrierStatusPending\<close> show ?thesis
      by (auto simp: await_session_def Let_def abs_session_def spec_arrive_def)
  next
    case False
    with assms(4) m b st2 ready \<open>b_status s = BarrierStatusPending\<close> show ?thesis
      by (auto simp: await_session_def Let_def abs_session_def spec_arrive_def)
  qed
qed


theorem await_refines_rendezvous_witness:
  "\<exists>act s act' out s'. active_ok ''r'' act \<and> act_session act = Some s \<and>
     await_session 2 3 4 ''w'' act s = (act', out) \<and> act_session act' = Some s' \<and>
     abs_session s' = Opened"
proof -
  define act where "act = fst (get_or_create 1 ''r'' 1 0 0 (\<lambda>_. None))"
  have "act_session act \<noteq> None" by (simp add: act_def sample_eval)
  then obtain s where s: "act_session act = Some s" by blast
  have ok: "active_ok ''r'' act"
    using get_or_create_ok [of "\<lambda>_. None" "''r''" 1 1 0 0] sample_trim
    by (cases "get_or_create 1 ''r'' 1 0 0 (\<lambda>_. None)") (simp add: act_def coord_ok_def trimmed_def)
  obtain act' out where aw: "await_session 2 3 4 ''w'' act s = (act', out)"
    by (cases "await_session 2 3 4 ''w'' act s")
  have "b_total s = 1" "abs_session s = Gathering {}"
    using s by (auto simp: act_def sample_eval abs_session_def ready_workers_def)
  with await_refines_rendezvous [OF ok s _ aw] ok s aw show ?thesis
    by (auto simp: sample_trim spec_arrive_def)
qed

end
