(* ===== verification/Tables.thy ===== *)
theory Tables
  imports Go_Base
begin

text \<open>
  A database table of the PostgreSQL adapters (\<^verbatim>\<open>internal/adapters/outbound/postgres\<close>): a list of rows
  keyed by the entity identifier.  \<open>upsert\<close> is \<open>INSERT .. ON CONFLICT (id) DO UPDATE\<close>: the argument
  \<open>merge\<close> says which columns the conflict clause keeps from the stored row.  The locale \<open>repository\<close>
  is the contract that the application services rely on (\<^verbatim>\<open>internal/application/ports/outbound\<close>): what
  a lookup returns after a save or a delete.  Every table of the model interprets it.
\<close>

section \<open>Rows keyed by identifier\<close>

fun find_row :: "('e \<Rightarrow> string) \<Rightarrow> 'e list \<Rightarrow> string \<Rightarrow> 'e option" where
  "find_row key [] i = None"
| "find_row key (x # xs) i = (if key x = i then Some x else find_row key xs i)"

fun upsert :: "('e \<Rightarrow> string) \<Rightarrow> ('e \<Rightarrow> 'e \<Rightarrow> 'e) \<Rightarrow> 'e \<Rightarrow> 'e list \<Rightarrow> 'e list" where
  "upsert key merge e [] = [e]"
| "upsert key merge e (x # xs) =
     (if key x = key e then merge x e # xs else x # upsert key merge e xs)"

definition delete_row :: "('e \<Rightarrow> string) \<Rightarrow> string \<Rightarrow> 'e list \<Rightarrow> 'e list" where
  "delete_row key i xs = filter (\<lambda>x. key x \<noteq> i) xs"

text \<open>\<open>UPDATE .. WHERE id = i\<close>.\<close>

definition update_row :: "('e \<Rightarrow> string) \<Rightarrow> ('e \<Rightarrow> 'e) \<Rightarrow> string \<Rightarrow> 'e list \<Rightarrow> 'e list" where
  "update_row key f i xs = map (\<lambda>x. if key x = i then f x else x) xs"

lemma find_row_Some: "find_row key xs i = Some x \<Longrightarrow> x \<in> set xs \<and> key x = i"
  by (induction xs) (auto split: if_splits)

lemma find_row_None: "find_row key xs i = None \<longleftrightarrow> (\<forall>x \<in> set xs. key x \<noteq> i)"
  by (induction xs) auto

lemma find_row_append:
  "find_row key (xs @ ys) i = (case find_row key xs i of None \<Rightarrow> find_row key ys i | Some x \<Rightarrow> Some x)"
  by (induction xs) auto

lemma find_row_upsert_other:
  assumes "\<And>x y. key x = key y \<Longrightarrow> key (merge x y) = key y" and "i \<noteq> key e"
  shows "find_row key (upsert key merge e xs) i = find_row key xs i"
  using assms by (induction xs) auto

lemma find_row_upsert_same:
  assumes "\<And>x y. key x = key y \<Longrightarrow> key (merge x y) = key y"
  shows "find_row key (upsert key merge e xs) (key e) =
    Some (case find_row key xs (key e) of None \<Rightarrow> e | Some x \<Rightarrow> merge x e)"
  using assms by (induction xs) auto

lemma find_row_delete:
  "find_row key (delete_row key i xs) j = (if i = j then None else find_row key xs j)"
  by (induction xs) (auto simp: delete_row_def)

lemma find_row_update:
  assumes "\<And>x. key (f x) = key x"
  shows "find_row key (update_row key f i xs) j =
    (if i = j then map_option f (find_row key xs j) else find_row key xs j)"
  using assms by (induction xs) (auto simp: update_row_def)

lemma set_upsert:
  "x \<in> set (upsert key merge e xs) \<Longrightarrow>
    x = e \<or> x \<in> set xs \<or> (\<exists>y \<in> set xs. key y = key e \<and> x = merge y e)"
  by (induction xs) (auto split: if_splits)

lemma keys_upsert:
  assumes "\<And>x y. key x = key y \<Longrightarrow> key (merge x y) = key y"
  shows "map key (upsert key merge e xs) =
    (if key e \<in> key ` set xs then map key xs else map key xs @ [key e])"
  using assms by (induction xs) auto

lemma distinct_upsert:
  assumes "\<And>x y. key x = key y \<Longrightarrow> key (merge x y) = key y" and "distinct (map key xs)"
  shows "distinct (map key (upsert key merge e xs))"
  using assms by (auto simp: keys_upsert)

lemma distinct_delete: "distinct (map key xs) \<Longrightarrow> distinct (map key (delete_row key i xs))"
  by (simp add: delete_row_def distinct_map_filter)

lemma find_row_mem:
  "distinct (map key xs) \<Longrightarrow> x \<in> set xs \<Longrightarrow> find_row key xs (key x) = Some x"
  by (induction xs) (auto simp: rev_image_eqI)

lemma upsert_present:
  assumes "find_row key xs (key e) = Some x" and "distinct (map key xs)"
  shows "upsert key merge e xs = map (\<lambda>y. if key y = key e then merge y e else y) xs"
  using assms by (induction xs) (auto simp: image_iff intro!: map_idI [symmetric])

lemma upsert_absent: "find_row key xs (key e) = None \<Longrightarrow> upsert key merge e xs = xs @ [e]"
  by (induction xs) (auto split: if_splits)

lemma delete_appended: "\<forall>x \<in> set xs. key x \<noteq> i \<Longrightarrow> key e = i \<Longrightarrow> delete_row key i (xs @ [e]) = xs"
  by (simp add: delete_row_def filter_id_conv)

section \<open>The repository contract\<close>

locale repository =
  fixes key :: "'e \<Rightarrow> string"
    and find :: "'t \<Rightarrow> string \<Rightarrow> 'e option"
    and save :: "'e \<Rightarrow> 't \<Rightarrow> 't"
    and delete :: "string \<Rightarrow> 't \<Rightarrow> 't"
    and stored :: "'e option \<Rightarrow> 'e \<Rightarrow> 'e"
  assumes find_key: "find t i = Some e \<Longrightarrow> key e = i"
    and find_save_same: "find (save e t) (key e) = Some (stored (find t (key e)) e)"
    and find_save_other: "i \<noteq> key e \<Longrightarrow> find (save e t) i = find t i"
    and find_delete: "find (delete i t) j = (if i = j then None else find t j)"
    and stored_new: "stored None e = e"
    and stored_twice: "stored (Some (stored (Some old) e)) e' = stored (Some old) e'"
begin

lemma find_save:
  "find (save e t) i = (if i = key e then Some (stored (find t i) e) else find t i)"
  by (simp add: find_save_same find_save_other)

lemma save_present: "find (save e t) (key e) \<noteq> None"
  by (simp add: find_save_same)

lemma insert_fresh: "find t (key e) = None \<Longrightarrow> find (save e t) (key e) = Some e"
  by (simp add: find_save_same stored_new)

lemma last_write_wins:
  assumes "key e' = key e" and "find t (key e) = Some old"
  shows "find (save e' (save e t)) = find (save e' t)"
  using assms by (auto simp: find_save stored_twice intro!: ext)

lemma delete_after_save: "find (delete (key e) (save e t)) = find (delete (key e) t)"
  by (rule ext) (simp add: find_delete find_save)

lemma saves_commute:
  "key e \<noteq> key e' \<Longrightarrow> find (save e (save e' t)) = find (save e' (save e t))"
  by (rule ext) (simp add: find_save)

end

end
