(* ===== verification/Suites.thy ===== *)
theory Suites
  imports Go_Base
begin

text \<open>
  \<^verbatim>\<open>internal/domain/model/suite.go\<close> and \<^verbatim>\<open>internal/domain/model/retention.go\<close>: the test suite
  aggregate with its three lifecycle states, and the retention policy (time-to-live windows in days)
  that the housekeeping service evaluates.  \<open>time.Duration(days) * 24 * time.Hour\<close> is 64-bit
  arithmetic and wraps.
\<close>

section \<open>Retention policies\<close>

record retention_policy =
  logs_ttl_days :: int
  reports_ttl_days :: int
  sources_ttl_days :: int
  binaries_ttl_days :: int
  runs_ttl_days :: int
  archive_only :: bool

definition default_retention_policy :: retention_policy where
  "default_retention_policy = \<lparr>logs_ttl_days = 14, reports_ttl_days = 90, sources_ttl_days = 30,
     binaries_ttl_days = 30, runs_ttl_days = 180, archive_only = False\<rparr>"

definition ttl_duration :: "int \<Rightarrow> duration" where
  "ttl_duration days = wrap64 (wrap64 (days * 24) * hour)"

definition logs_duration :: "retention_policy \<Rightarrow> duration" where
  "logs_duration p = ttl_duration (logs_ttl_days p)"

definition reports_duration :: "retention_policy \<Rightarrow> duration" where
  "reports_duration p = ttl_duration (reports_ttl_days p)"

definition sources_duration :: "retention_policy \<Rightarrow> duration" where
  "sources_duration p = ttl_duration (sources_ttl_days p)"

definition binaries_duration :: "retention_policy \<Rightarrow> duration" where
  "binaries_duration p = ttl_duration (binaries_ttl_days p)"

definition runs_duration :: "retention_policy \<Rightarrow> duration" where
  "runs_duration p = ttl_duration (runs_ttl_days p)"

definition retention_validate :: "retention_policy \<Rightarrow> unit result" where
  "retention_validate p =
     (if logs_ttl_days p < 0 then Inl ErrValidation
      else if reports_ttl_days p < 0 then Inl ErrValidation
      else if sources_ttl_days p < 0 then Inl ErrValidation
      else if binaries_ttl_days p < 0 then Inl ErrValidation
      else if runs_ttl_days p < 0 then Inl ErrValidation
      else if runs_ttl_days p > 0 \<and> reports_ttl_days p > 0 \<and> runs_ttl_days p < reports_ttl_days p
      then Inl ErrValidation
      else Inr ())"

definition retention_merge :: "retention_policy \<Rightarrow> retention_policy \<Rightarrow> retention_policy" where
  "retention_merge p ov =
     (let r = p;
          r = (if logs_ttl_days ov > 0 then r\<lparr>logs_ttl_days := logs_ttl_days ov\<rparr> else r);
          r = (if reports_ttl_days ov > 0 then r\<lparr>reports_ttl_days := reports_ttl_days ov\<rparr> else r);
          r = (if sources_ttl_days ov > 0 then r\<lparr>sources_ttl_days := sources_ttl_days ov\<rparr> else r);
          r = (if binaries_ttl_days ov > 0 then r\<lparr>binaries_ttl_days := binaries_ttl_days ov\<rparr> else r);
          r = (if runs_ttl_days ov > 0 then r\<lparr>runs_ttl_days := runs_ttl_days ov\<rparr> else r)
      in if archive_only ov then r\<lparr>archive_only := True\<rparr> else r)"

lemma ttl_duration_exact:
  assumes "0 \<le> d" and "d \<le> 106751"
  shows "ttl_duration d = d * 24 * hour"
proof -
  have "in_int64 (d * 24)" and "in_int64 (d * 24 * hour)"
    using assms by (auto simp: in_int64_def)
  then show ?thesis by (simp add: ttl_duration_def wrap64_id)
qed

text \<open>
  a retention window of at most 106751 days (about 292 years) is the number of nanoseconds it
  names, so the cut-off \<open>now - ttl\<close> of the housekeeping sweep is never in the future; one day more
  overflows the 64-bit duration and the policy, although \<open>Validate\<close> accepts it, puts the cut-off
  after \<open>now\<close>: every terminal run counts as expired.
\<close>

theorem retention_window_overflow:
  "(\<forall>d. 0 \<le> d \<and> d \<le> 106751 \<longrightarrow> ttl_duration d = d * 24 * hour \<and> now - ttl_duration d \<le> now) \<and>
   retention_validate (default_retention_policy\<lparr>logs_ttl_days := 106752\<rparr>) = Inr () \<and>
   now < now - logs_duration (default_retention_policy\<lparr>logs_ttl_days := 106752\<rparr>)"
proof (intro conjI allI impI)
  fix d :: int assume d: "0 \<le> d \<and> d \<le> 106751"
  then show "ttl_duration d = d * 24 * hour" by (simp add: ttl_duration_exact)
  with d show "now - ttl_duration d \<le> now" by simp
next
  show "retention_validate (default_retention_policy\<lparr>logs_ttl_days := 106752\<rparr>) = Inr ()"
    by (simp add: retention_validate_def default_retention_policy_def)
  show "now < now - logs_duration (default_retention_policy\<lparr>logs_ttl_days := 106752\<rparr>)"
    by (simp add: logs_duration_def ttl_duration_def wrap64_def)
qed

theorem retention_window_overflow_witness:
  "ttl_duration 14 = 14 * 24 * hour \<and>
   (0::int) < 0 - logs_duration (default_retention_policy\<lparr>logs_ttl_days := 106752\<rparr>)"
  using retention_window_overflow [of 0] by simp

lemma retention_merge_fields:
  "logs_ttl_days (retention_merge p ov) = (if logs_ttl_days ov > 0 then logs_ttl_days ov else logs_ttl_days p)"
  "reports_ttl_days (retention_merge p ov) =
     (if reports_ttl_days ov > 0 then reports_ttl_days ov else reports_ttl_days p)"
  "sources_ttl_days (retention_merge p ov) =
     (if sources_ttl_days ov > 0 then sources_ttl_days ov else sources_ttl_days p)"
  "binaries_ttl_days (retention_merge p ov) =
     (if binaries_ttl_days ov > 0 then binaries_ttl_days ov else binaries_ttl_days p)"
  "runs_ttl_days (retention_merge p ov) = (if runs_ttl_days ov > 0 then runs_ttl_days ov else runs_ttl_days p)"
  "archive_only (retention_merge p ov) = (archive_only ov \<or> archive_only p)"
  by (simp_all add: retention_merge_def Let_def)

text \<open>
  Merging a suite's override into the global policy keeps every window non-negative and is
  idempotent, and the override can never switch \<open>archive_only\<close> off or set a window to 0; but two
  policies that both pass \<open>Validate\<close> can merge into one that does not, because the ordering of run
  and report windows is not checked again.
\<close>

theorem retention_merge_laws:
  "retention_merge (retention_merge p ov) ov = retention_merge p ov \<and>
   (archive_only p \<longrightarrow> archive_only (retention_merge p ov)) \<and>
   (logs_ttl_days p > 0 \<longrightarrow> logs_ttl_days (retention_merge p ov) > 0) \<and>
   (retention_validate p = Inr () \<longrightarrow>
      0 \<le> logs_ttl_days (retention_merge p ov) \<and> 0 \<le> reports_ttl_days (retention_merge p ov) \<and>
      0 \<le> sources_ttl_days (retention_merge p ov) \<and> 0 \<le> binaries_ttl_days (retention_merge p ov) \<and>
      0 \<le> runs_ttl_days (retention_merge p ov)) \<and>
   (\<exists>q. retention_validate default_retention_policy = Inr () \<and> retention_validate q = Inr () \<and>
        retention_validate (retention_merge default_retention_policy q) = Inl ErrValidation)"
proof (intro conjI impI)
  show "retention_merge (retention_merge p ov) ov = retention_merge p ov"
    by (rule retention_policy.equality) (simp_all add: retention_merge_fields)
  let ?q = "\<lparr>logs_ttl_days = 0, reports_ttl_days = 365, sources_ttl_days = 0, binaries_ttl_days = 0,
     runs_ttl_days = 0, archive_only = False\<rparr>"
  show "\<exists>q. retention_validate default_retention_policy = Inr () \<and> retention_validate q = Inr () \<and>
        retention_validate (retention_merge default_retention_policy q) = Inl ErrValidation"
    by (rule exI [of _ ?q])
      (simp add: retention_validate_def retention_merge_fields default_retention_policy_def)
qed (auto simp: retention_merge_fields retention_validate_def split: if_splits)

theorem retention_merge_laws_witness:
  "retention_merge (retention_merge default_retention_policy default_retention_policy)
     default_retention_policy = retention_merge default_retention_policy default_retention_policy"
  using retention_merge_laws [of default_retention_policy default_retention_policy] by blast

section \<open>Test suites\<close>

datatype suite_state =
  TestSuiteStateDraft | TestSuiteStateActive | TestSuiteStateArchived | TestSuiteStateOther string

fun suite_state_valid :: "suite_state \<Rightarrow> bool" where
  "suite_state_valid (TestSuiteStateOther _) = False"
| "suite_state_valid _ = True"

record test_suite =
  suite_id :: string
  suite_name :: string
  suite_description :: string
  suite_state :: suite_state
  suite_retention :: "retention_policy option"
  suite_created_at :: time
  suite_updated_at :: time

definition new_test_suite :: "string \<Rightarrow> time \<Rightarrow> string \<Rightarrow> string \<Rightarrow> test_suite result" where
  "new_test_suite uuid now name desc =
     (if trim_space name = '''' then Inl ErrEmptyName
      else Inr \<lparr>suite_id = uuid, suite_name = trim_space name, suite_description = trim_space desc,
             suite_state = TestSuiteStateDraft, suite_retention = None,
             suite_created_at = now, suite_updated_at = now\<rparr>)"

definition new_test_suite_with_id ::
  "string \<Rightarrow> string \<Rightarrow> string \<Rightarrow> suite_state \<Rightarrow> time \<Rightarrow> time \<Rightarrow> test_suite result" where
  "new_test_suite_with_id i name desc st created updated =
     (if trim_space name = '''' then Inl ErrEmptyName
      else if \<not> suite_state_valid st then Inl ErrInvalidStateTransition
      else Inr \<lparr>suite_id = i, suite_name = trim_space name, suite_description = desc,
             suite_state = st, suite_retention = None,
             suite_created_at = created, suite_updated_at = updated\<rparr>)"

definition set_retention_policy :: "retention_policy option \<Rightarrow> test_suite \<Rightarrow> test_suite" where
  "set_retention_policy p s = s\<lparr>suite_retention := p\<rparr>"

definition suite_activate :: "time \<Rightarrow> test_suite \<Rightarrow> test_suite result" where
  "suite_activate now s =
     (if suite_state s = TestSuiteStateActive then Inl ErrInvalidStateTransition
      else Inr (s\<lparr>suite_state := TestSuiteStateActive, suite_updated_at := now\<rparr>))"

definition suite_archive :: "time \<Rightarrow> test_suite \<Rightarrow> test_suite result" where
  "suite_archive now s =
     (if suite_state s = TestSuiteStateArchived then Inl ErrInvalidStateTransition
      else Inr (s\<lparr>suite_state := TestSuiteStateArchived, suite_updated_at := now\<rparr>))"

definition suite_set_draft :: "time \<Rightarrow> test_suite \<Rightarrow> test_suite result" where
  "suite_set_draft now s =
     (if suite_state s = TestSuiteStateDraft then Inl ErrInvalidStateTransition
      else Inr (s\<lparr>suite_state := TestSuiteStateDraft, suite_updated_at := now\<rparr>))"

definition suite_transition_state :: "time \<Rightarrow> suite_state \<Rightarrow> test_suite \<Rightarrow> test_suite result" where
  "suite_transition_state now target s =
     (if \<not> suite_state_valid target then Inl ErrInvalidStateTransition
      else if suite_state s = target then Inr s
      else case target of
             TestSuiteStateDraft \<Rightarrow> suite_set_draft now s
           | TestSuiteStateActive \<Rightarrow> suite_activate now s
           | TestSuiteStateArchived \<Rightarrow> suite_archive now s
           | TestSuiteStateOther _ \<Rightarrow> Inl ErrInvalidStateTransition)"

definition suite_update_details :: "time \<Rightarrow> string \<Rightarrow> string \<Rightarrow> test_suite \<Rightarrow> test_suite result" where
  "suite_update_details now name desc s =
     (if suite_state s = TestSuiteStateArchived then Inl ErrInvalidStateTransition
      else if trim_space name = '''' then Inl ErrEmptyName
      else Inr (s\<lparr>suite_name := trim_space name, suite_description := trim_space desc,
                  suite_updated_at := now\<rparr>))"

lemmas suite_op_defs = suite_activate_def suite_archive_def suite_set_draft_def
  suite_transition_state_def suite_update_details_def

lemma suite_transition_state_result:
  "suite_transition_state now target s =
     (if \<not> suite_state_valid target then Inl ErrInvalidStateTransition
      else if suite_state s = target then Inr s
      else Inr (s\<lparr>suite_state := target, suite_updated_at := now\<rparr>))"
  by (cases target) (auto simp: suite_op_defs)

lemma suite_ops_id:
  "suite_transition_state now t s = Inr s' \<Longrightarrow> suite_id s' = suite_id s"
  "suite_update_details now n d s = Inr s' \<Longrightarrow> suite_id s' = suite_id s"
  by (auto simp: suite_transition_state_result suite_update_details_def split: if_splits)

end
