(* ===== verification/Runs.thy ===== *)
theory Runs
  imports Go_Base Lifecycle "HOL-Library.Word"
begin

text \<open>
  \<^verbatim>\<open>internal/domain/model/run.go\<close>: the \<open>TestRun\<close> aggregate and its lifecycle.
  A method that mutates the receiver and returns an error is a function to a sum: \<open>Inl\<close> leaves the
  receiver as it was.  Optional pointers are \<open>option\<close>; \<open>float64\<close> metrics are carried as their
  64-bit patterns, because the aggregate only stores them.  The identifier \<open>uuid.NewString()\<close> and
  \<open>time.Now()\<close> are arguments.
\<close>

section \<open>Data\<close>

datatype run_status =
    RunStatusQueued | RunStatusRunning | RunStatusCompleted | RunStatusFailed
  | RunStatusAborted | RunStatusArchived | RunStatusOther string

fun run_status_valid :: "run_status \<Rightarrow> bool" where
  "run_status_valid (RunStatusOther _) = False"
| "run_status_valid _ = True"

fun run_status_terminal :: "run_status \<Rightarrow> bool" where
  "run_status_terminal RunStatusCompleted = True"
| "run_status_terminal RunStatusFailed = True"
| "run_status_terminal RunStatusAborted = True"
| "run_status_terminal RunStatusArchived = True"
| "run_status_terminal _ = False"

type_synonym f64 = "64 word"

record run_metrics =
  total_iterations :: int
  total_requests :: int
  avg_tps :: f64
  p50_duration_ms :: f64
  p90_duration_ms :: f64
  p95_duration_ms :: f64
  p99_duration_ms :: f64
  error_rate_pct :: f64

definition zero_metrics :: run_metrics where
  "zero_metrics = \<lparr>total_iterations = 0, total_requests = 0, avg_tps = 0, p50_duration_ms = 0,
     p90_duration_ms = 0, p95_duration_ms = 0, p99_duration_ms = 0, error_rate_pct = 0\<rparr>"

record test_run =
  run_id :: string
  run_suite_id :: string
  run_artifact_id :: string
  run_configuration_id :: "string option"
  run_profile_id :: string
  run_schedule_id :: "string option"
  run_state :: run_status
  k8s_job_name :: string
  k8s_namespace :: string
  started_at :: "time option"
  finished_at :: "time option"
  exit_code :: "int option"
  sla_passed :: "bool option"
  run_metrics :: run_metrics
  s3_report_key :: string
  s3_logs_key :: string
  summary_json :: "string option"
  abort_reason :: string
  run_created_at :: time

definition default_runner_namespace :: string where
  "default_runner_namespace = ''vuhive-runners''"

section \<open>Construction\<close>

definition new_test_run ::
  "string \<Rightarrow> time \<Rightarrow> string \<Rightarrow> string \<Rightarrow> string option \<Rightarrow> string \<Rightarrow> string option \<Rightarrow> string list
    \<Rightarrow> test_run result" where
  "new_test_run uuid now suite artifact cfg profile sched namespaces =
     (let s = trim_space suite; a = trim_space artifact; p = trim_space profile;
          ns = (case namespaces of [] \<Rightarrow> default_runner_namespace
                | n # _ \<Rightarrow> if trim_space n = '''' then default_runner_namespace else trim_space n)
      in if s = '''' \<or> a = '''' \<or> p = '''' then Inl ErrValidation
         else Inr \<lparr>run_id = uuid, run_suite_id = s, run_artifact_id = a,
                    run_configuration_id = opt_trim cfg, run_profile_id = p,
                    run_schedule_id = opt_trim sched, run_state = RunStatusQueued,
                    k8s_job_name = '''', k8s_namespace = ns, started_at = None, finished_at = None,
                    exit_code = None, sla_passed = None, run_metrics = zero_metrics,
                    s3_report_key = '''', s3_logs_key = '''', summary_json = None,
                    abort_reason = '''', run_created_at = now\<rparr>)"

text \<open>\<open>NewTestRunWithID\<close> rebuilds a stored run: it checks the status and defaults the namespace.\<close>

definition new_test_run_with_id :: "test_run \<Rightarrow> test_run result" where
  "new_test_run_with_id row =
     (if \<not> run_status_valid (run_state row) then Inl ErrInvalidStateTransition
      else Inr (row\<lparr>k8s_namespace :=
             (let ns = trim_space (k8s_namespace row)
              in if ns = '''' then default_runner_namespace else ns)\<rparr>))"

definition duration_ms :: "time \<Rightarrow> test_run \<Rightarrow> int option" where
  "duration_ms now r =
     (case started_at r of None \<Rightarrow> None
      | Some st \<Rightarrow>
          let fin = (case finished_at r of None \<Rightarrow> now | Some f \<Rightarrow> f)
          in Some (go_div (time_sub fin st) millisecond))"

section \<open>Operations\<close>

definition set_k8s_job_name :: "string \<Rightarrow> test_run \<Rightarrow> test_run" where
  "set_k8s_job_name n r = r\<lparr>k8s_job_name := trim_space n\<rparr>"

definition set_k8s_namespace :: "string \<Rightarrow> test_run \<Rightarrow> test_run" where
  "set_k8s_namespace n r =
     r\<lparr>k8s_namespace := (if trim_space n = '''' then default_runner_namespace else trim_space n)\<rparr>"

definition run_start :: "string \<Rightarrow> time \<Rightarrow> test_run \<Rightarrow> test_run result" where
  "run_start job t r =
     (if run_status_terminal (run_state r) then Inl ErrTerminalState
      else if run_state r \<noteq> RunStatusQueued then Inl ErrInvalidStateTransition
      else Inr (r\<lparr>k8s_job_name := (if trim_space job = '''' then k8s_job_name r else trim_space job),
                  started_at := Some t, run_state := RunStatusRunning\<rparr>))"

definition run_complete ::
  "run_metrics \<Rightarrow> string \<Rightarrow> string \<Rightarrow> string option \<Rightarrow> bool \<Rightarrow> time \<Rightarrow> test_run \<Rightarrow> test_run result" where
  "run_complete m report logs summary sla t r =
     (if run_status_terminal (run_state r) then Inl ErrTerminalState
      else if run_state r \<noteq> RunStatusRunning then Inl ErrInvalidStateTransition
      else Inr (r\<lparr>exit_code := Some 0, sla_passed := Some sla, run_metrics := m,
                  s3_report_key := trim_space report, s3_logs_key := trim_space logs,
                  summary_json := summary, finished_at := Some t,
                  run_state := RunStatusCompleted\<rparr>))"

definition set_exit_code :: "int \<Rightarrow> test_run \<Rightarrow> test_run" where
  "set_exit_code c r = r\<lparr>exit_code := Some c\<rparr>"

definition run_fail :: "int \<Rightarrow> string \<Rightarrow> time \<Rightarrow> test_run \<Rightarrow> test_run result" where
  "run_fail code logs t r =
     (if run_status_terminal (run_state r) then Inl ErrTerminalState
      else Inr (r\<lparr>exit_code := Some code, sla_passed := Some False,
                  s3_logs_key := trim_space logs, finished_at := Some t,
                  run_state := RunStatusFailed\<rparr>))"

definition run_fail_with_metrics ::
  "int \<Rightarrow> run_metrics \<Rightarrow> string \<Rightarrow> string \<Rightarrow> string option \<Rightarrow> time \<Rightarrow> test_run \<Rightarrow> test_run result" where
  "run_fail_with_metrics code m report logs summary t r =
     (if run_status_terminal (run_state r) then Inl ErrTerminalState
      else Inr (r\<lparr>exit_code := Some code, sla_passed := Some False, run_metrics := m,
                  s3_report_key := trim_space report, s3_logs_key := trim_space logs,
                  summary_json := summary, finished_at := Some t,
                  run_state := RunStatusFailed\<rparr>))"

definition run_abort :: "string \<Rightarrow> time \<Rightarrow> test_run \<Rightarrow> test_run result" where
  "run_abort reason t r =
     (if run_status_terminal (run_state r) then Inl ErrTerminalState
      else Inr (r\<lparr>abort_reason := trim_space reason, finished_at := Some t,
                  run_state := RunStatusAborted\<rparr>))"

definition run_archive :: "time \<Rightarrow> test_run \<Rightarrow> test_run result" where
  "run_archive t r =
     (if run_state r = RunStatusArchived then Inl ErrTerminalState
      else if \<not> run_status_terminal (run_state r) then Inl ErrInvalidStateTransition
      else Inr (r\<lparr>summary_json := None, run_state := RunStatusArchived\<rparr>))"

definition clear_s3_logs_key :: "test_run \<Rightarrow> test_run" where
  "clear_s3_logs_key r = r\<lparr>s3_logs_key := ''''\<rparr>"

definition clear_s3_report_key :: "test_run \<Rightarrow> test_run" where
  "clear_s3_report_key r = r\<lparr>s3_report_key := ''''\<rparr>"

lemmas run_op_defs = run_start_def run_complete_def run_fail_def run_fail_with_metrics_def
  run_abort_def run_archive_def

lemmas run_set_defs = set_k8s_job_name_def set_k8s_namespace_def set_exit_code_def
  clear_s3_logs_key_def clear_s3_report_key_def

section \<open>Executions\<close>

inductive run_step :: "test_run \<Rightarrow> test_run \<Rightarrow> bool" where
  start: "run_start job t r = Inr r' \<Longrightarrow> run_step r r'"
| complete: "run_complete m rk lk s sla t r = Inr r' \<Longrightarrow> run_step r r'"
| fail: "run_fail c lk t r = Inr r' \<Longrightarrow> run_step r r'"
| fail_metrics: "run_fail_with_metrics c m rk lk s t r = Inr r' \<Longrightarrow> run_step r r'"
| abort: "run_abort reason t r = Inr r' \<Longrightarrow> run_step r r'"
| archive: "run_archive t r = Inr r' \<Longrightarrow> run_step r r'"
| exit: "run_step r (set_exit_code c r)"
| job: "run_step r (set_k8s_job_name n r)"
| namespace: "run_step r (set_k8s_namespace n r)"
| clear_logs: "run_step r (clear_s3_logs_key r)"
| clear_report: "run_step r (clear_s3_report_key r)"

definition initial_run :: "test_run \<Rightarrow> bool" where
  "initial_run r \<longleftrightarrow> (\<exists>u now s a c p sc ns. new_test_run u now s a c p sc ns = Inr r)"

fun run_rank :: "run_status \<Rightarrow> nat" where
  "run_rank RunStatusQueued = 0"
| "run_rank RunStatusRunning = 1"
| "run_rank RunStatusCompleted = 2"
| "run_rank RunStatusFailed = 2"
| "run_rank RunStatusAborted = 2"
| "run_rank RunStatusArchived = 3"
| "run_rank (RunStatusOther _) = 0"

text \<open>What a status says of the other fields.\<close>

definition run_wf :: "test_run \<Rightarrow> bool" where
  "run_wf r \<longleftrightarrow>
     run_status_valid (run_state r) \<and> k8s_namespace r \<noteq> '''' \<and>
     (finished_at r \<noteq> None) = run_status_terminal (run_state r) \<and>
     (case run_state r of
        RunStatusQueued \<Rightarrow> started_at r = None \<and> sla_passed r = None
      | RunStatusRunning \<Rightarrow> started_at r \<noteq> None \<and> sla_passed r = None
      | RunStatusCompleted \<Rightarrow> started_at r \<noteq> None \<and> exit_code r \<noteq> None \<and> sla_passed r \<noteq> None
      | RunStatusFailed \<Rightarrow> exit_code r \<noteq> None \<and> sla_passed r = Some False
      | RunStatusAborted \<Rightarrow> sla_passed r = None
      | RunStatusArchived \<Rightarrow> summary_json r = None
      | RunStatusOther _ \<Rightarrow> False)"

lemma default_namespace_nonblank [simp]: "default_runner_namespace \<noteq> ''''"
  by (simp add: default_runner_namespace_def)

lemma new_test_run_wf: "new_test_run u now s a c p sc ns = Inr r \<Longrightarrow> run_wf r"
  by (auto simp: new_test_run_def run_wf_def Let_def split: if_splits list.splits)

lemma run_start_wf: "run_start j t r = Inr r' \<Longrightarrow> run_wf r \<Longrightarrow> run_wf r'"
  by (cases "run_state r") (auto simp: run_start_def run_wf_def split: if_splits)

lemma run_complete_wf: "run_complete m rk lk s sla t r = Inr r' \<Longrightarrow> run_wf r \<Longrightarrow> run_wf r'"
  by (cases "run_state r") (auto simp: run_complete_def run_wf_def)

lemma run_fail_wf: "run_fail c lk t r = Inr r' \<Longrightarrow> run_wf r \<Longrightarrow> run_wf r'"
  by (cases "run_state r") (auto simp: run_fail_def run_wf_def)

lemma run_fail_with_metrics_wf:
  "run_fail_with_metrics c m rk lk s t r = Inr r' \<Longrightarrow> run_wf r \<Longrightarrow> run_wf r'"
  by (cases "run_state r") (auto simp: run_fail_with_metrics_def run_wf_def)

lemma run_abort_wf: "run_abort reason t r = Inr r' \<Longrightarrow> run_wf r \<Longrightarrow> run_wf r'"
  by (cases "run_state r") (auto simp: run_abort_def run_wf_def)

lemma run_archive_wf: "run_archive t r = Inr r' \<Longrightarrow> run_wf r \<Longrightarrow> run_wf r'"
  by (cases "run_state r") (auto simp: run_archive_def run_wf_def)

lemma run_set_wf:
  "run_wf r \<Longrightarrow> run_wf (set_exit_code c r)"
  "run_wf r \<Longrightarrow> run_wf (set_k8s_job_name n r)"
  "run_wf r \<Longrightarrow> run_wf (set_k8s_namespace n r)"
  "run_wf r \<Longrightarrow> run_wf (clear_s3_logs_key r)"
  "run_wf r \<Longrightarrow> run_wf (clear_s3_report_key r)"
  by (simp_all add: run_set_defs run_wf_def split: run_status.splits)

lemmas run_wf_intros = run_start_wf run_complete_wf run_fail_wf run_fail_with_metrics_wf run_abort_wf
  run_archive_wf run_set_wf

lemma run_step_wf: "run_step r r' \<Longrightarrow> run_wf r \<Longrightarrow> run_wf r'"
  by (induction rule: run_step.induct) (blast intro: run_wf_intros)+

lemma run_step_rank:
  "run_step r r' \<Longrightarrow> run_state r' = run_state r \<or> run_rank (run_state r) < run_rank (run_state r')"
proof (induction rule: run_step.induct)
  case (start job t r r')
  then show ?case by (cases "run_state r") (auto simp: run_start_def)
next
  case (complete m rk lk s sla t r r')
  then show ?case by (cases "run_state r") (auto simp: run_complete_def)
next
  case (fail c lk t r r')
  then show ?case by (cases "run_state r") (auto simp: run_fail_def)
next
  case (fail_metrics c m rk lk s t r r')
  then show ?case by (cases "run_state r") (auto simp: run_fail_with_metrics_def)
next
  case (abort reason t r r')
  then show ?case by (cases "run_state r") (auto simp: run_abort_def)
next
  case (archive t r r')
  then show ?case by (cases "run_state r") (auto simp: run_archive_def)
qed (simp_all add: run_set_defs)

interpretation run_life: lifecycle_invariant run_state run_step run_rank initial_run run_wf
proof unfold_locales
  show "run_state y = run_state x \<or> run_rank (run_state x) < run_rank (run_state y)"
    if "run_step x y" for x y using that by (rule run_step_rank)
  show "run_wf x" if "initial_run x" for x
    using that unfolding initial_run_def by (elim exE) (rule new_test_run_wf)
  show "run_wf y" if "run_step x y" and "run_wf x" for x y using that by (rule run_step_wf)
qed

section \<open>Facts the services use\<close>

lemma run_ops_id:
  "run_start j t r = Inr r' \<Longrightarrow> run_id r' = run_id r"
  "run_complete m rk lk s sla t r = Inr r' \<Longrightarrow> run_id r' = run_id r"
  "run_fail c lk t r = Inr r' \<Longrightarrow> run_id r' = run_id r"
  "run_abort reason t r = Inr r' \<Longrightarrow> run_id r' = run_id r"
  by (auto simp: run_op_defs split: if_splits)

lemma run_ops_not_terminal:
  assumes "\<not> run_status_terminal (run_state r)"
  shows "\<exists>r'. run_fail c lk t r = Inr r'" and "\<exists>r'. run_abort reason t r = Inr r'"
  using assms by (simp_all add: run_op_defs)

text \<open>
  C16: every run that the operations can produce from a freshly created one is well formed: its status
  is one of the six, \<open>finishedAt\<close> is set exactly in the terminal states, and the start time, exit
  code, SLA verdict and summary agree with the status.
\<close>

theorem run_reachable_wf:
  assumes "new_test_run u now s a c p sc ns = Inr r0" and "run_step\<^sup>*\<^sup>* r0 r"
  shows "run_wf r"
proof -
  have "initial_run r0" unfolding initial_run_def by (intro exI) (rule assms(1))
  then show ?thesis using assms(2) by (rule run_life.reach_inv)
qed

theorem run_reachable_wf_witness:
  "\<exists>r0 r1 r2. new_test_run ''r1'' 5 '' s '' ''a'' None ''p'' None [] = Inr r0 \<and>
     run_start ''job'' 7 r0 = Inr r1 \<and> run_fail 2 '''' 9 r1 = Inr r2 \<and> run_wf r2"
proof -
  obtain r0 where r0: "new_test_run ''r1'' 5 '' s '' ''a'' None ''p'' None [] = Inr r0"
      "run_state r0 = RunStatusQueued"
    by (simp add: new_test_run_def trim_eval)
  obtain r1 where r1: "run_start ''job'' 7 r0 = Inr r1" "run_state r1 = RunStatusRunning"
    using r0 by (simp add: run_start_def)
  obtain r2 where r2: "run_fail 2 '''' 9 r1 = Inr r2"
    using r1 by (simp add: run_fail_def)
  have "run_step\<^sup>*\<^sup>* r0 r2"
    using run_step.start [OF r1(1)] run_step.fail [OF r2] by simp
  from run_reachable_wf [OF r0(1) this] r0 r1 r2 show ?thesis by blast
qed

text \<open>
  no execution leaves a terminal state except by archiving, and none ever returns to a status it
  has left; an archived run stays archived.
\<close>

theorem run_terminal_final:
  assumes "run_status_terminal (run_state r)" and "run_step\<^sup>*\<^sup>* r r'"
  shows "run_state r' = run_state r \<or> run_state r' = RunStatusArchived"
proof -
  have "run_rank (run_state r) \<ge> 2" using assms(1) by (cases "run_state r") simp_all
  with run_life.reach_rank [OF assms(2)] show ?thesis
    by (cases "run_state r'") auto
qed

definition sample_run :: "run_status \<Rightarrow> test_run" where
  "sample_run st = \<lparr>run_id = ''r1'', run_suite_id = ''s1'', run_artifact_id = ''a1'',
     run_configuration_id = None, run_profile_id = ''p1'', run_schedule_id = None,
     run_state = st, k8s_job_name = ''job'', k8s_namespace = ''vuhive-runners'',
     started_at = Some 5, finished_at = Some 9, exit_code = Some 2, sla_passed = Some False,
     run_metrics = zero_metrics, s3_report_key = '''', s3_logs_key = ''logs'',
     summary_json = Some ''{}'', abort_reason = '''', run_created_at = 1\<rparr>"

theorem run_terminal_final_witness:
  "run_step\<^sup>*\<^sup>* (sample_run RunStatusFailed) (sample_run RunStatusFailed\<lparr>s3_logs_key := ''''\<rparr>) \<and>
   run_state (sample_run RunStatusFailed\<lparr>s3_logs_key := ''''\<rparr>) \<in> {RunStatusFailed, RunStatusArchived}"
proof -
  have *: "run_step\<^sup>*\<^sup>* (sample_run RunStatusFailed) (sample_run RunStatusFailed\<lparr>s3_logs_key := ''''\<rparr>)"
    using run_step.clear_logs [of "sample_run RunStatusFailed"] by (simp add: clear_s3_logs_key_def)
  moreover have "run_status_terminal (run_state (sample_run RunStatusFailed))"
    by (simp add: sample_run_def)
  ultimately show ?thesis using run_terminal_final [OF _ *] by (simp add: sample_run_def)
qed

text \<open>
  Archiving keeps the indexed KPI metrics, the SLA verdict and the exit code, and drops only the
  raw summary document; it is refused in every state that is not terminal and in \<open>ARCHIVED\<close> itself.
\<close>

theorem run_archive_effect:
  "run_archive t r =
     (case run_state r of
        RunStatusArchived \<Rightarrow> Inl ErrTerminalState
      | RunStatusQueued \<Rightarrow> Inl ErrInvalidStateTransition
      | RunStatusRunning \<Rightarrow> Inl ErrInvalidStateTransition
      | RunStatusOther _ \<Rightarrow> Inl ErrInvalidStateTransition
      | _ \<Rightarrow> Inr (r\<lparr>summary_json := None, run_state := RunStatusArchived\<rparr>))"
  by (cases "run_state r") (simp_all add: run_archive_def)

end
