(* ===== verification/Artifacts.thy ===== *)
theory Artifacts
  imports Go_Text Lifecycle
begin

text \<open>
  \<^verbatim>\<open>internal/domain/model/artifact.go\<close>: the compiled binary artifact, its platforms and its compilation
  lifecycle.  The lifecycle is not monotone: \<open>RetryBuild\<close> takes a failed or cancelled artifact back
  to \<open>PENDING\<close>, but \<open>READY\<close> is final.  The invariant says what a \<open>READY\<close> artifact must carry.
\<close>

section \<open>Data\<close>

datatype platform = PlatformLinuxAmd64 | PlatformLinuxArm64 | PlatformOther string

fun platform_valid :: "platform \<Rightarrow> bool" where
  "platform_valid (PlatformOther _) = False"
| "platform_valid _ = True"

definition platform_of_string :: "string \<Rightarrow> platform" where
  "platform_of_string s =
     (if s = ''linux/amd64'' then PlatformLinuxAmd64
      else if s = ''linux/arm64'' then PlatformLinuxArm64 else PlatformOther s)"

definition parse_platform :: "string \<Rightarrow> platform result" where
  "parse_platform s =
     (let p = platform_of_string (trim_space s)
      in if \<not> platform_valid p then Inl ErrInvalidPlatform else Inr p)"

datatype artifact_status =
    ArtifactStatusPending | ArtifactStatusBuilding | ArtifactStatusReady
  | ArtifactStatusFailed | ArtifactStatusCancelled | ArtifactStatusOther string

fun artifact_status_valid :: "artifact_status \<Rightarrow> bool" where
  "artifact_status_valid (ArtifactStatusOther _) = False"
| "artifact_status_valid _ = True"

record artifact =
  art_id :: string
  art_suite_id :: string
  art_platform :: platform
  art_description :: string
  s3_binary_key :: string
  sha256_checksum :: string
  build_logs_s3_key :: string
  art_state :: artifact_status
  error_message :: string
  art_created_at :: time

section \<open>Construction\<close>

definition new_artifact ::
  "string \<Rightarrow> time \<Rightarrow> string \<Rightarrow> platform \<Rightarrow> string list \<Rightarrow> artifact result" where
  "new_artifact uuid now suite p desc =
     (if trim_space suite = '''' then Inl ErrValidation
      else if \<not> platform_valid p then Inl ErrInvalidPlatform
      else Inr \<lparr>art_id = uuid, art_suite_id = trim_space suite, art_platform = p,
             art_description = (case desc of [] \<Rightarrow> '''' | d # _ \<Rightarrow> trim_space d),
             s3_binary_key = '''', sha256_checksum = '''', build_logs_s3_key = '''',
             art_state = ArtifactStatusPending, error_message = '''', art_created_at = now\<rparr>)"

definition new_artifact_with_id :: "artifact \<Rightarrow> artifact result" where
  "new_artifact_with_id row =
     (if trim_space (art_suite_id row) = '''' then Inl ErrValidation
      else if \<not> platform_valid (art_platform row) then Inl ErrInvalidPlatform
      else if \<not> artifact_status_valid (art_state row) then Inl ErrInvalidStateTransition
      else Inr (row\<lparr>art_suite_id := trim_space (art_suite_id row),
                    art_description := trim_space (art_description row)\<rparr>))"

section \<open>Operations\<close>

definition is_hex :: "char \<Rightarrow> bool" where
  "is_hex c = (let n = (of_char c :: nat)
     in (48 \<le> n \<and> n \<le> 57) \<or> (97 \<le> n \<and> n \<le> 102) \<or> (65 \<le> n \<and> n \<le> 70))"

definition is_valid_sha256 :: "string \<Rightarrow> bool" where
  "is_valid_sha256 s \<longleftrightarrow> length s = 64 \<and> list_all is_hex s"

definition artifact_final :: "artifact_status \<Rightarrow> bool" where
  "artifact_final st \<longleftrightarrow>
     st = ArtifactStatusReady \<or> st = ArtifactStatusFailed \<or> st = ArtifactStatusCancelled"

definition set_description :: "string \<Rightarrow> artifact \<Rightarrow> artifact" where
  "set_description d a = a\<lparr>art_description := trim_space d\<rparr>"

definition mark_building :: "artifact \<Rightarrow> artifact result" where
  "mark_building a =
     (if artifact_final (art_state a) then Inl ErrTerminalState
      else if art_state a \<noteq> ArtifactStatusPending then Inl ErrInvalidStateTransition
      else Inr (a\<lparr>art_state := ArtifactStatusBuilding\<rparr>))"

definition mark_ready :: "string \<Rightarrow> string \<Rightarrow> artifact \<Rightarrow> artifact result" where
  "mark_ready key checksum a =
     (if artifact_final (art_state a) then Inl ErrTerminalState
      else if art_state a \<noteq> ArtifactStatusBuilding then Inl ErrInvalidStateTransition
      else if trim_space key = '''' then Inl ErrEmptyS3Key
      else if \<not> is_valid_sha256 (trim_space checksum) then Inl ErrInvalidChecksum
      else Inr (a\<lparr>s3_binary_key := trim_space key, sha256_checksum := trim_space checksum,
                  art_state := ArtifactStatusReady\<rparr>))"

definition mark_failed :: "string \<Rightarrow> string \<Rightarrow> artifact \<Rightarrow> artifact result" where
  "mark_failed msg logs a =
     (if artifact_final (art_state a) then Inl ErrTerminalState
      else Inr (a\<lparr>error_message := msg, build_logs_s3_key := logs,
                  art_state := ArtifactStatusFailed\<rparr>))"

definition artifact_cancel :: "string \<Rightarrow> artifact \<Rightarrow> artifact result" where
  "artifact_cancel reason a =
     (if artifact_final (art_state a) then Inl ErrTerminalState
      else Inr (a\<lparr>error_message :=
                    (if trim_space reason = '''' then ''manual cancellation'' else trim_space reason),
                  art_state := ArtifactStatusCancelled\<rparr>))"

definition artifact_retry_build :: "artifact \<Rightarrow> artifact result" where
  "artifact_retry_build a =
     (if art_state a \<noteq> ArtifactStatusFailed \<and> art_state a \<noteq> ArtifactStatusCancelled
      then Inl ErrInvalidStateTransition
      else Inr (a\<lparr>art_state := ArtifactStatusPending, error_message := '''',
                  build_logs_s3_key := ''''\<rparr>))"

lemmas artifact_op_defs = mark_building_def mark_ready_def mark_failed_def artifact_cancel_def
  artifact_retry_build_def artifact_final_def

section \<open>Executions\<close>

inductive artifact_step :: "artifact \<Rightarrow> artifact \<Rightarrow> bool" where
  building: "mark_building a = Inr a' \<Longrightarrow> artifact_step a a'"
| ready: "mark_ready k c a = Inr a' \<Longrightarrow> artifact_step a a'"
| failed: "mark_failed m l a = Inr a' \<Longrightarrow> artifact_step a a'"
| cancel: "artifact_cancel r a = Inr a' \<Longrightarrow> artifact_step a a'"
| retry: "artifact_retry_build a = Inr a' \<Longrightarrow> artifact_step a a'"
| describe: "artifact_step a (set_description d a)"

inductive_simps artifact_step_iff: "artifact_step a a'"

definition artifact_wf :: "artifact \<Rightarrow> bool" where
  "artifact_wf a \<longleftrightarrow>
     artifact_status_valid (art_state a) \<and> platform_valid (art_platform a) \<and>
     art_suite_id a \<noteq> '''' \<and> trimmed (art_suite_id a) \<and>
     (if art_state a = ArtifactStatusReady
      then s3_binary_key a \<noteq> '''' \<and> trimmed (s3_binary_key a) \<and> is_valid_sha256 (sha256_checksum a)
      else s3_binary_key a = '''' \<and> sha256_checksum a = '''')"

lemma new_artifact_wf: "new_artifact u now s p d = Inr a \<Longrightarrow> artifact_wf a"
  by (auto simp: new_artifact_def artifact_wf_def split: if_splits)

lemma artifact_step_wf: "artifact_step a a' \<Longrightarrow> artifact_wf a \<Longrightarrow> artifact_wf a'"
  by (induction rule: artifact_step.induct)
    (auto simp: artifact_op_defs artifact_wf_def set_description_def split: if_splits)

text \<open>
  Artifacts before \<open>READY\<close> cycle through \<open>PENDING\<close>; ranked by "built or not" the lifecycle is still
  monotone, which is what makes \<open>READY\<close> final.
\<close>

definition built :: "artifact \<Rightarrow> bool" where
  "built a \<longleftrightarrow> art_state a = ArtifactStatusReady"

lemma artifact_step_built: "artifact_step a a' \<Longrightarrow> built a \<Longrightarrow> built a'"
  by (induction rule: artifact_step.induct)
    (auto simp: artifact_op_defs built_def set_description_def split: if_splits)

interpretation artifact_life: lifecycle_invariant built artifact_step "\<lambda>b. if b then 1 else 0"
  "\<lambda>a. \<exists>u now s p d. new_artifact u now s p d = Inr a" artifact_wf
proof unfold_locales
  show "built y = built x \<or> (if built x then 1 else 0) < (if built y then 1 else (0::nat))"
    if "artifact_step x y" for x y using artifact_step_built [OF that] by auto
  show "artifact_wf x" if "\<exists>u now s p d. new_artifact u now s p d = Inr x" for x
    using that by (elim exE) (rule new_artifact_wf)
  show "artifact_wf y" if "artifact_step x y" and "artifact_wf x" for x y
    using that by (rule artifact_step_wf)
qed

text \<open>
  an artifact that is \<open>READY\<close> after any sequence of the aggregate's operations has a non-blank
  storage key and a checksum of 64 hexadecimal digits, and no further operation takes it out of
  \<open>READY\<close>; an artifact in any other state has neither key nor checksum.
\<close>

theorem artifact_ready_sound:
  assumes "new_artifact u now s p d = Inr a0" and "artifact_step\<^sup>*\<^sup>* a0 a"
  shows "if art_state a = ArtifactStatusReady
         then s3_binary_key a \<noteq> '''' \<and> is_valid_sha256 (sha256_checksum a) \<and>
              (\<forall>a'. artifact_step\<^sup>*\<^sup>* a a' \<longrightarrow> art_state a' = ArtifactStatusReady)
         else s3_binary_key a = '''' \<and> sha256_checksum a = ''''"
proof -
  have "artifact_wf a0" using assms(1) by (rule new_artifact_wf)
  with assms(2) have wf: "artifact_wf a" by (rule artifact_life.reach_inv_from)
  have "built a \<Longrightarrow> artifact_step\<^sup>*\<^sup>* a a' \<Longrightarrow> built a'" for a'
    using artifact_life.top_rank_final [of a a'] by simp
  with wf show ?thesis by (auto simp: artifact_wf_def built_def)
qed

theorem artifact_ready_sound_witness:
  "\<exists>a0 a1 a2. new_artifact ''a1'' 5 ''s'' PlatformLinuxArm64 [] = Inr a0 \<and>
     mark_building a0 = Inr a1 \<and> mark_ready ''k'' (replicate 64 (CHR ''f'')) a1 = Inr a2 \<and>
     art_state a2 = ArtifactStatusReady \<and>
     (\<forall>a'. artifact_step\<^sup>*\<^sup>* a2 a' \<longrightarrow> art_state a' = ArtifactStatusReady)"
proof -
  obtain a0 where a0: "new_artifact ''a1'' 5 ''s'' PlatformLinuxArm64 [] = Inr a0"
      "art_state a0 = ArtifactStatusPending"
    by (simp add: new_artifact_def trim_eval)
  obtain a1 where a1: "mark_building a0 = Inr a1" "art_state a1 = ArtifactStatusBuilding"
    using a0 by (simp add: mark_building_def artifact_final_def)
  define c where "c = replicate 64 (CHR ''f'')"
  have c: "trim_space c = c"
    unfolding c_def by (rule trim_space_graphic) (simp_all add: graphic_def)
  have sha: "is_valid_sha256 c"
    by (simp add: c_def is_valid_sha256_def list_all_iff is_hex_def)
  have k: "trim_space ''k'' = ''k''"
    by (simp add: trim_space_graphic graphic_def)
  obtain a2 where a2: "mark_ready ''k'' c a1 = Inr a2" "art_state a2 = ArtifactStatusReady"
    using a1 c k sha by (simp add: mark_ready_def artifact_final_def)
  have "artifact_step\<^sup>*\<^sup>* a0 a2"
    using artifact_step.building [OF a1(1)] artifact_step.ready [OF a2(1)] by simp
  from artifact_ready_sound [OF a0(1) this] a0 a1 a2 show ?thesis unfolding c_def by auto
qed

end
