(* ===== verification/Go_Float.thy ===== *)
theory Go_Float
  imports Complex_Main Go_Text
begin

text \<open>
  64-bit floating point numbers as the source uses them: \<open>strconv.ParseFloat\<close>, the product, the order and
  the conversion to \<open>int64\<close>.  A finite number is its rational value (the sign of zero is never observed);
  results are rounded to the nearest representable number, ties to the even significand.  What the
  conversion gives for a value that \<open>int64\<close> cannot represent depends on the processor: the model has the
  behaviour of amd64, the least \<open>int64\<close>.
\<close>

section \<open>Numbers and rounding\<close>

datatype float64 = F_nan | F_inf bool | F_fin rat

text \<open>The number of binary digits of a positive integer.\<close>

function bit_count :: "int \<Rightarrow> int" where
  "bit_count n = (if n \<le> 0 then 0 else 1 + bit_count (n div 2))"
  by auto
termination by (relation "measure nat") (auto simp: zdiv_int)

declare bit_count.simps [simp del]

definition round_half_even :: "rat \<Rightarrow> int" where
  "round_half_even x =
     (let f = \<lfloor>x\<rfloor>; r = x - of_int f
      in if r < 1/2 then f else if r > 1/2 then f + 1 else if even f then f else f + 1)"

definition pow2 :: "int \<Rightarrow> rat" where
  "pow2 e = (if e \<ge> 0 then 2 ^ nat e else 1 / 2 ^ nat (- e))"

text \<open>
  The exponent of the last place of a positive number: the significand has 53 binary digits, fewer below
  the normal range.
\<close>

definition ulp_exponent :: "rat \<Rightarrow> int" where
  "ulp_exponent x =
     (let (n, d) = quotient_of x; e = bit_count n - bit_count d - 53
      in max (-1074) (if x \<ge> pow2 (e + 53) then e + 1 else e))"

definition round_positive :: "rat \<Rightarrow> rat" where
  "round_positive x = (let e = ulp_exponent x in of_int (round_half_even (x / pow2 e)) * pow2 e)"

definition round64 :: "rat \<Rightarrow> float64" where
  "round64 x =
     (if x = 0 then F_fin 0
      else let y = round_positive \<bar>x\<bar>
           in if y \<ge> pow2 1024 then F_inf (x < 0) else F_fin (if x < 0 then - y else y))"

fun float_mul :: "float64 \<Rightarrow> float64 \<Rightarrow> float64" where
  "float_mul F_nan _ = F_nan"
| "float_mul _ F_nan = F_nan"
| "float_mul (F_fin a) (F_fin b) = round64 (a * b)"
| "float_mul (F_inf s) (F_fin b) = (if b = 0 then F_nan else F_inf (s \<noteq> (b < 0)))"
| "float_mul (F_fin a) (F_inf s) = (if a = 0 then F_nan else F_inf (s \<noteq> (a < 0)))"
| "float_mul (F_inf s) (F_inf t) = F_inf (s \<noteq> t)"

text \<open>\<open>f <= 0\<close>, which is false for NaN.\<close>

fun float_nonpos :: "float64 \<Rightarrow> bool" where
  "float_nonpos F_nan = False"
| "float_nonpos (F_inf neg) = neg"
| "float_nonpos (F_fin x) = (x \<le> 0)"

definition truncate_rat :: "rat \<Rightarrow> int" where
  "truncate_rat x = (if x \<ge> 0 then \<lfloor>x\<rfloor> else - \<lfloor>- x\<rfloor>)"

definition float_to_int64 :: "float64 \<Rightarrow> int" where
  "float_to_int64 f =
     (case f of
        F_fin x \<Rightarrow> if in_int64 (truncate_rat x) then truncate_rat x else min_int64
      | _ \<Rightarrow> min_int64)"

section \<open>ParseFloat\<close>

definition hex_value :: "char \<Rightarrow> int option" where
  "hex_value c =
     (let n = (of_char c :: int)
      in if 48 \<le> n \<and> n \<le> 57 then Some (n - 48)
         else if 97 \<le> n \<and> n \<le> 102 then Some (n - 87)
         else if 65 \<le> n \<and> n \<le> 70 then Some (n - 55) else None)"

definition dec_value :: "char \<Rightarrow> int option" where
  "dec_value c = (let n = (of_char c :: int) in if 48 \<le> n \<and> n \<le> 57 then Some (n - 48) else None)"

definition base_value :: "bool \<Rightarrow> char \<Rightarrow> int option" where
  "base_value hex c = (if hex then hex_value c else dec_value c)"

text \<open>The mantissa: its digits as an integer, how many follow the point, what was seen, and the rest.\<close>

record mantissa =
  mn_value :: int
  mn_fraction :: int
  mn_dot :: bool
  mn_digits :: bool
  mn_under :: bool

fun scan_mantissa :: "bool \<Rightarrow> mantissa \<Rightarrow> string \<Rightarrow> mantissa \<times> string" where
  "scan_mantissa hex m [] = (m, [])"
| "scan_mantissa hex m (c # cs) =
     (if c = CHR ''_'' then scan_mantissa hex (m\<lparr>mn_under := True\<rparr>) cs
      else if c = CHR ''.'' then
        (if mn_dot m then (m, c # cs) else scan_mantissa hex (m\<lparr>mn_dot := True\<rparr>) cs)
      else case base_value hex c of
             None \<Rightarrow> (m, c # cs)
           | Some d \<Rightarrow> scan_mantissa hex
               (m\<lparr>mn_value := (if hex then 16 else 10) * mn_value m + d,
                  mn_fraction := mn_fraction m + (if mn_dot m then 1 else 0), mn_digits := True\<rparr>) cs)"

text \<open>The digits of an exponent, capped as in the library, with the underscores seen.\<close>

fun scan_exponent :: "int \<Rightarrow> bool \<Rightarrow> string \<Rightarrow> int \<times> bool \<times> string" where
  "scan_exponent e u [] = (e, u, [])"
| "scan_exponent e u (c # cs) =
     (if c = CHR ''_'' then scan_exponent e True cs
      else case dec_value c of
             None \<Rightarrow> (e, u, c # cs)
           | Some d \<Rightarrow> scan_exponent (if e < 10000 then e * 10 + d else e) u cs)"

datatype last_seen = Seen_start | Seen_digit | Seen_under | Seen_other

fun underscores_ok :: "bool \<Rightarrow> last_seen \<Rightarrow> string \<Rightarrow> bool" where
  "underscores_ok hex saw [] = (saw \<noteq> Seen_under)"
| "underscores_ok hex saw (c # cs) =
     (if base_value hex c \<noteq> None then underscores_ok hex Seen_digit cs
      else if c = CHR ''_'' then saw = Seen_digit \<and> underscores_ok hex Seen_under cs
      else saw \<noteq> Seen_under \<and> underscores_ok hex Seen_other cs)"

definition take_sign :: "string \<Rightarrow> bool \<times> string" where
  "take_sign s =
     (case s of
        c # cs \<Rightarrow> if c = CHR ''-'' then (True, cs) else if c = CHR ''+'' then (False, cs) else (False, s)
      | [] \<Rightarrow> (False, []))"

definition special_float :: "string \<Rightarrow> float64 option" where
  "special_float s =
     (if to_lower s = ''nan'' then Some F_nan
      else let (neg, r) = take_sign s
           in if to_lower r = ''inf'' \<or> to_lower r = ''infinity'' then Some (F_inf neg) else None)"

definition hex_prefixed :: "string \<Rightarrow> bool" where
  "hex_prefixed s = (case s of a # b # _ # _ \<Rightarrow> a = CHR ''0'' \<and> to_lower_char b = CHR ''x'' | _ \<Rightarrow> False)"

definition base_prefixed :: "string \<Rightarrow> bool" where
  "base_prefixed s = (case s of a # b # _ \<Rightarrow> a = CHR ''0'' \<and> to_lower_char b \<in> {CHR ''b'', CHR ''o'', CHR ''x''} | _ \<Rightarrow> False)"

definition all_underscores_ok :: "string \<Rightarrow> bool" where
  "all_underscores_ok s =
     (let t = snd (take_sign s)
      in if base_prefixed t then underscores_ok (to_lower_char (t ! 1) = CHR ''x'') Seen_digit (drop 2 t)
         else underscores_ok False Seen_start t)"

definition pow10 :: "int \<Rightarrow> rat" where
  "pow10 e = (if e \<ge> 0 then 10 ^ nat e else 1 / 10 ^ nat (- e))"

text \<open>The exponent part after the mantissa: its value, whether an underscore was seen; \<open>None\<close> is malformed.\<close>

definition read_exponent :: "bool \<Rightarrow> string \<Rightarrow> (int \<times> bool) option" where
  "read_exponent hex rest =
     (case rest of
        [] \<Rightarrow> if hex then None else Some (0, False)
      | c # cs \<Rightarrow>
          if to_lower_char c \<noteq> (if hex then CHR ''p'' else CHR ''e'') then None
          else let (neg, ds) = take_sign cs
               in case ds of
                    [] \<Rightarrow> None
                  | d # _ \<Rightarrow>
                      if dec_value d = None then None
                      else let (e, u, left) = scan_exponent 0 False ds
                           in if left \<noteq> [] then None else Some (if neg then - e else e, u))"

definition parse_float :: "string \<Rightarrow> float64 option" where
  "parse_float s =
     (case special_float s of
        Some f \<Rightarrow> Some f
      | None \<Rightarrow>
          let (neg, t) = take_sign s; hex = hex_prefixed t;
              (m, rest) = scan_mantissa hex
                \<lparr>mn_value = 0, mn_fraction = 0, mn_dot = False, mn_digits = False, mn_under = False\<rparr>
                (if hex then drop 2 t else t)
          in if \<not> mn_digits m then None
             else case read_exponent hex rest of
                    None \<Rightarrow> None
                  | Some (e, u) \<Rightarrow>
                      if (mn_under m \<or> u) \<and> \<not> all_underscores_ok s then None
                      else let x = of_int (mn_value m) *
                             (if hex then pow2 (e - 4 * mn_fraction m) else pow10 (e - mn_fraction m));
                               f = round64 (if neg then - x else x)
                           in case f of F_inf _ \<Rightarrow> None | _ \<Rightarrow> Some f)"

end
