(* ===== verification/Profiles.thy ===== *)
theory Profiles
  imports Go_Float
begin

text \<open>
  \<^verbatim>\<open>internal/domain/model/profile.go\<close>: runner profiles with their tolerations and node affinity.
  The resource quantities are the four strings that were validated.
\<close>

section \<open>Resource quantities\<close>

text \<open>
  The parsing of CPU and memory quantities in \<^verbatim>\<open>internal/domain/model/profile.go\<close>.
\<close>

section \<open>Parsing\<close>

definition parse_int64 :: "string \<Rightarrow> int option" where
  "parse_int64 s = (if snd (atoi s) then Some (fst (atoi s)) else None)"

definition has_suffix :: "string \<Rightarrow> string \<Rightarrow> bool" where
  "has_suffix s t = suffix t s"

definition positive_int :: "string \<Rightarrow> int option" where
  "positive_int s =
     (case parse_int64 s of None \<Rightarrow> None | Some n \<Rightarrow> if n \<le> 0 then None else Some n)"

definition positive_float :: "string \<Rightarrow> float64 option" where
  "positive_float s =
     (case parse_float s of None \<Rightarrow> None | Some f \<Rightarrow> if float_nonpos f then None else Some f)"

definition parse_cpu_millicores :: "string \<Rightarrow> int option" where
  "parse_cpu_millicores raw =
     (let s = trim_space raw
      in if s = '''' then None
         else if has_suffix s ''m'' then positive_int (trim_suffix s ''m'')
         else map_option (\<lambda>f. float_to_int64 (float_mul f (F_fin 1000))) (positive_float s))"

definition memory_suffixes :: "(string \<times> int) list" where
  "memory_suffixes =
     [(''Pi'', 1024 * 1024 * 1024 * 1024 * 1024), (''Ti'', 1024 * 1024 * 1024 * 1024),
      (''Gi'', 1024 * 1024 * 1024), (''Mi'', 1024 * 1024), (''Ki'', 1024),
      (''P'', 1000 * 1000 * 1000 * 1000 * 1000), (''T'', 1000 * 1000 * 1000 * 1000),
      (''G'', 1000 * 1000 * 1000), (''M'', 1000 * 1000), (''K'', 1000)]"

definition parse_memory_bytes :: "string \<Rightarrow> int option" where
  "parse_memory_bytes raw =
     (let s = trim_space raw
      in if s = '''' then None
         else case List.find (\<lambda>(suf, _). has_suffix s suf) memory_suffixes of
                Some (suf, mult) \<Rightarrow>
                  map_option (\<lambda>f. float_to_int64 (float_mul f (F_fin (of_int mult))))
                    (positive_float (trim_suffix s suf))
              | None \<Rightarrow> positive_int s)"

record toleration =
  tol_key :: string
  tol_operator :: string
  tol_value :: string
  tol_effect :: string
  tol_seconds :: "int option"

definition toleration_validate :: "toleration \<Rightarrow> unit result" where
  "toleration_validate t =
     (let op = (if trim_space (tol_operator t) = '''' then ''Equal'' else trim_space (tol_operator t));
          eff = trim_space (tol_effect t)
      in if op = ''Exists'' \<and> trim_space (tol_value t) \<noteq> '''' then Inl ErrInvalidToleration
         else if op = ''Equal'' \<and> trim_space (tol_key t) = '''' then Inl ErrInvalidToleration
         else if op \<noteq> ''Exists'' \<and> op \<noteq> ''Equal'' then Inl ErrInvalidToleration
         else if eff \<noteq> '''' \<and> eff \<noteq> ''NoSchedule'' \<and> eff \<noteq> ''PreferNoSchedule'' \<and> eff \<noteq> ''NoExecute''
         then Inl ErrInvalidToleration
         else case tol_seconds t of
                None \<Rightarrow> Inr ()
              | Some n \<Rightarrow>
                  if eff \<noteq> ''NoExecute'' then Inl ErrInvalidToleration
                  else if n < 0 then Inl ErrInvalidToleration
                  else Inr ())"

record affinity_term =
  aff_key :: string
  aff_operator :: string
  aff_values :: "string list"

definition affinity_term_validate :: "affinity_term \<Rightarrow> unit result" where
  "affinity_term_validate t =
     (if trim_space (aff_key t) = '''' then Inl ErrInvalidAffinity
      else if aff_operator t = ''In'' \<or> aff_operator t = ''NotIn'' then
        (if aff_values t = [] then Inl ErrInvalidAffinity else Inr ())
      else if aff_operator t = ''Exists'' \<or> aff_operator t = ''DoesNotExist'' then
        (if aff_values t \<noteq> [] then Inl ErrInvalidAffinity else Inr ())
      else if aff_operator t = ''Gt'' \<or> aff_operator t = ''Lt'' then
        (case aff_values t of
           [v] \<Rightarrow> if snd (atoi v) then Inr () else Inl ErrInvalidAffinity
         | _ \<Rightarrow> Inl ErrInvalidAffinity)
      else Inl ErrInvalidAffinity)"

fun validate_all :: "('a \<Rightarrow> unit result) \<Rightarrow> 'a list \<Rightarrow> unit result" where
  "validate_all f [] = Inr ()"
| "validate_all f (x # xs) = (case f x of Inl e \<Rightarrow> Inl e | Inr _ \<Rightarrow> validate_all f xs)"

lemma validate_all_ok: "validate_all f xs = Inr () \<longleftrightarrow> (\<forall>x \<in> set xs. f x = Inr ())"
  by (induction xs) (auto split: sum.split)

definition affinity_validate :: "affinity_term list \<Rightarrow> unit result" where
  "affinity_validate terms = validate_all affinity_term_validate terms"

record resources =
  cpu_request :: string
  cpu_limit :: string
  memory_request :: string
  memory_limit :: string

text \<open>\<open>NewResourceRequirements\<close>: the four quantities in order, a request within its limit.\<close>

definition quantity_pair :: "int option \<Rightarrow> int option \<Rightarrow> unit result" where
  "quantity_pair req most =
     (case req of
        None \<Rightarrow> Inl ErrInvalidResourceQuantity
      | Some r \<Rightarrow>
          (case most of
             None \<Rightarrow> Inl ErrInvalidResourceQuantity
           | Some l \<Rightarrow> if r > l then Inl ErrInvalidResourceQuantity else Inr ()))"

definition new_resource_requirements ::
  "string \<Rightarrow> string \<Rightarrow> string \<Rightarrow> string \<Rightarrow> resources result" where
  "new_resource_requirements cr cl mr ml =
     (case quantity_pair (parse_cpu_millicores cr) (parse_cpu_millicores cl) of
        Inl e \<Rightarrow> Inl e
      | Inr _ \<Rightarrow>
          (case quantity_pair (parse_memory_bytes mr) (parse_memory_bytes ml) of
             Inl e \<Rightarrow> Inl e
           | Inr _ \<Rightarrow> Inr \<lparr>cpu_request = trim_space cr, cpu_limit = trim_space cl,
               memory_request = trim_space mr, memory_limit = trim_space ml\<rparr>))"

record runner_profile =
  prof_id :: string
  prof_name :: string
  prof_description :: string
  prof_image :: string
  prof_resources :: resources
  prof_node_selector :: "(string \<times> string) list"
  prof_affinity :: "affinity_term list"
  prof_tolerations :: "toleration list"
  prof_deadline :: "int option"
  prof_runtime_class :: "string option"
  prof_created_at :: time
  prof_updated_at :: time

definition default_runner_image :: string where
  "default_runner_image = ''alpine:3.20''"

definition profile_image :: "string \<Rightarrow> string" where
  "profile_image img = (if trim_space img = '''' then default_runner_image else trim_space img)"

definition new_runner_profile ::
  "string \<Rightarrow> time \<Rightarrow> string \<Rightarrow> string \<Rightarrow> string \<Rightarrow> resources \<Rightarrow> (string \<times> string) list
    \<Rightarrow> affinity_term list \<Rightarrow> toleration list \<Rightarrow> runner_profile result" where
  "new_runner_profile uuid now name desc img res sel aff tols =
     (if trim_space name = '''' then Inl ErrEmptyName
      else case affinity_validate aff of
             Inl e \<Rightarrow> Inl e
           | Inr _ \<Rightarrow>
               (case validate_all toleration_validate tols of
                  Inl e \<Rightarrow> Inl e
                | Inr _ \<Rightarrow> Inr \<lparr>prof_id = uuid, prof_name = trim_space name,
                    prof_description = trim_space desc, prof_image = profile_image img,
                    prof_resources = res, prof_node_selector = sel, prof_affinity = aff,
                    prof_tolerations = tols, prof_deadline = None, prof_runtime_class = None,
                    prof_created_at = now, prof_updated_at = now\<rparr>))"

definition new_runner_profile_with_id ::
  "string \<Rightarrow> string \<Rightarrow> string \<Rightarrow> string \<Rightarrow> resources \<Rightarrow> (string \<times> string) list \<Rightarrow> affinity_term list
    \<Rightarrow> toleration list \<Rightarrow> time \<Rightarrow> time \<Rightarrow> runner_profile result" where
  "new_runner_profile_with_id i name desc img res sel aff tols created updated =
     (if trim_space name = '''' then Inl ErrEmptyName
      else case affinity_validate aff of
             Inl e \<Rightarrow> Inl e
           | Inr _ \<Rightarrow>
               (case validate_all toleration_validate tols of
                  Inl e \<Rightarrow> Inl e
                | Inr _ \<Rightarrow> Inr \<lparr>prof_id = i, prof_name = trim_space name,
                    prof_description = desc, prof_image = profile_image img,
                    prof_resources = res, prof_node_selector = sel, prof_affinity = aff,
                    prof_tolerations = tols, prof_deadline = None, prof_runtime_class = None,
                    prof_created_at = created, prof_updated_at = updated\<rparr>))"

definition with_active_deadline :: "int option \<Rightarrow> runner_profile \<Rightarrow> runner_profile" where
  "with_active_deadline d p =
     p\<lparr>prof_deadline := (case d of None \<Rightarrow> None | Some n \<Rightarrow> if n > 0 then Some n else None)\<rparr>"

definition with_runtime_class :: "string option \<Rightarrow> runner_profile \<Rightarrow> runner_profile" where
  "with_runtime_class c p = p\<lparr>prof_runtime_class := opt_trim c\<rparr>"

definition update_security_policy ::
  "time \<Rightarrow> int option \<Rightarrow> string option \<Rightarrow> runner_profile \<Rightarrow> runner_profile result" where
  "update_security_policy now d c p =
     (case d of
        Some n \<Rightarrow> if n \<le> 0 then Inl ErrInvalidDeadline
                  else Inr (p\<lparr>prof_deadline := Some n, prof_runtime_class := opt_trim c,
                              prof_updated_at := now\<rparr>)
      | None \<Rightarrow> Inr (p\<lparr>prof_deadline := None, prof_runtime_class := opt_trim c,
                       prof_updated_at := now\<rparr>))"

definition update_resources :: "time \<Rightarrow> resources \<Rightarrow> runner_profile \<Rightarrow> runner_profile" where
  "update_resources now r p = p\<lparr>prof_resources := r, prof_updated_at := now\<rparr>"

definition profile_update_details ::
  "time \<Rightarrow> string \<Rightarrow> string \<Rightarrow> string \<Rightarrow> resources \<Rightarrow> (string \<times> string) list \<Rightarrow> affinity_term list
    \<Rightarrow> toleration list \<Rightarrow> runner_profile \<Rightarrow> runner_profile result" where
  "profile_update_details now name desc img res sel aff tols p =
     (if trim_space name = '''' then Inl ErrEmptyName
      else case affinity_validate aff of
             Inl e \<Rightarrow> Inl e
           | Inr _ \<Rightarrow>
               (case validate_all toleration_validate tols of
                  Inl e \<Rightarrow> Inl e
                | Inr _ \<Rightarrow> Inr (p\<lparr>prof_name := trim_space name, prof_description := trim_space desc,
                    prof_image := profile_image img, prof_resources := res,
                    prof_node_selector := sel, prof_affinity := aff, prof_tolerations := tols,
                    prof_updated_at := now\<rparr>)))"

definition profile_wf :: "runner_profile \<Rightarrow> bool" where
  "profile_wf p \<longleftrightarrow>
     prof_name p \<noteq> '''' \<and> trimmed (prof_name p) \<and> prof_image p \<noteq> '''' \<and> trimmed (prof_image p) \<and>
     (\<forall>t \<in> set (prof_affinity p). affinity_term_validate t = Inr ()) \<and>
     (\<forall>t \<in> set (prof_tolerations p). toleration_validate t = Inr ()) \<and>
     (case prof_deadline p of None \<Rightarrow> True | Some n \<Rightarrow> 0 < n) \<and>
     (case prof_runtime_class p of None \<Rightarrow> True | Some c \<Rightarrow> c \<noteq> '''' \<and> trimmed c)"

lemma profile_image_wf: "profile_image img \<noteq> '''' \<and> trimmed (profile_image img)"
proof -
  have "trimmed default_runner_image"
    unfolding trimmed_def default_runner_image_def
    by (rule trim_space_graphic) (simp_all add: graphic_def)
  then show ?thesis by (simp add: profile_image_def default_runner_image_def)
qed

lemma profile_image_id: "img \<noteq> '''' \<Longrightarrow> trimmed img \<Longrightarrow> profile_image img = img"
  by (simp add: profile_image_def trimmed_def)

lemma affinity_validate_ok: "affinity_validate ts = Inr () \<longleftrightarrow> (\<forall>t \<in> set ts. affinity_term_validate t = Inr ())"
  by (simp add: affinity_validate_def validate_all_ok)

lemma opt_trim_case: "case opt_trim c of None \<Rightarrow> True | Some s \<Rightarrow> s \<noteq> '''' \<and> trimmed s"
  using opt_trim_nonblank [of c] by (auto split: option.split)

lemma opt_trim_id: "case c of None \<Rightarrow> True | Some s \<Rightarrow> s \<noteq> '''' \<and> trimmed s \<Longrightarrow> opt_trim c = c"
  by (auto simp: opt_trim_def trimmed_def split: option.splits)

lemma unit_result_cases: "(r :: unit result) = Inr () \<or> (\<exists>e. r = Inl e)"
  by (cases r) auto

lemma new_runner_profile_wf:
  assumes "new_runner_profile u t n d i r s a ts = Inr p"
  shows "profile_wf p"
  using assms profile_image_wf [of i] affinity_validate_ok [of a] validate_all_ok [of toleration_validate ts]
  by (auto simp: new_runner_profile_def profile_wf_def split: if_splits sum.splits)

lemma profile_update_details_wf:
  assumes "profile_update_details t n d i r s a ts p = Inr p'" and "profile_wf p"
  shows "profile_wf p'"
  using assms profile_image_wf [of i] affinity_validate_ok [of a] validate_all_ok [of toleration_validate ts]
  by (auto simp: profile_update_details_def profile_wf_def split: if_splits sum.splits)

lemma update_security_policy_wf:
  "update_security_policy t d c p = Inr p' \<Longrightarrow> profile_wf p \<Longrightarrow> profile_wf p'"
proof -
  assume u: "update_security_policy t d c p = Inr p'" and p: "profile_wf p"
  have "p' = p\<lparr>prof_deadline := d, prof_runtime_class := opt_trim c, prof_updated_at := t\<rparr> \<and>
      (case d of None \<Rightarrow> True | Some n \<Rightarrow> 0 < n)"
    using u by (cases d) (auto simp: update_security_policy_def split: if_splits)
  with p opt_trim_case [of c] show "profile_wf p'" by (simp add: profile_wf_def)
qed

lemma profile_builders_wf:
  "profile_wf p \<Longrightarrow> profile_wf (with_active_deadline d p)"
  "profile_wf p \<Longrightarrow> profile_wf (with_runtime_class c p)"
  "profile_wf p \<Longrightarrow> profile_wf (update_resources t r p)"
proof -
  assume p: "profile_wf p"
  show "profile_wf (with_active_deadline d p)"
    using p by (simp add: with_active_deadline_def profile_wf_def split: option.split)
  show "profile_wf (with_runtime_class c p)"
    using p opt_trim_case [of c] by (simp add: with_runtime_class_def profile_wf_def)
  show "profile_wf (update_resources t r p)"
    using p by (simp add: update_resources_def profile_wf_def)
qed

text \<open>
  Every operation on runner profiles keeps them well formed (a name, an image, only tolerations
  and affinity terms that pass validation, a positive deadline or none), and the persistence layer's
  way of rebuilding a stored profile, constructor plus the two builder methods, gives back exactly the
  profile that was saved.
\<close>

theorem profile_ops_wf:
  assumes "profile_wf p"
  shows "profile_wf (with_active_deadline d p) \<and> profile_wf (with_runtime_class c p) \<and>
    (\<forall>p'. update_security_policy t d c p = Inr p' \<longrightarrow> profile_wf p') \<and>
    (\<forall>p'. profile_update_details t n ds i r s a ts p = Inr p' \<longrightarrow> profile_wf p') \<and>
    (\<exists>q. new_runner_profile_with_id (prof_id p) (prof_name p) (prof_description p) (prof_image p)
        (prof_resources p) (prof_node_selector p) (prof_affinity p) (prof_tolerations p)
        (prof_created_at p) (prof_updated_at p) = Inr q \<and>
       with_runtime_class (prof_runtime_class p) (with_active_deadline (prof_deadline p) q) = p)"
proof (intro conjI)
  show "\<exists>q. new_runner_profile_with_id (prof_id p) (prof_name p) (prof_description p) (prof_image p)
        (prof_resources p) (prof_node_selector p) (prof_affinity p) (prof_tolerations p)
        (prof_created_at p) (prof_updated_at p) = Inr q \<and>
       with_runtime_class (prof_runtime_class p) (with_active_deadline (prof_deadline p) q) = p"
  proof -
    have aff: "affinity_validate (prof_affinity p) = Inr ()"
      and tol: "validate_all toleration_validate (prof_tolerations p) = Inr ()"
      using assms by (simp_all add: affinity_validate_ok validate_all_ok profile_wf_def)
    have img: "profile_image (prof_image p) = prof_image p" and nm: "trim_space (prof_name p) = prof_name p"
      "prof_name p \<noteq> ''''"
      using assms by (simp_all add: profile_image_id profile_wf_def trimmed_def)
    have rc: "opt_trim (prof_runtime_class p) = prof_runtime_class p"
      and dl: "(case prof_deadline p of None \<Rightarrow> None | Some n \<Rightarrow> if n > 0 then Some n else None) = prof_deadline p"
      using assms by (auto simp: profile_wf_def intro!: opt_trim_id split: option.splits)
    show ?thesis
      using aff tol img nm rc dl
      by (simp add: new_runner_profile_with_id_def with_runtime_class_def with_active_deadline_def)
  qed
qed (use assms in \<open>auto intro: profile_builders_wf update_security_policy_wf profile_update_details_wf\<close>)

definition sample_profile :: runner_profile where
  "sample_profile = \<lparr>prof_id = ''p1'', prof_name = ''small'', prof_description = '''',
     prof_image = ''alpine:3.20'', prof_resources = \<lparr>cpu_request = ''100m'', cpu_limit = ''1'',
       memory_request = ''64Mi'', memory_limit = ''1Gi''\<rparr>,
     prof_node_selector = [], prof_affinity = [],
     prof_tolerations = [], prof_deadline = Some 60, prof_runtime_class = None,
     prof_created_at = 5, prof_updated_at = 5\<rparr>"

lemma sample_profile_wf: "profile_wf sample_profile"
  by (simp add: profile_wf_def sample_profile_def trimmed_def trim_space_graphic graphic_def)

theorem profile_ops_wf_witness:
  "profile_wf sample_profile \<and> profile_wf (with_active_deadline (Some 0) sample_profile)"
  using profile_ops_wf [OF sample_profile_wf] sample_profile_wf by blast

end
