(* ===== verification/Schedules.thy ===== *)
theory Schedules
  imports Go_Base
begin

text \<open>
  \<^verbatim>\<open>internal/domain/model/schedule.go\<close>: recurring schedules.  The parser of cron expressions is
  third-party code; its verdict on a trimmed expression is the argument \<open>cron_ok\<close>.
\<close>

definition validate_cron_expression :: "(string \<Rightarrow> bool) \<Rightarrow> string \<Rightarrow> unit result" where
  "validate_cron_expression cron_ok expr =
     (if trim_space expr = '''' then Inl ErrInvalidCronExpression
      else if \<not> cron_ok (trim_space expr) then Inl ErrInvalidCronExpression else Inr ())"

record schedule =
  sch_id :: string
  sch_suite_id :: string
  sch_artifact_id :: string
  sch_configuration_id :: "string option"
  sch_profile_id :: string
  sch_name :: string
  sch_cron :: string
  sch_cronjob_name :: string
  sch_active :: bool
  sch_created_at :: time
  sch_updated_at :: time

definition new_schedule ::
  "(string \<Rightarrow> bool) \<Rightarrow> string \<Rightarrow> time \<Rightarrow> string \<Rightarrow> string \<Rightarrow> string option \<Rightarrow> string \<Rightarrow> string \<Rightarrow> string
    \<Rightarrow> schedule result" where
  "new_schedule cron_ok uuid now suite artifact cfg profile name cron =
     (let s = trim_space suite; a = trim_space artifact; p = trim_space profile; n = trim_space name
      in if s = '''' \<or> a = '''' \<or> p = '''' then Inl ErrValidation
         else if n = '''' then Inl ErrEmptyName
         else case validate_cron_expression cron_ok cron of
                Inl e \<Rightarrow> Inl e
              | Inr _ \<Rightarrow> Inr \<lparr>sch_id = uuid, sch_suite_id = s, sch_artifact_id = a,
                  sch_configuration_id = opt_trim cfg, sch_profile_id = p, sch_name = n,
                  sch_cron = trim_space cron, sch_cronjob_name = ''vuhive-sched-'' @ take 8 uuid,
                  sch_active = True, sch_created_at = now, sch_updated_at = now\<rparr>)"

definition new_schedule_with_id :: "(string \<Rightarrow> bool) \<Rightarrow> schedule \<Rightarrow> schedule result" where
  "new_schedule_with_id cron_ok row =
     (if trim_space (sch_suite_id row) = '''' \<or> trim_space (sch_artifact_id row) = ''''
         \<or> trim_space (sch_profile_id row) = '''' then Inl ErrValidation
      else if trim_space (sch_name row) = '''' then Inl ErrEmptyName
      else case validate_cron_expression cron_ok (sch_cron row) of
             Inl e \<Rightarrow> Inl e
           | Inr _ \<Rightarrow> Inr row)"

definition schedule_activate :: "time \<Rightarrow> schedule \<Rightarrow> schedule result" where
  "schedule_activate now s =
     (if sch_active s then Inl ErrInvalidStateTransition
      else Inr (s\<lparr>sch_active := True, sch_updated_at := now\<rparr>))"

definition schedule_deactivate :: "time \<Rightarrow> schedule \<Rightarrow> schedule result" where
  "schedule_deactivate now s =
     (if \<not> sch_active s then Inl ErrInvalidStateTransition
      else Inr (s\<lparr>sch_active := False, sch_updated_at := now\<rparr>))"

definition update_cron_expression ::
  "(string \<Rightarrow> bool) \<Rightarrow> time \<Rightarrow> string \<Rightarrow> schedule \<Rightarrow> schedule result" where
  "update_cron_expression cron_ok now expr s =
     (case validate_cron_expression cron_ok expr of
        Inl e \<Rightarrow> Inl e
      | Inr _ \<Rightarrow> Inr (s\<lparr>sch_cron := trim_space expr, sch_updated_at := now\<rparr>))"

lemma validate_cron_result:
  "validate_cron_expression cron_ok e = Inr () \<longleftrightarrow> trim_space e \<noteq> '''' \<and> cron_ok (trim_space e)"
  by (simp add: validate_cron_expression_def)

definition schedule_wf :: "(string \<Rightarrow> bool) \<Rightarrow> schedule \<Rightarrow> bool" where
  "schedule_wf cron_ok s \<longleftrightarrow>
     sch_suite_id s \<noteq> '''' \<and> trimmed (sch_suite_id s) \<and> sch_artifact_id s \<noteq> '''' \<and>
     trimmed (sch_artifact_id s) \<and> sch_profile_id s \<noteq> '''' \<and> trimmed (sch_profile_id s) \<and>
     sch_name s \<noteq> '''' \<and> trimmed (sch_name s) \<and> sch_cron s \<noteq> '''' \<and> trimmed (sch_cron s) \<and>
     cron_ok (sch_cron s)"

lemma new_schedule_wf: "new_schedule ok u t s a c p n e = Inr x \<Longrightarrow> schedule_wf ok x"
  by (auto simp: new_schedule_def schedule_wf_def validate_cron_expression_def Let_def
      split: if_splits)

lemma schedule_ops_wf:
  "schedule_activate t s = Inr s' \<Longrightarrow> schedule_wf ok s \<Longrightarrow> schedule_wf ok s'"
  "schedule_deactivate t s = Inr s' \<Longrightarrow> schedule_wf ok s \<Longrightarrow> schedule_wf ok s'"
  "update_cron_expression ok t e s = Inr s' \<Longrightarrow> schedule_wf ok s \<Longrightarrow> schedule_wf ok s'"
  by (auto simp: schedule_activate_def schedule_deactivate_def update_cron_expression_def
      validate_cron_expression_def schedule_wf_def split: if_splits)

lemma schedule_rebuild: "schedule_wf ok s \<Longrightarrow> new_schedule_with_id ok s = Inr s"
  by (simp add: new_schedule_with_id_def schedule_wf_def validate_cron_expression_def trimmed_def)

text \<open>
  Every schedule that can be created or updated has a trimmed cron expression that the parser
  accepts and non-blank references, can be rebuilt from storage unchanged, and switching it off and on
  again changes nothing but its update time.
\<close>

theorem schedule_lifecycle:
  assumes "new_schedule ok u t suite art cfg prof name cron = Inr s"
  shows "schedule_wf ok s \<and> new_schedule_with_id ok s = Inr s \<and>
    schedule_activate t1 s = Inl ErrInvalidStateTransition \<and>
    (\<exists>s1 s2. schedule_deactivate t1 s = Inr s1 \<and> new_schedule_with_id ok s1 = Inr s1 \<and>
       schedule_activate t2 s1 = Inr s2 \<and> s2 = s\<lparr>sch_updated_at := t2\<rparr>)"
proof -
  have wf: "schedule_wf ok s" using assms by (rule new_schedule_wf)
  have act: "sch_active s"
    using assms by (auto simp: new_schedule_def Let_def split: if_splits sum.splits)
  let ?s1 = "s\<lparr>sch_active := False, sch_updated_at := t1\<rparr>"
  have d: "schedule_deactivate t1 s = Inr ?s1" using act by (simp add: schedule_deactivate_def)
  have "schedule_wf ok ?s1" using schedule_ops_wf(2) [OF d wf] .
  then have "new_schedule_with_id ok ?s1 = Inr ?s1" by (rule schedule_rebuild)
  moreover have "schedule_activate t2 ?s1 = Inr (s\<lparr>sch_updated_at := t2\<rparr>)"
    using act by (simp add: schedule_activate_def)
  moreover have "schedule_activate t1 s = Inl ErrInvalidStateTransition"
    using act by (simp add: schedule_activate_def)
  ultimately show ?thesis using wf d schedule_rebuild [OF wf] by blast
qed

theorem schedule_lifecycle_witness:
  "\<exists>s. new_schedule (\<lambda>e. e = ''@daily'') ''0123456789'' 5 ''s'' ''a'' None ''p'' ''n'' ''@daily'' = Inr s \<and>
     schedule_wf (\<lambda>e. e = ''@daily'') s \<and> sch_cronjob_name s = ''vuhive-sched-01234567''"
proof -
  have "trim_space ''@daily'' = ''@daily''" "trim_space ''s'' = ''s''" "trim_space ''a'' = ''a''"
      "trim_space ''p'' = ''p''" "trim_space ''n'' = ''n''"
    by (simp_all add: trim_space_graphic graphic_def)
  then obtain s where s: "new_schedule (\<lambda>e. e = ''@daily'') ''0123456789'' 5 ''s'' ''a'' None ''p'' ''n''
      ''@daily'' = Inr s" "sch_cronjob_name s = ''vuhive-sched-01234567''"
    by (simp add: new_schedule_def validate_cron_expression_def)
  with schedule_lifecycle [OF s(1)] show ?thesis by blast
qed

end
