(* ===== verification/Control_State.thy ===== *)
theory Control_State
  imports Tables Suites Runs Artifacts Configs_Secrets Profiles Schedules
begin

text \<open>
  The state that the application services share, as the driven ports expose it: the tables of the
  PostgreSQL adapters, the object store, the Kubernetes jobs and the published events.  Every call of a
  port first consumes an entry of a script of faults: the call may work, fail without effect, or take
  effect and still report an error (a lost acknowledgement), so statements about all worlds cover every
  pattern of failures; violations of a database constraint are covered as failures without effect.
  A service is a function from a world to a result and a world; \<open>bindW\<close> is Go's
  \<open>if err != nil { return err }\<close> and \<open>attempt\<close> is a call whose error the caller inspects or drops.
\<close>

section \<open>The world\<close>

datatype domain_event = RunAborted string string string time

datatype fault = Fault_none | Fault_before err | Fault_after err

text \<open>An expiration rule of the bucket (\<open>outbound.LifecycleRule\<close>).\<close>

record lifecycle_rule =
  lr_id :: string
  lr_prefix :: string
  lr_days :: int
  lr_enabled :: bool

text \<open>A \<open>batch/v1\<close> CronJob: what the schedule orchestrator reads and writes of it.\<close>

record cron_job =
  cj_namespace :: string
  cj_name :: string
  cj_schedule :: string
  cj_suspended :: bool
  cj_schedule_id :: string

record world =
  w_suites :: "test_suite list"
  w_artifacts :: "artifact list"
  w_configs :: "configuration list"
  w_profiles :: "runner_profile list"
  w_runs :: "test_run list"
  w_schedules :: "schedule list"
  w_objects :: "string \<rightharpoonup> string"
  w_jobs :: "(string \<times> string) list"
  w_events :: "domain_event list"
  w_faults :: "fault list"
  w_lifecycle :: "lifecycle_rule list"
  w_secrets :: "secret list"
  w_cronjobs :: "cron_job list"

type_synonym 'a op = "world \<Rightarrow> 'a result \<times> world"

definition returnW :: "'a \<Rightarrow> 'a op" where "returnW x w = (Inr x, w)"
definition failW :: "err \<Rightarrow> 'a op" where "failW e w = (Inl e, w)"
definition liftW :: "'a result \<Rightarrow> 'a op" where "liftW r w = (r, w)"

definition bindW :: "'a op \<Rightarrow> ('a \<Rightarrow> 'b op) \<Rightarrow> 'b op" where
  "bindW m f w = (case m w of (Inl e, w') \<Rightarrow> (Inl e, w') | (Inr x, w') \<Rightarrow> f x w')"

lemma bindW_Inr:
  "bindW m f w = (Inr y, w') \<longleftrightarrow> (\<exists>x w1. m w = (Inr x, w1) \<and> f x w1 = (Inr y, w'))"
  by (auto simp: bindW_def split: prod.splits sum.splits)

lemmas bindW_success = bindW_Inr [THEN iffD1]

definition attempt :: "'a op \<Rightarrow> 'a result op" where
  "attempt m w = (case m w of (r, w') \<Rightarrow> (Inr r, w'))"

definition port_call :: "'a op \<Rightarrow> 'a op" where
  "port_call f w =
     (case w_faults w of
        [] \<Rightarrow> f w
      | Fault_none # fs \<Rightarrow> f (w\<lparr>w_faults := fs\<rparr>)
      | Fault_before e # fs \<Rightarrow> (Inl e, w\<lparr>w_faults := fs\<rparr>)
      | Fault_after e # fs \<Rightarrow> (Inl e, snd (f (w\<lparr>w_faults := fs\<rparr>))))"

text \<open>A loop over a list whose body cannot end it.\<close>

fun forW :: "'a list \<Rightarrow> ('a \<Rightarrow> unit op) \<Rightarrow> unit op" where
  "forW [] f = returnW ()"
| "forW (x # xs) f = bindW (f x) (\<lambda>_. forW xs f)"

section \<open>The repositories\<close>

text \<open>Which columns \<open>ON CONFLICT (id) DO UPDATE\<close> leaves alone.\<close>

definition merge_run :: "test_run \<Rightarrow> test_run \<Rightarrow> test_run" where
  "merge_run old new = new\<lparr>run_created_at := run_created_at old\<rparr>"

definition merge_artifact :: "artifact \<Rightarrow> artifact \<Rightarrow> artifact" where
  "merge_artifact old new = new\<lparr>art_created_at := art_created_at old\<rparr>"

definition merge_suite :: "test_suite \<Rightarrow> test_suite \<Rightarrow> test_suite" where
  "merge_suite old new = new\<lparr>suite_created_at := suite_created_at old\<rparr>"

definition put_run :: "test_run \<Rightarrow> world \<Rightarrow> world" where
  "put_run r w = w\<lparr>w_runs := upsert run_id merge_run r (w_runs w)\<rparr>"

definition put_artifact :: "artifact \<Rightarrow> world \<Rightarrow> world" where
  "put_artifact a w = w\<lparr>w_artifacts := upsert art_id merge_artifact a (w_artifacts w)\<rparr>"

definition put_suite :: "test_suite \<Rightarrow> world \<Rightarrow> world" where
  "put_suite s w = w\<lparr>w_suites := upsert suite_id merge_suite s (w_suites w)\<rparr>"

definition drop_run :: "string \<Rightarrow> world \<Rightarrow> world" where
  "drop_run i w = w\<lparr>w_runs := delete_row run_id i (w_runs w)\<rparr>"

definition get_run :: "world \<Rightarrow> string \<Rightarrow> test_run option" where
  "get_run w i = find_row run_id (w_runs w) i"

text \<open>\<^verbatim>\<open>run_repository.go\<close>.\<close>

definition run_save :: "test_run \<Rightarrow> unit op" where
  "run_save r = port_call (\<lambda>w. (Inr (), put_run r w))"

definition run_find_by_id :: "string \<Rightarrow> test_run op" where
  "run_find_by_id i =
     port_call (\<lambda>w. (case get_run w i of None \<Rightarrow> Inl ErrNotFound | Some row \<Rightarrow> new_test_run_with_id row, w))"

definition newest_first :: "test_run list \<Rightarrow> test_run list" where
  "newest_first rs = sort_key (\<lambda>r. - run_created_at r) rs"

definition oldest_first :: "test_run list \<Rightarrow> test_run list" where
  "oldest_first rs = sort_key run_created_at rs"

definition run_find_by_job_name :: "string \<Rightarrow> test_run op" where
  "run_find_by_job_name job =
     (if trim_space job = '''' then failW ErrValidation
      else port_call (\<lambda>w.
        (case newest_first (filter (\<lambda>r. k8s_job_name r = trim_space job) (w_runs w)) of
           [] \<Rightarrow> Inl ErrNotFound | row # _ \<Rightarrow> new_test_run_with_id row, w)))"

definition run_delete :: "string \<Rightarrow> unit op" where
  "run_delete i =
     port_call (\<lambda>w. case get_run w i of None \<Rightarrow> (Inl ErrNotFound, w) | Some _ \<Rightarrow> (Inr (), drop_run i w))"

definition row_limit :: "int \<Rightarrow> nat" where
  "row_limit n = (if n \<le> 0 then 100 else nat n)"

definition run_age :: "test_run \<Rightarrow> time" where
  "run_age r = (case finished_at r of Some t \<Rightarrow> t | None \<Rightarrow> run_created_at r)"

definition suite_matches :: "string option \<Rightarrow> string \<Rightarrow> bool" where
  "suite_matches filt i = (case filt of None \<Rightarrow> True | Some s \<Rightarrow> i = s)"

definition expired_run :: "time \<Rightarrow> string option \<Rightarrow> test_run \<Rightarrow> bool" where
  "expired_run before filt r \<longleftrightarrow>
     run_age r < before \<and> run_status_terminal (run_state r) \<and> suite_matches filt (run_suite_id r)"

definition select_runs :: "(test_run \<Rightarrow> bool) \<Rightarrow> int \<Rightarrow> test_run list op" where
  "select_runs keep limit =
     port_call (\<lambda>w. (collect_results (map new_test_run_with_id
       (take (row_limit limit) (oldest_first (filter keep (w_runs w))))), w))"

definition list_expired_runs_for_logs :: "time \<Rightarrow> string option \<Rightarrow> int \<Rightarrow> test_run list op" where
  "list_expired_runs_for_logs before filt limit =
     select_runs (\<lambda>r. expired_run before filt r \<and> s3_logs_key r \<noteq> '''') limit"

definition list_expired_runs_for_reports :: "time \<Rightarrow> string option \<Rightarrow> int \<Rightarrow> test_run list op" where
  "list_expired_runs_for_reports before filt limit =
     select_runs (\<lambda>r. expired_run before filt r \<and> run_state r \<noteq> RunStatusArchived \<and>
       (s3_report_key r \<noteq> '''' \<or> summary_json r \<noteq> None)) limit"

definition list_expired_runs_for_prune :: "time \<Rightarrow> string option \<Rightarrow> int \<Rightarrow> test_run list op" where
  "list_expired_runs_for_prune before filt limit = select_runs (expired_run before filt) limit"

definition update_runs :: "(test_run \<Rightarrow> test_run) \<Rightarrow> string \<Rightarrow> world \<Rightarrow> world" where
  "update_runs f i w = w\<lparr>w_runs := update_row run_id f i (w_runs w)\<rparr>"

definition run_clear_logs_key :: "string \<Rightarrow> unit op" where
  "run_clear_logs_key i = port_call (\<lambda>w. (Inr (), update_runs (\<lambda>r. r\<lparr>s3_logs_key := ''''\<rparr>) i w))"

definition run_clear_report_key :: "string \<Rightarrow> unit op" where
  "run_clear_report_key i = port_call (\<lambda>w. (Inr (), update_runs (\<lambda>r. r\<lparr>s3_report_key := ''''\<rparr>) i w))"

definition run_archive_row :: "string \<Rightarrow> unit op" where
  "run_archive_row i = port_call (\<lambda>w. (Inr (), update_runs
     (\<lambda>r. r\<lparr>run_state := RunStatusArchived, summary_json := None, s3_report_key := ''''\<rparr>) i w))"

definition run_delete_batch :: "string list \<Rightarrow> int op" where
  "run_delete_batch ids =
     (if ids = [] then returnW 0
      else port_call (\<lambda>w.
        (Inr (int (length (filter (\<lambda>r. run_id r \<in> set ids) (w_runs w)))),
         w\<lparr>w_runs := filter (\<lambda>r. run_id r \<notin> set ids) (w_runs w)\<rparr>)))"

text \<open>\<^verbatim>\<open>suite_repository.go\<close>: a stored override without a positive window is not loaded.\<close>

definition load_suite :: "test_suite \<Rightarrow> test_suite result" where
  "load_suite row =
     (case new_test_suite_with_id (suite_id row) (suite_name row) (suite_description row)
             (suite_state row) (suite_created_at row) (suite_updated_at row) of
        Inl e \<Rightarrow> Inl e
      | Inr s \<Rightarrow>
          Inr (case suite_retention row of
                 None \<Rightarrow> s
               | Some p \<Rightarrow>
                   if logs_ttl_days p > 0 \<or> reports_ttl_days p > 0 \<or> sources_ttl_days p > 0
                      \<or> binaries_ttl_days p > 0 \<or> runs_ttl_days p > 0
                   then set_retention_policy (Some p) s else s))"

definition suite_find_by_id :: "string \<Rightarrow> test_suite op" where
  "suite_find_by_id i =
     port_call (\<lambda>w. (case find_row suite_id (w_suites w) i of
                       None \<Rightarrow> Inl ErrNotFound | Some row \<Rightarrow> load_suite row, w))"

definition suite_save :: "test_suite \<Rightarrow> unit op" where
  "suite_save s = port_call (\<lambda>w. (Inr (), put_suite s w))"

text \<open>\<^verbatim>\<open>artifact_repository.go\<close>.\<close>

definition artifact_save :: "artifact \<Rightarrow> unit op" where
  "artifact_save a = port_call (\<lambda>w. (Inr (), put_artifact a w))"

definition artifact_find_by_id :: "string \<Rightarrow> artifact op" where
  "artifact_find_by_id i =
     port_call (\<lambda>w. (case find_row art_id (w_artifacts w) i of
                       None \<Rightarrow> Inl ErrNotFound | Some row \<Rightarrow> new_artifact_with_id row, w))"

text \<open>
  \<open>ON DELETE RESTRICT\<close>: an artifact that a run or a schedule refers to is not deleted, and
  \<open>MapError\<close> turns the foreign key violation into \<open>ErrValidation\<close>.
\<close>

definition artifact_referenced :: "world \<Rightarrow> string \<Rightarrow> bool" where
  "artifact_referenced w i \<longleftrightarrow>
     list_ex (\<lambda>r. run_artifact_id r = i) (w_runs w) \<or> list_ex (\<lambda>s. sch_artifact_id s = i) (w_schedules w)"

definition artifact_delete :: "string \<Rightarrow> unit op" where
  "artifact_delete i =
     port_call (\<lambda>w. case find_row art_id (w_artifacts w) i of
                      None \<Rightarrow> (Inl ErrNotFound, w)
                    | Some _ \<Rightarrow>
                        if artifact_referenced w i then (Inl ErrValidation, w)
                        else (Inr (), w\<lparr>w_artifacts := delete_row art_id i (w_artifacts w)\<rparr>))"

definition artifact_list_by_suite :: "string \<Rightarrow> artifact list op" where
  "artifact_list_by_suite suite =
     port_call (\<lambda>w. (collect_results (map new_artifact_with_id
       (sort_key art_created_at (filter (\<lambda>a. art_suite_id a = suite) (w_artifacts w)))), w))"

definition oldest_artifacts :: "artifact list \<Rightarrow> artifact list" where
  "oldest_artifacts as = sort_key art_created_at as"

definition orphaned :: "world \<Rightarrow> time \<Rightarrow> artifact \<Rightarrow> bool" where
  "orphaned w before a \<longleftrightarrow>
     art_created_at a < before \<and>
     art_state a \<in> {ArtifactStatusFailed, ArtifactStatusPending, ArtifactStatusCancelled} \<and>
     list_all (\<lambda>r. run_artifact_id r \<noteq> art_id a) (w_runs w) \<and>
     list_all (\<lambda>s. sch_artifact_id s \<noteq> art_id a) (w_schedules w)"

definition list_orphaned_artifacts :: "time \<Rightarrow> int \<Rightarrow> artifact list op" where
  "list_orphaned_artifacts before limit =
     port_call (\<lambda>w. (collect_results (map new_artifact_with_id
       (take (row_limit limit) (oldest_artifacts (filter (orphaned w before) (w_artifacts w))))), w))"

definition expired_binary :: "time \<Rightarrow> string option \<Rightarrow> artifact \<Rightarrow> bool" where
  "expired_binary before filt a \<longleftrightarrow>
     art_created_at a < before \<and> suite_matches filt (art_suite_id a) \<and> s3_binary_key a \<noteq> ''''"

definition list_expired_artifacts :: "time \<Rightarrow> string option \<Rightarrow> int \<Rightarrow> artifact list op" where
  "list_expired_artifacts before filt limit =
     port_call (\<lambda>w. (collect_results (map new_artifact_with_id
       (take (row_limit limit) (oldest_artifacts (filter (expired_binary before filt) (w_artifacts w))))), w))"

definition artifact_clear_binary_keys :: "string \<Rightarrow> unit op" where
  "artifact_clear_binary_keys i =
     port_call (\<lambda>w. (Inr (), w\<lparr>w_artifacts := update_row art_id
       (\<lambda>a. a\<lparr>s3_binary_key := '''', build_logs_s3_key := ''''\<rparr>) i (w_artifacts w)\<rparr>))"

text \<open>\<^verbatim>\<open>configuration_repository.go\<close>, \<^verbatim>\<open>profile_repository.go\<close>, \<^verbatim>\<open>schedule_repository.go\<close>: lookups.\<close>

definition config_find_by_id :: "string \<Rightarrow> configuration op" where
  "config_find_by_id i =
     port_call (\<lambda>w. (case find_row cfg_id (w_configs w) i of
                       None \<Rightarrow> Inl ErrNotFound
                     | Some c \<Rightarrow> new_configuration_with_id (cfg_id c) (cfg_suite_id c) (cfg_name c)
                         (cfg_description c) (content_yaml c) (s3_config_key c) (is_default c)
                         (cfg_created_at c), w))"

text \<open>\<open>unmarshalProfile\<close>: the quantities are parsed again.\<close>

definition load_profile :: "runner_profile \<Rightarrow> runner_profile result" where
  "load_profile p =
     (let q = prof_resources p in
      case new_resource_requirements (cpu_request q) (cpu_limit q) (memory_request q) (memory_limit q) of
        Inl e \<Rightarrow> Inl e
      | Inr res \<Rightarrow>
          (case new_runner_profile_with_id (prof_id p) (prof_name p) (prof_description p)
              (prof_image p) res (prof_node_selector p) (prof_affinity p)
              (prof_tolerations p) (prof_created_at p) (prof_updated_at p) of
             Inl e \<Rightarrow> Inl e
           | Inr r \<Rightarrow> Inr (with_runtime_class (prof_runtime_class p) (with_active_deadline (prof_deadline p) r))))"

definition profile_find_by_id :: "string \<Rightarrow> runner_profile op" where
  "profile_find_by_id i =
     port_call (\<lambda>w. (case find_row prof_id (w_profiles w) i of
                       None \<Rightarrow> Inl ErrNotFound | Some p \<Rightarrow> load_profile p, w))"

definition schedule_find_by_id :: "(string \<Rightarrow> bool) \<Rightarrow> string \<Rightarrow> schedule op" where
  "schedule_find_by_id cron_ok i =
     port_call (\<lambda>w. (case find_row sch_id (w_schedules w) i of
                       None \<Rightarrow> Inl ErrNotFound | Some s \<Rightarrow> new_schedule_with_id cron_ok s, w))"

end
