(* ===== verification/Storage_Keys.thy ===== *)
theory Storage_Keys
  imports Artifacts Runs
begin

text \<open>
  \<^verbatim>\<open>internal/adapters/outbound/s3/keys.go\<close>: the layout of the object store.  A key is a path whose
  components are trimmed identifiers; the identifiers used by the program are UUIDs, which contain no
  slash.
\<close>

definition key_source_tarball :: "string \<Rightarrow> string \<Rightarrow> string result" where
  "key_source_tarball suite version =
     (if trim_space suite = '''' then Inl ErrValidation
      else if trim_space version = '''' then
        Inr (''suites/'' @ trim_space suite @ ''/sources/source.tar.gz'')
      else Inr (''suites/'' @ trim_space suite @ ''/sources/source-'' @ trim_space version @ ''.tar.gz''))"

definition key_binary_artifact :: "string \<Rightarrow> string \<Rightarrow> platform \<Rightarrow> string result" where
  "key_binary_artifact suite artifact p =
     (if trim_space suite = '''' then Inl ErrValidation
      else if trim_space artifact = '''' then Inl ErrValidation
      else case p of
             PlatformLinuxAmd64 \<Rightarrow> Inr (''suites/'' @ trim_space suite @ ''/artifacts/'' @
                                      trim_space artifact @ ''/linux-amd64/runner'')
           | PlatformLinuxArm64 \<Rightarrow> Inr (''suites/'' @ trim_space suite @ ''/artifacts/'' @
                                      trim_space artifact @ ''/linux-arm64/runner'')
           | PlatformOther _ \<Rightarrow> Inl ErrInvalidPlatform)"

definition key_build_logs :: "string \<Rightarrow> string \<Rightarrow> string result" where
  "key_build_logs suite artifact =
     (if trim_space suite = '''' then Inl ErrValidation
      else if trim_space artifact = '''' then Inl ErrValidation
      else Inr (''suites/'' @ trim_space suite @ ''/artifacts/'' @ trim_space artifact @ ''/build.log''))"

definition key_configuration :: "string \<Rightarrow> string \<Rightarrow> string result" where
  "key_configuration suite config =
     (if trim_space suite = '''' then Inl ErrValidation
      else if trim_space config = '''' then Inl ErrValidation
      else Inr (''suites/'' @ trim_space suite @ ''/configs/'' @ trim_space config @ ''.yaml''))"

definition key_execution_logs :: "string \<Rightarrow> string result" where
  "key_execution_logs run =
     (if trim_space run = '''' then Inl ErrValidation
      else Inr (''runs/'' @ trim_space run @ ''/run.log''))"

definition key_summary_report :: "string \<Rightarrow> string result" where
  "key_summary_report run =
     (if trim_space run = '''' then Inl ErrValidation
      else Inr (''runs/'' @ trim_space run @ ''/summary.json''))"

definition worker_key :: "string \<Rightarrow> string \<Rightarrow> int \<Rightarrow> string result" where
  "worker_key file run idx =
     (if trim_space run = '''' then Inl ErrValidation
      else if idx < 0 then Inl ErrValidation
      else Inr (''runs/'' @ trim_space run @ ''/workers/'' @ itoa idx @ file))"

definition key_worker_summary_report :: "string \<Rightarrow> int \<Rightarrow> string result" where
  "key_worker_summary_report = worker_key ''/summary.json''"

definition key_worker_execution_logs :: "string \<Rightarrow> int \<Rightarrow> string result" where
  "key_worker_execution_logs = worker_key ''/run.log''"

definition key_worker_config :: "string \<Rightarrow> int \<Rightarrow> string result" where
  "key_worker_config = worker_key ''/vuhive.yaml''"

text \<open>The path components of a key.\<close>

lemma split_on_append_sep:
  "c \<notin> set s \<Longrightarrow> split_on c (s @ c # t) = s # split_on c t"
  by (induction s) (auto split: list.splits)

lemma split_on_plain: "c \<notin> set s \<Longrightarrow> split_on c s = [s]"
  by (induction s) auto

definition no_slash :: "string \<Rightarrow> bool" where
  "no_slash s \<longleftrightarrow> CHR ''/'' \<notin> set s"

lemma no_slash_simps [simp]:
  "no_slash ''''" "no_slash (c # s) \<longleftrightarrow> c \<noteq> CHR ''/'' \<and> no_slash s"
  "no_slash (s @ t) \<longleftrightarrow> no_slash s \<and> no_slash t"
  by (auto simp: no_slash_def)

lemma path_components:
  assumes "\<forall>x \<in> set xs. no_slash x" and "no_slash x"
  shows "split_on (CHR ''/'') (concat (map (\<lambda>x. x @ ''/'') xs) @ x) = xs @ [x]"
  using assms
  by (induction xs) (auto simp: no_slash_def split_on_append_sep split_on_plain)

lemma digits_no_slash: "no_slash (nat_digits n)"
proof (induction n rule: nat_digits.induct)
  case (1 n)
  have "digit_of (CHR ''/'') = None" by (simp add: digit_of_def)
  then have d: "no_slash [digit_char k]" if "k < 10" for k
    using digit_of_digit_char [OF that] by (auto simp: no_slash_def)
  show ?case
  proof (cases "n < 10")
    case True
    then show ?thesis using d by (simp add: nat_digits.simps [of n])
  next
    case False
    with 1 d [of "n mod 10"] show ?thesis
      by (auto simp: nat_digits.simps [of n] no_slash_def)
  qed
qed

lemma itoa_no_slash: "no_slash (itoa i)"
  using digits_no_slash by (simp add: itoa_def no_slash_def)

lemma itoa_inj: "in_int64 i \<Longrightarrow> in_int64 j \<Longrightarrow> itoa i = itoa j \<Longrightarrow> i = j"
  using atoi_itoa by (metis prod.inject)

lemma trim_space_subset: "set (trim_space s) \<subseteq> set s"
proof -
  have "set (trim_space s) \<subseteq> set (trim_left s)"
    unfolding trim_space_def using trim_right_prefix by (rule set_mono_prefix)
  also have "\<dots> \<subseteq> set s"
    unfolding trim_left_def using strip_front_suffix by (rule set_mono_suffix)
  finally show ?thesis .
qed

lemma no_slash_trim: "no_slash s \<Longrightarrow> no_slash (trim_space s)"
  using trim_space_subset by (auto simp: no_slash_def)

section \<open>What the objects are for\<close>

datatype purpose =
    Source_Tarball string string
  | Binary string string platform
  | Build_Logs string string
  | Config_File string string
  | Run_Logs string
  | Run_Report string
  | Worker_Report string int
  | Worker_Logs string int
  | Worker_Config string int

fun key_of :: "purpose \<Rightarrow> string result" where
  "key_of (Source_Tarball s v) = key_source_tarball s v"
| "key_of (Binary s a p) = key_binary_artifact s a p"
| "key_of (Build_Logs s a) = key_build_logs s a"
| "key_of (Config_File s c) = key_configuration s c"
| "key_of (Run_Logs r) = key_execution_logs r"
| "key_of (Run_Report r) = key_summary_report r"
| "key_of (Worker_Report r i) = key_worker_summary_report r i"
| "key_of (Worker_Logs r i) = key_worker_execution_logs r i"
| "key_of (Worker_Config r i) = key_worker_config r i"

fun slash_free :: "purpose \<Rightarrow> bool" where
  "slash_free (Source_Tarball s v) = (no_slash s \<and> no_slash v)"
| "slash_free (Binary s a p) = (no_slash s \<and> no_slash a)"
| "slash_free (Build_Logs s a) = (no_slash s \<and> no_slash a)"
| "slash_free (Config_File s c) = (no_slash s \<and> no_slash c)"
| "slash_free (Run_Logs r) = no_slash r"
| "slash_free (Run_Report r) = no_slash r"
| "slash_free (Worker_Report r i) = (no_slash r \<and> in_int64 i)"
| "slash_free (Worker_Logs r i) = (no_slash r \<and> in_int64 i)"
| "slash_free (Worker_Config r i) = (no_slash r \<and> in_int64 i)"

fun canonical :: "purpose \<Rightarrow> purpose" where
  "canonical (Source_Tarball s v) = Source_Tarball (trim_space s) (trim_space v)"
| "canonical (Binary s a p) = Binary (trim_space s) (trim_space a) p"
| "canonical (Build_Logs s a) = Build_Logs (trim_space s) (trim_space a)"
| "canonical (Config_File s c) = Config_File (trim_space s) (trim_space c)"
| "canonical (Run_Logs r) = Run_Logs (trim_space r)"
| "canonical (Run_Report r) = Run_Report (trim_space r)"
| "canonical (Worker_Report r i) = Worker_Report (trim_space r) i"
| "canonical (Worker_Logs r i) = Worker_Logs (trim_space r) i"
| "canonical (Worker_Config r i) = Worker_Config (trim_space r) i"

definition platform_dir :: "platform \<Rightarrow> string" where
  "platform_dir p = (if p = PlatformLinuxAmd64 then ''linux-amd64'' else ''linux-arm64'')"

text \<open>The directories and the file name of a canonical purpose.\<close>

fun path_of :: "purpose \<Rightarrow> string list \<times> string" where
  "path_of (Source_Tarball s v) = ([''suites'', s, ''sources''],
     if v = '''' then ''source.tar.gz'' else ''source-'' @ v @ ''.tar.gz'')"
| "path_of (Binary s a p) = ([''suites'', s, ''artifacts'', a, platform_dir p], ''runner'')"
| "path_of (Build_Logs s a) = ([''suites'', s, ''artifacts'', a], ''build.log'')"
| "path_of (Config_File s c) = ([''suites'', s, ''configs''], c @ ''.yaml'')"
| "path_of (Run_Logs r) = ([''runs'', r], ''run.log'')"
| "path_of (Run_Report r) = ([''runs'', r], ''summary.json'')"
| "path_of (Worker_Report r i) = ([''runs'', r, ''workers'', itoa i], ''summary.json'')"
| "path_of (Worker_Logs r i) = ([''runs'', r, ''workers'', itoa i], ''run.log'')"
| "path_of (Worker_Config r i) = ([''runs'', r, ''workers'', itoa i], ''vuhive.yaml'')"

definition render_path :: "string list \<times> string \<Rightarrow> string" where
  "render_path p = concat (map (\<lambda>x. x @ ''/'') (fst p)) @ snd p"

lemmas key_defs = key_source_tarball_def key_binary_artifact_def key_build_logs_def
  key_configuration_def key_execution_logs_def key_summary_report_def worker_key_def
  key_worker_summary_report_def key_worker_execution_logs_def key_worker_config_def

lemma key_of_path: "key_of p = Inr k \<Longrightarrow> k = render_path (path_of (canonical p))"
  by (cases p) (auto simp: key_defs render_path_def platform_dir_def split: if_splits platform.splits)

lemma path_of_no_slash:
  assumes "slash_free p"
  shows "(\<forall>x \<in> set (fst (path_of (canonical p))). no_slash x) \<and> no_slash (snd (path_of (canonical p)))"
  using assms by (cases p) (simp_all add: no_slash_trim itoa_no_slash platform_dir_def)

lemma split_key:
  assumes "key_of p = Inr k" and "slash_free p"
  shows "split_on (CHR ''/'') k = fst (path_of (canonical p)) @ [snd (path_of (canonical p))]"
  unfolding key_of_path [OF assms(1)] render_path_def
  using path_of_no_slash [OF assms(2)] by (intro path_components) auto

lemma valid_key_platform: "key_of (Binary s a p) = Inr k \<Longrightarrow> platform_valid p"
  by (cases p) (auto simp: key_binary_artifact_def split: if_splits)

lemma platform_dir_inj: "platform_valid p \<Longrightarrow> platform_valid q \<Longrightarrow> platform_dir p = platform_dir q \<Longrightarrow> p = q"
  by (cases p; cases q) (simp_all add: platform_dir_def)

lemma path_of_inj:
  assumes "path_of (canonical p) = path_of (canonical q)" and "key_of p = Inr k" and "key_of q = Inr l"
    and "slash_free p" and "slash_free q"
  shows "canonical p = canonical q"
  using assms valid_key_platform
  by (cases p; cases q) (auto simp: platform_dir_inj split: if_splits dest: itoa_inj)

text \<open>
  storage keys never collide.  Two objects with identifiers free of slashes that get the same key
  serve the same purpose for the same identifiers, up to surrounding white space: sources, binaries,
  build logs, configurations, reports and logs of runs and of their workers never overwrite each other.
\<close>

theorem storage_keys_injective:
  assumes "key_of p = Inr k" and "key_of q = Inr k" and "slash_free p" and "slash_free q"
  shows "canonical p = canonical q"
proof -
  have "fst (path_of (canonical p)) @ [snd (path_of (canonical p))] =
      fst (path_of (canonical q)) @ [snd (path_of (canonical q))]"
    using split_key [OF assms(1,3)] split_key [OF assms(2,4)] by simp
  then have "path_of (canonical p) = path_of (canonical q)"
    by (simp add: prod_eq_iff)
  then show ?thesis using assms by (intro path_of_inj)
qed

theorem storage_keys_injective_witness:
  "key_of (Run_Report '' r1 '') = key_of (Run_Report ''r1'') \<and>
   canonical (Run_Report '' r1 '') = canonical (Run_Report ''r1'')"
proof -
  have t: "trim_space '' r1 '' = ''r1''" "trim_space ''r1'' = ''r1''" by (simp_all add: trim_eval)
  then have "key_of (Run_Report '' r1 '') = Inr ''runs/r1/summary.json''"
      "key_of (Run_Report ''r1'') = Inr ''runs/r1/summary.json''"
    by (simp_all add: key_summary_report_def)
  with storage_keys_injective [OF this] show ?thesis by simp
qed

end
