(* ===== verification/Control_Ports.thy ===== *)
theory Control_Ports
  imports Control_State Storage_Keys
begin

text \<open>
  The other driven ports: the object store (\<^verbatim>\<open>internal/adapters/outbound/s3/adapter.go\<close>), the Kubernetes
  jobs of test runs (\<^verbatim>\<open>internal/adapters/outbound/k8s/runner_orchestrator.go\<close>) and the event publisher.
  The object store maps keys to contents, its delete succeeds on a missing key (the documented
  behaviour of S3), and signing a URL is the argument \<open>sign\<close>.  A job is its namespace and name.
\<close>

section \<open>Object store\<close>

definition storage_upload :: "string \<Rightarrow> string \<Rightarrow> unit op" where
  "storage_upload key content =
     (if trim_space key = '''' then failW ErrEmptyS3Key
      else port_call (\<lambda>w. (Inr (), w\<lparr>w_objects := (w_objects w)(trim_space key \<mapsto> content)\<rparr>)))"

definition storage_download :: "string \<Rightarrow> string op" where
  "storage_download key =
     (if trim_space key = '''' then failW ErrEmptyS3Key
      else port_call (\<lambda>w. (case w_objects w (trim_space key) of
                             None \<Rightarrow> Inl ErrNotFound | Some c \<Rightarrow> Inr c, w)))"

definition storage_delete :: "string \<Rightarrow> unit op" where
  "storage_delete key =
     (if trim_space key = '''' then failW ErrEmptyS3Key
      else port_call (\<lambda>w. (Inr (), w\<lparr>w_objects := (w_objects w)(trim_space key := None)\<rparr>)))"

definition storage_exists :: "string \<Rightarrow> bool op" where
  "storage_exists key =
     (if trim_space key = '''' then failW ErrEmptyS3Key
      else port_call (\<lambda>w. (Inr (w_objects w (trim_space key) \<noteq> None), w)))"

definition presign_lifetime :: "duration \<Rightarrow> duration" where
  "presign_lifetime d = (if d \<le> 0 then 15 * 60 * second else d)"

definition presign_download :: "(string \<Rightarrow> duration \<Rightarrow> string) \<Rightarrow> string \<Rightarrow> duration \<Rightarrow> string op" where
  "presign_download sign key d =
     (if trim_space key = '''' then failW ErrEmptyS3Key
      else port_call (\<lambda>w. (Inr (sign (trim_space key) (presign_lifetime d)), w)))"

definition presign_upload :: "(string \<Rightarrow> duration \<Rightarrow> string) \<Rightarrow> string \<Rightarrow> duration \<Rightarrow> string op" where
  "presign_upload sign key d =
     (if trim_space key = '''' then failW ErrEmptyS3Key
      else port_call (\<lambda>w. (Inr (sign (trim_space key) (presign_lifetime d)), w)))"

text \<open>The rules replace those of the bucket; the number of days is clamped to 32 bits.\<close>

definition s3_rule :: "lifecycle_rule \<Rightarrow> lifecycle_rule" where
  "s3_rule r = r\<lparr>lr_days := (if lr_days r \<le> 0 then 0 else if lr_days r \<le> 2147483647 then lr_days r else 2147483647)\<rparr>"

definition put_bucket_lifecycle :: "lifecycle_rule list \<Rightarrow> unit op" where
  "put_bucket_lifecycle rules = port_call (\<lambda>w. (Inr (), w\<lparr>w_lifecycle := map s3_rule rules\<rparr>))"

section \<open>Runner jobs\<close>

definition format_runner_job_name :: "string \<Rightarrow> string \<Rightarrow> string" where
  "format_runner_job_name run suf =
     (let name = ''vuhive-run-'' @ to_lower (trim_space run);
          s = to_lower (trim_space suf);
          full = (if s \<noteq> '''' then name @ ''-'' @ s else name)
      in trim_right_char (take 63 full) (CHR ''-''))"

text \<open>The namespace that the generated manifest names (\<open>GenerateJob\<close>); \<open>cfg\<close> is the generator's.\<close>

definition job_namespace :: "string \<Rightarrow> string \<Rightarrow> string" where
  "job_namespace cfg run_ns =
     (let ns = trim_space run_ns;
          ns' = (if (ns = '''' \<or> ns = default_runner_namespace) \<and> trim_space cfg \<noteq> ''''
                 then trim_space cfg else ns)
      in if ns' = '''' then default_runner_namespace else ns')"

text \<open>
  \<open>DispatchJob\<close> for one worker.  Beyond the missing binary key, a manifest is refused only by the
  parsing of resource quantities, which is covered by the fault script.
\<close>

definition dispatch_job :: "string \<Rightarrow> test_run \<Rightarrow> runner_profile \<Rightarrow> string \<Rightarrow> string \<Rightarrow> string op" where
  "dispatch_job cfg run prof binary_key config_key =
     (if trim_space binary_key = '''' then failW ErrValidation
      else port_call (\<lambda>w.
        let ns = job_namespace cfg (k8s_namespace run); name = format_runner_job_name (run_id run) ''''
        in if (ns, name) \<in> set (w_jobs w) then (Inl ErrConflict, w)
           else (Inr name, w\<lparr>w_jobs := (ns, name) # w_jobs w\<rparr>)))"

definition abort_namespace :: "string \<Rightarrow> string \<Rightarrow> string" where
  "abort_namespace cfg namespace =
     (if trim_space namespace \<noteq> '''' then trim_space namespace
      else if trim_space cfg \<noteq> '''' then trim_space cfg
      else default_runner_namespace)"

definition abort_job :: "string \<Rightarrow> string \<Rightarrow> string \<Rightarrow> unit op" where
  "abort_job cfg name namespace =
     port_call (\<lambda>w.
       let key = (abort_namespace cfg namespace, trim_space name)
       in if key \<in> set (w_jobs w) then (Inr (), w\<lparr>w_jobs := removeAll key (w_jobs w)\<rparr>)
          else (Inl ErrNotFound, w))"

text \<open>The bare calls on jobs that the build orchestrator makes.\<close>

definition job_get :: "string \<Rightarrow> string \<Rightarrow> unit op" where
  "job_get ns name = port_call (\<lambda>w. (if (ns, name) \<in> set (w_jobs w) then Inr () else Inl ErrNotFound, w))"

definition job_create :: "string \<Rightarrow> string \<Rightarrow> unit op" where
  "job_create ns name =
     port_call (\<lambda>w. if (ns, name) \<in> set (w_jobs w) then (Inl ErrConflict, w)
                     else (Inr (), w\<lparr>w_jobs := (ns, name) # w_jobs w\<rparr>))"

definition job_delete :: "string \<Rightarrow> string \<Rightarrow> unit op" where
  "job_delete ns name =
     port_call (\<lambda>w. if (ns, name) \<in> set (w_jobs w)
                     then (Inr (), w\<lparr>w_jobs := removeAll (ns, name) (w_jobs w)\<rparr>) else (Inl ErrNotFound, w))"

definition publish_event :: "domain_event \<Rightarrow> unit op" where
  "publish_event e = port_call (\<lambda>w. (Inr (), w\<lparr>w_events := w_events w @ [e]\<rparr>))"

text \<open>
  the job that \<open>TriggerRun\<close> starts and the job that \<open>AbortRun\<close> deletes are in the same namespace
  when the run names its own namespace or the orchestrator is configured with none, and are in
  different namespaces for every run in the default namespace under an orchestrator configured with
  another one: such a job cannot be aborted.
\<close>

theorem abort_namespace_mismatch:
  "(trim_space cfg = '''' \<or> trim_space ns \<notin> {'''', default_runner_namespace} \<longrightarrow>
      abort_namespace cfg ns = job_namespace cfg ns) \<and>
   (trim_space cfg \<notin> {'''', default_runner_namespace} \<longrightarrow>
      job_namespace cfg default_runner_namespace \<noteq> abort_namespace cfg default_runner_namespace)"
proof -
  have "trim_space default_runner_namespace = default_runner_namespace"
    unfolding default_runner_namespace_def
    by (rule trim_space_graphic) (simp_all add: graphic_def)
  then show ?thesis by (auto simp: abort_namespace_def job_namespace_def Let_def)
qed

theorem abort_namespace_mismatch_witness:
  "job_namespace ''load'' default_runner_namespace \<noteq> abort_namespace ''load'' default_runner_namespace"
proof -
  have "trim_space ''load'' = ''load''" by (simp add: trim_space_graphic graphic_def)
  then show ?thesis
    using abort_namespace_mismatch [of "''load''"] by (simp add: default_runner_namespace_def)
qed

section \<open>The tables satisfy the repository contract\<close>

definition stored_run :: "test_run option \<Rightarrow> test_run \<Rightarrow> test_run" where
  "stored_run old r = (case old of None \<Rightarrow> r | Some o1 \<Rightarrow> merge_run o1 r)"

definition stored_artifact :: "artifact option \<Rightarrow> artifact \<Rightarrow> artifact" where
  "stored_artifact old a = (case old of None \<Rightarrow> a | Some o1 \<Rightarrow> merge_artifact o1 a)"

definition stored_suite :: "test_suite option \<Rightarrow> test_suite \<Rightarrow> test_suite" where
  "stored_suite old s = (case old of None \<Rightarrow> s | Some o1 \<Rightarrow> merge_suite o1 s)"

interpretation runs: repository run_id get_run put_run drop_run stored_run
  by unfold_locales
    (auto simp: get_run_def put_run_def drop_run_def stored_run_def merge_run_def find_row_delete
      find_row_upsert_same find_row_upsert_other dest!: find_row_Some split: option.splits)

interpretation artifacts: repository art_id "find_row art_id" "upsert art_id merge_artifact"
  "delete_row art_id" stored_artifact
  by unfold_locales
    (auto simp: stored_artifact_def merge_artifact_def find_row_delete
      find_row_upsert_same find_row_upsert_other dest!: find_row_Some split: option.splits)

interpretation suites: repository suite_id "find_row suite_id" "upsert suite_id merge_suite"
  "delete_row suite_id" stored_suite
  by unfold_locales
    (auto simp: stored_suite_def merge_suite_def find_row_delete
      find_row_upsert_same find_row_upsert_other dest!: find_row_Some split: option.splits)

end
