(* ===== verification/Run_Service.thy ===== *)
theory Run_Service
  imports Control_Ports
begin

text \<open>
  \<^verbatim>\<open>internal/application/service/run_service.go\<close>: triggering, aborting, completing, cleaning up, deleting
  and reading test runs.  Logging is not modelled.  The parser of the summary report is the argument
  \<open>parse\<close>: it returns the metrics, the SLA verdict and the raw document, or fails.  A nil storage or
  event publisher is a flag of the environment.
\<close>

record run_env =
  re_namespace :: string
  re_cluster_namespace :: string
  re_storage :: bool
  re_events :: bool

section \<open>TriggerRun\<close>

record trigger_cmd =
  tc_suite :: string
  tc_artifact :: string
  tc_config :: "string option"
  tc_profile :: string
  tc_namespace :: "string option"

text \<open>Step 3: the storage key of the configuration, when one is named.\<close>

definition trigger_config_key :: "string option \<Rightarrow> test_suite \<Rightarrow> string op" where
  "trigger_config_key cfg suite =
     (case opt_trim cfg of
        None \<Rightarrow> returnW ''''
      | Some i \<Rightarrow>
          bindW (config_find_by_id i) (\<lambda>c.
            if cfg_suite_id c \<noteq> suite_id suite then failW ErrValidation
            else returnW (s3_config_key c)))"

definition trigger_namespace :: "run_env \<Rightarrow> trigger_cmd \<Rightarrow> string" where
  "trigger_namespace env cmd =
     (case opt_trim (tc_namespace cmd) of None \<Rightarrow> re_namespace env | Some n \<Rightarrow> n)"

text \<open>Steps 6 to 8: persist, dispatch, associate the job.\<close>

definition trigger_dispatch ::
  "run_env \<Rightarrow> time \<Rightarrow> artifact \<Rightarrow> string \<Rightarrow> runner_profile \<Rightarrow> test_run \<Rightarrow> test_run op" where
  "trigger_dispatch env t_fail art cfg_key prof run =
     bindW (run_save run) (\<lambda>_.
     bindW (attempt (dispatch_job (re_cluster_namespace env) run prof (s3_binary_key art) cfg_key)) (\<lambda>d.
       case d of
         Inl e \<Rightarrow>
           (let failed = (case run_fail 1 '''' t_fail run of Inl _ \<Rightarrow> run | Inr r \<Rightarrow> r)
            in bindW (attempt (run_save failed)) (\<lambda>_. failW e))
       | Inr job \<Rightarrow>
           (let run' = set_k8s_job_name job run
            in bindW (run_save run') (\<lambda>_. returnW run'))))"

definition trigger_run ::
  "run_env \<Rightarrow> string \<Rightarrow> time \<Rightarrow> time \<Rightarrow> trigger_cmd \<Rightarrow> test_run op" where
  "trigger_run env uuid t_new t_fail cmd =
     (let sid = trim_space (tc_suite cmd); aid = trim_space (tc_artifact cmd);
          pid = trim_space (tc_profile cmd)
      in if sid = '''' \<or> aid = '''' \<or> pid = '''' then failW ErrValidation
         else
           bindW (suite_find_by_id sid) (\<lambda>suite.
           if suite_state suite \<noteq> TestSuiteStateActive then failW ErrInvalidStateTransition
           else
           bindW (artifact_find_by_id aid) (\<lambda>art.
           if art_suite_id art \<noteq> suite_id suite then failW ErrValidation
           else if art_state art \<noteq> ArtifactStatusReady then failW ErrInvalidStateTransition
           else
           bindW (trigger_config_key (tc_config cmd) suite) (\<lambda>cfg_key.
           bindW (profile_find_by_id pid) (\<lambda>prof.
           bindW (liftW (new_test_run uuid t_new (suite_id suite) (art_id art) (tc_config cmd)
                    (prof_id prof) None [trigger_namespace env cmd])) (\<lambda>run.
           trigger_dispatch env t_fail art cfg_key prof run))))))"

section \<open>GetRun, ListRuns, reports and logs\<close>

definition with_run :: "string \<Rightarrow> (test_run \<Rightarrow> 'a op) \<Rightarrow> 'a op" where
  "with_run i f =
     (if trim_space i = '''' then failW ErrValidation
      else bindW (run_find_by_id (trim_space i)) f)"

definition get_run_op :: "string \<Rightarrow> test_run op" where
  "get_run_op i = with_run i returnW"

record run_filter =
  rf_suite :: string
  rf_status :: run_status
  rf_schedule :: string
  rf_from :: "time option"
  rf_to :: "time option"
  rf_limit :: int
  rf_offset :: int

definition filter_matches :: "run_filter \<Rightarrow> test_run \<Rightarrow> bool" where
  "filter_matches f r \<longleftrightarrow>
     (trim_space (rf_suite f) \<noteq> '''' \<longrightarrow> run_suite_id r = trim_space (rf_suite f)) \<and>
     (run_status_valid (rf_status f) \<longrightarrow> run_state r = rf_status f) \<and>
     (trim_space (rf_schedule f) \<noteq> '''' \<longrightarrow> run_schedule_id r = Some (trim_space (rf_schedule f))) \<and>
     (case rf_from f of None \<Rightarrow> True | Some t \<Rightarrow> t \<noteq> 0 \<longrightarrow> run_created_at r \<ge> t) \<and>
     (case rf_to f of None \<Rightarrow> True | Some t \<Rightarrow> t \<noteq> 0 \<longrightarrow> run_created_at r \<le> t)"

definition page :: "run_filter \<Rightarrow> 'a list \<Rightarrow> 'a list" where
  "page f xs =
     (let ys = (if rf_offset f > 0 then drop (nat (rf_offset f)) xs else xs)
      in if rf_limit f > 0 then take (nat (rf_limit f)) ys else ys)"

definition run_list_filtered :: "run_filter \<Rightarrow> (test_run list \<times> int) op" where
  "run_list_filtered f =
     bindW (port_call (\<lambda>w. (Inr (int (length (filter (filter_matches f) (w_runs w)))), w))) (\<lambda>total.
     bindW (port_call (\<lambda>w. (collect_results (map new_test_run_with_id
              (page f (newest_first (filter (filter_matches f) (w_runs w))))), w))) (\<lambda>runs.
     returnW (runs, total)))"

definition normalize_filter :: "run_filter \<Rightarrow> run_filter" where
  "normalize_filter f =
     f\<lparr>rf_suite := trim_space (rf_suite f), rf_schedule := trim_space (rf_schedule f),
       rf_limit := (let l = (if rf_limit f \<le> 0 then 20 else rf_limit f) in if l > 100 then 100 else l),
       rf_offset := (if rf_offset f < 0 then 0 else rf_offset f)\<rparr>"

definition list_runs :: "run_filter \<Rightarrow> (test_run list \<times> int) op" where
  "list_runs f = run_list_filtered (normalize_filter f)"

definition in_flight :: "test_run \<Rightarrow> bool" where
  "in_flight r \<longleftrightarrow> run_state r = RunStatusQueued \<or> run_state r = RunStatusRunning"

definition get_run_report :: "run_env \<Rightarrow> string \<Rightarrow> string op" where
  "get_run_report env i =
     with_run i (\<lambda>run.
       if in_flight run then failW ErrRunInFlight
       else
         bindW (if re_storage env \<and> trim_space (s3_report_key run) \<noteq> ''''
                then attempt (storage_download (s3_report_key run))
                else returnW (Inl ErrNotFound)) (\<lambda>d.
         case d of
           Inr c \<Rightarrow> returnW c
         | Inl _ \<Rightarrow>
             (case summary_json run of
                Some s \<Rightarrow> if s \<noteq> '''' then returnW s else failW ErrReportNotFound
              | None \<Rightarrow> failW ErrReportNotFound)))"

definition get_run_report_url ::
  "run_env \<Rightarrow> (string \<Rightarrow> duration \<Rightarrow> string) \<Rightarrow> string \<Rightarrow> duration \<Rightarrow> string op" where
  "get_run_report_url env sign i d =
     with_run i (\<lambda>run.
       if in_flight run then failW ErrRunInFlight
       else if trim_space (s3_report_key run) = '''' \<or> \<not> re_storage env then failW ErrReportNotFound
       else presign_download sign (s3_report_key run) d)"

definition get_run_logs :: "run_env \<Rightarrow> string \<Rightarrow> string op" where
  "get_run_logs env i =
     with_run i (\<lambda>run.
       if in_flight run then failW ErrRunInFlight
       else if trim_space (s3_logs_key run) = '''' \<or> \<not> re_storage env then failW ErrLogsNotFound
       else bindW (attempt (storage_download (s3_logs_key run))) (\<lambda>d.
              case d of Inl _ \<Rightarrow> failW ErrLogsNotFound | Inr c \<Rightarrow> returnW c))"

definition get_run_logs_url ::
  "run_env \<Rightarrow> (string \<Rightarrow> duration \<Rightarrow> string) \<Rightarrow> string \<Rightarrow> duration \<Rightarrow> string op" where
  "get_run_logs_url env sign i d =
     with_run i (\<lambda>run.
       if in_flight run then failW ErrRunInFlight
       else if trim_space (s3_logs_key run) = '''' \<or> \<not> re_storage env then failW ErrLogsNotFound
       else presign_download sign (s3_logs_key run) d)"

section \<open>AbortRun, CleanupRun, DeleteRun\<close>

text \<open>Best effort: the errors of Kubernetes, storage and the publisher are logged and dropped.\<close>

definition try_abort_job :: "run_env \<Rightarrow> test_run \<Rightarrow> unit op" where
  "try_abort_job env run =
     (if k8s_job_name run \<noteq> '''' then
        bindW (attempt (abort_job (re_cluster_namespace env) (k8s_job_name run) (k8s_namespace run)))
          (\<lambda>_. returnW ())
      else returnW ())"

definition try_publish :: "run_env \<Rightarrow> domain_event \<Rightarrow> unit op" where
  "try_publish env e =
     (if re_events env then bindW (attempt (publish_event e)) (\<lambda>_. returnW ()) else returnW ())"

definition try_delete :: "string \<Rightarrow> unit op" where
  "try_delete key =
     (if key \<noteq> '''' then bindW (attempt (storage_delete key)) (\<lambda>_. returnW ()) else returnW ())"

definition abort_run :: "run_env \<Rightarrow> time \<Rightarrow> string \<Rightarrow> string \<Rightarrow> test_run op" where
  "abort_run env now i reason =
     (let why = (if trim_space reason = '''' then ''manual cancellation'' else trim_space reason)
      in with_run i (\<lambda>run.
           if run_status_terminal (run_state run) then failW ErrTerminalState
           else
             bindW (try_abort_job env run) (\<lambda>_.
             bindW (liftW (run_abort why now run)) (\<lambda>run'.
             bindW (run_save run') (\<lambda>_.
             bindW (try_publish env (RunAborted (run_id run') (run_suite_id run') why now)) (\<lambda>_.
             returnW run'))))))"

definition cleanup_run :: "run_env \<Rightarrow> time \<Rightarrow> string \<Rightarrow> test_run op" where
  "cleanup_run env now i =
     with_run i (\<lambda>run.
       bindW (try_abort_job env run) (\<lambda>_.
       if run_status_terminal (run_state run) then returnW run
       else
         bindW (liftW (run_abort ''runtime cleaned'' now run)) (\<lambda>run'.
         bindW (run_save run') (\<lambda>_.
         bindW (try_publish env (RunAborted (run_id run') (run_suite_id run') ''runtime cleaned'' now))
           (\<lambda>_. returnW run')))))"

definition delete_run :: "run_env \<Rightarrow> string \<Rightarrow> unit op" where
  "delete_run env i =
     with_run i (\<lambda>run.
       if \<not> run_status_terminal (run_state run) then failW ErrConflict
       else
         bindW (try_abort_job env run) (\<lambda>_.
         bindW (if re_storage env then bindW (try_delete (s3_report_key run)) (\<lambda>_. try_delete (s3_logs_key run))
                else returnW ()) (\<lambda>_.
         run_delete (trim_space i))))"

section \<open>CompleteRun\<close>

record complete_cmd =
  cc_run :: string
  cc_report :: string
  cc_logs :: string
  cc_exit :: "int option"
  cc_summary :: string
  cc_finished :: "time option"

text \<open>The run by its identifier, or by the name of its job when there is none with that identifier.\<close>

definition find_for_completion :: "string \<Rightarrow> test_run op" where
  "find_for_completion i =
     bindW (attempt (run_find_by_id i)) (\<lambda>f.
       case f of
         Inr run \<Rightarrow> returnW run
       | Inl e \<Rightarrow> if e \<noteq> ErrNotFound then failW e else run_find_by_job_name i)"

definition completion_time :: "time \<Rightarrow> complete_cmd \<Rightarrow> time" where
  "completion_time now cmd =
     (case cc_finished cmd of None \<Rightarrow> now | Some t \<Rightarrow> if t = 0 then now else t)"

definition ensure_started :: "string \<Rightarrow> time \<Rightarrow> test_run \<Rightarrow> test_run" where
  "ensure_started job t run =
     (if run_state run = RunStatusQueued
      then (case run_start job t run of Inl _ \<Rightarrow> run | Inr r \<Rightarrow> r) else run)"

definition first_nonempty :: "string \<Rightarrow> string \<Rightarrow> string \<Rightarrow> string" where
  "first_nonempty a b c = (if a \<noteq> '''' then a else if b \<noteq> '''' then b else c)"

definition completion_report_key :: "complete_cmd \<Rightarrow> test_run \<Rightarrow> string" where
  "completion_report_key cmd run =
     first_nonempty (trim_space (cc_report cmd)) (s3_report_key run)
       (''runs/'' @ run_id run @ ''/summary.json'')"

definition completion_logs_key :: "complete_cmd \<Rightarrow> test_run \<Rightarrow> string" where
  "completion_logs_key cmd run =
     first_nonempty (trim_space (cc_logs cmd)) (s3_logs_key run) (''runs/'' @ run_id run @ ''/run.log'')"

definition resolve_summary :: "run_env \<Rightarrow> complete_cmd \<Rightarrow> string \<Rightarrow> string op" where
  "resolve_summary env cmd report_key =
     (if trim_space (cc_summary cmd) = '''' \<and> re_storage env \<and> report_key \<noteq> '''' then
        bindW (attempt (storage_download report_key)) (\<lambda>d.
          returnW (case d of Inl _ \<Rightarrow> cc_summary cmd | Inr c \<Rightarrow> c))
      else returnW (cc_summary cmd))"

definition fail_and_save :: "int \<Rightarrow> string \<Rightarrow> time \<Rightarrow> test_run \<Rightarrow> test_run op" where
  "fail_and_save code logs t run =
     bindW (liftW (run_fail code logs t run)) (\<lambda>r. bindW (run_save r) (\<lambda>_. returnW r))"

definition complete_run ::
  "run_env \<Rightarrow> (string \<Rightarrow> (run_metrics \<times> bool \<times> string) option) \<Rightarrow> time \<Rightarrow> complete_cmd
    \<Rightarrow> test_run op" where
  "complete_run env parse now cmd =
     (if trim_space (cc_run cmd) = '''' then failW ErrValidation
      else
        bindW (find_for_completion (trim_space (cc_run cmd))) (\<lambda>found.
        if run_status_terminal (run_state found) then failW ErrTerminalState
        else
          let t = completion_time now cmd;
              run = ensure_started (k8s_job_name found) t found;
              report = completion_report_key cmd run;
              logs = completion_logs_key cmd run;
              code = (case cc_exit cmd of None \<Rightarrow> 0 | Some c \<Rightarrow> c)
          in bindW (resolve_summary env cmd report) (\<lambda>data.
             if trim_space data = '''' then fail_and_save code logs t run
             else
               (case parse data of
                  None \<Rightarrow> fail_and_save code logs t run
                | Some (metrics, sla, raw) \<Rightarrow>
                    bindW (liftW (run_complete metrics report logs (Some raw) sla t run)) (\<lambda>r.
                    let r' = (case cc_exit cmd of None \<Rightarrow> r | Some c \<Rightarrow> set_exit_code c r)
                    in bindW (run_save r') (\<lambda>_. returnW r'))))))"

end
