(* ===== verification/Watcher.thy ===== *)
theory Watcher
  imports Control_Ports
begin

text \<open>
  \<^verbatim>\<open>internal/adapters/outbound/k8s/runner_watcher.go\<close>: the handlers that reflect the state of a Kubernetes
  job onto its test run, and the two status predicates of \<^verbatim>\<open>build_orchestrator.go\<close>.  The informer that
  delivers the events is third-party code; what it delivers is the argument \<open>job\<close>.  The identifier of an
  auto-created run and the two readings of the clock are arguments.
\<close>

datatype job_condition = Job_complete | Job_failed | Job_condition_other string

record k8s_job =
  j_name :: string
  j_namespace :: string
  j_run_label :: string
  j_schedule_label :: string
  j_deletion :: "time option"
  j_active :: int
  j_succeeded :: int
  j_failed :: int
  j_conditions :: "(job_condition \<times> bool) list"
  j_start :: "time option"
  j_completion :: "time option"

definition is_job_successful :: "k8s_job \<Rightarrow> bool" where
  "is_job_successful j \<longleftrightarrow> j_succeeded j > 0 \<or> (Job_complete, True) \<in> set (j_conditions j)"

definition is_job_failed :: "k8s_job \<Rightarrow> bool" where
  "is_job_failed j \<longleftrightarrow> j_failed j > 0 \<or> (Job_failed, True) \<in> set (j_conditions j)"

text \<open>An error other than \<open>ErrNotFound\<close> ends the handler; \<open>ErrNotFound\<close> means there is no run.\<close>

definition optional_run :: "test_run op \<Rightarrow> test_run option op" where
  "optional_run m =
     bindW (attempt m) (\<lambda>f. case f of
       Inr r \<Rightarrow> returnW (Some r)
     | Inl e \<Rightarrow> if e = ErrNotFound then returnW None else failW e)"

definition job_run :: "k8s_job \<Rightarrow> test_run option op" where
  "job_run j =
     bindW (if trim_space (j_run_label j) \<noteq> '''' then optional_run (run_find_by_id (trim_space (j_run_label j)))
            else returnW None) (\<lambda>r.
     case r of
       Some run \<Rightarrow> returnW (Some run)
     | None \<Rightarrow> optional_run (run_find_by_job_name (j_name j)))"

definition scheduled_run ::
  "(string \<Rightarrow> bool) \<Rightarrow> string \<Rightarrow> time \<Rightarrow> k8s_job \<Rightarrow> string \<Rightarrow> test_run option op" where
  "scheduled_run cron_ok uuid now j sched_id =
     bindW (attempt (schedule_find_by_id cron_ok sched_id)) (\<lambda>f. case f of
       Inl e \<Rightarrow> if e = ErrNotFound then returnW None else failW e
     | Inr s \<Rightarrow>
         bindW (liftW (new_test_run uuid now (sch_suite_id s) (sch_artifact_id s)
                  (sch_configuration_id s) (sch_profile_id s) (Some sched_id) [])) (\<lambda>r.
         let r' = set_k8s_namespace (j_namespace j) (set_k8s_job_name (j_name j) r)
         in bindW (run_save r') (\<lambda>_. returnW (Some r'))))"

definition start_for_job :: "time \<Rightarrow> k8s_job \<Rightarrow> test_run \<Rightarrow> test_run" where
  "start_for_job dflt j run =
     (if run_state run = RunStatusQueued then
        (let t = (case j_start j of None \<Rightarrow> dflt | Some s \<Rightarrow> s)
         in case run_start (j_name j) t run of Inl _ \<Rightarrow> run | Inr r \<Rightarrow> r)
      else run)"

definition key_or_blank :: "string result \<Rightarrow> string" where
  "key_or_blank r = (case r of Inl _ \<Rightarrow> '''' | Inr k \<Rightarrow> k)"

definition reflect_job :: "time \<Rightarrow> k8s_job \<Rightarrow> test_run \<Rightarrow> unit op" where
  "reflect_job now j run =
     (if run_status_terminal (run_state run) then returnW ()
      else case j_deletion j of
        Some d \<Rightarrow>
          bindW (liftW (run_abort ''job deleted in kubernetes'' (if d = 0 then now else d) run)) run_save
      | None \<Rightarrow>
          if is_job_successful j then
            (let t = (case j_completion j of None \<Rightarrow> now | Some c \<Rightarrow> c);
                 run1 = start_for_job t j run;
                 report = key_or_blank (key_summary_report (run_id run1));
                 logs = key_or_blank (key_execution_logs (run_id run1))
             in bindW (liftW (run_complete zero_metrics report logs None True t run1)) run_save)
          else if is_job_failed j then
            (let run1 = start_for_job now j run;
                 logs = key_or_blank (key_execution_logs (run_id run1))
             in bindW (liftW (run_fail 1 logs now run1)) run_save)
          else if j_active j > 0 \<or> j_start j \<noteq> None then
            (if run_state run = RunStatusQueued then
               bindW (liftW (run_start (j_name j) (case j_start j of None \<Rightarrow> now | Some s \<Rightarrow> s) run)) run_save
             else returnW ())
          else returnW ())"

definition sync_job ::
  "(string \<Rightarrow> bool) \<Rightarrow> bool \<Rightarrow> string \<Rightarrow> time \<Rightarrow> time \<Rightarrow> k8s_job \<Rightarrow> unit op" where
  "sync_job cron_ok has_schedules uuid t_new now j =
     (let rid = trim_space (j_run_label j); sid = trim_space (j_schedule_label j)
      in if rid = '''' \<and> sid = '''' then returnW ()
         else
           bindW (job_run j) (\<lambda>found.
           bindW (case found of
                    Some r \<Rightarrow> returnW (Some r)
                  | None \<Rightarrow> if sid \<noteq> '''' \<and> has_schedules then scheduled_run cron_ok uuid t_new j sid
                            else returnW None) (\<lambda>run.
           case run of None \<Rightarrow> returnW () | Some r \<Rightarrow> reflect_job now j r)))"

definition handle_job_deletion :: "time \<Rightarrow> k8s_job \<Rightarrow> unit op" where
  "handle_job_deletion now j =
     (let rid = trim_space (j_run_label j)
      in if rid = '''' then returnW ()
         else
           bindW (attempt (run_find_by_id rid)) (\<lambda>f. case f of
             Inl e \<Rightarrow> if e = ErrNotFound then returnW () else failW e
           | Inr run \<Rightarrow>
               if run_status_terminal (run_state run) then returnW ()
               else bindW (liftW (run_abort ''job deleted in kubernetes'' now run)) run_save))"

end
