(* ===== verification/Run_Safety.thy ===== *)
theory Run_Safety
  imports Run_Service Watcher
begin

text \<open>
  Two invariants of the stored runs, both instances of \<open>run_guard\<close>: every stored run is well formed, and
  the terminal runs of a given world stay as they are.  They hold for every sequence of requests to
  the run service and of events handled by the watcher, under every script of port faults.
\<close>

section \<open>A logic for service code\<close>

text \<open>
  A logic for service code: \<open>holds I m Q\<close> says that \<open>m\<close> keeps the invariant \<open>I\<close> of the world whatever its
  ports do, and that a result it returns satisfies \<open>Q\<close>.  The locale \<open>run_guard\<close> is the interface between
  an invariant of the stored runs and the services that write them: a run that was loaded and is not
  terminal, or that was created fresh, may be written, the aggregate's own operations keep it
  writable, and writing such a run keeps the invariant.  Every service that writes runs is proved to
  keep such an invariant once, here.
\<close>

section \<open>Rules\<close>

definition holds :: "(world \<Rightarrow> bool) \<Rightarrow> 'a op \<Rightarrow> ('a \<Rightarrow> bool) \<Rightarrow> bool" where
  "holds I m Q \<longleftrightarrow> (\<forall>w. I w \<longrightarrow> I (snd (m w)) \<and> (\<forall>x. fst (m w) = Inr x \<longrightarrow> Q x))"

named_theorems holds_rules "introduction rules of the service logic"

lemma holdsI:
  "(\<And>w. I w \<Longrightarrow> I (snd (m w)) \<and> (\<forall>x. fst (m w) = Inr x \<longrightarrow> Q x)) \<Longrightarrow> holds I m Q"
  by (simp add: holds_def)

lemma holds_keeps: "holds I m Q \<Longrightarrow> I w \<Longrightarrow> I (snd (m w))"
  by (simp add: holds_def)

lemma holds_weaken: "holds I m R \<Longrightarrow> (\<And>x. R x \<Longrightarrow> Q x) \<Longrightarrow> holds I m Q"
  by (auto simp: holds_def)

lemma holds_return [holds_rules]: "Q x \<Longrightarrow> holds I (returnW x) Q"
  by (simp add: holds_def returnW_def)

lemma holds_fail [holds_rules]: "holds I (failW e) Q"
  by (simp add: holds_def failW_def)

lemma holds_lift [holds_rules]: "(\<And>x. r = Inr x \<Longrightarrow> Q x) \<Longrightarrow> holds I (liftW r) Q"
  by (simp add: holds_def liftW_def)

lemma holds_bind:
  assumes "holds I m R" and "\<And>x. R x \<Longrightarrow> holds I (f x) Q"
  shows "holds I (bindW m f) Q"
proof (rule holdsI)
  fix w assume "I w"
  obtain r w' where m: "m w = (r, w')" by (cases "m w")
  with assms(1) \<open>I w\<close> have w': "I w'" "\<And>x. r = Inr x \<Longrightarrow> R x"
    unfolding holds_def by (metis fst_conv snd_conv)+
  show "I (snd (bindW m f w)) \<and> (\<forall>x. fst (bindW m f w) = Inr x \<longrightarrow> Q x)"
  proof (cases r)
    case (Inl e)
    with m w' show ?thesis by (simp add: bindW_def)
  next
    case (Inr x)
    with assms(2) [OF w'(2)] w'(1) m show ?thesis by (auto simp: bindW_def holds_def)
  qed
qed

lemma attempt_eq: "attempt m w = (Inr (fst (m w)), snd (m w))"
  by (simp add: attempt_def split_beta)

lemma holds_attempt: "holds I m R \<Longrightarrow> holds I (attempt m) (\<lambda>r. \<forall>x. r = Inr x \<longrightarrow> R x)"
  by (auto simp: holds_def attempt_def split: prod.splits)

lemma holds_if: "(b \<Longrightarrow> holds I m Q) \<Longrightarrow> (\<not> b \<Longrightarrow> holds I m' Q) \<Longrightarrow> holds I (if b then m else m') Q"
  by simp

section \<open>Code that does not write a part of the world\<close>

named_theorems frame_rules "code that leaves a part of the world alone"

text \<open>A part of the world that the faults ahead are not in, and the code that leaves it alone.\<close>

locale state_view =
  fixes v :: "world \<Rightarrow> 'v"
  assumes faults: "v (w\<lparr>w_faults := fs\<rparr>) = v w"
begin

definition keeps :: "'a op \<Rightarrow> bool" where
  "keeps m \<longleftrightarrow> (\<forall>w. v (snd (m w)) = v w)"

lemma keeps_return [frame_rules]: "keeps (returnW x)" by (simp add: keeps_def returnW_def)
lemma keeps_fail [frame_rules]: "keeps (failW e)" by (simp add: keeps_def failW_def)
lemma keeps_lift [frame_rules]: "keeps (liftW r)" by (simp add: keeps_def liftW_def)

lemma keeps_bind [frame_rules]: "keeps m \<Longrightarrow> (\<And>x. keeps (f x)) \<Longrightarrow> keeps (bindW m f)"
  unfolding keeps_def bindW_def
  by (metis (mono_tags, lifting) old.sum.exhaust prod.collapse snd_conv sum.case(1) sum.case(2) case_prod_conv)

lemma keeps_attempt [frame_rules]: "keeps m \<Longrightarrow> keeps (attempt m)"
  by (simp add: keeps_def attempt_eq)

lemma keeps_call [frame_rules]: "(\<And>w. v (snd (f w)) = v w) \<Longrightarrow> keeps (port_call f)"
  by (simp add: keeps_def port_call_def faults split: list.split fault.split)

lemma keeps_if [frame_rules]: "keeps m \<Longrightarrow> keeps n \<Longrightarrow> keeps (if b then m else n)"
  by simp

lemma keeps_option [frame_rules]:
  "keeps m \<Longrightarrow> (\<And>x. keeps (f x)) \<Longrightarrow> keeps (case o1 of None \<Rightarrow> m | Some x \<Rightarrow> f x)"
  by (simp split: option.split)

lemma keeps_sum [frame_rules]:
  "(\<And>e. keeps (f e)) \<Longrightarrow> (\<And>x. keeps (g x)) \<Longrightarrow> keeps (case r of Inl e \<Rightarrow> f e | Inr x \<Rightarrow> g x)"
  by (simp split: sum.split)

lemma keeps_pair [frame_rules]: "(\<And>a b. keeps (f a b)) \<Longrightarrow> keeps (case q of (a, b) \<Rightarrow> f a b)"
  by (simp split: prod.split)

lemma keeps_for [frame_rules]: "(\<And>x. keeps (f x)) \<Longrightarrow> keeps (forW xs f)"
  by (induction xs) (auto intro: frame_rules)

lemma keeps_result: "keeps m \<Longrightarrow> m w = (r, w') \<Longrightarrow> v w' = v w"
  unfolding keeps_def by (metis snd_conv)

end

interpretation runs_view: state_view w_runs
  by unfold_locales simp

abbreviation keeps_runs :: "'a op \<Rightarrow> bool" where
  "keeps_runs \<equiv> state_view.keeps w_runs"

lemmas keeps_runs_def = runs_view.keeps_def

lemma keeps_runs_ports [frame_rules]:
  "keeps_runs (suite_find_by_id i)" "keeps_runs (artifact_find_by_id i)"
  "keeps_runs (config_find_by_id i)" "keeps_runs (profile_find_by_id i)"
  "keeps_runs (schedule_find_by_id ok i)" "keeps_runs (run_find_by_id i)"
  "keeps_runs (run_find_by_job_name i)"
  "keeps_runs (storage_download k)" "keeps_runs (storage_delete k)"
  "keeps_runs (dispatch_job cfg r p bk ck)" "keeps_runs (abort_job cfg n ns)"
  "keeps_runs (publish_event ev)"
  by (simp_all add: suite_find_by_id_def artifact_find_by_id_def config_find_by_id_def
      profile_find_by_id_def schedule_find_by_id_def run_find_by_id_def run_find_by_job_name_def
      storage_download_def storage_delete_def dispatch_job_def abort_job_def publish_event_def
      runs_view.keeps_call runs_view.keeps_fail Let_def split: option.split)

lemma keeps_runs_best_effort [frame_rules]:
  "keeps_runs (try_abort_job env r)" "keeps_runs (try_publish env ev)" "keeps_runs (try_delete k)"
  "keeps_runs (trigger_config_key c s)" "keeps_runs (resolve_summary env cmd k)"
  by (auto simp: try_abort_job_def try_publish_def try_delete_def trigger_config_key_def
      resolve_summary_def intro!: frame_rules)

section \<open>The interface between an invariant of the stored runs and the services\<close>

locale run_guard =
  fixes I :: "world \<Rightarrow> bool"
    and writable :: "test_run \<Rightarrow> bool"
    and fresh :: "string \<Rightarrow> bool"
  assumes frame: "w_runs w' = w_runs w \<Longrightarrow> I w \<Longrightarrow> I w'"
    and loaded: "I w \<Longrightarrow> row \<in> set (w_runs w) \<Longrightarrow> new_test_run_with_id row = Inr r \<Longrightarrow>
      \<not> run_status_terminal (run_state r) \<Longrightarrow> writable r"
    and step: "writable r \<Longrightarrow> run_step r r' \<Longrightarrow> writable r'"
    and created: "fresh u \<Longrightarrow> new_test_run u now s a c p sc ns = Inr r \<Longrightarrow> writable r"
    and save: "I w \<Longrightarrow> writable r \<Longrightarrow> I (put_run r w)"
begin

definition openly :: "test_run \<Rightarrow> bool" where
  "openly r \<longleftrightarrow> (\<not> run_status_terminal (run_state r) \<longrightarrow> writable r)"

lemma holds_frame: "keeps_runs m \<Longrightarrow> holds I m (\<lambda>_. True)"
  using frame by (auto simp: keeps_runs_def holds_def)

lemma holds_call:
  assumes "\<And>w. I w \<Longrightarrow> I (snd (f w)) \<and> (\<forall>x. fst (f w) = Inr x \<longrightarrow> Q x)"
  shows "holds I (port_call f) Q"
proof (rule holdsI)
  fix w assume "I w"
  then have "I (w\<lparr>w_faults := fs\<rparr>)" for fs using frame [of "w\<lparr>w_faults := fs\<rparr>" w] by simp
  with assms \<open>I w\<close> show "I (snd (port_call f w)) \<and> (\<forall>x. fst (port_call f w) = Inr x \<longrightarrow> Q x)"
    by (auto simp: port_call_def split: list.split fault.split)
qed

lemma holds_find: "holds I (run_find_by_id i) openly"
  unfolding run_find_by_id_def
  by (rule holds_call) (auto simp: openly_def get_run_def dest!: find_row_Some
      intro: loaded split: option.split)

lemma holds_find_job: "holds I (run_find_by_job_name i) openly"
  unfolding run_find_by_job_name_def
proof (rule holds_if [OF holds_fail], rule holds_call)
  fix w assume I: "I w"
  let ?rows = "newest_first (filter (\<lambda>r. k8s_job_name r = trim_space i) (w_runs w))"
  show "I (snd (case ?rows of [] \<Rightarrow> Inl ErrNotFound | row # _ \<Rightarrow> new_test_run_with_id row, w)) \<and>
      (\<forall>x. fst (case ?rows of [] \<Rightarrow> Inl ErrNotFound | row # _ \<Rightarrow> new_test_run_with_id row, w) = Inr x
         \<longrightarrow> openly x)"
  proof (cases ?rows)
    case Nil
    with I show ?thesis by simp
  next
    case (Cons row rest)
    then have "row \<in> set ?rows" by simp
    then have "row \<in> set (w_runs w)" by (simp add: newest_first_def)
    with I Cons show ?thesis by (simp add: openly_def loaded)
  qed
qed

lemma holds_save: "writable r \<Longrightarrow> holds I (run_save r) (\<lambda>_. True)"
  unfolding run_save_def by (rule holds_call) (simp add: save)

lemma holds_with_run:
  "(\<And>r. openly r \<Longrightarrow> holds I (f r) Q) \<Longrightarrow> holds I (with_run i f) Q"
  unfolding with_run_def by (intro holds_if holds_fail holds_bind [OF holds_find])

lemma writable_ops:
  "run_start j t r = Inr r' \<Longrightarrow> writable r \<Longrightarrow> writable r'"
  "run_complete m rk lk s sla t r = Inr r' \<Longrightarrow> writable r \<Longrightarrow> writable r'"
  "run_fail c lk t r = Inr r' \<Longrightarrow> writable r \<Longrightarrow> writable r'"
  "run_abort reason t r = Inr r' \<Longrightarrow> writable r \<Longrightarrow> writable r'"
  "writable r \<Longrightarrow> writable (set_exit_code c r)"
  "writable r \<Longrightarrow> writable (set_k8s_job_name n r)"
  "writable r \<Longrightarrow> writable (set_k8s_namespace n r)"
  by (blast intro: step run_step.intros)+

lemma writable_start: "writable r \<Longrightarrow> writable (case run_start j t r of Inl _ \<Rightarrow> r | Inr x \<Rightarrow> x)"
  by (auto intro: writable_ops split: sum.split)

lemma writable_fail: "writable r \<Longrightarrow> writable (case run_fail c k t r of Inl _ \<Rightarrow> r | Inr x \<Rightarrow> x)"
  by (auto intro: writable_ops split: sum.split)

lemma bind_lift: "(\<And>x. r = Inr x \<Longrightarrow> holds I (f x) Q) \<Longrightarrow> holds I (bindW (liftW r) f) Q"
  by (rule holds_bind [OF holds_lift])

lemma bind_frame: "keeps_runs m \<Longrightarrow> (\<And>x. holds I (f x) Q) \<Longrightarrow> holds I (bindW m f) Q"
  by (rule holds_bind [OF holds_frame])

lemma bind_save: "writable r \<Longrightarrow> (\<And>x. holds I (f x) Q) \<Longrightarrow> holds I (bindW (run_save r) f) Q"
  by (rule holds_bind [OF holds_save])

lemma bind_try_save:
  "writable r \<Longrightarrow> (\<And>x. holds I (f x) Q) \<Longrightarrow> holds I (bindW (attempt (run_save r)) f) Q"
  by (rule holds_bind [OF holds_attempt [OF holds_save]])

lemma lift_save:
  assumes "\<And>x. r = Inr x \<Longrightarrow> writable x"
  shows "holds I (bindW (liftW r) run_save) (\<lambda>_. True)"
  using assms by (intro bind_lift holds_save)

lemma lift_save_return:
  assumes "\<And>x. r = Inr x \<Longrightarrow> writable x"
  shows "holds I (bindW (liftW r) (\<lambda>x. bindW (run_save x) (\<lambda>_. returnW x))) writable"
  using assms by (intro bind_lift bind_save holds_return)

lemma abort_run_keeps: "holds I (abort_run env now i reason) writable"
  unfolding abort_run_def Let_def
  by (intro holds_with_run holds_if holds_fail bind_frame bind_lift bind_save holds_return
      keeps_runs_best_effort) (auto simp: openly_def intro: writable_ops)

lemma cleanup_run_keeps: "holds I (cleanup_run env now i) openly"
  unfolding cleanup_run_def
  by (intro holds_with_run holds_if bind_frame bind_lift bind_save holds_return
      keeps_runs_best_effort) (auto simp: openly_def intro: writable_ops)

lemma trigger_run_keeps:
  assumes "fresh u"
  shows "holds I (trigger_run env u t_new t_fail cmd) writable"
proof -
  have disp: "holds I (trigger_dispatch env t_fail art key prof r) writable" if "writable r" for art key prof r
    unfolding trigger_dispatch_def Let_def
    using that
    by (intro bind_save bind_frame frame_rules) 
      (auto split: sum.split intro!: bind_save bind_try_save holds_fail holds_return
        writable_ops(6) intro: writable_ops(3))
  have made: "holds I (bindW (liftW (new_test_run u t_new s a c p sc ns))
      (\<lambda>r. trigger_dispatch env t_fail art key prof r)) writable" for s a c p sc ns art key prof
    by (rule bind_lift, rule disp, rule created [OF assms])
  show ?thesis
    unfolding trigger_run_def Let_def
    by (rule made holds_if holds_fail bind_frame keeps_runs_ports keeps_runs_best_effort)+
qed

lemma complete_run_keeps: "holds I (complete_run env parse now cmd) writable"
proof -
  have find: "holds I (find_for_completion i) openly" for i
    unfolding find_for_completion_def
    by (rule holds_bind [OF holds_attempt [OF holds_find]])
      (auto split: sum.split intro: holds_return holds_fail holds_find_job)
  have started: "writable (ensure_started j t r)" if "writable r" for j t r
    using that by (simp add: ensure_started_def writable_start)
  show ?thesis
    unfolding complete_run_def Let_def fail_and_save_def
    apply (rule holds_if, rule holds_fail, rule holds_bind [OF find], rule holds_if, rule holds_fail)
    apply (rule bind_frame, rule keeps_runs_best_effort)
    apply (auto simp: openly_def split: option.split prod.split
        intro!: holds_if lift_save_return bind_lift bind_save holds_return
        intro: writable_ops started)
    done
qed

lemma writable_start_for_job: "writable r \<Longrightarrow> writable (start_for_job t j r)"
  by (simp add: start_for_job_def Let_def writable_start split: option.split)

lemma reflect_job_keeps: "openly r \<Longrightarrow> holds I (reflect_job now j r) (\<lambda>_. True)"
  unfolding reflect_job_def Let_def
  by (auto simp: openly_def split: option.split intro!: holds_return holds_if lift_save
      intro: writable_ops writable_start_for_job)

lemma optional_run_keeps:
  "holds I m openly \<Longrightarrow> holds I (optional_run m) (\<lambda>v. \<forall>r. v = Some r \<longrightarrow> openly r)"
  unfolding optional_run_def
  by (erule holds_bind [OF holds_attempt])
    (auto split: sum.split intro: holds_return holds_fail)

lemma job_run_keeps: "holds I (job_run j) (\<lambda>v. \<forall>r. v = Some r \<longrightarrow> openly r)"
  unfolding job_run_def
  by (rule holds_bind [where R = "\<lambda>v. \<forall>r. v = Some r \<longrightarrow> openly r"])
    (auto split: option.split
      intro: holds_return optional_run_keeps holds_find holds_find_job)

lemma scheduled_run_keeps:
  assumes "fresh u"
  shows "holds I (scheduled_run ok u now j sid) (\<lambda>v. \<forall>r. v = Some r \<longrightarrow> openly r)"
proof -
  have made: "holds I (bindW (liftW (new_test_run u now s a c p sc ns)) (\<lambda>r.
      let r' = set_k8s_namespace n (set_k8s_job_name m r)
      in bindW (run_save r') (\<lambda>_. returnW (Some r')))) (\<lambda>v. \<forall>r. v = Some r \<longrightarrow> openly r)"
    for s a c p sc ns n m
    unfolding Let_def
    by (rule bind_lift, rule bind_save)
      (auto simp: openly_def intro!: holds_return intro: writable_ops created [OF assms])
  show ?thesis
    unfolding scheduled_run_def
    by (rule bind_frame) (auto split: sum.split
        intro!: frame_rules holds_return holds_fail holds_if made)
qed

lemma sync_job_keeps:
  assumes "fresh u"
  shows "holds I (sync_job ok has u t_new now j) (\<lambda>_. True)"
  unfolding sync_job_def Let_def
  apply (rule holds_if, rule holds_return, rule TrueI, rule holds_bind [OF job_run_keeps])
  apply (rule holds_bind [where R = "\<lambda>v. \<forall>r. v = Some r \<longrightarrow> openly r"])
   apply (auto split: option.split intro: holds_return scheduled_run_keeps assms reflect_job_keeps)
  done

lemma handle_job_deletion_keeps: "holds I (handle_job_deletion now j) (\<lambda>_. True)"
  unfolding handle_job_deletion_def Let_def
  apply (rule holds_if, rule holds_return, rule TrueI, rule holds_bind [OF holds_attempt [OF holds_find]])
  apply (auto simp: openly_def split: sum.split intro!: holds_return holds_fail holds_if lift_save
      intro: writable_ops)
  done

end

section \<open>Well-formed tables\<close>

definition runs_wf :: "world \<Rightarrow> bool" where
  "runs_wf w \<longleftrightarrow> distinct (map run_id (w_runs w)) \<and> (\<forall>r \<in> set (w_runs w). run_wf r)"

lemma load_run_fields:
  assumes "new_test_run_with_id row = Inr r"
  shows "run_id r = run_id row" and "run_state r = run_state row" and "run_wf row \<Longrightarrow> run_wf r"
proof -
  have r: "r = row\<lparr>k8s_namespace := (let ns = trim_space (k8s_namespace row)
              in if ns = '''' then default_runner_namespace else ns)\<rparr>"
    using assms by (auto simp: new_test_run_with_id_def split: if_splits)
  then show "run_id r = run_id row" and "run_state r = run_state row" by simp_all
  show "run_wf row \<Longrightarrow> run_wf r" by (simp add: r run_wf_def Let_def split: run_status.splits)
qed

lemma merge_run_fields:
  "run_id (merge_run old r) = run_id r" "run_wf (merge_run old r) = run_wf r"
  by (simp_all add: merge_run_def run_wf_def split: run_status.splits)

lemma put_run_ids: "distinct (map run_id (w_runs w)) \<Longrightarrow> distinct (map run_id (w_runs (put_run r w)))"
  unfolding put_run_def by (simp add: distinct_upsert merge_run_fields)

lemma put_run_wf: "runs_wf w \<Longrightarrow> run_wf r \<Longrightarrow> runs_wf (put_run r w)"
  using put_run_ids [of w r]
  by (auto simp: runs_wf_def put_run_def merge_run_fields dest!: set_upsert)

interpretation wf_guard: run_guard runs_wf run_wf "\<lambda>_. True"
proof unfold_locales
  show "runs_wf w'" if "w_runs w' = w_runs w" and "runs_wf w" for w w'
    using that by (simp add: runs_wf_def)
  show "run_wf r" if "runs_wf w" and "row \<in> set (w_runs w)" and "new_test_run_with_id row = Inr r"
    for w row r using that load_run_fields(3) by (auto simp: runs_wf_def)
  show "run_wf r'" if "run_wf r" and "run_step r r'" for r r' using that(2,1) by (rule run_step_wf)
  show "run_wf r" if "new_test_run u now s a c p sc ns = Inr r" for u now s a c p sc ns r
    using that by (rule new_test_run_wf)
  show "runs_wf (put_run r w)" if "runs_wf w" and "run_wf r" for w r using that by (rule put_run_wf)
qed

section \<open>Terminal runs stay\<close>

definition keeps_terminal :: "world \<Rightarrow> world \<Rightarrow> bool" where
  "keeps_terminal w0 w \<longleftrightarrow> distinct (map run_id (w_runs w)) \<and>
     (\<forall>i r. get_run w0 i = Some r \<and> run_status_terminal (run_state r) \<longrightarrow> get_run w i = Some r)"

definition not_terminal_in :: "world \<Rightarrow> test_run \<Rightarrow> bool" where
  "not_terminal_in w0 r \<longleftrightarrow>
     (\<forall>r0. get_run w0 (run_id r) = Some r0 \<longrightarrow> \<not> run_status_terminal (run_state r0))"

definition unused_in :: "world \<Rightarrow> string \<Rightarrow> bool" where
  "unused_in w0 u \<longleftrightarrow> get_run w0 u = None"

lemma run_step_id: "run_step r r' \<Longrightarrow> run_id r' = run_id r"
  by (induction rule: run_step.induct)
    (auto simp: run_op_defs run_set_defs split: if_splits)

lemma new_test_run_id: "new_test_run u now s a c p sc ns = Inr r \<Longrightarrow> run_id r = u"
  by (auto simp: new_test_run_def Let_def split: if_splits)

interpretation terminal_guard: run_guard "keeps_terminal w0" "not_terminal_in w0" "unused_in w0" for w0
proof unfold_locales
  show "keeps_terminal w0 w'" if "w_runs w' = w_runs w" and "keeps_terminal w0 w" for w w'
    using that by (simp add: keeps_terminal_def get_run_def)
  show "not_terminal_in w0 r"
    if k: "keeps_terminal w0 w" and m: "row \<in> set (w_runs w)" and l: "new_test_run_with_id row = Inr r"
      and t: "\<not> run_status_terminal (run_state r)" for w row r
    unfolding not_terminal_in_def
  proof (intro allI impI notI)
    fix r0 assume "get_run w0 (run_id r) = Some r0" and "run_status_terminal (run_state r0)"
    with k have "get_run w (run_id r) = Some r0" by (auto simp: keeps_terminal_def)
    moreover have "get_run w (run_id row) = Some row"
      using k m by (simp add: get_run_def keeps_terminal_def find_row_mem)
    ultimately have "r0 = row" using load_run_fields(1) [OF l] by simp
    with t \<open>run_status_terminal (run_state r0)\<close> load_run_fields(2) [OF l] show False by simp
  qed
  show "not_terminal_in w0 r'" if "not_terminal_in w0 r" and "run_step r r'" for r r'
    using that run_step_id by (simp add: not_terminal_in_def)
  show "not_terminal_in w0 r" if "unused_in w0 u" and "new_test_run u now s a c p sc ns = Inr r"
    for u now s a c p sc ns r
    using that new_test_run_id by (simp add: not_terminal_in_def unused_in_def)
  show "keeps_terminal w0 (put_run r w)" if "keeps_terminal w0 w" and "not_terminal_in w0 r" for w r
    using that put_run_ids [of w r] by (auto simp: keeps_terminal_def not_terminal_in_def runs.find_save)
qed

section \<open>Sequences of requests\<close>

datatype run_request =
    Req_trigger run_env string time time trigger_cmd
  | Req_abort run_env time string string
  | Req_cleanup run_env time string
  | Req_complete run_env "string \<Rightarrow> (run_metrics \<times> bool \<times> string) option" time complete_cmd
  | Req_delete run_env string
  | Req_sync "string \<Rightarrow> bool" bool string time time k8s_job
  | Req_job_deleted time k8s_job
  | Req_environment "world \<Rightarrow> world"

text \<open>
  \<open>Req_environment\<close> is anything else that happens to the world: jobs finishing, objects uploaded, other
  tables written, faults ahead; only the runs are not touched.
\<close>

fun serve :: "run_request \<Rightarrow> world \<Rightarrow> world" where
  "serve (Req_trigger env u t1 t2 cmd) w = snd (trigger_run env u t1 t2 cmd w)"
| "serve (Req_abort env t i reason) w = snd (abort_run env t i reason w)"
| "serve (Req_cleanup env t i) w = snd (cleanup_run env t i w)"
| "serve (Req_complete env parse t cmd) w = snd (complete_run env parse t cmd w)"
| "serve (Req_delete env i) w = snd (delete_run env i w)"
| "serve (Req_sync ok has u t1 t2 j) w = snd (sync_job ok has u t1 t2 j w)"
| "serve (Req_job_deleted t j) w = snd (handle_job_deletion t j w)"
| "serve (Req_environment f) w = (f w)\<lparr>w_runs := w_runs w\<rparr>"

lemma keeps_runs_read: "keeps_runs m \<Longrightarrow> runs_wf w \<Longrightarrow> runs_wf (snd (m w))"
  by (simp add: keeps_runs_def runs_wf_def)

lemma delete_run_wf: "holds runs_wf (delete_run env i) (\<lambda>_. True)"
proof -
  have "holds runs_wf (run_delete j) (\<lambda>_. True)" for j
    unfolding run_delete_def
    by (rule wf_guard.holds_call)
      (auto simp: runs_wf_def drop_run_def distinct_delete delete_row_def distinct_map_filter split: option.split)
  then show ?thesis
    unfolding delete_run_def
    by (intro wf_guard.holds_with_run holds_if holds_fail wf_guard.bind_frame keeps_runs_best_effort)
      (auto intro!: frame_rules)
qed

lemma serve_wf: "runs_wf w \<Longrightarrow> runs_wf (serve q w)"
proof (cases q)
  case (Req_environment f)
  then show "runs_wf w \<Longrightarrow> runs_wf (serve q w)" by (simp add: runs_wf_def)
qed (simp_all add: holds_keeps [OF wf_guard.trigger_run_keeps] holds_keeps [OF wf_guard.abort_run_keeps]
      holds_keeps [OF wf_guard.cleanup_run_keeps] holds_keeps [OF wf_guard.complete_run_keeps]
      holds_keeps [OF delete_run_wf] holds_keeps [OF wf_guard.sync_job_keeps]
      holds_keeps [OF wf_guard.handle_job_deletion_keeps])

lemma serve_all_wf: "runs_wf w \<Longrightarrow> runs_wf (fold serve qs w)"
  by (induction qs arbitrary: w) (auto intro: serve_wf)

text \<open>
  C3: whatever requests the run service gets and whatever events the watcher handles, one after the
  other in any order and with any failures of the database, the object store, Kubernetes and the event
  publisher (a failure at any port call, with or without the effect of the call): the identifiers of the stored runs stay distinct and every stored run stays well formed.
\<close>

theorem stored_runs_always_wf:
  assumes "distinct (map run_id (w_runs w))" and "\<forall>r \<in> set (w_runs w). run_wf r"
    and "w' = fold serve qs w"
  shows "distinct (map run_id (w_runs w')) \<and> (\<forall>r \<in> set (w_runs w'). run_wf r)"
proof -
  have "runs_wf w" using assms(1,2) by (simp add: runs_wf_def)
  from serve_all_wf [OF this, of qs] assms(3) show ?thesis by (simp add: runs_wf_def)
qed

text \<open>Requests that delete nothing and create only runs whose identifier is new.\<close>

fun preserving :: "world \<Rightarrow> run_request \<Rightarrow> bool" where
  "preserving w0 (Req_trigger env u t1 t2 cmd) = unused_in w0 u"
| "preserving w0 (Req_sync ok has u t1 t2 j) = unused_in w0 u"
| "preserving w0 (Req_delete env i) = False"
| "preserving w0 _ = True"

lemma serve_keeps_terminal:
  assumes "preserving w0 q" and "keeps_terminal w0 w"
  shows "keeps_terminal w0 (serve q w)"
  using assms
  by (cases q)
    (simp_all add: holds_keeps [OF terminal_guard.trigger_run_keeps]
      holds_keeps [OF terminal_guard.abort_run_keeps] holds_keeps [OF terminal_guard.cleanup_run_keeps]
      holds_keeps [OF terminal_guard.complete_run_keeps] holds_keeps [OF terminal_guard.sync_job_keeps]
      holds_keeps [OF terminal_guard.handle_job_deletion_keeps], simp add: keeps_terminal_def get_run_def)

lemma serve_all_keeps_terminal:
  "\<forall>q \<in> set qs. preserving w0 q \<Longrightarrow> keeps_terminal w0 w \<Longrightarrow> keeps_terminal w0 (fold serve qs w)"
  by (induction qs arbitrary: w) (auto intro: serve_keeps_terminal)

text \<open>
  C2: a finished run is immutable.  No sequence of requests, handled one after the other: triggers, completions, aborts, clean-ups, job
  events and foreign changes, under any port failures, changes anything in a run that was \<open>COMPLETED\<close>,
  \<open>FAILED\<close>, \<open>ABORTED\<close> or \<open>ARCHIVED\<close>: late or repeated completion callbacks, late job events and repeated
  aborts leave the stored row exactly as it was.
\<close>

theorem finished_runs_immutable:
  assumes "distinct (map run_id (w_runs w))" and "get_run w i = Some r"
    and "run_status_terminal (run_state r)" and "\<forall>q \<in> set qs. preserving w q"
  shows "get_run (fold serve qs w) i = Some r"
proof -
  have "keeps_terminal w w" using assms(1) by (simp add: keeps_terminal_def)
  from serve_all_keeps_terminal [OF assms(4) this] assms(2,3) show ?thesis
    by (auto simp: keeps_terminal_def)
qed

definition sample_world :: world where
  "sample_world = \<lparr>w_suites = [], w_artifacts = [], w_configs = [], w_profiles = [],
     w_runs = [sample_run RunStatusFailed], w_schedules = [], w_objects = Map.empty, w_jobs = [],
     w_events = [], w_faults = [Fault_after ErrTimeout], w_lifecycle = [], w_secrets = [], w_cronjobs = []\<rparr>"

definition sample_requests :: "run_request list" where
  "sample_requests =
     [Req_abort \<lparr>re_namespace = '''', re_cluster_namespace = '''', re_storage = True, re_events = True\<rparr>
        9 ''r1'' '''',
      Req_job_deleted 10 \<lparr>j_name = ''job'', j_namespace = ''n'', j_run_label = ''r1'',
        j_schedule_label = '''', j_deletion = None, j_active = 0, j_succeeded = 0, j_failed = 0,
        j_conditions = [], j_start = None, j_completion = None\<rparr>]"

lemma sample_run_wf: "run_wf (sample_run RunStatusFailed)"
  by (simp add: sample_run_def run_wf_def)

theorem stored_runs_always_wf_witness:
  "list_all run_wf (w_runs (fold serve sample_requests sample_world))"
proof -
  have "distinct (map run_id (w_runs sample_world))" "\<forall>r \<in> set (w_runs sample_world). run_wf r"
    using sample_run_wf by (simp_all add: sample_world_def)
  from stored_runs_always_wf [OF this refl] show ?thesis by (simp add: list_all_iff)
qed

theorem finished_runs_immutable_witness:
  "get_run (fold serve sample_requests sample_world) ''r1'' = Some (sample_run RunStatusFailed)"
proof (rule finished_runs_immutable)
  show "distinct (map run_id (w_runs sample_world))"
    and "get_run sample_world ''r1'' = Some (sample_run RunStatusFailed)"
    and "run_status_terminal (run_state (sample_run RunStatusFailed))"
    by (simp_all add: sample_world_def get_run_def sample_run_def)
  show "\<forall>q \<in> set sample_requests. preserving sample_world q" by (simp add: sample_requests_def)
qed

end
