(* ===== verification/Run_Outcomes.thy ===== *)
theory Run_Outcomes
  imports Run_Safety
begin

text \<open>
  What the run service and the watcher do on each branch: when a trigger succeeds and what it leaves,
  how a completion ends a run, that repeated deliveries are rejected, and the update that is lost when
  a job event is handled while the trigger is still running.
\<close>

section \<open>Inversion of successful code\<close>

lemma port_call_Inr:
  "port_call f w = (Inr x, w') \<Longrightarrow> \<exists>fs. f (w\<lparr>w_faults := fs\<rparr>) = (Inr x, w')"
  by (auto simp: port_call_def split: list.splits fault.splits)
    (metis world.surjective world.update_convs(10))

lemma returnW_Inr: "returnW x w = (Inr y, w') \<longleftrightarrow> y = x \<and> w' = w"
  by (auto simp: returnW_def)

lemma failW_Inr: "failW e w = (Inr y, w') \<longleftrightarrow> False"
  by (simp add: failW_def)

lemma liftW_Inr: "liftW r w = (Inr y, w') \<longleftrightarrow> r = Inr y \<and> w' = w"
  by (auto simp: liftW_def)

lemma attempt_Inr: "attempt m w = (Inr r, w') \<longleftrightarrow> m w = (r, w')"
  by (cases "m w") (auto simp: attempt_eq)

lemmas effect_Inr = bindW_Inr returnW_Inr failW_Inr liftW_Inr attempt_Inr

lemma suite_find_Inr:
  "suite_find_by_id i w = (Inr s, w') \<Longrightarrow>
     (\<exists>row fs. find_row suite_id (w_suites w) i = Some row \<and> load_suite row = Inr s \<and>
        w' = w\<lparr>w_faults := fs\<rparr>)"
  unfolding suite_find_by_id_def by (drule port_call_Inr) (auto split: option.splits)

lemma artifact_find_Inr:
  "artifact_find_by_id i w = (Inr a, w') \<Longrightarrow>
     (\<exists>row fs. find_row art_id (w_artifacts w) i = Some row \<and> new_artifact_with_id row = Inr a \<and>
        w' = w\<lparr>w_faults := fs\<rparr>)"
  unfolding artifact_find_by_id_def by (drule port_call_Inr) (auto split: option.splits)

lemma run_find_Inr:
  "run_find_by_id i w = (Inr r, w') \<Longrightarrow>
     (\<exists>row fs. get_run w i = Some row \<and> new_test_run_with_id row = Inr r \<and> w' = w\<lparr>w_faults := fs\<rparr>)"
  unfolding run_find_by_id_def by (drule port_call_Inr) (auto simp: get_run_def split: option.splits)

lemma run_save_Inr: "run_save r w = (Inr u, w') \<Longrightarrow> \<exists>fs. w' = put_run r (w\<lparr>w_faults := fs\<rparr>)"
  unfolding run_save_def by (drule port_call_Inr) auto

lemma dispatch_job_Inr:
  "dispatch_job cfg r p bk ck w = (Inr job, w') \<Longrightarrow>
     job = format_runner_job_name (run_id r) '''' \<and>
     (job_namespace cfg (k8s_namespace r), job) \<in> set (w_jobs w') \<and> w_runs w' = w_runs w \<and>
     trim_space bk \<noteq> ''''"
  unfolding dispatch_job_def
  by (cases "trim_space bk = ''''") (auto simp: failW_def Let_def dest!: port_call_Inr split: if_splits)

lemma get_run_faults [simp]: "get_run (w\<lparr>w_faults := fs\<rparr>) i = get_run w i"
  by (simp add: get_run_def)

lemma put_run_other:
  "w_jobs (put_run r w) = w_jobs w" "w_suites (put_run r w) = w_suites w"
  "w_artifacts (put_run r w) = w_artifacts w"
  by (simp_all add: put_run_def)

lemma get_put_run: "get_run (put_run r w) (run_id r) = Some (stored_run (get_run w (run_id r)) r)"
  by (rule runs.find_save_same)

section \<open>TriggerRun\<close>

lemma trigger_dispatch_Inr:
  assumes "trigger_dispatch env t art key prof run w = (Inr r, w')"
  shows "r = set_k8s_job_name (format_runner_job_name (run_id run) '''') run \<and>
    get_run w' (run_id run) = Some (stored_run (get_run w (run_id run)) r) \<and>
    (job_namespace (re_cluster_namespace env) (k8s_namespace run),
     format_runner_job_name (run_id run) '''') \<in> set (w_jobs w') \<and> trim_space (s3_binary_key art) \<noteq> ''''"
proof -
  from assms obtain v w1 w2 d where s1: "run_save run w = (Inr v, w1)"
    and d: "dispatch_job (re_cluster_namespace env) run prof (s3_binary_key art) key w1 = (d, w2)"
    and rest: "(case d of
         Inl e \<Rightarrow> bindW (attempt (run_save (case run_fail 1 '''' t run of Inl _ \<Rightarrow> run | Inr r \<Rightarrow> r)))
           (\<lambda>_. failW e)
       | Inr job \<Rightarrow> bindW (run_save (set_k8s_job_name job run)) (\<lambda>_. returnW (set_k8s_job_name job run)))
         w2 = (Inr r, w')"
    unfolding trigger_dispatch_def Let_def bindW_Inr attempt_Inr by (elim exE conjE) blast
  from rest obtain job where job: "d = Inr job"
    by (cases d) (auto simp: effect_Inr)
  from rest job obtain u where r: "r = set_k8s_job_name job run" and s2: "run_save r w2 = (Inr u, w')"
    by (auto simp: effect_Inr)
  note dd = dispatch_job_Inr [OF d [unfolded job]]
  have id: "run_id r = run_id run" by (simp add: r set_k8s_job_name_def)
  from run_save_Inr [OF s1] obtain fs where w1: "w1 = put_run run (w\<lparr>w_faults := fs\<rparr>)" by blast
  from run_save_Inr [OF s2] obtain gs where w': "w' = put_run r (w2\<lparr>w_faults := gs\<rparr>)" by blast
  have "get_run w2 (run_id run) = Some (stored_run (get_run w (run_id run)) run)"
    using dd get_put_run [of run "w\<lparr>w_faults := fs\<rparr>"] by (simp add: get_run_def w1)
  then have "get_run w' (run_id run) = Some (stored_run (Some (stored_run (get_run w (run_id run)) run)) r)"
    using get_put_run [of r "w2\<lparr>w_faults := gs\<rparr>"] by (simp add: id w')
  moreover have "stored_run (Some (stored_run old run)) r = stored_run old r" for old
    by (cases old) (simp_all add: stored_run_def merge_run_def r set_k8s_job_name_def)
  ultimately show ?thesis using dd job r w' by (auto simp: put_run_other)
qed

lemmas keeps_runs_result = runs_view.keeps_result

lemma load_suite_fields: "load_suite row = Inr s \<Longrightarrow> suite_id s = suite_id row \<and> suite_state s = suite_state row"
  by (auto simp: load_suite_def new_test_suite_with_id_def set_retention_policy_def
      split: sum.splits option.splits if_splits)

lemma load_artifact_fields:
  "new_artifact_with_id row = Inr a \<Longrightarrow>
     art_id a = art_id row \<and> art_state a = art_state row \<and> s3_binary_key a = s3_binary_key row \<and>
     art_suite_id a = trim_space (art_suite_id row)"
  by (auto simp: new_artifact_with_id_def split: if_splits)

lemma new_run_fields:
  "new_test_run u now s a c p sc ns = Inr r \<Longrightarrow>
     run_id r = u \<and> run_state r = RunStatusQueued \<and> run_suite_id r = trim_space s \<and>
     run_artifact_id r = trim_space a"
  by (auto simp: new_test_run_def Let_def split: if_splits)

text \<open>What a successful trigger has been through.\<close>

lemma trigger_run_Inr:
  assumes "trigger_run env u t1 t2 cmd w = (Inr r, w')"
  obtains suite w1 art w2 key w3 prof w4 run where
    "suite_find_by_id (trim_space (tc_suite cmd)) w = (Inr suite, w1)"
    "suite_state suite = TestSuiteStateActive"
    "artifact_find_by_id (trim_space (tc_artifact cmd)) w1 = (Inr art, w2)"
    "art_suite_id art = suite_id suite" "art_state art = ArtifactStatusReady"
    "trigger_config_key (tc_config cmd) suite w2 = (Inr key, w3)"
    "profile_find_by_id (trim_space (tc_profile cmd)) w3 = (Inr prof, w4)"
    "new_test_run u t1 (suite_id suite) (art_id art) (tc_config cmd) (prof_id prof) None
       [trigger_namespace env cmd] = Inr run"
    "trigger_dispatch env t2 art key prof run w4 = (Inr r, w')"
proof -
  have if_fail: "(if b then failW e else m) v = (Inr x, v') \<longleftrightarrow> \<not> b \<and> m v = (Inr x, v')"
    for b e and m :: "'z op" and v x v' by (simp add: failW_def)
  from assms that show thesis
    unfolding trigger_run_def Let_def if_fail bindW_Inr liftW_Inr by blast
qed

text \<open>
  C6: a successful trigger is sound, under any failures.  The suite was stored and \<open>ACTIVE\<close>, the
  artifact was stored, \<open>READY\<close>, with a binary key, and belonged to that suite; the run that is
  returned is \<open>QUEUED\<close>, refers to them, is stored under its identifier, and its job exists in the
  cluster under the recorded name.
\<close>

theorem trigger_run_sound:
  assumes "trigger_run env u t1 t2 cmd w = (Inr r, w')" and "get_run w u = None"
  shows "\<exists>suite art.
    find_row suite_id (w_suites w) (trim_space (tc_suite cmd)) = Some suite \<and>
    suite_state suite = TestSuiteStateActive \<and>
    find_row art_id (w_artifacts w) (trim_space (tc_artifact cmd)) = Some art \<and>
    art_state art = ArtifactStatusReady \<and> trim_space (s3_binary_key art) \<noteq> '''' \<and>
    trim_space (art_suite_id art) = suite_id suite \<and>
    run_id r = u \<and> run_state r = RunStatusQueued \<and> run_suite_id r = trim_space (suite_id suite) \<and>
    run_artifact_id r = trim_space (art_id art) \<and> get_run w' u = Some r \<and>
    (\<exists>ns. (ns, format_runner_job_name u '''') \<in> set (w_jobs w'))"
proof -
  from assms(1) show ?thesis
  proof (rule trigger_run_Inr)
    fix suite w1 art w2 key w3 prof w4 run
    assume f: "suite_find_by_id (trim_space (tc_suite cmd)) w = (Inr suite, w1)"
      and act: "suite_state suite = TestSuiteStateActive"
      and g: "artifact_find_by_id (trim_space (tc_artifact cmd)) w1 = (Inr art, w2)"
      and own: "art_suite_id art = suite_id suite" and rdy: "art_state art = ArtifactStatusReady"
      and k: "trigger_config_key (tc_config cmd) suite w2 = (Inr key, w3)"
      and p: "profile_find_by_id (trim_space (tc_profile cmd)) w3 = (Inr prof, w4)"
      and n: "new_test_run u t1 (suite_id suite) (art_id art) (tc_config cmd) (prof_id prof) None
        [trigger_namespace env cmd] = Inr run"
      and d: "trigger_dispatch env t2 art key prof run w4 = (Inr r, w')"
    from suite_find_Inr [OF f] obtain srow fs where
      s: "find_row suite_id (w_suites w) (trim_space (tc_suite cmd)) = Some srow" "load_suite srow = Inr suite"
      and w1: "w1 = w\<lparr>w_faults := fs\<rparr>" by blast
    from artifact_find_Inr [OF g] obtain arow gs where
      a: "find_row art_id (w_artifacts w) (trim_space (tc_artifact cmd)) = Some arow"
        "new_artifact_with_id arow = Inr art"
      and w2: "w2 = w1\<lparr>w_faults := gs\<rparr>" by (auto simp: w1)
    note nr = new_run_fields [OF n]
    have "w_runs w4 = w_runs w"
      using keeps_runs_result [OF keeps_runs_ports(4) p] keeps_runs_result [OF keeps_runs_best_effort(4) k]
      by (simp add: w1 w2)
    with assms(2) have "get_run w4 u = None" by (simp add: get_run_def)
    with trigger_dispatch_Inr [OF d] nr
    have "r = set_k8s_job_name (format_runner_job_name u '''') run" and "get_run w' u = Some r"
      and "\<exists>ns. (ns, format_runner_job_name u '''') \<in> set (w_jobs w')"
      and "trim_space (s3_binary_key art) \<noteq> ''''"
      by (auto simp: stored_run_def)
    with s a act own rdy nr load_suite_fields [OF s(2)] load_artifact_fields [OF a(2)]
    show ?thesis by (auto simp: set_k8s_job_name_def)
  qed
qed

definition demo_suite :: test_suite where
  "demo_suite = \<lparr>suite_id = ''s1'', suite_name = ''smoke'', suite_description = '''',
     suite_state = TestSuiteStateActive, suite_retention = None, suite_created_at = 1, suite_updated_at = 1\<rparr>"

definition demo_artifact :: artifact where
  "demo_artifact = \<lparr>art_id = ''a1'', art_suite_id = ''s1'', art_platform = PlatformLinuxAmd64,
     art_description = '''', s3_binary_key = ''bin'', sha256_checksum = replicate 64 CHR ''a'',
     build_logs_s3_key = '''', art_state = ArtifactStatusReady, error_message = '''', art_created_at = 1\<rparr>"

definition demo_profile :: runner_profile where
  "demo_profile = \<lparr>prof_id = ''p1'', prof_name = ''small'', prof_description = '''',
     prof_image = ''alpine:3.20'',
     prof_resources = \<lparr>cpu_request = ''5m'', cpu_limit = ''9m'', memory_request = ''64'', memory_limit = ''64''\<rparr>,
     prof_node_selector = [], prof_affinity = [], prof_tolerations = [], prof_deadline = None,
     prof_runtime_class = None, prof_created_at = 1, prof_updated_at = 1\<rparr>"

definition demo_world :: "test_run list \<Rightarrow> fault list \<Rightarrow> world" where
  "demo_world runs faults = \<lparr>w_suites = [demo_suite], w_artifacts = [demo_artifact], w_configs = [],
     w_profiles = [demo_profile], w_runs = runs, w_schedules = [], w_objects = Map.empty, w_jobs = [],
     w_events = [], w_faults = faults, w_lifecycle = [], w_secrets = [], w_cronjobs = []\<rparr>"

definition demo_env :: run_env where
  "demo_env = \<lparr>re_namespace = ''load'', re_cluster_namespace = '''', re_storage = True, re_events = True\<rparr>"

definition demo_cmd :: trigger_cmd where
  "demo_cmd = \<lparr>tc_suite = ''s1'', tc_artifact = ''a1'', tc_config = None, tc_profile = ''p1'', tc_namespace = None\<rparr>"

lemma demo_trigger: "is_ok (fst (trigger_run demo_env ''r1'' 5 6 demo_cmd (demo_world [] [])))"
  by code_simp

theorem trigger_run_sound_witness:
  "\<exists>r w'. trigger_run demo_env ''r1'' 5 6 demo_cmd (demo_world [] []) = (Inr r, w') \<and>
     run_state r = RunStatusQueued \<and> get_run w' ''r1'' = Some r"
proof -
  obtain r w' where t: "trigger_run demo_env ''r1'' 5 6 demo_cmd (demo_world [] []) = (Inr r, w')"
    using demo_trigger by (metis eq_fst_iff is_ok_iff)
  moreover have "get_run (demo_world [] []) ''r1'' = None" by (simp add: demo_world_def get_run_def)
  ultimately show ?thesis using trigger_run_sound [OF t] by blast
qed

section \<open>Without failures of the ports\<close>

lemma port_call_ok [simp]: "w_faults w = [] \<Longrightarrow> port_call f w = f w"
  by (simp add: port_call_def)

lemma put_run_faults [simp]: "w_faults (put_run r w) = w_faults w"
  by (simp add: put_run_def)

lemma bindW_ok: "m w = (Inr x, w1) \<Longrightarrow> bindW m f w = f x w1"
  by (simp add: bindW_def)

lemma bindW_err: "m w = (Inl e, w1) \<Longrightarrow> bindW m f w = (Inl e, w1)"
  by (simp add: bindW_def)

lemma attempt_ok: "m w = (r, w1) \<Longrightarrow> attempt m w = (Inr r, w1)"
  by (simp add: attempt_def)

lemmas effect_eval = bindW_def attempt_def returnW_def failW_def liftW_def

text \<open>What reading a row gives: the row, with a namespace.\<close>

definition loaded :: "test_run \<Rightarrow> test_run" where
  "loaded row = row\<lparr>k8s_namespace := (if trim_space (k8s_namespace row) = '''' then default_runner_namespace
     else trim_space (k8s_namespace row))\<rparr>"

lemma loaded_fields [simp]:
  "run_id (loaded row) = run_id row" "run_state (loaded row) = run_state row"
  "k8s_job_name (loaded row) = k8s_job_name row" "s3_report_key (loaded row) = s3_report_key row"
  "s3_logs_key (loaded row) = s3_logs_key row" "started_at (loaded row) = started_at row"
  "run_suite_id (loaded row) = run_suite_id row" "run_artifact_id (loaded row) = run_artifact_id row"
  "run_metrics (loaded row) = run_metrics row"
  by (simp_all add: loaded_def)

lemma run_find_ok:
  assumes "w_faults w = []" and "get_run w i = Some row" and "run_status_valid (run_state row)"
  shows "run_find_by_id i w = (Inr (loaded row), w)"
  using assms by (simp add: run_find_by_id_def new_test_run_with_id_def loaded_def Let_def)

lemma run_save_ok: "w_faults w = [] \<Longrightarrow> run_save r w = (Inr (), put_run r w)"
  by (simp add: run_save_def)

lemma with_run_ok:
  assumes "w_faults w = []" and "trim_space i \<noteq> ''''" and "get_run w (trim_space i) = Some row"
    and "run_status_valid (run_state row)"
  shows "with_run i f w = f (loaded row) w"
  using assms by (simp add: with_run_def run_find_ok bindW_def)

section \<open>CompleteRun\<close>

text \<open>The document a completion is judged by: the one in the callback, or the one in the object store.\<close>

definition summary_source :: "run_env \<Rightarrow> world \<Rightarrow> complete_cmd \<Rightarrow> string \<Rightarrow> string" where
  "summary_source env w cmd key =
     (if trim_space (cc_summary cmd) = '''' \<and> re_storage env \<and> trim_space key \<noteq> '''' then
        (case w_objects w (trim_space key) of None \<Rightarrow> cc_summary cmd | Some c \<Rightarrow> c)
      else cc_summary cmd)"

definition summary_reading ::
  "(string \<Rightarrow> (run_metrics \<times> bool \<times> string) option) \<Rightarrow> string \<Rightarrow> (run_metrics \<times> bool \<times> string) option" where
  "summary_reading parse data = (if trim_space data = '''' then None else parse data)"

lemma resolve_summary_ok:
  assumes "w_faults w = []"
  shows "resolve_summary env cmd key w = (Inr (summary_source env w cmd key), w)"
  using assms by (auto simp: resolve_summary_def summary_source_def storage_download_def effect_eval
      split: option.splits)

text \<open>
  The stored run that an identifier stands for in a completion: the run of that identifier, else the most
  recent of the runs whose job has that name.
\<close>

definition completion_row :: "world \<Rightarrow> string \<Rightarrow> test_run option" where
  "completion_row w i =
     (case get_run w i of
        Some row \<Rightarrow> Some row
      | None \<Rightarrow> (case newest_first (filter (\<lambda>r. k8s_job_name r = i) (w_runs w)) of
                  [] \<Rightarrow> None | row # _ \<Rightarrow> Some row))"

lemma newest_first_head:
  assumes "newest_first rs = row # rest"
  shows "row \<in> set rs \<and> (\<forall>x \<in> set rs. run_created_at x \<le> run_created_at row)"
proof -
  have s: "set (row # rest) = set rs" using assms by (metis newest_first_def set_sort)
  have "sorted (map (\<lambda>r. - run_created_at r) (row # rest))"
    by (metis assms newest_first_def sorted_sort_key)
  then have "\<forall>x \<in> set rest. run_created_at x \<le> run_created_at row" by auto
  then show ?thesis using s by auto
qed

lemma newest_first_Nil: "newest_first rs = [] \<longleftrightarrow> rs = []"
  by (metis newest_first_def set_empty set_sort)

lemma completion_row_Some:
  assumes "completion_row w i = Some row"
  shows "get_run w i = Some row \<or> get_run w i = None \<and> row \<in> set (w_runs w) \<and> k8s_job_name row = i \<and>
    (\<forall>x \<in> set (w_runs w). k8s_job_name x = i \<longrightarrow> run_created_at x \<le> run_created_at row)"
  using assms
  by (auto simp: completion_row_def split: option.splits list.splits dest!: newest_first_head)

lemma completion_row_None:
  "completion_row w i = None \<Longrightarrow> get_run w i = None \<and> (\<forall>x \<in> set (w_runs w). k8s_job_name x \<noteq> i)"
  by (auto simp: completion_row_def newest_first_Nil filter_empty_conv split: option.splits list.splits)

lemma find_for_completion_row:
  assumes "w_faults w = []" and "trim_space i = i" and "i \<noteq> ''''"
  shows "find_for_completion i w =
    ((case completion_row w i of None \<Rightarrow> Inl ErrNotFound | Some row \<Rightarrow> new_test_run_with_id row), w)"
proof (cases "get_run w i")
  case None
  then show ?thesis using assms
    by (simp add: find_for_completion_def run_find_by_id_def run_find_by_job_name_def effect_eval completion_row_def
        split: list.split)
next
  case (Some row)
  then show ?thesis using assms
    by (simp add: find_for_completion_def run_find_by_id_def effect_eval completion_row_def new_test_run_with_id_def)
qed

lemma find_for_completion_ok:
  assumes "w_faults w = []" and "get_run w i = Some row" and "run_status_valid (run_state row)"
  shows "find_for_completion i w = (Inr (loaded row), w)"
  by (simp add: find_for_completion_def run_find_ok [OF assms] effect_eval)

text \<open>The run that a completion works on is \<open>RUNNING\<close>: a queued one is started first.\<close>

lemma ensure_started_running:
  assumes "run_status_valid (run_state r)" and "\<not> run_status_terminal (run_state r)"
  shows "run_state (ensure_started j t r) = RunStatusRunning \<and>
    run_id (ensure_started j t r) = run_id r \<and> run_metrics (ensure_started j t r) = run_metrics r \<and>
    s3_report_key (ensure_started j t r) = s3_report_key r \<and>
    s3_logs_key (ensure_started j t r) = s3_logs_key r \<and>
    run_suite_id (ensure_started j t r) = run_suite_id r \<and>
    run_artifact_id (ensure_started j t r) = run_artifact_id r \<and>
    started_at (ensure_started j t r) = (if run_state r = RunStatusQueued then Some t else started_at r)"
  using assms by (cases "run_state r") (simp_all add: ensure_started_def run_start_def)

definition completion_code :: "complete_cmd \<Rightarrow> int" where
  "completion_code cmd = (case cc_exit cmd of None \<Rightarrow> 0 | Some c \<Rightarrow> c)"

text \<open>The key that is recorded for an object: the one in the callback, the one on record, or a standard one.\<close>

definition settled_key :: "string \<Rightarrow> string \<Rightarrow> string \<Rightarrow> string" where
  "settled_key given kept standard =
     (if trim_space given \<noteq> '''' then trim_space given else if kept \<noteq> '''' then kept else standard)"

definition completed_with ::
  "time \<Rightarrow> complete_cmd \<Rightarrow> test_run \<Rightarrow> (run_metrics \<times> bool \<times> string) option \<Rightarrow> test_run \<Rightarrow> bool" where
  "completed_with now cmd row reading r \<longleftrightarrow>
     run_id r = run_id row \<and> run_suite_id r = run_suite_id row \<and> run_artifact_id r = run_artifact_id row \<and>
     finished_at r = Some (completion_time now cmd) \<and> exit_code r = Some (completion_code cmd) \<and>
     started_at r = (if run_state row = RunStatusQueued then Some (completion_time now cmd) else started_at row) \<and>
     s3_logs_key r =
       trim_space (settled_key (cc_logs cmd) (s3_logs_key row) (''runs/'' @ run_id row @ ''/run.log'')) \<and>
     (case reading of
        Some (metrics, sla, raw) \<Rightarrow>
          run_state r = RunStatusCompleted \<and> run_metrics r = metrics \<and> sla_passed r = Some sla \<and>
          summary_json r = Some raw \<and> s3_report_key r =
            trim_space (settled_key (cc_report cmd) (s3_report_key row) (''runs/'' @ run_id row @ ''/summary.json''))
      | None \<Rightarrow>
          run_state r = RunStatusFailed \<and> sla_passed r = Some False \<and> run_metrics r = run_metrics row \<and>
          s3_report_key r = s3_report_key row)"

lemma completion_keys:
  "completion_report_key cmd run =
     settled_key (cc_report cmd) (s3_report_key run) (''runs/'' @ run_id run @ ''/summary.json'')"
  "completion_logs_key cmd run =
     settled_key (cc_logs cmd) (s3_logs_key run) (''runs/'' @ run_id run @ ''/run.log'')"
  by (simp_all add: completion_report_key_def completion_logs_key_def settled_key_def first_nonempty_def)

lemma complete_run_settles:
  assumes ok: "w_faults w = []" and blank: "trim_space (cc_run cmd) \<noteq> ''''"
    and find: "find_for_completion (trim_space (cc_run cmd)) w = (Inr (loaded row), w)"
    and valid: "run_status_valid (run_state row)" and open_run: "\<not> run_status_terminal (run_state row)"
    and key: "key = settled_key (cc_report cmd) (s3_report_key row) (''runs/'' @ run_id row @ ''/summary.json'')"
  shows "\<exists>r. complete_run env parse now cmd w = (Inr r, put_run r w) \<and>
    completed_with now cmd row (summary_reading parse (summary_source env w cmd key)) r"
proof -
  let ?t = "completion_time now cmd"
  let ?run = "ensure_started (k8s_job_name row) ?t (loaded row)"
  let ?data = "summary_source env w cmd key"
  note run = ensure_started_running [of "loaded row", simplified, OF valid open_run, of "k8s_job_name row" ?t]
  have keys: "completion_report_key cmd ?run = key"
    "completion_logs_key cmd ?run =
       settled_key (cc_logs cmd) (s3_logs_key row) (''runs/'' @ run_id row @ ''/run.log'')"
    using run by (simp_all add: completion_keys key)
  note body = complete_run_def find Let_def keys resolve_summary_ok [OF ok] fail_and_save_def effect_eval
    run_save_ok ok blank open_run completion_code_def summary_reading_def completed_with_def
  show ?thesis
  proof (cases "summary_reading parse ?data")
    case None
    then have "trim_space ?data = '''' \<or> parse ?data = None"
      by (simp add: summary_reading_def split: if_splits)
    with None run show ?thesis by (auto simp: body run_fail_def)
  next
    case (Some x)
    obtain m sla raw where x: "x = (m, sla, raw)" by (cases x)
    with Some have "trim_space ?data \<noteq> ''''" "parse ?data = Some (m, sla, raw)"
      by (simp_all add: summary_reading_def split: if_splits)
    with Some x run show ?thesis
      by (cases "cc_exit cmd") (auto simp: body run_complete_def set_exit_code_def key)
  qed
qed


definition demo_running :: test_run where
  "demo_running = (sample_run RunStatusRunning)\<lparr>finished_at := None, exit_code := None, sla_passed := None,
     k8s_job_name := ''x''\<rparr>"

definition demo_complete :: complete_cmd where
  "demo_complete = \<lparr>cc_run = ''r1'', cc_report = '''', cc_logs = '''', cc_exit = Some 3, cc_summary = ''x'',
     cc_finished = None\<rparr>"

lemma demo_trims: "trim_space ''r1'' = ''r1''" "trim_space ''x'' = ''x''"
  by (simp_all add: trim_space_graphic graphic_def)

lemma demo_by_job: "completion_row (demo_world [demo_running] []) ''x'' = Some demo_running"
  by (simp add: completion_row_def demo_world_def get_run_def demo_running_def sample_run_def newest_first_def)


section \<open>AbortRun and DeleteRun\<close>

lemma try_abort_job_ok:
  assumes "w_faults w = []"
  shows "try_abort_job env run w = (Inr (),
    if k8s_job_name run = '''' then w
    else w\<lparr>w_jobs := removeAll (abort_namespace (re_cluster_namespace env) (k8s_namespace run),
            trim_space (k8s_job_name run)) (w_jobs w)\<rparr>)"
  using assms by (auto simp: try_abort_job_def abort_job_def effect_eval Let_def)

lemma run_delete_ok:
  assumes "w_faults w = []" and "get_run w i = Some row"
  shows "run_delete i w = (Inr (), drop_run i w)"
  using assms by (simp add: run_delete_def)

text \<open>
  What an abort does when the ports work.  A terminal run is refused and nothing changes.
  Otherwise the run is stored as \<open>ABORTED\<close> with the trimmed reason (``manual cancellation'' when none is
  given) and the finish time, its job is removed from the namespace that the orchestrator looks in, and
  exactly one event is published, when there is a publisher; nothing else changes.
\<close>

theorem abort_run_effect:
  assumes "w_faults w = []" and "trim_space i \<noteq> ''''" and "get_run w (trim_space i) = Some row"
    and "run_status_valid (run_state row)"
  shows "if run_status_terminal (run_state row)
    then abort_run env now i reason w = (Inl ErrTerminalState, w)
    else let why = (if trim_space reason = '''' then ''manual cancellation'' else trim_space reason);
        r = (loaded row)\<lparr>abort_reason := why, finished_at := Some now, run_state := RunStatusAborted\<rparr>;
        job = (abort_namespace (re_cluster_namespace env) (k8s_namespace (loaded row)), trim_space (k8s_job_name row))
      in abort_run env now i reason w = (Inr r,
        w\<lparr>w_jobs := (if k8s_job_name row = '''' then w_jobs w else removeAll job (w_jobs w)),
          w_runs := upsert run_id merge_run r (w_runs w),
          w_events := (if re_events env then w_events w @ [RunAborted (run_id row) (run_suite_id row) why now]
                       else w_events w)\<rparr>)"
proof -
  have manual: "trim_space ''manual cancellation'' = ''manual cancellation''"
    by (simp add: trim_space_graphic graphic_def)
  note steps = abort_run_def Let_def with_run_ok [OF assms] effect_eval try_abort_job_ok run_save_ok
    run_abort_def try_publish_def publish_event_def put_run_def assms(1) manual
  show ?thesis
    by (cases "run_status_terminal (run_state row)") (simp_all add: steps)
qed

text \<open>
  What a deletion does when the ports work.  A run that is not terminal is refused with a conflict
  and nothing changes.  Otherwise exactly the row of that run, its job and its two objects go.
\<close>

theorem delete_run_effect:
  assumes "w_faults w = []" and "trim_space i \<noteq> ''''" and "get_run w (trim_space i) = Some row"
    and "run_status_valid (run_state row)"
    and "s3_report_key row = '''' \<or> trim_space (s3_report_key row) \<noteq> ''''"
    and "s3_logs_key row = '''' \<or> trim_space (s3_logs_key row) \<noteq> ''''"
  shows "if \<not> run_status_terminal (run_state row)
    then delete_run env i w = (Inl ErrConflict, w)
    else \<exists>w'. delete_run env i w = (Inr (), w') \<and> w_runs w' = delete_row run_id (trim_space i) (w_runs w) \<and>
      w_objects w' = (\<lambda>k. if re_storage env \<and> k \<noteq> '''' \<and>
          (k = trim_space (s3_report_key row) \<or> k = trim_space (s3_logs_key row)) then None else w_objects w k) \<and>
      set (w_jobs w') = set (w_jobs w) - (if k8s_job_name row = '''' then {} else
        {(abort_namespace (re_cluster_namespace env) (k8s_namespace (loaded row)), trim_space (k8s_job_name row))}) \<and>
      w_events w' = w_events w"
proof (cases "run_status_terminal (run_state row)")
  case False
  then show ?thesis by (simp add: delete_run_def with_run_ok [OF assms(1-4)] failW_def)
next
  case True
  define w1 where "w1 = (if k8s_job_name row = '''' then w
    else w\<lparr>w_jobs := removeAll (abort_namespace (re_cluster_namespace env) (k8s_namespace (loaded row)),
            trim_space (k8s_job_name row)) (w_jobs w)\<rparr>)"
  have w1: "w_faults w1 = []" "w_runs w1 = w_runs w" "w_objects w1 = w_objects w" "w_events w1 = w_events w"
    "set (w_jobs w1) = set (w_jobs w) - (if k8s_job_name row = '''' then {} else
        {(abort_namespace (re_cluster_namespace env) (k8s_namespace (loaded row)), trim_space (k8s_job_name row))})"
    using assms(1) by (simp_all add: w1_def)
  have del: "try_delete k v = (Inr (), if k = '''' then v else v\<lparr>w_objects := (w_objects v)(trim_space k := None)\<rparr>)"
    if "w_faults v = []" and "k = '''' \<or> trim_space k \<noteq> ''''" for k v
    using that by (auto simp: try_delete_def storage_delete_def effect_eval)
  have job: "try_abort_job env (loaded row) w = (Inr (), w1)"
    by (simp add: try_abort_job_ok [OF assms(1)] w1_def)
  have get: "get_run (w1\<lparr>w_objects := m\<rparr>) (trim_space i) = Some row" "get_run w1 (trim_space i) = Some row" for m
    using assms(3) by (simp_all add: get_run_def w1)
  show ?thesis
    using True assms(5,6)
    by (auto simp: delete_run_def with_run_ok [OF assms(1-4)] effect_eval job del w1 run_delete_ok get
        drop_run_def fun_eq_iff)
qed

lemma demo_get: "get_run (demo_world [r] fs) (run_id r) = Some r"
  by (simp add: demo_world_def get_run_def)

lemma demo_rows [simp]:
  "run_id demo_running = ''r1''" "run_state demo_running = RunStatusRunning"
  "run_id (sample_run st) = ''r1''" "run_state (sample_run st) = st"
  "w_faults (demo_world rs fs) = fs" "w_runs (demo_world rs fs) = rs"
  by (simp_all add: demo_running_def sample_run_def demo_world_def)

theorem abort_run_effect_witness:
  "\<exists>r w'. abort_run demo_env 20 ''r1'' '''' (demo_world [demo_running] []) = (Inr r, w') \<and>
     run_state r = RunStatusAborted \<and> abort_reason r = ''manual cancellation''"
  using abort_run_effect [of "demo_world [demo_running] []" "''r1''" demo_running demo_env 20 "''''"]
    demo_get [of demo_running "[]"]
  by (simp add: demo_trims Let_def)

theorem delete_run_effect_witness:
  "\<exists>w'. delete_run demo_env ''r1'' (demo_world [sample_run RunStatusFailed] []) = (Inr (), w') \<and> w_runs w' = []"
proof -
  have "s3_report_key (sample_run RunStatusFailed) = ''''" "trim_space (s3_logs_key (sample_run RunStatusFailed)) \<noteq> ''''"
    by (simp_all add: sample_run_def trim_space_graphic graphic_def)
  then show ?thesis
    using delete_run_effect [of "demo_world [sample_run RunStatusFailed] []" "''r1''" "sample_run RunStatusFailed" demo_env]
      demo_get [of "sample_run RunStatusFailed" "[]"]
    by (auto simp: demo_trims delete_row_def)
qed

section \<open>The watcher beside the run service\<close>

lemma run_find_missing:
  assumes "w_faults w = []" and "get_run w i = None"
  shows "run_find_by_id i w = (Inl ErrNotFound, w)"
  using assms by (simp add: run_find_by_id_def)

lemma job_run_ok:
  assumes "w_faults w = []" and "trim_space (j_run_label j) \<noteq> ''''"
    and "get_run w (trim_space (j_run_label j)) = Some row" and "run_status_valid (run_state row)"
  shows "job_run j w = (Inr (Some (loaded row)), w)"
  using assms by (simp add: job_run_def optional_run_def run_find_ok effect_eval)

lemma sync_job_ok:
  assumes "w_faults w = []" and "trim_space (j_run_label j) \<noteq> ''''"
    and "get_run w (trim_space (j_run_label j)) = Some row" and "run_status_valid (run_state row)"
  shows "sync_job ok has u t_new now j w = reflect_job now j (loaded row) w"
  using assms by (simp add: sync_job_def job_run_ok effect_eval Let_def)

text \<open>
  the verdict of a job that succeeds is lost when the watcher sees the end of the job before the
  report callback arrives.  The watcher completes the run with all metrics zero and a positive SLA
  verdict without reading any report; the callback that follows, whatever its report says, is refused with
  \<open>ErrTerminalState\<close> and changes nothing, so a run that failed its SLA stays recorded as passed.
\<close>

theorem watcher_completion_discards_report:
  assumes "w_faults w = []" and "trim_space i \<noteq> ''''" and "trim_space i = i" and "get_run w i = Some row"
    and "run_status_valid (run_state row)" and "\<not> run_status_terminal (run_state row)"
    and "j_run_label j = i" and "j_deletion j = None" and "is_job_successful j" and "trim_space (cc_run cmd) = i"
  shows "\<exists>r. get_run (snd (sync_job ok has u t_new now j w)) i = Some r \<and>
    run_state r = RunStatusCompleted \<and> sla_passed r = Some True \<and> run_metrics r = zero_metrics \<and>
    complete_run env parse now' cmd (snd (sync_job ok has u t_new now j w)) =
      (Inl ErrTerminalState, snd (sync_job ok has u t_new now j w))"
proof -
  let ?t = "case j_completion j of None \<Rightarrow> now | Some c \<Rightarrow> c"
  let ?run = "start_for_job ?t j (loaded row)"
  have run: "run_state ?run = RunStatusRunning" "run_id ?run = i"
    using assms(4-6) runs.find_key [OF assms(4)]
    by (cases "run_state row"; simp add: start_for_job_def run_start_def split: option.split)+
  then obtain r where r: "run_complete zero_metrics (key_or_blank (key_summary_report i))
      (key_or_blank (key_execution_logs i)) None True ?t ?run = Inr r"
    and fields: "run_state r = RunStatusCompleted" "sla_passed r = Some True" "run_metrics r = zero_metrics"
      "run_id r = i"
    by (auto simp: run_complete_def)
  have "sync_job ok has u t_new now j w = (Inr (), put_run r w)"
    using assms(1-6,7-9) r run
    by (simp add: sync_job_ok reflect_job_def Let_def effect_eval run_save_ok)
  moreover have stored: "get_run (put_run r w) i = Some (stored_run (Some row) r)"
    using get_put_run [of r w] assms(4) fields(4) by simp
  moreover have "complete_run env parse now' cmd (put_run r w) = (Inl ErrTerminalState, put_run r w)"
  proof -
    have "find_for_completion i (put_run r w) = (Inr (loaded (stored_run (Some row) r)), put_run r w)"
      using assms(1) stored fields(1) by (intro find_for_completion_ok) (simp_all add: stored_run_def merge_run_def)
    then show ?thesis
      using assms(2,3,10) fields(1)
      by (simp add: complete_run_def effect_eval stored_run_def merge_run_def)
  qed
  ultimately show ?thesis using fields by (simp add: stored_run_def merge_run_def)
qed

definition demo_job :: k8s_job where
  "demo_job = \<lparr>j_name = ''job'', j_namespace = ''n'', j_run_label = ''r1'', j_schedule_label = '''',
     j_deletion = None, j_active = 0, j_succeeded = 1, j_failed = 0, j_conditions = [], j_start = None,
     j_completion = None\<rparr>"

theorem watcher_completion_discards_report_witness:
  "\<exists>r. get_run (snd (sync_job (\<lambda>_. True) False '''' 0 30 demo_job (demo_world [demo_running] []))) ''r1'' = Some r \<and>
     sla_passed r = Some True \<and> run_metrics r = zero_metrics"
proof -
  have "is_job_successful demo_job" "j_run_label demo_job = ''r1''" "j_deletion demo_job = None"
    "cc_run demo_complete = ''r1''"
    by (simp_all add: demo_job_def is_job_successful_def demo_complete_def)
  then show ?thesis
    using watcher_completion_discards_report [of "demo_world [demo_running] []" "''r1''" demo_running demo_job
        demo_complete "\<lambda>_. True" False "''''" 0 30 demo_env "\<lambda>s. None" 31] demo_get [of demo_running "[]"]
    by (auto simp: demo_trims)
qed

text \<open>The world between the dispatch of \<open>TriggerRun\<close> and its second save.\<close>

definition trigger_dispatched :: "run_env \<Rightarrow> test_run \<Rightarrow> world \<Rightarrow> world" where
  "trigger_dispatched env run w =
     (put_run run w)\<lparr>w_jobs := (job_namespace (re_cluster_namespace env) (k8s_namespace run),
        format_runner_job_name (run_id run) '''') # w_jobs w\<rparr>"

lemma trigger_dispatch_ok:
  assumes "w_faults w = []" and "trim_space (s3_binary_key art) \<noteq> ''''"
    and "(job_namespace (re_cluster_namespace env) (k8s_namespace run),
      format_runner_job_name (run_id run) '''') \<notin> set (w_jobs w)"
  shows "trigger_dispatch env t art key prof run w =
    bindW (run_save (set_k8s_job_name (format_runner_job_name (run_id run) '''') run))
      (\<lambda>_. returnW (set_k8s_job_name (format_runner_job_name (run_id run) '''') run))
      (trigger_dispatched env run w)"
  using assms
  by (simp add: trigger_dispatch_def effect_eval run_save_ok dispatch_job_def Let_def put_run_def
      trigger_dispatched_def)

text \<open>
  \<open>TriggerRun\<close> can lose an update.  It saves the queued run, dispatches the job, and then saves its
  own copy again to record the name of the job.  When the watcher handles the start of the job in between,
  the stored run becomes \<open>RUNNING\<close>, and the second save puts it back to \<open>QUEUED\<close> and erases the start time.
\<close>

theorem trigger_lost_update:
  assumes "w_faults w = []" and "trim_space (s3_binary_key art) \<noteq> ''''"
    and "(job_namespace (re_cluster_namespace env) (k8s_namespace run),
      format_runner_job_name (run_id run) '''') \<notin> set (w_jobs w)"
    and "run_state run = RunStatusQueued" and "started_at run = None" and "get_run w (run_id run) = None"
    and "trim_space (run_id run) = run_id run" and "run_id run \<noteq> ''''"
    and "j_run_label j = run_id run" and "j_deletion j = None" and "\<not> is_job_successful j"
    and "\<not> is_job_failed j" and "j_active j > 0"
  shows "let run' = set_k8s_job_name (format_runner_job_name (run_id run) '''') run;
      w1 = trigger_dispatched env run w; w2 = snd (sync_job ok has u t_new now j w1)
    in trigger_dispatch env t art key prof run w = bindW (run_save run') (\<lambda>_. returnW run') w1 \<and>
       (\<exists>r. get_run w2 (run_id run) = Some r \<and> run_state r = RunStatusRunning \<and> started_at r \<noteq> None) \<and>
       (\<exists>r. get_run (snd (bindW (run_save run') (\<lambda>_. returnW run') w2)) (run_id run) = Some r \<and>
          run_state r = RunStatusQueued \<and> started_at r = None)"
proof -
  let ?w1 = "trigger_dispatched env run w"
  have f1: "w_faults ?w1 = []" using assms(1) by (simp add: trigger_dispatched_def)
  have g1: "get_run ?w1 (run_id run) = Some run"
    using get_put_run [of run w] assms(6) by (simp add: trigger_dispatched_def get_run_def stored_run_def)
  obtain r where r: "run_start (j_name j) (case j_start j of None \<Rightarrow> now | Some s \<Rightarrow> s) (loaded run) = Inr r"
    and fields: "run_state r = RunStatusRunning" "started_at r \<noteq> None" "run_id r = run_id run"
    using assms(4) by (simp add: run_start_def)
  have w2: "sync_job ok has u t_new now j ?w1 = (Inr (), put_run r ?w1)"
    using assms(4,7-13) f1 g1 r by (simp add: sync_job_ok reflect_job_def effect_eval run_save_ok)
  have g2: "get_run (put_run r ?w1) (run_id run) = Some (stored_run (Some run) r)"
    using get_put_run [of r ?w1] g1 fields(3) by simp
  let ?run' = "set_k8s_job_name (format_runner_job_name (run_id run) '''') run"
  have "run_id ?run' = run_id run" "run_state ?run' = RunStatusQueued" "started_at ?run' = None"
    using assms(4,5) by (simp_all add: set_k8s_job_name_def)
  then have "\<exists>x. get_run (put_run ?run' (put_run r ?w1)) (run_id run) = Some x \<and>
      run_state x = RunStatusQueued \<and> started_at x = None"
    using get_put_run [of ?run' "put_run r ?w1"] g2 by (simp add: stored_run_def merge_run_def)
  with g2 fields f1 trigger_dispatch_ok [OF assms(1-3)] show ?thesis
    by (auto simp: Let_def w2 effect_eval run_save_ok stored_run_def merge_run_def)
qed

definition demo_queued :: test_run where
  "demo_queued = (sample_run RunStatusQueued)\<lparr>started_at := None, finished_at := None, exit_code := None,
     sla_passed := None\<rparr>"

theorem trigger_lost_update_witness:
  "\<exists>r. get_run (snd (run_save (set_k8s_job_name (format_runner_job_name ''r1'' '''') demo_queued)
      (snd (sync_job (\<lambda>_. True) False '''' 0 30 (demo_job\<lparr>j_succeeded := 0, j_active := 1\<rparr>)
        (trigger_dispatched demo_env demo_queued (demo_world [] [])))))) ''r1'' = Some r \<and>
     run_state r = RunStatusQueued"
proof -
  have q: "run_id demo_queued = ''r1''" "run_state demo_queued = RunStatusQueued" "started_at demo_queued = None"
    by (simp_all add: demo_queued_def)
  have j: "j_run_label (demo_job\<lparr>j_succeeded := 0, j_active := 1\<rparr>) = ''r1''"
    "j_deletion (demo_job\<lparr>j_succeeded := 0, j_active := 1\<rparr>) = None"
    "\<not> is_job_successful (demo_job\<lparr>j_succeeded := 0, j_active := 1\<rparr>)"
    "\<not> is_job_failed (demo_job\<lparr>j_succeeded := 0, j_active := 1\<rparr>)"
    "j_active (demo_job\<lparr>j_succeeded := 0, j_active := 1\<rparr>) > 0"
    by (simp_all add: demo_job_def is_job_successful_def is_job_failed_def)
  have b: "trim_space (s3_binary_key demo_artifact) \<noteq> ''''"
    by (simp add: demo_artifact_def trim_space_graphic graphic_def)
  have w: "w_jobs (demo_world [] []) = []" "get_run (demo_world [] []) ''r1'' = None"
    by (simp_all add: demo_world_def get_run_def)
  have snd_bind: "snd (bindW (run_save x) (\<lambda>_. returnW x) v) = snd (run_save x v)" for x v
    by (auto simp: bindW_def returnW_def split: prod.split sum.split)
  show ?thesis
    using trigger_lost_update [of "demo_world [] []" demo_artifact demo_env demo_queued
        "demo_job\<lparr>j_succeeded := 0, j_active := 1\<rparr>" "\<lambda>_. True" False "''''" 0 30 0 "''''" demo_profile]
    by (auto simp: q j b w demo_trims Let_def snd_bind)
qed

end
