(* ===== verification/Housekeeping.thy ===== *)
theory Housekeeping
  imports Run_Safety
begin

text \<open>
  \<^verbatim>\<open>internal/application/service/housekeeping_service.go\<close>: one retention cycle and the lifecycle rules of
  the bucket.  A nil repository or storage is a flag; the error strings of the result are values that
  name the step and carry the error; the duration is dropped.  The ticker that repeats the cycle is not
  modelled: a repetition is a sequence of cycles.
\<close>

section \<open>The cycle\<close>

record housekeeper =
  hk_suites :: bool
  hk_runs :: bool
  hk_artifacts :: bool
  hk_storage :: bool
  hk_policy :: retention_policy

definition new_housekeeper :: "bool \<Rightarrow> bool \<Rightarrow> bool \<Rightarrow> bool \<Rightarrow> retention_policy \<Rightarrow> housekeeper" where
  "new_housekeeper suites arts runs storage p =
     \<lparr>hk_suites = suites, hk_runs = runs, hk_artifacts = arts, hk_storage = storage,
      hk_policy = (case retention_validate p of Inl _ \<Rightarrow> default_retention_policy | Inr _ \<Rightarrow> p)\<rparr>"

datatype hk_error =
    Hk_list_logs err | Hk_clear_logs string err | Hk_list_reports err | Hk_archive string err
  | Hk_list_prune err | Hk_delete_batch err | Hk_list_orphans err | Hk_delete_artifact string err
  | Hk_list_binaries err | Hk_clear_binaries string err

record hk_result =
  purged_logs :: int
  purged_reports :: int
  purged_binaries :: int
  pruned_runs :: int
  archived_runs :: int
  purged_artifacts :: int
  hk_errors :: "hk_error list"

definition empty_result :: hk_result where
  "empty_result = \<lparr>purged_logs = 0, purged_reports = 0, purged_binaries = 0, pruned_runs = 0,
     archived_runs = 0, purged_artifacts = 0, hk_errors = []\<rparr>"

definition add_errors :: "hk_error list \<Rightarrow> hk_result \<Rightarrow> hk_result" where
  "add_errors es r = r\<lparr>hk_errors := hk_errors r @ es\<rparr>"

text \<open>A step whose error is recorded and does not end the cycle, and a loop of such steps.\<close>

definition note_error :: "(err \<Rightarrow> hk_error) \<Rightarrow> 'a op \<Rightarrow> hk_error list op" where
  "note_error mk m = bindW (attempt m) (\<lambda>r. returnW (case r of Inl e \<Rightarrow> [mk e] | Inr _ \<Rightarrow> []))"

fun gatherW :: "'a list \<Rightarrow> ('a \<Rightarrow> hk_error list op) \<Rightarrow> hk_error list op" where
  "gatherW [] f = returnW []"
| "gatherW (x # xs) f = bindW (f x) (\<lambda>es. bindW (gatherW xs f) (\<lambda>fs. returnW (es @ fs)))"

definition hk_delete :: "housekeeper \<Rightarrow> string \<Rightarrow> unit op" where
  "hk_delete hk key =
     (if hk_storage hk \<and> key \<noteq> '''' then bindW (attempt (storage_delete key)) (\<lambda>_. returnW ())
      else returnW ())"

definition cutoff :: "time \<Rightarrow> duration \<Rightarrow> time" where
  "cutoff now d = now + wrap64 (- d)"

definition effective_policy :: "housekeeper \<Rightarrow> string option \<Rightarrow> retention_policy op" where
  "effective_policy hk suite =
     (case suite of
        None \<Rightarrow> returnW (hk_policy hk)
      | Some i \<Rightarrow>
          if i \<noteq> '''' \<and> hk_suites hk then
            bindW (attempt (suite_find_by_id i)) (\<lambda>f.
              returnW (case f of
                Inl _ \<Rightarrow> hk_policy hk
              | Inr s \<Rightarrow> (case suite_retention s of
                  None \<Rightarrow> hk_policy hk | Some p \<Rightarrow> retention_merge (hk_policy hk) p)))
          else returnW (hk_policy hk))"

text \<open>Step 1: execution logs.\<close>

definition purge_logs :: "housekeeper \<Rightarrow> bool \<Rightarrow> string option \<Rightarrow> time \<Rightarrow> hk_result \<Rightarrow> hk_result op" where
  "purge_logs hk dry suite before res =
     (if \<not> hk_runs hk then returnW res
      else bindW (attempt (list_expired_runs_for_logs before suite 500)) (\<lambda>l. case l of
        Inl e \<Rightarrow> returnW (add_errors [Hk_list_logs e] res)
      | Inr rs \<Rightarrow>
          bindW (if dry then returnW []
                 else gatherW rs (\<lambda>r. bindW (hk_delete hk (s3_logs_key r)) (\<lambda>_.
                   note_error (Hk_clear_logs (run_id r)) (run_clear_logs_key (run_id r))))) (\<lambda>es.
          returnW (add_errors es (res\<lparr>purged_logs := purged_logs res + int (length rs)\<rparr>)))))"

text \<open>Step 2: reports; the runs are archived.\<close>

definition purge_reports :: "housekeeper \<Rightarrow> bool \<Rightarrow> string option \<Rightarrow> time \<Rightarrow> hk_result \<Rightarrow> hk_result op" where
  "purge_reports hk dry suite before res =
     (if \<not> hk_runs hk then returnW res
      else bindW (attempt (list_expired_runs_for_reports before suite 500)) (\<lambda>l. case l of
        Inl e \<Rightarrow> returnW (add_errors [Hk_list_reports e] res)
      | Inr rs \<Rightarrow>
          bindW (if dry then returnW []
                 else gatherW rs (\<lambda>r. bindW (hk_delete hk (s3_report_key r)) (\<lambda>_.
                   note_error (Hk_archive (run_id r)) (run_archive_row (run_id r))))) (\<lambda>es.
          returnW (add_errors es (res\<lparr>purged_reports := purged_reports res + int (length rs),
            archived_runs := archived_runs res + int (length rs)\<rparr>)))))"

text \<open>Step 3: records of runs.\<close>

definition prune_runs ::
  "housekeeper \<Rightarrow> bool \<Rightarrow> bool \<Rightarrow> string option \<Rightarrow> time \<Rightarrow> hk_result \<Rightarrow> hk_result op" where
  "prune_runs hk dry archive suite before res =
     (if \<not> hk_runs hk \<or> archive then returnW res
      else bindW (attempt (list_expired_runs_for_prune before suite 500)) (\<lambda>l. case l of
        Inl e \<Rightarrow> returnW (add_errors [Hk_list_prune e] res)
      | Inr rs \<Rightarrow>
          bindW (if dry \<or> rs = [] then returnW []
                 else note_error Hk_delete_batch (run_delete_batch (map run_id rs))) (\<lambda>es.
          returnW (add_errors es (res\<lparr>pruned_runs := pruned_runs res + int (length rs)\<rparr>)))))"

text \<open>Step 4: artifacts that never became ready and that nothing refers to.\<close>

definition purge_orphans :: "housekeeper \<Rightarrow> bool \<Rightarrow> time \<Rightarrow> hk_result \<Rightarrow> hk_result op" where
  "purge_orphans hk dry before res =
     (if \<not> hk_artifacts hk then returnW res
      else bindW (attempt (list_orphaned_artifacts before 200)) (\<lambda>l. case l of
        Inl e \<Rightarrow> returnW (add_errors [Hk_list_orphans e] res)
      | Inr as \<Rightarrow>
          bindW (if dry then returnW []
                 else gatherW as (\<lambda>a. bindW (hk_delete hk (build_logs_s3_key a)) (\<lambda>_.
                   bindW (hk_delete hk (s3_binary_key a)) (\<lambda>_.
                   note_error (Hk_delete_artifact (art_id a)) (artifact_delete (art_id a)))))) (\<lambda>es.
          returnW (add_errors es (res\<lparr>purged_artifacts := purged_artifacts res + int (length as)\<rparr>)))))"

text \<open>Step 5: binaries.\<close>

definition purge_binaries :: "housekeeper \<Rightarrow> bool \<Rightarrow> string option \<Rightarrow> time \<Rightarrow> hk_result \<Rightarrow> hk_result op" where
  "purge_binaries hk dry suite before res =
     (if \<not> hk_artifacts hk then returnW res
      else bindW (attempt (list_expired_artifacts before suite 200)) (\<lambda>l. case l of
        Inl e \<Rightarrow> returnW (add_errors [Hk_list_binaries e] res)
      | Inr as \<Rightarrow>
          bindW (if dry then returnW []
                 else gatherW as (\<lambda>a. bindW (hk_delete hk (s3_binary_key a)) (\<lambda>_.
                   note_error (Hk_clear_binaries (art_id a)) (artifact_clear_binary_keys (art_id a))))) (\<lambda>es.
          returnW (add_errors es (res\<lparr>purged_binaries := purged_binaries res + int (length as)\<rparr>)))))"

definition run_housekeeping :: "housekeeper \<Rightarrow> time \<Rightarrow> string option \<Rightarrow> bool \<Rightarrow> hk_result op" where
  "run_housekeeping hk now suite dry =
     bindW (effective_policy hk suite) (\<lambda>p.
     bindW (purge_logs hk dry suite (cutoff now (logs_duration p)) empty_result) (\<lambda>r1.
     bindW (purge_reports hk dry suite (cutoff now (reports_duration p)) r1) (\<lambda>r2.
     bindW (prune_runs hk dry (archive_only p) suite (cutoff now (runs_duration p)) r2) (\<lambda>r3.
     bindW (purge_orphans hk dry (now + - (24 * hour)) r3) (\<lambda>r4.
     purge_binaries hk dry suite (cutoff now (binaries_duration p)) r4)))))"

section \<open>The bucket's own rules\<close>

definition bucket_rules :: "retention_policy \<Rightarrow> lifecycle_rule list" where
  "bucket_rules p =
     [\<lparr>lr_id = ''vuhive-runs-logs-expiration'', lr_prefix = ''runs/'', lr_days = logs_ttl_days p, lr_enabled = True\<rparr>,
      \<lparr>lr_id = ''vuhive-suites-sources-expiration'', lr_prefix = ''suites/'', lr_days = sources_ttl_days p,
       lr_enabled = True\<rparr>]"

definition configure_bucket_lifecycle :: "housekeeper \<Rightarrow> unit op" where
  "configure_bucket_lifecycle hk =
     (if \<not> hk_storage hk then returnW () else put_bucket_lifecycle (bucket_rules (hk_policy hk)))"

end
