(* ===== verification/Housekeeping_Safety.thy ===== *)
theory Housekeeping_Safety
  imports Housekeeping
begin

text \<open>
  What a housekeeping cycle may and may not do, under every pattern of port failures: a dry run changes
  nothing, only runs that are finished, match the filter and are past a cut-off are touched, what is
  left of them keeps its indicators, and the stored runs stay well formed.
\<close>

section \<open>Dry runs\<close>

text \<open>Code that only consumes faults.\<close>

definition reads :: "'a op \<Rightarrow> bool" where
  "reads m \<longleftrightarrow> (\<forall>w. (snd (m w))\<lparr>w_faults := w_faults w\<rparr> = w)"

named_theorems reads_rules "code that changes nothing but the faults ahead"

lemma faults_twice: "w1\<lparr>w_faults := f1\<rparr> = w \<Longrightarrow> w2\<lparr>w_faults := w_faults w1\<rparr> = w1 \<Longrightarrow> w2\<lparr>w_faults := f1\<rparr> = w"
  by (cases w1, cases w2) auto

lemma reads_return [reads_rules]: "reads (returnW x)" by (simp add: reads_def returnW_def)
lemma reads_fail [reads_rules]: "reads (failW e)" by (simp add: reads_def failW_def)

lemma reads_bind [reads_rules]: "reads m \<Longrightarrow> (\<And>x. reads (f x)) \<Longrightarrow> reads (bindW m f)"
proof -
  assume m: "reads m" and f: "\<And>x. reads (f x)"
  have "(snd (bindW m f w))\<lparr>w_faults := w_faults w\<rparr> = w" for w
  proof -
    obtain r w1 where e: "m w = (r, w1)" by (cases "m w")
    with m have w1: "w1\<lparr>w_faults := w_faults w\<rparr> = w" unfolding reads_def by (metis snd_conv)
    show ?thesis
    proof (cases r)
      case (Inl x)
      with e w1 show ?thesis by (simp add: bindW_def)
    next
      case (Inr x)
      have "(snd (f x w1))\<lparr>w_faults := w_faults w1\<rparr> = w1" using f by (simp add: reads_def)
      from faults_twice [OF w1 this] e Inr show ?thesis by (simp add: bindW_def)
    qed
  qed
  then show ?thesis by (simp add: reads_def)
qed

lemma reads_attempt [reads_rules]: "reads m \<Longrightarrow> reads (attempt m)"
  by (simp add: reads_def attempt_eq)

lemma reads_call [reads_rules]: "(\<And>w. snd (f w) = w) \<Longrightarrow> reads (port_call f)"
  by (simp add: reads_def port_call_def split: list.split fault.split)

lemma reads_if [reads_rules]: "reads m \<Longrightarrow> reads n \<Longrightarrow> reads (if b then m else n)"
  by simp

lemma reads_option [reads_rules]:
  "reads m \<Longrightarrow> (\<And>x. reads (f x)) \<Longrightarrow> reads (case v of None \<Rightarrow> m | Some x \<Rightarrow> f x)"
  by (simp split: option.split)

lemma reads_sum [reads_rules]:
  "(\<And>e. reads (f e)) \<Longrightarrow> (\<And>x. reads (g x)) \<Longrightarrow> reads (case v of Inl e \<Rightarrow> f e | Inr x \<Rightarrow> g x)"
  by (simp split: sum.split)

lemma reads_ports [reads_rules]:
  "reads (suite_find_by_id i)" "reads (list_expired_runs_for_logs b f n)"
  "reads (list_expired_runs_for_reports b f n)" "reads (list_expired_runs_for_prune b f n)"
  "reads (list_orphaned_artifacts b n)" "reads (list_expired_artifacts b f n)"
  by (simp_all add: suite_find_by_id_def list_expired_runs_for_logs_def list_expired_runs_for_reports_def
      list_expired_runs_for_prune_def select_runs_def list_orphaned_artifacts_def list_expired_artifacts_def
      reads_call)

text \<open>
  a dry run of the housekeeping changes nothing at all, whatever fails: no row, no object, no job, no
  event, no rule of the bucket.
\<close>

theorem housekeeping_dry_run:
  "(snd (run_housekeeping hk now suite True w))\<lparr>w_faults := w_faults w\<rparr> = w"
proof -
  have "reads (run_housekeeping hk now suite True)"
    unfolding run_housekeeping_def effective_policy_def purge_logs_def purge_reports_def prune_runs_def
      purge_orphans_def purge_binaries_def if_True simp_thms
    by (intro reads_rules)
  then show ?thesis by (simp add: reads_def)
qed

section \<open>Runs\<close>

text \<open>
  What a cycle may make of a run: its logs key emptied, and archived, each with a cut-off of its own.
\<close>

definition logs_gone :: "test_run \<Rightarrow> test_run" where
  "logs_gone r = r\<lparr>s3_logs_key := ''''\<rparr>"

definition archived :: "test_run \<Rightarrow> test_run" where
  "archived r = r\<lparr>run_state := RunStatusArchived, summary_json := None, s3_report_key := ''''\<rparr>"

record cutoffs =
  cut_logs :: time
  cut_reports :: time
  cut_runs :: time

definition stale :: "time \<Rightarrow> string option \<Rightarrow> test_run \<Rightarrow> bool" where
  "stale before suite r \<longleftrightarrow>
     run_age r < before \<and> run_status_terminal (run_state r) \<and> suite_matches suite (run_suite_id r)"

definition reduced :: "cutoffs \<Rightarrow> string option \<Rightarrow> test_run \<Rightarrow> test_run \<Rightarrow> bool" where
  "reduced c suite r r' \<longleftrightarrow> r' = r \<or>
     stale (cut_logs c) suite r \<and> r' = logs_gone r \<or>
     stale (cut_reports c) suite r \<and> r' = archived r \<or>
     stale (cut_logs c) suite r \<and> stale (cut_reports c) suite r \<and> r' = archived (logs_gone r)"

definition swept :: "cutoffs \<Rightarrow> bool \<Rightarrow> string option \<Rightarrow> world \<Rightarrow> world \<Rightarrow> bool" where
  "swept c archive suite w0 w \<longleftrightarrow> distinct (map run_id (w_runs w)) \<and>
     (\<forall>i. case get_run w i of
        None \<Rightarrow> (case get_run w0 i of None \<Rightarrow> True | Some r \<Rightarrow> stale (cut_runs c) suite r \<and> \<not> archive)
      | Some r' \<Rightarrow> (\<exists>r. get_run w0 i = Some r \<and> reduced c suite r r'))"

lemma reduced_refl: "reduced c s r r" by (simp add: reduced_def)

lemma logs_gone_fields [simp]:
  "run_id (logs_gone r) = run_id r" "run_suite_id (logs_gone r) = run_suite_id r" "run_age (logs_gone r) = run_age r"
  "run_metrics (logs_gone r) = run_metrics r" "exit_code (logs_gone r) = exit_code r"
  "sla_passed (logs_gone r) = sla_passed r" "finished_at (logs_gone r) = finished_at r"
  "run_state (logs_gone r) = run_state r"
  by (simp_all add: logs_gone_def run_age_def split: option.split)

lemma archived_fields [simp]:
  "run_id (archived r) = run_id r" "run_suite_id (archived r) = run_suite_id r" "run_age (archived r) = run_age r"
  "run_metrics (archived r) = run_metrics r" "exit_code (archived r) = exit_code r"
  "sla_passed (archived r) = sla_passed r" "finished_at (archived r) = finished_at r"
  "run_state (archived r) = RunStatusArchived"
  by (simp_all add: archived_def run_age_def split: option.split)

lemma reduced_again:
  "logs_gone (logs_gone r) = logs_gone r" "archived (archived r) = archived r"
  "logs_gone (archived r) = archived (logs_gone r)"
  by (simp_all add: logs_gone_def archived_def)

lemma reduced_fields:
  assumes "reduced c s r r'"
  shows "run_id r' = run_id r" "run_suite_id r' = run_suite_id r" "run_age r' = run_age r"
    "run_metrics r' = run_metrics r" "exit_code r' = exit_code r" "sla_passed r' = sla_passed r"
    "finished_at r' = finished_at r"
  using assms by (auto simp: reduced_def)

lemma reduced_stale: "reduced c s r r' \<Longrightarrow> stale b s r' \<Longrightarrow> stale b s r"
  by (auto simp: reduced_def stale_def)

lemma reduced_choice:
  assumes "reduced c s r r'"
  shows "\<exists>logs archive. (logs \<longrightarrow> stale (cut_logs c) s r) \<and> (archive \<longrightarrow> stale (cut_reports c) s r) \<and>
    r' = r\<lparr>s3_logs_key := (if logs then '''' else s3_logs_key r),
      run_state := (if archive then RunStatusArchived else run_state r),
      summary_json := (if archive then None else summary_json r),
      s3_report_key := (if archive then '''' else s3_report_key r)\<rparr>"
  using assms unfolding reduced_def
proof (elim disjE conjE)
  assume "r' = r"
  then show ?thesis by (intro exI [of _ False]) simp
next
  assume "stale (cut_logs c) s r" and "r' = logs_gone r"
  then show ?thesis by (intro exI [of _ True] exI [of _ False]) (simp add: logs_gone_def)
next
  assume "stale (cut_reports c) s r" and "r' = archived r"
  then show ?thesis by (intro exI [of _ False] exI [of _ True]) (simp add: archived_def)
next
  assume "stale (cut_logs c) s r" and "stale (cut_reports c) s r" and "r' = archived (logs_gone r)"
  then show ?thesis by (intro exI [of _ True]) (simp add: archived_def logs_gone_def)
qed

lemma reduced_updates:
  assumes "reduced c s r x"
  shows "stale (cut_logs c) s r \<Longrightarrow> reduced c s r (logs_gone x)"
    "stale (cut_reports c) s r \<Longrightarrow> reduced c s r (archived x)"
  using assms by (auto simp: reduced_def reduced_again)

lemma swept_frame: "w_runs w' = w_runs w \<Longrightarrow> swept c a s w0 w \<Longrightarrow> swept c a s w0 w'"
  by (simp add: swept_def get_run_def)

lemma swept_at:
  assumes "swept c a s w0 w"
  shows "case get_run w i of
      None \<Rightarrow> (case get_run w0 i of None \<Rightarrow> True | Some r \<Rightarrow> stale (cut_runs c) s r \<and> \<not> a)
    | Some r' \<Rightarrow> (\<exists>r. get_run w0 i = Some r \<and> reduced c s r r')"
  using assms unfolding swept_def by blast

lemma sweptD:
  assumes "swept c a s w0 w" and "y \<in> set (w_runs w)" and "stale b s y"
  shows "\<exists>r. get_run w0 (run_id y) = Some r \<and> stale b s r"
proof -
  have "get_run w (run_id y) = Some y"
    using assms(1,2) by (simp add: swept_def get_run_def find_row_mem)
  then obtain r where "get_run w0 (run_id y) = Some r" "reduced c s r y"
    using swept_at [OF assms(1), of "run_id y"] by auto
  then show ?thesis using reduced_stale assms(3) by blast
qed

lemma swept_update:
  assumes "swept c a s w0 w" and "get_run w0 i = Some r"
    and "\<And>x. run_id (f x) = run_id x" and "\<And>x. reduced c s r x \<Longrightarrow> reduced c s r (f x)"
  shows "swept c a s w0 (update_runs f i w)"
proof -
  have ids: "map run_id (w_runs (update_runs f i w)) = map run_id (w_runs w)"
    by (simp add: update_runs_def update_row_def assms(3))
  have get: "get_run (update_runs f i w) j =
      (if i = j then map_option f (get_run w j) else get_run w j)" for j
    by (simp add: update_runs_def get_run_def find_row_update assms(3))
  show ?thesis
    unfolding swept_def
  proof (intro conjI allI)
    show "distinct (map run_id (w_runs (update_runs f i w)))"
      using assms(1) by (simp only: ids swept_def)
    show "case get_run (update_runs f i w) j of
        None \<Rightarrow> (case get_run w0 j of None \<Rightarrow> True | Some r \<Rightarrow> stale (cut_runs c) s r \<and> \<not> a)
      | Some r' \<Rightarrow> (\<exists>r. get_run w0 j = Some r \<and> reduced c s r r')" for j
      using swept_at [OF assms(1), of j] assms(2,4) by (cases "get_run w j") (auto simp: get)
  qed
qed

lemma find_row_filter:
  "find_row key (filter (\<lambda>x. key x \<notin> A) xs) i = (if i \<in> A then None else find_row key xs i)"
  by (induction xs) auto

lemma swept_delete:
  assumes "swept c False s w0 w"
    and "\<And>i. i \<in> ids \<Longrightarrow> \<exists>r. get_run w0 i = Some r \<and> stale (cut_runs c) s r"
  shows "swept c False s w0 (w\<lparr>w_runs := filter (\<lambda>r. run_id r \<notin> ids) (w_runs w)\<rparr>)"
proof -
  have get: "get_run (w\<lparr>w_runs := filter (\<lambda>r. run_id r \<notin> ids) (w_runs w)\<rparr>) i =
      (if i \<in> ids then None else get_run w i)" for i
    by (simp add: get_run_def find_row_filter)
  show ?thesis
    using assms unfolding swept_def get
    by (auto simp: distinct_map_filter split: option.splits) (metis option.inject)
qed

section \<open>The steps\<close>

lemma holds_port:
  assumes "\<And>w fs. I w \<Longrightarrow> I (w\<lparr>w_faults := fs\<rparr>)"
    and "\<And>w. I w \<Longrightarrow> I (snd (f w)) \<and> (\<forall>x. fst (f w) = Inr x \<longrightarrow> Q x)"
  shows "holds I (port_call f) Q"
  using assms by (auto simp: holds_def port_call_def split: list.split fault.split)

lemma holds_try: "holds I m Q \<Longrightarrow> holds I (attempt m) (\<lambda>r. \<forall>x. r = Inr x \<longrightarrow> Q x)"
  by (rule holds_attempt)

lemma holds_note: "holds I m Q \<Longrightarrow> holds I (note_error mk m) (\<lambda>_. True)"
  unfolding note_error_def by (rule holds_bind [OF holds_attempt holds_return]) auto

lemma holds_gather: "(\<And>x. x \<in> set xs \<Longrightarrow> holds I (f x) (\<lambda>_. True)) \<Longrightarrow> holds I (gatherW xs f) (\<lambda>_. True)"
proof (induction xs)
  case (Cons x xs)
  then show ?case by (auto intro!: holds_bind [where R = "\<lambda>_. True"] holds_return)
qed (simp add: holds_return)

lemma holds_delete:
  assumes "\<And>w w'. w_runs w' = w_runs w \<Longrightarrow> I w \<Longrightarrow> I w'"
  shows "holds I (hk_delete hk key) (\<lambda>_. True)"
proof -
  have "keeps_runs (hk_delete hk key)" unfolding hk_delete_def by (intro frame_rules)
  with assms show ?thesis by (auto simp: holds_def keeps_runs_def)
qed

lemma swept_faults: "swept c a s w0 w \<Longrightarrow> swept c a s w0 (w\<lparr>w_faults := fs\<rparr>)"
  by (erule swept_frame [rotated]) simp

lemma swept_port:
  assumes "\<And>w. swept c a s w0 w \<Longrightarrow> swept c a s w0 (snd (f w)) \<and> (\<forall>x. fst (f w) = Inr x \<longrightarrow> Q x)"
  shows "holds (swept c a s w0) (port_call f) Q"
  by (rule holds_port) (simp_all add: swept_faults assms)

lemma holds_true: "holds I m Q \<Longrightarrow> holds I m (\<lambda>_. True)"
  by (erule holds_weaken) simp

text \<open>One step of the cycle: list the candidates, then treat each of them unless it is a dry run.\<close>

lemma holds_sweep:
  fixes l :: "'x list op"
  assumes list: "holds I l (\<lambda>rs. \<forall>x \<in> set rs. P x)"
    and body: "\<And>rs. \<forall>x \<in> set rs. P x \<Longrightarrow> holds I (body rs) (\<lambda>_. True)"
  shows "holds I (bindW (attempt l) (\<lambda>l. case l of
      Inl e \<Rightarrow> returnW (g e)
    | Inr rs \<Rightarrow> bindW (body rs) (\<lambda>es. returnW (h rs es)))) (\<lambda>_. True)"
proof (rule holds_bind [OF holds_attempt [OF list]])
  fix r :: "'x list result"
  assume r: "\<forall>rs. r = Inr rs \<longrightarrow> (\<forall>x \<in> set rs. P x)"
  show "holds I (case r of Inl e \<Rightarrow> returnW (g e)
    | Inr rs \<Rightarrow> bindW (body rs) (\<lambda>es. returnW (h rs es))) (\<lambda>_. True)"
  proof (cases r)
    case (Inl e)
    then show ?thesis by (simp add: holds_return)
  next
    case (Inr rs)
    with r have "holds I (body rs) (\<lambda>_. True)" by (simp add: body)
    then have "holds I (bindW (body rs) (\<lambda>es. returnW (h rs es))) (\<lambda>_. True)"
      by (rule holds_bind) (simp add: holds_return)
    with Inr show ?thesis by simp
  qed
qed

lemma holds_each:
  assumes "\<And>x. P x \<Longrightarrow> holds I (body x) (\<lambda>_. True)" and "\<forall>x \<in> set xs. P x"
  shows "holds I (if dry then returnW [] else gatherW xs body) (\<lambda>_. True)"
  using assms by (intro holds_if holds_return holds_gather) auto

lemma holds_delete_then:
  assumes "\<And>w w'. w_runs w' = w_runs w \<Longrightarrow> I w \<Longrightarrow> I w'" and "holds I m (\<lambda>_. True)"
  shows "holds I (bindW (hk_delete hk key) (\<lambda>_. m)) (\<lambda>_. True)"
  by (rule holds_bind [OF holds_delete]) (rule assms; assumption?)+

text \<open>What the listings return, and what the writes keep.\<close>

lemma load_run_id: "new_test_run_with_id row = Inr r \<Longrightarrow> run_id r = run_id row"
  by (rule load_run_fields(1))

lemma select_runs_stale:
  assumes "\<And>y. keep y \<Longrightarrow> stale b s y"
  shows "holds (swept c a s w0) (select_runs keep n)
    (\<lambda>rs. \<forall>x \<in> set rs. \<exists>r. get_run w0 (run_id x) = Some r \<and> stale b s r)"
  unfolding select_runs_def
proof (rule swept_port)
  fix w assume sw: "swept c a s w0 w"
  let ?rows = "take (row_limit n) (oldest_first (filter keep (w_runs w)))"
  have "\<exists>r. get_run w0 (run_id x) = Some r \<and> stale b s r"
    if c: "collect_results (map new_test_run_with_id ?rows) = Inr rs" and x: "x \<in> set rs" for rs x
  proof -
    from c have "map new_test_run_with_id ?rows = map Inr rs" by (simp only: collect_results_Inr)
    with x obtain y where y: "y \<in> set ?rows" "new_test_run_with_id y = Inr x"
      by (metis (no_types, lifting) imageE image_eqI image_set)
    have "set ?rows \<subseteq> set (filter keep (w_runs w))"
      using set_take_subset [of "row_limit n" "oldest_first (filter keep (w_runs w))"] by (simp add: oldest_first_def)
    with y(1) have "y \<in> set (w_runs w)" "stale b s y" using assms by auto
    with sweptD [OF sw] load_run_id [OF y(2)] show ?thesis by simp
  qed
  with sw show "swept c a s w0 (snd (collect_results (map new_test_run_with_id ?rows), w)) \<and>
    (\<forall>rs. fst (collect_results (map new_test_run_with_id ?rows), w) = Inr rs \<longrightarrow>
      (\<forall>x \<in> set rs. \<exists>r. get_run w0 (run_id x) = Some r \<and> stale b s r))"
    by simp
qed

lemma stale_expired: "expired_run b s y \<Longrightarrow> stale b s y"
  by (simp add: expired_run_def stale_def)

lemma update_call_swept:
  assumes "get_run w0 i = Some r"
    and "\<And>x. run_id (f x) = run_id x" and "\<And>x. reduced c s r x \<Longrightarrow> reduced c s r (f x)"
  shows "holds (swept c a s w0) (port_call (\<lambda>w. (Inr (), update_runs f i w))) (\<lambda>_. True)"
  by (rule swept_port) (auto intro: swept_update assms)

lemma purge_logs_swept: "holds (swept c a s w0) (purge_logs hk dry s (cut_logs c) res) (\<lambda>_. True)"
proof -
  have clear: "holds (swept c a s w0) (note_error mk (run_clear_logs_key (run_id x))) (\<lambda>_. True)"
    if "get_run w0 (run_id x) = Some r" and "stale (cut_logs c) s r" for x r mk
    unfolding run_clear_logs_key_def logs_gone_def [symmetric]
    by (rule holds_note, rule update_call_swept [OF that(1)]) (simp_all add: that reduced_updates)
  have list: "holds (swept c a s w0) (list_expired_runs_for_logs (cut_logs c) s 500)
      (\<lambda>rs. \<forall>x \<in> set rs. \<exists>r. get_run w0 (run_id x) = Some r \<and> stale (cut_logs c) s r)"
    unfolding list_expired_runs_for_logs_def by (rule select_runs_stale) (simp add: stale_expired)
  show ?thesis
    unfolding purge_logs_def
    by (rule holds_if, rule holds_return, rule TrueI, rule holds_sweep [OF list], erule holds_each [rotated],
        rule holds_delete_then, erule swept_frame, assumption) (blast intro: clear)
qed

lemma purge_reports_swept: "holds (swept c a s w0) (purge_reports hk dry s (cut_reports c) res) (\<lambda>_. True)"
proof -
  have clear: "holds (swept c a s w0) (note_error mk (run_archive_row (run_id x))) (\<lambda>_. True)"
    if "get_run w0 (run_id x) = Some r" and "stale (cut_reports c) s r" for x r mk
    unfolding run_archive_row_def archived_def [symmetric]
    by (rule holds_note, rule update_call_swept [OF that(1)]) (simp_all add: that reduced_updates)
  have list: "holds (swept c a s w0) (list_expired_runs_for_reports (cut_reports c) s 500)
      (\<lambda>rs. \<forall>x \<in> set rs. \<exists>r. get_run w0 (run_id x) = Some r \<and> stale (cut_reports c) s r)"
    unfolding list_expired_runs_for_reports_def by (rule select_runs_stale) (simp add: stale_expired)
  show ?thesis
    unfolding purge_reports_def
    by (rule holds_if, rule holds_return, rule TrueI, rule holds_sweep [OF list], erule holds_each [rotated],
        rule holds_delete_then, erule swept_frame, assumption) (blast intro: clear)
qed

lemma prune_runs_swept: "holds (swept c a s w0) (prune_runs hk dry a s (cut_runs c) res) (\<lambda>_. True)"
proof -
  have del: "holds (swept c False s w0) (note_error mk (run_delete_batch ids)) (\<lambda>_. True)"
    if "\<forall>i \<in> set ids. \<exists>r. get_run w0 i = Some r \<and> stale (cut_runs c) s r" for ids mk
    unfolding run_delete_batch_def
    using that by (intro holds_note holds_if holds_return swept_port) (auto intro: swept_delete)
  have list: "holds (swept c a s w0) (list_expired_runs_for_prune (cut_runs c) s 500)
      (\<lambda>rs. \<forall>x \<in> set rs. \<exists>r. get_run w0 (run_id x) = Some r \<and> stale (cut_runs c) s r)"
    unfolding list_expired_runs_for_prune_def by (rule select_runs_stale) (simp add: stale_expired)
  show ?thesis
  proof (cases a)
    case False
    have body: "holds (swept c a s w0) (if dry \<or> rs = [] then returnW []
        else note_error Hk_delete_batch (run_delete_batch (map run_id rs))) (\<lambda>_. True)"
      if "\<forall>x \<in> set rs. \<exists>r. get_run w0 (run_id x) = Some r \<and> stale (cut_runs c) s r" for rs
      using that False del [of "map run_id rs"] by (auto intro: holds_return)
    show ?thesis
      unfolding prune_runs_def
      by (rule holds_if, rule holds_return, rule TrueI, rule holds_sweep [OF list body])
  qed (simp add: prune_runs_def holds_return)
qed

lemma keeps_runs_housekeeping [frame_rules]:
  "keeps_runs (effective_policy hk s)" "keeps_runs (purge_orphans hk dry b res)"
  "keeps_runs (purge_binaries hk dry s b res)"
proof -
  have g: "keeps_runs (gatherW xs f)" if "\<And>x. keeps_runs (f x)" for xs and f :: "'x \<Rightarrow> hk_error list op"
    by (induction xs) (auto intro!: frame_rules that)
  have p: "keeps_runs (list_orphaned_artifacts t n)" "keeps_runs (list_expired_artifacts t s n)"
    "keeps_runs (artifact_delete i)" "keeps_runs (artifact_clear_binary_keys i)" for t n i
    by (auto simp: list_orphaned_artifacts_def list_expired_artifacts_def artifact_delete_def
        artifact_clear_binary_keys_def intro!: frame_rules split: option.split)
  show "keeps_runs (effective_policy hk s)" "keeps_runs (purge_orphans hk dry b res)"
    "keeps_runs (purge_binaries hk dry s b res)"
    unfolding effective_policy_def purge_orphans_def purge_binaries_def hk_delete_def note_error_def
    by (intro frame_rules g p)+
qed

lemma keeps_then: "keeps_runs m \<Longrightarrow> (\<And>x. holds (swept c a s w0) (f x) Q) \<Longrightarrow> holds (swept c a s w0) (bindW m f) Q"
proof -
  assume "keeps_runs m" and "\<And>x. holds (swept c a s w0) (f x) Q"
  then have "holds (swept c a s w0) m (\<lambda>_. True)"
    by (auto simp: holds_def keeps_runs_def intro: swept_frame)
  then show "holds (swept c a s w0) (bindW m f) Q"
    by (rule holds_bind) (rule \<open>\<And>x. holds (swept c a s w0) (f x) Q\<close>)
qed

definition policy_cutoffs :: "time \<Rightarrow> retention_policy \<Rightarrow> cutoffs" where
  "policy_cutoffs now p = \<lparr>cut_logs = cutoff now (logs_duration p),
     cut_reports = cutoff now (reports_duration p), cut_runs = cutoff now (runs_duration p)\<rparr>"

lemma policy_cut_sel:
  "cut_logs (policy_cutoffs now p) = cutoff now (logs_duration p)"
  "cut_reports (policy_cutoffs now p) = cutoff now (reports_duration p)"
  "cut_runs (policy_cutoffs now p) = cutoff now (runs_duration p)"
  by (simp_all add: policy_cutoffs_def)

lemma phases_swept:
  "holds (swept (policy_cutoffs now p) (archive_only p) suite w0)
    (bindW (purge_logs hk dry suite (cutoff now (logs_duration p)) r0) (\<lambda>r1.
     bindW (purge_reports hk dry suite (cutoff now (reports_duration p)) r1) (\<lambda>r2.
     bindW (prune_runs hk dry (archive_only p) suite (cutoff now (runs_duration p)) r2) (\<lambda>r3.
     bindW (purge_orphans hk dry (now + - (24 * hour)) r3) (\<lambda>r4.
     purge_binaries hk dry suite (cutoff now (binaries_duration p)) r4))))) (\<lambda>_. True)"
proof -
  let ?c = "policy_cutoffs now p"
  have last: "holds (swept ?c (archive_only p) suite w0) m (\<lambda>_. True)" if "keeps_runs m" for m :: "hk_result op"
    using that by (auto simp: holds_def keeps_runs_def intro: swept_frame)
  note phases = purge_logs_swept [of ?c, unfolded policy_cut_sel]
    purge_reports_swept [of ?c, unfolded policy_cut_sel] prune_runs_swept [of ?c, unfolded policy_cut_sel]
  show ?thesis
    by (rule holds_bind [OF phases(1)], rule holds_bind [OF phases(2)], rule holds_bind [OF phases(3)],
        rule keeps_then, rule keeps_runs_housekeeping, rule last, rule keeps_runs_housekeeping)
qed

lemma run_housekeeping_swept:
  assumes "runs_wf w" and "fst (effective_policy hk suite w) = Inr p"
  shows "swept (policy_cutoffs now p) (archive_only p) suite w (snd (run_housekeeping hk now suite dry w))"
proof -
  obtain w1 where e: "effective_policy hk suite w = (Inr p, w1)" using assms(2) by (metis prod.collapse)
  have "w_runs w1 = w_runs w"
    using keeps_runs_housekeeping(1) e unfolding keeps_runs_def by (metis snd_conv)
  moreover have "swept c a s w w" for c a s
    using assms(1) by (auto simp: swept_def runs_wf_def reduced_refl split: option.splits)
  ultimately have "swept (policy_cutoffs now p) (archive_only p) suite w w1" by (rule swept_frame)
  from holds_keeps [OF phases_swept this] show ?thesis
    by (simp add: run_housekeeping_def bindW_def e)
qed

lemma logs_gone_wf: "run_wf (logs_gone r) = run_wf r"
  by (simp add: logs_gone_def run_wf_def split: run_status.split)

lemma archived_wf: "run_wf r \<Longrightarrow> run_status_terminal (run_state r) \<Longrightarrow> run_wf (archived r)"
  by (simp add: archived_def run_wf_def)

lemma reduced_wf: "reduced c s r r' \<Longrightarrow> run_wf r \<Longrightarrow> run_wf r'"
  using archived_wf [of r] archived_wf [of "logs_gone r"] logs_gone_wf [of r]
  by (auto simp: reduced_def stale_def)


definition sample_housekeeper :: housekeeper where
  "sample_housekeeper = new_housekeeper True True True True default_retention_policy"

text \<open>A hundred days after the end of the only run: past the windows of logs and reports, not of runs.\<close>

lemma sample_cycle:
  "get_run (snd (run_housekeeping sample_housekeeper 8640000000000000 None False (sample_world\<lparr>w_faults := []\<rparr>))) ''r1'' =
     Some ((sample_run RunStatusFailed)\<lparr>run_state := RunStatusArchived, summary_json := None, s3_logs_key := ''''\<rparr>)"
  by code_simp


section \<open>Without failures, nothing expired stays\<close>

definition clean :: "world \<Rightarrow> bool" where
  "clean w \<longleftrightarrow> w_faults w = [] \<and> length (w_runs w) \<le> 500 \<and> (\<forall>r \<in> set (w_runs w). run_status_valid (run_state r))"

lemma clean_call:
  assumes "\<And>w. clean w \<Longrightarrow> clean (snd (f w))"
  shows "holds clean (port_call f) (\<lambda>_. True)"
  using assms by (auto simp: holds_def port_call_def clean_def)

lemma clean_update:
  assumes "\<And>r. run_status_valid (run_state r) \<Longrightarrow> run_status_valid (run_state (f r))"
  shows "holds clean (port_call (\<lambda>w. (Inr (), update_runs f i w))) (\<lambda>_. True)"
  by (rule clean_call) (auto simp: clean_def update_runs_def update_row_def assms)

lemma clean_delete: "holds clean (hk_delete hk key) (\<lambda>_. True)"
proof -
  have "holds clean (storage_delete key) (\<lambda>_. True)"
    unfolding storage_delete_def by (rule holds_if, rule holds_fail, rule clean_call) (simp add: clean_def)
  then show ?thesis
    unfolding hk_delete_def
    by (intro holds_if holds_return TrueI) (rule holds_bind [OF holds_attempt], auto intro: holds_return)
qed

lemma clean_select: "holds clean (select_runs keep n) (\<lambda>_. True)"
  unfolding select_runs_def by (rule clean_call) simp

lemma clean_phases:
  "holds clean (purge_logs hk dry s b res) (\<lambda>_. True)"
  "holds clean (purge_reports hk dry s b res) (\<lambda>_. True)"
proof -
  have t: "\<forall>x \<in> set xs. True" for xs :: "test_run list" by simp
  have l: "holds clean (list_expired_runs_for_logs b s 500) (\<lambda>rs. \<forall>x \<in> set rs. True)"
    "holds clean (list_expired_runs_for_reports b s 500) (\<lambda>rs. \<forall>x \<in> set rs. True)"
    unfolding list_expired_runs_for_logs_def list_expired_runs_for_reports_def
    by (rule holds_weaken [OF clean_select], simp)+
  have c: "holds clean (run_clear_logs_key i) (\<lambda>_. True)" "holds clean (run_archive_row i) (\<lambda>_. True)" for i
    unfolding run_clear_logs_key_def run_archive_row_def by (rule clean_update, simp)+
  show "holds clean (purge_logs hk dry s b res) (\<lambda>_. True)"
    unfolding purge_logs_def
    by (rule holds_if, rule holds_return, rule TrueI, rule holds_sweep [OF l(1)], erule holds_each [rotated],
        rule holds_bind [OF clean_delete], rule holds_note, rule c)
  show "holds clean (purge_reports hk dry s b res) (\<lambda>_. True)"
    unfolding purge_reports_def
    by (rule holds_if, rule holds_return, rule TrueI, rule holds_sweep [OF l(2)], erule holds_each [rotated],
        rule holds_bind [OF clean_delete], rule holds_note, rule c)
qed

text \<open>The steps of the cycle never fail: every error is recorded in the result.\<close>

definition total_op :: "'a op \<Rightarrow> bool" where
  "total_op m \<longleftrightarrow> (\<forall>w. \<exists>x w'. m w = (Inr x, w'))"

lemma total_return: "total_op (returnW x)" by (simp add: total_op_def returnW_def)
lemma total_attempt: "total_op (attempt m)" by (simp add: total_op_def attempt_eq)

lemma total_bind: "total_op m \<Longrightarrow> (\<And>x. total_op (f x)) \<Longrightarrow> total_op (bindW m f)"
  unfolding total_op_def bindW_def
proof (intro allI)
  fix w
  assume m: "\<forall>w. \<exists>x w'. m w = (Inr x, w')" and f: "\<And>x. \<forall>w. \<exists>y w'. f x w = (Inr y, w')"
  from m obtain x w1 where "m w = (Inr x, w1)" by blast
  moreover from f [of x] obtain y w2 where "f x w1 = (Inr y, w2)" by blast
  ultimately show "\<exists>y w'. (case m w of (Inl e, w') \<Rightarrow> (Inl e, w') | (Inr x, w') \<Rightarrow> f x w') = (Inr y, w')" by simp
qed

lemma total_if: "total_op m \<Longrightarrow> total_op n \<Longrightarrow> total_op (if b then m else n)"
  by simp

lemma total_sum:
  "(\<And>e. total_op (f e)) \<Longrightarrow> (\<And>x. total_op (g x)) \<Longrightarrow> total_op (case v of Inl e \<Rightarrow> f e | Inr x \<Rightarrow> g x)"
  by (simp split: sum.split)

lemma total_gather: "(\<And>x. total_op (f x)) \<Longrightarrow> total_op (gatherW xs f)"
  by (induction xs) (auto intro: total_return total_bind)

lemmas total_rules = total_return total_attempt total_bind total_if total_sum total_gather

lemma total_phases:
  "total_op (purge_logs hk dry s b res)" "total_op (purge_reports hk dry s b res)"
  "total_op (prune_runs hk dry a s b res)" "total_op (purge_orphans hk dry b res)"
  "total_op (purge_binaries hk dry s b res)"
  unfolding purge_logs_def purge_reports_def prune_runs_def purge_orphans_def purge_binaries_def
    note_error_def hk_delete_def
  by (intro total_rules)+

lemma load_valid_runs:
  assumes "\<forall>r \<in> set rs. run_status_valid (run_state r)"
  shows "\<exists>xs. collect_results (map new_test_run_with_id rs) = Inr xs \<and> map run_id xs = map run_id rs"
  using assms by (induction rs) (auto simp: new_test_run_with_id_def)

lemma prune_runs_clean:
  assumes "clean w" and "hk_runs hk" and "y \<in> set (w_runs (snd (prune_runs hk False False s b res w)))"
  shows "\<not> stale b s y"
proof -
  let ?rows = "oldest_first (filter (expired_run b s) (w_runs w))"
  have len: "length ?rows \<le> 500"
    using assms(1) le_trans [OF length_filter_le [of "expired_run b s" "w_runs w"]]
    by (simp add: clean_def oldest_first_def)
  have "\<forall>r \<in> set ?rows. run_status_valid (run_state r)"
    using assms(1) by (simp add: clean_def oldest_first_def)
  from load_valid_runs [OF this] obtain xs where
    xs: "collect_results (map new_test_run_with_id ?rows) = Inr xs" "map run_id xs = map run_id ?rows" by blast
  have list: "list_expired_runs_for_prune b s 500 w = (Inr xs, w)"
    using assms(1) len xs(1)
    by (simp add: list_expired_runs_for_prune_def select_runs_def port_call_def clean_def row_limit_def)
  have ids: "run_id ` set xs = run_id ` {r \<in> set (w_runs w). expired_run b s r}"
    using arg_cong [OF xs(2), of set] by (simp add: oldest_first_def)
  have "w_runs (snd (prune_runs hk False False s b res w)) =
      filter (\<lambda>r. run_id r \<notin> run_id ` set xs) (w_runs w)"
    using assms(1,2)
    by (auto simp: prune_runs_def bindW_def attempt_eq list returnW_def note_error_def run_delete_batch_def
        port_call_def clean_def split: if_splits)
  with assms(3) have "y \<in> set (w_runs w)" "run_id y \<notin> run_id ` set xs" by auto
  then show ?thesis unfolding ids by (auto simp: stale_def expired_run_def)
qed

text \<open>
  when nothing fails and the tables fit in one batch, a live cycle over all suites deletes every
  finished run that is past the global run window (unless the global policy is archive-only).  The
  retention of the run's own suite plays no part: a suite that overrides the window with a longer one,
  or that asks for archiving only, loses its runs all the same.
\<close>

theorem housekeeping_prunes_expired:
  assumes "w_faults w = []" and "hk_runs hk" and "\<not> archive_only (hk_policy hk)"
    and "length (w_runs w) \<le> 500" and "\<forall>r \<in> set (w_runs w). run_wf r" and "distinct (map run_id (w_runs w))"
    and "r \<in> set (w_runs w)" and "run_status_terminal (run_state r)"
    and "run_age r < cutoff now (runs_duration (hk_policy hk))"
  shows "get_run (snd (run_housekeeping hk now None False w)) (run_id r) = None"
proof -
  let ?p = "hk_policy hk"
  let ?c = "policy_cutoffs now ?p"
  let ?S = "swept ?c False None w"
  have sw0: "?S w" using assms(6) by (auto simp: swept_def reduced_refl split: option.splits)
  have c0: "clean w" using assms(1,4,5) by (auto simp: clean_def run_wf_def)
  obtain r1 w1 where e1: "purge_logs hk False None (cutoff now (logs_duration ?p)) empty_result w = (Inr r1, w1)"
    using total_phases(1) unfolding total_op_def by blast
  obtain r2 w2 where e2: "purge_reports hk False None (cutoff now (reports_duration ?p)) r1 w1 = (Inr r2, w2)"
    using total_phases(2) unfolding total_op_def by blast
  obtain r3 w3 where e3: "prune_runs hk False False None (cutoff now (runs_duration ?p)) r2 w2 = (Inr r3, w3)"
    using total_phases(3) unfolding total_op_def by blast
  obtain r4 w4 where e4: "purge_orphans hk False (now + - (24 * hour)) r3 w3 = (Inr r4, w4)"
    using total_phases(4) unfolding total_op_def by blast
  obtain r5 w5 where e5: "purge_binaries hk False None (cutoff now (binaries_duration ?p)) r4 w4 = (Inr r5, w5)"
    using total_phases(5) unfolding total_op_def by blast
  have end5: "snd (run_housekeeping hk now None False w) = w5"
    using assms(3) by (simp add: run_housekeeping_def bindW_def effective_policy_def returnW_def e1 e2 e3 e4 [simplified] e5)
  have c1: "clean w1" using holds_keeps [OF clean_phases(1) c0] e1 by (metis snd_conv)
  have c2: "clean w2" using holds_keeps [OF clean_phases(2) c1] e2 by (metis snd_conv)
  note sl = purge_logs_swept [of ?c, unfolded policy_cut_sel]
    and sr = purge_reports_swept [of ?c, unfolded policy_cut_sel]
    and sp = prune_runs_swept [of ?c, unfolded policy_cut_sel]
  have s1: "?S w1" using holds_keeps [OF sl sw0] e1 by (metis snd_conv)
  have s2: "?S w2" using holds_keeps [OF sr s1] e2 by (metis snd_conv)
  have s3: "?S w3" using holds_keeps [OF sp s2] e3 by (metis snd_conv)
  have runs: "w_runs w5 = w_runs w3"
    using keeps_runs_housekeeping(2,3) e4 e5 unfolding keeps_runs_def by (metis snd_conv)
  have stale_r: "stale (cutoff now (runs_duration ?p)) None r"
    using assms(8,9) by (simp add: stale_def suite_matches_def)
  have none: "get_run w3 (run_id r) = None"
  proof (cases "get_run w3 (run_id r)")
    case (Some y)
    have get: "get_run w (run_id r) = Some r" using assms(6,7) by (simp add: get_run_def find_row_mem)
    have y: "y \<in> set (w_runs w3)" using Some by (auto simp: get_run_def dest: find_row_Some)
    have red: "reduced ?c None r y" using swept_at [OF s3, of "run_id r"] Some get by simp
    then have "run_status_terminal (run_state y)"
      using assms(8) by (auto simp: reduced_def)
    with stale_r reduced_fields [OF red] have "stale (cutoff now (runs_duration ?p)) None y"
      by (simp add: stale_def)
    with prune_runs_clean [OF c2 assms(2), of y None "cutoff now (runs_duration ?p)" r2] y e3 show ?thesis by simp
  qed
  then show ?thesis by (simp add: end5 get_run_def runs)
qed

definition override_world :: world where
  "override_world = sample_world\<lparr>w_faults := [], w_suites := [\<lparr>suite_id = ''s1'', suite_name = ''smoke'',
     suite_description = '''', suite_state = TestSuiteStateActive,
     suite_retention = Some (default_retention_policy\<lparr>runs_ttl_days := 3650, archive_only := True\<rparr>),
     suite_created_at = 1, suite_updated_at = 1\<rparr>]\<rparr>"

theorem housekeeping_prunes_expired_witness:
  "get_run (snd (run_housekeeping sample_housekeeper 20000000000000000 None False override_world)) ''r1'' = None"
proof -
  let ?r = "sample_run RunStatusFailed"
  have pol: "hk_policy sample_housekeeper = default_retention_policy" "hk_runs sample_housekeeper"
    by (simp_all add: sample_housekeeper_def new_housekeeper_def retention_validate_def default_retention_policy_def)
  have w: "w_faults override_world = []" "w_runs override_world = [?r]"
    by (simp_all add: override_world_def sample_world_def)
  have r: "run_id ?r = ''r1''" "run_status_terminal (run_state ?r)"
    "run_age ?r < cutoff 20000000000000000 (runs_duration default_retention_policy)"
    by (simp_all add: sample_run_def run_age_def cutoff_def runs_duration_def ttl_duration_def wrap64_def
        default_retention_policy_def)
  show ?thesis
    using housekeeping_prunes_expired [of override_world sample_housekeeper ?r 20000000000000000]
      sample_run_wf r
    by (simp add: pol w default_retention_policy_def)
qed

section \<open>The rules of the bucket\<close>

text \<open>
  the expiration rules that are installed on the bucket do not follow the retention policy.  They
  match by prefix only, so the rule for logs also expires the summary report of every run after the log
  window, and the rule for sources also expires the compiled binaries and the stored
  configurations after the source window, whatever the windows for reports and binaries say.
\<close>

theorem bucket_rules_overreach:
  "(\<forall>run k. key_summary_report run = Inr k \<longrightarrow>
      (\<exists>rule \<in> set (bucket_rules p). prefix (lr_prefix rule) k \<and> lr_enabled rule \<and> lr_days rule = logs_ttl_days p)) \<and>
   (\<forall>suite art pl k. key_binary_artifact suite art pl = Inr k \<longrightarrow>
      (\<exists>rule \<in> set (bucket_rules p). prefix (lr_prefix rule) k \<and> lr_enabled rule \<and> lr_days rule = sources_ttl_days p)) \<and>
   (\<forall>suite cfg k. key_configuration suite cfg = Inr k \<longrightarrow>
      (\<exists>rule \<in> set (bucket_rules p). prefix (lr_prefix rule) k \<and> lr_enabled rule \<and> lr_days rule = sources_ttl_days p)) \<and>
   logs_ttl_days default_retention_policy < reports_ttl_days default_retention_policy \<and>
   (w_faults w = [] \<and> hk_storage hk \<longrightarrow>
      w_lifecycle (snd (configure_bucket_lifecycle hk w)) = map s3_rule (bucket_rules (hk_policy hk)))"
  by (auto simp: bucket_rules_def key_summary_report_def key_binary_artifact_def key_configuration_def
      default_retention_policy_def configure_bucket_lifecycle_def put_bucket_lifecycle_def port_call_def
      split: if_splits platform.splits)

theorem bucket_rules_overreach_witness:
  "key_summary_report ''r1'' = Inr ''runs/r1/summary.json'' \<and>
   (\<exists>rule \<in> set (bucket_rules default_retention_policy). prefix (lr_prefix rule) ''runs/r1/summary.json'' \<and>
      lr_days rule = 14)"
proof -
  have t: "trim_space ''r1'' = ''r1''" by (simp add: trim_space_graphic graphic_def)
  then have k: "key_summary_report ''r1'' = Inr ''runs/r1/summary.json''" by (simp add: key_summary_report_def)
  moreover have "logs_ttl_days default_retention_policy = 14" by (simp add: default_retention_policy_def)
  ultimately show ?thesis using bucket_rules_overreach [of default_retention_policy] by metis
qed

end
