(* ===== verification/Sha256.thy ===== *)
theory Sha256
  imports Artifacts "HOL-Library.Word"
begin

unbundle bit_operations_syntax

text \<open>
  \<open>crypto/sha256\<close> and \<open>encoding/hex\<close> of the standard library, as the build service uses them to compute
  the checksum of an uploaded binary: the digest of a byte string (FIPS 180-4) and its lower-case
  hexadecimal form, which is always a checksum that \<open>MarkReady\<close> accepts.
\<close>

section \<open>The compression function\<close>

definition rotr :: "nat \<Rightarrow> 32 word \<Rightarrow> 32 word" where
  "rotr n x = drop_bit n x OR push_bit (32 - n) x"

definition small_sigma0 :: "32 word \<Rightarrow> 32 word" where
  "small_sigma0 x = rotr 7 x XOR rotr 18 x XOR drop_bit 3 x"

definition small_sigma1 :: "32 word \<Rightarrow> 32 word" where
  "small_sigma1 x = rotr 17 x XOR rotr 19 x XOR drop_bit 10 x"

definition big_sigma0 :: "32 word \<Rightarrow> 32 word" where
  "big_sigma0 x = rotr 2 x XOR rotr 13 x XOR rotr 22 x"

definition big_sigma1 :: "32 word \<Rightarrow> 32 word" where
  "big_sigma1 x = rotr 6 x XOR rotr 11 x XOR rotr 25 x"

definition sha_choice :: "32 word \<Rightarrow> 32 word \<Rightarrow> 32 word \<Rightarrow> 32 word" where
  "sha_choice e f g = (e AND f) XOR ((NOT e) AND g)"

definition sha_majority :: "32 word \<Rightarrow> 32 word \<Rightarrow> 32 word \<Rightarrow> 32 word" where
  "sha_majority a b c = (a AND b) XOR (a AND c) XOR (b AND c)"

definition round_constants :: "32 word list" where
  "round_constants =
     [1116352408, 1899447441, 3049323471, 3921009573, 961987163, 1508970993,
      2453635748, 2870763221, 3624381080, 310598401, 607225278, 1426881987,
      1925078388, 2162078206, 2614888103, 3248222580, 3835390401, 4022224774,
      264347078, 604807628, 770255983, 1249150122, 1555081692, 1996064986,
      2554220882, 2821834349, 2952996808, 3210313671, 3336571891, 3584528711,
      113926993, 338241895, 666307205, 773529912, 1294757372, 1396182291,
      1695183700, 1986661051, 2177026350, 2456956037, 2730485921, 2820302411,
      3259730800, 3345764771, 3516065817, 3600352804, 4094571909, 275423344,
      430227734, 506948616, 659060556, 883997877, 958139571, 1322822218,
      1537002063, 1747873779, 1955562222, 2024104815, 2227730452, 2361852424,
      2428436474, 2756734187, 3204031479, 3329325298]"

definition initial_hash :: "32 word list" where
  "initial_hash =
     [1779033703, 3144134277, 1013904242, 2773480762, 1359893119, 2600822924,
      528734635, 1541459225]"

text \<open>The message schedule, newest word first: 16 words of the block, then the given number of steps.\<close>

fun extend_schedule :: "nat \<Rightarrow> 32 word list \<Rightarrow> 32 word list" where
  "extend_schedule 0 ws = ws"
| "extend_schedule (Suc n) ws =
     extend_schedule n
       ((small_sigma1 (ws ! 1) + ws ! 6 + small_sigma0 (ws ! 14) + ws ! 15) # ws)"

definition schedule_words :: "32 word list \<Rightarrow> 32 word list" where
  "schedule_words block = rev (extend_schedule 48 (rev block))"

fun sha_round :: "32 word list \<Rightarrow> 32 word \<times> 32 word \<Rightarrow> 32 word list" where
  "sha_round [a, b, c, d, e, f, g, h] (k, w) =
     (let t1 = h + big_sigma1 e + sha_choice e f g + k + w; t2 = big_sigma0 a + sha_majority a b c
      in [t1 + t2, a, b, c, d + t1, e, f, g])"
| "sha_round st _ = st"

definition compress :: "32 word list \<Rightarrow> 32 word list \<Rightarrow> 32 word list" where
  "compress st block =
     map2 (+) st (foldl sha_round st (zip round_constants (schedule_words block)))"

section \<open>Padding and blocks\<close>

definition byte_word :: "char \<Rightarrow> 32 word" where
  "byte_word c = word_of_int (of_char c)"

fun words_of_bytes :: "string \<Rightarrow> 32 word list" where
  "words_of_bytes (a # b # c # d # rest) =
     (push_bit 24 (byte_word a) OR push_bit 16 (byte_word b) OR push_bit 8 (byte_word c) OR byte_word d)
     # words_of_bytes rest"
| "words_of_bytes _ = []"

definition length_bytes :: "nat \<Rightarrow> string" where
  "length_bytes n = map (\<lambda>i. char_of (8 * int n div 256 ^ i mod 256)) (rev [0..<8])"

definition pad_message :: "string \<Rightarrow> string" where
  "pad_message s =
     s @ [CHR 0x80] @ replicate ((119 - length s mod 64) mod 64) (CHR 0x00) @ length_bytes (length s)"

function blocks_of :: "32 word list \<Rightarrow> 32 word list list" where
  "blocks_of ws = (if ws = [] then [] else take 16 ws # blocks_of (drop 16 ws))"
  by pat_completeness auto
termination by (relation "measure length") (auto simp: length_greater_0_conv simp del: length_0_conv)

declare blocks_of.simps [simp del]

definition sha256_words :: "string \<Rightarrow> 32 word list" where
  "sha256_words s = foldl compress initial_hash (blocks_of (words_of_bytes (pad_message s)))"

section \<open>Hexadecimal form\<close>

definition hex_table :: string where
  "hex_table = ''0123456789abcdef''"

definition hex_digit :: "int \<Rightarrow> char" where
  "hex_digit n = hex_table ! nat n"

definition hex_of_word :: "32 word \<Rightarrow> string" where
  "hex_of_word w = map (\<lambda>i. hex_digit (uint w div 16 ^ i mod 16)) (rev [0..<8])"

definition sha256_hex :: "string \<Rightarrow> string" where
  "sha256_hex s = concat (map hex_of_word (sha256_words s))"

lemma length_sha_round: "length st = 8 \<Longrightarrow> length (sha_round st kw) = 8"
  by (cases "(st, kw)" rule: sha_round.cases) (auto simp: Let_def)

lemma length_rounds: "length st = 8 \<Longrightarrow> length (foldl sha_round st kws) = 8"
  by (induction kws arbitrary: st) (auto simp: length_sha_round)

lemma length_compress: "length st = 8 \<Longrightarrow> length (compress st block) = 8"
  by (simp add: compress_def length_rounds)

lemma length_sha256: "length (sha256_words s) = 8"
proof -
  have "length (foldl compress st bs) = 8" if "length st = 8" for st bs
    using that by (induction bs arbitrary: st) (simp_all add: length_compress)
  then show ?thesis by (simp add: sha256_words_def initial_hash_def)
qed

lemma hex_digit_is_hex:
  assumes "0 \<le> n" and "n < 16"
  shows "is_hex (hex_digit n)"
proof -
  have "list_all is_hex hex_table" by (simp add: hex_table_def is_hex_def)
  moreover have "hex_digit n \<in> set hex_table"
    using assms by (simp add: hex_digit_def hex_table_def del: nth.simps set_simps)
  ultimately show ?thesis by (auto simp: list_all_iff)
qed

lemma hex_of_word_hex: "list_all is_hex (hex_of_word w) \<and> length (hex_of_word w) = 8"
  by (simp add: hex_of_word_def list_all_iff hex_digit_is_hex del: upt_rec_numeral)

lemma sha256_hex_valid: "is_valid_sha256 (sha256_hex s)"
proof -
  have "length (concat (map hex_of_word ws)) = 8 * length ws \<and> list_all is_hex (concat (map hex_of_word ws))" for ws
    using hex_of_word_hex by (induction ws) auto
  then show ?thesis by (simp add: is_valid_sha256_def sha256_hex_def length_sha256)
qed

end
