(* ===== verification/Go_Version.thy ===== *)
theory Go_Version
  imports Go_Text
begin

text \<open>
  \<^verbatim>\<open>internal/domain/model/go_version.go\<close> and the choice of the compiler image in
  \<^verbatim>\<open>internal/adapters/outbound/k8s/build_job_generator.go\<close>.
\<close>

definition min_go_major :: int where "min_go_major = 1"
definition min_go_minor :: int where "min_go_minor = 26"

definition validate_go_version :: "string \<Rightarrow> string result" where
  "validate_go_version raw =
     (if trim_space raw = '''' then Inr ''''
      else
        let clean = trim_prefix (trim_space raw) ''go'' in
        case split_on (CHR ''.'') clean of
          p0 # p1 # _ \<Rightarrow>
            (if \<not> snd (atoi p0) then Inl ErrUnsupportedGoVersion
             else if \<not> snd (atoi p1) then Inl ErrUnsupportedGoVersion
             else if fst (atoi p0) < min_go_major \<or>
                     (fst (atoi p0) = min_go_major \<and> fst (atoi p1) < min_go_minor)
             then Inl ErrUnsupportedGoVersion
             else Inr clean)
        | _ \<Rightarrow> Inl ErrUnsupportedGoVersion)"

definition default_go_image :: string where
  "default_go_image = ''golang:1.26-alpine''"

definition resolve_compiler_image :: "string \<Rightarrow> string \<Rightarrow> string \<Rightarrow> string" where
  "resolve_compiler_image builder_image go_image go_version =
     (if trim_space go_image \<noteq> '''' then trim_space go_image
      else if trim_space go_version \<noteq> '''' then
        (let t = trim_space go_version
         in if contains t '':'' \<or> contains t ''/'' then t
            else ''golang:'' @ trim_prefix t ''go'' @ ''-alpine'')
      else if trim_space builder_image \<noteq> '''' then trim_space builder_image
      else default_go_image)"

section \<open>What is accepted\<close>

lemma trim_right_suffix:
  assumes "suffix t s" and "trim_space s = s" and "t \<noteq> []" and "graphic (hd t)"
  shows "trim_space t = t"
proof -
  have "\<And>c cs. graphic c \<Longrightarrow> front_code space_codes (c # cs) = None"
    by (auto simp: front_code_None space_codes_def graphic_def)
  with assms(3,4) have left: "trim_left t = t" by (cases t) (simp_all add: trim_left_def strip_front_id)
  have "trim_right s = s"
    using assms(2) by (metis trim_right_idem trim_space_def)
  then have "strip_front (map rev space_codes) (rev s) = rev s"
    by (metis rev_rev_ident trim_right_def)
  then have "front_code (map rev space_codes) (rev s) = None" by (metis strip_front_fixed)
  moreover have "prefix (rev t) (rev s)" using assms(1) by (simp add: suffix_to_prefix)
  ultimately have "front_code (map rev space_codes) (rev t) = None"
    unfolding front_code_None by (meson prefix_order.trans)
  then have "trim_right t = t" by (simp add: trim_right_def strip_front_id)
  with left show ?thesis by (simp add: trim_space_def)
qed

lemma atoi_head:
  assumes "snd (atoi p)"
  shows "\<exists>c cs. p = c # cs \<and> graphic c \<and> c \<noteq> CHR ''g''"
proof (cases p)
  case Nil
  with assms show ?thesis by (simp add: atoi_def atoi_unsigned_def)
next
  case (Cons c cs)
  have digit: "graphic x \<and> x \<noteq> CHR ''g''" if "digit_of x \<noteq> None" for x
    using that by (auto simp: digit_of_def graphic_def Let_def split: if_splits)
  have "c = CHR ''+'' \<or> c = CHR ''-'' \<or> digit_of c \<noteq> None"
    using assms Cons by (auto simp: atoi_def atoi_unsigned_def split: list.splits option.splits if_splits)
  moreover have "graphic (CHR ''+'')" "graphic (CHR ''-'')" by (simp_all add: graphic_def)
  ultimately show ?thesis using Cons digit by auto
qed

text \<open>
  Go versions.  A version that passes the validation is either blank (the default of the cluster) or
  has a major and a minor number that parse and are at least 1.26, and it is its own normal form:
  validating the result again gives it back, so the second validation of \<open>BuildArtifact\<close> never changes or
  rejects what \<open>TriggerBuild\<close> accepted.
\<close>

theorem go_version_validation:
  assumes "validate_go_version raw = Inr v"
  shows "if trim_space raw = '''' then v = ''''
    else validate_go_version v = Inr v \<and> v \<noteq> '''' \<and>
      (\<exists>p0 p1 rest. split_on (CHR ''.'') v = p0 # p1 # rest \<and> snd (atoi p0) \<and> snd (atoi p1) \<and>
        (fst (atoi p0) > 1 \<or> fst (atoi p0) = 1 \<and> fst (atoi p1) \<ge> 26))"
proof (cases "trim_space raw = ''''")
  case True
  then show ?thesis using assms by (simp add: validate_go_version_def)
next
  case False
  then obtain p0 p1 rest where v: "v = trim_prefix (trim_space raw) ''go''"
    and parts: "split_on (CHR ''.'') v = p0 # p1 # rest" and num: "snd (atoi p0)" "snd (atoi p1)"
    and new: "\<not> (fst (atoi p0) < 1 \<or> fst (atoi p0) = 1 \<and> fst (atoi p1) < 26)"
    using assms by (auto simp: validate_go_version_def Let_def min_go_major_def min_go_minor_def
        split: list.splits if_splits)
  from atoi_head [OF num(1)] obtain c cs where p0: "p0 = c # cs" "graphic c" "c \<noteq> CHR ''g''" by blast
  have "v = join [CHR ''.''] (p0 # p1 # rest)" by (metis join_split_on parts)
  then have hd: "v \<noteq> []" "hd v = c" using p0 by simp_all
  have "suffix v (trim_space raw)" by (simp add: v trim_prefix_def suffix_drop)
  then have trim: "trim_space v = v"
    by (rule trim_right_suffix) (simp_all add: hd p0)
  have "trim_prefix v ''go'' = v" using hd p0(3) by (cases v) (auto simp: trim_prefix_def)
  with trim hd(1) parts num new have "validate_go_version v = Inr v"
    by (simp add: validate_go_version_def min_go_major_def min_go_minor_def)
  with False hd(1) parts num new show ?thesis by auto
qed

text \<open>The parts after the minor number are not looked at, and a slash makes the version an image.\<close>

lemma sample_go_version: "validate_go_version ''go1.26.evil/x'' = Inr ''1.26.evil/x''"
proof -
  have "trim_space ''go1.26.evil/x'' = ''go1.26.evil/x''" by (simp add: trim_space_graphic graphic_def)
  then show ?thesis
    by (simp add: validate_go_version_def trim_prefix_def atoi_def atoi_unsigned_def digit_of_def min_go_major_def
        min_go_minor_def)
qed

theorem go_version_validation_witness:
  "validate_go_version ''1.26.evil/x'' = Inr ''1.26.evil/x'' \<and>
   resolve_compiler_image '''' '''' ''1.26.evil/x'' = ''1.26.evil/x''"
proof -
  have t: "trim_space ''1.26.evil/x'' = ''1.26.evil/x''" by (simp add: trim_space_graphic graphic_def)
  have "contains ''1.26.evil/x'' ''/''" unfolding contains_def sublist_def
    by (intro exI [of _ "''1.26.evil''"] exI [of _ "''x''"]) simp
  then show ?thesis
    using go_version_validation [OF sample_go_version] by (simp add: resolve_compiler_image_def t trim_space_graphic graphic_def)
qed

end
