(* ===== verification/Build_Service.thy ===== *)
theory Build_Service
  imports Watcher Run_Service Sha256 Go_Version
begin

text \<open>
  \<^verbatim>\<open>internal/application/service/build_service.go\<close> with the build orchestrator of
  \<^verbatim>\<open>internal/adapters/outbound/k8s/build_orchestrator.go\<close>: compiling a suite into artifacts.  A build waits
  for its job in the middle, so it is two operations: \<open>build_start\<close> up to the dispatch, which leaves a build
  in flight with its own copy of the artifact, and \<open>build_finish\<close> with what the wait returned; other
  requests run between the two.  The goroutines that \<open>TriggerBuild\<close> and \<open>RetryBuild\<close> start are builds that
  start later.  The static analysis is the argument \<open>prepare\<close>, the text of an error is \<open>show_err\<close>, the signing of
  URLs is \<open>sign\<close>; identifiers and clock readings are arguments.
\<close>

section \<open>Keys and names\<close>

definition format_source_key :: "string \<Rightarrow> string" where
  "format_source_key suite = ''suites/'' @ suite @ ''/sources/source.tar.gz''"

definition format_binary_key :: "string \<Rightarrow> string \<Rightarrow> platform \<Rightarrow> string result" where
  "format_binary_key suite art p =
     (case p of
        PlatformLinuxAmd64 \<Rightarrow> Inr (''suites/'' @ suite @ ''/artifacts/'' @ art @ ''/linux-amd64/runner'')
      | PlatformLinuxArm64 \<Rightarrow> Inr (''suites/'' @ suite @ ''/artifacts/'' @ art @ ''/linux-arm64/runner'')
      | PlatformOther _ \<Rightarrow> Inl ErrInvalidPlatform)"

definition format_logs_key :: "string \<Rightarrow> string \<Rightarrow> string" where
  "format_logs_key suite art = ''suites/'' @ suite @ ''/artifacts/'' @ art @ ''/build.log''"

definition format_build_job_name :: "string \<Rightarrow> string" where
  "format_build_job_name art = trim_right_char (take 63 (''vuhive-build-'' @ to_lower art)) (CHR ''-'')"

section \<open>The build orchestrator\<close>

text \<open>The leftmost match of \<open>VUHIVE_ARTIFACT_SHA256=([a-fA-F0-9]{64})\<close>.\<close>

definition checksum_marker :: string where
  "checksum_marker = ''VUHIVE_ARTIFACT_SHA256=''"

fun extract_sha256 :: "string \<Rightarrow> string" where
  "extract_sha256 [] = ''''"
| "extract_sha256 (c # cs) =
     (let s = c # cs; rest = drop (length checksum_marker) s
      in if prefix checksum_marker s \<and> is_valid_sha256 (take 64 rest) then take 64 rest
         else extract_sha256 cs)"

datatype build_outcome =
    Build_ok string string
  | Build_job_failed string
  | Build_wait_error err

text \<open>
  What the polling loop of \<open>WaitForJob\<close> sees at each turn: the context is done, the job cannot be read, or
  its status with the content of its logs (empty when they cannot be read).
\<close>

datatype build_poll = Poll_done err | Poll_error err | Poll_job k8s_job string

fun wait_for_job :: "build_poll list \<Rightarrow> build_outcome option" where
  "wait_for_job [] = None"
| "wait_for_job (Poll_done e # ps) = Some (Build_wait_error e)"
| "wait_for_job (Poll_error e # ps) = Some (Build_wait_error e)"
| "wait_for_job (Poll_job j logs # ps) =
     (if is_job_successful j then Some (Build_ok (extract_sha256 logs) logs)
      else if is_job_failed j then Some (Build_job_failed logs)
      else wait_for_job ps)"

record build_env =
  be_suites :: bool
  be_orchestrator :: bool
  be_namespace :: string
  be_storage :: bool

definition dispatch_build_job ::
  "build_env \<Rightarrow> string \<Rightarrow> string \<Rightarrow> platform \<Rightarrow> string \<Rightarrow> string \<Rightarrow> string op" where
  "dispatch_build_job env suite art p source_url binary_url =
     (if trim_space suite = '''' \<or> trim_space art = '''' then failW ErrValidation
      else if \<not> platform_valid p then failW ErrInvalidPlatform
      else if trim_space source_url = '''' \<or> trim_space binary_url = '''' then failW ErrValidation
      else
        let name = format_build_job_name (trim_space art) in
        bindW (attempt (job_get (be_namespace env) name)) (\<lambda>g.
        bindW (case g of Inl _ \<Rightarrow> returnW (Inr ()) | Inr _ \<Rightarrow> attempt (job_delete (be_namespace env) name)) (\<lambda>_.
        bindW (job_create (be_namespace env) name) (\<lambda>_. returnW name))))"

section \<open>TriggerBuild, BuildSuite\<close>

record build_opts =
  bo_insecure :: bool
  bo_go_version :: string
  bo_go_image :: string
  bo_description :: string

definition target_platforms :: "platform option \<Rightarrow> platform list result" where
  "target_platforms p =
     (case p of
        None \<Rightarrow> Inr [PlatformLinuxAmd64, PlatformLinuxArm64]
      | Some q \<Rightarrow> if platform_valid q then Inr [q] else Inl ErrInvalidPlatform)"

text \<open>
  The artifact that a platform is built into: the oldest one of the suite that is not ready, reset when it
  had failed; a new one when there is none.  \<open>descr\<close> is the optional description argument.
\<close>

definition reset_artifact :: "string list \<Rightarrow> artifact \<Rightarrow> artifact op" where
  "reset_artifact descr a =
     (if art_state a = ArtifactStatusFailed then
        bindW (liftW (artifact_retry_build a)) (\<lambda>b.
        let c = (case descr of [] \<Rightarrow> b | d # _ \<Rightarrow> if trim_space d \<noteq> '''' then set_description d b else b)
        in bindW (artifact_save c) (\<lambda>_. returnW c))
      else returnW a)"

definition obtain_artifact ::
  "(platform \<Rightarrow> string) \<Rightarrow> time \<Rightarrow> string \<Rightarrow> string list \<Rightarrow> artifact list \<Rightarrow> platform \<Rightarrow> artifact op" where
  "obtain_artifact uuid now suite descr existing p =
     (case List.find (\<lambda>a. art_platform a = p \<and> art_state a \<noteq> ArtifactStatusReady) existing of
        None \<Rightarrow>
          bindW (liftW (new_artifact (uuid p) now suite p descr)) (\<lambda>a.
          bindW (artifact_save a) (\<lambda>_. returnW a))
      | Some a \<Rightarrow> reset_artifact descr a)"

fun obtain_artifacts ::
  "(platform \<Rightarrow> string) \<Rightarrow> time \<Rightarrow> string \<Rightarrow> string list \<Rightarrow> artifact list \<Rightarrow> platform list \<Rightarrow> artifact list op" where
  "obtain_artifacts uuid now suite descr existing [] = returnW []"
| "obtain_artifacts uuid now suite descr existing (p # ps) =
     bindW (obtain_artifact uuid now suite descr existing p) (\<lambda>a.
     bindW (obtain_artifacts uuid now suite descr existing ps) (\<lambda>as. returnW (a # as)))"

definition suite_name_for_build :: "build_env \<Rightarrow> string \<Rightarrow> string op" where
  "suite_name_for_build env suite =
     (if be_suites env then bindW (suite_find_by_id suite) (\<lambda>s. returnW (suite_name s)) else returnW '''')"

type_synonym analyzer = "string \<Rightarrow> bool \<Rightarrow> string \<Rightarrow> (string \<times> string) result"

definition trigger_build ::
  "build_env \<Rightarrow> analyzer option \<Rightarrow> (platform \<Rightarrow> string) \<Rightarrow> time \<Rightarrow> string \<Rightarrow> platform option \<Rightarrow> string option
    \<Rightarrow> build_opts \<Rightarrow> (artifact list \<times> build_opts) op" where
  "trigger_build env prepare uuid now suite platform source opts =
     (let sid = trim_space suite in
      if sid = '''' then failW ErrValidation
      else case source of
        None \<Rightarrow> failW ErrValidation
      | Some archive \<Rightarrow>
          bindW (liftW (target_platforms platform)) (\<lambda>ps.
          bindW (liftW (validate_go_version (trim_space (bo_go_version opts)))) (\<lambda>version.
          bindW (suite_name_for_build env sid) (\<lambda>name.
          bindW (case prepare of
                   None \<Rightarrow> returnW (archive, version)
                 | Some f \<Rightarrow>
                     bindW (liftW (f archive (bo_insecure opts) name)) (\<lambda>(bytes, detected).
                     returnW (bytes,
                       if version = '''' \<and> trim_space (bo_go_image opts) = '''' \<and> detected \<noteq> '''' then detected
                       else version))) (\<lambda>(bytes, resolved).
          bindW (storage_upload (format_source_key sid) bytes) (\<lambda>_.
          bindW (artifact_list_by_suite sid) (\<lambda>existing.
          bindW (obtain_artifacts uuid now sid [bo_description opts] existing ps) (\<lambda>as.
          returnW (as, opts\<lparr>bo_go_version := resolved, bo_go_image := trim_space (bo_go_image opts)\<rparr>)))))))))"

text \<open>\<open>BuildSuite\<close> up to the point where it starts one build per artifact.\<close>

definition require_source :: "string \<Rightarrow> unit op" where
  "require_source suite =
     bindW (storage_exists (format_source_key suite)) (\<lambda>found.
       if found then returnW () else failW ErrNotFound)"

definition build_suite_prepare :: "(platform \<Rightarrow> string) \<Rightarrow> time \<Rightarrow> string \<Rightarrow> artifact list op" where
  "build_suite_prepare uuid now suite =
     (let sid = trim_space suite in
      if sid = '''' then failW ErrValidation
      else bindW (require_source sid) (\<lambda>_.
           bindW (artifact_list_by_suite sid) (\<lambda>existing.
           obtain_artifacts uuid now sid [] existing [PlatformLinuxAmd64, PlatformLinuxArm64])))"

section \<open>BuildArtifact\<close>

text \<open>A build in flight: its copy of the artifact, the name of its job and the key of its binary.\<close>

record in_flight_build =
  fb_artifact :: artifact
  fb_job :: string
  fb_binary_key :: string

definition owned_artifact :: "string \<Rightarrow> string \<Rightarrow> artifact op" where
  "owned_artifact suite art =
     bindW (artifact_find_by_id art) (\<lambda>a.
       if art_suite_id a \<noteq> suite then failW ErrValidation else returnW a)"

definition presign_lifetime_default :: duration where
  "presign_lifetime_default = hour"

text \<open>The dispatch; when it fails the artifact is saved as failed and the error returned.\<close>

definition build_dispatch ::
  "build_env \<Rightarrow> (err \<Rightarrow> string) \<Rightarrow> string \<Rightarrow> string \<Rightarrow> string \<Rightarrow> string \<Rightarrow> string \<Rightarrow> artifact \<Rightarrow> in_flight_build op" where
  "build_dispatch env show_err suite art source_url binary_url key a =
     bindW (attempt (dispatch_build_job env suite art (art_platform a) source_url binary_url)) (\<lambda>d.
       case d of
         Inl e \<Rightarrow>
           (let failed = (case mark_failed (show_err e) '''' a of Inl _ \<Rightarrow> a | Inr b \<Rightarrow> b)
            in bindW (attempt (artifact_save failed)) (\<lambda>_. failW e))
       | Inr job \<Rightarrow> returnW \<lparr>fb_artifact = a, fb_job = job, fb_binary_key = key\<rparr>)"

definition build_start ::
  "build_env \<Rightarrow> (err \<Rightarrow> string) \<Rightarrow> (string \<Rightarrow> duration \<Rightarrow> string) \<Rightarrow> string \<Rightarrow> string \<Rightarrow> in_flight_build op" where
  "build_start env show_err sign suite art =
     (let sid = trim_space suite; aid = trim_space art in
      if sid = '''' \<or> aid = '''' then failW ErrValidation
      else
        bindW (owned_artifact sid aid) (\<lambda>a0.
        bindW (require_source sid) (\<lambda>_.
        bindW (liftW (mark_building a0)) (\<lambda>a.
        bindW (artifact_save a) (\<lambda>_.
        bindW (presign_download sign (format_source_key sid) presign_lifetime_default) (\<lambda>source_url.
        bindW (liftW (format_binary_key sid aid (art_platform a))) (\<lambda>key.
        bindW (presign_upload sign key presign_lifetime_default) (\<lambda>binary_url.
        build_dispatch env show_err sid aid source_url binary_url key a))))))))"

definition compute_sha256_from_storage :: "string \<Rightarrow> string op" where
  "compute_sha256_from_storage key = bindW (storage_download key) (\<lambda>c. returnW (sha256_hex c))"

text \<open>The logs of the job are uploaded when there are any to read; errors are dropped.\<close>

definition upload_build_logs :: "string \<Rightarrow> build_outcome \<Rightarrow> unit op" where
  "upload_build_logs key r =
     (case r of
        Build_ok _ logs \<Rightarrow> bindW (attempt (storage_upload key logs)) (\<lambda>_. returnW ())
      | Build_job_failed logs \<Rightarrow> bindW (attempt (storage_upload key logs)) (\<lambda>_. returnW ())
      | Build_wait_error _ \<Rightarrow> returnW ())"

definition build_failed :: "(err \<Rightarrow> string) \<Rightarrow> string \<Rightarrow> err \<Rightarrow> artifact \<Rightarrow> artifact op" where
  "build_failed show_err logs_key e a =
     (case mark_failed (show_err e) logs_key a of
        Inl _ \<Rightarrow> failW e
      | Inr b \<Rightarrow> bindW (attempt (artifact_save b)) (\<lambda>_. failW e))"

definition build_succeeded :: "string \<Rightarrow> string \<Rightarrow> artifact \<Rightarrow> artifact op" where
  "build_succeeded key reported a =
     bindW (if reported = '''' then
              bindW (attempt (compute_sha256_from_storage key)) (\<lambda>c.
                returnW (case c of Inl _ \<Rightarrow> '''' | Inr x \<Rightarrow> x))
            else returnW reported) (\<lambda>checksum.
     bindW (liftW (mark_ready key checksum a)) (\<lambda>b.
     bindW (artifact_save b) (\<lambda>_. returnW b)))"

definition build_finish ::
  "(err \<Rightarrow> string) \<Rightarrow> string \<Rightarrow> string \<Rightarrow> in_flight_build \<Rightarrow> build_outcome \<Rightarrow> artifact op" where
  "build_finish show_err suite art fb r =
     (let logs_key = format_logs_key (trim_space suite) (trim_space art) in
      bindW (upload_build_logs logs_key r) (\<lambda>_.
        case r of
          Build_wait_error e \<Rightarrow> build_failed show_err logs_key e (fb_artifact fb)
        | Build_job_failed _ \<Rightarrow> build_failed show_err logs_key ErrBuildFailed (fb_artifact fb)
        | Build_ok checksum _ \<Rightarrow> build_succeeded (fb_binary_key fb) checksum (fb_artifact fb)))"

text \<open>The whole operation; \<open>wait\<close> is the wait for the job, and whatever else happens meanwhile.\<close>

definition build_artifact ::
  "build_env \<Rightarrow> (err \<Rightarrow> string) \<Rightarrow> (string \<Rightarrow> duration \<Rightarrow> string) \<Rightarrow> (string \<Rightarrow> build_outcome op)
    \<Rightarrow> string \<Rightarrow> string \<Rightarrow> artifact op" where
  "build_artifact env show_err sign wait suite art =
     bindW (build_start env show_err sign suite art) (\<lambda>fb.
     bindW (wait (fb_job fb)) (\<lambda>r. build_finish show_err suite art fb r))"

section \<open>Reading, cancelling, retrying, deleting\<close>

definition get_artifact :: "string \<Rightarrow> artifact op" where
  "get_artifact i =
     (if trim_space i = '''' then failW ErrValidation else artifact_find_by_id (trim_space i))"

definition check_suite :: "build_env \<Rightarrow> string \<Rightarrow> unit op" where
  "check_suite env suite =
     (if be_suites env then bindW (suite_find_by_id suite) (\<lambda>_. returnW ()) else returnW ())"

definition list_artifacts :: "build_env \<Rightarrow> string \<Rightarrow> artifact list op" where
  "list_artifacts env suite =
     (let sid = trim_space suite in
      if sid = '''' then failW ErrValidation
      else bindW (check_suite env sid) (\<lambda>_. artifact_list_by_suite sid))"

definition cancel_build :: "build_env \<Rightarrow> string \<Rightarrow> string \<Rightarrow> string \<Rightarrow> artifact op" where
  "cancel_build env suite art reason =
     (let sid = trim_space suite; aid = trim_space art;
          why = (if trim_space reason = '''' then ''manual cancellation'' else trim_space reason)
      in if sid = '''' \<or> aid = '''' then failW ErrValidation
         else
           bindW (owned_artifact sid aid) (\<lambda>a.
           if artifact_final (art_state a) then failW ErrTerminalState
           else
             bindW (if be_orchestrator env
                    then bindW (attempt (job_delete (be_namespace env) (format_build_job_name (art_id a))))
                           (\<lambda>_. returnW ())
                    else returnW ()) (\<lambda>_.
             bindW (liftW (artifact_cancel why a)) (\<lambda>b.
             bindW (artifact_save b) (\<lambda>_. returnW b)))))"

definition retry_build :: "build_env \<Rightarrow> string \<Rightarrow> string \<Rightarrow> artifact op" where
  "retry_build env suite art =
     (let sid = trim_space suite; aid = trim_space art in
      if sid = '''' \<or> aid = '''' then failW ErrValidation
      else
        bindW (check_suite env sid) (\<lambda>_.
        bindW (owned_artifact sid aid) (\<lambda>a.
        if art_state a \<noteq> ArtifactStatusFailed \<and> art_state a \<noteq> ArtifactStatusCancelled
        then failW ErrInvalidStateTransition
        else
          bindW (require_source sid) (\<lambda>_.
          bindW (liftW (artifact_retry_build a)) (\<lambda>b.
          bindW (artifact_save b) (\<lambda>_. returnW b))))))"

definition delete_artifact :: "build_env \<Rightarrow> string \<Rightarrow> string \<Rightarrow> unit op" where
  "delete_artifact env suite art =
     (let sid = trim_space suite; aid = trim_space art in
      if sid = '''' \<or> aid = '''' then failW ErrValidation
      else
        bindW (owned_artifact sid aid) (\<lambda>a.
        if art_state a = ArtifactStatusBuilding then failW ErrConflict
        else
          bindW (if be_storage env
                 then bindW (try_delete (s3_binary_key a)) (\<lambda>_. try_delete (build_logs_s3_key a))
                 else returnW ()) (\<lambda>_.
          artifact_delete aid)))"

end
