(* ===== verification/Build_Safety.thy ===== *)
theory Build_Safety
  imports Housekeeping_Safety Build_Service
begin

text \<open>
  Two invariants of the stored artifacts under the build service, instances of the interface
  \<open>artifact_guard\<close>: every stored artifact is well formed, and no artifact changes its suite or platform.
  Builds in flight carry copies of artifacts; the invariants cover those copies, so they hold however
  builds, other requests and retention cycles interleave and whatever the ports do.  A retention cycle
  clears the keys of old artifacts without changing their status; the well-formedness is stated with and
  without cycles.
\<close>

section \<open>The interface between an invariant of the stored artifacts and the build service\<close>

interpretation artifacts_view: state_view w_artifacts
  by unfold_locales simp

abbreviation keeps_artifacts :: "'a op \<Rightarrow> bool" where
  "keeps_artifacts \<equiv> state_view.keeps w_artifacts"

lemma keeps_artifacts_ports [frame_rules]:
  "keeps_artifacts (suite_find_by_id i)" "keeps_artifacts (artifact_find_by_id i)"
  "keeps_artifacts (artifact_list_by_suite i)" "keeps_artifacts (storage_upload k c)"
  "keeps_artifacts (storage_download k)" "keeps_artifacts (storage_delete k)"
  "keeps_artifacts (storage_exists k)" "keeps_artifacts (presign_download sg k d)"
  "keeps_artifacts (presign_upload sg k d)" "keeps_artifacts (job_get ns n)"
  "keeps_artifacts (job_create ns n)" "keeps_artifacts (job_delete ns n)"
  by (simp_all add: suite_find_by_id_def artifact_find_by_id_def artifact_list_by_suite_def storage_upload_def
      storage_download_def storage_delete_def storage_exists_def presign_download_def presign_upload_def
      job_get_def job_create_def job_delete_def artifacts_view.keeps_call artifacts_view.keeps_fail)

lemma keeps_artifacts_steps [frame_rules]:
  "keeps_artifacts (suite_name_for_build env s)" "keeps_artifacts (require_source s)"
  "keeps_artifacts (dispatch_build_job env s a p u1 u2)" "keeps_artifacts (upload_build_logs k r)"
  "keeps_artifacts (compute_sha256_from_storage k)" "keeps_artifacts (check_suite env s)"
  "keeps_artifacts (try_delete k)"
  unfolding suite_name_for_build_def require_source_def dispatch_build_job_def Let_def
    compute_sha256_from_storage_def check_suite_def try_delete_def
  by (intro frame_rules)+ (auto simp: upload_build_logs_def intro!: frame_rules split: build_outcome.split)

text \<open>The housekeeper reads and writes artifacts only by listing, clearing and deleting them.\<close>

lemma keeps_artifacts_gather [frame_rules]:
  "(\<And>x. keeps_artifacts (f x)) \<Longrightarrow> keeps_artifacts (gatherW xs f)" for f :: "'x \<Rightarrow> hk_error list op"
  by (induction xs) (auto intro!: frame_rules)

lemma keeps_artifacts_housekeeping [frame_rules]:
  "keeps_artifacts (effective_policy hk s)" "keeps_artifacts (purge_logs hk dry s b res)"
  "keeps_artifacts (purge_reports hk dry s b res)" "keeps_artifacts (prune_runs hk dry a s b res)"
  "keeps_artifacts (hk_delete hk key)" "keeps_artifacts (list_orphaned_artifacts t n)"
  "keeps_artifacts (list_expired_artifacts t s n)"
proof -
  have p: "keeps_artifacts (select_runs k n)" "keeps_artifacts (run_clear_logs_key i)"
    "keeps_artifacts (run_archive_row i)" "keeps_artifacts (run_delete_batch is)" for k n i "is"
    by (auto simp: select_runs_def run_clear_logs_key_def run_archive_row_def run_delete_batch_def update_runs_def
        intro!: frame_rules)
  show "keeps_artifacts (list_orphaned_artifacts t n)" "keeps_artifacts (list_expired_artifacts t s n)"
    unfolding list_orphaned_artifacts_def list_expired_artifacts_def by (intro frame_rules; simp)+
  show "keeps_artifacts (effective_policy hk s)" "keeps_artifacts (hk_delete hk key)"
    unfolding effective_policy_def hk_delete_def by (intro frame_rules)+
  then show "keeps_artifacts (purge_logs hk dry s b res)" "keeps_artifacts (purge_reports hk dry s b res)"
    "keeps_artifacts (prune_runs hk dry a s b res)"
    unfolding purge_logs_def purge_reports_def prune_runs_def note_error_def list_expired_runs_for_logs_def
      list_expired_runs_for_reports_def list_expired_runs_for_prune_def hk_delete_def
    by (intro frame_rules p)+
qed

text \<open>What \<open>ClearBinaryKeys\<close> does to a row.\<close>

definition without_keys :: "string \<Rightarrow> artifact \<Rightarrow> artifact" where
  "without_keys i a = (if art_id a = i then a\<lparr>s3_binary_key := '''', build_logs_s3_key := ''''\<rparr> else a)"

lemma clear_binary_keys_rows:
  "artifact_clear_binary_keys i = port_call (\<lambda>w. (Inr (), w\<lparr>w_artifacts := map (without_keys i) (w_artifacts w)\<rparr>))"
  by (simp add: artifact_clear_binary_keys_def update_row_def without_keys_def [abs_def])

locale artifact_guard =
  fixes I :: "world \<Rightarrow> bool"
    and good :: "artifact \<Rightarrow> bool"
    and fresh :: "string \<Rightarrow> bool"
    and cycles :: bool
  assumes frame: "w_artifacts w' = w_artifacts w \<Longrightarrow> I w \<Longrightarrow> I w'"
    and loaded: "I w \<Longrightarrow> row \<in> set (w_artifacts w) \<Longrightarrow> new_artifact_with_id row = Inr a \<Longrightarrow> good a"
    and step: "good a \<Longrightarrow> artifact_step a a' \<Longrightarrow> good a'"
    and created: "fresh u \<Longrightarrow> new_artifact u now s p d = Inr a \<Longrightarrow> good a"
    and save: "I w \<Longrightarrow> good a \<Longrightarrow> I (put_artifact a w)"
    and remove: "I w \<Longrightarrow> I (w\<lparr>w_artifacts := filter keep (w_artifacts w)\<rparr>)"
    and clear: "cycles \<Longrightarrow> I w \<Longrightarrow> I (w\<lparr>w_artifacts := map (without_keys i) (w_artifacts w)\<rparr>)"
begin

lemma good_ops:
  "mark_building a = Inr b \<Longrightarrow> good a \<Longrightarrow> good b"
  "mark_ready k c a = Inr b \<Longrightarrow> good a \<Longrightarrow> good b"
  "mark_failed m l a = Inr b \<Longrightarrow> good a \<Longrightarrow> good b"
  "artifact_cancel r a = Inr b \<Longrightarrow> good a \<Longrightarrow> good b"
  "artifact_retry_build a = Inr b \<Longrightarrow> good a \<Longrightarrow> good b"
  "good a \<Longrightarrow> good (set_description d a)"
  by (blast intro: step artifact_step.intros)+

lemma holds_keeps_artifacts: "keeps_artifacts m \<Longrightarrow> holds I m (\<lambda>_. True)"
  using frame by (auto simp: artifacts_view.keeps_def holds_def)

lemma bind_keeps: "keeps_artifacts m \<Longrightarrow> (\<And>x. holds I (f x) Q) \<Longrightarrow> holds I (bindW m f) Q"
  by (rule holds_bind [OF holds_keeps_artifacts])

lemma bind_lifted: "(\<And>x. r = Inr x \<Longrightarrow> holds I (f x) Q) \<Longrightarrow> holds I (bindW (liftW r) f) Q"
  by (rule holds_bind [OF holds_lift])

lemma holds_artifact_call:
  assumes "\<And>w. I w \<Longrightarrow> I (snd (f w)) \<and> (\<forall>x. fst (f w) = Inr x \<longrightarrow> Q x)"
  shows "holds I (port_call f) Q"
proof (rule holdsI)
  fix w assume "I w"
  then have "I (w\<lparr>w_faults := fs\<rparr>)" for fs using frame [of "w\<lparr>w_faults := fs\<rparr>" w] by simp
  with assms \<open>I w\<close> show "I (snd (port_call f w)) \<and> (\<forall>x. fst (port_call f w) = Inr x \<longrightarrow> Q x)"
    by (auto simp: port_call_def split: list.split fault.split)
qed

lemma holds_save: "good a \<Longrightarrow> holds I (artifact_save a) (\<lambda>_. True)"
  unfolding artifact_save_def by (rule holds_artifact_call) (simp add: save)

lemma bind_saved: "good a \<Longrightarrow> (\<And>x. holds I (f x) Q) \<Longrightarrow> holds I (bindW (artifact_save a) f) Q"
  by (rule holds_bind [OF holds_save])

lemma bind_tried: "good a \<Longrightarrow> (\<And>x. holds I (f x) Q) \<Longrightarrow> holds I (bindW (attempt (artifact_save a)) f) Q"
  by (rule holds_bind [OF holds_attempt [OF holds_save]])

lemma holds_find: "holds I (artifact_find_by_id i) good"
  unfolding artifact_find_by_id_def
  by (rule holds_artifact_call) (auto dest!: find_row_Some intro: loaded split: option.split)

lemma holds_list: "holds I (artifact_list_by_suite s) (\<lambda>as. \<forall>a \<in> set as. good a)"
  unfolding artifact_list_by_suite_def
proof (rule holds_artifact_call)
  fix w assume I: "I w"
  let ?rows = "sort_key art_created_at (filter (\<lambda>a. art_suite_id a = s) (w_artifacts w))"
  have "good a" if c: "collect_results (map new_artifact_with_id ?rows) = Inr as" and a: "a \<in> set as" for as a
  proof -
    from c have "map new_artifact_with_id ?rows = map Inr as" by (simp only: collect_results_Inr)
    with a obtain row where "row \<in> set ?rows" "new_artifact_with_id row = Inr a"
      by (metis (no_types, lifting) imageE image_eqI image_set)
    with I show ?thesis by (auto intro: loaded)
  qed
  with I show "I (snd (collect_results (map new_artifact_with_id ?rows), w)) \<and>
    (\<forall>x. fst (collect_results (map new_artifact_with_id ?rows), w) = Inr x \<longrightarrow> (\<forall>a \<in> set x. good a))"
    by simp
qed

lemma holds_owned: "holds I (owned_artifact s a) good"
  unfolding owned_artifact_def
  by (rule holds_bind [OF holds_find]) (auto intro: holds_return holds_fail)

lemma holds_reset: "good a \<Longrightarrow> holds I (reset_artifact d a) good"
  unfolding reset_artifact_def Let_def
  by (rule holds_if, rule bind_lifted, rule bind_saved)
    (auto intro: good_ops holds_return split: list.split)

lemma holds_obtain:
  assumes "fresh (uuid p)" and "\<forall>a \<in> set existing. good a"
  shows "holds I (obtain_artifact uuid now s d existing p) good"
proof (cases "List.find (\<lambda>a. art_platform a = p \<and> art_state a \<noteq> ArtifactStatusReady) existing")
  case None
  have "holds I (bindW (liftW (new_artifact (uuid p) now s p d)) (\<lambda>a. bindW (artifact_save a) (\<lambda>_. returnW a))) good"
    by (rule bind_lifted, rule bind_saved) (auto intro: created [OF assms(1)] holds_return)
  with None show ?thesis by (simp add: obtain_artifact_def)
next
  case (Some a)
  then have "good a" using assms(2) by (auto simp: find_Some_iff)
  with Some show ?thesis by (simp add: obtain_artifact_def holds_reset)
qed

lemma holds_obtain_all:
  assumes "\<And>p. fresh (uuid p)" and "\<forall>a \<in> set existing. good a"
  shows "holds I (obtain_artifacts uuid now s d existing ps) (\<lambda>as. \<forall>a \<in> set as. good a)"
proof (induction ps)
  case Nil
  then show ?case by (simp add: holds_return)
next
  case (Cons p ps)
  show ?case
    unfolding obtain_artifacts.simps
    by (rule holds_bind [OF holds_obtain [OF assms]], rule holds_bind [OF Cons.IH]) (simp add: holds_return)
qed

lemma trigger_build_keeps:
  assumes "\<And>p. fresh (uuid p)"
  shows "holds I (trigger_build env prep uuid now s p src opts) (\<lambda>_. True)"
proof -
  have last: "holds I (bindW (artifact_list_by_suite sid) (\<lambda>existing.
      bindW (obtain_artifacts uuid now sid d existing ps) (\<lambda>as. returnW (h as)))) (\<lambda>_. True)" for sid d ps h
    by (rule holds_bind [OF holds_list], rule holds_bind [OF holds_obtain_all [OF assms]])
      (auto intro: holds_return)
  have prepare: "keeps_artifacts (case prep of None \<Rightarrow> returnW (archive, version)
      | Some f \<Rightarrow> bindW (liftW (f archive b name)) (\<lambda>(bytes, detected). returnW (bytes, g bytes detected)))"
    for archive version b name and g :: "string \<Rightarrow> string \<Rightarrow> string"
    by (intro frame_rules)
  show ?thesis
    unfolding trigger_build_def Let_def
    apply (rule holds_if, rule holds_fail, cases src, simp add: holds_fail)
    apply (simp only: option.case, rule bind_lifted, rule bind_lifted, rule bind_keeps, rule frame_rules)
    apply (rule bind_keeps, rule prepare, simp only: split_beta, rule bind_keeps, rule frame_rules, rule last)
    done
qed

lemma build_suite_prepare_keeps:
  assumes "\<And>p. fresh (uuid p)"
  shows "holds I (build_suite_prepare uuid now s) (\<lambda>as. \<forall>a \<in> set as. good a)"
  unfolding build_suite_prepare_def Let_def
  by (rule holds_if, rule holds_fail, rule bind_keeps, rule frame_rules,
      rule holds_bind [OF holds_list], rule holds_obtain_all [OF assms])

lemma build_dispatch_keeps:
  assumes "good a"
  shows "holds I (build_dispatch env sh s i u1 u2 k a) (\<lambda>fb. good (fb_artifact fb))"
  using assms unfolding build_dispatch_def Let_def
  by (intro bind_keeps frame_rules)
    (auto intro!: bind_tried holds_fail holds_return intro: good_ops(3) split: sum.split)

lemma build_start_keeps: "holds I (build_start env sh sg s i) (\<lambda>fb. good (fb_artifact fb))"
proof -
  have rest: "holds I (bindW (artifact_save b) (\<lambda>_. bindW (presign_download sg k1 d1) (\<lambda>u1.
      bindW (liftW (format_binary_key sid aid (art_platform b))) (\<lambda>key. bindW (presign_upload sg key d1) (\<lambda>u2.
      build_dispatch env sh sid aid u1 u2 key b))))) (\<lambda>fb. good (fb_artifact fb))"
    if "good b" for b k1 d1 sid aid
    using that by (intro bind_saved bind_keeps bind_lifted build_dispatch_keeps frame_rules)
  show ?thesis
    unfolding build_start_def Let_def
    by (rule holds_if, rule holds_fail, rule holds_bind [OF holds_owned], rule bind_keeps, rule frame_rules,
        rule bind_lifted, rule rest, erule good_ops)
qed

lemma build_finish_keeps:
  assumes "good (fb_artifact fb)"
  shows "holds I (build_finish sh s i fb r) good"
proof -
  have failed: "holds I (build_failed sh k e (fb_artifact fb)) good" for k e
    using assms unfolding build_failed_def
    by (auto intro!: bind_tried holds_fail intro: good_ops split: sum.split)
  have ready: "holds I (build_succeeded k c (fb_artifact fb)) good" for k c
    unfolding build_succeeded_def
    by (rule bind_keeps, intro frame_rules, rule bind_lifted, rule bind_saved)
      (auto intro: good_ops assms holds_return)
  show ?thesis
    unfolding build_finish_def Let_def
    by (rule bind_keeps, rule frame_rules) (auto intro: failed ready split: build_outcome.split)
qed

lemma cancel_build_keeps: "holds I (cancel_build env s i why) good"
  unfolding cancel_build_def Let_def
  by (rule holds_if, rule holds_fail, rule holds_bind [OF holds_owned], rule holds_if, rule holds_fail,
      rule bind_keeps, intro frame_rules, rule bind_lifted, rule bind_saved)
    (auto intro: good_ops holds_return)

lemma retry_build_keeps: "holds I (retry_build env s i) good"
  unfolding retry_build_def Let_def
  by (rule holds_if, rule holds_fail, rule bind_keeps, rule frame_rules, rule holds_bind [OF holds_owned],
      rule holds_if, rule holds_fail, rule bind_keeps, rule frame_rules, rule bind_lifted, rule bind_saved)
    (auto intro: good_ops holds_return)

lemma holds_removed: "holds I (artifact_delete j) (\<lambda>_. True)"
  unfolding artifact_delete_def delete_row_def
  by (rule holds_artifact_call) (auto intro: remove split: option.split)

lemma delete_artifact_keeps: "holds I (delete_artifact env s i) (\<lambda>_. True)"
  unfolding delete_artifact_def Let_def
  by (intro holds_if holds_fail holds_bind [OF holds_owned] bind_keeps frame_rules holds_removed)

lemma cycle_keeps:
  assumes "cycles"
  shows "holds I (run_housekeeping hk now suite dry) (\<lambda>_. True)"
proof -
  have cleared: "holds I (artifact_clear_binary_keys i) (\<lambda>_. True)" for i
    unfolding clear_binary_keys_rows by (rule holds_artifact_call) (simp add: clear assms)
  have orphans: "holds I (purge_orphans hk dry b res) (\<lambda>_. True)" for b res
    unfolding purge_orphans_def
    by (rule holds_if, rule holds_return, rule TrueI, rule holds_sweep [where P = "\<lambda>_. True"],
        rule holds_keeps_artifacts [THEN holds_weaken], rule frame_rules, simp,
        rule holds_if, rule holds_return, rule TrueI, rule holds_gather)
      (intro bind_keeps frame_rules holds_note [OF holds_removed])
  have binaries: "holds I (purge_binaries hk dry suite b res) (\<lambda>_. True)" for b res
    unfolding purge_binaries_def
    by (rule holds_if, rule holds_return, rule TrueI, rule holds_sweep [where P = "\<lambda>_. True"],
        rule holds_keeps_artifacts [THEN holds_weaken], rule frame_rules, simp,
        rule holds_if, rule holds_return, rule TrueI, rule holds_gather)
      (intro bind_keeps frame_rules holds_note [OF cleared])
  show ?thesis
    unfolding run_housekeeping_def
    by ((rule bind_keeps, rule frame_rules)+, rule holds_bind [OF orphans], rule binaries)
qed

end

section \<open>Builds in flight\<close>

record build_system =
  bs_world :: world
  bs_builds :: "in_flight_build list"

text \<open>
  One step: a request, the start or the end of a build with any outcome, a retention cycle, or anything
  else that leaves the artifacts alone or removes some of them (the deletion of a suite cascades to its
  artifacts).  \<open>fresh\<close> says which identifiers may be generated, \<open>cycles\<close> whether retention cycles run.
\<close>

inductive build_step :: "(string \<Rightarrow> bool) \<Rightarrow> bool \<Rightarrow> build_system \<Rightarrow> build_system \<Rightarrow> bool" for fresh cycles where
  trigger: "(\<And>p. fresh (uuid p)) \<Longrightarrow>
     build_step fresh cycles s (s\<lparr>bs_world := snd (trigger_build env prep uuid now su p src opts (bs_world s))\<rparr>)"
| suite: "(\<And>p. fresh (uuid p)) \<Longrightarrow>
     build_step fresh cycles s (s\<lparr>bs_world := snd (build_suite_prepare uuid now su (bs_world s))\<rparr>)"
| start: "build_start env sh sg su ar (bs_world s) = (Inr fb, w) \<Longrightarrow>
     build_step fresh cycles s (s\<lparr>bs_world := w, bs_builds := fb # bs_builds s\<rparr>)"
| start_failed: "build_start env sh sg su ar (bs_world s) = (Inl e, w) \<Longrightarrow>
     build_step fresh cycles s (s\<lparr>bs_world := w\<rparr>)"
| finish: "fb \<in> set (bs_builds s) \<Longrightarrow>
     build_step fresh cycles s (s\<lparr>bs_world := snd (build_finish sh su ar fb out (bs_world s)),
       bs_builds := remove1 fb (bs_builds s)\<rparr>)"
| cancel: "build_step fresh cycles s (s\<lparr>bs_world := snd (cancel_build env su ar why (bs_world s))\<rparr>)"
| retry: "build_step fresh cycles s (s\<lparr>bs_world := snd (retry_build env su ar (bs_world s))\<rparr>)"
| delete: "build_step fresh cycles s (s\<lparr>bs_world := snd (delete_artifact env su ar (bs_world s))\<rparr>)"
| cycle: "cycles \<Longrightarrow>
     build_step fresh cycles s (s\<lparr>bs_world := snd (run_housekeeping hk now suite dry (bs_world s))\<rparr>)"
| other: "w_artifacts w = filter keep (w_artifacts (bs_world s)) \<Longrightarrow> build_step fresh cycles s (s\<lparr>bs_world := w\<rparr>)"

context artifact_guard
begin

definition guarded :: "build_system \<Rightarrow> bool" where
  "guarded s \<longleftrightarrow> I (bs_world s) \<and> (\<forall>fb \<in> set (bs_builds s). good (fb_artifact fb))"

lemma build_step_guarded: "build_step fresh cycles s s' \<Longrightarrow> guarded s \<Longrightarrow> guarded s'"
proof (induction rule: build_step.induct)
  case (trigger uuid s env prep now su p src opts)
  then show ?case using holds_keeps [OF trigger_build_keeps] by (simp add: guarded_def)
next
  case (suite uuid s now su)
  then show ?case using holds_keeps [OF build_suite_prepare_keeps] by (simp add: guarded_def)
next
  case (start env sh sg su ar s fb w)
  then have "I w" "good (fb_artifact fb)"
    using build_start_keeps [of env sh sg su ar] unfolding holds_def guarded_def by (metis fst_conv snd_conv)+
  with start show ?case by (simp add: guarded_def)
next
  case (start_failed env sh sg su ar s e w)
  then have "I w" using build_start_keeps [of env sh sg su ar] unfolding holds_def guarded_def by (metis snd_conv)
  with start_failed show ?case by (simp add: guarded_def)
next
  case (finish fb s sh su ar out)
  then have "good (fb_artifact fb)" by (simp add: guarded_def)
  with finish show ?case
    using holds_keeps [OF build_finish_keeps] set_remove1_subset [of fb "bs_builds s"]
    by (auto simp: guarded_def)
next
  case (cancel s env su ar why)
  then show ?case using holds_keeps [OF cancel_build_keeps] by (simp add: guarded_def)
next
  case (retry s env su ar)
  then show ?case using holds_keeps [OF retry_build_keeps] by (simp add: guarded_def)
next
  case (delete s env su ar)
  then show ?case using holds_keeps [OF delete_artifact_keeps] by (simp add: guarded_def)
next
  case (cycle s hk now suite dry)
  then show ?case using holds_keeps [OF cycle_keeps] by (simp add: guarded_def)
next
  case (other w keep s)
  from other(2) have "I ((bs_world s)\<lparr>w_artifacts := filter keep (w_artifacts (bs_world s))\<rparr>)"
    by (intro remove) (simp add: guarded_def)
  then have "I w" by (rule frame [rotated]) (simp add: other(1))
  with other show ?case by (simp add: guarded_def)
qed

lemma build_steps_guarded: "(build_step fresh cycles)\<^sup>*\<^sup>* s s' \<Longrightarrow> guarded s \<Longrightarrow> guarded s'"
  by (induction rule: rtranclp_induct) (auto intro: build_step_guarded)

end

section \<open>The two invariants\<close>

text \<open>
  Where retention cycles run, the binary key of a \<open>READY\<close> artifact may have been cleared; the rest of its
  well-formedness stays.
\<close>

definition artifact_sound :: "bool \<Rightarrow> artifact \<Rightarrow> bool" where
  "artifact_sound cycles a \<longleftrightarrow>
     artifact_status_valid (art_state a) \<and> platform_valid (art_platform a) \<and>
     art_suite_id a \<noteq> '''' \<and> trimmed (art_suite_id a) \<and>
     (if art_state a = ArtifactStatusReady
      then (cycles \<or> s3_binary_key a \<noteq> '''') \<and> trimmed (s3_binary_key a) \<and> is_valid_sha256 (sha256_checksum a)
      else s3_binary_key a = '''' \<and> sha256_checksum a = '''')"

lemma artifact_sound_wf: "artifact_sound False a = artifact_wf a"
  by (simp add: artifact_sound_def artifact_wf_def)

lemma artifact_wf_sound: "artifact_wf a \<Longrightarrow> artifact_sound c a"
  by (auto simp: artifact_sound_def artifact_wf_def)

lemma artifact_step_sound: "artifact_step a a' \<Longrightarrow> artifact_sound c a \<Longrightarrow> artifact_sound c a'"
  by (induction rule: artifact_step.induct)
    (auto simp: artifact_op_defs artifact_sound_def set_description_def split: if_splits)

lemma artifact_sound_cleared: "artifact_sound True a \<Longrightarrow> artifact_sound True (without_keys i a)"
  by (auto simp: artifact_sound_def without_keys_def trimmed_def)

definition artifacts_ok :: "bool \<Rightarrow> world \<Rightarrow> bool" where
  "artifacts_ok cycles w \<longleftrightarrow>
     distinct (map art_id (w_artifacts w)) \<and> (\<forall>a \<in> set (w_artifacts w). artifact_sound cycles a)"

lemma merge_artifact_fields:
  "art_id (merge_artifact old a) = art_id a" "artifact_wf (merge_artifact old a) = artifact_wf a"
  "artifact_sound c (merge_artifact old a) = artifact_sound c a"
  "art_platform (merge_artifact old a) = art_platform a" "art_suite_id (merge_artifact old a) = art_suite_id a"
  "art_state (merge_artifact old a) = art_state a"
  by (simp_all add: merge_artifact_def artifact_wf_def artifact_sound_def)

lemma without_keys_fields [simp]:
  "art_id (without_keys i a) = art_id a" "art_platform (without_keys i a) = art_platform a"
  "art_suite_id (without_keys i a) = art_suite_id a"
  by (simp_all add: without_keys_def)

lemma without_keys_ids: "map art_id (map (without_keys i) as) = map art_id as"
  by (simp add: comp_def)

lemma put_artifact_ids:
  "distinct (map art_id (w_artifacts w)) \<Longrightarrow> distinct (map art_id (w_artifacts (put_artifact a w)))"
  by (simp add: put_artifact_def distinct_upsert merge_artifact_fields)

lemma loaded_artifact:
  assumes "new_artifact_with_id row = Inr a"
  shows "a = row\<lparr>art_suite_id := trim_space (art_suite_id row), art_description := trim_space (art_description row)\<rparr>"
  using assms by (auto simp: new_artifact_with_id_def split: if_splits)

lemma artifact_step_identity:
  "artifact_step a a' \<Longrightarrow> art_id a' = art_id a \<and> art_platform a' = art_platform a \<and> art_suite_id a' = art_suite_id a"
  by (induction rule: artifact_step.induct)
    (auto simp: artifact_op_defs set_description_def split: if_splits)

interpretation artifacts_wf: artifact_guard "artifacts_ok c" "artifact_sound c" "\<lambda>_. True" c for c
proof unfold_locales
  show "artifacts_ok c w'" if "w_artifacts w' = w_artifacts w" and "artifacts_ok c w" for w w'
    using that by (simp add: artifacts_ok_def)
  show "artifact_sound c a" if "artifacts_ok c w" and "row \<in> set (w_artifacts w)" and "new_artifact_with_id row = Inr a"
    for w row a
    using that loaded_artifact [OF that(3)] by (auto simp: artifacts_ok_def artifact_sound_def trimmed_def)
  show "artifact_sound c a'" if "artifact_sound c a" and "artifact_step a a'" for a a'
    using that(2,1) by (rule artifact_step_sound)
  show "artifact_sound c a" if "new_artifact u now s p d = Inr a" for u now s p d a
    using that by (intro artifact_wf_sound) (rule new_artifact_wf)
  show "artifacts_ok c (put_artifact a w)" if "artifacts_ok c w" and "artifact_sound c a" for w a
    using that put_artifact_ids [of w a]
    by (auto simp: artifacts_ok_def put_artifact_def merge_artifact_fields dest!: set_upsert)
  show "artifacts_ok c (w\<lparr>w_artifacts := filter keep (w_artifacts w)\<rparr>)" if "artifacts_ok c w" for w keep
    using that by (auto simp: artifacts_ok_def distinct_map_filter)
  show "artifacts_ok c (w\<lparr>w_artifacts := map (without_keys i) (w_artifacts w)\<rparr>)" if "c" and "artifacts_ok c w" for w i
    using that without_keys_ids [of i "w_artifacts w"] by (auto simp: artifacts_ok_def artifact_sound_cleared simp del: map_map)
qed

definition same_origin :: "artifact \<Rightarrow> artifact \<Rightarrow> bool" where
  "same_origin r a \<longleftrightarrow>
     art_platform a = art_platform r \<and> trim_space (art_suite_id a) = trim_space (art_suite_id r)"

definition origins_kept :: "world \<Rightarrow> world \<Rightarrow> bool" where
  "origins_kept w0 w \<longleftrightarrow> distinct (map art_id (w_artifacts w)) \<and>
     (\<forall>a \<in> set (w_artifacts w). \<forall>r. find_row art_id (w_artifacts w0) (art_id a) = Some r \<longrightarrow> same_origin r a)"

definition origin_of :: "world \<Rightarrow> artifact \<Rightarrow> bool" where
  "origin_of w0 a \<longleftrightarrow> (\<forall>r. find_row art_id (w_artifacts w0) (art_id a) = Some r \<longrightarrow> same_origin r a)"

interpretation artifact_origins: artifact_guard "origins_kept w0" "origin_of w0"
  "\<lambda>u. find_row art_id (w_artifacts w0) u = None" c for w0 c
proof unfold_locales
  show "origins_kept w0 w'" if "w_artifacts w' = w_artifacts w" and "origins_kept w0 w" for w w'
    using that by (simp add: origins_kept_def)
  show "origin_of w0 a" if "origins_kept w0 w" and "row \<in> set (w_artifacts w)" and "new_artifact_with_id row = Inr a"
    for w row a
    using that(1,2) loaded_artifact [OF that(3)] by (auto simp: origins_kept_def origin_of_def same_origin_def)
  show "origin_of w0 a'" if "origin_of w0 a" and "artifact_step a a'" for a a'
    using that(1) artifact_step_identity [OF that(2)] by (simp add: origin_of_def same_origin_def)
  show "origin_of w0 a" if "find_row art_id (w_artifacts w0) u = None" and "new_artifact u now s p d = Inr a"
    for u now s p d a
    using that by (auto simp: origin_of_def new_artifact_def split: if_splits)
  show "origins_kept w0 (put_artifact a w)" if "origins_kept w0 w" and "origin_of w0 a" for w a
    using that put_artifact_ids [of w a]
    by (auto simp: origins_kept_def origin_of_def put_artifact_def merge_artifact_fields same_origin_def dest!: set_upsert)
  show "origins_kept w0 (w\<lparr>w_artifacts := filter keep (w_artifacts w)\<rparr>)" if "origins_kept w0 w" for w keep
    using that by (auto simp: origins_kept_def distinct_map_filter)
  show "origins_kept w0 (w\<lparr>w_artifacts := map (without_keys i) (w_artifacts w)\<rparr>)" if "c" and "origins_kept w0 w" for w i
    using that(2) without_keys_ids [of i "w_artifacts w"]
    by (auto simp: origins_kept_def same_origin_def simp del: map_map)
qed

text \<open>
  C11: however requests to the build service, builds in flight, retention cycles and failures interleave,
  every stored artifact stays well formed: its status is known, its platform valid, it has a 64-digit
  checksum exactly when it is \<open>READY\<close> and a binary key only then.  As long as no retention cycle runs it
  has the binary key whenever it is \<open>READY\<close>; a cycle clears the key of an old artifact and leaves its
  status.  No artifact that was there at the start ever changes its suite or its platform.
\<close>

theorem stored_artifacts_always_wf:
  assumes "distinct (map art_id (w_artifacts w))" and "\<forall>a \<in> set (w_artifacts w). artifact_wf a"
    and "(build_step (\<lambda>u. find_row art_id (w_artifacts w) u = None) cycles)\<^sup>*\<^sup>* \<lparr>bs_world = w, bs_builds = []\<rparr> s"
  shows "distinct (map art_id (w_artifacts (bs_world s))) \<and>
    (\<forall>a \<in> set (w_artifacts (bs_world s)).
       (\<not> cycles \<longrightarrow> artifact_wf a) \<and>
       artifact_status_valid (art_state a) \<and> platform_valid (art_platform a) \<and> art_suite_id a \<noteq> '''' \<and>
       (art_state a = ArtifactStatusReady \<longrightarrow> is_valid_sha256 (sha256_checksum a)) \<and>
       (art_state a \<noteq> ArtifactStatusReady \<longrightarrow> sha256_checksum a = '''' \<and> s3_binary_key a = '''')) \<and>
    (\<forall>a \<in> set (w_artifacts (bs_world s)). \<forall>r. find_row art_id (w_artifacts w) (art_id a) = Some r \<longrightarrow>
       art_platform a = art_platform r \<and> trim_space (art_suite_id a) = trim_space (art_suite_id r))"
proof -
  have step: "build_step F cycles x y \<Longrightarrow> build_step (\<lambda>_. True) cycles x y" for F x y
    by (induction rule: build_step.induct) (auto intro: build_step.intros)
  have "(build_step (\<lambda>_. True) cycles)\<^sup>*\<^sup>* \<lparr>bs_world = w, bs_builds = []\<rparr> s"
    using assms(3) by (rule rtranclp_mono [THEN predicate2D, rotated]) (auto intro: step)
  then have sound: "artifacts_wf.guarded cycles s"
    by (rule artifacts_wf.build_steps_guarded)
      (simp add: artifacts_wf.guarded_def artifacts_ok_def assms artifact_wf_sound)
  have "find_row art_id (w_artifacts w) (art_id a) = Some r \<Longrightarrow> a \<in> set (w_artifacts w) \<Longrightarrow> r = a" for a r
    using find_row_mem [OF assms(1)] by simp
  then have "artifact_origins.guarded w \<lparr>bs_world = w, bs_builds = []\<rparr>"
    using assms(1) by (auto simp: artifact_origins.guarded_def origins_kept_def same_origin_def)
  with assms(3) have "artifact_origins.guarded w s" by (rule artifact_origins.build_steps_guarded)
  moreover have "artifact_sound cycles a" if "a \<in> set (w_artifacts (bs_world s))" for a
    using sound that by (simp add: artifacts_wf.guarded_def artifacts_ok_def)
  then have "(\<not> cycles \<longrightarrow> artifact_wf a) \<and>
       artifact_status_valid (art_state a) \<and> platform_valid (art_platform a) \<and> art_suite_id a \<noteq> '''' \<and>
       (art_state a = ArtifactStatusReady \<longrightarrow> is_valid_sha256 (sha256_checksum a)) \<and>
       (art_state a \<noteq> ArtifactStatusReady \<longrightarrow> sha256_checksum a = '''' \<and> s3_binary_key a = '''')"
    if "a \<in> set (w_artifacts (bs_world s))" for a
    using that artifact_sound_wf [of a] by (cases cycles) (auto simp: artifact_sound_def)
  ultimately show ?thesis
    by (simp add: artifact_origins.guarded_def origins_kept_def same_origin_def)
qed

definition old_artifact :: artifact where
  "old_artifact = \<lparr>art_id = ''a1'', art_suite_id = ''s1'', art_platform = PlatformLinuxAmd64,
     art_description = '''', s3_binary_key = ''bin'', sha256_checksum = replicate 64 CHR ''a'',
     build_logs_s3_key = '''', art_state = ArtifactStatusReady, error_message = '''', art_created_at = 1\<rparr>"

definition aged_world :: world where
  "aged_world = sample_world\<lparr>w_artifacts := [old_artifact], w_faults := []\<rparr>"

definition build_world :: world where
  "build_world = sample_world\<lparr>w_faults := []\<rparr>"

text \<open>A build for the suite, then a cycle with a binary window that has passed.\<close>

theorem stored_artifacts_always_wf_witness:
  "list_all (\<lambda>a. art_state a = ArtifactStatusReady \<longrightarrow> is_valid_sha256 (sha256_checksum a))
    (w_artifacts (snd (run_housekeeping sample_housekeeper 1000000000000000000 None False
      (snd (trigger_build \<lparr>be_suites = False, be_orchestrator = True, be_namespace = ''n'', be_storage = True\<rparr>
        None (\<lambda>_. ''a2'') 5 ''s1'' None (Some ''src'')
        \<lparr>bo_insecure = False, bo_go_version = '''', bo_go_image = '''', bo_description = ''''\<rparr> aged_world)))))"
proof -
  let ?s = "\<lparr>bs_world = aged_world, bs_builds = []\<rparr>"
  let ?t = "?s\<lparr>bs_world := snd (trigger_build \<lparr>be_suites = False, be_orchestrator = True,
     be_namespace = ''n'', be_storage = True\<rparr> None (\<lambda>_. ''a2'') 5 ''s1'' None (Some ''src'')
     \<lparr>bo_insecure = False, bo_go_version = '''', bo_go_image = '''', bo_description = ''''\<rparr> (bs_world ?s))\<rparr>"
  have w: "w_artifacts aged_world = [old_artifact]" by (simp add: aged_world_def)
  have wf: "artifact_wf old_artifact"
    by (simp add: old_artifact_def artifact_wf_def trimmed_def trim_space_graphic graphic_def is_valid_sha256_def
        is_hex_def list_all_iff)
  have "build_step (\<lambda>u. find_row art_id (w_artifacts aged_world) u = None) True ?s ?t"
    by (rule build_step.trigger) (simp add: w old_artifact_def)
  moreover have "build_step (\<lambda>u. find_row art_id (w_artifacts aged_world) u = None) True ?t
      (?t\<lparr>bs_world := snd (run_housekeeping sample_housekeeper 1000000000000000000 None False (bs_world ?t))\<rparr>)"
    by (rule build_step.cycle) simp
  ultimately have "(build_step (\<lambda>u. find_row art_id (w_artifacts aged_world) u = None) True)\<^sup>*\<^sup>* ?s
      (?t\<lparr>bs_world := snd (run_housekeeping sample_housekeeper 1000000000000000000 None False (bs_world ?t))\<rparr>)"
    by (rule rtranclp.rtrancl_into_rtrancl [OF r_into_rtranclp])
  from stored_artifacts_always_wf [OF _ _ this] show ?thesis by (simp add: w wf list_all_iff)
qed

end
