(* ===== verification/Build_Outcomes.thy ===== *)
theory Build_Outcomes
  imports Build_Safety Run_Outcomes Housekeeping_Safety
begin

text \<open>
  What single operations on artifacts do when the ports work: the end of a build, the reuse of artifacts
  by the next trigger, deletions, and the expiry of binaries together with the trigger of a run.
\<close>

section \<open>Calls that work\<close>

lemma artifact_save_ok: "w_faults w = [] \<Longrightarrow> artifact_save a w = (Inr (), put_artifact a w)"
  by (simp add: artifact_save_def)

lemma find_put_artifact:
  "find_row art_id (w_artifacts (put_artifact a w)) (art_id a) =
     Some (stored_artifact (find_row art_id (w_artifacts w) (art_id a)) a)"
  by (simp add: put_artifact_def artifacts.find_save_same)

lemma stored_artifact_fields [simp]:
  "art_state (stored_artifact old a) = art_state a" "art_id (stored_artifact old a) = art_id a"
  "s3_binary_key (stored_artifact old a) = s3_binary_key a"
  by (simp_all add: stored_artifact_def merge_artifact_def split: option.split)

lemma upload_build_logs_ok:
  assumes "w_faults w = []"
  shows "\<exists>v. upload_build_logs key r w = (Inr (), v) \<and> w_faults v = [] \<and> w_artifacts v = w_artifacts w"
  using assms by (cases r) (auto simp: upload_build_logs_def storage_upload_def effect_eval)

lemma upload_build_logs_frame:
  assumes "w_faults w = []" and "k \<noteq> trim_space key"
  shows "\<exists>v. upload_build_logs key r w = (Inr (), v) \<and> w_faults v = [] \<and> w_artifacts v = w_artifacts w \<and>
    w_objects v k = w_objects w k"
  using assms by (cases r) (auto simp: upload_build_logs_def storage_upload_def effect_eval)

lemma empty_not_sha256: "\<not> is_valid_sha256 ''''"
  by (simp add: is_valid_sha256_def)

lemma trim_sha256_hex: "trim_space (sha256_hex b) = sha256_hex b"
proof -
  have v: "length (sha256_hex b) = 64" "list_all is_hex (sha256_hex b)"
    using sha256_hex_valid [of b] by (simp_all add: is_valid_sha256_def)
  then have ne: "sha256_hex b \<noteq> ''''" by auto
  have "graphic c" if "c \<in> set (sha256_hex b)" for c
    using that v(2) by (auto simp: is_hex_def graphic_def Let_def list_all_iff)
  with ne show ?thesis by (simp add: trim_space_graphic)
qed

section \<open>The end of a build\<close>

text \<open>
  the end of a build overwrites whatever was stored for the artifact while the job ran, because the
  build saves the copy it took before.  If the wait ends with an error the stored artifact becomes \<open>FAILED\<close>,
  if the job succeeded with a checksum it becomes \<open>READY\<close>, also when it was cancelled in the meantime, when a second
  build had made it \<open>READY\<close>, or when it was deleted: then the record comes back.
\<close>

theorem build_end_overwrites:
  assumes "w_faults w = []" and "art_state (fb_artifact fb) = ArtifactStatusBuilding"
    and "trim_space (fb_binary_key fb) \<noteq> ''''" and "is_valid_sha256 (trim_space checksum)"
  shows "(\<exists>w' a. build_finish show_err suite art fb (Build_wait_error e) w = (Inl e, w') \<and>
      find_row art_id (w_artifacts w') (art_id (fb_artifact fb)) = Some a \<and> art_state a = ArtifactStatusFailed) \<and>
    (\<exists>w' a b. build_finish show_err suite art fb (Build_ok checksum logs) w = (Inr b, w') \<and>
      find_row art_id (w_artifacts w') (art_id (fb_artifact fb)) = Some a \<and> art_state a = ArtifactStatusReady)"
proof
  let ?a = "fb_artifact fb"
  obtain x where x: "mark_failed (show_err e) (format_logs_key (trim_space suite) (trim_space art)) ?a = Inr x"
    "art_state x = ArtifactStatusFailed" "art_id x = art_id ?a"
    using assms(2) by (simp add: mark_failed_def artifact_final_def)
  have "build_finish show_err suite art fb (Build_wait_error e) w = (Inl e, put_artifact x w)"
    using assms(1) x(1)
    by (simp add: build_finish_def upload_build_logs_def build_failed_def effect_eval artifact_save_ok)
  then show "\<exists>w' a. build_finish show_err suite art fb (Build_wait_error e) w = (Inl e, w') \<and>
      find_row art_id (w_artifacts w') (art_id ?a) = Some a \<and> art_state a = ArtifactStatusFailed"
    using find_put_artifact [of x w] x(2,3) by simp
next
  let ?a = "fb_artifact fb"
  obtain x where x: "mark_ready (fb_binary_key fb) checksum ?a = Inr x"
    "art_state x = ArtifactStatusReady" "art_id x = art_id ?a"
    using assms(2-4) by (simp add: mark_ready_def artifact_final_def)
  have c: "checksum \<noteq> ''''" using assms(4) by (auto simp: is_valid_sha256_def)
  obtain v where v: "upload_build_logs (format_logs_key (trim_space suite) (trim_space art)) (Build_ok checksum logs) w = (Inr (), v)"
    "w_faults v = []"
    using upload_build_logs_ok [OF assms(1)] by blast
  have "build_finish show_err suite art fb (Build_ok checksum logs) w = (Inr x, put_artifact x v)"
    using c x(1) v by (simp add: build_finish_def build_succeeded_def effect_eval artifact_save_ok)
  then show "\<exists>w' a b. build_finish show_err suite art fb (Build_ok checksum logs) w = (Inr b, w') \<and>
      find_row art_id (w_artifacts w') (art_id ?a) = Some a \<and> art_state a = ArtifactStatusReady"
    using find_put_artifact [of x v] x(2,3) by simp
qed

definition demo_building :: in_flight_build where
  "demo_building = \<lparr>fb_artifact = demo_artifact\<lparr>art_state := ArtifactStatusBuilding, s3_binary_key := '''',
     sha256_checksum := ''''\<rparr>, fb_job = ''vuhive-build-a1'', fb_binary_key = ''bin''\<rparr>"

theorem build_end_overwrites_witness:
  "\<exists>w' a. build_finish (\<lambda>_. ''gone'') ''s1'' ''a1'' demo_building (Build_wait_error ErrNotFound) (demo_world [] []) =
     (Inl ErrNotFound, w') \<and> find_row art_id (w_artifacts (demo_world [] [])) ''a1'' = Some demo_artifact \<and>
     art_state demo_artifact = ArtifactStatusReady \<and>
     find_row art_id (w_artifacts w') ''a1'' = Some a \<and> art_state a = ArtifactStatusFailed"
proof -
  have "trim_space (fb_binary_key demo_building) \<noteq> ''''"
    by (simp add: demo_building_def trim_space_graphic graphic_def)
  moreover have "is_valid_sha256 (trim_space (replicate 64 CHR ''a''))"
    by (simp add: trim_space_graphic graphic_def is_valid_sha256_def is_hex_def list_all_iff)
  ultimately show ?thesis
    using build_end_overwrites [of "demo_world [] []" demo_building "replicate 64 CHR ''a''" "\<lambda>_. ''gone''" "''s1''" "''a1''"
        ErrNotFound]
    by (auto simp: demo_building_def demo_artifact_def demo_world_def)
qed

text \<open>
  a job that succeeds without reporting a checksum, and whose binary cannot be read from the store,
  leaves the artifact in \<open>BUILDING\<close>: \<open>MarkReady\<close> refuses the missing checksum, the operation returns its
  error and saves nothing, so no \<open>FAILED\<close> or \<open>READY\<close> is ever stored for that build.  When the binary can be
  read its digest is computed and the artifact becomes \<open>READY\<close> with it.
\<close>

theorem build_without_checksum:
  assumes "w_faults w = []" and "art_state (fb_artifact fb) = ArtifactStatusBuilding"
    and "trim_space (fb_binary_key fb) \<noteq> ''''" and "trim_space suite \<noteq> ''''"
    and "trim_space (fb_binary_key fb) \<noteq> trim_space (format_logs_key (trim_space suite) (trim_space art))"
  shows "\<exists>w'. build_finish show_err suite art fb (Build_ok '''' logs) w =
      (case w_objects w (trim_space (fb_binary_key fb)) of
         None \<Rightarrow> (Inl ErrInvalidChecksum, w')
       | Some binary \<Rightarrow>
           (let a = (fb_artifact fb)\<lparr>s3_binary_key := trim_space (fb_binary_key fb),
                  sha256_checksum := sha256_hex binary, art_state := ArtifactStatusReady\<rparr>
            in (Inr a, put_artifact a w'))) \<and>
      w_artifacts w' = w_artifacts w"
proof -
  let ?k = "format_logs_key (trim_space suite) (trim_space art)"
  let ?key = "fb_binary_key fb"
  obtain v where v: "upload_build_logs ?k (Build_ok '''' logs) w = (Inr (), v)" "w_faults v = []"
    "w_artifacts v = w_artifacts w" "w_objects v (trim_space ?key) = w_objects w (trim_space ?key)"
    using upload_build_logs_frame [OF assms(1) assms(5)] by blast
  have dl: "compute_sha256_from_storage ?key v =
      (case w_objects w (trim_space ?key) of None \<Rightarrow> (Inl ErrNotFound, v) | Some b \<Rightarrow> (Inr (sha256_hex b), v))"
    using assms(3) v(2,4)
    by (simp add: compute_sha256_from_storage_def storage_download_def effect_eval split: option.split)
  have start: "build_finish show_err suite art fb (Build_ok '''' logs) w = build_succeeded ?key '''' (fb_artifact fb) v"
    using v(1) by (simp add: build_finish_def effect_eval)
  show ?thesis
  proof (cases "w_objects w (trim_space ?key)")
    case None
    have "build_succeeded ?key '''' (fb_artifact fb) v = (Inl ErrInvalidChecksum, v)"
      using assms(2,3) None by (simp add: build_succeeded_def effect_eval dl mark_ready_def artifact_final_def
          empty_not_sha256 trim_space_Nil)
    then show ?thesis using start None v(3) by simp
  next
    case (Some b)
    have "mark_ready ?key (sha256_hex b) (fb_artifact fb) = Inr ((fb_artifact fb)\<lparr>s3_binary_key := trim_space ?key,
        sha256_checksum := sha256_hex b, art_state := ArtifactStatusReady\<rparr>)"
      using assms(2,3) by (simp add: mark_ready_def artifact_final_def trim_sha256_hex sha256_hex_valid)
    then have "build_succeeded ?key '''' (fb_artifact fb) v = (let a = (fb_artifact fb)\<lparr>s3_binary_key := trim_space ?key,
        sha256_checksum := sha256_hex b, art_state := ArtifactStatusReady\<rparr> in (Inr a, put_artifact a v))"
      using Some v(2) by (simp add: build_succeeded_def effect_eval dl artifact_save_ok Let_def)
    then show ?thesis using start Some v(3) unfolding Let_def by auto
  qed
qed

theorem build_without_checksum_witness:
  "\<exists>w'. build_finish (\<lambda>_. '''') ''s1'' ''a1'' demo_building (Build_ok '''' ''done'')
      ((demo_world [] [])\<lparr>w_artifacts := [fb_artifact demo_building]\<rparr>) = (Inl ErrInvalidChecksum, w') \<and>
    map art_state (w_artifacts w') = [ArtifactStatusBuilding]"
proof -
  have k: "fb_binary_key demo_building = ''bin''" "trim_space ''bin'' = ''bin''" "trim_space ''s1'' = ''s1''"
    by (simp_all add: demo_building_def trim_space_graphic graphic_def)
  have l: "trim_space (format_logs_key ''s1'' (trim_space ''a1'')) \<noteq> ''bin''"
    by (simp add: trim_space_graphic graphic_def format_logs_key_def)
  have st: "art_state (fb_artifact demo_building) = ArtifactStatusBuilding" by (simp add: demo_building_def)
  show ?thesis
    using build_without_checksum [of "(demo_world [] [])\<lparr>w_artifacts := [fb_artifact demo_building]\<rparr>" demo_building
        "''s1''" "''a1''" "\<lambda>_. ''''" "''done''"] k l st
    by (auto simp: demo_world_def)
qed

section \<open>Reuse of a cancelled artifact\<close>

lemma artifact_find_ok:
  assumes "w_faults w = []" and "find_row art_id (w_artifacts w) i = Some row" and "new_artifact_with_id row = Inr a"
  shows "artifact_find_by_id i w = (Inr a, w)"
  using assms by (simp add: artifact_find_by_id_def)

lemma owned_artifact_ok:
  assumes "w_faults w = []" and "find_row art_id (w_artifacts w) i = Some row" and "new_artifact_with_id row = Inr a"
    and "art_suite_id a = suite"
  shows "owned_artifact suite i w = (Inr a, w)"
  using artifact_find_ok [OF assms(1-3)] assms(4) by (simp add: owned_artifact_def effect_eval)

text \<open>
  a cancelled artifact blocks its platform.  A trigger chooses the first artifact of the platform that
  is not \<open>READY\<close> and resets it only when it is \<open>FAILED\<close>, so a \<open>CANCELLED\<close> one is handed to the build as it
  is; the build then ends with \<open>ErrTerminalState\<close> at \<open>MarkBuilding\<close> and changes nothing, although the trigger
  reported the artifact as accepted.
\<close>

theorem build_blocked_by_cancelled:
  assumes "w_faults w = []" and "find_row art_id (w_artifacts w) (art_id a) = Some a"
    and "new_artifact_with_id a = Inr a" and "art_state a = ArtifactStatusCancelled"
    and "trim_space (art_suite_id a) \<noteq> ''''" and "trim_space (art_id a) = art_id a" and "art_id a \<noteq> ''''"
    and "w_objects w (trim_space (format_source_key (art_suite_id a))) \<noteq> None"
    and "List.find (\<lambda>x. art_platform x = p \<and> art_state x \<noteq> ArtifactStatusReady) existing = Some a"
  shows "obtain_artifact uuid now (art_suite_id a) descr existing p w = (Inr a, w) \<and>
    build_start env show_err sign (art_suite_id a) (art_id a) w = (Inl ErrTerminalState, w)"
proof
  show "obtain_artifact uuid now (art_suite_id a) descr existing p w = (Inr a, w)"
    using assms(4,9) by (simp add: obtain_artifact_def reset_artifact_def effect_eval)
  have suite: "trim_space (art_suite_id a) = art_suite_id a"
    using assms(3) by (cases a) (auto simp: new_artifact_with_id_def split: if_splits)
  have key: "trim_space (format_source_key (art_suite_id a)) \<noteq> ''''"
    by (simp add: format_source_key_def trim_space_graphic graphic_def)
  have src: "require_source (art_suite_id a) w = (Inr (), w)"
    using assms(1,8) key by (auto simp: require_source_def storage_exists_def effect_eval)
  have own: "owned_artifact (art_suite_id a) (art_id a) w = (Inr a, w)"
    using assms(1-3) by (rule owned_artifact_ok) simp
  have "mark_building a = Inl ErrTerminalState"
    using assms(4) by (simp add: mark_building_def artifact_final_def)
  then show "build_start env show_err sign (art_suite_id a) (art_id a) w = (Inl ErrTerminalState, w)"
    using assms(5-7) suite own src by (simp add: build_start_def Let_def effect_eval)
qed

definition demo_cancelled :: artifact where
  "demo_cancelled = demo_artifact\<lparr>art_state := ArtifactStatusCancelled, s3_binary_key := ''''\<rparr>"

definition demo_build_env :: build_env where
  "demo_build_env = \<lparr>be_suites = True, be_orchestrator = True, be_namespace = ''n'', be_storage = True\<rparr>"

definition demo_sources :: "artifact \<Rightarrow> world" where
  "demo_sources a = (demo_world [] [])\<lparr>w_artifacts := [a], w_objects := [format_source_key ''s1'' \<mapsto> ''src'']\<rparr>"

theorem build_blocked_by_cancelled_witness:
  "obtain_artifact (\<lambda>_. ''a2'') 9 ''s1'' [] [demo_cancelled] PlatformLinuxAmd64 (demo_sources demo_cancelled) =
     (Inr demo_cancelled, demo_sources demo_cancelled) \<and>
   build_start demo_build_env (\<lambda>_. '''') (\<lambda>k _. k) ''s1'' ''a1'' (demo_sources demo_cancelled) =
     (Inl ErrTerminalState, demo_sources demo_cancelled)"
proof -
  have "new_artifact_with_id demo_cancelled = Inr demo_cancelled"
    by (simp add: new_artifact_with_id_def demo_cancelled_def demo_artifact_def trim_space_graphic graphic_def)
  then show ?thesis
    using build_blocked_by_cancelled [of "demo_sources demo_cancelled" demo_cancelled PlatformLinuxAmd64
        "[demo_cancelled]" "\<lambda>_. ''a2''" 9 "[]" demo_build_env "\<lambda>_. ''''" "\<lambda>k _. k"]
    by (simp add: demo_sources_def demo_cancelled_def demo_artifact_def trim_space_graphic graphic_def
        format_source_key_def)
qed

section \<open>Deletions\<close>

lemma try_delete_ok:
  assumes "w_faults w = []"
  shows "fst (try_delete key w) = Inr ()" "w_faults (snd (try_delete key w)) = []"
    "w_artifacts (snd (try_delete key w)) = w_artifacts w" "w_runs (snd (try_delete key w)) = w_runs w"
    "w_schedules (snd (try_delete key w)) = w_schedules w"
    "w_objects w k = None \<Longrightarrow> w_objects (snd (try_delete key w)) k = None"
    "try_delete key w = (Inr (), snd (try_delete key w))"
  using assms by (auto simp: try_delete_def storage_delete_def effect_eval)

text \<open>
  deleting an artifact that a run or a schedule references removes its binary before the database refuses
  the deletion: the caller gets \<open>ErrValidation\<close> and the artifact stays stored in its state, \<open>READY\<close> for instance,
  while the object that its key names is gone.
\<close>

theorem delete_artifact_strips_binary:
  assumes "w_faults w = []" and "find_row art_id (w_artifacts w) (art_id a) = Some a"
    and "new_artifact_with_id a = Inr a" and "art_state a \<noteq> ArtifactStatusBuilding" and "be_storage env"
    and "trim_space (art_suite_id a) \<noteq> ''''" and "trim_space (art_id a) = art_id a" and "art_id a \<noteq> ''''"
    and "s3_binary_key a \<noteq> ''''" and "trim_space (s3_binary_key a) = s3_binary_key a"
    and "artifact_referenced w (art_id a)"
  shows "\<exists>w'. delete_artifact env (art_suite_id a) (art_id a) w = (Inl ErrValidation, w') \<and>
    find_row art_id (w_artifacts w') (art_id a) = Some a \<and> w_objects w' (s3_binary_key a) = None"
proof -
  have suite: "trim_space (art_suite_id a) = art_suite_id a"
    using assms(3) by (cases a) (auto simp: new_artifact_with_id_def split: if_splits)
  have own: "owned_artifact (art_suite_id a) (art_id a) w = (Inr a, w)"
    using assms(1-3) by (rule owned_artifact_ok) simp
  define v where "v = w\<lparr>w_objects := (w_objects w)(s3_binary_key a := None)\<rparr>"
  have one: "try_delete (s3_binary_key a) w = (Inr (), v)"
    using assms(1,9,10) by (simp add: try_delete_def storage_delete_def effect_eval v_def)
  define u where "u = snd (try_delete (build_logs_s3_key a) v)"
  have two: "try_delete (build_logs_s3_key a) v = (Inr (), u)" "w_faults u = []"
    "w_artifacts u = w_artifacts w" "w_runs u = w_runs w" "w_schedules u = w_schedules w"
    "w_objects u (s3_binary_key a) = None"
    using try_delete_ok(1-5,7) [of v "build_logs_s3_key a"] try_delete_ok(6) [of v "s3_binary_key a"] assms(1) by (simp_all add: u_def v_def)
  have "artifact_referenced u (art_id a)"
    using assms(11) two(4,5) by (simp add: artifact_referenced_def)
  then have "artifact_delete (art_id a) u = (Inl ErrValidation, u)"
    using assms(2) two(2,3) by (simp add: artifact_delete_def)
  then have "delete_artifact env (art_suite_id a) (art_id a) w = (Inl ErrValidation, u)"
    using assms(4-8) suite own one two(1) by (simp add: delete_artifact_def Let_def effect_eval)
  then show ?thesis using two(3,6) assms(2) by auto
qed

theorem delete_artifact_strips_binary_witness:
  "\<exists>w'. delete_artifact demo_build_env ''s1'' ''a1''
      ((demo_world [demo_running\<lparr>run_artifact_id := ''a1''\<rparr>] [])\<lparr>w_objects := [''bin'' \<mapsto> ''ELF'']\<rparr>) = (Inl ErrValidation, w') \<and>
    find_row art_id (w_artifacts w') ''a1'' = Some demo_artifact \<and> w_objects w' ''bin'' = None"
proof -
  have "new_artifact_with_id demo_artifact = Inr demo_artifact"
    by (simp add: new_artifact_with_id_def demo_artifact_def trim_space_graphic graphic_def)
  then show ?thesis
    using delete_artifact_strips_binary [of
        "(demo_world [demo_running\<lparr>run_artifact_id := ''a1''\<rparr>] [])\<lparr>w_objects := [''bin'' \<mapsto> ''ELF'']\<rparr>" demo_artifact
        demo_build_env]
    by (simp add: demo_build_env_def demo_artifact_def demo_world_def trim_space_graphic graphic_def artifact_referenced_def)
qed

end
