(* ===== verification/Catalogue.thy ===== *)
theory Catalogue
  imports Control_Ports
begin

text \<open>
  The remaining operations of the PostgreSQL repositories (\<^verbatim>\<open>internal/adapters/outbound/postgres\<close>) for
  suites, configurations, profiles, schedules and secrets, and the CronJobs of
  \<^verbatim>\<open>internal/adapters/outbound/k8s/schedule_orchestrator.go\<close>.  Deletions follow the foreign keys of
  \<^verbatim>\<open>migrations/000001_init_schema.sql\<close>: \<open>RESTRICT\<close> refuses with a violation (\<open>ErrValidation\<close>), \<open>SET NULL\<close>
  clears the column of the referring rows and \<open>CASCADE\<close> deletes them; the cascade of a suite reaches its
  artifacts first, where a run or a schedule that references one refuses the whole deletion.
\<close>

section \<open>Saving\<close>

definition merge_config :: "configuration \<Rightarrow> configuration \<Rightarrow> configuration" where
  "merge_config old new = new\<lparr>cfg_created_at := cfg_created_at old\<rparr>"

definition merge_profile :: "runner_profile \<Rightarrow> runner_profile \<Rightarrow> runner_profile" where
  "merge_profile old new = new\<lparr>prof_created_at := prof_created_at old\<rparr>"

definition merge_schedule :: "schedule \<Rightarrow> schedule \<Rightarrow> schedule" where
  "merge_schedule old new = new\<lparr>sch_created_at := sch_created_at old\<rparr>"

text \<open>The conflict clause of the secrets keeps suite, key and creation time.\<close>

definition merge_secret :: "secret \<Rightarrow> secret \<Rightarrow> secret" where
  "merge_secret old new = old\<lparr>encrypted_value := encrypted_value new, sec_updated_at := sec_updated_at new\<rparr>"

definition put_config :: "configuration \<Rightarrow> world \<Rightarrow> world" where
  "put_config c w = w\<lparr>w_configs := upsert cfg_id merge_config c (w_configs w)\<rparr>"

definition put_profile :: "runner_profile \<Rightarrow> world \<Rightarrow> world" where
  "put_profile p w = w\<lparr>w_profiles := upsert prof_id merge_profile p (w_profiles w)\<rparr>"

definition put_schedule :: "schedule \<Rightarrow> world \<Rightarrow> world" where
  "put_schedule s w = w\<lparr>w_schedules := upsert sch_id merge_schedule s (w_schedules w)\<rparr>"

definition put_secret :: "secret \<Rightarrow> world \<Rightarrow> world" where
  "put_secret s w = w\<lparr>w_secrets := upsert sec_id merge_secret s (w_secrets w)\<rparr>"

definition config_save :: "configuration \<Rightarrow> unit op" where
  "config_save c = port_call (\<lambda>w. (Inr (), put_config c w))"

definition profile_save :: "runner_profile \<Rightarrow> unit op" where
  "profile_save p = port_call (\<lambda>w. (Inr (), put_profile p w))"

definition schedule_save :: "schedule \<Rightarrow> unit op" where
  "schedule_save s = port_call (\<lambda>w. (Inr (), put_schedule s w))"

definition secret_save :: "secret \<Rightarrow> unit op" where
  "secret_save s = port_call (\<lambda>w. (Inr (), put_secret s w))"

section \<open>Finding\<close>

text \<open>The rows that a condition selects, in the order of a column, loaded one by one.\<close>

definition select_rows ::
  "(world \<Rightarrow> 'e list) \<Rightarrow> ('e \<Rightarrow> bool) \<Rightarrow> ('e \<Rightarrow> 'k::linorder) \<Rightarrow> ('e \<Rightarrow> 'a result) \<Rightarrow> 'a list op" where
  "select_rows table cond key load =
     port_call (\<lambda>w. (collect_results (map load (sort_key key (filter cond (table w)))), w))"

definition find_first :: "(world \<Rightarrow> 'e list) \<Rightarrow> ('e \<Rightarrow> bool) \<Rightarrow> ('e \<Rightarrow> 'a result) \<Rightarrow> 'a op" where
  "find_first table cond load =
     port_call (\<lambda>w. (case List.find cond (table w) of None \<Rightarrow> Inl ErrNotFound | Some e \<Rightarrow> load e, w))"

definition load_config :: "configuration \<Rightarrow> configuration result" where
  "load_config c = new_configuration_with_id (cfg_id c) (cfg_suite_id c) (cfg_name c) (cfg_description c)
     (content_yaml c) (s3_config_key c) (is_default c) (cfg_created_at c)"

definition load_secret :: "secret \<Rightarrow> secret result" where
  "load_secret s = new_secret_with_id (sec_id s) (sec_suite_id s) (sec_key s) (encrypted_value s)
     (sec_created_at s) (sec_updated_at s)"

definition suite_find_by_name :: "string \<Rightarrow> test_suite op" where
  "suite_find_by_name n = find_first w_suites (\<lambda>s. suite_name s = n) load_suite"

definition suite_list :: "test_suite list op" where
  "suite_list = select_rows w_suites (\<lambda>_. True) suite_created_at load_suite"

definition config_list_by_suite :: "string \<Rightarrow> configuration list op" where
  "config_list_by_suite i = select_rows w_configs (\<lambda>c. cfg_suite_id c = i) cfg_created_at load_config"

definition profile_find_by_name :: "string \<Rightarrow> runner_profile op" where
  "profile_find_by_name n = find_first w_profiles (\<lambda>p. prof_name p = n) load_profile"

definition profile_list :: "runner_profile list op" where
  "profile_list = select_rows w_profiles (\<lambda>_. True) prof_created_at load_profile"

definition schedule_list_by_suite :: "(string \<Rightarrow> bool) \<Rightarrow> string \<Rightarrow> schedule list op" where
  "schedule_list_by_suite cron_ok i =
     select_rows w_schedules (\<lambda>s. sch_suite_id s = i) sch_created_at (new_schedule_with_id cron_ok)"

definition schedule_list_active :: "(string \<Rightarrow> bool) \<Rightarrow> schedule list op" where
  "schedule_list_active cron_ok = select_rows w_schedules sch_active sch_created_at (new_schedule_with_id cron_ok)"

definition schedule_list_all :: "(string \<Rightarrow> bool) \<Rightarrow> schedule list op" where
  "schedule_list_all cron_ok = select_rows w_schedules (\<lambda>_. True) sch_created_at (new_schedule_with_id cron_ok)"

definition secret_find_by_id :: "string \<Rightarrow> secret op" where
  "secret_find_by_id i = find_first w_secrets (\<lambda>s. sec_id s = i) load_secret"

definition secret_find_by_key :: "string \<Rightarrow> string \<Rightarrow> secret op" where
  "secret_find_by_key suite key = find_first w_secrets (\<lambda>s. sec_suite_id s = suite \<and> sec_key s = key) load_secret"

text \<open>Keys are ordered bytewise (\<open>ORDER BY key\<close>; they consist of capitals, digits and underscores).\<close>

definition byte_codes :: "string \<Rightarrow> int list" where
  "byte_codes s = map of_char s"

fun codes_le :: "int list \<Rightarrow> int list \<Rightarrow> bool" where
  "codes_le [] _ = True"
| "codes_le (_ # _) [] = False"
| "codes_le (a # as) (b # bs) = (a < b \<or> (a = b \<and> codes_le as bs))"

fun insert_by_key :: "secret \<Rightarrow> secret list \<Rightarrow> secret list" where
  "insert_by_key s [] = [s]"
| "insert_by_key s (t # ts) =
     (if codes_le (byte_codes (sec_key s)) (byte_codes (sec_key t)) then s # t # ts
      else t # insert_by_key s ts)"

definition secret_list_by_suite :: "string \<Rightarrow> secret list op" where
  "secret_list_by_suite i =
     port_call (\<lambda>w. (collect_results (map load_secret
       (foldr insert_by_key (filter (\<lambda>s. sec_suite_id s = i) (w_secrets w)) [])), w))"

section \<open>Deleting\<close>

definition suite_cascade :: "string \<Rightarrow> world \<Rightarrow> world" where
  "suite_cascade i w =
     w\<lparr>w_suites := delete_row suite_id i (w_suites w),
       w_artifacts := filter (\<lambda>a. art_suite_id a \<noteq> i) (w_artifacts w),
       w_configs := filter (\<lambda>c. cfg_suite_id c \<noteq> i) (w_configs w),
       w_schedules := filter (\<lambda>s. sch_suite_id s \<noteq> i) (w_schedules w),
       w_runs := filter (\<lambda>r. run_suite_id r \<noteq> i) (w_runs w),
       w_secrets := filter (\<lambda>s. sec_suite_id s \<noteq> i) (w_secrets w)\<rparr>"

definition suite_delete :: "string \<Rightarrow> unit op" where
  "suite_delete i =
     port_call (\<lambda>w. case find_row suite_id (w_suites w) i of
                      None \<Rightarrow> (Inl ErrNotFound, w)
                    | Some _ \<Rightarrow>
                        if list_ex (\<lambda>a. art_suite_id a = i \<and> artifact_referenced w (art_id a)) (w_artifacts w)
                        then (Inl ErrValidation, w)
                        else (Inr (), suite_cascade i w))"

definition clear_config_refs :: "string \<Rightarrow> world \<Rightarrow> world" where
  "clear_config_refs i w =
     w\<lparr>w_runs := map (\<lambda>r. if run_configuration_id r = Some i then r\<lparr>run_configuration_id := None\<rparr> else r) (w_runs w),
       w_schedules := map (\<lambda>s. if sch_configuration_id s = Some i then s\<lparr>sch_configuration_id := None\<rparr> else s)
         (w_schedules w)\<rparr>"

definition config_delete :: "string \<Rightarrow> unit op" where
  "config_delete i =
     port_call (\<lambda>w. case find_row cfg_id (w_configs w) i of
                      None \<Rightarrow> (Inl ErrNotFound, w)
                    | Some _ \<Rightarrow> (Inr (), clear_config_refs i (w\<lparr>w_configs := delete_row cfg_id i (w_configs w)\<rparr>)))"

definition profile_referenced :: "world \<Rightarrow> string \<Rightarrow> bool" where
  "profile_referenced w i \<longleftrightarrow>
     list_ex (\<lambda>r. run_profile_id r = i) (w_runs w) \<or> list_ex (\<lambda>s. sch_profile_id s = i) (w_schedules w)"

definition profile_delete :: "string \<Rightarrow> unit op" where
  "profile_delete i =
     port_call (\<lambda>w. case find_row prof_id (w_profiles w) i of
                      None \<Rightarrow> (Inl ErrNotFound, w)
                    | Some _ \<Rightarrow>
                        if profile_referenced w i then (Inl ErrValidation, w)
                        else (Inr (), w\<lparr>w_profiles := delete_row prof_id i (w_profiles w)\<rparr>))"

definition clear_schedule_refs :: "string \<Rightarrow> world \<Rightarrow> world" where
  "clear_schedule_refs i w =
     w\<lparr>w_runs := map (\<lambda>r. if run_schedule_id r = Some i then r\<lparr>run_schedule_id := None\<rparr> else r) (w_runs w)\<rparr>"

definition schedule_delete :: "string \<Rightarrow> unit op" where
  "schedule_delete i =
     port_call (\<lambda>w. case find_row sch_id (w_schedules w) i of
                      None \<Rightarrow> (Inl ErrNotFound, w)
                    | Some _ \<Rightarrow>
                        (Inr (), clear_schedule_refs i (w\<lparr>w_schedules := delete_row sch_id i (w_schedules w)\<rparr>)))"

definition secret_delete :: "string \<Rightarrow> unit op" where
  "secret_delete i =
     port_call (\<lambda>w. case find_row sec_id (w_secrets w) i of
                      None \<Rightarrow> (Inl ErrNotFound, w)
                    | Some _ \<Rightarrow> (Inr (), w\<lparr>w_secrets := delete_row sec_id i (w_secrets w)\<rparr>))"

section \<open>CronJobs\<close>

definition runner_namespace :: "string \<Rightarrow> string" where
  "runner_namespace cfg =
     (if trim_space cfg = '''' then default_runner_namespace else trim_space cfg)"

definition has_cron :: "string \<Rightarrow> string \<Rightarrow> cron_job \<Rightarrow> bool" where
  "has_cron ns name c \<longleftrightarrow> cj_namespace c = ns \<and> cj_name c = name"

text \<open>
  \<open>CreateCronJob\<close>: a manifest is refused for a missing binary key; the quantities of the profile and of
  the init container are covered by the fault script.
\<close>

definition create_cron_job :: "string \<Rightarrow> schedule \<Rightarrow> string \<Rightarrow> string op" where
  "create_cron_job cfg s binary_key =
     (if trim_space binary_key = '''' then failW ErrValidation
      else
        let ns = runner_namespace cfg; name = sch_cronjob_name s in
        port_call (\<lambda>w. if list_ex (has_cron ns name) (w_cronjobs w) then (Inl ErrConflict, w)
                       else (Inr name, w\<lparr>w_cronjobs := \<lparr>cj_namespace = ns, cj_name = name, cj_schedule = sch_cron s,
                               cj_suspended = False, cj_schedule_id = sch_id s\<rparr> # w_cronjobs w\<rparr>)))"

definition cron_job_get :: "string \<Rightarrow> string \<Rightarrow> cron_job op" where
  "cron_job_get ns name = find_first w_cronjobs (has_cron ns name) Inr"

definition cron_job_update :: "cron_job \<Rightarrow> unit op" where
  "cron_job_update c =
     port_call (\<lambda>w. if list_ex (has_cron (cj_namespace c) (cj_name c)) (w_cronjobs w)
                    then (Inr (), w\<lparr>w_cronjobs :=
                      map (\<lambda>d. if has_cron (cj_namespace c) (cj_name c) d then c else d) (w_cronjobs w)\<rparr>)
                    else (Inl ErrNotFound, w))"

definition update_cron_job :: "string \<Rightarrow> schedule \<Rightarrow> unit op" where
  "update_cron_job cfg s =
     bindW (cron_job_get (runner_namespace cfg) (sch_cronjob_name s)) (\<lambda>c.
     cron_job_update (c\<lparr>cj_schedule := sch_cron s, cj_suspended := \<not> sch_active s\<rparr>))"

definition cron_job_delete :: "string \<Rightarrow> string \<Rightarrow> unit op" where
  "cron_job_delete ns name =
     port_call (\<lambda>w. if list_ex (has_cron ns name) (w_cronjobs w)
                    then (Inr (), w\<lparr>w_cronjobs := filter (\<lambda>c. \<not> has_cron ns name c) (w_cronjobs w)\<rparr>)
                    else (Inl ErrNotFound, w))"

definition delete_cron_job :: "string \<Rightarrow> string \<Rightarrow> string \<Rightarrow> unit op" where
  "delete_cron_job cfg name namespace =
     (let ns = (if trim_space namespace \<noteq> '''' then trim_space namespace else runner_namespace cfg)
      in bindW (attempt (cron_job_delete ns (trim_space name))) (\<lambda>r.
           case r of Inl e \<Rightarrow> if e = ErrNotFound then returnW () else failW e | Inr _ \<Rightarrow> returnW ()))"

section \<open>The tables satisfy the repository contract\<close>

definition stored_config :: "configuration option \<Rightarrow> configuration \<Rightarrow> configuration" where
  "stored_config old e = (case old of None \<Rightarrow> e | Some x \<Rightarrow> merge_config x e)"

definition stored_profile :: "runner_profile option \<Rightarrow> runner_profile \<Rightarrow> runner_profile" where
  "stored_profile old e = (case old of None \<Rightarrow> e | Some x \<Rightarrow> merge_profile x e)"

definition stored_schedule :: "schedule option \<Rightarrow> schedule \<Rightarrow> schedule" where
  "stored_schedule old e = (case old of None \<Rightarrow> e | Some x \<Rightarrow> merge_schedule x e)"

definition stored_secret :: "secret option \<Rightarrow> secret \<Rightarrow> secret" where
  "stored_secret old e = (case old of None \<Rightarrow> e | Some x \<Rightarrow> merge_secret x e)"

interpretation configs: repository cfg_id "find_row cfg_id" "upsert cfg_id merge_config" "delete_row cfg_id" stored_config
  by unfold_locales
    (auto simp: stored_config_def merge_config_def find_row_delete
      find_row_upsert_same find_row_upsert_other dest!: find_row_Some split: option.splits)

interpretation profiles: repository prof_id "find_row prof_id" "upsert prof_id merge_profile" "delete_row prof_id" stored_profile
  by unfold_locales
    (auto simp: stored_profile_def merge_profile_def find_row_delete
      find_row_upsert_same find_row_upsert_other dest!: find_row_Some split: option.splits)

interpretation schedules: repository sch_id "find_row sch_id" "upsert sch_id merge_schedule" "delete_row sch_id" stored_schedule
  by unfold_locales
    (auto simp: stored_schedule_def merge_schedule_def find_row_delete
      find_row_upsert_same find_row_upsert_other dest!: find_row_Some split: option.splits)

interpretation secrets: repository sec_id "find_row sec_id" "upsert sec_id merge_secret" "delete_row sec_id" stored_secret
  by unfold_locales
    (auto simp: stored_secret_def merge_secret_def find_row_delete
      find_row_upsert_same find_row_upsert_other dest!: find_row_Some split: option.splits)

end
