(* ===== verification/Schedule_Safety.thy ===== *)
theory Schedule_Safety
  imports Catalogue Run_Outcomes "HOL-Library.Multiset"
begin

text \<open>
  The schedules and the cluster agree: the CronJobs of the runner namespace are the images of the stored
  schedules.  The operations keep this when the ports work; what a failing port leaves behind is stated
  separately.
\<close>

section \<open>The schedule service\<close>

text \<open>
  \<^verbatim>\<open>internal/application/service/schedule_service.go\<close>: schedules and the CronJobs that run them.  The
  namespace is the runner namespace of the schedule orchestrator.  Each stored schedule is meant to have
  one CronJob with its expression, suspended exactly when the schedule is inactive: the relation
  \<open>cron_synced\<close>, which the operations keep when the ports work.
\<close>

section \<open>Operations\<close>

record create_schedule_cmd =
  cs_suite :: string
  cs_artifact :: string
  cs_config :: "string option"
  cs_profile :: string
  cs_name :: string
  cs_cron :: string

definition schedule_config_key :: "string option \<Rightarrow> test_suite \<Rightarrow> string op" where
  "schedule_config_key cfg suite =
     (case opt_trim cfg of
        None \<Rightarrow> returnW ''''
      | Some i \<Rightarrow>
          bindW (config_find_by_id i) (\<lambda>c.
            if cfg_suite_id c \<noteq> suite_id suite then failW ErrValidation else returnW (s3_config_key c)))"

text \<open>The dependencies that a schedule must name: suite, artifact, configuration, profile.\<close>

definition schedule_parts :: "create_schedule_cmd \<Rightarrow> (test_suite \<times> artifact \<times> runner_profile) op" where
  "schedule_parts cmd =
     bindW (suite_find_by_id (trim_space (cs_suite cmd))) (\<lambda>suite.
     if suite_state suite \<noteq> TestSuiteStateActive then failW ErrInvalidStateTransition
     else
       bindW (artifact_find_by_id (trim_space (cs_artifact cmd))) (\<lambda>art.
       if art_suite_id art \<noteq> suite_id suite then failW ErrValidation
       else if art_state art \<noteq> ArtifactStatusReady then failW ErrInvalidStateTransition
       else
         bindW (schedule_config_key (cs_config cmd) suite) (\<lambda>_.
         bindW (profile_find_by_id (trim_space (cs_profile cmd))) (\<lambda>prof.
         returnW (suite, art, prof)))))"

text \<open>The CronJob of a schedule that was just saved; when it cannot be created the row is deleted again.\<close>

definition provision_schedule :: "string \<Rightarrow> string \<Rightarrow> schedule \<Rightarrow> schedule op" where
  "provision_schedule ns binary_key s =
     bindW (attempt (create_cron_job ns s binary_key)) (\<lambda>r.
       case r of
         Inl e \<Rightarrow> bindW (attempt (schedule_delete (sch_id s))) (\<lambda>_. failW e)
       | Inr _ \<Rightarrow> returnW s)"

definition create_schedule ::
  "string \<Rightarrow> (string \<Rightarrow> bool) \<Rightarrow> string \<Rightarrow> time \<Rightarrow> create_schedule_cmd \<Rightarrow> schedule op" where
  "create_schedule ns cron_ok uuid now cmd =
     (if trim_space (cs_suite cmd) = '''' \<or> trim_space (cs_artifact cmd) = '''' \<or> trim_space (cs_profile cmd) = ''''
      then failW ErrValidation
      else if trim_space (cs_name cmd) = '''' then failW ErrEmptyName
      else
        bindW (liftW (validate_cron_expression cron_ok (trim_space (cs_cron cmd)))) (\<lambda>_.
        bindW (schedule_parts cmd) (\<lambda>(suite, art, prof).
        bindW (liftW (new_schedule cron_ok uuid now (suite_id suite) (art_id art) (cs_config cmd) (prof_id prof)
          (trim_space (cs_name cmd)) (trim_space (cs_cron cmd)))) (\<lambda>s.
        bindW (schedule_save s) (\<lambda>_. provision_schedule ns (s3_binary_key art) s)))))"

definition get_schedule :: "(string \<Rightarrow> bool) \<Rightarrow> string \<Rightarrow> schedule op" where
  "get_schedule cron_ok i =
     (if trim_space i = '''' then failW ErrValidation else schedule_find_by_id cron_ok (trim_space i))"

definition list_schedules :: "(string \<Rightarrow> bool) \<Rightarrow> schedule list op" where
  "list_schedules cron_ok = schedule_list_all cron_ok"

definition apply_cron :: "(string \<Rightarrow> bool) \<Rightarrow> time \<Rightarrow> string option \<Rightarrow> schedule \<Rightarrow> schedule result" where
  "apply_cron cron_ok now cron s =
     (case opt_trim cron of None \<Rightarrow> Inr s | Some e \<Rightarrow> update_cron_expression cron_ok now e s)"

definition apply_active :: "time \<Rightarrow> bool option \<Rightarrow> schedule \<Rightarrow> schedule result" where
  "apply_active now active s =
     (case active of
        None \<Rightarrow> Inr s
      | Some b \<Rightarrow>
          if b \<and> \<not> sch_active s then schedule_activate now s
          else if \<not> b \<and> sch_active s then schedule_deactivate now s
          else Inr s)"

definition update_schedule ::
  "string \<Rightarrow> (string \<Rightarrow> bool) \<Rightarrow> time \<Rightarrow> time \<Rightarrow> string \<Rightarrow> string option \<Rightarrow> bool option \<Rightarrow> schedule op" where
  "update_schedule ns cron_ok t1 t2 i cron active =
     (if trim_space i = '''' then failW ErrValidation
      else if opt_trim cron = None \<and> active = None then failW ErrValidation
      else
        bindW (schedule_find_by_id cron_ok (trim_space i)) (\<lambda>s0.
        bindW (liftW (apply_cron cron_ok t1 cron s0)) (\<lambda>s1.
        bindW (liftW (apply_active t2 active s1)) (\<lambda>s2.
        bindW (update_cron_job ns s2) (\<lambda>_.
        bindW (schedule_save s2) (\<lambda>_. returnW s2))))))"

definition delete_schedule :: "string \<Rightarrow> (string \<Rightarrow> bool) \<Rightarrow> string \<Rightarrow> unit op" where
  "delete_schedule ns cron_ok i =
     (if trim_space i = '''' then failW ErrValidation
      else
        bindW (schedule_find_by_id cron_ok (trim_space i)) (\<lambda>s.
        bindW (attempt (delete_cron_job ns (sch_cronjob_name s) '''')) (\<lambda>_.
        schedule_delete (trim_space i))))"

section \<open>Code that leaves a world without faults as it is\<close>

lemma holds_still:
  assumes "w_faults w = []" and "snd (f w) = w" and "\<And>x. fst (f w) = Inr x \<Longrightarrow> Q x"
  shows "holds ((=) w) (port_call f) Q"
  using assms by (auto simp: holds_def)

lemma bind_still:
  assumes "holds ((=) w) m Q"
  shows "(\<exists>e. bindW m f w = (Inl e, w)) \<or> (\<exists>x. Q x \<and> m w = (Inr x, w) \<and> bindW m f w = f x w)"
proof -
  obtain r where m: "m w = (r, w)" using assms unfolding holds_def by (metis prod.collapse)
  then show ?thesis using assms by (cases r) (auto simp: holds_def bindW_def)
qed

lemma bindW_liftW: "bindW (liftW (Inr x)) f w = f x w" "bindW (liftW (Inl e)) f w = (Inl e, w)"
  by (simp_all add: bindW_def liftW_def)

lemma still_finds:
  assumes "w_faults w = []"
  shows "holds ((=) w) (suite_find_by_id i) (\<lambda>_. True)" "holds ((=) w) (artifact_find_by_id i) (\<lambda>_. True)"
    "holds ((=) w) (config_find_by_id i) (\<lambda>_. True)" "holds ((=) w) (profile_find_by_id i) (\<lambda>_. True)"
    "holds ((=) w) (schedule_find_by_id ok i) (\<lambda>s. find_row sch_id (w_schedules w) i = Some s)"
proof -
  show "holds ((=) w) (schedule_find_by_id ok i) (\<lambda>s. find_row sch_id (w_schedules w) i = Some s)"
    unfolding schedule_find_by_id_def
    by (rule holds_still [OF assms])
      (auto simp: new_schedule_with_id_def split: option.splits if_splits sum.splits)
qed (auto simp: suite_find_by_id_def artifact_find_by_id_def config_find_by_id_def profile_find_by_id_def
    intro!: holds_still [OF assms])

lemma still_parts:
  assumes "w_faults w = []"
  shows "holds ((=) w) (schedule_parts cmd) (\<lambda>_. True)"
proof -
  note finds = still_finds(1-4) [OF assms]
  have key: "holds ((=) w) (schedule_config_key c s) (\<lambda>_. True)" for c s
    unfolding schedule_config_key_def
    by (cases "opt_trim c") (auto intro!: holds_rules holds_if holds_bind [OF finds(3)])
  show ?thesis
    unfolding schedule_parts_def
    by (intro holds_bind [OF finds(1)] holds_bind [OF finds(2)] holds_bind [OF finds(4)] holds_bind [OF key]
        holds_if holds_return holds_fail TrueI)
qed

section \<open>Agreement\<close>

definition cron_of :: "string \<Rightarrow> schedule \<Rightarrow> cron_job" where
  "cron_of ns s = \<lparr>cj_namespace = runner_namespace ns, cj_name = sch_cronjob_name s, cj_schedule = sch_cron s,
     cj_suspended = (\<not> sch_active s), cj_schedule_id = sch_id s\<rparr>"

definition runner_crons :: "string \<Rightarrow> world \<Rightarrow> cron_job list" where
  "runner_crons ns w = filter (\<lambda>c. cj_namespace c = runner_namespace ns) (w_cronjobs w)"

definition cron_synced :: "string \<Rightarrow> world \<Rightarrow> bool" where
  "cron_synced ns w \<longleftrightarrow>
     mset (runner_crons ns w) = image_mset (cron_of ns) (mset (w_schedules w)) \<and>
     distinct (map sch_id (w_schedules w)) \<and> distinct (map sch_cronjob_name (w_schedules w)) \<and>
     (\<forall>s \<in> set (w_schedules w). trimmed (sch_cronjob_name s))"

lemma cron_of_name: "has_cron (runner_namespace ns) n (cron_of ns s) \<longleftrightarrow> sch_cronjob_name s = n"
  by (auto simp: has_cron_def cron_of_def)

lemma cron_synced_find:
  assumes "cron_synced ns w" and "s \<in> set (w_schedules w)"
  shows "List.find (has_cron (runner_namespace ns) (sch_cronjob_name s)) (w_cronjobs w) = Some (cron_of ns s)"
proof -
  let ?P = "has_cron (runner_namespace ns) (sch_cronjob_name s)"
  have crons: "set (runner_crons ns w) = cron_of ns ` set (w_schedules w)"
    using assms(1) unfolding cron_synced_def by (metis set_image_mset set_mset_mset)
  then have "cron_of ns s \<in> set (w_cronjobs w)" "?P (cron_of ns s)"
    using assms(2) by (auto simp: runner_crons_def cron_of_name)
  then obtain c where c: "List.find ?P (w_cronjobs w) = Some c"
    by (metis (mono_tags, lifting) find_None_iff not_Some_eq)
  then have "?P c" "c \<in> set (w_cronjobs w)" by (auto simp: find_Some_iff)
  then have "c \<in> set (runner_crons ns w)" by (simp add: runner_crons_def has_cron_def)
  then obtain t where t: "t \<in> set (w_schedules w)" "c = cron_of ns t" using crons by auto
  with \<open>?P c\<close> have "sch_cronjob_name t = sch_cronjob_name s" by (simp add: cron_of_name)
  with t(1) assms have "t = s" by (auto simp: cron_synced_def distinct_map inj_on_def)
  with c t(2) show ?thesis by simp
qed

lemma cron_synced_absent:
  assumes "cron_synced ns w" and "\<forall>s \<in> set (w_schedules w). sch_cronjob_name s \<noteq> n"
  shows "\<not> list_ex (has_cron (runner_namespace ns) n) (w_cronjobs w)"
proof
  assume "list_ex (has_cron (runner_namespace ns) n) (w_cronjobs w)"
  then obtain c where c: "c \<in> set (runner_crons ns w)" "cj_name c = n"
    by (auto simp: list_ex_iff has_cron_def runner_crons_def)
  have "set (runner_crons ns w) = cron_of ns ` set (w_schedules w)"
    using assms(1) unfolding cron_synced_def by (metis set_image_mset set_mset_mset)
  with c assms(2) show False by (auto simp: cron_of_def)
qed

text \<open>Changes of a row and of its CronJob.\<close>

lemma cron_synced_change:
  assumes sync: "cron_synced ns w" and f: "\<And>s. sch_id (f s) = sch_id s \<and> sch_cronjob_name (f s) = sch_cronjob_name s"
    and g: "\<And>s. s \<in> set (w_schedules w) \<Longrightarrow> g (cron_of ns s) = cron_of ns (f s)"
    and ns: "\<And>c. c \<in> set (w_cronjobs w) \<Longrightarrow> cj_namespace (g c) = cj_namespace c"
    and w': "w_schedules w' = map f (w_schedules w)" "w_cronjobs w' = map g (w_cronjobs w)"
  shows "cron_synced ns w'"
proof -
  have "runner_crons ns w' = map g (runner_crons ns w)"
    using ns w'(2) by (simp add: runner_crons_def filter_map comp_def cong: filter_cong)
  moreover have "image_mset g (image_mset (cron_of ns) (mset (w_schedules w))) =
      image_mset (cron_of ns) (image_mset f (mset (w_schedules w)))"
    unfolding image_mset.compositionality by (rule image_mset_cong) (simp add: g)
  ultimately have "mset (runner_crons ns w') = image_mset (cron_of ns) (mset (w_schedules w'))"
    using sync w'(1) by (simp add: cron_synced_def)
  then show ?thesis using sync f w'(1) by (simp add: cron_synced_def comp_def)
qed

lemma cron_synced_remove:
  assumes sync: "cron_synced ns w"
    and pq: "\<And>s. s \<in> set (w_schedules w) \<Longrightarrow> q (cron_of ns s) = p s"
    and w': "w_schedules w' = filter p (w_schedules w)" "w_cronjobs w' = filter q (w_cronjobs w)"
  shows "cron_synced ns w'"
proof -
  have "mset (runner_crons ns w') = filter_mset q (mset (runner_crons ns w))"
    by (simp add: runner_crons_def w'(2) filter_filter_mset conj_commute)
  also have "\<dots> = image_mset (cron_of ns) (mset (filter p (w_schedules w)))"
  proof -
    have "{#s \<in># mset (w_schedules w). q (cron_of ns s)#} = mset (filter p (w_schedules w))"
      unfolding mset_filter by (rule filter_mset_cong) (simp_all add: pq)
    then show ?thesis using sync by (simp add: cron_synced_def filter_mset_image_mset)
  qed
  finally show ?thesis using sync w'(1) by (simp add: cron_synced_def distinct_map_filter)
qed


section \<open>Requests\<close>

datatype schedule_request =
    Create_schedule string time create_schedule_cmd
  | Update_schedule time time string "string option" "bool option"
  | Delete_schedule string

fun serve_schedule :: "string \<Rightarrow> (string \<Rightarrow> bool) \<Rightarrow> schedule_request \<Rightarrow> world \<Rightarrow> world" where
  "serve_schedule ns ok (Create_schedule u t cmd) w = snd (create_schedule ns ok u t cmd w)"
| "serve_schedule ns ok (Update_schedule t1 t2 i cron active) w = snd (update_schedule ns ok t1 t2 i cron active w)"
| "serve_schedule ns ok (Delete_schedule i) w = snd (delete_schedule ns ok i w)"

text \<open>The identifier of a new schedule is new, also in the eight characters that name its CronJob.\<close>

fun fresh_request :: "schedule_request \<Rightarrow> world \<Rightarrow> bool" where
  "fresh_request (Create_schedule u t cmd) w =
     (trimmed (''vuhive-sched-'' @ take 8 u) \<and>
      list_all (\<lambda>s. sch_id s \<noteq> u \<and> sch_cronjob_name s \<noteq> ''vuhive-sched-'' @ take 8 u) (w_schedules w))"
| "fresh_request _ w = True"

inductive schedules_reach :: "string \<Rightarrow> (string \<Rightarrow> bool) \<Rightarrow> world \<Rightarrow> world \<Rightarrow> bool" for ns ok w where
  start: "schedules_reach ns ok w w"
| serve: "schedules_reach ns ok w v \<Longrightarrow> fresh_request r v \<Longrightarrow> schedules_reach ns ok w (serve_schedule ns ok r v)"

lemma new_schedule_fields:
  "new_schedule ok u t s a c p n e = Inr x \<Longrightarrow>
     sch_id x = u \<and> sch_cronjob_name x = ''vuhive-sched-'' @ take 8 u \<and> sch_active x"
  by (auto simp: new_schedule_def Let_def split: if_splits sum.splits)

lemma create_schedule_cases:
  assumes "w_faults w = []"
  shows "(\<exists>e. create_schedule ns ok u t cmd w = (Inl e, w)) \<or>
    (\<exists>s key. sch_id s = u \<and> sch_cronjob_name s = ''vuhive-sched-'' @ take 8 u \<and> sch_active s \<and>
       create_schedule ns ok u t cmd w = bindW (schedule_save s) (\<lambda>_. provision_schedule ns key s) w)"
proof -
  let ?cron = "validate_cron_expression ok (trim_space (cs_cron cmd))"
  let ?guards = "trim_space (cs_suite cmd) \<noteq> '''' \<and> trim_space (cs_artifact cmd) \<noteq> '''' \<and>
    trim_space (cs_profile cmd) \<noteq> '''' \<and> trim_space (cs_name cmd) \<noteq> '''' \<and> is_ok ?cron"
  define rest where "rest = (\<lambda>(suite :: test_suite, art :: artifact, prof :: runner_profile).
    bindW (liftW (new_schedule ok u t (suite_id suite) (art_id art) (cs_config cmd) (prof_id prof)
      (trim_space (cs_name cmd)) (trim_space (cs_cron cmd)))) (\<lambda>s.
    bindW (schedule_save s) (\<lambda>_. provision_schedule ns (s3_binary_key art) s)))"
  have start: "(\<exists>e. create_schedule ns ok u t cmd w = (Inl e, w)) \<or>
      create_schedule ns ok u t cmd w = bindW (schedule_parts cmd) rest w"
  proof (cases ?guards)
    case True
    then obtain v where "?cron = Inr v" by (auto simp: is_ok_iff)
    with True have "create_schedule ns ok u t cmd w = bindW (schedule_parts cmd) rest w"
      by (simp add: create_schedule_def bindW_liftW rest_def)
    then show ?thesis ..
  next
    case False
    then have "\<exists>e. create_schedule ns ok u t cmd w = (Inl e, w)"
      by (cases ?cron; simp add: create_schedule_def failW_def bindW_liftW) blast
    then show ?thesis ..
  qed
  have cases: "(\<exists>e. rest x w = (Inl e, w)) \<or>
      (\<exists>s key. sch_id s = u \<and> sch_cronjob_name s = ''vuhive-sched-'' @ take 8 u \<and> sch_active s \<and>
       rest x w = bindW (schedule_save s) (\<lambda>_. provision_schedule ns key s) w)" for x
  proof -
    obtain suite art prof where x: "x = (suite, art, prof)" by (cases x)
    show ?thesis
    proof (cases "new_schedule ok u t (suite_id suite) (art_id art) (cs_config cmd) (prof_id prof)
        (trim_space (cs_name cmd)) (trim_space (cs_cron cmd))")
      case (Inl e)
      then show ?thesis by (simp add: x rest_def bindW_def liftW_def)
    next
      case (Inr s)
      then have "rest x w = bindW (schedule_save s) (\<lambda>_. provision_schedule ns (s3_binary_key art) s) w"
        by (simp add: x rest_def bindW_def liftW_def)
      with new_schedule_fields [OF Inr] show ?thesis by blast
    qed
  qed
  from start show ?thesis
  proof
    assume "create_schedule ns ok u t cmd w = bindW (schedule_parts cmd) rest w"
    then have "(\<exists>e. create_schedule ns ok u t cmd w = (Inl e, w)) \<or>
        (\<exists>x. create_schedule ns ok u t cmd w = rest x w)"
      using bind_still [OF still_parts [OF assms], of cmd rest] by auto
    then show ?thesis
    proof
      assume "\<exists>x. create_schedule ns ok u t cmd w = rest x w"
      then obtain x where "create_schedule ns ok u t cmd w = rest x w" ..
      with cases [of x] show ?thesis by simp
    qed (rule disjI1)
  qed (rule disjI1)
qed

lemma upsert_cron:
  assumes "cron_synced ns w" and "find_row sch_id (w_schedules w) (sch_id s) = Some old"
  shows "w_schedules (put_schedule s w) =
    map (\<lambda>y. if sch_id y = sch_id s then merge_schedule y s else y) (w_schedules w)"
  using assms upsert_present [of sch_id "w_schedules w" s old merge_schedule]
  by (simp add: put_schedule_def cron_synced_def)

lemma create_schedule_synced:
  assumes "w_faults w = []" and sync: "cron_synced ns w" and fresh: "fresh_request (Create_schedule u t cmd) w"
  shows "cron_synced ns (snd (create_schedule ns ok u t cmd w))"
  using create_schedule_cases [OF assms(1), of ns ok u t cmd]
proof (elim disjE exE conjE)
  fix e assume "create_schedule ns ok u t cmd w = (Inl e, w)"
  then show ?thesis using sync by simp
next
  fix s key
  assume s: "sch_id s = u" "sch_cronjob_name s = ''vuhive-sched-'' @ take 8 u" "sch_active s"
    and c: "create_schedule ns ok u t cmd w = bindW (schedule_save s) (\<lambda>_. provision_schedule ns key s) w"
  let ?v = "put_schedule s w"
  have new: "\<forall>x \<in> set (w_schedules w). sch_id x \<noteq> u" "\<forall>x \<in> set (w_schedules w). sch_cronjob_name x \<noteq> sch_cronjob_name s"
    "trimmed (sch_cronjob_name s)"
    using fresh by (simp_all add: s(2) list_all_iff)
  have none: "find_row sch_id (w_schedules w) (sch_id s) = None" using new(1) s(1) by (simp add: find_row_None)
  then have v: "w_schedules ?v = w_schedules w @ [s]" "w_cronjobs ?v = w_cronjobs w" "w_faults ?v = []"
    using assms(1) by (simp_all add: put_schedule_def upsert_absent)
  have free: "\<not> list_ex (has_cron (runner_namespace ns) (sch_cronjob_name s)) (w_cronjobs w)"
    using cron_synced_absent [OF sync new(2)] .
  have run: "create_schedule ns ok u t cmd w = provision_schedule ns key s ?v"
    using c assms(1) by (simp add: bindW_def schedule_save_def)
  show ?thesis
  proof (cases "trim_space key = ''''")
    case True
    have row: "find_row sch_id (w_schedules w @ [s]) u = Some s" using none s(1) by (simp add: find_row_append)
    have "w_schedules (snd (provision_schedule ns key s ?v)) = delete_row sch_id u (w_schedules w @ [s])"
      "w_cronjobs (snd (provision_schedule ns key s ?v)) = w_cronjobs w"
      using True row v s(1)
      by (simp_all add: provision_schedule_def create_cron_job_def schedule_delete_def clear_schedule_refs_def effect_eval)
    moreover have "delete_row sch_id u (w_schedules w @ [s]) = w_schedules w"
      using new(1) s(1) by (simp add: delete_appended)
    ultimately show ?thesis using sync run by (simp add: cron_synced_def runner_crons_def)
  next
    case False
    let ?w = "?v\<lparr>w_cronjobs := cron_of ns s # w_cronjobs w\<rparr>"
    have "provision_schedule ns key s ?v = (Inr s, ?w)"
      using False v free s(3) by (simp add: provision_schedule_def create_cron_job_def effect_eval cron_of_def Let_def)
    moreover have "cron_synced ns ?w"
      using sync new v s by (auto simp: cron_synced_def runner_crons_def cron_of_def)
    ultimately show ?thesis using run by simp
  qed
qed


lemma schedule_changes_name:
  "apply_cron ok t c s = Inr s' \<Longrightarrow> sch_id s' = sch_id s \<and> sch_cronjob_name s' = sch_cronjob_name s"
  "apply_active t a s = Inr s' \<Longrightarrow> sch_id s' = sch_id s \<and> sch_cronjob_name s' = sch_cronjob_name s"
  by (auto simp: apply_cron_def apply_active_def update_cron_expression_def schedule_activate_def
      schedule_deactivate_def split: option.splits sum.splits if_splits)

text \<open>The CronJob of a stored schedule is found and changed.\<close>

definition with_cron :: "string \<Rightarrow> schedule \<Rightarrow> world \<Rightarrow> world" where
  "with_cron ns s w = w\<lparr>w_cronjobs :=
     map (\<lambda>d. if has_cron (runner_namespace ns) (sch_cronjob_name s) d then cron_of ns s else d) (w_cronjobs w)\<rparr>"

lemma update_cron_job_ok:
  assumes "w_faults w = []" and "cron_synced ns w" and "s \<in> set (w_schedules w)"
    and s': "sch_id s' = sch_id s" "sch_cronjob_name s' = sch_cronjob_name s"
  shows "update_cron_job ns s' w = (Inr (), with_cron ns s' w)"
proof -
  note find = cron_synced_find [OF assms(2,3)]
  have c: "(cron_of ns s)\<lparr>cj_schedule := sch_cron s', cj_suspended := \<not> sch_active s'\<rparr> = cron_of ns s'"
    using s' by (simp add: cron_of_def)
  have "list_ex (has_cron (runner_namespace ns) (sch_cronjob_name s)) (w_cronjobs w)"
    using find by (auto simp: find_Some_iff list_ex_iff)
  then show ?thesis
    using assms(1) find s' c
    by (simp add: update_cron_job_def cron_job_get_def find_first_def cron_job_update_def effect_eval with_cron_def
        cron_of_def)
qed

lemma with_cron_synced:
  assumes sync: "cron_synced ns w" and mem: "find_row sch_id (w_schedules w) (sch_id s) = Some s"
    and s': "sch_id s' = sch_id s" "sch_cronjob_name s' = sch_cronjob_name s"
  shows "cron_synced ns (put_schedule s' (with_cron ns s' w))"
proof (rule cron_synced_change [OF sync])
  let ?f = "\<lambda>y. if sch_id y = sch_id s' then merge_schedule y s' else y"
  let ?g = "\<lambda>d. if has_cron (runner_namespace ns) (sch_cronjob_name s') d then cron_of ns s' else d"
  have s: "s \<in> set (w_schedules w)" using mem by (auto dest: find_row_Some)
  have same: "y = s" if "y \<in> set (w_schedules w)" "sch_id y = sch_id s \<or> sch_cronjob_name y = sch_cronjob_name s" for y
    using that s sync by (auto simp: cron_synced_def distinct_map inj_on_def)
  show "w_schedules (put_schedule s' (with_cron ns s' w)) = map (\<lambda>y. if y = s then merge_schedule s s' else y) (w_schedules w)"
    using upsert_cron [OF sync, of s' s] mem s' same by (auto simp: put_schedule_def with_cron_def)
  show "w_cronjobs (put_schedule s' (with_cron ns s' w)) = map ?g (w_cronjobs w)"
    by (simp add: put_schedule_def with_cron_def)
  show "sch_id (if y = s then merge_schedule s s' else y) = sch_id y \<and>
      sch_cronjob_name (if y = s then merge_schedule s s' else y) = sch_cronjob_name y" for y
    using s' by (simp add: merge_schedule_def)
  show "?g (cron_of ns y) = cron_of ns (if y = s then merge_schedule s s' else y)"
    if "y \<in> set (w_schedules w)" for y
    using same [OF that] s' by (auto simp: cron_of_name) (simp add: cron_of_def merge_schedule_def)
  show "cj_namespace (?g c) = cj_namespace c" for c by (simp add: has_cron_def cron_of_def)
qed

lemma update_schedule_synced:
  assumes "w_faults w = []" and sync: "cron_synced ns w"
  shows "cron_synced ns (snd (update_schedule ns ok t1 t2 i c a w))"
proof -
  let ?rest = "\<lambda>s0. bindW (liftW (apply_cron ok t1 c s0)) (\<lambda>s1. bindW (liftW (apply_active t2 a s1)) (\<lambda>s2.
    bindW (update_cron_job ns s2) (\<lambda>_. bindW (schedule_save s2) (\<lambda>_. returnW s2))))"
  have rest: "cron_synced ns (snd (?rest s w))" if s: "find_row sch_id (w_schedules w) (trim_space i) = Some s" for s
  proof -
    have mem: "s \<in> set (w_schedules w)" "find_row sch_id (w_schedules w) (sch_id s) = Some s"
      using s find_row_Some [OF s] by auto
    show ?thesis
    proof (cases "apply_cron ok t1 c s")
      case (Inr s1)
      show ?thesis
      proof (cases "apply_active t2 a s1")
        case (Inr s2)
        note id = schedule_changes_name(1) [OF \<open>apply_cron ok t1 c s = Inr s1\<close>] schedule_changes_name(2) [OF Inr]
        then have s2: "sch_id s2 = sch_id s" "sch_cronjob_name s2 = sch_cronjob_name s" by simp_all
        have "?rest s w = (Inr s2, put_schedule s2 (with_cron ns s2 w))"
          using update_cron_job_ok [OF assms(1) sync mem(1) s2] Inr \<open>apply_cron ok t1 c s = Inr s1\<close> assms(1)
          by (simp add: effect_eval schedule_save_def with_cron_def)
        then show ?thesis using with_cron_synced [OF sync mem(2) s2] by simp
      qed (use Inr sync in \<open>simp add: bindW_liftW\<close>)
    qed (use sync in \<open>simp add: bindW_liftW\<close>)
  qed
  show ?thesis
  proof (cases "trim_space i = '''' \<or> (opt_trim c = None \<and> a = None)")
    case True
    then show ?thesis using sync by (auto simp: update_schedule_def failW_def)
  next
    case False
    then have "update_schedule ns ok t1 t2 i c a w = bindW (schedule_find_by_id ok (trim_space i)) ?rest w"
      by (auto simp: update_schedule_def)
    with bind_still [OF still_finds(5) [OF assms(1)], of ok "trim_space i" ?rest] rest sync
    show ?thesis by auto
  qed
qed

lemma delete_schedule_synced:
  assumes "w_faults w = []" and sync: "cron_synced ns w"
  shows "cron_synced ns (snd (delete_schedule ns ok i w))"
proof -
  let ?rest = "\<lambda>s. bindW (attempt (delete_cron_job ns (sch_cronjob_name s) '''')) (\<lambda>_. schedule_delete (trim_space i))"
  have rest: "cron_synced ns (snd (?rest s w))" if s: "find_row sch_id (w_schedules w) (trim_space i) = Some s" for s
  proof -
    from s have mem: "s \<in> set (w_schedules w)" "sch_id s = trim_space i" by (auto dest!: find_row_Some)
    have trim: "trim_space (sch_cronjob_name s) = sch_cronjob_name s"
      using mem(1) sync by (simp add: cron_synced_def trimmed_def)
    let ?P = "has_cron (runner_namespace ns) (sch_cronjob_name s)"
    let ?v = "w\<lparr>w_cronjobs := filter (\<lambda>c. \<not> ?P c) (w_cronjobs w)\<rparr>"
    have "list_ex ?P (w_cronjobs w)"
      using cron_synced_find [OF sync mem(1)] by (auto simp: find_Some_iff list_ex_iff)
    then have del: "delete_cron_job ns (sch_cronjob_name s) '''' w = (Inr (), ?v)"
      using assms(1) trim by (simp add: delete_cron_job_def cron_job_delete_def effect_eval Let_def)
    let ?u = "clear_schedule_refs (trim_space i) (?v\<lparr>w_schedules := delete_row sch_id (trim_space i) (w_schedules w)\<rparr>)"
    have "?rest s w = (Inr (), ?u)"
      using del assms(1) s by (simp add: effect_eval schedule_delete_def)
    moreover have "cron_synced ns ?u"
    proof (rule cron_synced_remove [OF sync])
      show "w_schedules ?u = filter (\<lambda>x. x \<noteq> s) (w_schedules w)"
        using sync mem by (auto simp: clear_schedule_refs_def delete_row_def cron_synced_def distinct_map inj_on_def
            intro!: filter_cong)
      show "w_cronjobs ?u = filter (\<lambda>c. \<not> ?P c) (w_cronjobs w)" by (simp add: clear_schedule_refs_def)
      show "(\<not> ?P (cron_of ns x)) = (x \<noteq> s)" if "x \<in> set (w_schedules w)" for x
        using that mem(1) sync by (auto simp: cron_of_name cron_synced_def distinct_map inj_on_def)
    qed
    ultimately show ?thesis by simp
  qed
  show ?thesis
  proof (cases "trim_space i = ''''")
    case True
    then show ?thesis using sync by (simp add: delete_schedule_def failW_def)
  next
    case False
    then have "delete_schedule ns ok i w = bindW (schedule_find_by_id ok (trim_space i)) ?rest w"
      by (simp add: delete_schedule_def)
    with bind_still [OF still_finds(5) [OF assms(1)], of ok "trim_space i" ?rest] rest sync
    show ?thesis by auto
  qed
qed


section \<open>Without faults\<close>

definition faultless :: "world \<Rightarrow> bool" where
  "faultless w \<longleftrightarrow> w_faults w = []"

named_theorems faultless_rules "code that does not invent faults"

lemma faultless_call [faultless_rules]:
  "(\<And>w. w_faults (snd (f w)) = w_faults w) \<Longrightarrow> holds faultless (port_call f) (\<lambda>_. True)"
  by (simp add: holds_def faultless_def)

lemma faultless_bind [faultless_rules]:
  "holds faultless m (\<lambda>_. True) \<Longrightarrow> (\<And>x. holds faultless (f x) (\<lambda>_. True)) \<Longrightarrow> holds faultless (bindW m f) (\<lambda>_. True)"
  by (rule holds_bind)

lemma faultless_attempt [faultless_rules]: "holds faultless m (\<lambda>_. True) \<Longrightarrow> holds faultless (attempt m) (\<lambda>_. True)"
  by (rule holds_weaken [OF holds_attempt]) simp_all

lemma faultless_simple [faultless_rules]:
  "holds faultless (returnW x) (\<lambda>_. True)" "holds faultless (failW e) (\<lambda>_. True)" "holds faultless (liftW r) (\<lambda>_. True)"
  by (simp_all add: holds_def returnW_def failW_def liftW_def)

lemma faultless_cases [faultless_rules]:
  "holds faultless m (\<lambda>_. True) \<Longrightarrow> holds faultless n (\<lambda>_. True) \<Longrightarrow> holds faultless (if b then m else n) (\<lambda>_. True)"
  "(\<And>e. holds faultless (f e) (\<lambda>_. True)) \<Longrightarrow> (\<And>x. holds faultless (g x) (\<lambda>_. True)) \<Longrightarrow>
    holds faultless (case r of Inl e \<Rightarrow> f e | Inr x \<Rightarrow> g x) (\<lambda>_. True)"
  "holds faultless m (\<lambda>_. True) \<Longrightarrow> (\<And>x. holds faultless (g x) (\<lambda>_. True)) \<Longrightarrow>
    holds faultless (case v of None \<Rightarrow> m | Some x \<Rightarrow> g x) (\<lambda>_. True)"
  "(\<And>x y z. holds faultless (h x y z) (\<lambda>_. True)) \<Longrightarrow>
    holds faultless (case t of (x, y, z) \<Rightarrow> h x y z) (\<lambda>_. True)"
  by (simp_all split: sum.split option.split prod.split)

lemma faultless_ports [faultless_rules]:
  "holds faultless (suite_find_by_id i) (\<lambda>_. True)" "holds faultless (artifact_find_by_id i) (\<lambda>_. True)"
  "holds faultless (config_find_by_id i) (\<lambda>_. True)" "holds faultless (profile_find_by_id i) (\<lambda>_. True)"
  "holds faultless (schedule_find_by_id ok i) (\<lambda>_. True)" "holds faultless (schedule_save s) (\<lambda>_. True)"
  "holds faultless (schedule_delete i) (\<lambda>_. True)" "holds faultless (cron_job_get n i) (\<lambda>_. True)"
  "holds faultless (cron_job_update c) (\<lambda>_. True)" "holds faultless (cron_job_delete n i) (\<lambda>_. True)"
  unfolding suite_find_by_id_def artifact_find_by_id_def config_find_by_id_def profile_find_by_id_def
    schedule_find_by_id_def schedule_save_def schedule_delete_def cron_job_get_def find_first_def
    cron_job_update_def cron_job_delete_def
  by (intro faultless_call; simp add: put_schedule_def clear_schedule_refs_def split: option.split)+

lemma faultless_create_cron [faultless_rules]: "holds faultless (create_cron_job ns s key) (\<lambda>_. True)"
  unfolding create_cron_job_def Let_def by (intro faultless_rules) simp

lemma serve_schedule_faultless: "w_faults w = [] \<Longrightarrow> w_faults (serve_schedule ns ok r w) = []"
proof -
  have "holds faultless (create_schedule ns ok u t cmd) (\<lambda>_. True)" for u t cmd
    unfolding create_schedule_def schedule_parts_def schedule_config_key_def provision_schedule_def
    by (intro faultless_rules)
  moreover have "holds faultless (update_schedule ns ok t1 t2 i c a) (\<lambda>_. True)" for t1 t2 i c a
    unfolding update_schedule_def update_cron_job_def by (intro faultless_rules)
  moreover have "holds faultless (delete_schedule ns ok i) (\<lambda>_. True)" for i
    unfolding delete_schedule_def delete_cron_job_def Let_def by (intro faultless_rules)
  ultimately show "w_faults w = [] \<Longrightarrow> w_faults (serve_schedule ns ok r w) = []"
    by (cases r) (auto simp: holds_def faultless_def)
qed

text \<open>
  C14: while the ports work, the cluster mirrors the schedules: after any sequence of creations, updates and
  deletions, failed ones included, the CronJobs of the runner namespace are exactly those of the stored
  schedules, one for each, with its cron expression and suspended when it is inactive.
\<close>

theorem schedules_mirrored:
  assumes "schedules_reach ns ok w v" and "w_faults w = []" and "cron_synced ns w"
  shows "mset (runner_crons ns v) = image_mset (cron_of ns) (mset (w_schedules v)) \<and>
    distinct (map sch_id (w_schedules v)) \<and> distinct (map sch_cronjob_name (w_schedules v))"
proof -
  have "w_faults v = [] \<and> cron_synced ns v"
    using assms(1)
  proof induction
    case (serve v r)
    then have v: "w_faults v = []" "cron_synced ns v" by simp_all
    have "cron_synced ns (serve_schedule ns ok r v)"
      using serve.hyps(2) v create_schedule_synced update_schedule_synced delete_schedule_synced by (cases r) auto
    then show ?case using v(1) serve_schedule_faultless by blast
  qed (use assms(2,3) in simp)
  then show ?thesis by (simp add: cron_synced_def)
qed

definition demo_schedule_cmd :: create_schedule_cmd where
  "demo_schedule_cmd = \<lparr>cs_suite = ''s1'', cs_artifact = ''a1'', cs_config = None, cs_profile = ''p1'',
     cs_name = ''nightly'', cs_cron = ''@daily''\<rparr>"

lemma demo_created:
  "map sch_cron (w_schedules (serve_schedule '''' (\<lambda>_. True) (Create_schedule ''12345678-9'' 5 demo_schedule_cmd)
     (demo_world [] []))) = [''@daily'']"
  by code_simp

theorem schedules_mirrored_witness:
  "\<exists>v s. w_schedules v = [s] \<and> sch_cron s = ''@daily'' \<and> runner_crons '''' v = [cron_of '''' s]"
proof -
  let ?r = "Create_schedule ''12345678-9'' 5 demo_schedule_cmd"
  let ?v = "serve_schedule '''' (\<lambda>_. True) ?r (demo_world [] [])"
  have sync: "cron_synced '''' (demo_world [] [])"
    by (simp add: cron_synced_def runner_crons_def demo_world_def)
  have "fresh_request ?r (demo_world [] [])"
    by (simp add: demo_world_def trimmed_def trim_space_graphic graphic_def)
  then have "schedules_reach '''' (\<lambda>_. True) (demo_world [] []) ?v"
    by (intro schedules_reach.serve schedules_reach.start)
  from schedules_mirrored [OF this _ sync]
  have "mset (runner_crons '''' ?v) = image_mset (cron_of '''') (mset (w_schedules ?v))" by simp
  moreover obtain s where s: "w_schedules ?v = [s]" "sch_cron s = ''@daily''"
    using demo_created by (cases "w_schedules ?v") auto
  ultimately have "runner_crons '''' ?v = [cron_of '''' s]" by simp
  then show ?thesis using s by blast
qed

section \<open>With faults\<close>

text \<open>
  C40: what a failing port leaves behind.  When the cluster fails during a deletion the error is dropped: the
  caller is told that the schedule is gone and its row is, but the CronJob stays and keeps starting runs.
  When the database fails after an update reached the cluster, the caller gets the error, the row keeps the
  old expression and the CronJob has the new one.
\<close>

theorem schedule_partial_failures:
  assumes sync: "cron_synced ns (w\<lparr>w_faults := []\<rparr>)" and row: "find_row sch_id (w_schedules w) (sch_id s) = Some s"
    and loads: "new_schedule_with_id ok s = Inr s" and id: "trim_space (sch_id s) = sch_id s" "sch_id s \<noteq> ''''"
    and e: "e \<noteq> ErrNotFound"
    and new: "update_cron_expression ok t1 (trim_space expr) s = Inr s'" "trim_space expr \<noteq> ''''"
  shows "(\<exists>v. delete_schedule ns ok (sch_id s) (w\<lparr>w_faults := [Fault_none, Fault_before e]\<rparr>) = (Inr (), v) \<and>
      find_row sch_id (w_schedules v) (sch_id s) = None \<and> cron_of ns s \<in> set (w_cronjobs v)) \<and>
    (\<exists>v. update_schedule ns ok t1 t2 (sch_id s) (Some expr) None
        (w\<lparr>w_faults := [Fault_none, Fault_none, Fault_none, Fault_before e]\<rparr>) = (Inl e, v) \<and>
      find_row sch_id (w_schedules v) (sch_id s) = Some s \<and> cron_of ns s' \<in> set (w_cronjobs v))"
proof
  have mem: "s \<in> set (w_schedules w)" using row by (auto dest: find_row_Some)
  let ?P = "has_cron (runner_namespace ns) (sch_cronjob_name s)"
  have find: "List.find ?P (w_cronjobs w) = Some (cron_of ns s)"
    using cron_synced_find [OF sync] mem by simp
  then have cron: "cron_of ns s \<in> set (w_cronjobs w)" "list_ex ?P (w_cronjobs w)"
    by (auto simp: find_Some_iff list_ex_iff)
  have "delete_cron_job ns (sch_cronjob_name s) '''' (w\<lparr>w_faults := [Fault_before e]\<rparr>) = (Inl e, w\<lparr>w_faults := []\<rparr>)"
    using e by (simp add: delete_cron_job_def cron_job_delete_def port_call_def effect_eval Let_def)
  then have "delete_schedule ns ok (sch_id s) (w\<lparr>w_faults := [Fault_none, Fault_before e]\<rparr>) =
      (Inr (), clear_schedule_refs (sch_id s) (w\<lparr>w_faults := [], w_schedules := delete_row sch_id (sch_id s) (w_schedules w)\<rparr>))"
    using id row loads by (simp add: delete_schedule_def schedule_find_by_id_def port_call_def effect_eval schedule_delete_def)
  then show "\<exists>v. delete_schedule ns ok (sch_id s) (w\<lparr>w_faults := [Fault_none, Fault_before e]\<rparr>) = (Inr (), v) \<and>
      find_row sch_id (w_schedules v) (sch_id s) = None \<and> cron_of ns s \<in> set (w_cronjobs v)"
    using cron(1) by (simp add: clear_schedule_refs_def find_row_delete)
  have s': "sch_cronjob_name s' = sch_cronjob_name s" "sch_id s' = sch_id s"
    using new(1) by (auto simp: update_cron_expression_def split: sum.splits)
  have c: "(cron_of ns s)\<lparr>cj_schedule := sch_cron s', cj_suspended := \<not> sch_active s'\<rparr> = cron_of ns s'"
    using s' by (simp add: cron_of_def)
  have cr: "apply_cron ok t1 (Some expr) s = Inr s'" using new by (simp add: apply_cron_def opt_trim_def)
  have "update_schedule ns ok t1 t2 (sch_id s) (Some expr) None
        (w\<lparr>w_faults := [Fault_none, Fault_none, Fault_none, Fault_before e]\<rparr>) =
      (Inl e, (with_cron ns s' w)\<lparr>w_faults := []\<rparr>)"
    using id row loads new(2) find cron(2) s'(1) c cr
    by (simp add: update_schedule_def opt_trim_def schedule_find_by_id_def port_call_def effect_eval apply_active_def
        update_cron_job_def cron_job_get_def find_first_def cron_job_update_def schedule_save_def with_cron_def cron_of_def)
  moreover have "cron_of ns s' \<in> set (w_cronjobs ((with_cron ns s' w)\<lparr>w_faults := []\<rparr>))"
    using cron s'(1) by (auto simp: with_cron_def list_ex_iff image_iff)
  ultimately show "\<exists>v. update_schedule ns ok t1 t2 (sch_id s) (Some expr) None
        (w\<lparr>w_faults := [Fault_none, Fault_none, Fault_none, Fault_before e]\<rparr>) = (Inl e, v) \<and>
      find_row sch_id (w_schedules v) (sch_id s) = Some s \<and> cron_of ns s' \<in> set (w_cronjobs v)"
    using row by (simp add: with_cron_def)
qed


definition demo_schedule :: schedule where
  "demo_schedule = \<lparr>sch_id = ''c1'', sch_suite_id = ''s1'', sch_artifact_id = ''a1'', sch_configuration_id = None,
     sch_profile_id = ''p1'', sch_name = ''nightly'', sch_cron = ''@daily'', sch_cronjob_name = ''vuhive-sched-c1'',
     sch_active = True, sch_created_at = 1, sch_updated_at = 1\<rparr>"

definition demo_scheduled :: world where
  "demo_scheduled = (demo_world [] [])\<lparr>w_schedules := [demo_schedule], w_cronjobs := [cron_of '''' demo_schedule]\<rparr>"

theorem schedule_partial_failures_witness:
  "\<exists>v. delete_schedule '''' (\<lambda>_. True) ''c1'' (demo_scheduled\<lparr>w_faults := [Fault_none, Fault_before ErrTimeout]\<rparr>) =
     (Inr (), v) \<and> w_cronjobs v \<noteq> []"
proof -
  have sync: "cron_synced '''' (demo_scheduled\<lparr>w_faults := []\<rparr>)"
    by (simp add: cron_synced_def demo_scheduled_def runner_crons_def cron_of_def demo_schedule_def trimmed_def
        trim_space_graphic graphic_def)
  have load: "new_schedule_with_id (\<lambda>_. True) demo_schedule = Inr demo_schedule"
    by (simp add: new_schedule_with_id_def validate_cron_expression_def demo_schedule_def trim_space_graphic graphic_def)
  have "\<exists>s'. update_cron_expression (\<lambda>_. True) 5 (trim_space ''@hourly'') demo_schedule = Inr s'"
    by (simp add: update_cron_expression_def validate_cron_expression_def trim_space_graphic graphic_def)
  then obtain s' where new: "update_cron_expression (\<lambda>_. True) 5 (trim_space ''@hourly'') demo_schedule = Inr s'" ..
  have "find_row sch_id (w_schedules demo_scheduled) (sch_id demo_schedule) = Some demo_schedule"
    "trim_space (sch_id demo_schedule) = sch_id demo_schedule" "sch_id demo_schedule \<noteq> ''''" "trim_space ''@hourly'' \<noteq> ''''"
    by (simp_all add: demo_scheduled_def demo_schedule_def trim_space_graphic graphic_def)
  from schedule_partial_failures [OF sync this(1) load this(2,3) _ new this(4), of ErrTimeout 5]
  have "\<exists>v. delete_schedule '''' (\<lambda>_. True) (sch_id demo_schedule)
      (demo_scheduled\<lparr>w_faults := [Fault_none, Fault_before ErrTimeout]\<rparr>) = (Inr (), v) \<and>
      cron_of '''' demo_schedule \<in> set (w_cronjobs v)" by auto
  then show ?thesis by (auto simp: demo_schedule_def)
qed

end
