(* ===== verification/Aes_Gcm.thy ===== *)
theory Aes_Gcm
  imports Sha256
begin

unbundle bit_operations_syntax

text \<open>
  \<open>crypto/aes\<close> and \<open>crypto/cipher\<close> of the standard library, as the two adapters use them that encrypt
  secrets and session tokens: AES with a key of 32 bytes (FIPS 197) in Galois counter mode with a nonce of 12
  bytes, a tag of 16 bytes and no additional data (NIST SP 800-38D).  What is sealed is opened again; the
  proof needs of the block cipher only that its blocks have 16 bytes.
\<close>

section \<open>The block cipher\<close>

definition aes_sbox :: "8 word list" where
  "aes_sbox =
     [0x63, 0x7c, 0x77, 0x7b, 0xf2, 0x6b, 0x6f, 0xc5, 0x30, 0x1, 0x67, 0x2b, 0xfe, 0xd7, 0xab, 0x76,
      0xca, 0x82, 0xc9, 0x7d, 0xfa, 0x59, 0x47, 0xf0, 0xad, 0xd4, 0xa2, 0xaf, 0x9c, 0xa4, 0x72, 0xc0,
      0xb7, 0xfd, 0x93, 0x26, 0x36, 0x3f, 0xf7, 0xcc, 0x34, 0xa5, 0xe5, 0xf1, 0x71, 0xd8, 0x31, 0x15,
      0x4, 0xc7, 0x23, 0xc3, 0x18, 0x96, 0x5, 0x9a, 0x7, 0x12, 0x80, 0xe2, 0xeb, 0x27, 0xb2, 0x75,
      0x9, 0x83, 0x2c, 0x1a, 0x1b, 0x6e, 0x5a, 0xa0, 0x52, 0x3b, 0xd6, 0xb3, 0x29, 0xe3, 0x2f, 0x84,
      0x53, 0xd1, 0x0, 0xed, 0x20, 0xfc, 0xb1, 0x5b, 0x6a, 0xcb, 0xbe, 0x39, 0x4a, 0x4c, 0x58, 0xcf,
      0xd0, 0xef, 0xaa, 0xfb, 0x43, 0x4d, 0x33, 0x85, 0x45, 0xf9, 0x2, 0x7f, 0x50, 0x3c, 0x9f, 0xa8,
      0x51, 0xa3, 0x40, 0x8f, 0x92, 0x9d, 0x38, 0xf5, 0xbc, 0xb6, 0xda, 0x21, 0x10, 0xff, 0xf3, 0xd2,
      0xcd, 0xc, 0x13, 0xec, 0x5f, 0x97, 0x44, 0x17, 0xc4, 0xa7, 0x7e, 0x3d, 0x64, 0x5d, 0x19, 0x73,
      0x60, 0x81, 0x4f, 0xdc, 0x22, 0x2a, 0x90, 0x88, 0x46, 0xee, 0xb8, 0x14, 0xde, 0x5e, 0xb, 0xdb,
      0xe0, 0x32, 0x3a, 0xa, 0x49, 0x6, 0x24, 0x5c, 0xc2, 0xd3, 0xac, 0x62, 0x91, 0x95, 0xe4, 0x79,
      0xe7, 0xc8, 0x37, 0x6d, 0x8d, 0xd5, 0x4e, 0xa9, 0x6c, 0x56, 0xf4, 0xea, 0x65, 0x7a, 0xae, 0x8,
      0xba, 0x78, 0x25, 0x2e, 0x1c, 0xa6, 0xb4, 0xc6, 0xe8, 0xdd, 0x74, 0x1f, 0x4b, 0xbd, 0x8b, 0x8a,
      0x70, 0x3e, 0xb5, 0x66, 0x48, 0x3, 0xf6, 0xe, 0x61, 0x35, 0x57, 0xb9, 0x86, 0xc1, 0x1d, 0x9e,
      0xe1, 0xf8, 0x98, 0x11, 0x69, 0xd9, 0x8e, 0x94, 0x9b, 0x1e, 0x87, 0xe9, 0xce, 0x55, 0x28, 0xdf,
      0x8c, 0xa1, 0x89, 0xd, 0xbf, 0xe6, 0x42, 0x68, 0x41, 0x99, 0x2d, 0xf, 0xb0, 0x54, 0xbb, 0x16]"

definition sub_byte :: "8 word \<Rightarrow> 8 word" where
  "sub_byte b = aes_sbox ! unat b"

text \<open>Multiplication by 2 and 3 in the field of AES.\<close>

definition xtime :: "8 word \<Rightarrow> 8 word" where
  "xtime b = (if bit b 7 then push_bit 1 b XOR 0x1b else push_bit 1 b)"

definition times3 :: "8 word \<Rightarrow> 8 word" where
  "times3 b = xtime b XOR b"

text \<open>A column is four bytes, a state or round key four columns.\<close>

type_synonym aes_state = "8 word list list"

fun mix_column :: "8 word list \<Rightarrow> 8 word list" where
  "mix_column [a, b, c, d] =
     [xtime a XOR times3 b XOR c XOR d, a XOR xtime b XOR times3 c XOR d,
      a XOR b XOR xtime c XOR times3 d, times3 a XOR b XOR c XOR xtime d]"
| "mix_column col = col"

definition shift_rows :: "aes_state \<Rightarrow> aes_state" where
  "shift_rows st = map (\<lambda>j. map (\<lambda>i. st ! ((j + i) mod 4) ! i) [0..<4]) [0..<4]"

definition xor_bytes :: "8 word list \<Rightarrow> 8 word list \<Rightarrow> 8 word list" where
  "xor_bytes = map2 (XOR)"

definition add_round_key :: "aes_state \<Rightarrow> aes_state \<Rightarrow> aes_state" where
  "add_round_key = map2 xor_bytes"

definition aes_round :: "aes_state \<Rightarrow> aes_state \<Rightarrow> aes_state" where
  "aes_round st key = add_round_key (map mix_column (shift_rows (map (map sub_byte) st))) key"

definition final_round :: "aes_state \<Rightarrow> aes_state \<Rightarrow> aes_state" where
  "final_round st key = add_round_key (shift_rows (map (map sub_byte) st)) key"

text \<open>
  The key schedule of a 32 byte key: 60 columns, computed newest first; \<open>i\<close> is the index of the next
  column and \<open>rc\<close> the next round constant.
\<close>

fun expand_key :: "nat \<Rightarrow> nat \<Rightarrow> 8 word \<Rightarrow> 8 word list list \<Rightarrow> 8 word list list" where
  "expand_key 0 i rc cols = cols"
| "expand_key (Suc n) i rc cols =
     (let prev = hd cols; old = cols ! 7;
          t = (if i mod 8 = 0 then xor_bytes (map sub_byte (rotate1 prev)) [rc, 0, 0, 0]
               else if i mod 8 = 4 then map sub_byte prev else prev)
      in expand_key n (Suc i) (if i mod 8 = 0 then xtime rc else rc) (xor_bytes old t # cols))"

function columns :: "'a list \<Rightarrow> 'a list list" where
  "columns xs = (if xs = [] then [] else take 4 xs # columns (drop 4 xs))"
  by pat_completeness auto
termination by (relation "measure length") (auto simp: length_greater_0_conv simp del: length_0_conv)

declare columns.simps [simp del]

definition round_keys :: "8 word list \<Rightarrow> aes_state list" where
  "round_keys key = columns (rev (expand_key 52 8 1 (rev (columns key))))"

definition aes_encrypt :: "8 word list \<Rightarrow> 8 word list \<Rightarrow> 8 word list" where
  "aes_encrypt key block =
     (let rks = round_keys key; st = add_round_key (columns block) (hd rks)
      in concat (final_round (foldl aes_round st (butlast (List.tl rks))) (last rks)))"

section \<open>Galois counter mode\<close>

definition byte_of_char :: "char \<Rightarrow> 8 word" where
  "byte_of_char c = word_of_int (of_char c)"

definition char_of_byte :: "8 word \<Rightarrow> char" where
  "char_of_byte b = char_of (uint b)"

fun xor_char :: "char \<Rightarrow> char \<Rightarrow> char" where
  "xor_char (Char a0 a1 a2 a3 a4 a5 a6 a7) (Char b0 b1 b2 b3 b4 b5 b6 b7) =
     Char (a0 \<noteq> b0) (a1 \<noteq> b1) (a2 \<noteq> b2) (a3 \<noteq> b3) (a4 \<noteq> b4) (a5 \<noteq> b5) (a6 \<noteq> b6) (a7 \<noteq> b7)"

definition block_chars :: "128 word \<Rightarrow> string" where
  "block_chars x = map (\<lambda>i. char_of (uint x div 256 ^ i mod 256)) (rev [0..<16])"

definition chars_block :: "string \<Rightarrow> 128 word" where
  "chars_block s = foldl (\<lambda>a c. push_bit 8 a OR word_of_int (of_char c)) 0 s"

text \<open>A block cipher on strings of 16 bytes, padded or cut to that length.\<close>

definition to_block :: "string \<Rightarrow> string" where
  "to_block s = take 16 (s @ replicate 16 (CHR 0x00))"

definition aes_block :: "string \<Rightarrow> 128 word \<Rightarrow> string" where
  "aes_block key x = to_block (map char_of_byte (aes_encrypt (map byte_of_char key) (map byte_of_char (block_chars x))))"

definition inc32 :: "128 word \<Rightarrow> 128 word" where
  "inc32 x = (x AND NOT 0xffffffff) OR ((x + 1) AND 0xffffffff)"

text \<open>The product in the field of GHASH: \<open>n\<close> bits of \<open>x\<close> are left, the most significant first.\<close>

fun gf_mult :: "nat \<Rightarrow> 128 word \<Rightarrow> 128 word \<Rightarrow> 128 word \<Rightarrow> 128 word" where
  "gf_mult 0 x v z = z"
| "gf_mult (Suc n) x v z =
     gf_mult n x (if bit v 0 then drop_bit 1 v XOR push_bit 120 0xe1 else drop_bit 1 v)
       (if bit x n then z XOR v else z)"

function ghash :: "128 word \<Rightarrow> 128 word \<Rightarrow> string \<Rightarrow> 128 word" where
  "ghash h acc s =
     (if s = [] then acc else ghash h (gf_mult 128 (acc XOR chars_block (to_block (take 16 s))) h 0) (drop 16 s))"
  by pat_completeness auto
termination by (relation "measure (\<lambda>(h, acc, s). length s)") (auto simp: length_greater_0_conv simp del: length_0_conv)

function counter_mode :: "(128 word \<Rightarrow> string) \<Rightarrow> 128 word \<Rightarrow> string \<Rightarrow> string" where
  "counter_mode E ctr s =
     (if s = [] then [] else map2 xor_char (take 16 s) (E ctr) @ counter_mode E (inc32 ctr) (drop 16 s))"
  by pat_completeness auto
termination by (relation "measure (\<lambda>(E, ctr, s). length s)") (auto simp: length_greater_0_conv simp del: length_0_conv)

declare ghash.simps [simp del] counter_mode.simps [simp del]

definition nonce_block :: "string \<Rightarrow> 128 word" where
  "nonce_block nonce = push_bit 32 (chars_block nonce) OR 1"

definition pad16 :: "string \<Rightarrow> string" where
  "pad16 s = s @ replicate ((16 - length s mod 16) mod 16) (CHR 0x00)"

definition gcm_tag :: "(128 word \<Rightarrow> string) \<Rightarrow> string \<Rightarrow> string \<Rightarrow> string" where
  "gcm_tag E nonce c =
     (let h = chars_block (E 0); s = ghash h 0 (pad16 c @ replicate 8 (CHR 0x00) @ length_bytes (length c))
      in map2 xor_char (E (nonce_block nonce)) (block_chars s))"

definition gcm_seal :: "(128 word \<Rightarrow> string) \<Rightarrow> string \<Rightarrow> string \<Rightarrow> string" where
  "gcm_seal E nonce p =
     (let c = counter_mode E (inc32 (nonce_block nonce)) p in c @ gcm_tag E nonce c)"

definition gcm_open :: "(128 word \<Rightarrow> string) \<Rightarrow> string \<Rightarrow> string \<Rightarrow> string option" where
  "gcm_open E nonce data =
     (if length data < 16 then None
      else let n = length data - 16; c = take n data
           in if drop n data = gcm_tag E nonce c
              then Some (counter_mode E (inc32 (nonce_block nonce)) c) else None)"

section \<open>What is sealed is opened\<close>

lemma xor_char_twice [simp]: "xor_char (xor_char a b) b = a"
  by (cases a; cases b) auto

lemma map2_xor_twice: "length k \<ge> length s \<Longrightarrow> map2 xor_char (map2 xor_char s k) k = s"
  by (induction s k rule: list_induct2') auto

lemma counter_mode_Nil [simp]: "counter_mode E ctr [] = []"
  by (simp add: counter_mode.simps)

lemma counter_mode_length:
  assumes "\<And>x. length (E x) = 16"
  shows "length (counter_mode E ctr s) = length s"
  using assms
proof (induction E ctr s rule: counter_mode.induct)
  case (1 E ctr s)
  then show ?case by (cases "s = []") (simp_all add: counter_mode.simps [of E ctr s])
qed

lemma counter_mode_twice:
  assumes "\<And>x. length (E x) = 16"
  shows "counter_mode E ctr (counter_mode E ctr s) = s"
  using assms
proof (induction E ctr s rule: counter_mode.induct)
  case (1 E ctr s)
  show ?case
  proof (cases "s = []")
    case True
    then show ?thesis by (simp add: counter_mode.simps)
  next
    case False
    have E: "length (E x) = 16" for x by (rule 1(2))
    let ?c = "map2 xor_char (take 16 s) (E ctr)" and ?r = "counter_mode E (inc32 ctr) (drop 16 s)"
    have c: "counter_mode E ctr s = ?c @ ?r" using False by (subst counter_mode.simps) simp
    have len: "length ?c = min 16 (length s)" by (simp add: E min.commute)
    have "?r = []" if "length s < 16"
      using that counter_mode_length [of E "inc32 ctr" "drop 16 s", OF E] by simp
    then have cut: "take 16 (?c @ ?r) = ?c" "drop 16 (?c @ ?r) = ?r"
      using len by (cases "length s < 16"; simp)+
    have ne: "?c @ ?r \<noteq> []" using False len by (cases s) auto
    have "counter_mode E ctr (?c @ ?r) = map2 xor_char ?c (E ctr) @ counter_mode E (inc32 ctr) ?r"
      unfolding counter_mode.simps [of E ctr "?c @ ?r"] cut using ne by simp
    also have "map2 xor_char ?c (E ctr) = take 16 s" by (intro map2_xor_twice) (simp add: E)
    also have "counter_mode E (inc32 ctr) ?r = drop 16 s" using 1(1) False E by blast
    finally show ?thesis by (simp add: c)
  qed
qed

lemma length_block_chars [simp]: "length (block_chars x) = 16"
  by (simp add: block_chars_def)

lemma gcm_tag_length: "(\<And>x. length (E x) = 16) \<Longrightarrow> length (gcm_tag E nonce c) = 16"
  by (simp add: gcm_tag_def Let_def)

lemma gcm_open_seal:
  assumes "\<And>x. length (E x) = 16"
  shows "gcm_open E nonce (gcm_seal E nonce p) = Some p"
  using gcm_tag_length [OF assms] counter_mode_twice [OF assms]
  by (simp add: gcm_open_def gcm_seal_def Let_def assms)

lemma gcm_seal_length:
  "(\<And>x. length (E x) = 16) \<Longrightarrow> length (gcm_seal E nonce p) = length p + 16"
  by (simp add: gcm_seal_def Let_def gcm_tag_length counter_mode_length)

lemma length_aes_block [simp]: "length (aes_block key x) = 16"
  by (simp add: aes_block_def to_block_def)

end
