(* ===== verification/Bff_Base.thy ===== *)
theory Bff_Base
  imports Go_Base
begin

text \<open>
  The errors of the BFF domain (\<^verbatim>\<open>internal/bff/domain/model/errors.go\<close>) and the results of its operations.
  An error is the sentinel that \<open>errors.Is\<close> finds in it; \<open>Bff_other\<close> is an error of a port that wraps none.
\<close>

datatype bff_err =
    ErrSessionNotFound | ErrSessionExpired | ErrInvalidSession | ErrConcurrentSessionModification
  | ErrControlPlaneUnavailable | ErrInvalidParameter | ErrBffUnauthorized | ErrRunNotFound | ErrSuiteNotFound
  | ErrProfileNotFound | ErrInternal | ErrCircuitOpen | Bff_other string

type_synonym 'a bff = "bff_err + 'a"

text \<open>State passing: \<open>then_do\<close> goes on with the result, or stops at the error.\<close>

definition then_do :: "('st \<Rightarrow> 'a bff \<times> 'st) \<Rightarrow> ('a \<Rightarrow> 'st \<Rightarrow> 'b bff \<times> 'st) \<Rightarrow> 'st \<Rightarrow> 'b bff \<times> 'st" where
  "then_do m f st = (case m st of (Inl e, st') \<Rightarrow> (Inl e, st') | (Inr x, st') \<Rightarrow> f x st')"

lemma then_do_simps [simp]:
  "m st = (Inr x, st') \<Longrightarrow> then_do m f st = f x st'"
  "m st = (Inl e, st') \<Longrightarrow> then_do m f st = (Inl e, st')"
  by (simp_all add: then_do_def)

end
