(* ===== verification/Ciphers.thy ===== *)
theory Ciphers
  imports Aes_Gcm Bff_Base
begin

text \<open>
  The two adapters that encrypt at rest: secrets in \<^verbatim>\<open>internal/adapters/outbound/crypto/aes_encryptor.go\<close> and
  session tokens in \<^verbatim>\<open>internal/bff/adapters/outbound/session/crypto/cipher.go\<close>, with \<open>encoding/base64\<close> and
  \<open>crypto/pbkdf2\<close> of the standard library.  The nonce that the code draws at random is an argument.  Their
  clients rely on the contract of the locale \<open>authenticated_cipher\<close>, which both adapters satisfy.
\<close>

section \<open>The contract\<close>

locale authenticated_cipher =
  fixes encrypt :: "string \<Rightarrow> string \<Rightarrow> string"
    and decrypt :: "string \<Rightarrow> 'e + string"
  assumes opens: "length n = 12 \<Longrightarrow> decrypt (encrypt n p) = Inr p"
    and nonblank: "encrypt n p \<noteq> ''''"
begin

lemma encrypt_inj:
  "length n = 12 \<Longrightarrow> length m = 12 \<Longrightarrow> encrypt n p = encrypt m q \<Longrightarrow> p = q"
  using opens by (metis sum.inject(2))

text \<open>A stored text that may be empty, which is kept as it is.\<close>

definition protect :: "string \<Rightarrow> string \<Rightarrow> string" where
  "protect n p = (if p = '''' then p else encrypt n p)"

definition unprotect :: "string \<Rightarrow> 'e + string" where
  "unprotect c = (if c = '''' then Inr c else decrypt c)"

lemma unprotect_protect: "length n = 12 \<Longrightarrow> unprotect (protect n p) = Inr p"
  by (simp add: protect_def unprotect_def opens nonblank)

end

section \<open>AESEncryptor\<close>

datatype crypto_err = ErrInvalidKeyLength | ErrCiphertextTooShort | ErrDecryptionFailed

definition key_size :: int where
  "key_size = 32"

definition new_aes_encryptor :: "string \<Rightarrow> crypto_err + string" where
  "new_aes_encryptor key = (if int (length key) \<noteq> key_size then Inl ErrInvalidKeyLength else Inr key)"

definition aes_encrypt_value :: "string \<Rightarrow> string \<Rightarrow> string \<Rightarrow> string" where
  "aes_encrypt_value key nonce plaintext = nonce @ gcm_seal (aes_block key) nonce plaintext"

definition aes_decrypt_value :: "string \<Rightarrow> string \<Rightarrow> crypto_err + string" where
  "aes_decrypt_value key c =
     (if length c < 12 + 16 then Inl ErrCiphertextTooShort
      else case gcm_open (aes_block key) (take 12 c) (drop 12 c) of
             None \<Rightarrow> Inl ErrDecryptionFailed
           | Some p \<Rightarrow> Inr p)"

interpretation aes_encryptor: authenticated_cipher "aes_encrypt_value key" "aes_decrypt_value key"
proof
  show "length n = 12 \<Longrightarrow> aes_decrypt_value key (aes_encrypt_value key n p) = Inr p" for n p
    using gcm_open_seal [of "aes_block key" n p] gcm_seal_length [of "aes_block key" n p]
    by (simp add: aes_decrypt_value_def aes_encrypt_value_def)
  show "aes_encrypt_value key n p \<noteq> ''''" for n p
    using gcm_seal_length [of "aes_block key" n p] by (auto simp: aes_encrypt_value_def)
qed

section \<open>Base64\<close>

definition b64_table :: string where
  "b64_table = ''ABCDEFGHIJKLMNOPQRSTUVWXYZabcdefghijklmnopqrstuvwxyz0123456789+/''"

definition sextet :: "int \<Rightarrow> char" where
  "sextet n = b64_table ! nat n"

definition b64_value :: "char \<Rightarrow> int option" where
  "b64_value c =
     (let n = (of_char c :: int)
      in if 65 \<le> n \<and> n \<le> 90 then Some (n - 65)
         else if 97 \<le> n \<and> n \<le> 122 then Some (n - 71)
         else if 48 \<le> n \<and> n \<le> 57 then Some (n + 4)
         else if n = 43 then Some 62 else if n = 47 then Some 63 else None)"

text \<open>High and low bits joined.\<close>

definition bits :: "int \<Rightarrow> int \<Rightarrow> int \<Rightarrow> int" where
  "bits h k l = h * k + l"

fun b64_encode :: "string \<Rightarrow> string" where
  "b64_encode [] = []"
| "b64_encode [a] =
     (let x = of_char a in [sextet (x div 4), sextet (bits (x mod 4) 16 0), CHR ''='', CHR ''=''])"
| "b64_encode [a, b] =
     (let x = of_char a; y = of_char b
      in [sextet (x div 4), sextet (bits (x mod 4) 16 (y div 16)), sextet (bits (y mod 16) 4 0), CHR ''=''])"
| "b64_encode (a # b # c # s) =
     (let x = of_char a; y = of_char b; z = of_char c
      in [sextet (x div 4), sextet (bits (x mod 4) 16 (y div 16)), sextet (bits (y mod 16) 4 (z div 64)), sextet (z mod 64)]
         @ b64_encode s)"

fun b64_quanta :: "string \<Rightarrow> string option" where
  "b64_quanta [] = Some []"
| "b64_quanta (a # b # c # d # s) =
     (case (b64_value a, b64_value b) of
        (Some x, Some y) \<Rightarrow>
          (let p = char_of (bits x 4 (y div 16)) in
           if c = CHR ''='' \<and> d = CHR ''='' then (if s = [] then Some [p] else None)
           else case b64_value c of
                  None \<Rightarrow> None
                | Some z \<Rightarrow>
                    (let q = char_of (bits (y mod 16) 16 (z div 4)) in
                     if d = CHR ''='' then (if s = [] then Some [p, q] else None)
                     else case (b64_value d, b64_quanta s) of
                            (Some v, Some r) \<Rightarrow> Some (p # q # char_of (bits (z mod 4) 64 v) # r)
                          | _ \<Rightarrow> None))
      | _ \<Rightarrow> None)"
| "b64_quanta _ = None"

text \<open>Line breaks are skipped.\<close>

definition b64_decode :: "string \<Rightarrow> string option" where
  "b64_decode s = b64_quanta (filter (\<lambda>c. c \<noteq> CHR 0x0A \<and> c \<noteq> CHR 0x0D) s)"

lemma b64_table_values: "list_all (\<lambda>k. b64_value (b64_table ! k) = Some (int k)) [0..<64]"
  by code_simp

lemma b64_value_sextet: "0 \<le> n \<Longrightarrow> n < 64 \<Longrightarrow> b64_value (sextet n) = Some n"
proof -
  assume n: "0 \<le> n" "n < 64"
  then have "nat n \<in> set [0..<64]" by auto
  then have "b64_value (b64_table ! nat n) = Some (int (nat n))"
    using b64_table_values unfolding list_all_iff by blast
  with n show ?thesis by (simp add: sextet_def)
qed

lemma sextet_other: "0 \<le> n \<Longrightarrow> n < 64 \<Longrightarrow> sextet n \<noteq> CHR ''='' \<and> sextet n \<noteq> CHR 0x0A \<and> sextet n \<noteq> CHR 0x0D"
  using b64_value_sextet [of n] by (auto simp: b64_value_def)

lemma byte_bounds: "0 \<le> (of_char c :: int)" "(of_char c :: int) < 256"
proof -
  have "(of_char c :: int) = of_char c mod 256" by simp
  then show "0 \<le> (of_char c :: int)" "(of_char c :: int) < 256" by (metis pos_mod_sign pos_mod_bound zero_less_numeral)+
qed

lemma bits_parts:
  assumes "0 \<le> l" "l < k"
  shows "bits h k l div k = h" "bits h k l mod k = l"
  using assms by (simp_all add: bits_def)

lemma bits_bound: "0 \<le> l \<Longrightarrow> l < k \<Longrightarrow> 0 \<le> h \<Longrightarrow> h < m \<Longrightarrow> 0 \<le> bits h k l \<and> bits h k l < m * k"
proof -
  assume a: "0 \<le> l" "l < k" "0 \<le> h" "h < m"
  then have "(h + 1) * k \<le> m * k" by (intro mult_right_mono) simp_all
  with a show ?thesis by (auto simp: bits_def algebra_simps)
qed

lemma bits_whole: "bits (x div k) k (x mod k) = x"
  by (simp add: bits_def)

lemma byte_parts:
  "0 \<le> of_char c div (4 :: int)" "of_char c div (4 :: int) < 64" "0 \<le> of_char c div (16 :: int)"
  "of_char c div (16 :: int) < 16" "0 \<le> of_char c div (64 :: int)" "of_char c div (64 :: int) < 4"
  using byte_bounds [of c] by auto

lemma sextet_parts:
  "0 \<le> bits (of_char a mod 4) 16 (of_char b div 16)" "bits (of_char a mod 4) 16 (of_char b div 16) < 64"
  "0 \<le> bits (of_char b mod 16) 4 (of_char c div 64)" "bits (of_char b mod 16) 4 (of_char c div 64) < 64"
  "0 \<le> bits (of_char a mod 4) 16 0" "bits (of_char a mod 4) 16 0 < 64"
  "0 \<le> bits (of_char b mod 16) 4 0" "bits (of_char b mod 16) 4 0 < 64"
  using bits_bound [of "of_char b div 16" 16 "of_char a mod 4" 4] bits_bound [of "of_char c div 64" 4 "of_char b mod 16" 16]
    bits_bound [of 0 16 "of_char a mod 4" 4] bits_bound [of 0 4 "of_char b mod 16" 16] byte_parts
  by simp_all

lemmas sextet_facts = b64_value_sextet sextet_other sextet_parts byte_parts bits_parts bits_whole

lemma b64_quanta_encode: "b64_quanta (b64_encode s) = Some s"
  by (induction s rule: b64_encode.induct) (simp_all add: Let_def sextet_facts)

lemma b64_encode_lines: "filter (\<lambda>c. c \<noteq> CHR 0x0A \<and> c \<noteq> CHR 0x0D) (b64_encode s) = b64_encode s"
  by (induction s rule: b64_encode.induct) (simp_all add: Let_def sextet_facts)

lemma b64_roundtrip: "b64_decode (b64_encode s) = Some s"
  by (simp add: b64_decode_def b64_encode_lines b64_quanta_encode)

section \<open>TokenCipher\<close>

definition hmac_pad :: "8 word \<Rightarrow> string \<Rightarrow> string" where
  "hmac_pad p key = map (\<lambda>c. char_of_byte (byte_of_char c XOR p)) key"

definition sha256_bytes :: "string \<Rightarrow> string" where
  "sha256_bytes s = concat (map (\<lambda>w. map (\<lambda>i. char_of (uint w div 256 ^ i mod 256)) (rev [0..<4])) (sha256_words s))"

definition hmac_sha256 :: "string \<Rightarrow> string \<Rightarrow> string" where
  "hmac_sha256 key msg =
     (let k0 = (if length key > 64 then sha256_bytes key else key);
          k = k0 @ replicate (64 - length k0) (CHR 0x00)
      in sha256_bytes (hmac_pad 0x5c k @ sha256_bytes (hmac_pad 0x36 k @ msg)))"

text \<open>PBKDF2 for a key of one block: the last value and the exclusive or of all.\<close>

definition pbkdf2_step :: "string \<Rightarrow> string \<times> string \<Rightarrow> string \<times> string" where
  "pbkdf2_step pass st = (let u = hmac_sha256 pass (fst st) in (u, map2 xor_char (snd st) u))"

definition pbkdf2 :: "string \<Rightarrow> string \<Rightarrow> nat \<Rightarrow> string" where
  "pbkdf2 pass salt iterations =
     (let u = hmac_sha256 pass (salt @ [CHR 0x00, CHR 0x00, CHR 0x00, CHR 0x01])
      in snd ((pbkdf2_step pass ^^ (iterations - 1)) (u, u)))"

definition pbkdf2_salt :: string where
  "pbkdf2_salt = ''vuhive-cloud-bff-session-token-cipher-v1''"

definition new_token_cipher :: "string \<Rightarrow> bff_err + string" where
  "new_token_cipher key = (if int (length key) \<noteq> key_size then Inl ErrInvalidParameter else Inr key)"

definition new_token_cipher_from_passphrase :: "string \<Rightarrow> bff_err + string" where
  "new_token_cipher_from_passphrase pass =
     (if pass = '''' then Inl ErrInvalidParameter else new_token_cipher (pbkdf2 pass pbkdf2_salt 100000))"

definition token_encrypt :: "string \<Rightarrow> string \<Rightarrow> string \<Rightarrow> string" where
  "token_encrypt key nonce plaintext = b64_encode (nonce @ gcm_seal (aes_block key) nonce plaintext)"

definition token_decrypt :: "string \<Rightarrow> string \<Rightarrow> bff_err + string" where
  "token_decrypt key c =
     (case b64_decode c of
        None \<Rightarrow> Inl ErrInvalidParameter
      | Some data \<Rightarrow>
          if length data < 12 then Inl ErrInvalidParameter
          else case gcm_open (aes_block key) (take 12 data) (drop 12 data) of
                 None \<Rightarrow> Inl ErrBffUnauthorized
               | Some p \<Rightarrow> Inr p)"

lemma b64_encode_Nil: "b64_encode s = [] \<longleftrightarrow> s = []"
  by (cases s rule: b64_encode.cases) (simp_all add: Let_def)

interpretation token_cipher: authenticated_cipher "token_encrypt key" "token_decrypt key"
proof
  show "length n = 12 \<Longrightarrow> token_decrypt key (token_encrypt key n p) = Inr p" for n p
    using gcm_open_seal [of "aes_block key" n p]
    by (simp add: token_decrypt_def token_encrypt_def b64_roundtrip)
  show "token_encrypt key n p \<noteq> ''''" for n p
    using gcm_seal_length [of "aes_block key" n p] by (auto simp: token_encrypt_def b64_encode_Nil)
qed

lemma length_sha256_bytes: "length (sha256_bytes s) = 32"
  using length_sha256 [of s] by (simp add: sha256_bytes_def length_concat comp_def sum_list_triv)

text \<open>A passphrase that is not empty always gives a cipher.\<close>

lemma passphrase_accepted:
  assumes "pass \<noteq> ''''"
  shows "\<exists>key. new_token_cipher_from_passphrase pass = Inr key \<and> length key = 32"
proof -
  have "length (fst ((pbkdf2_step pass ^^ n) (u, t))) = 32 \<and> length (snd ((pbkdf2_step pass ^^ n) (u, t))) = 32"
    if "length u = 32" "length t = 32" for n u t
    using that by (induction n) (simp_all add: pbkdf2_step_def Let_def hmac_sha256_def length_sha256_bytes)
  moreover have "length (hmac_sha256 pass m) = 32" for m by (simp add: hmac_sha256_def Let_def length_sha256_bytes)
  ultimately have "length (pbkdf2 pass pbkdf2_salt n) = 32" for n by (simp add: pbkdf2_def Let_def)
  then show ?thesis
    using assms by (simp add: new_token_cipher_from_passphrase_def new_token_cipher_def key_size_def)
qed

end
