(* ===== verification/Secret_Safety.thy ===== *)
theory Secret_Safety
  imports Catalogue Run_Outcomes Ciphers "HOL-Library.Multiset"
begin

text \<open>
  What is stored as a secret can be read again, for every cipher that keeps its contract; the AES encryptor
  does.
\<close>

section \<open>The secret service\<close>

text \<open>
  \<^verbatim>\<open>internal/application/service/secret_service.go\<close>: secrets of a suite, stored encrypted.  The encryptor is
  a pair of functions, \<open>enc\<close> and \<open>dec\<close>; the nonce of an encryption is an argument, \<open>None\<close> when the source of
  randomness fails.  A nil port is a flag of the environment.
\<close>

section \<open>Operations\<close>

record secret_env =
  se_encryptor :: bool
  se_suites :: bool
  se_secrets :: bool

type_synonym encryptor = "string \<Rightarrow> string \<Rightarrow> string"

definition encrypt_value :: "encryptor \<Rightarrow> string option \<Rightarrow> string \<Rightarrow> string result" where
  "encrypt_value enc nonce v =
     (case nonce of None \<Rightarrow> Inl (Err_Port ''failed to encrypt secret value'') | Some n \<Rightarrow> Inr (enc n v))"

definition secret_suite :: "secret_env \<Rightarrow> string \<Rightarrow> unit op" where
  "secret_suite env suite =
     (if se_suites env then bindW (suite_find_by_id suite) (\<lambda>_. returnW ()) else returnW ())"

definition create_secret ::
  "secret_env \<Rightarrow> encryptor \<Rightarrow> string option \<Rightarrow> string \<Rightarrow> time \<Rightarrow> string \<Rightarrow> string \<Rightarrow> string \<Rightarrow> secret op" where
  "create_secret env enc nonce uuid now suite key val =
     (if \<not> se_encryptor env then failW ErrSecretsDisabled
      else
        let sid = trim_space suite; k = trim_space key; v = trim_space val in
        if sid = '''' then failW ErrValidation
        else
          bindW (liftW (validate_secret_key k)) (\<lambda>_.
          if v = '''' then failW ErrValidation
          else
            bindW (secret_suite env sid) (\<lambda>_.
            bindW (liftW (encrypt_value enc nonce v)) (\<lambda>c.
            bindW (liftW (new_secret uuid now sid k c)) (\<lambda>s.
            bindW (if se_secrets env then secret_save s else returnW ()) (\<lambda>_. returnW s))))))"

definition list_secrets :: "secret_env \<Rightarrow> string \<Rightarrow> secret list op" where
  "list_secrets env suite =
     (if \<not> se_encryptor env then failW ErrSecretsDisabled
      else if trim_space suite = '''' then failW ErrValidation
      else bindW (secret_suite env (trim_space suite)) (\<lambda>_.
           if \<not> se_secrets env then returnW [] else secret_list_by_suite (trim_space suite)))"

definition secret_of_suite :: "secret_env \<Rightarrow> string \<Rightarrow> string \<Rightarrow> secret op" where
  "secret_of_suite env suite i =
     (if \<not> se_secrets env then failW ErrNotFound
      else bindW (secret_find_by_id i) (\<lambda>s. if sec_suite_id s \<noteq> suite then failW ErrNotFound else returnW s))"

definition update_secret ::
  "secret_env \<Rightarrow> encryptor \<Rightarrow> string option \<Rightarrow> time \<Rightarrow> string \<Rightarrow> string \<Rightarrow> string \<Rightarrow> secret op" where
  "update_secret env enc nonce now suite i val =
     (if \<not> se_encryptor env then failW ErrSecretsDisabled
      else
        let sid = trim_space suite; xid = trim_space i; v = trim_space val in
        if sid = '''' \<or> xid = '''' then failW ErrValidation
        else
          bindW (secret_suite env sid) (\<lambda>_.
          bindW (secret_of_suite env sid xid) (\<lambda>s.
          if v = '''' then failW ErrValidation
          else
            bindW (liftW (encrypt_value enc nonce v)) (\<lambda>c.
            bindW (liftW (secret_update_value now c s)) (\<lambda>s'.
            bindW (secret_save s') (\<lambda>_. returnW s'))))))"

definition delete_secret :: "secret_env \<Rightarrow> string \<Rightarrow> string \<Rightarrow> unit op" where
  "delete_secret env suite i =
     (if \<not> se_encryptor env then failW ErrSecretsDisabled
      else if trim_space suite = '''' \<or> trim_space i = '''' then failW ErrValidation
      else bindW (secret_of_suite env (trim_space suite) (trim_space i)) (\<lambda>_. secret_delete (trim_space i)))"

text \<open>The secrets by key; of two with the same key the later one counts.\<close>

definition secrets_by_key :: "secret list \<Rightarrow> string \<rightharpoonup> secret" where
  "secrets_by_key ss = map_of (rev (map (\<lambda>s. (sec_key s, s)) ss))"

fun decrypt_keys :: "(string \<Rightarrow> 'e + string) \<Rightarrow> (string \<rightharpoonup> secret) \<Rightarrow> string list \<Rightarrow> (string \<rightharpoonup> string) \<Rightarrow> (string \<rightharpoonup> string) result" where
  "decrypt_keys dec table [] acc = Inr acc"
| "decrypt_keys dec table (k # ks) acc =
     (case table k of
        None \<Rightarrow> Inl ErrMissingSecret
      | Some s \<Rightarrow>
          (case dec (encrypted_value s) of
             Inl _ \<Rightarrow> Inl (Err_Port ''failed to decrypt secret'')
           | Inr p \<Rightarrow> decrypt_keys dec table ks (acc(k \<mapsto> p))))"

definition get_decrypted_secrets ::
  "secret_env \<Rightarrow> (string \<Rightarrow> 'e + string) \<Rightarrow> string \<Rightarrow> string list \<Rightarrow> (string \<rightharpoonup> string) op" where
  "get_decrypted_secrets env dec suite ks =
     (if \<not> se_encryptor env then failW ErrSecretsDisabled
      else if \<not> se_secrets env then failW ErrValidation
      else
        bindW (secret_list_by_suite (trim_space suite)) (\<lambda>ss.
        let table = secrets_by_key ss in
        if list_ex (\<lambda>k. table k = None) ks then failW ErrMissingSecret
        else liftW (decrypt_keys dec table ks Map.empty)))"

section \<open>The table of secrets\<close>

definition secrets_ok :: "world \<Rightarrow> bool" where
  "secrets_ok w \<longleftrightarrow>
     distinct (map sec_id (w_secrets w)) \<and>
     distinct (map (\<lambda>s. (sec_suite_id s, sec_key s)) (w_secrets w)) \<and>
     (\<forall>s \<in> set (w_secrets w). load_secret s = Inr s)"

lemma mset_insert_by_key: "mset (insert_by_key s ss) = add_mset s (mset ss)"
  by (induction ss) auto

lemma mset_secret_sort: "mset (foldr insert_by_key ss []) = mset ss"
  by (induction ss) (simp_all add: mset_insert_by_key)

lemma secret_list_ok:
  assumes "w_faults w = []" and "secrets_ok w"
  obtains ss where "secret_list_by_suite i w = (Inr ss, w)" "mset ss = mset (filter (\<lambda>s. sec_suite_id s = i) (w_secrets w))"
proof -
  let ?rows = "filter (\<lambda>s. sec_suite_id s = i) (w_secrets w)"
  let ?ss = "foldr insert_by_key ?rows []"
  have m: "mset ?ss = mset ?rows" by (rule mset_secret_sort)
  then have "set ?ss = set ?rows" by (rule mset_eq_setD)
  then have "collect_results (map load_secret ?ss) = Inr ?ss"
    using assms(2) by (intro collect_loaded) (simp add: secrets_ok_def)
  then show thesis using assms(1) m that by (simp add: secret_list_by_suite_def)
qed

lemma table_lookup:
  assumes "mset ss = mset (filter (\<lambda>s. sec_suite_id s = i) (w_secrets w))" and "secrets_ok w"
    and "s \<in> set (w_secrets w)" "sec_suite_id s = i"
  shows "secrets_by_key ss (sec_key s) = Some s"
proof -
  let ?rows = "filter (\<lambda>s. sec_suite_id s = i) (w_secrets w)"
  have "inj_on sec_key (set ?rows)"
    using assms(2) by (auto simp: secrets_ok_def distinct_map inj_on_def)
  moreover have "distinct ?rows" using assms(2) by (simp add: secrets_ok_def distinct_map)
  ultimately have "distinct (map sec_key ?rows)" by (simp add: distinct_map)
  then have "distinct (map sec_key ss)"
    using assms(1) mset_eq_imp_distinct_iff [of "map sec_key ss" "map sec_key ?rows"] by simp
  moreover have "s \<in> set ss" using assms(1,3,4) mset_eq_setD by fastforce
  ultimately show ?thesis
    unfolding secrets_by_key_def by (intro map_of_is_SomeI) (auto simp: rev_map [symmetric] comp_def)
qed

section \<open>Reading\<close>

definition full_secret_env :: secret_env where
  "full_secret_env = \<lparr>se_encryptor = True, se_suites = True, se_secrets = True\<rparr>"

context authenticated_cipher begin

lemma stored_secret_readable:
  assumes "w_faults w = []" and "secrets_ok w" and "s \<in> set (w_secrets w)" and "sec_suite_id s = trim_space suite"
    and "encrypted_value s = encrypt n v" and "length n = 12"
  shows "get_decrypted_secrets full_secret_env decrypt suite [sec_key s] w = (Inr [sec_key s \<mapsto> v], w)"
proof -
  obtain ss where ss: "secret_list_by_suite (trim_space suite) w = (Inr ss, w)"
    "mset ss = mset (filter (\<lambda>s. sec_suite_id s = trim_space suite) (w_secrets w))"
    using secret_list_ok [OF assms(1,2)] .
  have "secrets_by_key ss (sec_key s) = Some s"
    using table_lookup [OF ss(2) assms(2-4)] .
  then show ?thesis
    using ss(1) assms(5,6) opens
    by (simp add: get_decrypted_secrets_def full_secret_env_def bindW_def liftW_def Let_def)
qed

lemma created_secret_readable:
  assumes "w_faults w = []" and ok: "secrets_ok w" and suite: "suite_find_by_id (trim_space suite) w = (Inr st, w)"
    "trim_space suite \<noteq> ''''" and key: "secret_key_pattern (trim_space key)" and val: "trim_space val \<noteq> ''''"
    and fresh: "\<forall>s \<in> set (w_secrets w). sec_id s \<noteq> uuid \<and> (sec_suite_id s, sec_key s) \<noteq> (trim_space suite, trim_space key)"
    and n: "length n = 12"
  shows "\<exists>s w'. create_secret full_secret_env encrypt (Some n) uuid now suite key val w = (Inr s, w') \<and>
    secrets_ok w' \<and> w_faults w' = [] \<and> s \<in> set (w_secrets w') \<and> w_suites w' = w_suites w \<and>
    sec_id s = uuid \<and> sec_suite_id s = trim_space suite \<and> sec_key s = trim_space key \<and>
    get_decrypted_secrets full_secret_env decrypt suite [trim_space key] w' = (Inr [trim_space key \<mapsto> trim_space val], w')"
proof -
  let ?s = "\<lparr>sec_id = uuid, sec_suite_id = trim_space suite, sec_key = trim_space key,
    encrypted_value = encrypt n (trim_space val), sec_created_at = now, sec_updated_at = now\<rparr>"
  let ?w = "w\<lparr>w_secrets := w_secrets w @ [?s]\<rparr>"
  have valid: "validate_secret_key (trim_space key) = Inr ()"
    using key by (simp add: validate_secret_key_def secret_key_pattern_def split: list.splits)
  then have new: "new_secret uuid now (trim_space suite) (trim_space key) (encrypt n (trim_space val)) = Inr ?s"
    using suite(2) nonblank by (simp add: new_secret_def new_secret_with_id_def Let_def)
  have load: "load_secret ?s = Inr ?s"
    using valid suite(2) nonblank by (simp add: load_secret_def new_secret_with_id_def Let_def)
  have "find_row sec_id (w_secrets w) uuid = None" using fresh by (simp add: find_row_None)
  then have put: "put_secret ?s w = ?w"
    by (simp add: put_secret_def upsert_absent)
  have w': "secrets_ok ?w" using ok load fresh by (auto simp: secrets_ok_def)
  have "create_secret full_secret_env encrypt (Some n) uuid now suite key val w = (Inr ?s, ?w)"
    using assms(1) suite val valid new put
    by (simp add: create_secret_def full_secret_env_def encrypt_value_def secret_suite_def secret_save_def
        bindW_def liftW_def returnW_def Let_def)
  moreover have "get_decrypted_secrets full_secret_env decrypt suite [sec_key ?s] ?w = (Inr [sec_key ?s \<mapsto> trim_space val], ?w)"
    by (rule stored_secret_readable [OF _ w']) (use assms(1) n in simp_all)
  ultimately show ?thesis using w' assms(1) by auto
qed

lemma updated_secret_readable:
  assumes "w_faults w = []" and ok: "secrets_ok w" and suite: "suite_find_by_id (trim_space suite) w = (Inr st, w)"
    "trim_space suite \<noteq> ''''" and row: "s \<in> set (w_secrets w)" "sec_suite_id s = trim_space suite"
    "trim_space i = sec_id s" "sec_id s \<noteq> ''''" and val: "trim_space val \<noteq> ''''" and n: "length n = 12"
  shows "\<exists>s' w'. update_secret full_secret_env encrypt (Some n) now suite i val w = (Inr s', w') \<and>
    secrets_ok w' \<and> sec_id s' = sec_id s \<and> sec_key s' = sec_key s \<and>
    get_decrypted_secrets full_secret_env decrypt suite [sec_key s] w' = (Inr [sec_key s \<mapsto> trim_space val], w')"
proof -
  let ?s = "s\<lparr>encrypted_value := encrypt n (trim_space val), sec_updated_at := now\<rparr>"
  have find: "find_row sec_id (w_secrets w) (sec_id s) = Some s"
    using ok row(1) by (intro find_row_mem) (simp add: secrets_ok_def)
  have first: "List.find (\<lambda>x. sec_id x = sec_id s) xs = find_row sec_id xs (sec_id s)" for xs
    by (induction xs) auto
  have load: "load_secret s = Inr s" using ok row(1) by (simp add: secrets_ok_def)
  then have new: "load_secret ?s = Inr ?s"
    using nonblank by (cases s) (auto simp: load_secret_def new_secret_with_id_def Let_def split: if_splits sum.splits)
  let ?rows = "map (\<lambda>x. if x = s then ?s else x) (w_secrets w)"
  let ?w = "w\<lparr>w_secrets := ?rows\<rparr>"
  have same: "x = s" if "x \<in> set (w_secrets w)" "sec_id x = sec_id s" for x
    using that ok row(1) by (auto simp: secrets_ok_def distinct_map inj_on_def)
  have "upsert sec_id merge_secret ?s (w_secrets w) =
      map (\<lambda>x. if sec_id x = sec_id s then merge_secret x ?s else x) (w_secrets w)"
    using upsert_present [of sec_id "w_secrets w" ?s s merge_secret] find ok by (simp add: secrets_ok_def)
  also have "\<dots> = ?rows" using same by (auto simp: merge_secret_def)
  finally have put: "put_secret ?s w = ?w" by (simp add: put_secret_def)
  have ids: "map sec_id ?rows = map sec_id (w_secrets w)" by simp
  have ks: "map (\<lambda>s. (sec_suite_id s, sec_key s)) ?rows = map (\<lambda>s. (sec_suite_id s, sec_key s)) (w_secrets w)"
    by simp
  have "\<forall>x \<in> set ?rows. load_secret x = Inr x" using ok new by (auto simp: secrets_ok_def)
  then have w': "secrets_ok ?w" using ok ids ks unfolding secrets_ok_def by (simp del: map_map)
  have upd: "update_secret full_secret_env encrypt (Some n) now suite i val w = (Inr ?s, ?w)"
    using assms(1) suite val row(2-4) find load put nonblank
    by (simp add: update_secret_def full_secret_env_def encrypt_value_def secret_suite_def secret_save_def
        secret_of_suite_def secret_find_by_id_def find_first_def first secret_update_value_def
        bindW_def liftW_def returnW_def Let_def)
  have "get_decrypted_secrets full_secret_env decrypt suite [sec_key ?s] ?w = (Inr [sec_key ?s \<mapsto> trim_space val], ?w)"
    by (rule stored_secret_readable [OF _ w']) (use assms(1) n row in auto)
  with upd w' show ?thesis by auto
qed

end

section \<open>The AES encryptor\<close>

text \<open>
  a secret that was created can be read: with the AES-GCM encryptor and any nonce of 12 bytes, a
  creation with a valid key that the suite does not have yet stores one row, and the decryption of that key
  returns the trimmed value; an update of the row with another nonce replaces the value.
\<close>

theorem secret_roundtrip:
  assumes "w_faults w = []" and "secrets_ok w" and "suite_find_by_id (trim_space suite) w = (Inr st, w)"
    and "trim_space suite \<noteq> ''''" and "secret_key_pattern (trim_space key)" and "trim_space val \<noteq> ''''"
    and "\<forall>s \<in> set (w_secrets w). sec_id s \<noteq> uuid \<and> (sec_suite_id s, sec_key s) \<noteq> (trim_space suite, trim_space key)"
    and "length n = 12" and "length m = 12" and "trim_space uuid = uuid" and "uuid \<noteq> ''''" and "trim_space val' \<noteq> ''''"
  shows "\<exists>s w' s' w''.
    create_secret full_secret_env (aes_encrypt_value aes_key) (Some n) uuid now suite key val w = (Inr s, w') \<and>
    get_decrypted_secrets full_secret_env (aes_decrypt_value aes_key) suite [trim_space key] w' =
      (Inr [trim_space key \<mapsto> trim_space val], w') \<and>
    update_secret full_secret_env (aes_encrypt_value aes_key) (Some m) now' suite uuid val' w' = (Inr s', w'') \<and>
    get_decrypted_secrets full_secret_env (aes_decrypt_value aes_key) suite [trim_space key] w'' =
      (Inr [trim_space key \<mapsto> trim_space val'], w'')"
proof -
  obtain s w' where c: "create_secret full_secret_env (aes_encrypt_value aes_key) (Some n) uuid now suite key val w = (Inr s, w')"
    "secrets_ok w'" "w_faults w' = []" "s \<in> set (w_secrets w')" "w_suites w' = w_suites w"
    "sec_id s = uuid" "sec_suite_id s = trim_space suite" "sec_key s = trim_space key"
    "get_decrypted_secrets full_secret_env (aes_decrypt_value aes_key) suite [trim_space key] w' =
      (Inr [trim_space key \<mapsto> trim_space val], w')"
    using aes_encryptor.created_secret_readable [OF assms(1-8), of aes_key now] by blast
  have "suite_find_by_id (trim_space suite) w' = (Inr st, w')"
    using assms(1,3) c(3,5) by (simp add: suite_find_by_id_def split: option.splits)
  then obtain s' w'' where "update_secret full_secret_env (aes_encrypt_value aes_key) (Some m) now' suite uuid val' w' = (Inr s', w'')"
    "get_decrypted_secrets full_secret_env (aes_decrypt_value aes_key) suite [sec_key s] w'' = (Inr [sec_key s \<mapsto> trim_space val'], w'')"
    using aes_encryptor.updated_secret_readable [OF c(3,2) _ assms(4) c(4,7) _ _ assms(12,9), of st uuid aes_key now']
      c(6) assms(10,11) by auto
  with c(1,8,9) show ?thesis by auto
qed

theorem secret_roundtrip_witness:
  "\<exists>s w'. create_secret full_secret_env (aes_encrypt_value (replicate 32 CHR ''k'')) (Some (replicate 12 CHR ''n''))
      ''x1'' 5 ''s1'' ''TOKEN'' ''hunter2'' (demo_world [] []) = (Inr s, w') \<and>
    get_decrypted_secrets full_secret_env (aes_decrypt_value (replicate 32 CHR ''k'')) ''s1'' [''TOKEN''] w' =
      (Inr [''TOKEN'' \<mapsto> ''hunter2''], w')"
proof -
  have t: "trim_space ''s1'' = ''s1''" "trim_space ''TOKEN'' = ''TOKEN''" "trim_space ''hunter2'' = ''hunter2''"
    "trim_space ''x1'' = ''x1''"
    by (simp_all add: trim_space_graphic graphic_def)
  have "load_suite demo_suite = Inr demo_suite"
    by (simp add: load_suite_def new_test_suite_with_id_def demo_suite_def trim_space_graphic graphic_def)
  then have "suite_find_by_id ''s1'' (demo_world [] []) = (Inr demo_suite, demo_world [] [])"
    by (simp add: suite_find_by_id_def demo_world_def) (simp add: demo_suite_def)
  moreover have "secrets_ok (demo_world [] [])" by (simp add: secrets_ok_def demo_world_def)
  moreover have "secret_key_pattern ''TOKEN''" by (simp add: secret_key_pattern_def key_start_def key_char_def)
  moreover have "w_faults (demo_world [] []) = []" "w_secrets (demo_world [] []) = []" by (simp_all add: demo_world_def)
  ultimately have "\<exists>s w' s' w''.
    create_secret full_secret_env (aes_encrypt_value (replicate 32 CHR ''k'')) (Some (replicate 12 CHR ''n''))
      ''x1'' 5 ''s1'' ''TOKEN'' ''hunter2'' (demo_world [] []) = (Inr s, w') \<and>
    get_decrypted_secrets full_secret_env (aes_decrypt_value (replicate 32 CHR ''k'')) ''s1'' [trim_space ''TOKEN''] w' =
      (Inr [trim_space ''TOKEN'' \<mapsto> trim_space ''hunter2''], w') \<and>
    update_secret full_secret_env (aes_encrypt_value (replicate 32 CHR ''k'')) (Some (replicate 12 CHR ''m''))
      6 ''s1'' ''x1'' ''hunter2'' w' = (Inr s', w'') \<and>
    get_decrypted_secrets full_secret_env (aes_decrypt_value (replicate 32 CHR ''k'')) ''s1'' [trim_space ''TOKEN''] w'' =
      (Inr [trim_space ''TOKEN'' \<mapsto> trim_space ''hunter2''], w'')"
    by (intro secret_roundtrip [where st = demo_suite]) (simp_all add: t)
  then show ?thesis unfolding t by blast
qed

end
