(* ===== verification/Catalogue_Services.thy ===== *)
theory Catalogue_Services
  imports Catalogue Run_Outcomes
begin

text \<open>
  The application services for suites, configurations and profiles:
  \<^verbatim>\<open>internal/application/service/suite_service.go\<close>, \<^verbatim>\<open>config_service.go\<close> and \<^verbatim>\<open>profile_service.go\<close>.
  Identifiers and clock readings are arguments; a nil port is a flag of the environment.
\<close>

section \<open>Suites\<close>

definition create_suite :: "string \<Rightarrow> time \<Rightarrow> string \<Rightarrow> string \<Rightarrow> test_suite op" where
  "create_suite uuid now name desc =
     bindW (liftW (new_test_suite uuid now (trim_space name) (trim_space desc))) (\<lambda>s.
     bindW (suite_save s) (\<lambda>_. returnW s))"

definition get_suite :: "string \<Rightarrow> test_suite op" where
  "get_suite i =
     (if trim_space i = '''' then failW ErrValidation else suite_find_by_id (trim_space i))"

definition list_suites :: "test_suite list op" where
  "list_suites = suite_list"

record update_suite_cmd =
  us_name :: string
  us_description :: string
  us_state :: "suite_state option"

definition suite_target :: "time \<Rightarrow> suite_state option \<Rightarrow> test_suite \<Rightarrow> test_suite result" where
  "suite_target now st s =
     (case st of
        None \<Rightarrow> Inr s
      | Some t \<Rightarrow> if \<not> suite_state_valid t then Inl ErrInvalidStateTransition else suite_transition_state now t s)"

definition update_suite :: "time \<Rightarrow> time \<Rightarrow> string \<Rightarrow> update_suite_cmd \<Rightarrow> test_suite op" where
  "update_suite t1 t2 i cmd =
     (if trim_space i = '''' then failW ErrValidation
      else bindW (suite_find_by_id (trim_space i)) (\<lambda>s0.
           bindW (liftW (suite_target t1 (us_state cmd) s0)) (\<lambda>s1.
           bindW (liftW (suite_update_details t2 (us_name cmd) (us_description cmd) s1)) (\<lambda>s2.
           bindW (suite_save s2) (\<lambda>_. returnW s2)))))"

definition delete_suite :: "string \<Rightarrow> unit op" where
  "delete_suite i =
     (if trim_space i = '''' then failW ErrValidation else suite_delete (trim_space i))"

definition archive_suite :: "time \<Rightarrow> string \<Rightarrow> unit op" where
  "archive_suite now i =
     (if trim_space i = '''' then failW ErrValidation
      else bindW (suite_find_by_id (trim_space i)) (\<lambda>s0.
           bindW (liftW (suite_archive now s0)) (\<lambda>s1. suite_save s1)))"

section \<open>Configurations\<close>

record config_env =
  ce_suites :: bool
  ce_configs :: bool
  ce_storage :: bool

record config_cmd =
  cc_suite :: string
  cc_config :: string
  cc_name :: string
  cc_description :: string
  cc_yaml :: string

definition suite_exists :: "config_env \<Rightarrow> string \<Rightarrow> unit op" where
  "suite_exists env suite =
     (if ce_suites env then bindW (suite_find_by_id suite) (\<lambda>_. returnW ()) else returnW ())"

definition config_object_key :: "string \<Rightarrow> string \<Rightarrow> string" where
  "config_object_key suite cfg = ''suites/'' @ suite @ ''/configs/'' @ cfg @ ''.yaml''"

definition upload_config :: "config_env \<Rightarrow> string \<Rightarrow> string \<Rightarrow> unit op" where
  "upload_config env key yaml = (if ce_storage env then storage_upload key yaml else returnW ())"

definition create_config :: "config_env \<Rightarrow> string \<Rightarrow> time \<Rightarrow> config_cmd \<Rightarrow> bool \<Rightarrow> configuration op" where
  "create_config env uuid now cmd dflt =
     (let sid = trim_space (cc_suite cmd); name = trim_space (cc_name cmd) in
      if sid = '''' then failW ErrValidation
      else bindW (suite_exists env sid) (\<lambda>_.
        if name = '''' then failW ErrEmptyName
        else if trim_space (cc_yaml cmd) = '''' then failW ErrValidation
        else
          let key = config_object_key sid uuid in
          bindW (upload_config env key (cc_yaml cmd)) (\<lambda>_.
          bindW (liftW (new_configuration_with_id uuid sid name (cc_description cmd) (cc_yaml cmd) key dflt now)) (\<lambda>c.
          bindW (if ce_configs env then config_save c else returnW ()) (\<lambda>_. returnW c)))))"

text \<open>The lookup that the other operations share: the configuration must belong to the suite.\<close>

definition config_of_suite :: "config_env \<Rightarrow> string \<Rightarrow> string \<Rightarrow> configuration op" where
  "config_of_suite env suite cfg =
     (if \<not> ce_configs env then failW ErrNotFound
      else bindW (config_find_by_id cfg) (\<lambda>c. if cfg_suite_id c \<noteq> suite then failW ErrNotFound else returnW c))"

definition get_config :: "config_env \<Rightarrow> string \<Rightarrow> string \<Rightarrow> configuration op" where
  "get_config env suite cfg =
     (if trim_space suite = '''' \<or> trim_space cfg = '''' then failW ErrValidation
      else config_of_suite env (trim_space suite) (trim_space cfg))"

definition list_configs :: "config_env \<Rightarrow> string \<Rightarrow> configuration list op" where
  "list_configs env suite =
     (let sid = trim_space suite in
      if sid = '''' then failW ErrValidation
      else bindW (suite_exists env sid) (\<lambda>_.
           if \<not> ce_configs env then returnW [] else config_list_by_suite sid))"

definition delete_config :: "config_env \<Rightarrow> string \<Rightarrow> string \<Rightarrow> unit op" where
  "delete_config env suite cfg =
     (if trim_space suite = '''' \<or> trim_space cfg = '''' then failW ErrValidation
      else bindW (config_of_suite env (trim_space suite) (trim_space cfg)) (\<lambda>c.
           bindW (if ce_storage env \<and> s3_config_key c \<noteq> ''''
                  then bindW (attempt (storage_delete (s3_config_key c))) (\<lambda>_. returnW ())
                  else returnW ()) (\<lambda>_.
           config_delete (trim_space cfg))))"

definition update_config :: "config_env \<Rightarrow> config_cmd \<Rightarrow> bool option \<Rightarrow> configuration op" where
  "update_config env cmd dflt =
     (let sid = trim_space (cc_suite cmd); cid = trim_space (cc_config cmd); name = trim_space (cc_name cmd) in
      if sid = '''' \<or> cid = '''' then failW ErrValidation
      else
        bindW (suite_exists env sid) (\<lambda>_.
        bindW (config_of_suite env sid cid) (\<lambda>c0.
        if name = '''' then failW ErrEmptyName
        else
          bindW (liftW (cfg_update_details name (cc_description cmd) c0)) (\<lambda>c1.
          if trim_space (cc_yaml cmd) = '''' then failW ErrValidation
          else
            bindW (if s3_config_key c1 \<noteq> '''' then upload_config env (s3_config_key c1) (cc_yaml cmd)
                   else returnW ()) (\<lambda>_.
            bindW (liftW (update_content (cc_yaml cmd) (s3_config_key c1) c1)) (\<lambda>c2.
            let c3 = (case dflt of None \<Rightarrow> c2 | Some d \<Rightarrow> set_default d c2)
            in bindW (config_save c3) (\<lambda>_. returnW c3)))))))"

section \<open>Profiles\<close>

record profile_cmd =
  pc_name :: string
  pc_description :: string
  pc_image :: string
  pc_cpu_request :: string
  pc_cpu_limit :: string
  pc_memory_request :: string
  pc_memory_limit :: string
  pc_node_selector :: "(string \<times> string) list"
  pc_affinity :: "affinity_term list"
  pc_tolerations :: "toleration list"
  pc_deadline :: "int option"
  pc_runtime_class :: "string option"

definition or_default :: "string \<Rightarrow> string \<Rightarrow> string" where
  "or_default s d = (if trim_space s = '''' then d else trim_space s)"

definition default_resources :: resources where
  "default_resources = \<lparr>cpu_request = ''1000m'', cpu_limit = ''2000m'', memory_request = ''1Gi'', memory_limit = ''2Gi''\<rparr>"

definition requested_resources :: "resources \<Rightarrow> profile_cmd \<Rightarrow> resources result" where
  "requested_resources d cmd =
     new_resource_requirements (or_default (pc_cpu_request cmd) (cpu_request d))
       (or_default (pc_cpu_limit cmd) (cpu_limit d)) (or_default (pc_memory_request cmd) (memory_request d))
       (or_default (pc_memory_limit cmd) (memory_limit d))"

definition create_profile :: "string \<Rightarrow> time \<Rightarrow> time \<Rightarrow> profile_cmd \<Rightarrow> runner_profile op" where
  "create_profile uuid t1 t2 cmd =
     (let name = trim_space (pc_name cmd) in
      if name = '''' then failW ErrEmptyName
      else
        bindW (liftW (requested_resources default_resources cmd)) (\<lambda>res.
        bindW (liftW (new_runner_profile uuid t1 name (trim_space (pc_description cmd))
          (or_default (pc_image cmd) default_runner_image) res (pc_node_selector cmd) (pc_affinity cmd)
          (pc_tolerations cmd))) (\<lambda>p.
        bindW (liftW (update_security_policy t2 (pc_deadline cmd) (pc_runtime_class cmd) p)) (\<lambda>q.
        bindW (profile_save q) (\<lambda>_. returnW q)))))"

definition get_profile :: "string \<Rightarrow> runner_profile op" where
  "get_profile i =
     (if trim_space i = '''' then failW ErrValidation else profile_find_by_id (trim_space i))"

definition list_profiles :: "runner_profile list op" where
  "list_profiles = profile_list"

definition update_profile :: "time \<Rightarrow> time \<Rightarrow> string \<Rightarrow> profile_cmd \<Rightarrow> runner_profile op" where
  "update_profile t1 t2 i cmd =
     (if trim_space i = '''' then failW ErrValidation
      else bindW (profile_find_by_id (trim_space i)) (\<lambda>p0.
        let name = trim_space (pc_name cmd) in
        if name = '''' then failW ErrEmptyName
        else
          bindW (liftW (requested_resources (prof_resources p0) cmd)) (\<lambda>res.
          bindW (liftW (profile_update_details t1 name (trim_space (pc_description cmd))
            (or_default (pc_image cmd) (prof_image p0)) res (pc_node_selector cmd) (pc_affinity cmd)
            (pc_tolerations cmd) p0)) (\<lambda>p1.
          bindW (liftW (update_security_policy t2 (pc_deadline cmd) (pc_runtime_class cmd) p1)) (\<lambda>p2.
          bindW (profile_save p2) (\<lambda>_. returnW p2))))))"

definition delete_profile :: "string \<Rightarrow> unit op" where
  "delete_profile i =
     (if trim_space i = '''' then failW ErrValidation else profile_delete (trim_space i))"

end
