(* ===== verification/Sessions.thy ===== *)
theory Sessions
  imports Bff_Base
begin

text \<open>
  The session aggregate of the BFF, \<^verbatim>\<open>internal/bff/domain/model/session.go\<close>.  \<open>time.Now()\<close> is an argument, once
  for each call: \<open>t1\<close> for the expiry test, \<open>t2\<close> for the stamp.  \<open>Clone\<close> is the identity on values: because
  the stores copy with it, no session they hold is shared with a caller.
\<close>

section \<open>The aggregate\<close>

record client_session =
  ses_id :: string
  ses_user :: string
  ses_sid :: string
  ses_access :: string
  ses_refresh :: string
  ses_id_token :: string
  ses_roles :: "string list"
  ses_created :: time
  ses_updated :: time
  ses_expires :: time
  ses_metadata :: "string \<rightharpoonup> string"

datatype session_option =
    With_keycloak_sid string
  | With_tokens string string string
  | With_roles "string list"
  | With_metadata "string \<rightharpoonup> string"

fun apply_option :: "session_option \<Rightarrow> client_session \<Rightarrow> client_session" where
  "apply_option (With_keycloak_sid sid) s = s\<lparr>ses_sid := sid\<rparr>"
| "apply_option (With_tokens a r i) s = s\<lparr>ses_access := a, ses_refresh := r, ses_id_token := i\<rparr>"
| "apply_option (With_roles rs) s = s\<lparr>ses_roles := rs\<rparr>"
| "apply_option (With_metadata m) s = s\<lparr>ses_metadata := m\<rparr>"

definition fresh_session :: "time \<Rightarrow> string \<Rightarrow> string \<Rightarrow> duration \<Rightarrow> client_session" where
  "fresh_session now i user ttl =
     \<lparr>ses_id = i, ses_user = user, ses_sid = '''', ses_access = '''', ses_refresh = '''', ses_id_token = '''',
      ses_roles = [], ses_created = now, ses_updated = now, ses_expires = now + ttl, ses_metadata = Map.empty\<rparr>"

definition new_client_session ::
  "time \<Rightarrow> string \<Rightarrow> string \<Rightarrow> duration \<Rightarrow> session_option list \<Rightarrow> client_session bff" where
  "new_client_session now i user ttl opts =
     (if i = '''' then Inl ErrInvalidParameter
      else if user = '''' then Inl ErrInvalidParameter
      else if ttl \<le> 0 then Inl ErrInvalidParameter
      else Inr (fold apply_option opts (fresh_session now i user ttl)))"

definition session_expired :: "time \<Rightarrow> client_session \<Rightarrow> bool" where
  "session_expired now s \<longleftrightarrow> ses_expires s < now"

definition rotate_tokens ::
  "time \<Rightarrow> time \<Rightarrow> string \<Rightarrow> string \<Rightarrow> string \<Rightarrow> duration \<Rightarrow> client_session \<Rightarrow> client_session bff" where
  "rotate_tokens t1 t2 access refresh idt ttl s =
     (if session_expired t1 s then Inl ErrSessionExpired
      else if access = '''' then Inl ErrInvalidParameter
      else if refresh = '''' then Inl ErrInvalidParameter
      else if ttl \<le> 0 then Inl ErrInvalidParameter
      else Inr (s\<lparr>ses_access := access, ses_refresh := refresh,
                  ses_id_token := (if idt \<noteq> '''' then idt else ses_id_token s),
                  ses_updated := t2, ses_expires := t2 + ttl\<rparr>))"

definition session_touch :: "time \<Rightarrow> time \<Rightarrow> duration \<Rightarrow> client_session \<Rightarrow> client_session bff" where
  "session_touch t1 t2 ttl s =
     (if session_expired t1 s then Inl ErrSessionExpired
      else if ttl \<le> 0 then Inl ErrInvalidParameter
      else Inr (s\<lparr>ses_updated := t2, ses_expires := t2 + ttl\<rparr>))"

definition session_revoke :: "time \<Rightarrow> client_session \<Rightarrow> client_session" where
  "session_revoke now s = s\<lparr>ses_updated := now, ses_expires := now - second\<rparr>"

section \<open>Well-formed sessions\<close>

definition session_wf :: "client_session \<Rightarrow> bool" where
  "session_wf s \<longleftrightarrow> ses_id s \<noteq> '''' \<and> ses_user s \<noteq> '''' \<and> ses_created s \<le> ses_updated s \<and>
     0 < ses_expires s - ses_updated s \<and> ses_expires s - ses_updated s \<le> max_int64"

text \<open>The window of a well-formed session, the time from its last update to its expiry.\<close>

definition session_window :: "client_session \<Rightarrow> duration" where
  "session_window s = time_sub (ses_expires s) (ses_updated s)"

lemma window_wf: "session_wf s \<Longrightarrow> session_window s = ses_expires s - ses_updated s \<and> 0 < session_window s"
  by (auto simp: session_wf_def session_window_def time_sub_def)

lemma options_keep [simp]:
  "ses_id (fold apply_option opts s) = ses_id s" "ses_user (fold apply_option opts s) = ses_user s"
  "ses_created (fold apply_option opts s) = ses_created s" "ses_updated (fold apply_option opts s) = ses_updated s"
  "ses_expires (fold apply_option opts s) = ses_expires s"
proof (induction opts arbitrary: s)
  case (Cons p ps)
  { case 1 then show ?case using Cons by (cases p) simp_all }
  { case 2 then show ?case using Cons by (cases p) simp_all }
  { case 3 then show ?case using Cons by (cases p) simp_all }
  { case 4 then show ?case using Cons by (cases p) simp_all }
  { case 5 then show ?case using Cons by (cases p) simp_all }
qed simp_all

lemma new_session_wf:
  "new_client_session now i user ttl opts = Inr s \<Longrightarrow> ttl \<le> max_int64 \<Longrightarrow>
    session_wf s \<and> ses_id s = i \<and> \<not> session_expired now s \<and> session_window s = ttl"
  by (auto simp: new_client_session_def session_wf_def session_expired_def fresh_session_def session_window_def
      time_sub_def split: if_splits)

lemma rotate_wf:
  "rotate_tokens t1 t2 a r i ttl s = Inr s' \<Longrightarrow> session_wf s \<Longrightarrow> ses_updated s \<le> t2 \<Longrightarrow> ttl \<le> max_int64 \<Longrightarrow>
    session_wf s' \<and> session_window s' = ttl"
  by (auto simp: rotate_tokens_def session_wf_def session_window_def time_sub_def split: if_splits)

lemma touch_wf:
  "session_touch t1 t2 ttl s = Inr s' \<Longrightarrow> session_wf s \<Longrightarrow> ses_updated s \<le> t2 \<Longrightarrow> ttl \<le> max_int64 \<Longrightarrow>
    session_wf s' \<and> session_window s' = ttl"
  by (auto simp: session_touch_def session_wf_def session_window_def time_sub_def split: if_splits)

end
