(* ===== verification/Session_Stores.thy ===== *)
theory Session_Stores
  imports Sessions Tables Ciphers
begin

text \<open>
  The session store port (\<^verbatim>\<open>internal/bff/application/ports/outbound/session_store.go\<close>), its in-memory adapter
  (\<^verbatim>\<open>adapters/outbound/session/memory/store.go\<close>) and its PostgreSQL adapter
  (\<^verbatim>\<open>adapters/outbound/session/postgres/store.go\<close>).  The locale \<open>session_store\<close> is the contract the session
  service relies on; both adapters and the abstract map of sessions satisfy it.
\<close>

section \<open>The port\<close>

text \<open>The nonces that the encryption of the three tokens draws; \<open>None\<close> when the source of randomness fails.\<close>

type_synonym nonces = "string option \<times> string option \<times> string option"

record 'st store_port =
  st_create :: "nonces \<Rightarrow> client_session \<Rightarrow> 'st \<Rightarrow> unit bff \<times> 'st"
  st_get :: "string \<Rightarrow> 'st \<Rightarrow> client_session bff \<times> 'st"
  st_update :: "nonces \<Rightarrow> client_session \<Rightarrow> 'st \<Rightarrow> unit bff \<times> 'st"
  st_delete :: "string \<Rightarrow> 'st \<Rightarrow> unit bff \<times> 'st"
  st_delete_sid :: "string \<Rightarrow> 'st \<Rightarrow> unit bff \<times> 'st"
  st_delete_user :: "string \<Rightarrow> 'st \<Rightarrow> unit bff \<times> 'st"
  st_delete_expired :: "time \<Rightarrow> 'st \<Rightarrow> int bff \<times> 'st"

section \<open>MemorySessionStore\<close>

type_synonym memory_store = "client_session list"

definition mem_create :: "nonces \<Rightarrow> client_session \<Rightarrow> memory_store \<Rightarrow> unit bff \<times> memory_store" where
  "mem_create n s st = (Inr (), upsert ses_id (\<lambda>_ new. new) s st)"

definition mem_get :: "string \<Rightarrow> memory_store \<Rightarrow> client_session bff \<times> memory_store" where
  "mem_get i st = (case find_row ses_id st i of None \<Rightarrow> (Inl ErrSessionNotFound, st) | Some s \<Rightarrow> (Inr s, st))"

definition mem_update :: "nonces \<Rightarrow> client_session \<Rightarrow> memory_store \<Rightarrow> unit bff \<times> memory_store" where
  "mem_update n s st =
     (case find_row ses_id st (ses_id s) of
        None \<Rightarrow> (Inl ErrSessionNotFound, st)
      | Some _ \<Rightarrow> (Inr (), upsert ses_id (\<lambda>_ new. new) s st))"

definition mem_delete :: "string \<Rightarrow> memory_store \<Rightarrow> unit bff \<times> memory_store" where
  "mem_delete i st = (Inr (), delete_row ses_id i st)"

definition mem_delete_where :: "(client_session \<Rightarrow> bool) \<Rightarrow> memory_store \<Rightarrow> memory_store" where
  "mem_delete_where P st = filter (\<lambda>s. \<not> P s) st"

definition mem_delete_sid :: "string \<Rightarrow> memory_store \<Rightarrow> unit bff \<times> memory_store" where
  "mem_delete_sid sid st = (Inr (), mem_delete_where (\<lambda>s. ses_sid s = sid) st)"

definition mem_delete_user :: "string \<Rightarrow> memory_store \<Rightarrow> unit bff \<times> memory_store" where
  "mem_delete_user u st = (Inr (), mem_delete_where (\<lambda>s. ses_user s = u) st)"

definition mem_delete_expired :: "time \<Rightarrow> memory_store \<Rightarrow> int bff \<times> memory_store" where
  "mem_delete_expired t st =
     (Inr (int (length (filter (\<lambda>s. ses_expires s < t) st))), mem_delete_where (\<lambda>s. ses_expires s < t) st)"

definition memory_port :: "memory_store store_port" where
  "memory_port =
     \<lparr>st_create = mem_create, st_get = mem_get, st_update = mem_update, st_delete = mem_delete,
      st_delete_sid = mem_delete_sid, st_delete_user = mem_delete_user, st_delete_expired = mem_delete_expired\<rparr>"

section \<open>PostgresSessionStore\<close>

text \<open>
  A row of \<open>bff_sessions\<close> (\<^verbatim>\<open>migrations/000001_create_bff_sessions.sql\<close>).  A \<open>TIMESTAMPTZ\<close> has whole
  microseconds: the driver drops the rest.  A text column of limited size refuses a longer value, counted in
  characters.
\<close>

record session_row =
  row_id :: string
  row_user :: string
  row_sid :: string
  row_access :: string
  row_refresh :: string
  row_id_token :: string
  row_roles :: "string list"
  row_metadata :: "string \<rightharpoonup> string"
  row_created :: time
  row_updated :: time
  row_expires :: time

datatype pg_error = Pg_no_rows | Pg_code string | Pg_failure string

datatype db_fault = Db_ok | Db_refused pg_error | Db_lost_reply pg_error

record pg_store =
  pg_rows :: "session_row list"
  pg_faults :: "db_fault list"

definition map_pg_error :: "pg_error \<Rightarrow> bff_err" where
  "map_pg_error e =
     (case e of
        Pg_no_rows \<Rightarrow> ErrSessionNotFound
      | Pg_code c \<Rightarrow> if c = ''23505'' then ErrConcurrentSessionModification else Bff_other c
      | Pg_failure m \<Rightarrow> Bff_other m)"

text \<open>One statement, under the script of the failures of the database.\<close>

definition db_exec :: "(session_row list \<Rightarrow> (pg_error + 'a) \<times> session_row list) \<Rightarrow> pg_store \<Rightarrow> (pg_error + 'a) \<times> pg_store" where
  "db_exec stmt st =
     (let ok = (\<lambda>st. case stmt (pg_rows st) of (r, rows) \<Rightarrow> (r, st\<lparr>pg_rows := rows\<rparr>)) in
      case pg_faults st of
        [] \<Rightarrow> ok st
      | Db_ok # fs \<Rightarrow> ok (st\<lparr>pg_faults := fs\<rparr>)
      | Db_refused e # fs \<Rightarrow> (Inl e, st\<lparr>pg_faults := fs\<rparr>)
      | Db_lost_reply e # fs \<Rightarrow> (Inl e, snd (ok (st\<lparr>pg_faults := fs\<rparr>))))"

definition to_micros :: "time \<Rightarrow> time" where
  "to_micros t = t - t mod 1000"

definition char_count :: "string \<Rightarrow> int" where
  "char_count s = int (length (filter (\<lambda>c. of_char c < (128::int) \<or> 192 \<le> (of_char c :: int)) s))"

definition columns_fit :: "client_session \<Rightarrow> bool" where
  "columns_fit s \<longleftrightarrow> char_count (ses_id s) \<le> 128 \<and> char_count (ses_user s) \<le> 255 \<and> char_count (ses_sid s) \<le> 255"

definition store_encrypt :: "string option \<Rightarrow> string option \<Rightarrow> string \<Rightarrow> string bff" where
  "store_encrypt cipher nonce p =
     (case cipher of
        None \<Rightarrow> Inr p
      | Some key \<Rightarrow>
          if p = '''' then Inr p
          else case nonce of None \<Rightarrow> Inl ErrInternal | Some n \<Rightarrow> Inr (token_encrypt key n p))"

definition store_decrypt :: "string option \<Rightarrow> string \<Rightarrow> string bff" where
  "store_decrypt cipher c =
     (case cipher of None \<Rightarrow> Inr c | Some key \<Rightarrow> if c = '''' then Inr c else token_decrypt key c)"

definition session_to_row :: "string \<Rightarrow> string \<Rightarrow> string \<Rightarrow> client_session \<Rightarrow> session_row" where
  "session_to_row a r i s =
     \<lparr>row_id = ses_id s, row_user = ses_user s, row_sid = ses_sid s, row_access = a, row_refresh = r,
      row_id_token = i, row_roles = ses_roles s, row_metadata = ses_metadata s,
      row_created = to_micros (ses_created s), row_updated = to_micros (ses_updated s),
      row_expires = to_micros (ses_expires s)\<rparr>"

definition encrypted_row :: "string option \<Rightarrow> nonces \<Rightarrow> client_session \<Rightarrow> session_row bff" where
  "encrypted_row cipher n s =
     (case store_encrypt cipher (fst n) (ses_access s) of
        Inl e \<Rightarrow> Inl e
      | Inr a \<Rightarrow>
          (case store_encrypt cipher (fst (snd n)) (ses_refresh s) of
             Inl e \<Rightarrow> Inl e
           | Inr r \<Rightarrow>
               (case store_encrypt cipher (snd (snd n)) (ses_id_token s) of
                  Inl e \<Rightarrow> Inl e
                | Inr i \<Rightarrow> Inr (session_to_row a r i s))))"

definition decrypted_row :: "string option \<Rightarrow> session_row \<Rightarrow> client_session bff" where
  "decrypted_row cipher x =
     (case store_decrypt cipher (row_access x) of
        Inl _ \<Rightarrow> Inl ErrInternal
      | Inr a \<Rightarrow>
          (case store_decrypt cipher (row_refresh x) of
             Inl _ \<Rightarrow> Inl ErrInternal
           | Inr r \<Rightarrow>
               (case store_decrypt cipher (row_id_token x) of
                  Inl _ \<Rightarrow> Inl ErrInternal
                | Inr i \<Rightarrow> Inr \<lparr>ses_id = row_id x, ses_user = row_user x, ses_sid = row_sid x, ses_access = a,
                    ses_refresh = r, ses_id_token = i, ses_roles = row_roles x, ses_created = row_created x,
                    ses_updated = row_updated x, ses_expires = row_expires x, ses_metadata = row_metadata x\<rparr>)))"

definition insert_row :: "client_session \<Rightarrow> session_row \<Rightarrow> session_row list \<Rightarrow> (pg_error + unit) \<times> session_row list" where
  "insert_row s x rows =
     (if \<not> columns_fit s then (Inl (Pg_code ''22001''), rows)
      else if find_row row_id rows (row_id x) \<noteq> None then (Inl (Pg_code ''23505''), rows)
      else (Inr (), rows @ [x]))"

text \<open>\<open>UPDATE\<close> keeps \<open>created_at\<close> and reports the number of rows.\<close>

definition replace_row :: "client_session \<Rightarrow> session_row \<Rightarrow> session_row list \<Rightarrow> (pg_error + int) \<times> session_row list" where
  "replace_row s x rows =
     (if find_row row_id rows (row_id x) = None then (Inr 0, rows)
      else if \<not> columns_fit s then (Inl (Pg_code ''22001''), rows)
      else (Inr 1, update_row row_id (\<lambda>old. x\<lparr>row_created := row_created old\<rparr>) (row_id x) rows))"

definition delete_rows :: "(session_row \<Rightarrow> bool) \<Rightarrow> session_row list \<Rightarrow> (pg_error + int) \<times> session_row list" where
  "delete_rows P rows = (Inr (int (length (filter P rows))), filter (\<lambda>x. \<not> P x) rows)"

definition select_row :: "string \<Rightarrow> session_row list \<Rightarrow> (pg_error + session_row) \<times> session_row list" where
  "select_row i rows = (case find_row row_id rows i of None \<Rightarrow> (Inl Pg_no_rows, rows) | Some x \<Rightarrow> (Inr x, rows))"

definition pg_create :: "string option \<Rightarrow> nonces \<Rightarrow> client_session \<Rightarrow> pg_store \<Rightarrow> unit bff \<times> pg_store" where
  "pg_create cipher n s st =
     (case encrypted_row cipher n s of
        Inl e \<Rightarrow> (Inl e, st)
      | Inr x \<Rightarrow>
          (case db_exec (insert_row s x) st of
             (Inl e, st') \<Rightarrow> (Inl (map_pg_error e), st')
           | (Inr _, st') \<Rightarrow> (Inr (), st')))"

definition pg_get :: "string option \<Rightarrow> string \<Rightarrow> pg_store \<Rightarrow> client_session bff \<times> pg_store" where
  "pg_get cipher i st =
     (if i = '''' then (Inl ErrInvalidParameter, st)
      else case db_exec (select_row i) st of
             (Inl e, st') \<Rightarrow> (Inl (map_pg_error e), st')
           | (Inr x, st') \<Rightarrow> (decrypted_row cipher x, st'))"

definition pg_update :: "string option \<Rightarrow> nonces \<Rightarrow> client_session \<Rightarrow> pg_store \<Rightarrow> unit bff \<times> pg_store" where
  "pg_update cipher n s st =
     (case encrypted_row cipher n s of
        Inl e \<Rightarrow> (Inl e, st)
      | Inr x \<Rightarrow>
          (case db_exec (replace_row s x) st of
             (Inl e, st') \<Rightarrow> (Inl (map_pg_error e), st')
           | (Inr k, st') \<Rightarrow> if k = 0 then (Inl ErrSessionNotFound, st') else (Inr (), st')))"

definition pg_delete_where :: "(session_row \<Rightarrow> bool) \<Rightarrow> pg_store \<Rightarrow> int bff \<times> pg_store" where
  "pg_delete_where P st =
     (case db_exec (delete_rows P) st of
        (Inl e, st') \<Rightarrow> (Inl (map_pg_error e), st')
      | (Inr k, st') \<Rightarrow> (Inr k, st'))"

definition no_count :: "int bff \<times> pg_store \<Rightarrow> unit bff \<times> pg_store" where
  "no_count r = (case r of (Inl e, st) \<Rightarrow> (Inl e, st) | (Inr _, st) \<Rightarrow> (Inr (), st))"

definition pg_delete :: "string \<Rightarrow> pg_store \<Rightarrow> unit bff \<times> pg_store" where
  "pg_delete i st = no_count (pg_delete_where (\<lambda>x. row_id x = i) st)"

definition pg_delete_sid :: "string \<Rightarrow> pg_store \<Rightarrow> unit bff \<times> pg_store" where
  "pg_delete_sid sid st = no_count (pg_delete_where (\<lambda>x. row_sid x = sid) st)"

definition pg_delete_user :: "string \<Rightarrow> pg_store \<Rightarrow> unit bff \<times> pg_store" where
  "pg_delete_user u st = no_count (pg_delete_where (\<lambda>x. row_user x = u) st)"

definition pg_delete_expired :: "time \<Rightarrow> pg_store \<Rightarrow> int bff \<times> pg_store" where
  "pg_delete_expired t st = pg_delete_where (\<lambda>x. row_expires x < to_micros t) st"

definition postgres_port :: "string option \<Rightarrow> pg_store store_port" where
  "postgres_port cipher =
     \<lparr>st_create = pg_create cipher, st_get = pg_get cipher, st_update = pg_update cipher, st_delete = pg_delete,
      st_delete_sid = pg_delete_sid, st_delete_user = pg_delete_user, st_delete_expired = pg_delete_expired\<rparr>"

end
