(* ===== verification/Session_Service.thy ===== *)
theory Session_Service
  imports Session_Stores
begin

text \<open>
  \<^verbatim>\<open>internal/bff/application/service/session_service.go\<close> over any session store, and the periodic cleaner,
  \<^verbatim>\<open>cleaner.go\<close>.  The three times of a lookup are those of the expiry test of the service, of the expiry test of
  the aggregate and of its stamp.
\<close>

section \<open>SessionService\<close>

record session_cfg =
  sc_ttl :: duration
  sc_threshold :: duration

definition new_session_service :: "session_cfg option \<Rightarrow> session_cfg" where
  "new_session_service given =
     (case given of
        None \<Rightarrow> \<lparr>sc_ttl = 24 * hour, sc_threshold = 15 * 60 * second\<rparr>
      | Some c \<Rightarrow> \<lparr>sc_ttl = (if 0 < sc_ttl c then sc_ttl c else 24 * hour),
                   sc_threshold = (if 0 < sc_threshold c then sc_threshold c else 15 * 60 * second)\<rparr>)"

record session_cmd =
  sn_session :: string
  sn_user :: string
  sn_sid :: string
  sn_access :: string
  sn_refresh :: string
  sn_id_token :: string
  sn_roles :: "string list"
  sn_ttl :: duration
  sn_metadata :: "(string \<times> string) list"

record rotate_cmd =
  rt_session :: string
  rt_access :: string
  rt_refresh :: string
  rt_id_token :: string
  rt_ttl :: duration

definition session_options :: "session_cmd \<Rightarrow> session_option list" where
  "session_options cmd =
     (if sn_sid cmd \<noteq> '''' then [With_keycloak_sid (sn_sid cmd)] else []) @
     (if sn_access cmd \<noteq> '''' \<or> sn_refresh cmd \<noteq> '''' \<or> sn_id_token cmd \<noteq> ''''
      then [With_tokens (sn_access cmd) (sn_refresh cmd) (sn_id_token cmd)] else []) @
     (if sn_roles cmd \<noteq> [] then [With_roles (sn_roles cmd)] else []) @
     (if sn_metadata cmd \<noteq> [] then [With_metadata (map_of (sn_metadata cmd))] else [])"

definition create_session ::
  "session_cfg \<Rightarrow> 'st store_port \<Rightarrow> nonces \<Rightarrow> time \<Rightarrow> session_cmd \<Rightarrow> 'st \<Rightarrow> client_session bff \<times> 'st" where
  "create_session cfg store n now cmd st =
     (let ttl = (if sn_ttl cmd \<le> 0 then sc_ttl cfg else sn_ttl cmd) in
      case new_client_session now (sn_session cmd) (sn_user cmd) ttl (session_options cmd) of
        Inl e \<Rightarrow> (Inl e, st)
      | Inr s \<Rightarrow> then_do (st_create store n s) (\<lambda>_ st'. (Inr s, st')) st)"

text \<open>The sliding expiration of a session that was read: the session to return, and whether it has to be stored.\<close>

definition slide :: "session_cfg \<Rightarrow> time \<Rightarrow> time \<Rightarrow> time \<Rightarrow> client_session \<Rightarrow> (client_session \<times> bool) bff" where
  "slide cfg t1 t2 t3 s =
     (if session_expired t1 s then Inl ErrSessionExpired
      else if sc_threshold cfg \<le> time_sub t1 (ses_updated s) then
        let window = time_sub (ses_expires s) (ses_updated s);
            ttl = (if window \<le> 0 then sc_ttl cfg else window)
        in case session_touch t2 t3 ttl s of Inl e \<Rightarrow> Inl e | Inr s' \<Rightarrow> Inr (s', True)
      else Inr (s, False))"

definition get_session ::
  "session_cfg \<Rightarrow> 'st store_port \<Rightarrow> nonces \<Rightarrow> time \<Rightarrow> time \<Rightarrow> time \<Rightarrow> string \<Rightarrow> 'st \<Rightarrow> client_session bff \<times> 'st" where
  "get_session cfg store n t1 t2 t3 i =
     (if i = '''' then (\<lambda>st. (Inl ErrInvalidParameter, st))
      else then_do (st_get store i) (\<lambda>s st.
             case slide cfg t1 t2 t3 s of
               Inl e \<Rightarrow> (Inl e, st)
             | Inr (s', moved) \<Rightarrow>
                 if moved then then_do (st_update store n s') (\<lambda>_ st'. (Inr s', st')) st else (Inr s', st)))"

definition rotated ::
  "session_cfg \<Rightarrow> time \<Rightarrow> time \<Rightarrow> time \<Rightarrow> rotate_cmd \<Rightarrow> client_session \<Rightarrow> client_session bff" where
  "rotated cfg t1 t2 t3 cmd s =
     (if session_expired t1 s then Inl ErrSessionExpired
      else
        let window = time_sub (ses_expires s) (ses_updated s);
            ttl0 = (if rt_ttl cmd \<le> 0 then window else rt_ttl cmd);
            ttl = (if ttl0 \<le> 0 then sc_ttl cfg else ttl0)
        in rotate_tokens t2 t3 (rt_access cmd) (rt_refresh cmd) (rt_id_token cmd) ttl s)"

definition rotate_session_tokens ::
  "session_cfg \<Rightarrow> 'st store_port \<Rightarrow> nonces \<Rightarrow> time \<Rightarrow> time \<Rightarrow> time \<Rightarrow> rotate_cmd \<Rightarrow> 'st \<Rightarrow> client_session bff \<times> 'st" where
  "rotate_session_tokens cfg store n t1 t2 t3 cmd =
     (if rt_session cmd = '''' then (\<lambda>st. (Inl ErrInvalidParameter, st))
      else then_do (st_get store (rt_session cmd)) (\<lambda>s st.
             case rotated cfg t1 t2 t3 cmd s of
               Inl e \<Rightarrow> (Inl e, st)
             | Inr s' \<Rightarrow> then_do (st_update store n s') (\<lambda>_ st'. (Inr s', st')) st))"

definition revoke_session :: "'st store_port \<Rightarrow> string \<Rightarrow> 'st \<Rightarrow> unit bff \<times> 'st" where
  "revoke_session store i = (if i = '''' then (\<lambda>st. (Inl ErrInvalidParameter, st)) else st_delete store i)"

definition revoke_by_sid :: "'st store_port \<Rightarrow> string \<Rightarrow> 'st \<Rightarrow> unit bff \<times> 'st" where
  "revoke_by_sid store sid = (if sid = '''' then (\<lambda>st. (Inl ErrInvalidParameter, st)) else st_delete_sid store sid)"

section \<open>SessionCleaner\<close>

definition cleaner_interval :: "duration option \<Rightarrow> duration" where
  "cleaner_interval given = (case given of None \<Rightarrow> 10 * 60 * second | Some d \<Rightarrow> if 0 < d then d else 10 * 60 * second)"

definition clean_once :: "'st store_port option \<Rightarrow> time \<Rightarrow> 'st \<Rightarrow> int bff \<times> 'st" where
  "clean_once store now st =
     (case store of
        None \<Rightarrow> (Inr 0, st)
      | Some p \<Rightarrow> (case st_delete_expired p now st of (Inl e, st') \<Rightarrow> (Inl e, st') | (Inr k, st') \<Rightarrow> (Inr k, st')))"

text \<open>The loop of the janitor, over the instants of its start and of its ticks: a failed cycle is only logged.\<close>

fun cleaner_loop :: "'st store_port option \<Rightarrow> time list \<Rightarrow> 'st \<Rightarrow> 'st" where
  "cleaner_loop store [] st = st"
| "cleaner_loop store (t # ts) st = cleaner_loop store ts (snd (clean_once store t st))"

section \<open>Requests\<close>

datatype session_request =
    Req_create nonces time session_cmd
  | Req_get nonces time time time string
  | Req_rotate nonces time time time rotate_cmd
  | Req_revoke string
  | Req_revoke_sid string
  | Req_clean time

datatype session_response = Resp_session client_session | Resp_done | Resp_count int

definition respond :: "('a \<Rightarrow> session_response) \<Rightarrow> 'a bff \<times> 'st \<Rightarrow> session_response bff \<times> 'st" where
  "respond f r = (case r of (Inl e, st) \<Rightarrow> (Inl e, st) | (Inr x, st) \<Rightarrow> (Inr (f x), st))"

fun serve :: "session_cfg \<Rightarrow> 'st store_port \<Rightarrow> session_request \<Rightarrow> 'st \<Rightarrow> session_response bff \<times> 'st" where
  "serve cfg store (Req_create n t cmd) st = respond Resp_session (create_session cfg store n t cmd st)"
| "serve cfg store (Req_get n t1 t2 t3 i) st = respond Resp_session (get_session cfg store n t1 t2 t3 i st)"
| "serve cfg store (Req_rotate n t1 t2 t3 cmd) st =
     respond Resp_session (rotate_session_tokens cfg store n t1 t2 t3 cmd st)"
| "serve cfg store (Req_revoke i) st = respond (\<lambda>_. Resp_done) (revoke_session store i st)"
| "serve cfg store (Req_revoke_sid sid) st = respond (\<lambda>_. Resp_done) (revoke_by_sid store sid st)"
| "serve cfg store (Req_clean t) st = respond Resp_count (clean_once (Some store) t st)"

fun serve_all :: "session_cfg \<Rightarrow> 'st store_port \<Rightarrow> session_request list \<Rightarrow> 'st \<Rightarrow> session_response bff list \<times> 'st" where
  "serve_all cfg store [] st = ([], st)"
| "serve_all cfg store (q # qs) st =
     (case serve cfg store q st of (r, st1) \<Rightarrow>
        (case serve_all cfg store qs st1 of (rs, st2) \<Rightarrow> (r # rs, st2)))"

end
