(* ===== verification/Session_Contract.thy ===== *)
theory Session_Contract
  imports Session_Stores
begin

text \<open>
  The contract of the session store, stated as a refinement of a map from identifiers to sessions, and its
  interpretation on the in-memory and on the PostgreSQL adapter.  \<open>instant\<close> is the resolution of the times a
  store keeps.
\<close>

section \<open>The reference store\<close>

type_synonym session_map = "string \<rightharpoonup> client_session"

definition drop_where :: "(client_session \<Rightarrow> bool) \<Rightarrow> session_map \<Rightarrow> session_map" where
  "drop_where P m = (\<lambda>i. case m i of None \<Rightarrow> None | Some s \<Rightarrow> if P s then None else Some s)"

lemma drop_where_Some: "drop_where P m i = Some s \<longleftrightarrow> m i = Some s \<and> \<not> P s"
  by (auto simp: drop_where_def split: option.splits)

lemma drop_where_None: "m i = None \<Longrightarrow> drop_where P m i = None"
  by (simp add: drop_where_def)

definition keep_times :: "(time \<Rightarrow> time) \<Rightarrow> client_session \<Rightarrow> client_session" where
  "keep_times f s =
     s\<lparr>ses_created := f (ses_created s), ses_updated := f (ses_updated s), ses_expires := f (ses_expires s)\<rparr>"

lemma keep_times_keeps [simp]:
  "ses_id (keep_times f s) = ses_id s" "ses_access (keep_times f s) = ses_access s"
  "ses_refresh (keep_times f s) = ses_refresh s" "ses_updated (keep_times f s) = f (ses_updated s)"
  "ses_expires (keep_times f s) = f (ses_expires s)" "ses_created (keep_times f s) = f (ses_created s)"
  "ses_sid (keep_times f s) = ses_sid s" "ses_user (keep_times f s) = ses_user s"
  by (simp_all add: keep_times_def)

lemma keep_times_fixed:
  "f (ses_created s) = ses_created s \<Longrightarrow> f (ses_updated s) = ses_updated s \<Longrightarrow> f (ses_expires s) = ses_expires s \<Longrightarrow>
    keep_times f s = s"
  by (simp add: keep_times_def)

section \<open>The contract\<close>

locale session_store =
  fixes store :: "'st store_port"
    and view :: "'st \<Rightarrow> session_map"
    and ready :: "'st \<Rightarrow> bool"
    and drawn :: "nonces \<Rightarrow> bool"
    and storable :: "client_session \<Rightarrow> bool"
    and instant :: "time \<Rightarrow> time"
  assumes instant_twice: "instant (instant t) = instant t"
    and view_id: "ready st \<Longrightarrow> view st i = Some s \<Longrightarrow> ses_id s = i"
    and create_new: "ready st \<Longrightarrow> drawn n \<Longrightarrow> storable s \<Longrightarrow> view st (ses_id s) = None \<Longrightarrow>
      \<exists>st'. st_create store n s st = (Inr (), st') \<and> ready st' \<and> view st' = (view st)(ses_id s \<mapsto> keep_times instant s)"
    and get: "ready st \<Longrightarrow> i \<noteq> '''' \<Longrightarrow>
      st_get store i st = (case view st i of None \<Rightarrow> Inl ErrSessionNotFound | Some s \<Rightarrow> Inr s, st)"
    and update_gone: "ready st \<Longrightarrow> drawn n \<Longrightarrow> view st (ses_id s) = None \<Longrightarrow>
      st_update store n s st = (Inl ErrSessionNotFound, st)"
    and update_present: "ready st \<Longrightarrow> drawn n \<Longrightarrow> storable s \<Longrightarrow> view st (ses_id s) = Some old \<Longrightarrow>
      ses_created s = ses_created old \<Longrightarrow>
      \<exists>st'. st_update store n s st = (Inr (), st') \<and> ready st' \<and> view st' = (view st)(ses_id s \<mapsto> keep_times instant s)"
    and delete: "ready st \<Longrightarrow>
      \<exists>st'. st_delete store i st = (Inr (), st') \<and> ready st' \<and> view st' = (view st)(i := None)"
    and delete_sid: "ready st \<Longrightarrow>
      \<exists>st'. st_delete_sid store sid st = (Inr (), st') \<and> ready st' \<and> view st' = drop_where (\<lambda>s. ses_sid s = sid) (view st)"
    and delete_user: "ready st \<Longrightarrow>
      \<exists>st'. st_delete_user store u st = (Inr (), st') \<and> ready st' \<and> view st' = drop_where (\<lambda>s. ses_user s = u) (view st)"
    and delete_expired: "ready st \<Longrightarrow>
      \<exists>st'. st_delete_expired store t st =
          (Inr (int (card {i. \<exists>s. view st i = Some s \<and> ses_expires s < instant t})), st') \<and>
        ready st' \<and> view st' = drop_where (\<lambda>s. ses_expires s < instant t) (view st)"
    and view_instants: "ready st \<Longrightarrow> view st i = Some s \<Longrightarrow> keep_times instant s = s"
    and view_storable: "ready st \<Longrightarrow> view st i = Some s \<Longrightarrow> storable s"
    and storable_times: "ses_id s = ses_id s' \<Longrightarrow> ses_user s = ses_user s' \<Longrightarrow> ses_sid s = ses_sid s' \<Longrightarrow> storable s = storable s'"
begin

lemma get_found: "ready st \<Longrightarrow> i \<noteq> '''' \<Longrightarrow> view st i = Some s \<Longrightarrow> st_get store i st = (Inr s, st)"
  by (simp add: get)

lemma get_missing: "ready st \<Longrightarrow> i \<noteq> '''' \<Longrightarrow> view st i = None \<Longrightarrow> st_get store i st = (Inl ErrSessionNotFound, st)"
  by (simp add: get)

lemma created_readable:
  assumes "ready st" "drawn n" "storable s" "view st (ses_id s) = None" "ses_id s \<noteq> ''''"
  shows "\<exists>st'. st_create store n s st = (Inr (), st') \<and> st_get store (ses_id s) st' = (Inr (keep_times instant s), st')"
proof -
  obtain st' where "st_create store n s st = (Inr (), st')" "ready st'"
    "view st' = (view st)(ses_id s \<mapsto> keep_times instant s)"
    using create_new [OF assms(1-4)] by blast
  then show ?thesis using get_found [of st' "ses_id s" "keep_times instant s"] assms(5) by auto
qed

lemma deleted_stays_out:
  assumes "ready st" "drawn n"
  shows "\<exists>st'. st_delete store (ses_id s) st = (Inr (), st') \<and> st_update store n s st' = (Inl ErrSessionNotFound, st')"
proof -
  obtain st' where "st_delete store (ses_id s) st = (Inr (), st')" "ready st'" "view st' = (view st)(ses_id s := None)"
    using delete [OF assms(1)] by blast
  then show ?thesis using update_gone [of st' n s] assms(2) by auto
qed

end

section \<open>The in-memory store\<close>

definition mem_view :: "memory_store \<Rightarrow> session_map" where
  "mem_view st = find_row ses_id st"

definition mem_ready :: "memory_store \<Rightarrow> bool" where
  "mem_ready st \<longleftrightarrow> distinct (map ses_id st)"

lemma find_filtered_row:
  assumes "distinct (map key xs)"
  shows "find_row key (filter P xs) i =
    (case find_row key xs i of None \<Rightarrow> None | Some x \<Rightarrow> if P x then Some x else None)"
  using assms
proof (induction xs)
  case (Cons x xs)
  show ?case
  proof (cases "key x = i")
    case True
    then have "find_row key xs i = None" using Cons.prems by (auto simp: find_row_None image_iff)
    then have "find_row key (filter P xs) i = None" by (auto simp: find_row_None)
    then show ?thesis using True by simp
  next
    case False
    then show ?thesis using Cons by simp
  qed
qed simp

lemma count_rows:
  assumes "distinct (map key xs)"
  shows "length (filter P xs) = card {i. \<exists>x. find_row key xs i = Some x \<and> P x}"
proof -
  have "{i. \<exists>x. find_row key xs i = Some x \<and> P x} = key ` set (filter P xs)"
    using find_row_mem [OF assms] by (auto dest: find_row_Some simp: image_iff)
  moreover have "distinct (map key (filter P xs))" using assms by (simp add: distinct_map_filter)
  ultimately show ?thesis by (metis distinct_card length_map list.set_map)
qed

lemma mem_drop:
  "mem_ready st \<Longrightarrow> mem_view (mem_delete_where P st) = drop_where P (mem_view st) \<and> mem_ready (mem_delete_where P st)"
  by (auto simp: mem_view_def mem_ready_def mem_delete_where_def find_filtered_row drop_where_def
      distinct_map_filter intro!: ext split: option.splits)

lemma mem_upsert:
  "mem_ready st \<Longrightarrow> mem_view (upsert ses_id (\<lambda>_ new. new) s st) = (mem_view st)(ses_id s \<mapsto> s) \<and>
    mem_ready (upsert ses_id (\<lambda>_ new. new) s st)"
  using distinct_upsert [of ses_id "\<lambda>_ new. new" st s]
  by (auto simp: mem_view_def mem_ready_def find_row_upsert_same find_row_upsert_other intro!: ext split: option.splits)

lemma keep_times_id [simp]: "keep_times (\<lambda>t. t) s = s"
  by (simp add: keep_times_def)

interpretation memory: session_store memory_port mem_view mem_ready "\<lambda>_. True" "\<lambda>_. True" "\<lambda>t. t"
proof
  fix st :: memory_store and i s
  assume "mem_ready st"
  { assume "mem_view st i = Some s" then show "ses_id s = i" by (auto simp: mem_view_def dest: find_row_Some) }
  show "st_get memory_port i st = (case mem_view st i of None \<Rightarrow> Inl ErrSessionNotFound | Some s \<Rightarrow> Inr s, st)"
    by (simp add: memory_port_def mem_get_def mem_view_def split: option.splits)
next
  fix st :: memory_store and n s
  assume r: "mem_ready st"
  show "\<exists>st'. st_create memory_port n s st = (Inr (), st') \<and> mem_ready st' \<and>
      mem_view st' = (mem_view st)(ses_id s \<mapsto> keep_times (\<lambda>t. t) s)"
    using mem_upsert [OF r, of s] by (simp add: memory_port_def mem_create_def)
  show "st_update memory_port n s st = (Inl ErrSessionNotFound, st)" if "mem_view st (ses_id s) = None"
    using that by (simp add: memory_port_def mem_update_def mem_view_def)
  show "\<exists>st'. st_update memory_port n s st = (Inr (), st') \<and> mem_ready st' \<and>
      mem_view st' = (mem_view st)(ses_id s \<mapsto> keep_times (\<lambda>t. t) s)" if "mem_view st (ses_id s) = Some old" for old
    using that mem_upsert [OF r, of s] by (simp add: memory_port_def mem_update_def mem_view_def)
next
  fix st :: memory_store and i sid u t
  assume r: "mem_ready st"
  show "\<exists>st'. st_delete memory_port i st = (Inr (), st') \<and> mem_ready st' \<and> mem_view st' = (mem_view st)(i := None)"
    using r distinct_delete [of ses_id st i]
    by (auto simp: memory_port_def mem_delete_def mem_view_def mem_ready_def find_row_delete intro!: ext)
  show "\<exists>st'. st_delete_sid memory_port sid st = (Inr (), st') \<and> mem_ready st' \<and>
      mem_view st' = drop_where (\<lambda>s. ses_sid s = sid) (mem_view st)"
    using mem_drop [OF r] by (simp add: memory_port_def mem_delete_sid_def)
  show "\<exists>st'. st_delete_user memory_port u st = (Inr (), st') \<and> mem_ready st' \<and>
      mem_view st' = drop_where (\<lambda>s. ses_user s = u) (mem_view st)"
    using mem_drop [OF r] by (simp add: memory_port_def mem_delete_user_def)
  show "\<exists>st'. st_delete_expired memory_port t st =
        (Inr (int (card {i. \<exists>s. mem_view st i = Some s \<and> ses_expires s < t})), st') \<and>
      mem_ready st' \<and> mem_view st' = drop_where (\<lambda>s. ses_expires s < t) (mem_view st)"
    using mem_drop [OF r] r count_rows [of ses_id st "\<lambda>s. ses_expires s < t"]
    by (simp add: memory_port_def mem_delete_expired_def mem_ready_def mem_view_def)
qed simp_all

section \<open>The PostgreSQL store\<close>

definition row_session :: "string option \<Rightarrow> session_row \<Rightarrow> client_session option" where
  "row_session cipher x = (case decrypted_row cipher x of Inl _ \<Rightarrow> None | Inr s \<Rightarrow> Some s)"

definition pg_view :: "string option \<Rightarrow> pg_store \<Rightarrow> session_map" where
  "pg_view cipher st = (\<lambda>i. case find_row row_id (pg_rows st) i of None \<Rightarrow> None | Some x \<Rightarrow> row_session cipher x)"

definition row_ok :: "string option \<Rightarrow> session_row \<Rightarrow> bool" where
  "row_ok cipher x \<longleftrightarrow>
     (\<exists>s. decrypted_row cipher x = Inr s \<and> columns_fit s \<and> keep_times to_micros s = s)"

definition pg_ready :: "string option \<Rightarrow> pg_store \<Rightarrow> bool" where
  "pg_ready cipher st \<longleftrightarrow>
     pg_faults st = [] \<and> distinct (map row_id (pg_rows st)) \<and> (\<forall>x \<in> set (pg_rows st). row_ok cipher x)"

definition drawn_nonces :: "nonces \<Rightarrow> bool" where
  "drawn_nonces n \<longleftrightarrow>
     (\<exists>a b c. n = (Some a, Some b, Some c) \<and> length a = 12 \<and> length b = 12 \<and> length c = 12)"

lemma to_micros_twice [simp]: "to_micros (to_micros t) = to_micros t"
proof -
  have "(t - t mod 1000) mod 1000 = (0::int)" by (simp add: mod_diff_right_eq)
  then show ?thesis by (simp add: to_micros_def)
qed

lemma decrypt_encrypt:
  "length n = 12 \<Longrightarrow> store_encrypt cipher (Some n) p = Inr c \<Longrightarrow> store_decrypt cipher c = Inr p"
  using token_cipher.nonblank token_cipher.opens
  by (auto simp: store_encrypt_def store_decrypt_def split: option.splits if_splits)

lemma encrypt_drawn: "\<exists>c. store_encrypt cipher (Some n) p = Inr c"
  by (simp add: store_encrypt_def split: option.splits)

lemma row_roundtrip:
  assumes "drawn_nonces n"
  shows "\<exists>x. encrypted_row cipher n s = Inr x \<and> row_id x = ses_id s \<and> row_user x = ses_user s \<and> row_sid x = ses_sid s \<and>
    row_created x = to_micros (ses_created s) \<and> decrypted_row cipher x = Inr (keep_times to_micros s)"
proof -
  obtain u v w where n: "n = (Some u, Some v, Some w)" "length u = 12" "length v = 12" "length w = 12"
    using assms by (auto simp: drawn_nonces_def)
  obtain a r i where e: "store_encrypt cipher (Some u) (ses_access s) = Inr a"
    "store_encrypt cipher (Some v) (ses_refresh s) = Inr r" "store_encrypt cipher (Some w) (ses_id_token s) = Inr i"
    using encrypt_drawn by meson
  have d: "store_decrypt cipher a = Inr (ses_access s)" "store_decrypt cipher r = Inr (ses_refresh s)"
    "store_decrypt cipher i = Inr (ses_id_token s)"
    using decrypt_encrypt n(2-4) e by blast+
  have "encrypted_row cipher n s = Inr (session_to_row a r i s)" using n(1) e by (simp add: encrypted_row_def)
  moreover have "decrypted_row cipher (session_to_row a r i s) = Inr (keep_times to_micros s)"
    using d by (simp add: decrypted_row_def session_to_row_def keep_times_def)
  ultimately show ?thesis by (simp add: session_to_row_def)
qed

lemma decrypted_fields:
  "decrypted_row cipher x = Inr s \<Longrightarrow> ses_id s = row_id x \<and> ses_user s = row_user x \<and> ses_sid s = row_sid x \<and>
    ses_expires s = row_expires x \<and> ses_created s = row_created x"
  by (auto simp: decrypted_row_def split: sum.splits)

lemma decrypted_created:
  "decrypted_row cipher x = Inr s \<Longrightarrow> row_created x = t \<Longrightarrow> x\<lparr>row_created := t\<rparr> = x"
  by (cases x) simp

lemma ready_session:
  assumes "pg_ready cipher st" "x \<in> set (pg_rows st)"
  shows "\<exists>s. row_session cipher x = Some s \<and> decrypted_row cipher x = Inr s \<and> columns_fit s \<and> keep_times to_micros s = s"
  using assms by (auto simp: pg_ready_def row_ok_def row_session_def dest!: bspec)

lemma pg_view_Some:
  "pg_view cipher st i = Some s \<longleftrightarrow> (\<exists>x. find_row row_id (pg_rows st) i = Some x \<and> decrypted_row cipher x = Inr s)"
  by (auto simp: pg_view_def row_session_def split: option.splits sum.splits)

lemma pg_view_None:
  assumes "pg_ready cipher st"
  shows "pg_view cipher st i = None \<longleftrightarrow> find_row row_id (pg_rows st) i = None"
  using ready_session [OF assms] by (auto simp: pg_view_def dest: find_row_Some split: option.splits)

lemma pg_exec: "pg_faults st = [] \<Longrightarrow> db_exec stmt st = (case stmt (pg_rows st) of (r, rows) \<Rightarrow> (r, st\<lparr>pg_rows := rows\<rparr>))"
  by (simp add: db_exec_def Let_def)

text \<open>Deleting by a column that the decryption keeps.\<close>

lemma pg_drop:
  assumes ready: "pg_ready cipher st" and agree: "\<And>x s. decrypted_row cipher x = Inr s \<Longrightarrow> P x = Q s"
  shows "\<exists>st'. pg_delete_where P st =
      (Inr (int (card {i. \<exists>s. pg_view cipher st i = Some s \<and> Q s})), st') \<and>
    pg_ready cipher st' \<and> pg_view cipher st' = drop_where Q (pg_view cipher st)"
proof (intro exI conjI)
  let ?rows = "filter (\<lambda>x. \<not> P x) (pg_rows st)"
  have d: "distinct (map row_id (pg_rows st))" "pg_faults st = []" using ready by (simp_all add: pg_ready_def)
  have "{i. \<exists>x. find_row row_id (pg_rows st) i = Some x \<and> P x} = {i. \<exists>s. pg_view cipher st i = Some s \<and> Q s}"
    using ready_session [OF ready] agree by (fastforce simp: pg_view_Some dest: find_row_Some)
  then show "pg_delete_where P st =
      (Inr (int (card {i. \<exists>s. pg_view cipher st i = Some s \<and> Q s})), st\<lparr>pg_rows := ?rows\<rparr>)"
    using d by (simp add: pg_delete_where_def pg_exec delete_rows_def count_rows)
  show "pg_ready cipher (st\<lparr>pg_rows := ?rows\<rparr>)"
    using ready by (simp add: pg_ready_def distinct_map_filter)
  show "pg_view cipher (st\<lparr>pg_rows := ?rows\<rparr>) = drop_where Q (pg_view cipher st)"
  proof
    fix i
    show "pg_view cipher (st\<lparr>pg_rows := ?rows\<rparr>) i = drop_where Q (pg_view cipher st) i"
    proof (cases "find_row row_id (pg_rows st) i")
      case (Some x)
      then obtain s where "row_session cipher x = Some s" "decrypted_row cipher x = Inr s"
        using ready_session [OF ready] by (blast dest: find_row_Some)
      then show ?thesis using Some d agree by (simp add: pg_view_def drop_where_def find_filtered_row)
    qed (use d in \<open>simp add: pg_view_def drop_where_def find_filtered_row\<close>)
  qed
qed

lemma row_ok_session:
  "decrypted_row cipher x = Inr (keep_times to_micros s) \<Longrightarrow> columns_fit s \<Longrightarrow> row_ok cipher x"
  by (auto simp: row_ok_def columns_fit_def keep_times_def)

lemma pg_insert:
  assumes ready: "pg_ready cipher st" and drawn: "drawn_nonces n" and fit: "columns_fit s"
    and new: "pg_view cipher st (ses_id s) = None"
  shows "\<exists>st'. pg_create cipher n s st = (Inr (), st') \<and> pg_ready cipher st' \<and>
    pg_view cipher st' = (pg_view cipher st)(ses_id s \<mapsto> keep_times to_micros s)"
proof -
  obtain x where x: "encrypted_row cipher n s = Inr x" "row_id x = ses_id s"
    "decrypted_row cipher x = Inr (keep_times to_micros s)" using row_roundtrip [OF drawn] by blast
  let ?st = "st\<lparr>pg_rows := pg_rows st @ [x]\<rparr>"
  have none: "find_row row_id (pg_rows st) (ses_id s) = None" using new pg_view_None [OF ready] by blast
  have "pg_create cipher n s st = (Inr (), ?st)"
    using ready x(1,2) fit none by (simp add: pg_create_def pg_exec pg_ready_def insert_row_def)
  moreover have "pg_ready cipher ?st"
    using ready none x(2) row_ok_session [OF x(3) fit] by (auto simp: pg_ready_def find_row_None)
  moreover have "pg_view cipher ?st = (pg_view cipher st)(ses_id s \<mapsto> keep_times to_micros s)"
    using none x(2,3) by (auto simp: pg_view_def find_row_append row_session_def intro!: ext split: option.splits)
  ultimately show ?thesis by blast
qed

lemma find_row_replace:
  "key x = i \<Longrightarrow> find_row key (map (\<lambda>z. if key z = i then x else z) xs) j =
    (if j = i then map_option (\<lambda>_. x) (find_row key xs i) else find_row key xs j)"
  by (induction xs) auto

lemma pg_replace:
  assumes ready: "pg_ready cipher st" and drawn: "drawn_nonces n" and fit: "columns_fit s"
    and old: "pg_view cipher st (ses_id s) = Some s0" and created: "ses_created s = ses_created s0"
  shows "\<exists>st'. pg_update cipher n s st = (Inr (), st') \<and> pg_ready cipher st' \<and>
    pg_view cipher st' = (pg_view cipher st)(ses_id s \<mapsto> keep_times to_micros s)"
proof -
  obtain x where x: "encrypted_row cipher n s = Inr x" "row_id x = ses_id s"
    "row_created x = to_micros (ses_created s)"
    "decrypted_row cipher x = Inr (keep_times to_micros s)" using row_roundtrip [OF drawn] by blast
  obtain y where y: "find_row row_id (pg_rows st) (ses_id s) = Some y" "decrypted_row cipher y = Inr s0"
    using old by (auto simp: pg_view_Some)
  have d: "distinct (map row_id (pg_rows st))" "pg_faults st = []" using ready by (simp_all add: pg_ready_def)
  have "keep_times to_micros s0 = s0" using ready_session [OF ready] y by (force dest: find_row_Some)
  then have "to_micros (ses_created s0) = ses_created s0" by (metis keep_times_keeps(6))
  then have "row_created y = row_created x" using decrypted_fields [OF y(2)] x(3) created by simp
  moreover have "z = y" if "z \<in> set (pg_rows st)" "row_id z = ses_id s" for z
    using find_row_mem [OF d(1) that(1)] y(1) that(2) by simp
  ultimately have same: "x\<lparr>row_created := row_created z\<rparr> = x" if "z \<in> set (pg_rows st)" "row_id z = ses_id s" for z
    using that by (cases x) fastforce
  define rows where "rows = map (\<lambda>z. if row_id z = ses_id s then x else z) (pg_rows st)"
  have upd: "update_row row_id (\<lambda>old. x\<lparr>row_created := row_created old\<rparr>) (row_id x) (pg_rows st) = rows"
    using same x(2) by (auto simp: update_row_def rows_def)
  let ?st = "st\<lparr>pg_rows := rows\<rparr>"
  have upd': "pg_update cipher n s st = (Inr (), ?st)"
    using d x(1,2) y(1) fit upd by (simp add: pg_update_def pg_exec replace_row_def)
  have "map row_id rows = map row_id (pg_rows st)" using x(2) by (simp add: rows_def)
  moreover have "\<forall>z \<in> set rows. row_ok cipher z"
    using ready row_ok_session [OF x(4) fit] by (auto simp: pg_ready_def rows_def)
  ultimately have ready': "pg_ready cipher ?st" using d by (simp add: pg_ready_def)
  have "find_row row_id rows i = (if i = ses_id s then Some x else find_row row_id (pg_rows st) i)" for i
    using find_row_replace [of row_id x "ses_id s" "pg_rows st" i] x(2) y(1) by (simp add: rows_def)
  then have "pg_view cipher ?st = (pg_view cipher st)(ses_id s \<mapsto> keep_times to_micros s)"
    using x(4) by (auto simp: pg_view_def row_session_def intro!: ext)
  with upd' ready' show ?thesis by blast
qed

interpretation postgres: session_store "postgres_port cipher" "pg_view cipher" "pg_ready cipher" drawn_nonces columns_fit to_micros
proof
  fix st i s
  assume r: "pg_ready cipher st"
  { assume v: "pg_view cipher st i = Some s"
    then obtain x where x: "find_row row_id (pg_rows st) i = Some x" "decrypted_row cipher x = Inr s"
      by (auto simp: pg_view_Some)
    then show "ses_id s = i" using decrypted_fields [OF x(2)] by (auto dest: find_row_Some)
    show "keep_times to_micros s = s" "columns_fit s"
      using ready_session [OF r, of x] x by (auto dest: find_row_Some) }
  show "st_get (postgres_port cipher) i st = (case pg_view cipher st i of None \<Rightarrow> Inl ErrSessionNotFound | Some s \<Rightarrow> Inr s, st)"
    if "i \<noteq> ''''"
  proof (cases "find_row row_id (pg_rows st) i")
    case None
    then show ?thesis using r that
      by (simp add: postgres_port_def pg_get_def pg_exec pg_ready_def select_row_def map_pg_error_def pg_view_def)
  next
    case (Some x)
    then obtain s where "row_session cipher x = Some s" "decrypted_row cipher x = Inr s"
      using ready_session [OF r] by (blast dest: find_row_Some)
    then show ?thesis using r that Some
      by (simp add: postgres_port_def pg_get_def pg_exec pg_ready_def select_row_def pg_view_def)
  qed
next
  fix st n s
  assume r: "pg_ready cipher st" and n: "drawn_nonces n"
  show "st_update (postgres_port cipher) n s st = (Inl ErrSessionNotFound, st)" if "pg_view cipher st (ses_id s) = None"
  proof -
    obtain x where "encrypted_row cipher n s = Inr x" "row_id x = ses_id s" using row_roundtrip [OF n] by blast
    moreover have "find_row row_id (pg_rows st) (ses_id s) = None" using that pg_view_None [OF r] by blast
    ultimately show ?thesis using r
      by (simp add: postgres_port_def pg_update_def pg_exec pg_ready_def replace_row_def)
  qed
  show "\<exists>st'. st_create (postgres_port cipher) n s st = (Inr (), st') \<and> pg_ready cipher st' \<and>
      pg_view cipher st' = (pg_view cipher st)(ses_id s \<mapsto> keep_times to_micros s)"
    if "columns_fit s" "pg_view cipher st (ses_id s) = None"
    using pg_insert [OF r n that] by (simp add: postgres_port_def)
  show "\<exists>st'. st_update (postgres_port cipher) n s st = (Inr (), st') \<and> pg_ready cipher st' \<and>
      pg_view cipher st' = (pg_view cipher st)(ses_id s \<mapsto> keep_times to_micros s)"
    if "columns_fit s" "pg_view cipher st (ses_id s) = Some old" "ses_created s = ses_created old" for old
    using pg_replace [OF r n that] by (simp add: postgres_port_def)
next
  fix st i sid u t
  assume r: "pg_ready cipher st"
  show "\<exists>st'. st_delete (postgres_port cipher) i st = (Inr (), st') \<and> pg_ready cipher st' \<and>
      pg_view cipher st' = (pg_view cipher st)(i := None)"
  proof -
    have view_key: "pg_view cipher st j = Some s \<Longrightarrow> ses_id s = j" for j s
      using decrypted_fields by (auto simp: pg_view_Some dest: find_row_Some)
    have "drop_where (\<lambda>s. ses_id s = i) (pg_view cipher st) = (pg_view cipher st)(i := None)"
      using view_key by (auto simp: drop_where_def intro!: ext split: option.splits)
    then show ?thesis
      using pg_drop [OF r, of "\<lambda>x. row_id x = i" "\<lambda>s. ses_id s = i"] decrypted_fields
      by (auto simp: postgres_port_def pg_delete_def no_count_def)
  qed
  show "\<exists>st'. st_delete_sid (postgres_port cipher) sid st = (Inr (), st') \<and> pg_ready cipher st' \<and>
      pg_view cipher st' = drop_where (\<lambda>s. ses_sid s = sid) (pg_view cipher st)"
    using pg_drop [OF r, of "\<lambda>x. row_sid x = sid" "\<lambda>s. ses_sid s = sid"] decrypted_fields
    by (auto simp: postgres_port_def pg_delete_sid_def no_count_def)
  show "\<exists>st'. st_delete_user (postgres_port cipher) u st = (Inr (), st') \<and> pg_ready cipher st' \<and>
      pg_view cipher st' = drop_where (\<lambda>s. ses_user s = u) (pg_view cipher st)"
    using pg_drop [OF r, of "\<lambda>x. row_user x = u" "\<lambda>s. ses_user s = u"] decrypted_fields
    by (auto simp: postgres_port_def pg_delete_user_def no_count_def)
  show "\<exists>st'. st_delete_expired (postgres_port cipher) t st =
        (Inr (int (card {i. \<exists>s. pg_view cipher st i = Some s \<and> ses_expires s < to_micros t})), st') \<and>
      pg_ready cipher st' \<and> pg_view cipher st' = drop_where (\<lambda>s. ses_expires s < to_micros t) (pg_view cipher st)"
    using pg_drop [OF r, of "\<lambda>x. row_expires x < to_micros t" "\<lambda>s. ses_expires s < to_micros t"] decrypted_fields
    by (auto simp: postgres_port_def pg_delete_expired_def)
qed (auto simp: columns_fit_def)

end
