(* ===== verification/Session_Safety.thy ===== *)
theory Session_Safety
  imports Session_Service Session_Contract
begin

text \<open>
  The session service over the contract of the store: the two adapters give the same answers, a revoked session
  never comes back whatever requests are in flight, and what concurrent requests and token refreshes lose.
\<close>

section \<open>The reference store\<close>

definition map_port :: "session_map store_port" where
  "map_port =
     \<lparr>st_create = (\<lambda>n s m. (Inr (), m(ses_id s \<mapsto> s))),
      st_get = (\<lambda>i m. (case m i of None \<Rightarrow> Inl ErrSessionNotFound | Some s \<Rightarrow> Inr s, m)),
      st_update = (\<lambda>n s m. if m (ses_id s) = None then (Inl ErrSessionNotFound, m) else (Inr (), m(ses_id s \<mapsto> s))),
      st_delete = (\<lambda>i m. (Inr (), m(i := None))),
      st_delete_sid = (\<lambda>sid m. (Inr (), drop_where (\<lambda>s. ses_sid s = sid) m)),
      st_delete_user = (\<lambda>u m. (Inr (), drop_where (\<lambda>s. ses_user s = u) m)),
      st_delete_expired = (\<lambda>t m. (Inr (int (card {i. \<exists>s. m i = Some s \<and> ses_expires s < t})),
         drop_where (\<lambda>s. ses_expires s < t) m))\<rparr>"

lemma map_port_simps [simp]:
  "st_create map_port n s m = (Inr (), m(ses_id s \<mapsto> s))"
  "st_get map_port i m = (case m i of None \<Rightarrow> Inl ErrSessionNotFound | Some s \<Rightarrow> Inr s, m)"
  "st_update map_port n s m = (if m (ses_id s) = None then (Inl ErrSessionNotFound, m) else (Inr (), m(ses_id s \<mapsto> s)))"
  "st_delete map_port i m = (Inr (), m(i := None))"
  "st_delete_sid map_port sid m = (Inr (), drop_where (\<lambda>s. ses_sid s = sid) m)"
  "st_delete_expired map_port t m = (Inr (int (card {i. \<exists>s. m i = Some s \<and> ses_expires s < t})),
     drop_where (\<lambda>s. ses_expires s < t) m)"
  by (simp_all add: map_port_def)

section \<open>Requests at the resolution of the store\<close>

definition fixed_times :: "(time \<Rightarrow> time) \<Rightarrow> time list \<Rightarrow> bool" where
  "fixed_times f ts \<longleftrightarrow> (\<forall>t \<in> set ts. f t = t)"

definition tame_ttl :: "(time \<Rightarrow> time) \<Rightarrow> duration \<Rightarrow> bool" where
  "tame_ttl f d \<longleftrightarrow> f d = d \<and> d \<le> max_int64"

fun tame_request :: "(time \<Rightarrow> time) \<Rightarrow> (nonces \<Rightarrow> bool) \<Rightarrow> (string \<Rightarrow> string \<Rightarrow> string \<Rightarrow> bool) \<Rightarrow> session_request \<Rightarrow> bool" where
  "tame_request f drawn fits (Req_create n t cmd) \<longleftrightarrow>
     drawn n \<and> f t = t \<and> tame_ttl f (sn_ttl cmd) \<and> fits (sn_session cmd) (sn_user cmd) (sn_sid cmd)"
| "tame_request f drawn fits (Req_get n t1 t2 t3 i) \<longleftrightarrow> drawn n \<and> f t3 = t3"
| "tame_request f drawn fits (Req_rotate n t1 t2 t3 cmd) \<longleftrightarrow> drawn n \<and> f t3 = t3 \<and> tame_ttl f (rt_ttl cmd)"
| "tame_request f drawn fits (Req_revoke i) \<longleftrightarrow> True"
| "tame_request f drawn fits (Req_revoke_sid i) \<longleftrightarrow> True"
| "tame_request f drawn fits (Req_clean t) \<longleftrightarrow> f t = t"

fun created_ids :: "session_request list \<Rightarrow> string list" where
  "created_ids [] = []"
| "created_ids (Req_create n t cmd # qs) = sn_session cmd # created_ids qs"
| "created_ids (_ # qs) = created_ids qs"

definition windows_ok :: "session_map \<Rightarrow> bool" where
  "windows_ok m \<longleftrightarrow> (\<forall>i s. m i = Some s \<longrightarrow> 0 < ses_expires s - ses_updated s \<and> ses_expires s - ses_updated s \<le> max_int64)"

lemma window_ok:
  assumes "windows_ok m" "m i = Some s"
  shows "time_sub (ses_expires s) (ses_updated s) = ses_expires s - ses_updated s \<and> 0 < ses_expires s - ses_updated s"
proof -
  have "0 < ses_expires s - ses_updated s \<and> ses_expires s - ses_updated s \<le> max_int64"
    using assms unfolding windows_ok_def by blast
  then show ?thesis by (simp add: time_sub_def)
qed

lemma windows_drop: "windows_ok m \<Longrightarrow> windows_ok (drop_where P m)"
  by (auto simp: windows_ok_def drop_where_Some)

lemma session_sid: "ses_sid (fold apply_option (session_options cmd) (fresh_session now i u ttl)) = sn_sid cmd"
  by (simp add: session_options_def fresh_session_def)

section \<open>The service refines the reference\<close>

text \<open>A store whose resolution is closed under adding and subtracting.\<close>

locale timed_store = session_store +
  fixes fits :: "string \<Rightarrow> string \<Rightarrow> string \<Rightarrow> bool"
  assumes instant_add: "instant t = t \<Longrightarrow> instant d = d \<Longrightarrow> instant (t + d) = t + d"
    and instant_diff: "instant t = t \<Longrightarrow> instant u = u \<Longrightarrow> instant (t - u) = t - u"
    and storable_fits: "storable s \<longleftrightarrow> fits (ses_id s) (ses_user s) (ses_sid s)"
begin

definition tame_cfg :: "session_cfg \<Rightarrow> bool" where
  "tame_cfg cfg \<longleftrightarrow> tame_ttl instant (sc_ttl cfg) \<and> 0 < sc_ttl cfg"

definition agrees :: "'b bff \<times> 'a \<Rightarrow> 'b bff \<times> session_map \<Rightarrow> bool" where
  "agrees r q \<longleftrightarrow> fst r = fst q \<and> ready (snd r) \<and> view (snd r) = snd q \<and> windows_ok (snd q)"

lemma view_fixed:
  assumes "ready st" "view st i = Some s"
  shows "instant (ses_created s) = ses_created s" "instant (ses_updated s) = ses_updated s"
    "instant (ses_expires s) = ses_expires s"
  using view_instants [OF assms] by (metis keep_times_keeps)+

lemma stored_fixed:
  "instant (ses_created s) = ses_created s \<Longrightarrow> instant t = t \<Longrightarrow> instant d = d \<Longrightarrow>
    ses_updated s = t \<Longrightarrow> ses_expires s = t + d \<Longrightarrow> keep_times instant s = s"
  using instant_add by (intro keep_times_fixed) simp_all

lemma update_agrees:
  assumes "ready st" "windows_ok (view st)" "drawn n" "view st i = Some old" "ses_id s = ses_id old"
    and "ses_user s = ses_user old" "ses_sid s = ses_sid old" "ses_created s = ses_created old"
    and "ses_updated s = t" "ses_expires s = t + d" "instant t = t" "instant d = d" "0 < d" "d \<le> max_int64"
  shows "agrees (then_do (st_update store n s) (\<lambda>_ st'. (Inr s, st')) st)
    (then_do (st_update map_port n s) (\<lambda>_ m'. (Inr s, m')) (view st))"
proof -
  have i: "ses_id s = i" using view_id [OF assms(1,4)] assms(5) by simp
  have k: "keep_times instant s = s" using stored_fixed view_fixed(1) [OF assms(1,4)] assms(8-12) by simp
  have "storable s" using view_storable [OF assms(1,4)] storable_times assms(5-7) by metis
  then obtain st' where "st_update store n s st = (Inr (), st')" "ready st'" "view st' = (view st)(ses_id s \<mapsto> s)"
    using update_present [OF assms(1,3), of s old] assms(4,8) i k by auto
  moreover have "windows_ok ((view st)(ses_id s \<mapsto> s))" using assms(2,9,10,13,14) by (auto simp: windows_ok_def)
  ultimately show ?thesis using assms(4) i by (simp add: agrees_def)
qed

lemma create_agrees:
  assumes "ready st" "windows_ok (view st)" "tame_cfg cfg" "tame_request instant drawn fits (Req_create n t cmd)"
    and "view st (sn_session cmd) = None"
  shows "agrees (create_session cfg store n t cmd st) (create_session cfg map_port n t cmd (view st))"
proof -
  define ttl where "ttl = (if sn_ttl cmd \<le> 0 then sc_ttl cfg else sn_ttl cmd)"
  have ttl: "0 < ttl" "instant ttl = ttl" "ttl \<le> max_int64"
    using assms(3,4) by (auto simp: ttl_def tame_cfg_def tame_ttl_def)
  show ?thesis
  proof (cases "new_client_session t (sn_session cmd) (sn_user cmd) ttl (session_options cmd)")
    case (Inl e)
    then show ?thesis using assms(1,2) by (simp add: create_session_def Let_def agrees_def ttl_def)
  next
    case (Inr s)
    then have s: "s = fold apply_option (session_options cmd) (fresh_session t (sn_session cmd) (sn_user cmd) ttl)"
      by (auto simp: new_client_session_def split: if_splits)
    then have "ses_id s = sn_session cmd" "ses_user s = sn_user cmd" "ses_sid s = sn_sid cmd" "ses_created s = t"
      "ses_updated s = t" "ses_expires s = t + ttl"
      by (simp_all add: session_sid) (simp_all add: fresh_session_def)
    note f = this
    have k: "keep_times instant s = s" using stored_fixed [of s t ttl] f ttl assms(4) by simp
    have "storable s" using assms(4) f by (simp add: storable_fits)
    then obtain st' where "st_create store n s st = (Inr (), st')" "ready st'" "view st' = (view st)(ses_id s \<mapsto> s)"
      using create_new [OF assms(1), of n s] assms(4,5) f(1) k by auto
    moreover have "windows_ok ((view st)(ses_id s \<mapsto> s))" using assms(2) f ttl by (auto simp: windows_ok_def)
    ultimately show ?thesis using Inr by (simp add: create_session_def Let_def agrees_def ttl_def [symmetric])
  qed
qed

lemma get_agrees:
  assumes "ready st" "windows_ok (view st)" "tame_request instant drawn fits (Req_get n t1 t2 t3 i)"
  shows "agrees (get_session cfg store n t1 t2 t3 i st) (get_session cfg map_port n t1 t2 t3 i (view st))"
proof (cases "i = '''' \<or> view st i = None")
  case True
  then show ?thesis using assms get_missing [OF assms(1), of i] by (auto simp: get_session_def agrees_def)
next
  case False
  then obtain s where s: "view st i = Some s" "i \<noteq> ''''" by auto
  note g = get_found [OF assms(1) s(2,1)]
  show ?thesis
  proof (cases "slide cfg t1 t2 t3 s")
    case (Inl e)
    then show ?thesis using assms s g by (simp add: get_session_def agrees_def)
  next
    case (Inr r)
    define d where "d = ses_expires s - ses_updated s"
    show ?thesis
    proof (cases "snd r")
      case False
      then show ?thesis using assms s g Inr by (simp add: get_session_def agrees_def case_prod_beta)
    next
      case True
      have w: "time_sub (ses_expires s) (ses_updated s) = d" "0 < d" "d \<le> max_int64"
        using window_ok [OF assms(2) s(1)] assms(2) s(1) by (auto simp: d_def windows_ok_def)
      have d: "instant d = d" using instant_diff view_fixed [OF assms(1) s(1)] by (simp add: d_def)
      have "fst r = s\<lparr>ses_updated := t3, ses_expires := t3 + d\<rparr>"
        using Inr True w by (auto simp: slide_def session_touch_def Let_def split: if_splits)
      then have "agrees (then_do (st_update store n (fst r)) (\<lambda>_ st'. (Inr (fst r), st')) st)
          (then_do (st_update map_port n (fst r)) (\<lambda>_ m'. (Inr (fst r), m')) (view st))"
        using assms w d by (intro update_agrees [OF assms(1,2) _ s(1), of _ _ t3 d]) simp_all
      then show ?thesis using True s g Inr by (simp add: get_session_def case_prod_beta)
    qed
  qed
qed

lemma rotate_agrees:
  assumes "ready st" "windows_ok (view st)" "tame_cfg cfg" "tame_request instant drawn fits (Req_rotate n t1 t2 t3 cmd)"
  shows "agrees (rotate_session_tokens cfg store n t1 t2 t3 cmd st)
    (rotate_session_tokens cfg map_port n t1 t2 t3 cmd (view st))"
proof (cases "rt_session cmd = '''' \<or> view st (rt_session cmd) = None")
  case True
  then show ?thesis using assms get_missing [OF assms(1)] by (auto simp: rotate_session_tokens_def agrees_def)
next
  case False
  then obtain s where s: "view st (rt_session cmd) = Some s" "rt_session cmd \<noteq> ''''" by auto
  note g = get_found [OF assms(1) s(2,1)]
  show ?thesis
  proof (cases "rotated cfg t1 t2 t3 cmd s")
    case (Inl e)
    then show ?thesis using assms s g by (simp add: rotate_session_tokens_def agrees_def)
  next
    case (Inr s')
    define window where "window = ses_expires s - ses_updated s"
    define d where "d = (if rt_ttl cmd \<le> 0 then window else rt_ttl cmd)"
    have w: "time_sub (ses_expires s) (ses_updated s) = window" "0 < window" "window \<le> max_int64"
      using window_ok [OF assms(2) s(1)] assms(2) s(1) by (auto simp: window_def windows_ok_def)
    have "instant window = window" using instant_diff view_fixed [OF assms(1) s(1)] by (simp add: window_def)
    then have d: "instant d = d" "0 < d" "d \<le> max_int64" using w assms(4) by (auto simp: d_def tame_ttl_def)
    have "rotate_tokens t2 t3 (rt_access cmd) (rt_refresh cmd) (rt_id_token cmd) d s = Inr s'"
      using Inr w d(2) by (auto simp: rotated_def Let_def d_def split: if_splits)
    then have "agrees (then_do (st_update store n s') (\<lambda>_ st'. (Inr s', st')) st)
        (then_do (st_update map_port n s') (\<lambda>_ m'. (Inr s', m')) (view st))"
      using assms d by (intro update_agrees [OF assms(1,2) _ s(1), of _ _ t3 d])
        (auto simp: rotate_tokens_def split: if_splits)
    then show ?thesis using s g Inr by (simp add: rotate_session_tokens_def)
  qed
qed

lemma revoke_agrees:
  assumes "ready st" "windows_ok (view st)"
  shows "agrees (revoke_session store i st) (revoke_session map_port i (view st))"
proof -
  obtain st' where "st_delete store i st = (Inr (), st')" "ready st'" "view st' = (view st)(i := None)"
    using delete [OF assms(1)] by blast
  then show ?thesis using assms by (auto simp: revoke_session_def agrees_def windows_ok_def)
qed

lemma revoke_sid_agrees:
  assumes "ready st" "windows_ok (view st)"
  shows "agrees (revoke_by_sid store sid st) (revoke_by_sid map_port sid (view st))"
proof -
  obtain st' where "st_delete_sid store sid st = (Inr (), st')" "ready st'"
    "view st' = drop_where (\<lambda>s. ses_sid s = sid) (view st)"
    using delete_sid [OF assms(1)] by blast
  then show ?thesis using assms windows_drop by (simp add: revoke_by_sid_def agrees_def)
qed

lemma clean_agrees:
  assumes "ready st" "windows_ok (view st)" "instant t = t"
  shows "agrees (clean_once (Some store) t st) (clean_once (Some map_port) t (view st))"
proof -
  obtain st' where "st_delete_expired store t st =
      (Inr (int (card {i. \<exists>s. view st i = Some s \<and> ses_expires s < t})), st')" "ready st'"
    "view st' = drop_where (\<lambda>s. ses_expires s < t) (view st)"
    using delete_expired [OF assms(1), of t] assms(3) by auto
  then show ?thesis using assms(1,2) windows_drop by (simp add: clean_once_def agrees_def)
qed

lemma respond_agrees: "agrees r q \<Longrightarrow> agrees (respond f r) (respond f q)"
  by (cases r; cases q; cases "fst r"; cases "fst q") (simp_all add: agrees_def respond_def)

lemma serve_agrees:
  assumes "ready st" "windows_ok (view st)" "tame_cfg cfg" "tame_request instant drawn fits q"
    and "\<forall>i \<in> set (created_ids [q]). view st i = None"
  shows "agrees (serve cfg store q st) (serve cfg map_port q (view st))"
proof (cases q)
  case (Req_create n t cmd)
  then show ?thesis using create_agrees [OF assms(1-3)] assms(4,5) by (simp add: respond_agrees)
next
  case (Req_get n t1 t2 t3 i)
  then show ?thesis using get_agrees [OF assms(1,2)] assms(4) by (simp add: respond_agrees)
next
  case (Req_rotate n t1 t2 t3 cmd)
  then show ?thesis using rotate_agrees [OF assms(1-3)] assms(4) by (simp add: respond_agrees)
next
  case (Req_clean t)
  then show ?thesis using clean_agrees [OF assms(1,2)] assms(4) by (simp add: respond_agrees)
qed (use assms revoke_agrees revoke_sid_agrees in \<open>simp_all add: respond_agrees\<close>)

end

text \<open>A request adds no session but the one it creates.\<close>

lemma then_do_snd: "snd (then_do m f st) = (case m st of (Inl e, st') \<Rightarrow> st' | (Inr x, st') \<Rightarrow> snd (f x st'))"
  by (simp add: then_do_def split: prod.splits sum.splits)

lemma slide_id: "slide cfg t1 t2 t3 s = Inr (s', b) \<Longrightarrow> ses_id s' = ses_id s"
  by (auto simp: slide_def session_touch_def Let_def split: if_splits)

lemma rotated_id: "rotated cfg t1 t2 t3 cmd s = Inr s' \<Longrightarrow> ses_id s' = ses_id s"
  by (auto simp: rotated_def rotate_tokens_def Let_def split: if_splits)

lemma new_id: "new_client_session t i u d os = Inr s \<Longrightarrow> ses_id s = i"
  by (auto simp: new_client_session_def fresh_session_def split: if_splits)

lemma respond_snd [simp]: "snd (respond f r) = snd r"
  by (simp add: respond_def split: prod.splits sum.splits)

lemma map_update_keeps: "m i = None \<Longrightarrow> snd (st_update map_port n s m) i = None"
  by auto

lemma serve_adds_only:
  assumes "m i = None" "i \<notin> set (created_ids [q])"
  shows "snd (serve cfg map_port q m) i = None"
proof (cases q)
  case (Req_create n t cmd)
  then show ?thesis using assms new_id
    by (auto simp: create_session_def then_do_snd Let_def split: sum.splits)
next
  case (Req_get n t1 t2 t3 j)
  then show ?thesis using assms map_update_keeps
    by (auto simp: get_session_def then_do_snd split: sum.splits option.splits prod.splits)
next
  case (Req_rotate n t1 t2 t3 cmd)
  then show ?thesis using assms map_update_keeps
    by (auto simp: rotate_session_tokens_def then_do_snd split: sum.splits option.splits prod.splits)
qed (use assms in \<open>auto simp: revoke_session_def revoke_by_sid_def clean_once_def drop_where_None\<close>)

lemma created_ids_Cons: "created_ids (q # qs) = created_ids [q] @ created_ids qs"
  by (cases q) simp_all

context timed_store
begin

lemma serve_all_agrees:
  assumes "ready st" "windows_ok (view st)" "tame_cfg cfg" "\<forall>q \<in> set qs. tame_request instant drawn fits q"
    and "distinct (created_ids qs)" "\<forall>i \<in> set (created_ids qs). view st i = None"
  shows "fst (serve_all cfg store qs st) = fst (serve_all cfg map_port qs (view st))"
  using assms
proof (induction qs arbitrary: st)
  case (Cons q qs)
  have ids: "distinct (created_ids [q] @ created_ids qs)"
    "\<forall>i \<in> set (created_ids [q]) \<union> set (created_ids qs). view st i = None"
    using Cons.prems(5,6) created_ids_Cons [of q qs] by simp_all
  obtain r st1 where r: "serve cfg store q st = (r, st1)" by fastforce
  obtain r' m1 where m: "serve cfg map_port q (view st) = (r', m1)" by fastforce
  have "agrees (r, st1) (r', m1)"
    using serve_agrees [OF Cons.prems(1-3), of q] Cons.prems(4) ids(2) r m by simp
  then have a: "r = r'" "ready st1" "view st1 = m1" "windows_ok m1" by (simp_all add: agrees_def)
  have "\<forall>i \<in> set (created_ids qs). view st1 i = None"
    using serve_adds_only [of "view st" _ q cfg] ids m a(3) by auto
  then have "fst (serve_all cfg store qs st1) = fst (serve_all cfg map_port qs (view st1))"
    using Cons.IH [of st1] Cons.prems(3,4) a ids(1) by simp
  then show ?case using r m a(1,3) by (simp add: case_prod_beta)
qed simp

end

section \<open>Both adapters\<close>

lemma micros_mod: "to_micros t = t \<longleftrightarrow> t mod 1000 = 0"
  by (simp add: to_micros_def)

definition texts_fit :: "string \<Rightarrow> string \<Rightarrow> string \<Rightarrow> bool" where
  "texts_fit i u sid \<longleftrightarrow> char_count i \<le> 128 \<and> char_count u \<le> 255 \<and> char_count sid \<le> 255"

interpretation memory_timed: timed_store memory_port mem_view mem_ready "\<lambda>_. True" "\<lambda>_. True" "\<lambda>t. t" "\<lambda>_ _ _. True"
  by unfold_locales simp_all

interpretation postgres_timed: timed_store "postgres_port cipher" "pg_view cipher" "pg_ready cipher" drawn_nonces
  columns_fit to_micros texts_fit
proof
  show "to_micros (t + d) = t + d" "to_micros (t - d) = t - d" if "to_micros t = t" "to_micros d = d" for t d
    using that by (auto simp: micros_mod mod_add_eq [symmetric] mod_diff_eq [symmetric] simp del: mod_add_eq mod_diff_eq)
  show "columns_fit s = texts_fit (ses_id s) (ses_user s) (ses_sid s)" for s
    by (simp add: columns_fit_def texts_fit_def)
qed

lemma tame_weaken:
  "tame_request to_micros drawn_nonces texts_fit q \<Longrightarrow> tame_request (\<lambda>t. t) (\<lambda>_. True) (\<lambda>_ _ _. True) q"
  by (cases q) (simp_all add: tame_ttl_def)

definition empty_pg :: pg_store where
  "empty_pg = \<lparr>pg_rows = [], pg_faults = []\<rparr>"

lemma empty_views: "mem_ready []" "mem_view [] = Map.empty" "pg_ready cipher empty_pg" "pg_view cipher empty_pg = Map.empty"
  by (auto simp: mem_ready_def mem_view_def pg_ready_def pg_view_def empty_pg_def)

text \<open>
  C4: the in-memory and the PostgreSQL session store are interchangeable as far as the table can hold what they are given:
  served by either of them from an empty store, with or without encryption, a sequence of session requests (creations,
  lookups with their sliding expiration, token rotations, revocations, back-channel logouts and clean-ups) gets the same
  answers, refusals of the service and missing sessions included.  The conditions are that no identifier is created twice,
  that all times and lifetimes are whole microseconds, that the identifiers fit their columns, that the random source gives
  the nonces of the encryption, and that the database works; \<open>session_stores_differ\<close> says what happens otherwise.
\<close>

theorem session_stores_agree:
  assumes "tame_ttl to_micros (sc_ttl cfg)" and "0 < sc_ttl cfg"
    and "\<forall>q \<in> set qs. tame_request to_micros drawn_nonces texts_fit q"
    and "distinct (created_ids qs)"
  shows "fst (serve_all cfg (postgres_port cipher) qs empty_pg) = fst (serve_all cfg memory_port qs [])"
proof -
  have w: "windows_ok Map.empty" by (simp add: windows_ok_def)
  have "tame_ttl (\<lambda>t. t) (sc_ttl cfg)" using assms(1) by (simp add: tame_ttl_def)
  then have "fst (serve_all cfg memory_port qs []) = fst (serve_all cfg map_port qs (mem_view []))"
    using assms tame_weaken w
    by (intro memory_timed.serve_all_agrees) (simp_all add: empty_views memory_timed.tame_cfg_def)
  moreover have "fst (serve_all cfg (postgres_port cipher) qs empty_pg) =
      fst (serve_all cfg map_port qs (pg_view cipher empty_pg))"
    using assms w
    by (intro postgres_timed.serve_all_agrees) (simp_all add: empty_views postgres_timed.tame_cfg_def)
  ultimately show ?thesis by (simp add: empty_views)
qed

definition demo_cfg :: session_cfg where
  "demo_cfg = new_session_service None"

definition demo_nonces :: nonces where
  "demo_nonces = (let n = Some (replicate 12 CHR ''n'') in (n, n, n))"

definition demo_session_cmd :: session_cmd where
  "demo_session_cmd = \<lparr>sn_session = ''s1'', sn_user = ''u1'', sn_sid = ''k1'', sn_access = ''at'', sn_refresh = ''rt'',
     sn_id_token = '''', sn_roles = [''admin''], sn_ttl = 0, sn_metadata = []\<rparr>"

definition demo_requests :: "session_request list" where
  "demo_requests =
     [Req_create demo_nonces 1000 demo_session_cmd, Req_get demo_nonces 5000 5500 6000 ''s1'',
      Req_rotate demo_nonces 9000 9000 9000
        \<lparr>rt_session = ''s1'', rt_access = ''at2'', rt_refresh = ''rt2'', rt_id_token = '''', rt_ttl = 300 * second\<rparr>,
      Req_revoke ''s1'', Req_clean 20000]"

lemma demo_drawn [simp]: "drawn_nonces demo_nonces"
  by (simp add: drawn_nonces_def demo_nonces_def Let_def)

theorem session_stores_agree_witness:
  "fst (serve_all demo_cfg (postgres_port (Some (replicate 32 CHR ''k''))) demo_requests empty_pg) =
    fst (serve_all demo_cfg memory_port demo_requests [])"
  by (rule session_stores_agree)
    (simp_all add: demo_cfg_def new_session_service_def tame_ttl_def micros_mod demo_requests_def texts_fit_def
      char_count_def demo_session_cmd_def)

text \<open>
  Where the conditions of the agreement fail, the stores differ: the in-memory store overwrites the session of an identifier
  that is given a second time, and takes texts of any length, where the table refuses both; and the table drops what is
  finer than a microsecond.
\<close>

lemma session_stores_differ:
  assumes "pg_ready cipher st" and "drawn_nonces n"
  shows "columns_fit s \<Longrightarrow> pg_view cipher st (ses_id s) \<noteq> None \<Longrightarrow> fst (pg_create cipher n s st) = Inl ErrConcurrentSessionModification"
    and "\<not> columns_fit s \<Longrightarrow> fst (pg_create cipher n s st) = Inl (Bff_other ''22001'')"
    and "fst (mem_create n s mem) = Inr () \<and> fst (mem_get (ses_id s) (snd (mem_create n s mem))) = Inr s"
proof -
  obtain x where x: "encrypted_row cipher n s = Inr x" "row_id x = ses_id s" using row_roundtrip [OF assms(2)] by blast
  have f: "pg_faults st = []" using assms(1) by (simp add: pg_ready_def)
  show "fst (pg_create cipher n s st) = Inl ErrConcurrentSessionModification"
    if "columns_fit s" "pg_view cipher st (ses_id s) \<noteq> None"
  proof -
    have "find_row row_id (pg_rows st) (ses_id s) \<noteq> None" using that(2) by (auto simp: pg_view_def split: option.splits)
    then show ?thesis using x f that(1) by (simp add: pg_create_def db_exec_def insert_row_def map_pg_error_def)
  qed
  show "fst (pg_create cipher n s st) = Inl (Bff_other ''22001'')" if "\<not> columns_fit s"
    using x f that by (simp add: pg_create_def db_exec_def insert_row_def map_pg_error_def)
  show "fst (mem_create n s mem) = Inr () \<and> fst (mem_get (ses_id s) (snd (mem_create n s mem))) = Inr s"
    by (simp add: mem_create_def mem_get_def find_row_upsert_same split: option.splits)
qed

section \<open>Requests in flight\<close>

text \<open>
  A lookup or a rotation reads the session, computes the new one and writes it back later.  A state of the system
  is the store, the sessions that are computed and not yet written, and the identifiers given out so far: a
  creation draws a new one.
\<close>

record 'st session_system =
  sy_store :: 'st
  sy_pending :: "client_session list"
  sy_used :: "string set"

inductive session_step :: "session_cfg \<Rightarrow> 'st store_port \<Rightarrow> 'st session_system \<Rightarrow> 'st session_system \<Rightarrow> bool"
  for cfg :: session_cfg and store :: "'st store_port" where
  Step_lookup: "i \<noteq> '''' \<Longrightarrow> st_get store i (sy_store y) = (Inr s, st') \<Longrightarrow> slide cfg t1 t2 t3 s = Inr (s', True) \<Longrightarrow>
    session_step cfg store y (y\<lparr>sy_store := st', sy_pending := s' # sy_pending y\<rparr>)"
| Step_rotate: "rt_session cmd \<noteq> '''' \<Longrightarrow> st_get store (rt_session cmd) (sy_store y) = (Inr s, st') \<Longrightarrow>
    rotated cfg t1 t2 t3 cmd s = Inr s' \<Longrightarrow>
    session_step cfg store y (y\<lparr>sy_store := st', sy_pending := s' # sy_pending y\<rparr>)"
| Step_write: "s \<in> set (sy_pending y) \<Longrightarrow> drawn_nonces n \<Longrightarrow>
    session_step cfg store y (y\<lparr>sy_store := snd (st_update store n s (sy_store y)), sy_pending := remove1 s (sy_pending y)\<rparr>)"
| Step_create: "sn_session cmd \<notin> sy_used y \<Longrightarrow> drawn_nonces n \<Longrightarrow> texts_fit (sn_session cmd) (sn_user cmd) (sn_sid cmd) \<Longrightarrow>
    session_step cfg store y (y\<lparr>sy_store := snd (create_session cfg store n t cmd (sy_store y)),
      sy_used := insert (sn_session cmd) (sy_used y)\<rparr>)"
| Step_revoke: "session_step cfg store y (y\<lparr>sy_store := snd (revoke_session store i (sy_store y))\<rparr>)"
| Step_revoke_sid: "session_step cfg store y (y\<lparr>sy_store := snd (revoke_by_sid store sid (sy_store y))\<rparr>)"
| Step_clean: "session_step cfg store y (y\<lparr>sy_store := snd (clean_once (Some store) t (sy_store y))\<rparr>)"

lemma slide_keeps:
  "slide cfg t1 t2 t3 s = Inr (s', b) \<Longrightarrow> ses_id s' = ses_id s \<and> ses_user s' = ses_user s \<and> ses_sid s' = ses_sid s \<and>
    ses_created s' = ses_created s \<and> ses_access s' = ses_access s \<and> ses_refresh s' = ses_refresh s"
  by (auto simp: slide_def session_touch_def Let_def split: if_splits)

lemma rotated_keeps:
  "rotated cfg t1 t2 t3 cmd s = Inr s' \<Longrightarrow> ses_id s' = ses_id s \<and> ses_user s' = ses_user s \<and> ses_sid s' = ses_sid s \<and>
    ses_created s' = ses_created s \<and> ses_access s' = rt_access cmd \<and> ses_refresh s' = rt_refresh cmd"
  by (auto simp: rotated_def rotate_tokens_def Let_def split: if_splits)

locale stepped_store = timed_store +
  assumes drawn_all: "drawn_nonces n \<Longrightarrow> drawn n"
    and fits_all: "texts_fit i u sid \<Longrightarrow> fits i u sid"
begin

definition system_ok :: "'a session_system \<Rightarrow> bool" where
  "system_ok y \<longleftrightarrow> ready (sy_store y) \<and> dom (view (sy_store y)) \<subseteq> sy_used y \<and>
     (\<forall>s \<in> set (sy_pending y). ses_id s \<in> sy_used y \<and> storable s \<and>
        (\<forall>old. view (sy_store y) (ses_id s) = Some old \<longrightarrow> ses_created s = ses_created old))"

text \<open>What a step may do to the view: nothing outside the identifiers it knows, and no session comes back.\<close>

definition moves :: "'a session_system \<Rightarrow> 'a session_system \<Rightarrow> bool" where
  "moves y z \<longleftrightarrow> system_ok z \<and> sy_used y \<subseteq> sy_used z \<and>
     (\<forall>i \<in> sy_used y. view (sy_store y) i = None \<longrightarrow> view (sy_store z) i = None)"

lemma moves_removal:
  assumes "system_ok y" "ready st'" "\<And>i s. view st' i = Some s \<Longrightarrow> view (sy_store y) i = Some s"
  shows "moves y (y\<lparr>sy_store := st'\<rparr>)"
  using assms unfolding moves_def system_ok_def by (fastforce simp: dom_def)

lemma moves_pending:
  assumes "system_ok y" "view (sy_store y) i = Some s" "ses_id s' = ses_id s" "ses_user s' = ses_user s"
    and "ses_sid s' = ses_sid s" "ses_created s' = ses_created s"
  shows "moves y (y\<lparr>sy_pending := s' # sy_pending y\<rparr>)"
proof -
  have r: "ready (sy_store y)" using assms(1) by (simp add: system_ok_def)
  have "ses_id s = i" using view_id [OF r assms(2)] .
  moreover have "storable s'" using view_storable [OF r assms(2)] storable_times assms(3-5) by metis
  ultimately show ?thesis using assms by (auto simp: moves_def system_ok_def)
qed

lemma moves_write:
  assumes ok: "system_ok y" and s: "s \<in> set (sy_pending y)" and n: "drawn_nonces n"
  shows "moves y (y\<lparr>sy_store := snd (st_update store n s (sy_store y)), sy_pending := remove1 s (sy_pending y)\<rparr>)"
proof -
  let ?y = "y\<lparr>sy_pending := remove1 s (sy_pending y)\<rparr>"
  have y: "system_ok ?y" using ok by (auto simp: system_ok_def dest!: notin_set_remove1)
  have r: "ready (sy_store y)" using ok by (simp add: system_ok_def)
  have p: "ses_id s \<in> sy_used y" "storable s"
    "\<And>old. view (sy_store y) (ses_id s) = Some old \<Longrightarrow> ses_created s = ses_created old"
    using ok s by (auto simp: system_ok_def)
  show ?thesis
  proof (cases "view (sy_store y) (ses_id s)")
    case None
    then have "st_update store n s (sy_store y) = (Inl ErrSessionNotFound, sy_store y)"
      by (rule update_gone [OF r drawn_all [OF n]])
    then show ?thesis using y ok by (simp add: moves_def system_ok_def)
  next
    case (Some old)
    then obtain st' where st': "st_update store n s (sy_store y) = (Inr (), st')" "ready st'"
      "view st' = (view (sy_store y))(ses_id s \<mapsto> keep_times instant s)"
      using update_present [OF r drawn_all [OF n] p(2)] p(3) by blast
    have "instant (ses_created old) = ses_created old"
      using view_instants [OF r Some] by (metis keep_times_keeps(6))
    then have "ses_created (keep_times instant s) = ses_created old" using p(3) [OF Some] by simp
    then show ?thesis using st' y ok p(1) Some
      by (auto simp: moves_def system_ok_def dom_def)
  qed
qed

lemma moves_create:
  assumes ok: "system_ok y" and new: "sn_session cmd \<notin> sy_used y" and n: "drawn_nonces n"
    and fit: "texts_fit (sn_session cmd) (sn_user cmd) (sn_sid cmd)"
  shows "moves y (y\<lparr>sy_store := snd (create_session cfg store n t cmd (sy_store y)),
    sy_used := insert (sn_session cmd) (sy_used y)\<rparr>)"
proof -
  define ttl where "ttl = (if sn_ttl cmd \<le> 0 then sc_ttl cfg else sn_ttl cmd)"
  have r: "ready (sy_store y)" using ok by (simp add: system_ok_def)
  show ?thesis
  proof (cases "new_client_session t (sn_session cmd) (sn_user cmd) ttl (session_options cmd)")
    case (Inl e)
    then have "snd (create_session cfg store n t cmd (sy_store y)) = sy_store y"
      by (simp add: create_session_def Let_def ttl_def)
    then show ?thesis using ok by (auto simp: moves_def system_ok_def)
  next
    case (Inr s)
    then have "s = fold apply_option (session_options cmd) (fresh_session t (sn_session cmd) (sn_user cmd) ttl)"
      by (auto simp: new_client_session_def split: if_splits)
    then have f: "ses_id s = sn_session cmd" "ses_user s = sn_user cmd" "ses_sid s = sn_sid cmd"
      by (simp_all add: session_sid) (simp_all add: fresh_session_def)
    then have "storable s" using fits_all [OF fit] by (simp add: storable_fits)
    moreover have "view (sy_store y) (ses_id s) = None" using ok new f by (auto simp: system_ok_def)
    ultimately obtain st' where st': "st_create store n s (sy_store y) = (Inr (), st')" "ready st'"
      "view st' = (view (sy_store y))(ses_id s \<mapsto> keep_times instant s)"
      using create_new [OF r drawn_all [OF n]] by blast
    then have "snd (create_session cfg store n t cmd (sy_store y)) = st'"
      using Inr by (simp add: create_session_def Let_def ttl_def [symmetric])
    then show ?thesis using st' ok new f by (auto simp: moves_def system_ok_def)
  qed
qed

lemma step_moves:
  assumes "session_step cfg store y z" "system_ok y"
  shows "moves y z"
  using assms
proof (cases rule: session_step.cases)
  case (Step_lookup i s st' t1 t2 t3 s')
  have r: "ready (sy_store y)" using assms(2) by (simp add: system_ok_def)
  have "view (sy_store y) i = Some s \<and> st' = sy_store y"
    using Step_lookup(2,3) get [OF r, of i] by (auto split: option.splits)
  then show ?thesis using Step_lookup(1,4) moves_pending [OF assms(2), of i s s'] slide_keeps by simp
next
  case (Step_rotate cmd s st' t1 t2 t3 s')
  have r: "ready (sy_store y)" using assms(2) by (simp add: system_ok_def)
  have "view (sy_store y) (rt_session cmd) = Some s \<and> st' = sy_store y"
    using Step_rotate(2,3) get [OF r, of "rt_session cmd"] by (auto split: option.splits)
  then show ?thesis using Step_rotate(1,4) moves_pending [OF assms(2), of "rt_session cmd" s s'] rotated_keeps by simp
next
  case (Step_write s n)
  then show ?thesis using moves_write [OF assms(2)] by simp
next
  case (Step_create cmd n t)
  then show ?thesis using moves_create [OF assms(2)] by simp
next
  case (Step_revoke i)
  have r: "ready (sy_store y)" using assms(2) by (simp add: system_ok_def)
  obtain st' where "st_delete store i (sy_store y) = (Inr (), st')" "ready st'" "view st' = (view (sy_store y))(i := None)"
    using delete [OF r] by blast
  moreover from this have "moves y (y\<lparr>sy_store := st'\<rparr>)"
    by (intro moves_removal [OF assms(2)]) (auto split: if_splits)
  moreover have "moves y y" using assms(2) by (simp add: moves_def)
  ultimately show ?thesis using Step_revoke by (simp add: revoke_session_def)
next
  case (Step_revoke_sid sid)
  have r: "ready (sy_store y)" using assms(2) by (simp add: system_ok_def)
  obtain st' where "st_delete_sid store sid (sy_store y) = (Inr (), st')" "ready st'"
    "view st' = drop_where (\<lambda>s. ses_sid s = sid) (view (sy_store y))"
    using delete_sid [OF r] by blast
  moreover from this have "moves y (y\<lparr>sy_store := st'\<rparr>)"
    by (intro moves_removal [OF assms(2)]) (auto simp: drop_where_Some)
  moreover have "moves y y" using assms(2) by (simp add: moves_def)
  ultimately show ?thesis using Step_revoke_sid by (simp add: revoke_by_sid_def)
next
  case (Step_clean t)
  have r: "ready (sy_store y)" using assms(2) by (simp add: system_ok_def)
  obtain st' k where "st_delete_expired store t (sy_store y) = (Inr k, st')" "ready st'"
    "view st' = drop_where (\<lambda>s. ses_expires s < instant t) (view (sy_store y))"
    using delete_expired [OF r] by blast
  then show ?thesis using Step_clean moves_removal [OF assms(2), of st'] by (auto simp: clean_once_def drop_where_Some)
qed

lemma steps_move:
  "(session_step cfg store)\<^sup>*\<^sup>* y z \<Longrightarrow> system_ok y \<Longrightarrow> moves y z"
proof (induction rule: rtranclp_induct)
  case (step u v)
  then have "moves y u" "moves u v" using step_moves by (auto simp: moves_def)
  then show ?case unfolding moves_def by blast
qed (simp add: moves_def)

lemma revoked_stays_out:
  assumes ok: "system_ok y" and i: "i \<noteq> ''''" "i \<in> sy_used y"
    and steps: "(session_step cfg store)\<^sup>*\<^sup>* (y\<lparr>sy_store := snd (revoke_session store i (sy_store y))\<rparr>) z"
  shows "st_get store i (sy_store z) = (Inl ErrSessionNotFound, sy_store z)"
proof -
  let ?y = "y\<lparr>sy_store := snd (revoke_session store i (sy_store y))\<rparr>"
  have r: "ready (sy_store y)" using ok by (simp add: system_ok_def)
  obtain st' where st': "st_delete store i (sy_store y) = (Inr (), st')" "view st' = (view (sy_store y))(i := None)"
    using delete [OF r] by blast
  have "moves y ?y" using step_moves [OF Step_revoke ok] .
  then have "system_ok ?y" by (simp add: moves_def)
  then have "moves ?y z" using steps_move [OF steps] by blast
  moreover have "view (sy_store ?y) i = None" using st' i by (simp add: revoke_session_def)
  ultimately have "view (sy_store z) i = None" "ready (sy_store z)" using i by (auto simp: moves_def system_ok_def)
  then show ?thesis using get_missing i by blast
qed

end

section \<open>Revocation and lost updates\<close>

interpretation memory_steps: stepped_store memory_port mem_view mem_ready "\<lambda>_. True" "\<lambda>_. True" "\<lambda>t. t" "\<lambda>_ _ _. True"
  by unfold_locales simp_all

interpretation postgres_steps: stepped_store "postgres_port cipher" "pg_view cipher" "pg_ready cipher" drawn_nonces
  columns_fit to_micros texts_fit
  by unfold_locales simp_all

definition started :: "'st \<Rightarrow> 'st session_system" where
  "started st = \<lparr>sy_store = st, sy_pending = [], sy_used = {}\<rparr>"

lemma revoked_memory_session_stays_out:
  assumes "(session_step cfg memory_port)\<^sup>*\<^sup>* (started []) y" and "i \<noteq> ''''" and "i \<in> sy_used y"
    and "(session_step cfg memory_port)\<^sup>*\<^sup>* (y\<lparr>sy_store := snd (revoke_session memory_port i (sy_store y))\<rparr>) z"
  shows "st_get memory_port i (sy_store z) = (Inl ErrSessionNotFound, sy_store z)"
proof -
  have "memory_steps.system_ok (started [])"
    by (simp add: memory_steps.system_ok_def started_def empty_views)
  then have "memory_steps.system_ok y" using memory_steps.steps_move [OF assms(1)] by (simp add: memory_steps.moves_def)
  then show ?thesis using memory_steps.revoked_stays_out assms(2-4) by blast
qed

text \<open>
  C9: a revoked session never comes back: in the PostgreSQL store, from any state that creations, lookups,
  rotations, revocations and clean-ups reach, with their writes interleaved in any order, once a session is
  revoked no later step (in particular no write of a lookup or a rotation that had read it before) makes a
  lookup find it again, since a write only updates and never inserts.
\<close>

theorem revoked_session_stays_out:
  assumes "(session_step cfg (postgres_port cipher))\<^sup>*\<^sup>* (started empty_pg) y" and "i \<noteq> ''''" and "i \<in> sy_used y"
    and "(session_step cfg (postgres_port cipher))\<^sup>*\<^sup>*
      (y\<lparr>sy_store := snd (revoke_session (postgres_port cipher) i (sy_store y))\<rparr>) z"
  shows "st_get (postgres_port cipher) i (sy_store z) = (Inl ErrSessionNotFound, sy_store z)"
proof -
  have "postgres_steps.system_ok cipher (started empty_pg)"
    by (simp add: postgres_steps.system_ok_def started_def empty_views)
  then have "postgres_steps.system_ok cipher y"
    using postgres_steps.steps_move [OF assms(1)] by (simp add: postgres_steps.moves_def)
  then show ?thesis using postgres_steps.revoked_stays_out assms(2-4) by blast
qed

definition demo_session :: client_session where
  "demo_session = \<lparr>ses_id = ''s1'', ses_user = ''u1'', ses_sid = ''k1'', ses_access = ''at'', ses_refresh = ''rt'',
     ses_id_token = '''', ses_roles = [''admin''], ses_created = 1000, ses_updated = 1000,
     ses_expires = 1000 + 24 * hour, ses_metadata = Map.empty\<rparr>"

lemma demo_session_created:
  "create_session demo_cfg store demo_nonces 1000 demo_session_cmd st =
    then_do (st_create store demo_nonces demo_session) (\<lambda>_ st'. (Inr demo_session, st')) st"
  by (simp add: create_session_def demo_session_cmd_def demo_cfg_def new_session_service_def new_client_session_def
      session_options_def fresh_session_def demo_session_def)

definition demo_pg :: pg_store where
  "demo_pg = \<lparr>pg_rows = [session_to_row ''at'' ''rt'' '''' demo_session], pg_faults = []\<rparr>"

lemma demo_pg_get: "pg_get None ''s1'' demo_pg = (Inr demo_session, demo_pg)"
  by (simp add: pg_get_def demo_pg_def pg_exec select_row_def session_to_row_def decrypted_row_def store_decrypt_def
      demo_session_def to_micros_def)

lemma demo_pg_created: "st_create (postgres_port None) demo_nonces demo_session empty_pg = (Inr (), demo_pg)"
  by (simp add: postgres_port_def pg_create_def encrypted_row_def store_encrypt_def pg_exec empty_pg_def insert_row_def
      columns_fit_def char_count_def demo_session_def demo_pg_def)

definition demo_slid :: client_session where
  "demo_slid = demo_session\<lparr>ses_updated := 1000 + hour, ses_expires := 1000 + 25 * hour\<rparr>"

lemma demo_slide: "slide demo_cfg (1000 + hour) (1000 + hour) (1000 + hour) demo_session = Inr (demo_slid, True)"
  by (simp add: slide_def demo_cfg_def new_session_service_def session_expired_def demo_session_def time_sub_def
      session_touch_def demo_slid_def)

theorem revoked_session_stays_out_witness:
  "\<exists>y z. (session_step demo_cfg (postgres_port None))\<^sup>*\<^sup>* (started empty_pg) y \<and> demo_slid \<in> set (sy_pending y) \<and>
    (session_step demo_cfg (postgres_port None))\<^sup>*\<^sup>*
      (y\<lparr>sy_store := snd (revoke_session (postgres_port None) ''s1'' (sy_store y))\<rparr>) z \<and>
    st_get (postgres_port None) ''s1'' (sy_store z) = (Inl ErrSessionNotFound, sy_store z)"
proof -
  let ?p = "postgres_port None"
  let ?start = "\<lparr>sy_store = demo_pg, sy_pending = [], sy_used = {''s1''}\<rparr>"
  let ?y = "\<lparr>sy_store = demo_pg, sy_pending = [demo_slid], sy_used = {''s1''}\<rparr>"
  let ?r = "?y\<lparr>sy_store := snd (revoke_session ?p ''s1'' (sy_store ?y))\<rparr>"
  let ?z = "?r\<lparr>sy_store := snd (st_update ?p demo_nonces demo_slid (sy_store ?r)), sy_pending := remove1 demo_slid (sy_pending ?r)\<rparr>"
  have "snd (create_session demo_cfg ?p demo_nonces 1000 demo_session_cmd empty_pg) = demo_pg"
    using demo_pg_created by (simp add: demo_session_created)
  moreover have "sn_session demo_session_cmd = ''s1''"
    "texts_fit (sn_session demo_session_cmd) (sn_user demo_session_cmd) (sn_sid demo_session_cmd)"
    by (simp_all add: demo_session_cmd_def texts_fit_def char_count_def)
  ultimately have "session_step demo_cfg ?p (started empty_pg) ?start"
    using Step_create [of demo_session_cmd "started empty_pg" demo_nonces demo_cfg ?p 1000]
    by (simp add: started_def)
  moreover have "session_step demo_cfg ?p ?start ?y"
    using Step_lookup [of "''s1''" ?p ?start demo_session demo_pg demo_cfg "1000 + hour" "1000 + hour" "1000 + hour" demo_slid]
      demo_slide demo_pg_get by (simp add: postgres_port_def)
  ultimately have reach: "(session_step demo_cfg ?p)\<^sup>*\<^sup>* (started empty_pg) ?y"
    by (rule converse_rtranclp_into_rtranclp [OF _ r_into_rtranclp])
  moreover have steps: "(session_step demo_cfg ?p)\<^sup>*\<^sup>* ?r ?z" by (intro r_into_rtranclp Step_write) simp_all
  moreover have "st_get ?p ''s1'' (sy_store ?z) = (Inl ErrSessionNotFound, sy_store ?z)"
    by (rule revoked_session_stays_out [OF reach _ _ steps]) simp_all
  ultimately show ?thesis by (intro exI [of _ ?y] exI [of _ ?z]) simp
qed

text \<open>
  C37: concurrent requests lose a token rotation: when a lookup has read a session whose sliding update is due and
  another request rotates its tokens before the lookup writes it back, both report success and the store
  ends up with the tokens from before the rotation, the refresh token of which has been used.
\<close>

theorem lookup_overwrites_rotation:
  assumes "pg_ready cipher st" and "drawn_nonces n" and "drawn_nonces m"
    and "st_get (postgres_port cipher) (rt_session cmd) st = (Inr s, st)"
    and "slide cfg a1 a2 a3 s = Inr (slid, True)"
    and "rotate_session_tokens cfg (postgres_port cipher) n b1 b2 b3 cmd st = (Inr fresh, st1)"
  shows "ses_refresh fresh = rt_refresh cmd \<and>
    (\<exists>st2 s'. st_update (postgres_port cipher) m slid st1 = (Inr (), st2) \<and>
      st_get (postgres_port cipher) (rt_session cmd) st2 = (Inr s', st2) \<and>
      ses_refresh s' = ses_refresh s \<and> ses_access s' = ses_access s)"
proof -
  let ?i = "rt_session cmd" and ?p = "postgres_port cipher"
  have i: "?i \<noteq> ''''" using assms(6) by (auto simp: rotate_session_tokens_def split: if_splits)
  have v: "pg_view cipher st ?i = Some s"
    using postgres.get [OF assms(1) i] assms(4) by (auto split: option.splits)
  have id: "ses_id s = ?i" using postgres.view_id [OF assms(1) v] .
  have fit: "columns_fit s" using postgres.view_storable [OF assms(1) v] .
  have "then_do (st_update ?p n fresh) (\<lambda>_ st'. (Inr fresh, st')) st = (Inr fresh, st1)" and r: "rotated cfg b1 b2 b3 cmd s = Inr fresh"
    using assms(4,6) i by (auto simp: rotate_session_tokens_def then_do_def split: sum.splits prod.splits)
  note rk = rotated_keeps [OF r] and sk = slide_keeps [OF assms(5)]
  have "columns_fit fresh" "columns_fit slid" using fit rk sk postgres.storable_times by metis+
  then obtain st' where u: "st_update ?p n fresh st = (Inr (), st')" "pg_ready cipher st'"
    "pg_view cipher st' = (pg_view cipher st)(?i \<mapsto> keep_times to_micros fresh)"
    using postgres.update_present [OF assms(1,2), of fresh s] v id rk by auto
  have st1: "st' = st1"
    using \<open>then_do (st_update ?p n fresh) (\<lambda>_ st'. (Inr fresh, st')) st = (Inr fresh, st1)\<close> u(1) by simp
  have "ses_created (keep_times to_micros fresh) = ses_created s"
    using postgres.view_instants [OF assms(1) v] rk by (metis keep_times_keeps(6))
  then obtain st2 where w: "st_update ?p m slid st1 = (Inr (), st2)" "pg_ready cipher st2"
    "pg_view cipher st2 = (pg_view cipher st1)(?i \<mapsto> keep_times to_micros slid)"
    using postgres.update_present [of cipher st1 m slid "keep_times to_micros fresh"] u st1 assms(3)
      \<open>columns_fit slid\<close> id sk by auto
  then have "st_get ?p ?i st2 = (Inr (keep_times to_micros slid), st2)" using postgres.get_found i by simp
  with w(1) rk sk show ?thesis by auto
qed

definition demo_rotate :: rotate_cmd where
  "demo_rotate = \<lparr>rt_session = ''s1'', rt_access = ''at2'', rt_refresh = ''rt2'', rt_id_token = '''', rt_ttl = hour\<rparr>"

lemma demo_pg_ready: "pg_ready None demo_pg"
  using postgres.create_new [of None empty_pg demo_nonces demo_session] demo_pg_created empty_views
  by (simp add: columns_fit_def char_count_def demo_session_def)

theorem lookup_overwrites_rotation_witness:
  "\<exists>fresh st1 st2 s'. rotate_session_tokens demo_cfg (postgres_port None) demo_nonces (1000 + hour) (1000 + hour) (1000 + hour)
      demo_rotate demo_pg = (Inr fresh, st1) \<and> ses_refresh fresh = ''rt2'' \<and>
    st_update (postgres_port None) demo_nonces demo_slid st1 = (Inr (), st2) \<and>
    st_get (postgres_port None) ''s1'' st2 = (Inr s', st2) \<and> ses_refresh s' = ''rt''"
proof -
  let ?p = "postgres_port None"
  have g: "st_get ?p (rt_session demo_rotate) demo_pg = (Inr demo_session, demo_pg)"
    using demo_pg_get by (simp add: postgres_port_def demo_rotate_def)
  have v: "pg_view None demo_pg ''s1'' = Some demo_session"
    using postgres.get [OF demo_pg_ready, of "''s1''"] g by (auto simp: demo_rotate_def split: option.splits)
  obtain fresh where f: "rotated demo_cfg (1000 + hour) (1000 + hour) (1000 + hour) demo_rotate demo_session = Inr fresh"
    by (simp add: rotated_def rotate_tokens_def session_expired_def demo_rotate_def demo_session_def)
  have "columns_fit fresh" using rotated_keeps [OF f]
    by (simp add: columns_fit_def char_count_def demo_session_def)
  then obtain st1 where "st_update ?p demo_nonces fresh demo_pg = (Inr (), st1)"
    using postgres.update_present [OF demo_pg_ready demo_drawn, of fresh demo_session] v rotated_keeps [OF f]
    by (auto simp: demo_session_def)
  then have r: "rotate_session_tokens demo_cfg ?p demo_nonces (1000 + hour) (1000 + hour) (1000 + hour) demo_rotate demo_pg =
      (Inr fresh, st1)"
    using g f by (simp add: rotate_session_tokens_def) (simp add: demo_rotate_def)
  show ?thesis
    using lookup_overwrites_rotation [OF demo_pg_ready demo_drawn demo_drawn g demo_slide r] r
    by (auto simp: demo_rotate_def demo_session_def)
qed

end
