(* ===== verification/Go_Json.thy ===== *)
theory Go_Json
  imports Go_Float
begin

text \<open>
  What the source uses of \<open>encoding/json\<close>: the scanner and parser of JSON texts, and the decoding of a value
  into Go fields.  A key of an object is matched to a field by its exact name, else by its name with case
  folded; unknown keys are skipped; a value of the wrong kind makes the whole decoding fail.
\<close>

section \<open>Values\<close>

datatype json =
    J_null
  | J_bool bool
  | J_num string
  | J_str string
  | J_arr "json list"
  | J_obj "(string \<times> json) list"

definition json_space :: "char \<Rightarrow> bool" where
  "json_space c \<longleftrightarrow> c = CHR '' '' \<or> c = CHR 0x09 \<or> c = CHR 0x0A \<or> c = CHR 0x0D"

definition skip_ws :: "string \<Rightarrow> string" where
  "skip_ws s = dropWhile json_space s"

lemma skip_ws_length: "length (skip_ws s) \<le> length s"
  by (simp add: skip_ws_def length_dropWhile_le)

section \<open>Strings\<close>

definition code :: "char \<Rightarrow> int" where
  "code c = of_char c"

definition byte :: "int \<Rightarrow> char" where
  "byte n = char_of n"

definition encode_rune :: "int \<Rightarrow> string" where
  "encode_rune r =
     (if r < 0x80 then [byte r]
      else if r < 0x800 then [byte (0xC0 + r div 0x40), byte (0x80 + r mod 0x40)]
      else if r < 0x10000 then [byte (0xE0 + r div 0x1000), byte (0x80 + r div 0x40 mod 0x40), byte (0x80 + r mod 0x40)]
      else [byte (0xF0 + r div 0x40000), byte (0x80 + r div 0x1000 mod 0x40), byte (0x80 + r div 0x40 mod 0x40),
            byte (0x80 + r mod 0x40)])"

definition replacement :: string where
  "replacement = [CHR 0xEF, CHR 0xBF, CHR 0xBD]"

definition continuation :: "char \<Rightarrow> bool" where
  "continuation c \<longleftrightarrow> 0x80 \<le> code c \<and> code c \<le> 0xBF"

text \<open>The UTF-8 sequence of two or more bytes at the front of a text, if it is a valid one.\<close>

fun rune_bytes :: "string \<Rightarrow> string option" where
  "rune_bytes (a # b # s) =
     (if 0xC2 \<le> code a \<and> code a \<le> 0xDF \<and> continuation b then Some [a, b]
      else case s of
        [] \<Rightarrow> None
      | c # s' \<Rightarrow>
          if 0xE0 \<le> code a \<and> code a \<le> 0xEF \<and> continuation b \<and> continuation c \<and>
             (code a = 0xE0 \<longrightarrow> 0xA0 \<le> code b) \<and> (code a = 0xED \<longrightarrow> code b \<le> 0x9F)
          then Some [a, b, c]
          else case s' of
            [] \<Rightarrow> None
          | d # _ \<Rightarrow>
              if 0xF0 \<le> code a \<and> code a \<le> 0xF4 \<and> continuation b \<and> continuation c \<and> continuation d \<and>
                 (code a = 0xF0 \<longrightarrow> 0x90 \<le> code b) \<and> (code a = 0xF4 \<longrightarrow> code b \<le> 0x8F)
              then Some [a, b, c, d] else None)"
| "rune_bytes _ = None"

fun hex4 :: "string \<Rightarrow> (int \<times> string) option" where
  "hex4 (a # b # c # d # s) =
     (case (hex_value a, hex_value b, hex_value c, hex_value d) of
        (Some w, Some x, Some y, Some z) \<Rightarrow> Some (((w * 16 + x) * 16 + y) * 16 + z, s)
      | _ \<Rightarrow> None)"
| "hex4 _ = None"

definition surrogate :: "int \<Rightarrow> bool" where
  "surrogate r \<longleftrightarrow> 0xD800 \<le> r \<and> r < 0xE000"

text \<open>A \<open>\u\<close> escape, after its \<open>u\<close>: a pair of surrogates is one rune, a lone surrogate is replaced.\<close>

definition unicode_escape :: "string \<Rightarrow> (string \<times> string) option" where
  "unicode_escape s =
     (case hex4 s of
        None \<Rightarrow> None
      | Some (r, rest) \<Rightarrow>
          if \<not> surrogate r then Some (encode_rune r, rest)
          else
            (case rest of
               CHR 0x5C # CHR ''u'' # rest1 \<Rightarrow>
                 (case hex4 rest1 of
                    Some (q, rest2) \<Rightarrow>
                      if r < 0xDC00 \<and> 0xDC00 \<le> q \<and> q < 0xE000
                      then Some (encode_rune (0x10000 + (r - 0xD800) * 0x400 + (q - 0xDC00)), rest2)
                      else Some (replacement, rest)
                  | None \<Rightarrow> Some (replacement, rest))
             | _ \<Rightarrow> Some (replacement, rest)))"

definition escape :: "string \<Rightarrow> (string \<times> string) option" where
  "escape s =
     (case s of
        [] \<Rightarrow> None
      | c # rest \<Rightarrow>
          if c = CHR 0x22 \<or> c = CHR 0x5C \<or> c = CHR 0x2F then Some ([c], rest)
          else if c = CHR ''b'' then Some ([CHR 0x08], rest)
          else if c = CHR ''f'' then Some ([CHR 0x0C], rest)
          else if c = CHR ''n'' then Some ([CHR 0x0A], rest)
          else if c = CHR ''r'' then Some ([CHR 0x0D], rest)
          else if c = CHR ''t'' then Some ([CHR 0x09], rest)
          else if c = CHR ''u'' then unicode_escape rest
          else None)"

text \<open>The rest of a string after its opening quote: the decoded text and what follows the closing quote.\<close>

function json_string :: "string \<Rightarrow> (string \<times> string) option" where
  "json_string s =
     (case s of
        [] \<Rightarrow> None
      | c # cs \<Rightarrow>
          if c = CHR 0x22 then Some ([], cs)
          else if c = CHR 0x5C then
            (case escape cs of
               None \<Rightarrow> None
             | Some (t, rest) \<Rightarrow>
                 if length rest < length s
                 then map_option (\<lambda>(u, r). (t @ u, r)) (json_string rest) else None)
          else if code c < 0x20 then None
          else if code c < 0x80 then map_option (\<lambda>(u, r). (c # u, r)) (json_string cs)
          else case rune_bytes s of
                 None \<Rightarrow> map_option (\<lambda>(u, r). (replacement @ u, r)) (json_string cs)
               | Some t \<Rightarrow>
                   if length (drop (length t) s) < length s
                   then map_option (\<lambda>(u, r). (t @ u, r)) (json_string (drop (length t) s)) else None)"
  by auto
termination by (relation "measure length") auto

declare json_string.simps [simp del]

lemma json_string_length: "json_string s = Some (t, rest) \<Longrightarrow> length rest < length s"
proof (induction s arbitrary: t rest rule: json_string.induct)
  case (1 s)
  from "1.prems" obtain c cs where s: "s = c # cs" by (subst (asm) json_string.simps) (auto split: list.splits)
  consider "c = CHR 0x22" | "c = CHR 0x5C" | "c \<noteq> CHR 0x22" "c \<noteq> CHR 0x5C" "\<not> code c < 0x20" "code c < 0x80"
    | "c \<noteq> CHR 0x22" "c \<noteq> CHR 0x5C" "\<not> code c < 0x20" "\<not> code c < 0x80"
    using "1.prems" s by (subst (asm) json_string.simps) (auto split: if_splits)
  then show ?case
  proof cases
    case 2
    then show ?thesis using "1.prems" s "1.IH" (1) [OF s]
      by (subst (asm) json_string.simps) (fastforce split: option.splits if_splits prod.splits)
  next
    case 3
    then show ?thesis using "1.prems" s "1.IH" (2) [OF s]
      by (subst (asm) json_string.simps) fastforce
  next
    case 4
    then show ?thesis using "1.prems" s "1.IH" (3,4) [OF s]
      by (subst (asm) json_string.simps) (fastforce split: option.splits if_splits)
  qed (use "1.prems" s in \<open>subst (asm) json_string.simps, simp\<close>)
qed

section \<open>Numbers\<close>

definition is_digit :: "char \<Rightarrow> bool" where
  "is_digit c \<longleftrightarrow> 0x30 \<le> code c \<and> code c \<le> 0x39"

text \<open>One or more digits, with what follows them.\<close>

definition digits1 :: "string \<Rightarrow> (string \<times> string) option" where
  "digits1 s = (let d = takeWhile is_digit s in if d = [] then None else Some (d, dropWhile is_digit s))"

definition int_part :: "string \<Rightarrow> (string \<times> string) option" where
  "int_part s =
     (case s of
        [] \<Rightarrow> None
      | c # cs \<Rightarrow> if c = CHR ''0'' then Some ([c], cs) else digits1 s)"

definition fraction_part :: "string \<Rightarrow> (string \<times> string) option" where
  "fraction_part s =
     (case s of
        CHR ''.'' # cs \<Rightarrow> map_option (\<lambda>(d, r). (CHR ''.'' # d, r)) (digits1 cs)
      | _ \<Rightarrow> Some ([], s))"

definition sign_part :: "string \<Rightarrow> string \<times> string" where
  "sign_part s =
     (case s of
        [] \<Rightarrow> ([], [])
      | c # cs \<Rightarrow> if c = CHR ''+'' \<or> c = CHR ''-'' then ([c], cs) else ([], s))"

definition exponent_part :: "string \<Rightarrow> (string \<times> string) option" where
  "exponent_part s =
     (case s of
        [] \<Rightarrow> Some ([], [])
      | c # cs \<Rightarrow>
          if c = CHR ''e'' \<or> c = CHR ''E''
          then case sign_part cs of (sg, r) \<Rightarrow> map_option (\<lambda>(d, r'). (c # sg @ d, r')) (digits1 r)
          else Some ([], s))"

definition json_number :: "string \<Rightarrow> (string \<times> string) option" where
  "json_number s =
     (case (case s of CHR ''-'' # cs \<Rightarrow> (''-'', cs) | _ \<Rightarrow> ('''', s)) of (neg, s0) \<Rightarrow>
      case int_part s0 of
        None \<Rightarrow> None
      | Some (i, s1) \<Rightarrow>
          (case fraction_part s1 of
             None \<Rightarrow> None
           | Some (f, s2) \<Rightarrow>
               (case exponent_part s2 of
                  None \<Rightarrow> None
                | Some (e, s3) \<Rightarrow> Some (neg @ i @ f @ e, s3))))"

section \<open>The parser\<close>

definition literal :: "string \<Rightarrow> json \<Rightarrow> string \<Rightarrow> (json \<times> string) option" where
  "literal word v s = (if take (length word) s = word then Some (v, drop (length word) s) else None)"

lemma skip_ws_Cons: "skip_ws s = c # cs \<Longrightarrow> length cs < length s"
  using skip_ws_length [of s] by simp

text \<open>The rest behind the given character, if that is the next one that is not white space.\<close>

definition token :: "char \<Rightarrow> string \<Rightarrow> string option" where
  "token c s = (case skip_ws s of [] \<Rightarrow> None | x # r \<Rightarrow> if x = c then Some r else None)"

lemma token_length: "token c s = Some r \<Longrightarrow> length r < length s"
  by (auto simp: token_def split: list.splits if_splits dest: skip_ws_Cons)

text \<open>
  \<open>d\<close> is the nesting depth, at most 10000.  The elements of an array and the members of an object are parsed
  from behind the opening bracket or a comma.  The tests on the length are what the termination needs; they
  always hold (\<open>parse_shortens\<close>).
\<close>

function parse_value :: "int \<Rightarrow> string \<Rightarrow> (json \<times> string) option"
  and parse_elements :: "int \<Rightarrow> string \<Rightarrow> (json list \<times> string) option"
  and parse_members :: "int \<Rightarrow> string \<Rightarrow> ((string \<times> json) list \<times> string) option" where
  "parse_value d s0 =
     (case skip_ws s0 of
        [] \<Rightarrow> None
      | c # s \<Rightarrow>
          if c = CHR 0x7B then
            (if 10000 \<le> d then None
             else case token (CHR 0x7D) s of
                    Some r \<Rightarrow> Some (J_obj [], r)
                  | None \<Rightarrow> map_option (\<lambda>(ms, r). (J_obj ms, r)) (parse_members (d + 1) s))
          else if c = CHR 0x5B then
            (if 10000 \<le> d then None
             else case token (CHR 0x5D) s of
                    Some r \<Rightarrow> Some (J_arr [], r)
                  | None \<Rightarrow> map_option (\<lambda>(vs, r). (J_arr vs, r)) (parse_elements (d + 1) s))
          else if c = CHR 0x22 then map_option (\<lambda>(t, r). (J_str t, r)) (json_string s)
          else if c = CHR ''t'' then literal ''true'' (J_bool True) (c # s)
          else if c = CHR ''f'' then literal ''false'' (J_bool False) (c # s)
          else if c = CHR ''n'' then literal ''null'' J_null (c # s)
          else map_option (\<lambda>(n, r). (J_num n, r)) (json_number (c # s)))"
| "parse_elements d s =
     (case parse_value d s of
        None \<Rightarrow> None
      | Some (v, r) \<Rightarrow>
          (case token (CHR 0x5D) r of
             Some r1 \<Rightarrow> Some ([v], r1)
           | None \<Rightarrow>
               (case token (CHR '','') r of
                  None \<Rightarrow> None
                | Some r1 \<Rightarrow>
                    if length r1 < length s then map_option (\<lambda>(vs, q). (v # vs, q)) (parse_elements d r1) else None)))"
| "parse_members d s =
     (case token (CHR 0x22) s of
        None \<Rightarrow> None
      | Some s1 \<Rightarrow>
          (case json_string s1 of
             None \<Rightarrow> None
           | Some (k, s2) \<Rightarrow>
               (case token (CHR '':'') s2 of
                  None \<Rightarrow> None
                | Some s3 \<Rightarrow>
                    if length s3 < length s then
                      (case parse_value d s3 of
                         None \<Rightarrow> None
                       | Some (v, r) \<Rightarrow>
                           (case token (CHR 0x7D) r of
                              Some r1 \<Rightarrow> Some ([(k, v)], r1)
                            | None \<Rightarrow>
                                (case token (CHR '','') r of
                                   None \<Rightarrow> None
                                 | Some r1 \<Rightarrow>
                                     if length r1 < length s
                                     then map_option (\<lambda>(ms, q). ((k, v) # ms, q)) (parse_members d r1) else None)))
                    else None)))"
  by pat_completeness auto
termination
  by (relation "measure (\<lambda>x. case x of Inl (d, s) \<Rightarrow> 2 * length s | Inr (Inl (d, s)) \<Rightarrow> 2 * length s + 1
        | Inr (Inr (d, s)) \<Rightarrow> 2 * length s + 1)")
    (auto dest: skip_ws_Cons)

declare parse_value.simps [simp del] parse_elements.simps [simp del] parse_members.simps [simp del]

lemma digits1_length: "digits1 s = Some (d, r) \<Longrightarrow> length r < length s"
proof -
  assume a: "digits1 s = Some (d, r)"
  then have "takeWhile is_digit s \<noteq> []" "r = dropWhile is_digit s" by (auto simp: digits1_def Let_def split: if_splits)
  moreover have "length s = length (takeWhile is_digit s) + length (dropWhile is_digit s)"
    by (metis length_append takeWhile_dropWhile_id)
  ultimately show ?thesis by simp
qed

lemma int_part_length: "int_part s = Some (d, r) \<Longrightarrow> length r < length s"
  by (auto simp: int_part_def split: list.splits if_splits dest: digits1_length)

lemma fraction_part_length: "fraction_part s = Some (d, r) \<Longrightarrow> length r \<le> length s"
  by (auto simp: fraction_part_def split: list.splits char.splits bool.splits dest!: digits1_length)

lemma sign_part_length: "length (snd (sign_part s)) \<le> length s"
  by (auto simp: sign_part_def split: list.splits)

lemma exponent_part_length:
  assumes "exponent_part s = Some (d, r)"
  shows "length r \<le> length s"
proof (cases s)
  case (Cons c cs)
  obtain sg q where q: "sign_part cs = (sg, q)" by fastforce
  show ?thesis
  proof (cases "c = CHR ''e'' \<or> c = CHR ''E''")
    case True
    then obtain x where "digits1 q = Some (x, r)"
      using assms Cons q by (auto simp: exponent_part_def)
    then show ?thesis using digits1_length sign_part_length [of cs] q Cons by fastforce
  qed (use assms Cons in \<open>auto simp: exponent_part_def\<close>)
qed (use assms in \<open>simp add: exponent_part_def\<close>)

lemma json_number_length:
  assumes "json_number s = Some (n, r)"
  shows "length r < length s"
proof -
  obtain neg s0 where s0: "(case s of CHR ''-'' # cs \<Rightarrow> (''-'', cs) | _ \<Rightarrow> ('''', s)) = (neg, s0)" by fastforce
  then have l: "length s0 \<le> length s" by (auto split: list.splits char.splits bool.splits)
  obtain i s1 f s2 e where "int_part s0 = Some (i, s1)" "fraction_part s1 = Some (f, s2)" "exponent_part s2 = Some (e, r)"
    using assms by (auto simp: json_number_def s0 split: option.splits)
  then show ?thesis using l int_part_length fraction_part_length exponent_part_length by fastforce
qed

lemma literal_length: "literal w v s = Some (x, r) \<Longrightarrow> w \<noteq> [] \<Longrightarrow> length r < length s"
  by (cases w; cases s) (auto simp: literal_def less_Suc_eq_le split: if_splits)

lemma parse_shortens:
  "parse_value d s = Some (v, r) \<Longrightarrow> length r < length s"
  "parse_elements d s = Some (vs, r) \<Longrightarrow> length r < length s"
  "parse_members d s = Some (ms, r) \<Longrightarrow> length r < length s"
proof (induction d s and d s and d s arbitrary: v r and vs r and ms r
    rule: parse_value_parse_elements_parse_members.induct)
  case (1 d s0)
  obtain c s where s: "skip_ws s0 = c # s"
    using "1.prems" by (subst (asm) parse_value.simps) (auto split: list.splits)
  have whole: "length (c # s) \<le> length s0" using skip_ws_length [of s0] s by simp
  consider "c = CHR 0x7B" | "c = CHR 0x5B" | "c = CHR 0x22" | "c \<notin> {CHR 0x7B, CHR 0x5B, CHR 0x22}" by blast
  then show ?case
  proof cases
    case 1
    have "length r < length s"
    proof (cases "token (CHR 0x7D) s")
      case None
      then obtain ms where "\<not> 10000 \<le> d" "parse_members (d + 1) s = Some (ms, r)"
        using "1.prems" s 1 by (subst (asm) parse_value.simps) (auto split: if_splits)
      then show ?thesis using "1.IH"(1) [OF s 1 _ None] by simp
    qed (use "1.prems" s 1 token_length in \<open>subst (asm) parse_value.simps, auto split: if_splits\<close>)
    then show ?thesis using whole by simp
  next
    case 2
    have "length r < length s"
    proof (cases "token (CHR 0x5D) s")
      case None
      then obtain vs where "\<not> 10000 \<le> d" "parse_elements (d + 1) s = Some (vs, r)"
        using "1.prems" s 2 by (subst (asm) parse_value.simps) (auto split: if_splits)
      then show ?thesis using "1.IH"(2) [OF s _ 2 _ None] 2 by simp
    qed (use "1.prems" s 2 token_length in \<open>subst (asm) parse_value.simps, auto split: if_splits\<close>)
    then show ?thesis using whole by simp
  next
    case 3
    then obtain t where "json_string s = Some (t, r)"
      using "1.prems" s by (subst (asm) parse_value.simps) auto
    then show ?thesis using json_string_length whole by fastforce
  next
    case 4
    then have "length r < length (c # s)"
      using "1.prems" s by (subst (asm) parse_value.simps)
        (auto split: if_splits dest!: literal_length json_number_length)
    then show ?thesis using whole by simp
  qed
next
  case (2 d s)
  obtain v r0 where v: "parse_value d s = Some (v, r0)"
    using "2.prems" by (subst (asm) parse_elements.simps) (auto split: option.splits)
  have l: "length r0 < length s" using "2.IH"(1) [OF v] .
  show ?case
  proof (cases "token (CHR 0x5D) r0")
    case None
    then obtain r1 ws where "token (CHR '','') r0 = Some r1" "length r1 < length s" "parse_elements d r1 = Some (ws, r)"
      using "2.prems" v by (subst (asm) parse_elements.simps) (auto split: option.splits if_splits)
    then show ?thesis using "2.IH"(2) [OF v refl None] by fastforce
  next
    case (Some r1)
    then show ?thesis using "2.prems" v l token_length [OF Some] by (subst (asm) parse_elements.simps) simp
  qed
next
  case (3 d s)
  obtain s1 k s2 s3 v r0 where v: "token (CHR 0x22) s = Some s1" "json_string s1 = Some (k, s2)"
    "token (CHR '':'') s2 = Some s3" "length s3 < length s" "parse_value d s3 = Some (v, r0)"
    using "3.prems" by (subst (asm) parse_members.simps) (auto split: option.splits if_splits)
  have l: "length r0 < length s" using "3.IH"(1) [OF v(1,2) refl v(3,4,5)] v(4) by simp
  show ?case
  proof (cases "token (CHR 0x7D) r0")
    case None
    then obtain r1 ms where "token (CHR '','') r0 = Some r1" "length r1 < length s" "parse_members d r1 = Some (ms, r)"
      using "3.prems" v by (subst (asm) parse_members.simps) (auto split: option.splits if_splits)
    then show ?thesis using "3.IH"(2) [OF v(1,2) refl v(3,4,5) refl None] by fastforce
  next
    case (Some r1)
    then show ?thesis using "3.prems" v l token_length [OF Some] by (subst (asm) parse_members.simps) simp
  qed
qed

text \<open>\<open>json.Unmarshal\<close> wants one value and nothing else; a \<open>Decoder\<close> reads the first value and stops.\<close>

definition json_text :: "string \<Rightarrow> json option" where
  "json_text s =
     (case parse_value 0 s of
        None \<Rightarrow> None
      | Some (v, r) \<Rightarrow> if skip_ws r = [] then Some v else None)"

definition json_first :: "string \<Rightarrow> json option" where
  "json_first s = map_option fst (parse_value 0 s)"

section \<open>Decoding into fields\<close>

text \<open>Names with case folded: the two letters outside ASCII that fold to ASCII letters are the long s and the Kelvin sign.\<close>

fun fold_name :: "string \<Rightarrow> string" where
  "fold_name [] = []"
| "fold_name (a # s) =
     (if a = CHR 0xC5 \<and> take 1 s = [CHR 0xBF] then CHR ''S'' # fold_name (drop 1 s)
      else if a = CHR 0xE2 \<and> take 2 s = [CHR 0x84, CHR 0xAA] then CHR ''K'' # fold_name (drop 2 s)
      else to_upper_char a # fold_name s)"

definition match_field :: "string list \<Rightarrow> string \<Rightarrow> string option" where
  "match_field names k =
     (if List.member names k then Some k else List.find (\<lambda>n. fold_name n = fold_name k) names)"

fun decode_members :: "string list \<Rightarrow> (string \<Rightarrow> json \<Rightarrow> 'a \<Rightarrow> 'a option) \<Rightarrow> (string \<times> json) list \<Rightarrow> 'a \<Rightarrow> 'a option" where
  "decode_members names put [] x = Some x"
| "decode_members names put ((k, v) # ms) x =
     (case match_field names k of
        None \<Rightarrow> decode_members names put ms x
      | Some n \<Rightarrow> (case put n v x of None \<Rightarrow> None | Some y \<Rightarrow> decode_members names put ms y))"

definition decode_struct :: "string list \<Rightarrow> (string \<Rightarrow> json \<Rightarrow> 'a \<Rightarrow> 'a option) \<Rightarrow> json \<Rightarrow> 'a \<Rightarrow> 'a option" where
  "decode_struct names put v x =
     (case v of J_null \<Rightarrow> Some x | J_obj ms \<Rightarrow> decode_members names put ms x | _ \<Rightarrow> None)"

text \<open>A field that is not a pointer keeps its value at \<open>null\<close>; a pointer becomes nil.\<close>

definition get_text :: "json \<Rightarrow> string \<Rightarrow> string option" where
  "get_text v old = (case v of J_null \<Rightarrow> Some old | J_str s \<Rightarrow> Some s | _ \<Rightarrow> None)"

definition get_bool :: "json \<Rightarrow> bool \<Rightarrow> bool option" where
  "get_bool v old = (case v of J_null \<Rightarrow> Some old | J_bool b \<Rightarrow> Some b | _ \<Rightarrow> None)"

definition get_int64 :: "json \<Rightarrow> int \<Rightarrow> int option" where
  "get_int64 v old =
     (case v of J_null \<Rightarrow> Some old | J_num n \<Rightarrow> (if snd (atoi n) then Some (fst (atoi n)) else None) | _ \<Rightarrow> None)"

definition get_float :: "json \<Rightarrow> float64 \<Rightarrow> float64 option" where
  "get_float v old = (case v of J_null \<Rightarrow> Some old | J_num n \<Rightarrow> parse_float n | _ \<Rightarrow> None)"

definition get_ptr :: "(json \<Rightarrow> 'a \<Rightarrow> 'a option) \<Rightarrow> 'a \<Rightarrow> json \<Rightarrow> 'a option option" where
  "get_ptr get zero v = (if v = J_null then Some None else map_option Some (get v zero))"

fun get_each :: "(json \<Rightarrow> 'a \<Rightarrow> 'a option) \<Rightarrow> 'a \<Rightarrow> json list \<Rightarrow> 'a list option" where
  "get_each get zero [] = Some []"
| "get_each get zero (v # vs) =
     (case get v zero of None \<Rightarrow> None | Some x \<Rightarrow> map_option (\<lambda>xs. x # xs) (get_each get zero vs))"

definition get_slice :: "(json \<Rightarrow> 'a \<Rightarrow> 'a option) \<Rightarrow> 'a \<Rightarrow> json \<Rightarrow> 'a list option" where
  "get_slice get zero v = (case v of J_null \<Rightarrow> Some [] | J_arr vs \<Rightarrow> get_each get zero vs | _ \<Rightarrow> None)"

end
