(* ===== verification/Go_Time.thy ===== *)
theory Go_Time
  imports Go_Json
begin

text \<open>
  What the source uses of package \<open>time\<close> on texts: \<open>ParseDuration\<close>, \<open>Duration.Seconds\<close> and the reading of a JSON
  time stamp (RFC 3339, as leniently as \<open>time.Parse\<close> does it: an hour of one digit, a comma before the
  fraction, and an offset of up to 24:60 are accepted).  Also the sum, the quotient and the order of floating
  point numbers, and their bit patterns.
\<close>

section \<open>More floating point arithmetic\<close>

fun float_add :: "float64 \<Rightarrow> float64 \<Rightarrow> float64" where
  "float_add (F_fin a) (F_fin b) = round64 (a + b)"
| "float_add (F_inf s) (F_fin b) = F_inf s"
| "float_add (F_fin a) (F_inf s) = F_inf s"
| "float_add (F_inf s) (F_inf t) = (if s = t then F_inf s else F_nan)"
| "float_add _ _ = F_nan"

text \<open>The divisors that occur are not zero, or the dividend is an integer and the divisor positive.\<close>

fun float_div :: "float64 \<Rightarrow> float64 \<Rightarrow> float64" where
  "float_div (F_fin a) (F_fin b) = (if b = 0 then (if a = 0 then F_nan else F_inf (a < 0)) else round64 (a / b))"
| "float_div (F_inf s) (F_fin b) = F_inf (s \<noteq> (b < 0))"
| "float_div (F_fin a) (F_inf s) = F_fin 0"
| "float_div _ _ = F_nan"

fun float_less :: "float64 \<Rightarrow> float64 \<Rightarrow> bool" where
  "float_less (F_fin a) (F_fin b) = (a < b)"
| "float_less (F_inf s) (F_fin b) = s"
| "float_less (F_fin a) (F_inf s) = (\<not> s)"
| "float_less (F_inf s) (F_inf t) = (s \<and> \<not> t)"
| "float_less _ _ = False"

definition float_le :: "float64 \<Rightarrow> float64 \<Rightarrow> bool" where
  "float_le a b \<longleftrightarrow> float_less a b \<or> (a = b \<and> a \<noteq> F_nan)"

definition float_of_int :: "int \<Rightarrow> float64" where
  "float_of_int n = round64 (of_int n)"

text \<open>The bit pattern of a number: sign, biased exponent and fraction.\<close>

definition float_bits :: "float64 \<Rightarrow> int" where
  "float_bits f =
     (case f of
        F_nan \<Rightarrow> 0x7FF8000000000001
      | F_inf neg \<Rightarrow> (if neg then 0xFFF0000000000000 else 0x7FF0000000000000)
      | F_fin x \<Rightarrow>
          if x = 0 then 0
          else
            let e = ulp_exponent \<bar>x\<bar>; m = \<lfloor>\<bar>x\<bar> / pow2 e\<rfloor>;
                sgn_bit = (if x < 0 then 0x8000000000000000 else 0)
            in if m < 0x10000000000000 then sgn_bit + m
               else sgn_bit + (e + 1075) * 0x10000000000000 + (m - 0x10000000000000))"

section \<open>Durations\<close>

definition duration_seconds :: "duration \<Rightarrow> float64" where
  "duration_seconds d =
     float_add (float_of_int (go_div d second)) (float_div (float_of_int (go_mod d second)) (F_fin 1000000000))"

definition two63 :: int where "two63 = 9223372036854775808"

fun leading_int :: "int \<Rightarrow> string \<Rightarrow> (int \<times> string) option" where
  "leading_int x [] = Some (x, [])"
| "leading_int x (c # s) =
     (if \<not> is_digit c then Some (x, c # s)
      else if two63 div 10 < x then None
      else let y = x * 10 + (code c - 0x30) in if two63 < y then None else leading_int y s)"

fun leading_fraction :: "int \<Rightarrow> rat \<Rightarrow> bool \<Rightarrow> string \<Rightarrow> int \<times> rat \<times> string" where
  "leading_fraction x scale over [] = (x, scale, [])"
| "leading_fraction x scale over (c # s) =
     (if \<not> is_digit c then (x, scale, c # s)
      else if over \<or> (two63 - 1) div 10 < x then leading_fraction x scale True s
      else let y = x * 10 + (code c - 0x30)
           in if two63 < y then leading_fraction x scale True s else leading_fraction y (scale * 10) False s)"

definition duration_unit :: "string \<Rightarrow> int option" where
  "duration_unit u =
     map_of [(''ns'', 1), (''us'', 1000), ([CHR 0xC2, CHR 0xB5, CHR ''s''], 1000), ([CHR 0xCE, CHR 0xBC, CHR ''s''], 1000),
             (''ms'', 1000000), (''s'', 1000000000), (''m'', 60000000000), (''h'', 3600000000000)] u"

text \<open>One number with its unit: its nanoseconds and the rest.\<close>

definition duration_part :: "string \<Rightarrow> (int \<times> string) option" where
  "duration_part s =
     (if s = [] \<or> \<not> (hd s = CHR ''.'' \<or> is_digit (hd s)) then None
      else case leading_int 0 s of
        None \<Rightarrow> None
      | Some (v, s1) \<Rightarrow>
          let pre = length s1 \<noteq> length s;
              (f, scale, s2, post) =
                (case s1 of
                   [] \<Rightarrow> (0, 1, s1, False)
                 | c # r \<Rightarrow>
                     if c = CHR ''.''
                     then case leading_fraction 0 1 False r of (f, scale, r') \<Rightarrow> (f, scale, r', length r' \<noteq> length r)
                     else (0, 1, s1, False));
              in_unit = (\<lambda>c. \<not> (c = CHR ''.'' \<or> is_digit c))
          in if \<not> pre \<and> \<not> post then None
             else case duration_unit (takeWhile in_unit s2) of
               None \<Rightarrow> None
             | Some unit \<Rightarrow>
                 if two63 div unit < v then None
                 else
                   let frac = (if 0 < f
                               then (case float_mul (float_of_int f) (float_div (float_of_int unit) (F_fin scale)) of
                                       F_fin x \<Rightarrow> truncate_rat x | _ \<Rightarrow> 0) else 0);
                       total = v * unit + frac
                   in if two63 < total then None else Some (total, dropWhile in_unit s2))"

function duration_parts :: "int \<Rightarrow> string \<Rightarrow> int option" where
  "duration_parts d s =
     (if s = [] then Some d
      else case duration_part s of
             None \<Rightarrow> None
           | Some (v, r) \<Rightarrow>
               if two63 < d + v then None
               else if length r < length s then duration_parts (d + v) r else None)"
  by auto
termination by (relation "measure (length \<circ> snd)") auto

declare duration_parts.simps [simp del]

definition parse_duration :: "string \<Rightarrow> duration option" where
  "parse_duration s0 =
     (case sign_part s0 of (sg, s) \<Rightarrow>
        if s = ''0'' then Some 0
        else if s = [] then None
        else case duration_parts 0 s of
               None \<Rightarrow> None
             | Some d \<Rightarrow> if sg = ''-'' then Some (- d) else if two63 \<le> d then None else Some d)"

section \<open>Time stamps\<close>

definition leap_year :: "int \<Rightarrow> bool" where
  "leap_year y \<longleftrightarrow> y mod 4 = 0 \<and> (y mod 100 \<noteq> 0 \<or> y mod 400 = 0)"

definition days_in_month :: "int \<Rightarrow> int \<Rightarrow> int" where
  "days_in_month y m =
     (if m = 2 then (if leap_year y then 29 else 28) else if m \<in> {4, 6, 9, 11} then 30 else 31)"

text \<open>The number of days since 1 January of the year 1.\<close>

definition days_before :: "int \<Rightarrow> int \<Rightarrow> int \<Rightarrow> int" where
  "days_before y m d =
     365 * (y - 1) + (y - 1) div 4 - (y - 1) div 100 + (y - 1) div 400 +
     sum_list (map (days_in_month y) [1..m - 1]) + (d - 1)"

definition two_digits :: "char \<Rightarrow> char \<Rightarrow> int \<Rightarrow> int \<Rightarrow> int option" where
  "two_digits a b lo hi =
     (if is_digit a \<and> is_digit b
      then let n = (code a - 0x30) * 10 + (code b - 0x30) in if lo \<le> n \<and> n \<le> hi then Some n else None
      else None)"

text \<open>The offset of the zone in seconds.\<close>

definition parse_zone :: "string \<Rightarrow> int option" where
  "parse_zone s =
     (case s of
        [z] \<Rightarrow> if z = CHR ''Z'' then Some 0 else None
      | [sg, a, b, colon, c, d] \<Rightarrow>
          if colon \<noteq> CHR '':'' \<or> (sg \<noteq> CHR ''+'' \<and> sg \<noteq> CHR ''-'') then None
          else (case (two_digits a b 0 24, two_digits c d 0 60) of
                  (Some h, Some m) \<Rightarrow> let off = (h * 60 + m) * 60 in Some (if sg = CHR ''-'' then - off else off)
                | _ \<Rightarrow> None)
      | _ \<Rightarrow> None)"

definition fraction_nanos :: "string \<Rightarrow> int \<times> string" where
  "fraction_nanos s =
     (case s of
        c # d # r \<Rightarrow>
          if (c = CHR ''.'' \<or> c = CHR '','') \<and> is_digit d
          then let ds = take 9 (takeWhile is_digit (d # r))
               in (foldl (\<lambda>n x. n * 10 + (code x - 0x30)) 0 ds * 10 ^ (9 - length ds), dropWhile is_digit (d # r))
          else (0, s)
      | _ \<Rightarrow> (0, s))"

text \<open>The time of the day and the zone, behind the \<open>T\<close>; the result is in nanoseconds.\<close>

definition parse_clock :: "int \<Rightarrow> string \<Rightarrow> int option" where
  "parse_clock h s =
     (case s of
        k1 # a # b # k2 # c # d # r \<Rightarrow>
          if k1 \<noteq> CHR '':'' \<or> k2 \<noteq> CHR '':'' then None
          else (case (two_digits a b 0 59, two_digits c d 0 59) of
             (Some m, Some sec) \<Rightarrow>
               (case fraction_nanos r of (ns, z) \<Rightarrow>
                  case parse_zone z of
                    None \<Rightarrow> None
                  | Some off \<Rightarrow> Some ((h * 3600 + m * 60 + sec - off) * second + ns))
           | _ \<Rightarrow> None)
      | _ \<Rightarrow> None)"

definition parse_hour :: "string \<Rightarrow> (int \<times> string) option" where
  "parse_hour s =
     (case s of
        a # b # r \<Rightarrow>
          if is_digit a \<and> is_digit b then map_option (\<lambda>h. (h, r)) (two_digits a b 0 23)
          else if is_digit a then Some (code a - 0x30, b # r)
          else None
      | _ \<Rightarrow> None)"

definition parse_timestamp :: "string \<Rightarrow> time option" where
  "parse_timestamp s =
     (case s of
        y1 # y2 # y3 # y4 # k1 # m1 # m2 # k2 # d1 # d2 # k3 # r \<Rightarrow>
          if k1 \<noteq> CHR ''-'' \<or> k2 \<noteq> CHR ''-'' \<or> k3 \<noteq> CHR ''T'' then None
          else (case (two_digits y1 y2 0 99, two_digits y3 y4 0 99, two_digits m1 m2 1 12, two_digits d1 d2 1 31, parse_hour r) of
             (Some c, Some y, Some m, Some d, Some (h, r')) \<Rightarrow>
               if days_in_month (c * 100 + y) m < d then None
               else map_option (\<lambda>ns. days_before (c * 100 + y) m d * 24 * hour + ns) (parse_clock h r')
           | _ \<Rightarrow> None)
      | _ \<Rightarrow> None)"

end
