(* ===== verification/Report_Parser.thy ===== *)
theory Report_Parser
  imports Go_Time Runs
begin

text \<open>
  \<^verbatim>\<open>internal/domain/service/report_parser.go\<close>: the reading of the \<open>summary.json\<close> of a run into its verdict and
  its key figures.
\<close>

section \<open>The document\<close>

record metric_entry =
  me_name :: string
  me_type :: string
  me_count :: int
  me_value :: float64
  me_rate :: float64
  me_min :: json
  me_mean :: json
  me_p50 :: json
  me_p90 :: json
  me_p95 :: json
  me_p99 :: json
  me_max :: json

definition zero_entry :: metric_entry where
  "zero_entry = \<lparr>me_name = '''', me_type = '''', me_count = 0, me_value = F_fin 0, me_rate = F_fin 0, me_min = J_null,
     me_mean = J_null, me_p50 = J_null, me_p90 = J_null, me_p95 = J_null, me_p99 = J_null, me_max = J_null\<rparr>"

record threshold_entry =
  te_metric :: string
  te_stat :: string
  te_operator :: string
  te_target :: string
  te_actual :: string
  te_passed :: bool

definition zero_threshold :: threshold_entry where
  "zero_threshold = \<lparr>te_metric = '''', te_stat = '''', te_operator = '''', te_target = '''', te_actual = '''', te_passed = False\<rparr>"

record summary_doc =
  sd_suite_name :: string
  sd_scenario :: string
  sd_status :: string
  sd_passed :: "bool option"
  sd_sla_passed :: "bool option"
  sd_sla :: "bool option"
  sd_started_at :: "time option"
  sd_ended_at :: "time option"
  sd_duration :: json
  sd_metrics :: "metric_entry list"
  sd_thresholds :: "threshold_entry list"
  sd_total_iterations :: "int option"
  sd_iterations :: "int option"
  sd_total_requests :: "int option"
  sd_requests :: "int option"
  sd_avg_tps :: "float64 option"
  sd_tps :: "float64 option"
  sd_throughput :: "float64 option"
  sd_p50_ms :: "float64 option"
  sd_p90_ms :: "float64 option"
  sd_p95_ms :: "float64 option"
  sd_p99_ms :: "float64 option"
  sd_p50 :: json
  sd_p90 :: json
  sd_p95 :: json
  sd_p99 :: json
  sd_error_rate_pct :: "float64 option"
  sd_error_rate :: "float64 option"

definition empty_doc :: summary_doc where
  "empty_doc = \<lparr>sd_suite_name = '''', sd_scenario = '''', sd_status = '''', sd_passed = None, sd_sla_passed = None,
     sd_sla = None, sd_started_at = None, sd_ended_at = None, sd_duration = J_null, sd_metrics = [], sd_thresholds = [],
     sd_total_iterations = None, sd_iterations = None, sd_total_requests = None, sd_requests = None,
     sd_avg_tps = None, sd_tps = None, sd_throughput = None, sd_p50_ms = None, sd_p90_ms = None, sd_p95_ms = None,
     sd_p99_ms = None, sd_p50 = J_null, sd_p90 = J_null, sd_p95 = J_null, sd_p99 = J_null,
     sd_error_rate_pct = None, sd_error_rate = None\<rparr>"

section \<open>Decoding\<close>

definition metric_fields :: "string list" where
  "metric_fields = [''name'', ''type'', ''count'', ''value'', ''rate'', ''min'', ''mean'', ''p50'', ''p90'', ''p95'', ''p99'', ''max'']"

definition put_metric :: "string \<Rightarrow> json \<Rightarrow> metric_entry \<Rightarrow> metric_entry option" where
  "put_metric n v m =
     (if n = ''name'' then map_option (\<lambda>s. m\<lparr>me_name := s\<rparr>) (get_text v (me_name m))
      else if n = ''type'' then map_option (\<lambda>s. m\<lparr>me_type := s\<rparr>) (get_text v (me_type m))
      else if n = ''count'' then map_option (\<lambda>k. m\<lparr>me_count := k\<rparr>) (get_int64 v (me_count m))
      else if n = ''value'' then map_option (\<lambda>f. m\<lparr>me_value := f\<rparr>) (get_float v (me_value m))
      else if n = ''rate'' then map_option (\<lambda>f. m\<lparr>me_rate := f\<rparr>) (get_float v (me_rate m))
      else if n = ''min'' then Some (m\<lparr>me_min := v\<rparr>)
      else if n = ''mean'' then Some (m\<lparr>me_mean := v\<rparr>)
      else if n = ''p50'' then Some (m\<lparr>me_p50 := v\<rparr>)
      else if n = ''p90'' then Some (m\<lparr>me_p90 := v\<rparr>)
      else if n = ''p95'' then Some (m\<lparr>me_p95 := v\<rparr>)
      else if n = ''p99'' then Some (m\<lparr>me_p99 := v\<rparr>)
      else Some (m\<lparr>me_max := v\<rparr>))"

definition decode_metric :: "json \<Rightarrow> metric_entry \<Rightarrow> metric_entry option" where
  "decode_metric = decode_struct metric_fields put_metric"

definition threshold_fields :: "string list" where
  "threshold_fields = [''metric'', ''stat'', ''operator'', ''target'', ''actual'', ''passed'']"

definition put_threshold :: "string \<Rightarrow> json \<Rightarrow> threshold_entry \<Rightarrow> threshold_entry option" where
  "put_threshold n v t =
     (if n = ''metric'' then map_option (\<lambda>s. t\<lparr>te_metric := s\<rparr>) (get_text v (te_metric t))
      else if n = ''stat'' then map_option (\<lambda>s. t\<lparr>te_stat := s\<rparr>) (get_text v (te_stat t))
      else if n = ''operator'' then map_option (\<lambda>s. t\<lparr>te_operator := s\<rparr>) (get_text v (te_operator t))
      else if n = ''target'' then map_option (\<lambda>s. t\<lparr>te_target := s\<rparr>) (get_text v (te_target t))
      else if n = ''actual'' then map_option (\<lambda>s. t\<lparr>te_actual := s\<rparr>) (get_text v (te_actual t))
      else map_option (\<lambda>b. t\<lparr>te_passed := b\<rparr>) (get_bool v (te_passed t)))"

definition decode_threshold :: "json \<Rightarrow> threshold_entry \<Rightarrow> threshold_entry option" where
  "decode_threshold = decode_struct threshold_fields put_threshold"

definition get_timestamp :: "json \<Rightarrow> time \<Rightarrow> time option" where
  "get_timestamp v old = (case v of J_null \<Rightarrow> Some old | J_str s \<Rightarrow> parse_timestamp s | _ \<Rightarrow> None)"

definition ptr_bool :: "json \<Rightarrow> bool option option" where "ptr_bool = get_ptr get_bool False"
definition ptr_int :: "json \<Rightarrow> int option option" where "ptr_int = get_ptr get_int64 0"
definition ptr_float :: "json \<Rightarrow> float64 option option" where "ptr_float = get_ptr get_float (F_fin 0)"
definition ptr_time :: "json \<Rightarrow> time option option" where "ptr_time = get_ptr get_timestamp 0"

definition summary_fields :: "string list" where
  "summary_fields =
     [''suite_name'', ''scenario'', ''status'', ''passed'', ''sla_passed'', ''sla'', ''started_at'', ''ended_at'', ''duration'',
      ''metrics'', ''thresholds'', ''total_iterations'', ''iterations'', ''total_requests'', ''requests'', ''avg_tps'', ''tps'',
      ''throughput'', ''p50_duration_ms'', ''p90_duration_ms'', ''p95_duration_ms'', ''p99_duration_ms'', ''p50'', ''p90'',
      ''p95'', ''p99'', ''error_rate_pct'', ''error_rate'']"

definition put_verdict :: "string \<Rightarrow> json \<Rightarrow> summary_doc \<Rightarrow> summary_doc option" where
  "put_verdict n v d =
     (if n = ''suite_name'' then map_option (\<lambda>s. d\<lparr>sd_suite_name := s\<rparr>) (get_text v (sd_suite_name d))
      else if n = ''scenario'' then map_option (\<lambda>s. d\<lparr>sd_scenario := s\<rparr>) (get_text v (sd_scenario d))
      else if n = ''status'' then map_option (\<lambda>s. d\<lparr>sd_status := s\<rparr>) (get_text v (sd_status d))
      else if n = ''passed'' then map_option (\<lambda>b. d\<lparr>sd_passed := b\<rparr>) (ptr_bool v)
      else if n = ''sla_passed'' then map_option (\<lambda>b. d\<lparr>sd_sla_passed := b\<rparr>) (ptr_bool v)
      else if n = ''sla'' then map_option (\<lambda>b. d\<lparr>sd_sla := b\<rparr>) (ptr_bool v)
      else if n = ''started_at'' then map_option (\<lambda>t. d\<lparr>sd_started_at := t\<rparr>) (ptr_time v)
      else if n = ''ended_at'' then map_option (\<lambda>t. d\<lparr>sd_ended_at := t\<rparr>) (ptr_time v)
      else Some (d\<lparr>sd_duration := v\<rparr>))"

definition put_count :: "string \<Rightarrow> json \<Rightarrow> summary_doc \<Rightarrow> summary_doc option" where
  "put_count n v d =
     (if n = ''total_iterations'' then map_option (\<lambda>k. d\<lparr>sd_total_iterations := k\<rparr>) (ptr_int v)
      else if n = ''iterations'' then map_option (\<lambda>k. d\<lparr>sd_iterations := k\<rparr>) (ptr_int v)
      else if n = ''total_requests'' then map_option (\<lambda>k. d\<lparr>sd_total_requests := k\<rparr>) (ptr_int v)
      else map_option (\<lambda>k. d\<lparr>sd_requests := k\<rparr>) (ptr_int v))"

definition put_latency :: "string \<Rightarrow> json \<Rightarrow> summary_doc \<Rightarrow> summary_doc option" where
  "put_latency n v d =
     (if n = ''p50_duration_ms'' then map_option (\<lambda>f. d\<lparr>sd_p50_ms := f\<rparr>) (ptr_float v)
      else if n = ''p90_duration_ms'' then map_option (\<lambda>f. d\<lparr>sd_p90_ms := f\<rparr>) (ptr_float v)
      else if n = ''p95_duration_ms'' then map_option (\<lambda>f. d\<lparr>sd_p95_ms := f\<rparr>) (ptr_float v)
      else if n = ''p99_duration_ms'' then map_option (\<lambda>f. d\<lparr>sd_p99_ms := f\<rparr>) (ptr_float v)
      else if n = ''p50'' then Some (d\<lparr>sd_p50 := v\<rparr>)
      else if n = ''p90'' then Some (d\<lparr>sd_p90 := v\<rparr>)
      else if n = ''p95'' then Some (d\<lparr>sd_p95 := v\<rparr>)
      else Some (d\<lparr>sd_p99 := v\<rparr>))"

definition put_rate :: "string \<Rightarrow> json \<Rightarrow> summary_doc \<Rightarrow> summary_doc option" where
  "put_rate n v d =
     (if n = ''avg_tps'' then map_option (\<lambda>f. d\<lparr>sd_avg_tps := f\<rparr>) (ptr_float v)
      else if n = ''tps'' then map_option (\<lambda>f. d\<lparr>sd_tps := f\<rparr>) (ptr_float v)
      else if n = ''throughput'' then map_option (\<lambda>f. d\<lparr>sd_throughput := f\<rparr>) (ptr_float v)
      else if n = ''error_rate_pct'' then map_option (\<lambda>f. d\<lparr>sd_error_rate_pct := f\<rparr>) (ptr_float v)
      else map_option (\<lambda>f. d\<lparr>sd_error_rate := f\<rparr>) (ptr_float v))"

definition put_summary :: "string \<Rightarrow> json \<Rightarrow> summary_doc \<Rightarrow> summary_doc option" where
  "put_summary n v d =
     (if List.member [''suite_name'', ''scenario'', ''status'', ''passed'', ''sla_passed'', ''sla'', ''started_at'',
           ''ended_at'', ''duration''] n
      then put_verdict n v d
      else if List.member [''total_iterations'', ''iterations'', ''total_requests'', ''requests''] n then put_count n v d
      else if List.member [''avg_tps'', ''tps'', ''throughput'', ''error_rate_pct'', ''error_rate''] n then put_rate n v d
      else if n = ''metrics'' then map_option (\<lambda>ms. d\<lparr>sd_metrics := ms\<rparr>) (get_slice decode_metric zero_entry v)
      else if n = ''thresholds'' then map_option (\<lambda>ts. d\<lparr>sd_thresholds := ts\<rparr>) (get_slice decode_threshold zero_threshold v)
      else put_latency n v d)"

text \<open>The decoder reads the first value of the text; what follows it is ignored.\<close>

definition decode_summary :: "string \<Rightarrow> summary_doc option" where
  "decode_summary s =
     (case json_first s of
        None \<Rightarrow> None
      | Some v \<Rightarrow> decode_struct summary_fields put_summary v empty_doc)"

section \<open>Durations of any form\<close>

definition scaled :: "int \<Rightarrow> float64 \<Rightarrow> float64" where
  "scaled unit f = (if float_less (F_fin 100000) f then float_div f (F_fin (of_int unit)) else f)"

definition any_duration :: "int \<Rightarrow> (duration \<Rightarrow> float64) \<Rightarrow> json \<Rightarrow> float64" where
  "any_duration unit of_dur v =
     (case v of
        J_num n \<Rightarrow> (case parse_float n of None \<Rightarrow> F_fin 0 | Some f \<Rightarrow> scaled unit f)
      | J_str s \<Rightarrow>
          (case parse_duration (trim_space s) of
             Some d \<Rightarrow> of_dur d
           | None \<Rightarrow> (case parse_float (trim_space s) of None \<Rightarrow> F_fin 0 | Some f \<Rightarrow> scaled unit f))
      | _ \<Rightarrow> F_fin 0)"

definition parse_duration_seconds :: "json \<Rightarrow> float64" where
  "parse_duration_seconds = any_duration 1000000000 duration_seconds"

definition parse_duration_ms :: "json \<Rightarrow> float64" where
  "parse_duration_ms = any_duration 1000000 (\<lambda>d. float_div (float_of_int d) (F_fin 1000000))"

section \<open>The verdict and the figures\<close>

definition or_else :: "'a option \<Rightarrow> 'a \<Rightarrow> 'a" where
  "or_else x0 d = (case x0 of None \<Rightarrow> d | Some x \<Rightarrow> x)"

definition first_of :: "'a option list \<Rightarrow> 'a option" where
  "first_of xs = (case List.find (\<lambda>x. x \<noteq> None) xs of None \<Rightarrow> None | Some x \<Rightarrow> x)"

definition sla_verdict :: "summary_doc \<Rightarrow> bool" where
  "sla_verdict d =
     (let v = or_else (sd_sla d) (or_else (sd_sla_passed d) (or_else (sd_passed d) True))
      in v \<and> \<not> equal_fold (sd_status d) ''FAILED'' \<and> list_all te_passed (sd_thresholds d))"

text \<open>Of two metrics with the same name the later one is found.\<close>

definition metric_named :: "summary_doc \<Rightarrow> string \<Rightarrow> metric_entry option" where
  "metric_named d n = List.find (\<lambda>m. me_name m = n) (rev (sd_metrics d))"

definition metric_count :: "summary_doc \<Rightarrow> string \<Rightarrow> int option" where
  "metric_count d n = map_option me_count (metric_named d n)"

text \<open>
  The duration metric whose percentiles count: the last HTTP one, else the last one of the iterations, else the
  first of any name.
\<close>

definition choose_primary :: "metric_entry option \<Rightarrow> metric_entry \<Rightarrow> metric_entry option" where
  "choose_primary best m =
     (if me_type m \<noteq> ''duration'' then best
      else if me_name m = ''vuhive.http.req_duration'' then Some m
      else case best of
             None \<Rightarrow> Some m
           | Some b \<Rightarrow>
               if me_name b \<noteq> ''vuhive.http.req_duration'' \<and> me_name m = ''vuhive.vu.iteration_duration'' then Some m
               else best)"

definition primary_metric :: "summary_doc \<Rightarrow> metric_entry option" where
  "primary_metric d = foldl choose_primary None (sd_metrics d)"

definition doc_iterations :: "summary_doc \<Rightarrow> int" where
  "doc_iterations d =
     or_else (first_of [sd_total_iterations d, sd_iterations d, metric_count d ''vuhive.vu.iterations_total'']) 0"

definition doc_requests :: "summary_doc \<Rightarrow> int" where
  "doc_requests d =
     or_else (first_of [sd_total_requests d, sd_requests d, metric_count d ''vuhive.http.reqs'',
       metric_count d ''vuhive.kafka.pub_total'', metric_count d ''vuhive.nats.pub_total'']) 0"

definition doc_duration :: "summary_doc \<Rightarrow> float64" where
  "doc_duration d =
     (case (sd_started_at d, sd_ended_at d) of
        (Some a, Some b) \<Rightarrow>
          if a < b then duration_seconds (time_sub b a)
          else if sd_duration d \<noteq> J_null then parse_duration_seconds (sd_duration d) else F_fin 0
      | _ \<Rightarrow> if sd_duration d \<noteq> J_null then parse_duration_seconds (sd_duration d) else F_fin 0)"

definition doc_tps :: "summary_doc \<Rightarrow> float64" where
  "doc_tps d =
     (case first_of [sd_avg_tps d, sd_tps d, sd_throughput d] of
        Some f \<Rightarrow> f
      | None \<Rightarrow>
          if float_less (F_fin 0) (doc_duration d) then
            (if 0 < doc_requests d then float_div (float_of_int (doc_requests d)) (doc_duration d)
             else if 0 < doc_iterations d then float_div (float_of_int (doc_iterations d)) (doc_duration d)
             else F_fin 0)
          else F_fin 0)"

definition doc_percentile :: "float64 option \<Rightarrow> json \<Rightarrow> (metric_entry \<Rightarrow> json) \<Rightarrow> summary_doc \<Rightarrow> float64" where
  "doc_percentile ms any sel d =
     (case ms of
        Some f \<Rightarrow> f
      | None \<Rightarrow>
          if any \<noteq> J_null then parse_duration_ms any
          else case primary_metric d of
                 None \<Rightarrow> F_fin 0
               | Some m \<Rightarrow> if sel m \<noteq> J_null then parse_duration_ms (sel m) else F_fin 0)"

definition raw_error_rate :: "summary_doc \<Rightarrow> float64" where
  "raw_error_rate d =
     (case sd_error_rate_pct d of
        Some f \<Rightarrow> f
      | None \<Rightarrow>
          (case sd_error_rate d of
             Some f \<Rightarrow> if float_le f (F_fin 1) \<and> float_less (F_fin 0) f then float_mul f (F_fin 100) else f
           | None \<Rightarrow>
               (case metric_named d ''vuhive.http.req_failed'' of
                  Some m \<Rightarrow> float_mul (me_rate m) (F_fin 100)
                | None \<Rightarrow>
                    let failed = or_else (metric_count d ''vuhive.vu.iterations_failed'') 0; total = doc_iterations d
                    in if 0 < total \<and> 0 < failed
                       then float_mul (float_div (float_of_int failed) (float_of_int total)) (F_fin 100)
                       else F_fin 0)))"

definition doc_error_rate :: "summary_doc \<Rightarrow> float64" where
  "doc_error_rate d =
     (let r = raw_error_rate d
      in if float_less r (F_fin 0) then F_fin 0 else if float_less (F_fin 100) r then F_fin 100 else r)"

record parsed_figures =
  pf_iterations :: int
  pf_requests :: int
  pf_tps :: float64
  pf_p50 :: float64
  pf_p90 :: float64
  pf_p95 :: float64
  pf_p99 :: float64
  pf_error_rate :: float64

definition doc_figures :: "summary_doc \<Rightarrow> parsed_figures" where
  "doc_figures d =
     \<lparr>pf_iterations = doc_iterations d, pf_requests = doc_requests d, pf_tps = doc_tps d,
      pf_p50 = doc_percentile (sd_p50_ms d) (sd_p50 d) me_p50 d, pf_p90 = doc_percentile (sd_p90_ms d) (sd_p90 d) me_p90 d,
      pf_p95 = doc_percentile (sd_p95_ms d) (sd_p95 d) me_p95 d, pf_p99 = doc_percentile (sd_p99_ms d) (sd_p99 d) me_p99 d,
      pf_error_rate = doc_error_rate d\<rparr>"

record parsed_report =
  pr_figures :: parsed_figures
  pr_sla_passed :: bool
  pr_raw :: string

definition parse_summary_report :: "string \<Rightarrow> parsed_report result" where
  "parse_summary_report raw =
     (let s = trim_space raw in
      if s = '''' then Inl ErrValidation
      else case decode_summary s of
             None \<Rightarrow> Inl ErrValidation
           | Some d \<Rightarrow> Inr \<lparr>pr_figures = doc_figures d, pr_sla_passed = sla_verdict d, pr_raw = s\<rparr>)"

text \<open>The figures as the aggregate of the run stores them.\<close>

definition figures_to_metrics :: "parsed_figures \<Rightarrow> run_metrics" where
  "figures_to_metrics f =
     (let b = (\<lambda>x. word_of_int (float_bits x)) in
      \<lparr>total_iterations = pf_iterations f, total_requests = pf_requests f, avg_tps = b (pf_tps f),
       p50_duration_ms = b (pf_p50 f), p90_duration_ms = b (pf_p90 f), p95_duration_ms = b (pf_p95 f),
       p99_duration_ms = b (pf_p99 f), error_rate_pct = b (pf_error_rate f)\<rparr>)"

definition summary_parser :: "string \<Rightarrow> (run_metrics \<times> bool \<times> string) option" where
  "summary_parser raw =
     (case parse_summary_report raw of
        Inl _ \<Rightarrow> None
      | Inr r \<Rightarrow> Some (figures_to_metrics (pr_figures r), pr_sla_passed r, pr_raw r))"

end
