(* ===== verification/Report_Safety.thy ===== *)
theory Report_Safety
  imports Report_Parser
begin

text \<open>
  What a parsed summary guarantees: its error rate is a percentage, whatever the text.  What it does not: its
  latencies need not be numbers.
\<close>

section \<open>Numbers in JSON texts are finite\<close>

definition numeric :: "string \<Rightarrow> bool" where
  "numeric n \<longleftrightarrow> (\<exists>d r. is_digit d \<and> (n = d # r \<or> n = CHR ''-'' # d # r))"

inductive clean :: "json \<Rightarrow> bool" where
  "clean J_null"
| "clean (J_bool b)"
| "numeric n \<Longrightarrow> clean (J_num n)"
| "clean (J_str s)"
| "\<forall>v \<in> set vs. clean v \<Longrightarrow> clean (J_arr vs)"
| "\<forall>m \<in> set ms. clean (snd m) \<Longrightarrow> clean (J_obj ms)"

inductive_simps clean_simps [simp]:
  "clean J_null" "clean (J_bool b)" "clean (J_num n)" "clean (J_str s)" "clean (J_arr vs)" "clean (J_obj ms)"

lemma digits1_digit: "digits1 s = Some (ds, r) \<Longrightarrow> \<exists>d t. ds = d # t \<and> is_digit d"
  by (cases s) (auto simp: digits1_def Let_def split: if_splits)

lemma digit_zero: "is_digit (CHR ''0'')"
  by (simp add: is_digit_def code_def)

lemma int_part_digit:
  assumes "int_part s = Some (ds, r)"
  shows "\<exists>d t. ds = d # t \<and> is_digit d"
proof (cases s)
  case (Cons c cs)
  show ?thesis
  proof (cases "c = CHR ''0''")
    case True
    then show ?thesis using assms Cons digit_zero by (auto simp: int_part_def)
  next
    case False
    then show ?thesis using assms Cons digits1_digit [of s ds r] by (simp add: int_part_def)
  qed
qed (use assms in \<open>simp add: int_part_def\<close>)

lemma json_number_numeric:
  assumes "json_number s = Some (n, r)"
  shows "numeric n"
proof -
  obtain neg s0 where s0: "(case s of CHR ''-'' # cs \<Rightarrow> (''-'', cs) | _ \<Rightarrow> ('''', s)) = (neg, s0)" by fastforce
  then have neg: "neg = '''' \<or> neg = ''-''" by (auto split: list.splits char.splits bool.splits)
  obtain i s1 f s2 e where i: "int_part s0 = Some (i, s1)" "n = neg @ i @ f @ e"
    using assms by (auto simp: json_number_def s0 split: option.splits)
  obtain d t where "i = d # t" "is_digit d" using int_part_digit [OF i(1)] by blast
  with i(2) neg show ?thesis unfolding numeric_def by (intro exI [of _ d] exI [of _ "t @ f @ e"]) auto
qed

lemma parse_clean:
  "parse_value d s = Some (v, r) \<Longrightarrow> clean v"
  "parse_elements d s = Some (vs, r) \<Longrightarrow> \<forall>v \<in> set vs. clean v"
  "parse_members d s = Some (ms, r) \<Longrightarrow> \<forall>m \<in> set ms. clean (snd m)"
proof (induction d s and d s and d s arbitrary: v r and vs r and ms r
    rule: parse_value_parse_elements_parse_members.induct)
  case (1 d s0)
  obtain c s where s: "skip_ws s0 = c # s"
    using "1.prems" by (subst (asm) parse_value.simps) (auto split: list.splits)
  consider "c = CHR 0x7B" | "c = CHR 0x5B" | "c \<notin> {CHR 0x7B, CHR 0x5B}" by blast
  then show ?case
  proof cases
    case 1
    then show ?thesis using "1.prems" s "1.IH"(1) [OF s 1]
      by (subst (asm) parse_value.simps) (auto split: if_splits option.splits)
  next
    case 2
    then show ?thesis using "1.prems" s "1.IH"(2) [OF s _ 2]
      by (subst (asm) parse_value.simps) (auto split: if_splits option.splits)
  next
    case 3
    then show ?thesis using "1.prems" s json_number_numeric
      by (subst (asm) parse_value.simps) (auto simp: literal_def split: if_splits)
  qed
next
  case (2 d s)
  obtain v r0 where v: "parse_value d s = Some (v, r0)"
    using "2.prems" by (subst (asm) parse_elements.simps) (auto split: option.splits)
  note cv = "2.IH"(1) [OF v]
  show ?case
  proof (cases "token (CHR 0x5D) r0")
    case None
    then obtain r1 ws where w: "token (CHR '','') r0 = Some r1" "length r1 < length s" "parse_elements d r1 = Some (ws, r)"
      "vs = v # ws"
      using "2.prems" v by (subst (asm) parse_elements.simps) (auto split: option.splits if_splits)
    then show ?thesis using "2.IH"(2) [OF v refl None w(1,2,3)] cv by simp
  next
    case (Some r1)
    then show ?thesis using "2.prems" v cv by (subst (asm) parse_elements.simps) auto
  qed
next
  case (3 d s)
  obtain s1 k s2 s3 v r0 where v: "token (CHR 0x22) s = Some s1" "json_string s1 = Some (k, s2)"
    "token (CHR '':'') s2 = Some s3" "length s3 < length s" "parse_value d s3 = Some (v, r0)"
    using "3.prems" by (subst (asm) parse_members.simps) (auto split: option.splits if_splits)
  note cv = "3.IH"(1) [OF v(1,2) refl v(3,4,5)]
  show ?case
  proof (cases "token (CHR 0x7D) r0")
    case None
    then obtain r1 ws where w: "token (CHR '','') r0 = Some r1" "length r1 < length s" "parse_members d r1 = Some (ws, r)"
      "ms = (k, v) # ws"
      using "3.prems" v by (subst (asm) parse_members.simps) (auto split: option.splits if_splits)
    then show ?thesis using "3.IH"(2) [OF v(1,2) refl v(3,4,5) refl None w(1,2,3)] cv by simp
  next
    case (Some r1)
    then show ?thesis using "3.prems" v cv by (subst (asm) parse_members.simps) auto
  qed
qed

lemma digit_chars:
  assumes "is_digit d"
  shows "to_lower_char d = d" "d \<noteq> CHR ''n''" "d \<noteq> CHR ''i''" "d \<noteq> CHR ''-''" "d \<noteq> CHR ''+''"
proof -
  have "of_char d = (of_nat (of_char d) :: int)" by (simp only: of_nat_of_char)
  then show "to_lower_char d = d" using assms by (auto simp: to_lower_char_def is_digit_def code_def Let_def)
  show "d \<noteq> CHR ''n''" "d \<noteq> CHR ''i''" "d \<noteq> CHR ''-''" "d \<noteq> CHR ''+''"
    using assms by (auto simp: is_digit_def code_def)
qed

lemma numeric_not_special: "numeric n \<Longrightarrow> special_float n = None"
  using digit_chars by (auto simp: numeric_def special_float_def to_lower_def take_sign_def to_lower_char_def [of "CHR ''-''"])

lemma round64_not_nan: "round64 x \<noteq> F_nan"
  by (simp add: round64_def Let_def)

lemma finite_case: "(case g of F_nan \<Rightarrow> Some g | F_inf b \<Rightarrow> None | F_fin x \<Rightarrow> Some g) = Some f \<longleftrightarrow> g = f \<and> (\<forall>b. g \<noteq> F_inf b)"
  by (cases g) auto

lemma parse_float_rounded:
  "parse_float s = Some f \<Longrightarrow> special_float s = None \<Longrightarrow> (\<exists>t. f = round64 t) \<and> (\<forall>b. f \<noteq> F_inf b)"
  by (auto simp: parse_float_def Let_def finite_case split: if_splits option.splits prod.splits)

lemma numeric_finite:
  assumes "numeric n" "parse_float n = Some f"
  shows "\<exists>x. f = F_fin x"
proof -
  obtain t where "f = round64 t" "\<forall>b. f \<noteq> F_inf b"
    using parse_float_rounded [OF assms(2) numeric_not_special [OF assms(1)]] by blast
  then show ?thesis using round64_not_nan [of t] by (metis float64.exhaust)
qed

section \<open>Decoded documents\<close>

definition finite_float :: "float64 \<Rightarrow> bool" where
  "finite_float f \<longleftrightarrow> (\<exists>x. f = F_fin x)"

lemma get_float_finite: "get_float v old = Some f \<Longrightarrow> clean v \<Longrightarrow> finite_float old \<Longrightarrow> finite_float f"
  using numeric_finite by (auto simp: get_float_def finite_float_def split: json.splits)

lemma ptr_float_finite: "ptr_float v = Some (Some f) \<Longrightarrow> clean v \<Longrightarrow> finite_float f"
  using get_float_finite [of v "F_fin 0" f] by (auto simp: ptr_float_def get_ptr_def finite_float_def split: if_splits)

lemma decode_members_inv:
  assumes "\<And>n v x y. put n v x = Some y \<Longrightarrow> clean v \<Longrightarrow> P x \<Longrightarrow> P y"
  shows "decode_members names put ms x = Some y \<Longrightarrow> \<forall>m \<in> set ms. clean (snd m) \<Longrightarrow> P x \<Longrightarrow> P y"
  using assms by (induction names put ms x rule: decode_members.induct) (auto split: option.splits)

lemma decode_struct_inv:
  assumes "\<And>n v x y. put n v x = Some y \<Longrightarrow> clean v \<Longrightarrow> P x \<Longrightarrow> P y"
  shows "decode_struct names put v x = Some y \<Longrightarrow> clean v \<Longrightarrow> P x \<Longrightarrow> P y"
  using decode_members_inv [of put P, OF assms] by (auto simp: decode_struct_def split: json.splits)

lemma get_each_inv:
  assumes "\<And>v y. get v zero = Some y \<Longrightarrow> clean v \<Longrightarrow> P y"
  shows "get_each get zero vs = Some ys \<Longrightarrow> \<forall>v \<in> set vs. clean v \<Longrightarrow> \<forall>y \<in> set ys. P y"
  using assms by (induction vs arbitrary: ys) (auto split: option.splits)

definition metric_clean :: "metric_entry \<Rightarrow> bool" where
  "metric_clean m \<longleftrightarrow> finite_float (me_rate m) \<and> in_int64 (me_count m)"

lemma get_int64_in: "get_int64 v old = Some k \<Longrightarrow> in_int64 old \<Longrightarrow> in_int64 k"
  using atoi_in_int64 by (auto simp: get_int64_def split: json.splits if_splits)

lemma ptr_int_in: "ptr_int v = Some (Some k) \<Longrightarrow> in_int64 k"
  using get_int64_in [of v 0 k] by (auto simp: ptr_int_def get_ptr_def in_int64_def split: if_splits)

definition doc_clean :: "summary_doc \<Rightarrow> bool" where
  "doc_clean d \<longleftrightarrow>
     (\<forall>f. sd_error_rate_pct d = Some f \<longrightarrow> finite_float f) \<and> (\<forall>f. sd_error_rate d = Some f \<longrightarrow> finite_float f) \<and>
     (\<forall>m \<in> set (sd_metrics d). metric_clean m) \<and>
     (\<forall>k. sd_total_iterations d = Some k \<longrightarrow> in_int64 k) \<and> (\<forall>k. sd_iterations d = Some k \<longrightarrow> in_int64 k)"

lemma put_metric_clean: "put_metric n v m = Some m' \<Longrightarrow> clean v \<Longrightarrow> metric_clean m \<Longrightarrow> metric_clean m'"
  using get_float_finite [of v "me_rate m"] get_int64_in [of v "me_count m"]
  by (auto simp: put_metric_def metric_clean_def split: if_splits)

lemma decode_metrics_clean:
  assumes "get_slice decode_metric zero_entry v = Some ms" "clean v"
  shows "\<forall>m \<in> set ms. metric_clean m"
proof -
  have "metric_clean zero_entry" by (simp add: metric_clean_def zero_entry_def finite_float_def in_int64_def)
  then have "decode_metric v zero_entry = Some m \<Longrightarrow> clean v \<Longrightarrow> metric_clean m" for v m
    using decode_struct_inv [of put_metric metric_clean metric_fields v zero_entry m] put_metric_clean
    unfolding decode_metric_def by blast
  then show ?thesis
    using assms get_each_inv [of decode_metric zero_entry metric_clean]
    by (auto simp: get_slice_def split: json.splits)
qed

definition same_rates :: "summary_doc \<Rightarrow> summary_doc \<Rightarrow> bool" where
  "same_rates d d' \<longleftrightarrow> sd_error_rate_pct d' = sd_error_rate_pct d \<and> sd_error_rate d' = sd_error_rate d \<and>
     sd_metrics d' = sd_metrics d"

definition same_counts :: "summary_doc \<Rightarrow> summary_doc \<Rightarrow> bool" where
  "same_counts d d' \<longleftrightarrow> sd_total_iterations d' = sd_total_iterations d \<and> sd_iterations d' = sd_iterations d"

lemma put_verdict_same: "put_verdict n v d = Some d' \<Longrightarrow> same_rates d d' \<and> same_counts d d'"
  by (auto simp: put_verdict_def same_rates_def same_counts_def split: if_splits)

lemma put_latency_same: "put_latency n v d = Some d' \<Longrightarrow> same_rates d d' \<and> same_counts d d'"
  by (auto simp: put_latency_def same_rates_def same_counts_def split: if_splits)

lemma put_count_clean: "put_count n v d = Some d' \<Longrightarrow> doc_clean d \<Longrightarrow> doc_clean d'"
  using ptr_int_in by (auto simp: put_count_def doc_clean_def split: if_splits)

lemma put_rate_clean: "put_rate n v d = Some d' \<Longrightarrow> clean v \<Longrightarrow> doc_clean d \<Longrightarrow> doc_clean d'"
  using ptr_float_finite by (auto simp: put_rate_def doc_clean_def split: if_splits)

lemma same_clean: "same_rates d d' \<and> same_counts d d' \<Longrightarrow> doc_clean d \<Longrightarrow> doc_clean d'"
  by (simp add: same_rates_def same_counts_def doc_clean_def)

lemma put_summary_clean:
  assumes "put_summary n v d = Some d'" "clean v" "doc_clean d"
  shows "doc_clean d'"
proof -
  consider "put_verdict n v d = Some d'" | "put_count n v d = Some d'" | "put_rate n v d = Some d'"
    | (metrics) ms where "get_slice decode_metric zero_entry v = Some ms" "d' = d\<lparr>sd_metrics := ms\<rparr>"
    | (thresholds) ts where "d' = d\<lparr>sd_thresholds := ts\<rparr>" | "put_latency n v d = Some d'"
    using assms(1) unfolding put_summary_def
    by (simp only: map_option_eq_Some split: if_split_asm) blast+
  then show ?thesis
  proof cases
    case metrics
    then show ?thesis using assms(2,3) decode_metrics_clean by (simp add: doc_clean_def)
  next
    case thresholds
    then show ?thesis using assms(3) by (simp add: doc_clean_def)
  qed (use assms(2,3) put_verdict_same put_latency_same put_count_clean put_rate_clean same_clean in blast)+
qed

lemma decode_summary_clean:
  assumes "decode_summary s = Some d"
  shows "doc_clean d"
proof -
  obtain v where v: "json_first s = Some v" "decode_struct summary_fields put_summary v empty_doc = Some d"
    using assms by (auto simp: decode_summary_def split: option.splits)
  have "clean v" using v(1) parse_clean(1) by (auto simp: json_first_def)
  moreover have "doc_clean empty_doc" by (simp add: doc_clean_def empty_doc_def)
  ultimately show ?thesis
    using decode_struct_inv [of put_summary doc_clean summary_fields v empty_doc d] put_summary_clean v(2) by blast
qed

section \<open>The error rate\<close>

definition not_nan :: "float64 \<Rightarrow> bool" where
  "not_nan f \<longleftrightarrow> f \<noteq> F_nan"

lemma clamp_percentage:
  "not_nan r \<Longrightarrow> \<exists>x. (if float_less r (F_fin 0) then F_fin 0 else if float_less (F_fin 100) r then F_fin 100 else r) = F_fin x
    \<and> 0 \<le> x \<and> x \<le> 100"
  by (cases r) (auto simp: not_nan_def)

lemma scaled_not_nan: "not_nan f \<Longrightarrow> c \<noteq> 0 \<Longrightarrow> not_nan (float_mul f (F_fin c))"
  using round64_not_nan by (cases f) (auto simp: not_nan_def)

lemma named_in: "metric_named d n = Some m \<Longrightarrow> m \<in> set (sd_metrics d)"
  using find_Some_iff [of "\<lambda>m. me_name m = n" "rev (sd_metrics d)" m] nth_mem [of _ "rev (sd_metrics d)"]
  by (auto simp: metric_named_def)

text \<open>A positive 64-bit integer becomes a positive number.\<close>

lemma bit_count_step: "0 < n \<Longrightarrow> bit_count n = 1 + bit_count (n div 2)"
  by (subst bit_count.simps) simp

lemma bit_count_bounds: "0 < n \<Longrightarrow> 0 < bit_count n \<and> 2 ^ nat (bit_count n - 1) \<le> n \<and> n < 2 ^ nat (bit_count n)"
proof (induction n rule: bit_count.induct)
  case (1 n)
  show ?case
  proof (cases "n = 1")
    case True
    have "bit_count 1 = 1" by (simp add: bit_count_step bit_count.simps [of 0])
    then show ?thesis using True by simp
  next
    case False
    define b where "b = bit_count (n div 2)"
    have ih: "0 < b" "2 ^ nat (b - 1) \<le> n div 2" "n div 2 < 2 ^ nat b"
      using "1.IH" "1.prems" False by (auto simp: b_def)
    have "bit_count n = 1 + b" using "1.prems" by (simp add: bit_count_step b_def)
    moreover have "nat b = Suc (nat (b - 1))" "nat (1 + b) = Suc (nat b)" using ih(1) by auto
    then have "2 ^ nat b \<le> n" "n < 2 ^ nat (1 + b)" using ih(2,3) by auto
    ultimately show ?thesis using ih(1) by simp
  qed
qed

lemma int_rounds:
  assumes "0 < b" "b \<le> max_int64"
  shows "\<exists>y > 0. float_of_int b = F_fin y"
proof -
  define x where "x = (of_int b :: rat)"
  define e where "e = ulp_exponent x"
  define k where "k = bit_count b"
  have k: "0 < k" "2 ^ nat (k - 1) \<le> b" using bit_count_bounds [OF assms(1)] by (simp_all add: k_def)
  have "k \<le> 63"
  proof (rule ccontr)
    assume "\<not> k \<le> 63"
    then have "(2::int) ^ 63 \<le> 2 ^ nat (k - 1)" by (intro power_increasing) auto
    then show False using k(2) assms(2) by simp
  qed
  have "bit_count 1 = 1" by (simp add: bit_count_step bit_count.simps [of 0])
  then have e: "e \<le> max (-1074) (k - 53)"
    by (auto simp: e_def ulp_exponent_def x_def k_def quotient_of_int Let_def max_def)
  have p: "0 < pow2 e" by (simp add: pow2_def)
  have "pow2 e \<le> x"
  proof (cases "0 \<le> e")
    case True
    then have "(2::int) ^ nat e \<le> 2 ^ nat (k - 1)" using e by (intro power_increasing) auto
    then have "(2::int) ^ nat e \<le> b" using k(2) by linarith
    then have "(of_int (2 ^ nat e) :: rat) \<le> of_int b" by (simp only: of_int_le_iff)
    then show ?thesis using True by (simp add: pow2_def x_def)
  next
    case False
    then have "pow2 e \<le> 1" by (simp add: pow2_def)
    moreover have "1 \<le> x" using assms(1) by (simp add: x_def)
    ultimately show ?thesis by linarith
  qed
  define q where "q = round_half_even (x / pow2 e)"
  have fl: "1 \<le> \<lfloor>x / pow2 e\<rfloor>" using p \<open>pow2 e \<le> x\<close> by (simp add: le_floor_iff)
  have q: "1 \<le> q" "q \<le> \<lfloor>x / pow2 e\<rfloor> + 1" using fl by (auto simp: q_def round_half_even_def Let_def)
  have "of_int \<lfloor>x / pow2 e\<rfloor> \<le> x / pow2 e" by simp
  then have "of_int q \<le> x / pow2 e + 1" using q(2) by linarith
  then have "of_int q * pow2 e \<le> x + pow2 e" using p by (simp add: field_simps)
  also have "\<dots> \<le> 2 * x" using \<open>pow2 e \<le> x\<close> by simp
  also have "\<dots> < pow2 1024"
  proof -
    have "2 * b < 2 ^ 1024" using assms(2) by simp
    then have "(of_int (2 * b) :: rat) < of_int (2 ^ 1024)" by (simp only: of_int_less_iff)
    then show ?thesis by (simp add: pow2_def x_def)
  qed
  finally have small: "of_int q * pow2 e < pow2 1024" .
  have "round_positive x = of_int q * pow2 e" by (simp add: round_positive_def e_def q_def Let_def)
  moreover have "0 < x" using assms(1) by (simp add: x_def)
  ultimately have "round64 x = F_fin (of_int q * pow2 e)" using small by (simp add: round64_def Let_def)
  moreover have "0 < of_int q * pow2 e" using q(1) p by simp
  ultimately show ?thesis by (auto simp: float_of_int_def x_def)
qed

lemma ratio_number:
  assumes "0 < a" "in_int64 a" "0 < b" "in_int64 b"
  shows "not_nan (float_mul (float_div (float_of_int a) (float_of_int b)) (F_fin 100))"
proof -
  obtain x y where "float_of_int a = F_fin x" "float_of_int b = F_fin y" "0 < y"
    using int_rounds assms by (metis in_int64_def)
  then have "not_nan (float_div (float_of_int a) (float_of_int b))" using round64_not_nan by (simp add: not_nan_def)
  then show ?thesis by (rule scaled_not_nan) simp
qed

lemma count_in: "doc_clean d \<Longrightarrow> metric_count d n = Some k \<Longrightarrow> in_int64 k"
  using named_in by (fastforce simp: metric_count_def doc_clean_def metric_clean_def)

lemma iterations_in: "doc_clean d \<Longrightarrow> in_int64 (doc_iterations d)"
  using count_in [of d "''vuhive.vu.iterations_total''"]
  by (auto simp: doc_iterations_def first_of_def or_else_def doc_clean_def in_int64_def split: option.splits if_splits)

lemma finite_not_nan: "finite_float f \<Longrightarrow> not_nan f"
  by (auto simp: finite_float_def not_nan_def)

lemma raw_rate_number:
  assumes "doc_clean d"
  shows "not_nan (raw_error_rate d)"
proof -
  consider (pct) f where "sd_error_rate_pct d = Some f"
    | (rate) f where "sd_error_rate_pct d = None" "sd_error_rate d = Some f"
    | (metric) m where "sd_error_rate_pct d = None" "sd_error_rate d = None" "metric_named d ''vuhive.http.req_failed'' = Some m"
    | (none) "sd_error_rate_pct d = None" "sd_error_rate d = None" "metric_named d ''vuhive.http.req_failed'' = None"
    by fastforce
  then show ?thesis
  proof cases
    case pct
    then show ?thesis using assms finite_not_nan by (simp add: raw_error_rate_def doc_clean_def)
  next
    case rate
    then have "not_nan f" using assms finite_not_nan by (simp add: doc_clean_def)
    then show ?thesis using rate scaled_not_nan by (simp add: raw_error_rate_def)
  next
    case metric
    then have "finite_float (me_rate m)" using assms named_in by (auto simp: doc_clean_def metric_clean_def)
    then show ?thesis using metric scaled_not_nan finite_not_nan by (simp add: raw_error_rate_def)
  next
    case none
    define failed where "failed = or_else (metric_count d ''vuhive.vu.iterations_failed'') 0"
    have "in_int64 failed"
      using count_in [OF assms, of "''vuhive.vu.iterations_failed''"]
      by (auto simp: failed_def or_else_def in_int64_def split: option.splits)
    then show ?thesis using none iterations_in [OF assms] ratio_number
      by (auto simp: raw_error_rate_def Let_def failed_def [symmetric] not_nan_def)
  qed
qed

text \<open>
  C36: whatever the text of a summary, if it is accepted then the error rate of the run is a number from 0 to 100:
  never NaN, never infinite, never outside the bounds, for each of the four sources it is taken from.
\<close>

theorem report_error_rate_bounds:
  assumes "parse_summary_report raw = Inr r"
  shows "\<exists>x. pf_error_rate (pr_figures r) = F_fin x \<and> 0 \<le> x \<and> x \<le> 100"
proof -
  obtain d where d: "decode_summary (trim_space raw) = Some d" "pr_figures r = doc_figures d"
    using assms by (auto simp: parse_summary_report_def Let_def split: if_splits option.splits)
  then show ?thesis using clamp_percentage [OF raw_rate_number [OF decode_summary_clean [OF d(1)]]]
    by (simp add: doc_figures_def doc_error_rate_def Let_def)
qed

text \<open>Backquotes stand for quotes in the sample texts.\<close>

definition quoted :: "string \<Rightarrow> string" where
  "quoted s = map (\<lambda>c. if c = CHR 0x60 then CHR 0x22 else c) s"

definition sample_summary :: string where
  "sample_summary = quoted ''{`sla`:true,`p50`:`NaN`}''"

lemma sample_decoded:
  "decode_summary sample_summary = Some (empty_doc\<lparr>sd_sla := Some True, sd_p50 := J_str ''NaN''\<rparr>)"
  by code_simp

lemma sample_trimmed: "trim_space sample_summary = sample_summary"
  by (simp add: sample_summary_def quoted_def trim_space_graphic graphic_def)

lemma decoded_accepted:
  assumes "decode_summary (trim_space raw) = Some d"
  shows "parse_summary_report raw =
    Inr \<lparr>pr_figures = doc_figures d, pr_sla_passed = sla_verdict d, pr_raw = trim_space raw\<rparr>"
proof -
  have "decode_summary '''' = None"
    by (simp add: decode_summary_def json_first_def parse_value.simps [of _ "[]"] skip_ws_def)
  then show ?thesis using assms by (auto simp: parse_summary_report_def Let_def)
qed

theorem report_error_rate_bounds_witness:
  "\<exists>r x. parse_summary_report sample_summary = Inr r \<and> pf_error_rate (pr_figures r) = F_fin x \<and> 0 \<le> x \<and> x \<le> 100"
  using decoded_accepted [of sample_summary] report_error_rate_bounds [of sample_summary] sample_decoded
  by (auto simp: sample_trimmed)

text \<open>
  the latencies have no such bound: a summary that gives its median as a text that spells NaN, in any case and
  with white space around it, is accepted, and NaN becomes a key figure of the run (which \<open>encoding/json\<close> then
  refuses to write into the answers of the API); the other percentiles are read the same way.
\<close>

theorem report_latency_not_a_number:
  assumes "decode_summary (trim_space raw) = Some d" and "sd_p50_ms d = None" and "sd_p50 d = J_str t"
    and "to_lower (trim_space t) = ''nan''"
  shows "\<exists>r. parse_summary_report raw = Inr r \<and> pf_p50 (pr_figures r) = F_nan"
proof -
  obtain c r where c: "trim_space t = c # r" "to_lower_char c = CHR ''n''"
    using assms(4) by (cases "trim_space t") (auto simp: to_lower_def)
  have "\<not> is_digit c" using c(2) digit_chars(1,2) by metis
  moreover have "c \<noteq> CHR ''.''" "c \<noteq> CHR ''+''" "c \<noteq> CHR ''-''" "c \<noteq> CHR ''0''"
    using c(2) by (auto simp: to_lower_char_def)
  ultimately have "parse_duration (trim_space t) = None"
    using c(1) by (simp add: parse_duration_def sign_part_def duration_parts.simps [of _ "_ # _"] duration_part_def)
  moreover have "parse_float (trim_space t) = Some F_nan"
    using assms(4) by (simp add: parse_float_def special_float_def)
  ultimately have "parse_duration_ms (sd_p50 d) = F_nan"
    using assms(3) by (simp add: parse_duration_ms_def any_duration_def scaled_def)
  then show ?thesis
    using decoded_accepted [OF assms(1)] assms(2,3) by (simp add: doc_figures_def doc_percentile_def)
qed

theorem report_latency_not_a_number_witness:
  "\<exists>r. parse_summary_report sample_summary = Inr r \<and> pf_p50 (pr_figures r) = F_nan"
proof (rule report_latency_not_a_number)
  show "decode_summary (trim_space sample_summary) = Some (empty_doc\<lparr>sd_sla := Some True, sd_p50 := J_str ''NaN''\<rparr>)"
    by (simp add: sample_trimmed sample_decoded)
  have "trim_space ''NaN'' = ''NaN''" by (simp add: trim_space_graphic graphic_def)
  then show "to_lower (trim_space ''NaN'') = ''nan''" by (simp only:) code_simp
qed (simp_all add: empty_doc_def)

section \<open>Rounding and whole numbers\<close>

text \<open>Rounding keeps to the whole numbers around a number, as long as they have a last place of one at most.\<close>

lemma round_half_even_upper: "x \<le> of_int m \<Longrightarrow> round_half_even x \<le> m"
proof -
  assume x: "x \<le> of_int m"
  then have f: "\<lfloor>x\<rfloor> \<le> m" by (metis floor_mono floor_of_int)
  show ?thesis
  proof (cases "\<lfloor>x\<rfloor> = m")
    case True
    then have "x = of_int m" using x by linarith
    then show ?thesis by (simp add: round_half_even_def)
  next
    case False
    then show ?thesis using f by (simp add: round_half_even_def Let_def)
  qed
qed

lemma round_half_even_lower: "of_int m \<le> x \<Longrightarrow> m \<le> round_half_even x"
proof -
  assume "of_int m \<le> x"
  then have "m \<le> \<lfloor>x\<rfloor>" by (simp add: le_floor_iff)
  then show ?thesis by (simp add: round_half_even_def Let_def)
qed

lemma pow2_pos: "0 < pow2 e"
  by (simp add: pow2_def)

lemma pow2_mono:
  assumes ba: "b \<le> a"
  shows "pow2 b \<le> pow2 a"
proof (cases "0 \<le> b")
  case True
  then have "(2::rat) ^ nat b \<le> 2 ^ nat a" using ba by (intro power_increasing) auto
  then show ?thesis using True ba by (simp add: pow2_def)
next
  case neg: False
  show ?thesis
  proof (cases "0 \<le> a")
    case True
    have "pow2 b \<le> 1" using neg by (simp add: pow2_def)
    also have "\<dots> \<le> pow2 a" using True by (simp add: pow2_def)
    finally show ?thesis .
  next
    case False
    have "(2::rat) ^ nat (- a) \<le> 2 ^ nat (- b)" using ba by (intro power_increasing) auto
    then show ?thesis using False neg by (simp add: pow2_def frac_le)
  qed
qed

lemma pow2_less: "pow2 a < pow2 b \<Longrightarrow> a < b"
  using pow2_mono [of b a] by linarith

lemma pow2_minus: "0 \<le> a \<Longrightarrow> 0 \<le> b \<Longrightarrow> pow2 (a - b) = 2 ^ nat a / 2 ^ nat b"
proof -
  assume "0 \<le> a" "0 \<le> b"
  show ?thesis
  proof (cases "b \<le> a")
    case True
    have "(2::rat) ^ nat a = 2 ^ nat (a - b) * 2 ^ nat b"
      using True \<open>0 \<le> b\<close> by (simp add: nat_diff_distrib flip: power_add)
    then show ?thesis using True by (simp add: pow2_def)
  next
    case False
    have "(2::rat) ^ nat b = 2 ^ nat (b - a) * 2 ^ nat a"
      using False \<open>0 \<le> a\<close> by (simp add: nat_diff_distrib flip: power_add)
    then show ?thesis using False by (simp add: pow2_def)
  qed
qed

lemma ulp_below:
  assumes "0 < x" "x < pow2 (53 + k)" "- 1074 \<le> k"
  shows "ulp_exponent x \<le> k"
proof -
  obtain n d where q: "quotient_of x = (n, d)" by force
  have x: "x = of_int n / of_int d" using q by (rule quotient_of_div)
  have d: "0 < d" using quotient_of_denom_pos [OF q] .
  have n: "0 < n" using assms(1) x d by (simp add: zero_less_divide_iff)
  define bn bd where "bn = bit_count n" and "bd = bit_count d"
  have bn: "0 < bn" "2 ^ nat (bn - 1) \<le> n" using bit_count_bounds [OF n] by (simp_all add: bn_def)
  have bd: "0 < bd" "d < 2 ^ nat bd" using bit_count_bounds [OF d] by (simp_all add: bd_def)
  have "pow2 (bn - 1 - bd) = 2 ^ nat (bn - 1) / 2 ^ nat bd" using bn bd by (intro pow2_minus) auto
  also have "\<dots> \<le> of_int n / 2 ^ nat bd"
    using bn(2) by (intro divide_right_mono) (simp_all flip: of_int_le_iff)
  also have "\<dots> < x"
  proof -
    have "(of_int d :: rat) < of_int (2 ^ nat bd)" using bd(2) by (simp only: of_int_less_iff)
    then show ?thesis using n d x by (simp add: divide_strict_left_mono)
  qed
  finally have low: "pow2 (bn - 1 - bd) < x" .
  have "pow2 (bn - 1 - bd) < pow2 (53 + k)" using low assms(2) by (rule less_trans)
  then have "bn - 1 - bd < 53 + k" by (rule pow2_less)
  moreover have "bn - bd < 53 + k" if "pow2 (bn - bd - 53 + 53) \<le> x"
  proof -
    have "pow2 (bn - bd) < pow2 (53 + k)" using that assms(2) by simp
    then show ?thesis by (rule pow2_less)
  qed
  ultimately have "(if pow2 (bn - bd - 53 + 53) \<le> x then bn - bd - 53 + 1 else bn - bd - 53) \<le> k" by auto
  moreover have "ulp_exponent x = max (-1074) (if pow2 (bn - bd - 53 + 53) \<le> x then bn - bd - 53 + 1 else bn - bd - 53)"
    by (simp add: ulp_exponent_def q bn_def bd_def Let_def)
  ultimately show ?thesis using assms(3) by simp
qed

lemma ulp_small: "0 < x \<Longrightarrow> x < 2 ^ 53 \<Longrightarrow> ulp_exponent x \<le> 0"
  using ulp_below [of x 0] by (simp add: pow2_def)

text \<open>How far rounding goes: half a unit in the last place.\<close>

lemma round_half_even_near: "\<bar>of_int (round_half_even x) - x\<bar> \<le> 1 / 2"
proof -
  have "of_int \<lfloor>x\<rfloor> \<le> x" "x < of_int \<lfloor>x\<rfloor> + 1" by linarith+
  then show ?thesis by (auto simp: round_half_even_def Let_def abs_le_iff)
qed

lemma round_positive_near:
  assumes "0 < x" "x < pow2 (53 + k)" "- 1074 \<le> k"
  shows "\<bar>round_positive x - x\<bar> \<le> pow2 k / 2"
proof -
  let ?e = "ulp_exponent x"
  have p: "0 < pow2 ?e" by (rule pow2_pos)
  have "round_positive x - x = (of_int (round_half_even (x / pow2 ?e)) - x / pow2 ?e) * pow2 ?e"
    using p by (simp add: round_positive_def Let_def algebra_simps)
  then have "\<bar>round_positive x - x\<bar> = \<bar>of_int (round_half_even (x / pow2 ?e)) - x / pow2 ?e\<bar> * pow2 ?e"
    using p by (simp add: abs_mult)
  also have "\<dots> \<le> 1 / 2 * pow2 ?e" using round_half_even_near p by (intro mult_right_mono) auto
  also have "\<dots> \<le> pow2 k / 2" using pow2_mono [OF ulp_below [OF assms]] by simp
  finally show ?thesis .
qed

lemma round_positive_between:
  assumes "0 < x" "x < 2 ^ 53"
  shows "x \<le> of_int m \<Longrightarrow> round_positive x \<le> of_int m" and "of_int m \<le> x \<Longrightarrow> of_int m \<le> round_positive x"
proof -
  define e where "e = ulp_exponent x"
  have e: "e \<le> 0" using ulp_small [OF assms] by (simp add: e_def)
  define k :: int where "k = 2 ^ nat (- e)"
  have p: "pow2 e = 1 / of_int k" using e by (cases "e = 0") (simp_all add: pow2_def k_def)
  have k: "0 < k" by (simp add: k_def)
  have r: "round_positive x = of_int (round_half_even (x * of_int k)) / of_int k"
    by (simp add: round_positive_def p flip: e_def)
  { assume "x \<le> of_int m"
    then have "x * of_int k \<le> of_int (m * k)" using k by simp
    then have "round_half_even (x * of_int k) \<le> m * k" by (rule round_half_even_upper)
    then have "(of_int (round_half_even (x * of_int k)) :: rat) \<le> of_int (m * k)" by (simp only: of_int_le_iff)
    then show "round_positive x \<le> of_int m" using k by (simp add: r divide_le_eq) }
  { assume "of_int m \<le> x"
    then have "of_int (m * k) \<le> x * of_int k" using k by simp
    then have "m * k \<le> round_half_even (x * of_int k)" by (rule round_half_even_lower)
    then have "(of_int (m * k) :: rat) \<le> of_int (round_half_even (x * of_int k))" by (simp only: of_int_le_iff)
    then show "of_int m \<le> round_positive x" using k by (simp add: r le_divide_eq) }
qed

lemma round64_between:
  assumes "of_int a \<le> x" "x \<le> of_int b" "0 \<le> a" "b < 2 ^ 53"
  shows "\<exists>y. round64 x = F_fin y \<and> of_int a \<le> y \<and> y \<le> of_int b"
proof (cases "x = 0")
  case True
  then show ?thesis using assms by (simp add: round64_def)
next
  case False
  have "(0::rat) \<le> of_int a" using assms(3) by simp
  then have pos: "0 < x" using False assms(1) by linarith
  have "(of_int b :: rat) < of_int (2 ^ 53)" using assms(4) by (simp only: of_int_less_iff)
  then have b: "(of_int b :: rat) < 2 ^ 53" by simp
  then have less: "x < 2 ^ 53" using assms(2) by linarith
  have up: "round_positive x \<le> of_int b" and lo: "of_int a \<le> round_positive x"
    using round_positive_between [OF pos less] assms(1,2) by simp_all
  have "(2::rat) ^ 53 < 2 ^ 1024" by (rule power_strict_increasing) auto
  then have "round_positive x < 2 ^ 1024" using up b by linarith
  then show ?thesis using pos up lo False by (simp add: round64_def pow2_def)
qed

lemma float_of_small: "0 \<le> n \<Longrightarrow> n < 2 ^ 53 \<Longrightarrow> float_of_int n = F_fin (of_int n)"
  using round64_between [of n "of_int n" n] by (auto simp: float_of_int_def)

lemma round64_near:
  assumes "0 \<le> x" "x < pow2 (53 + k)" "- 1074 \<le> k" "round64 x = F_fin y"
  shows "\<bar>y - x\<bar> \<le> pow2 k / 2"
proof (cases "x = 0")
  case True
  then show ?thesis using assms(4) pow2_pos [of k] by (simp add: round64_def)
next
  case False
  then have "0 < x" using assms(1) by simp
  moreover from this have "y = round_positive x" using assms(4) by (auto simp: round64_def Let_def split: if_splits)
  ultimately show ?thesis using round_positive_near assms(2,3) by blast
qed

text \<open>A share in percent of a whole.\<close>

lemma percentage_between:
  assumes "0 \<le> a" "a \<le> b" "0 < b" "b < 2 ^ 53"
  shows "\<exists>x. float_mul (float_div (float_of_int a) (float_of_int b)) (F_fin 100) = F_fin x \<and> 0 \<le> x \<and> x \<le> 100"
    and "a = b \<Longrightarrow> float_mul (float_div (float_of_int a) (float_of_int b)) (F_fin 100) = F_fin 100"
    and "a = 0 \<Longrightarrow> float_mul (float_div (float_of_int a) (float_of_int b)) (F_fin 100) = F_fin 0"
proof -
  have q: "0 \<le> (of_int a :: rat) / of_int b" "(of_int a :: rat) / of_int b \<le> 1" using assms by simp_all
  obtain y where y: "round64 (of_int a / of_int b) = F_fin y" "0 \<le> y" "y \<le> 1"
    using round64_between [of 0 "of_int a / of_int b" 1] q by auto
  obtain x where "round64 (y * 100) = F_fin x" "0 \<le> x" "x \<le> 100"
    using round64_between [of 0 "y * 100" 100] y by auto
  then show "\<exists>x. float_mul (float_div (float_of_int a) (float_of_int b)) (F_fin 100) = F_fin x \<and> 0 \<le> x \<and> x \<le> 100"
    using assms y by (simp add: float_of_small)
  have one: "round64 1 = F_fin 1" "round64 100 = F_fin 100" "round64 0 = F_fin 0"
    using round64_between [of 1 1 1] round64_between [of 100 100 100] by (auto simp: round64_def)
  show "a = b \<Longrightarrow> float_mul (float_div (float_of_int a) (float_of_int b)) (F_fin 100) = F_fin 100"
    using assms one by (simp add: float_of_small)
  show "a = 0 \<Longrightarrow> float_mul (float_div (float_of_int a) (float_of_int b)) (F_fin 100) = F_fin 0"
    using assms one by (simp add: float_of_small)
qed

lemma percentage_near:
  assumes "0 \<le> a" "a \<le> b" "0 < b" "b < 2 ^ 53"
    and "float_mul (float_div (float_of_int a) (float_of_int b)) (F_fin 100) = F_fin x"
  shows "\<bar>x - 100 * of_int a / of_int b\<bar> \<le> 1 / 2 ^ 45"
proof -
  define q :: rat where "q = of_int a / of_int b"
  have q: "0 \<le> q" "q \<le> 1" using assms by (simp_all add: q_def)
  obtain y where y: "round64 q = F_fin y" "0 \<le> y" "y \<le> 1" using round64_between [of 0 q 1] q by auto
  have "round64 (y * 100) = F_fin x" using assms y by (simp add: float_of_small flip: q_def)
  then have "\<bar>x - y * 100\<bar> \<le> pow2 (- 46) / 2" using y by (intro round64_near) (auto simp: pow2_def)
  moreover have "\<bar>y - q\<bar> \<le> pow2 (- 52) / 2" using y q by (intro round64_near) (auto simp: pow2_def)
  moreover have "\<bar>x - 100 * q\<bar> \<le> \<bar>x - y * 100\<bar> + 100 * \<bar>y - q\<bar>"
    by (simp add: abs_if)
  ultimately have "\<bar>x - 100 * q\<bar> \<le> 1 / 2 ^ 45" by (simp add: pow2_def)
  then show ?thesis by (simp add: q_def)
qed

end
