(* ===== verification/Access_Control.thy ===== *)
theory Access_Control
  imports Go_Text
begin

text \<open>
  Who may call what: the claims of \<^verbatim>\<open>internal/domain/model/auth.go\<close>, the middleware of
  \<^verbatim>\<open>internal/adapters/inbound/rest/auth_middleware.go\<close>, the routes with their guards of \<^verbatim>\<open>router.go\<close> and the
  status codes of \<^verbatim>\<open>errors.go\<close>.  The verifier of the tokens is an argument (theory \<open>Token_Verifier\<close> models the
  one of the program).
\<close>

section \<open>Claims\<close>

record claims =
  cl_subject :: string
  cl_username :: string
  cl_email :: string
  cl_roles :: "string list"
  cl_groups :: "string list"
  cl_expires :: time

definition new_claims :: "string \<Rightarrow> string \<Rightarrow> string \<Rightarrow> string list \<Rightarrow> string list \<Rightarrow> time \<Rightarrow> claims" where
  "new_claims subject user email roles groups expires =
     \<lparr>cl_subject = trim_space subject, cl_username = trim_space user, cl_email = trim_space email,
      cl_roles = roles, cl_groups = groups, cl_expires = expires\<rparr>"

definition role_admin :: string where "role_admin = ''vuhive-admin''"
definition role_deployer :: string where "role_deployer = ''vuhive-deployer''"
definition role_developer :: string where "role_developer = ''vuhive-developer''"
definition role_viewer :: string where "role_viewer = ''vuhive-viewer''"
definition role_runner :: string where "role_runner = ''vuhive-runner''"

definition group_administrators :: string where "group_administrators = ''/administrators''"
definition group_deployers :: string where "group_deployers = ''/deployers''"
definition group_developers :: string where "group_developers = ''/developers''"
definition group_viewers :: string where "group_viewers = ''/viewers''"

lemmas role_names = role_admin_def role_deployer_def role_developer_def role_viewer_def role_runner_def
  group_administrators_def group_deployers_def group_developers_def group_viewers_def

definition claims_expired :: "time \<Rightarrow> claims \<Rightarrow> bool" where
  "claims_expired now c \<longleftrightarrow> cl_expires c \<noteq> 0 \<and> cl_expires c < now"

definition in_group :: "claims \<Rightarrow> string \<Rightarrow> bool" where
  "in_group c g \<longleftrightarrow> list_ex (\<lambda>x. trim_space x = trim_space g) (cl_groups c)"

definition has_direct_role :: "claims \<Rightarrow> string \<Rightarrow> bool" where
  "has_direct_role c r \<longleftrightarrow> list_ex (\<lambda>x. trim_space x = trim_space r) (cl_roles c)"

definition has_role :: "claims \<Rightarrow> string \<Rightarrow> bool" where
  "has_role c role =
     (let target = trim_space role in
      if list_ex (\<lambda>x. trim_space x = target) (cl_roles c) then True
      else if in_group c group_administrators \<or> has_direct_role c role_admin then True
      else if target = role_viewer then
        has_direct_role c role_deployer \<or> has_direct_role c role_developer \<or> has_direct_role c role_viewer \<or>
        in_group c group_deployers \<or> in_group c group_developers \<or> in_group c group_viewers
      else if target = role_deployer then in_group c group_deployers
      else if target = role_developer then in_group c group_developers
      else if target = role_admin then in_group c group_administrators
      else False)"

definition has_any_role :: "claims \<Rightarrow> string list \<Rightarrow> bool" where
  "has_any_role c roles \<longleftrightarrow> list_ex (has_role c) roles"

section \<open>Middleware\<close>

text \<open>What a handler of the chain does: pass on, with the claims it has put into the context, or abort.\<close>

datatype access = Pass "claims option" | Abort int

text \<open>\<open>strings.SplitN(s, " ", 2)\<close>: the parts before and behind the first blank.\<close>

definition split_blank :: "string \<Rightarrow> (string \<times> string) option" where
  "split_blank s =
     (let rest = dropWhile (\<lambda>c. c \<noteq> CHR '' '') s
      in if rest = [] then None else Some (takeWhile (\<lambda>c. c \<noteq> CHR '' '') s, tl rest))"

definition auth_middleware :: "(string \<Rightarrow> claims result) option \<Rightarrow> bool \<Rightarrow> string \<Rightarrow> access" where
  "auth_middleware verifier optional header0 =
     (let header = trim_space header0 in
      if header = '''' then (if optional then Pass None else Abort 401)
      else case split_blank header of
        None \<Rightarrow> Abort 401
      | Some (scheme, rest) \<Rightarrow>
          if \<not> equal_fold scheme ''Bearer'' then Abort 401
          else if trim_space rest = '''' then Abort 401
          else case verifier of
            None \<Rightarrow> Pass None
          | Some verify \<Rightarrow>
              (case verify (trim_space rest) of
                 Inl e \<Rightarrow> Abort (if e = ErrForbidden then 403 else 401)
               | Inr c \<Rightarrow> Pass (Some c)))"

definition require_role :: "string list \<Rightarrow> claims option \<Rightarrow> access" where
  "require_role roles c =
     (case c of
        None \<Rightarrow> Abort 401
      | Some cl \<Rightarrow> if has_any_role cl roles then Pass c else Abort 403)"

definition require_group :: "string list \<Rightarrow> claims option \<Rightarrow> access" where
  "require_group groups c =
     (case c of
        None \<Rightarrow> Abort 401
      | Some cl \<Rightarrow>
          if has_role cl role_admin then Pass c
          else if list_ex (in_group cl) groups then Pass c
          else Abort 403)"

section \<open>Routes\<close>

datatype http_method = GET | POST | PUT | DELETE

text \<open>A route under \<open>/api/v1\<close> with the roles of its guard.\<close>

record route =
  rt_method :: http_method
  rt_pattern :: string
  rt_roles :: "string list"

definition rte :: "http_method \<Rightarrow> string \<Rightarrow> string list \<Rightarrow> route" where
  "rte m p roles = \<lparr>rt_method = m, rt_pattern = p, rt_roles = roles\<rparr>"

text \<open>Which use cases the router was given.\<close>

record router_cfg =
  rc_suites :: bool
  rc_configs :: bool
  rc_secrets :: bool
  rc_builds :: bool
  rc_profiles :: bool
  rc_schedules :: bool
  rc_runs :: bool
  rc_barrier :: bool
  rc_housekeeping :: bool

definition dev_or_admin :: "string list" where "dev_or_admin = [role_developer, role_admin]"
definition deploy_or_admin :: "string list" where "deploy_or_admin = [role_deployer, role_admin]"
definition runner_or_admin :: "string list" where "runner_or_admin = [role_runner, role_admin]"

definition suite_routes :: "router_cfg \<Rightarrow> route list" where
  "suite_routes cfg =
     (if rc_suites cfg then
        [rte POST ''/suites'' dev_or_admin, rte GET ''/suites'' [role_viewer], rte GET ''/suites/:id'' [role_viewer],
         rte PUT ''/suites/:id'' dev_or_admin, rte DELETE ''/suites/:id'' dev_or_admin] else []) @
     (if rc_configs cfg then
        [rte POST ''/suites/:id/configs'' dev_or_admin, rte GET ''/suites/:id/configs'' [role_viewer],
         rte GET ''/suites/:id/configs/:configId'' [role_viewer], rte PUT ''/suites/:id/configs/:configId'' dev_or_admin,
         rte DELETE ''/suites/:id/configs/:configId'' dev_or_admin] else []) @
     [rte POST ''/suites/:id/secrets'' dev_or_admin, rte GET ''/suites/:id/secrets'' dev_or_admin,
      rte PUT ''/suites/:id/secrets/:secretId'' dev_or_admin, rte DELETE ''/suites/:id/secrets/:secretId'' dev_or_admin] @
     (if rc_builds cfg then
        [rte POST ''/suites/:id/builds'' dev_or_admin,
         rte GET ''/suites/:id/artifacts'' [role_viewer, role_developer, role_deployer, role_admin],
         rte POST ''/suites/:id/artifacts/:artifactId/cancel'' dev_or_admin,
         rte POST ''/suites/:id/artifacts/:artifactId/retry'' dev_or_admin,
         rte DELETE ''/suites/:id/artifacts/:artifactId'' dev_or_admin] else [])"

definition api_routes :: "router_cfg \<Rightarrow> route list" where
  "api_routes cfg =
     (if rc_suites cfg \<or> rc_configs cfg \<or> rc_builds cfg \<or> rc_secrets cfg then suite_routes cfg else []) @
     (if rc_profiles cfg then
        [rte POST ''/profiles'' [role_admin], rte GET ''/profiles'' [role_viewer], rte GET ''/profiles/:id'' [role_viewer],
         rte PUT ''/profiles/:id'' [role_admin], rte DELETE ''/profiles/:id'' [role_admin]] else []) @
     (if rc_schedules cfg then
        [rte POST ''/schedules'' deploy_or_admin, rte GET ''/schedules'' [role_viewer], rte GET ''/schedules/:id'' [role_viewer],
         rte PUT ''/schedules/:id'' deploy_or_admin, rte DELETE ''/schedules/:id'' deploy_or_admin] else []) @
     (if rc_runs cfg then
        [rte POST ''/runs'' deploy_or_admin, rte GET ''/runs'' [role_viewer], rte GET ''/runs/:id'' [role_viewer],
         rte GET ''/runs/:id/report'' [role_viewer], rte GET ''/runs/:id/logs'' [role_viewer],
         rte POST ''/runs/:id/abort'' deploy_or_admin, rte POST ''/runs/:id/cleanup'' deploy_or_admin,
         rte DELETE ''/runs/:id'' deploy_or_admin, rte POST ''/runs/:id/complete'' runner_or_admin,
         rte POST ''/runs/complete'' runner_or_admin] else []) @
     (if rc_barrier cfg then
        [rte POST ''/runs/:id/barrier/await'' runner_or_admin, rte POST ''/runs/:id/barrier/abort'' runner_or_admin,
         rte GET ''/runs/:id/barrier'' [role_runner, role_viewer, role_admin]] else []) @
     (if rc_housekeeping cfg then
        [rte POST ''/system/housekeeping'' [role_admin], rte GET ''/system/housekeeping/policy'' [role_viewer, role_admin]] else [])"

text \<open>The chain in front of the handler of a route: without a verifier there is none.\<close>

definition route_access :: "(string \<Rightarrow> claims result) option \<Rightarrow> string \<Rightarrow> route \<Rightarrow> access" where
  "route_access verifier header r =
     (case verifier of
        None \<Rightarrow> Pass None
      | Some _ \<Rightarrow>
          (case auth_middleware verifier False header of
             Abort n \<Rightarrow> Abort n
           | Pass c \<Rightarrow> require_role (rt_roles r) c))"

section \<open>Status codes\<close>

definition error_status :: "err \<Rightarrow> int" where
  "error_status e =
     (if e \<in> {ErrNotFound, ErrBarrierNotFound, ErrReportNotFound, ErrLogsNotFound} then 404
      else if e \<in> {ErrValidation, ErrInvalidPlatform, ErrUnsupportedGoVersion, ErrEmptyName, ErrInvalidResourceQuantity,
        ErrInvalidAffinity, ErrInvalidToleration, ErrInvalidCronExpression, ErrInvalidWorkerCount, ErrInvalidStateTransition,
        ErrMissingGoMod, ErrMissingVuhiveDependency, ErrForbiddenImport, ErrForbiddenPackageMain, ErrMissingScenarioContract,
        ErrInvalidArchive} then 400
      else if e = ErrInsecureOverrideForbidden then 403
      else if e = ErrBarrierTimeout then 408
      else if e = ErrBarrierAborted then 424
      else if e \<in> {ErrConflict, ErrRunInFlight, ErrWorkerAlreadyRegistered, ErrBarrierReleased, ErrTerminalState} then 409
      else if e = ErrSecretsDisabled then 501
      else 500)"

section \<open>The permissions\<close>

lemma trimmed_names [simp]:
  "trim_space role_admin = role_admin" "trim_space role_deployer = role_deployer" "trim_space role_developer = role_developer"
  "trim_space role_viewer = role_viewer" "trim_space role_runner = role_runner"
  by (simp_all add: role_names trim_space_graphic graphic_def)

lemma distinct_names [simp]:
  "role_admin \<noteq> role_deployer" "role_admin \<noteq> role_developer" "role_admin \<noteq> role_viewer" "role_admin \<noteq> role_runner"
  "role_deployer \<noteq> role_admin" "role_deployer \<noteq> role_developer" "role_deployer \<noteq> role_viewer" "role_deployer \<noteq> role_runner"
  "role_developer \<noteq> role_admin" "role_developer \<noteq> role_deployer" "role_developer \<noteq> role_viewer" "role_developer \<noteq> role_runner"
  "role_viewer \<noteq> role_admin" "role_viewer \<noteq> role_deployer" "role_viewer \<noteq> role_developer" "role_viewer \<noteq> role_runner"
  "role_runner \<noteq> role_admin" "role_runner \<noteq> role_deployer" "role_runner \<noteq> role_developer" "role_runner \<noteq> role_viewer"
  by (simp_all add: role_names)

definition is_admin :: "claims \<Rightarrow> bool" where
  "is_admin c \<longleftrightarrow> has_direct_role c role_admin \<or> in_group c group_administrators"

definition is_deployer :: "claims \<Rightarrow> bool" where
  "is_deployer c \<longleftrightarrow> has_direct_role c role_deployer \<or> in_group c group_deployers"

definition is_developer :: "claims \<Rightarrow> bool" where
  "is_developer c \<longleftrightarrow> has_direct_role c role_developer \<or> in_group c group_developers"

definition is_viewer :: "claims \<Rightarrow> bool" where
  "is_viewer c \<longleftrightarrow> has_direct_role c role_viewer \<or> in_group c group_viewers"

lemma has_role_cases:
  "has_role c role_admin = is_admin c"
  "has_role c role_deployer = (is_admin c \<or> is_deployer c)"
  "has_role c role_developer = (is_admin c \<or> is_developer c)"
  "has_role c role_viewer = (is_admin c \<or> is_deployer c \<or> is_developer c \<or> is_viewer c)"
  "has_role c role_runner = (is_admin c \<or> has_direct_role c role_runner)"
  by (auto simp: has_role_def has_direct_role_def is_admin_def is_deployer_def is_developer_def is_viewer_def Let_def)

text \<open>The access policy as a reference: who may use a method on a resource.\<close>

definition is_reader :: "claims \<Rightarrow> bool" where
  "is_reader c \<longleftrightarrow> is_deployer c \<or> is_developer c \<or> is_viewer c"

definition policy :: "http_method \<Rightarrow> string \<Rightarrow> claims \<Rightarrow> bool" where
  "policy m p c \<longleftrightarrow>
     is_admin c \<or>
     (if prefix ''/profiles'' p \<or> prefix ''/system'' p then m = GET \<and> is_reader c
      else if contains p ''/secrets'' then is_developer c
      else if prefix ''/suites'' p then (if m = GET then is_reader c else is_developer c)
      else if prefix ''/schedules'' p then (if m = GET then is_reader c else is_deployer c)
      else if contains p ''/barrier'' then has_direct_role c role_runner \<or> (m = GET \<and> is_reader c)
      else if suffix ''/complete'' p then has_direct_role c role_runner
      else if m = GET then is_reader c
      else is_deployer c)"

definition guarded :: "route \<Rightarrow> bool" where
  "guarded r \<longleftrightarrow> (\<forall>c. has_any_role c (rt_roles r) = policy (rt_method r) (rt_pattern r) c)"

lemma any_role_sets:
  "has_any_role c dev_or_admin = (is_admin c \<or> is_developer c)"
  "has_any_role c deploy_or_admin = (is_admin c \<or> is_deployer c)"
  "has_any_role c runner_or_admin = (is_admin c \<or> has_direct_role c role_runner)"
  "has_any_role c [role_admin] = is_admin c"
  "has_any_role c [role_viewer] = (is_admin c \<or> is_reader c)"
  "has_any_role c [role_viewer, role_admin] = (is_admin c \<or> is_reader c)"
  "has_any_role c [role_viewer, role_developer, role_deployer, role_admin] = (is_admin c \<or> is_reader c)"
  "has_any_role c [role_runner, role_viewer, role_admin] = (is_admin c \<or> has_direct_role c role_runner \<or> is_reader c)"
  by (auto simp: has_any_role_def dev_or_admin_def deploy_or_admin_def runner_or_admin_def has_role_cases is_reader_def)

lemma guarded_rte:
  "guarded (rte m p roles) \<longleftrightarrow> (\<forall>c. has_any_role c roles = policy m p c)"
  by (simp add: guarded_def rte_def)

lemma suites_guarded: "r \<in> set (suite_routes cfg) \<Longrightarrow> guarded r"
  unfolding suite_routes_def
  by (auto simp: guarded_rte any_role_sets policy_def contains_def sublist_code suffix_def split: if_splits)

lemma routes_guarded: "r \<in> set (api_routes cfg) \<Longrightarrow> guarded r"
  unfolding api_routes_def
  by (auto simp: guarded_rte any_role_sets policy_def contains_def sublist_code suffix_def suites_guarded split: if_splits)

section \<open>Access\<close>


definition all_use_cases :: router_cfg where
  "all_use_cases = \<lparr>rc_suites = True, rc_configs = True, rc_secrets = True, rc_builds = True, rc_profiles = True,
     rc_schedules = True, rc_runs = True, rc_barrier = True, rc_housekeeping = True\<rparr>"

definition demo_verify :: "string \<Rightarrow> claims result" where
  "demo_verify t = (if t = ''tok'' then Inr (new_claims ''u1'' ''ann'' ''a@x'' [] [''/developers''] 0) else Inl ErrUnauthorized)"


end
