(* ===== verification/Masking.thy ===== *)
theory Masking
  imports Templates
begin

text \<open>
  The writer that masks secrets in the output of a test (\<^verbatim>\<open>internal/runner/masking_writer.go\<close>).
  \<open>strings.Replacer\<close> scans a text once from the left and replaces, at each position, the first of its old strings
  that matches there.  \<open>sort.Slice\<close> is modelled by a stable sort: texts of equal length that differ never match at
  the same position, so their order does not matter.
\<close>

section \<open>The replacer\<close>

definition redacted :: string where "redacted = ''[REDACTED]''"

text \<open>A piece of the output: a byte that is kept, or the mask of a secret.\<close>

datatype piece = Plain char | Masked string

definition first_match :: "string list \<Rightarrow> string \<Rightarrow> string option" where
  "first_match olds s = List.find (\<lambda>old. prefix old s) olds"

function mask_pieces :: "string list \<Rightarrow> string \<Rightarrow> piece list" where
  "mask_pieces olds [] = []"
| "mask_pieces olds (c # cs) =
     (case first_match olds (c # cs) of
        Some old \<Rightarrow> Masked old # mask_pieces olds (drop (length old - 1) cs)
      | None \<Rightarrow> Plain c # mask_pieces olds cs)"
  by pat_completeness auto
termination by (relation "measure (\<lambda>(olds, s). length s)") auto

fun render_pieces :: "piece list \<Rightarrow> string" where
  "render_pieces [] = []"
| "render_pieces (Plain c # ps) = c # render_pieces ps"
| "render_pieces (Masked old # ps) = redacted @ render_pieces ps"

definition replace_secrets :: "string list \<Rightarrow> string \<Rightarrow> string" where
  "replace_secrets olds s = render_pieces (mask_pieces olds s)"

section \<open>The writer\<close>

text \<open>The old strings of the replacer; without any there is no replacer.\<close>

definition new_masking_writer :: "string list \<Rightarrow> string list" where
  "new_masking_writer values =
     sort_key (\<lambda>s. - int (length s)) (first_occurrences [] (filter (\<lambda>s. trim_space s \<noteq> '''') values))"

definition masking_write :: "string list \<Rightarrow> string \<Rightarrow> string" where
  "masking_write olds p = (if olds = [] then p else replace_secrets olds p)"

lemma set_new_masking_writer: "set (new_masking_writer values) = {s \<in> set values. trim_space s \<noteq> ''''}"
  by (simp add: new_masking_writer_def first_occurrences_set)

section \<open>What the scan does\<close>

lemma first_match_Some: "first_match olds s = Some old \<Longrightarrow> old \<in> set olds \<and> prefix old s"
  by (auto simp: first_match_def find_Some_iff)

lemma first_match_None: "first_match olds s = None \<longleftrightarrow> (\<forall>old \<in> set olds. \<not> prefix old s)"
  by (auto simp: first_match_def find_None_iff)

lemma replace_secrets_simps [simp]: "replace_secrets olds [] = []"
  by (simp add: replace_secrets_def)

lemma replace_secrets_Plain:
  "first_match olds (c # cs) = None \<Longrightarrow> replace_secrets olds (c # cs) = c # replace_secrets olds cs"
  by (simp add: replace_secrets_def)

lemma replace_secrets_Masked:
  "first_match olds (c # cs) = Some old \<Longrightarrow>
     replace_secrets olds (c # cs) = redacted @ replace_secrets olds (drop (length old - 1) cs)"
  by (simp add: replace_secrets_def)

lemma prefix_replaced:
  assumes "prefix s (replace_secrets olds p)" and "CHR ''['' \<notin> set s"
  shows "prefix s p"
  using assms
proof (induction olds p arbitrary: s rule: mask_pieces.induct)
  case (2 olds c cs)
  show ?case
  proof (cases "first_match olds (c # cs)")
    case None
    with "2.prems" show ?thesis using "2.IH"(1)[OF None]
      by (cases s) (auto simp: replace_secrets_Plain)
  next
    case (Some old)
    with "2.prems" show ?thesis by (cases s) (auto simp: replace_secrets_Masked redacted_def)
  qed
qed simp

lemma sublist_around:
  assumes "sublist s (a @ x # b)" and "x \<notin> set s"
  shows "sublist s a \<or> sublist s b"
proof -
  obtain u v where e: "a @ x # b = u @ s @ v" using assms(1) by (auto simp: sublist_def)
  then consider w where "a = u @ w" "w @ x # b = s @ v" | w where "u = a @ w" "x # b = w @ s @ v"
    by (auto simp: append_eq_append_conv2)
  then show ?thesis
  proof cases
    case 1
    then consider z where "w = s @ z" | z where "s = w @ z" "x # b = z @ v" by (auto simp: append_eq_append_conv2)
    then show ?thesis
    proof cases
      case 1
      with \<open>a = u @ w\<close> show ?thesis by (auto simp: sublist_def)
    next
      case 2
      with assms(2) have "z = []" by (cases z) auto
      with 2 \<open>a = u @ w\<close> have "a = u @ s @ []" by simp
      then show ?thesis unfolding sublist_def by blast
    qed
  next
    case 2
    show ?thesis
    proof (cases w)
      case Nil
      with 2 assms(2) have "s = []" by (cases s) auto
      then show ?thesis by simp
    next
      case (Cons y ys)
      with 2 show ?thesis by (auto simp: sublist_def)
    qed
  qed
qed

lemma sublist_mask:
  assumes "sublist s (redacted @ t)" and "CHR ''['' \<notin> set s" and "CHR '']'' \<notin> set s"
  shows "sublist s ''REDACTED'' \<or> sublist s t"
proof -
  have m: "redacted @ t = ''[REDACTED'' @ CHR '']'' # t" by (simp add: redacted_def)
  have "sublist s ''[REDACTED'' \<or> sublist s t"
    using sublist_around[of s "''[REDACTED''" "CHR '']''" t] assms(1,3) m by simp
  then show ?thesis
    using sublist_around[of s "[]" "CHR ''[''" "''REDACTED''"] assms(2) by auto
qed

lemma secret_not_replaced:
  assumes "s \<in> set olds" and "sublist s (replace_secrets olds p)"
    and "CHR ''['' \<notin> set s" and "CHR '']'' \<notin> set s" and "\<not> sublist s ''REDACTED''"
  shows False
  using assms
proof (induction olds p rule: mask_pieces.induct)
  case (1 olds)
  then show ?case by (auto simp: sublist_def)
next
  case (2 olds c cs)
  show ?case
  proof (cases "first_match olds (c # cs)")
    case None
    then have "prefix s (c # replace_secrets olds cs) \<or> sublist s (replace_secrets olds cs)"
      using "2.prems"(2) by (auto simp: replace_secrets_Plain sublist_Cons_right)
    moreover have "\<not> prefix s (c # replace_secrets olds cs)"
      using prefix_replaced[of s olds "c # cs"] None "2.prems"(1,3)
      by (auto simp: replace_secrets_Plain first_match_None)
    ultimately show ?thesis using "2.IH"(1)[OF None] "2.prems" by blast
  next
    case (Some old)
    then have "sublist s (redacted @ replace_secrets olds (drop (length old - 1) cs))"
      using "2.prems"(2) by (simp add: replace_secrets_Masked)
    then have "sublist s (replace_secrets olds (drop (length old - 1) cs))"
      using sublist_mask "2.prems"(3-5) by blast
    then show ?thesis using "2.IH"(2)[OF Some] "2.prems" by blast
  qed
qed

lemma no_secret_unchanged:
  assumes "\<forall>s \<in> set olds. \<not> sublist s p"
  shows "replace_secrets olds p = p"
  using assms
proof (induction olds p rule: mask_pieces.induct)
  case (2 olds c cs)
  have n: "first_match olds (c # cs) = None"
    using "2.prems" by (auto simp: first_match_None dest: prefix_imp_sublist)
  have "\<forall>s \<in> set olds. \<not> sublist s cs" using "2.prems" by (auto simp: sublist_Cons_right)
  with "2.IH"(1)[OF n] n show ?case by (simp add: replace_secrets_Plain)
qed simp

section \<open>Properties\<close>

text \<open>
  C22: One write never lets a secret through: whatever the output of the test and the other secrets are,
  the text that reaches the log for one \<open>Write\<close> does not contain any of the secret values, provided the value has
  no square bracket and is not a part of the word REDACTED itself (the mask could otherwise spell it).
\<close>

theorem masking_hides_secrets:
  assumes "s \<in> set values" and "trim_space s \<noteq> ''''"
    and "CHR ''['' \<notin> set s" and "CHR '']'' \<notin> set s" and "\<not> sublist s ''REDACTED''"
  shows "\<not> sublist s (masking_write (new_masking_writer values) p)"
proof -
  have s: "s \<in> set (new_masking_writer values)" using assms(1,2) by (simp add: set_new_masking_writer)
  then have "new_masking_writer values \<noteq> []" by auto
  with secret_not_replaced[OF s _ assms(3-5)] show ?thesis by (auto simp: masking_write_def)
qed

theorem masking_hides_secrets_witness:
  "\<not> sublist ''pw1'' (masking_write (new_masking_writer [''pw'', ''pw1'', '' '']) ''a pw1 b pwpw'') \<and>
   masking_write (new_masking_writer [''pw'', ''pw1'', '' '']) ''a pw1 b pwpw'' = ''a [REDACTED] b [REDACTED][REDACTED]''"
  using masking_hides_secrets[of "''pw1''" "[''pw'', ''pw1'', '' '']" "''a pw1 b pwpw''"] by code_simp

text \<open>
  The writer has no memory: a secret that the output delivers in two writes, none of which holds a whole secret,
  reaches the log unmasked.
\<close>

theorem masking_leaks_split_secret:
  assumes "s \<in> set values" and "s = a @ b"
    and "\<forall>t \<in> set values. trim_space t \<noteq> '''' \<longrightarrow> \<not> sublist t a \<and> \<not> sublist t b"
  shows "masking_write (new_masking_writer values) a @ masking_write (new_masking_writer values) b = s"
  using assms(2,3) by (simp add: masking_write_def no_secret_unchanged set_new_masking_writer)

theorem masking_leaks_split_secret_witness:
  "masking_write (new_masking_writer [''s3cret'']) ''s3c'' @ masking_write (new_masking_writer [''s3cret'']) ''ret'' = ''s3cret''"
proof -
  have t: "\<forall>t \<in> set [''s3cret'']. trim_space t \<noteq> '''' \<longrightarrow> \<not> sublist t ''s3c'' \<and> \<not> sublist t ''ret''"
    by (simp add: sublist_Cons_right)
  show ?thesis by (rule masking_leaks_split_secret[OF _ _ t]) simp_all
qed

end
