(* ===== verification/Network_Policy.thy ===== *)
theory Network_Policy
  imports Configs_Secrets Go_Text
begin

text \<open>
  The egress policy of the runner pods (\<^verbatim>\<open>internal/adapters/outbound/k8s/network_policy_generator.go\<close>) and what
  Kubernetes documents that such a policy lets through: a policy for egress isolates the pods it selects, and a
  connection may pass when one rule admits its destination and its port; a rule without peers admits every destination,
  a rule without ports every port.  Whether an address lies in a block is the argument \<open>in_cidr\<close>, the labels of the
  namespaces are the argument \<open>ns_labels\<close>.  Of label selectors the equality terms are modelled, the only ones used.
\<close>

section \<open>Policies\<close>

type_synonym labels = "(string \<times> string) list"

datatype protocol = UDP | TCP

text \<open>A peer selects pods (by the labels of their namespace and their own) or a block of addresses with exceptions.\<close>

record policy_peer =
  peer_namespaces :: "labels option"
  peer_pods :: "labels option"
  peer_block :: "(string \<times> string list) option"

record egress_rule =
  er_to :: "policy_peer list"
  er_ports :: "(protocol \<times> int) list"

record network_policy =
  np_name :: string
  np_namespace :: string
  np_labels :: labels
  np_selector :: labels
  np_egress :: "egress_rule list"

record policy_opts =
  po_name :: string
  po_namespace :: string
  po_control_namespace :: string
  po_control_port :: int
  po_s3_port :: int
  po_deny_metadata :: bool
  po_deny_cidrs :: "string list"
  po_target_cidrs :: "string list"
  po_rules :: "egress_rule list"

datatype policy_err = Perr_name | Perr_namespace

section \<open>The generator\<close>

definition metadata_cidr :: string where "metadata_cidr = ''169.254.169.254/32''"

definition dns_rule :: egress_rule where
  "dns_rule = \<lparr>er_to = [], er_ports = [(UDP, 53), (TCP, 53)]\<rparr>"

definition control_ports :: "policy_opts \<Rightarrow> (protocol \<times> int) list" where
  "control_ports opts =
     [(TCP, if po_control_port opts \<le> 0 then 8080 else po_control_port opts),
      (TCP, if po_s3_port opts \<le> 0 then 9000 else po_s3_port opts)]"

definition control_namespace :: "policy_opts \<Rightarrow> string" where
  "control_namespace opts =
     (if trim_space (po_control_namespace opts) = '''' then trim_space (po_namespace opts)
      else trim_space (po_control_namespace opts))"

definition control_rule :: "policy_opts \<Rightarrow> egress_rule" where
  "control_rule opts =
     (if control_namespace opts \<noteq> trim_space (po_namespace opts) then
        \<lparr>er_to = [\<lparr>peer_namespaces = Some [(''kubernetes.io/metadata.name'', control_namespace opts)], peer_pods = None,
           peer_block = None\<rparr>], er_ports = control_ports opts\<rparr>
      else
        \<lparr>er_to = [\<lparr>peer_namespaces = None, peer_pods = Some [(''app.kubernetes.io/name'', ''vuhive-cloud'')],
           peer_block = None\<rparr>], er_ports = control_ports opts\<rparr>)"

definition not_blank :: "string list \<Rightarrow> string list" where
  "not_blank xs = filter (\<lambda>s. s \<noteq> '''') (map trim_space xs)"

definition policy_exceptions :: "policy_opts \<Rightarrow> string list" where
  "policy_exceptions opts = (if po_deny_metadata opts then [metadata_cidr] else []) @ not_blank (po_deny_cidrs opts)"

definition target_cidrs :: "policy_opts \<Rightarrow> string list" where
  "target_cidrs opts = not_blank (if po_target_cidrs opts = [] then [''0.0.0.0/0''] else po_target_cidrs opts)"

definition target_rule :: "string list \<Rightarrow> string \<Rightarrow> egress_rule" where
  "target_rule exceptions cidr =
     \<lparr>er_to = [\<lparr>peer_namespaces = None, peer_pods = None, peer_block = Some (cidr, exceptions)\<rparr>], er_ports = []\<rparr>"

definition generate_policy :: "policy_opts \<Rightarrow> policy_err + network_policy" where
  "generate_policy opts =
     (if trim_space (po_name opts) = '''' then Inl Perr_name
      else if trim_space (po_namespace opts) = '''' then Inl Perr_namespace
      else Inr \<lparr>np_name = trim_space (po_name opts), np_namespace = trim_space (po_namespace opts),
        np_labels = [(''app.kubernetes.io/name'', ''vuhive-runner-isolation''), (''app.kubernetes.io/managed-by'', ''vuhive-cloud'')],
        np_selector = [(''app.kubernetes.io/name'', ''vuhive-runner'')],
        np_egress = [dns_rule, control_rule opts] @ map (target_rule (policy_exceptions opts)) (target_cidrs opts) @ po_rules opts\<rparr>)"

section \<open>What a policy lets through\<close>

text \<open>A destination is an address, with the namespace and the labels of the pod behind it when there is one.\<close>

record destination =
  dst_ip :: string
  dst_pod :: "(string \<times> labels) option"

definition selects :: "labels \<Rightarrow> labels \<Rightarrow> bool" where
  "selects sel ls \<longleftrightarrow> list_all (\<lambda>(k, v). map_of ls k = Some v) sel"

definition peer_admits ::
  "(string \<Rightarrow> string \<Rightarrow> bool) \<Rightarrow> (string \<Rightarrow> labels) \<Rightarrow> string \<Rightarrow> destination \<Rightarrow> policy_peer \<Rightarrow> bool" where
  "peer_admits in_cidr ns_labels own d p =
     (case peer_block p of
        Some (cidr, excepts) \<Rightarrow> in_cidr cidr (dst_ip d) \<and> \<not> list_ex (\<lambda>e. in_cidr e (dst_ip d)) excepts
      | None \<Rightarrow>
          (case dst_pod d of
             None \<Rightarrow> False
           | Some (ns, ls) \<Rightarrow>
               (case peer_namespaces p of None \<Rightarrow> ns = own | Some sel \<Rightarrow> selects sel (ns_labels ns)) \<and>
               (case peer_pods p of None \<Rightarrow> True | Some sel \<Rightarrow> selects sel ls)))"

definition rule_admits ::
  "(string \<Rightarrow> string \<Rightarrow> bool) \<Rightarrow> (string \<Rightarrow> labels) \<Rightarrow> string \<Rightarrow> destination \<Rightarrow> protocol \<Rightarrow> int \<Rightarrow> egress_rule \<Rightarrow> bool" where
  "rule_admits in_cidr ns_labels own d proto port r \<longleftrightarrow>
     (er_to r = [] \<or> list_ex (peer_admits in_cidr ns_labels own d) (er_to r)) \<and>
     (er_ports r = [] \<or> (proto, port) \<in> set (er_ports r))"

definition policy_admits ::
  "(string \<Rightarrow> string \<Rightarrow> bool) \<Rightarrow> (string \<Rightarrow> labels) \<Rightarrow> network_policy \<Rightarrow> destination \<Rightarrow> protocol \<Rightarrow> int \<Rightarrow> bool" where
  "policy_admits in_cidr ns_labels np d proto port \<longleftrightarrow>
     list_ex (rule_admits in_cidr ns_labels (np_namespace np) d proto port) (np_egress np)"

lemma dns_admits: "rule_admits in_cidr ns_labels own d proto port dns_rule \<longleftrightarrow> port = 53"
  by (cases proto) (auto simp: rule_admits_def dns_rule_def)

lemma control_admits_pods_only: "dst_pod d = None \<Longrightarrow> \<not> rule_admits in_cidr ns_labels own d proto port (control_rule opts)"
  by (simp add: rule_admits_def control_rule_def peer_admits_def)

lemma target_admits:
  "rule_admits in_cidr ns_labels own d proto port (target_rule exceptions cidr) \<longleftrightarrow>
     in_cidr cidr (dst_ip d) \<and> (\<forall>e \<in> set exceptions. \<not> in_cidr e (dst_ip d))"
  by (auto simp: rule_admits_def target_rule_def peer_admits_def list_ex_iff)

lemma set_not_blank: "set (not_blank xs) = trim_space ` set xs - {''''}"
  by (auto simp: not_blank_def)

text \<open>
  C21: What a runner can reach outside the cluster under a generated policy without further rules: any address on port 53,
  and otherwise exactly the addresses of the target blocks that lie in no denied block.  So the address of the cloud
  metadata service, and every denied block, is out of reach on any other port; on port 53 nothing is.
\<close>

theorem runner_egress_policy:
  assumes "generate_policy opts = Inr np" and "po_rules opts = []" and "dst_pod d = None"
  shows "policy_admits in_cidr ns_labels np d proto port \<longleftrightarrow>
    port = 53 \<or>
    ((\<exists>t \<in> set (target_cidrs opts). in_cidr t (dst_ip d)) \<and>
     (po_deny_metadata opts \<longrightarrow> \<not> in_cidr metadata_cidr (dst_ip d)) \<and>
     (\<forall>c \<in> set (po_deny_cidrs opts). trim_space c \<noteq> '''' \<longrightarrow> \<not> in_cidr (trim_space c) (dst_ip d)))"
proof -
  have np: "np_egress np = [dns_rule, control_rule opts] @ map (target_rule (policy_exceptions opts)) (target_cidrs opts)"
    using assms(1,2) by (auto simp: generate_policy_def split: if_splits)
  have "(\<forall>e \<in> set (policy_exceptions opts). \<not> in_cidr e (dst_ip d)) \<longleftrightarrow>
      (po_deny_metadata opts \<longrightarrow> \<not> in_cidr metadata_cidr (dst_ip d)) \<and>
      (\<forall>c \<in> set (po_deny_cidrs opts). trim_space c \<noteq> '''' \<longrightarrow> \<not> in_cidr (trim_space c) (dst_ip d))"
    by (auto simp: policy_exceptions_def set_not_blank)
  then show ?thesis
    by (simp add: policy_admits_def np list_ex_iff dns_admits control_admits_pods_only[OF assms(3)] target_admits)
qed

text \<open>Two blocks, as far as the example needs them.\<close>

definition demo_in_cidr :: "string \<Rightarrow> string \<Rightarrow> bool" where
  "demo_in_cidr cidr ip \<longleftrightarrow> cidr = ''0.0.0.0/0'' \<or> cidr = ip @ ''/32''"

definition demo_policy_opts :: policy_opts where
  "demo_policy_opts = \<lparr>po_name = ''p'', po_namespace = ''vuhive-runners'', po_control_namespace = ''vuhive-system'',
     po_control_port = 0, po_s3_port = 0, po_deny_metadata = True, po_deny_cidrs = [], po_target_cidrs = [], po_rules = []\<rparr>"

theorem runner_egress_policy_witness:
  "\<exists>np. generate_policy demo_policy_opts = Inr np \<and>
     \<not> policy_admits demo_in_cidr (\<lambda>_. []) np \<lparr>dst_ip = ''169.254.169.254'', dst_pod = None\<rparr> TCP 80 \<and>
     policy_admits demo_in_cidr (\<lambda>_. []) np \<lparr>dst_ip = ''169.254.169.254'', dst_pod = None\<rparr> TCP 53 \<and>
     policy_admits demo_in_cidr (\<lambda>_. []) np \<lparr>dst_ip = ''10.1.2.3'', dst_pod = None\<rparr> TCP 443"
proof -
  obtain np where np: "generate_policy demo_policy_opts = Inr np"
    by (simp add: generate_policy_def demo_policy_opts_def trim_space_graphic graphic_def)
  have r: "po_rules demo_policy_opts = []" by (simp add: demo_policy_opts_def)
  have t: "target_cidrs demo_policy_opts = [''0.0.0.0/0'']"
    by (simp add: target_cidrs_def not_blank_def demo_policy_opts_def trim_space_graphic graphic_def)
  note admits = runner_egress_policy[OF np r, where in_cidr = demo_in_cidr and ns_labels = "\<lambda>_. []"]
  show ?thesis
    by (intro exI[of _ np] conjI np)
      (simp_all add: admits t, simp_all add: demo_in_cidr_def demo_policy_opts_def metadata_cidr_def)
qed

end
