(* ===== verification/K8s_Manifests.thy ===== *)
theory K8s_Manifests
  imports Control_Ports Go_Time Go_Version
begin

text \<open>
  The Kubernetes objects that the program generates (\<^verbatim>\<open>internal/adapters/outbound/k8s\<close>): runner jobs
  (\<^verbatim>\<open>runner_job_generator.go\<close>), cron jobs (\<^verbatim>\<open>cronjob_generator.go\<close>), build jobs (\<^verbatim>\<open>build_job_generator.go\<close>) and the
  environment of the object store (\<^verbatim>\<open>s3_env.go\<close>).  The parser of quantities belongs to Kubernetes and is an argument;
  a quantity is its value in units and in thousandths.  Labels are lists of pairs with distinct keys.  The generators
  are called with a run (a schedule) and a profile, so their checks for nil have no counterpart.
\<close>

section \<open>Objects\<close>

datatype env_source = Env_value string | Env_field string | Env_secret string string

type_synonym env_var = "string \<times> env_source"

record quantity =
  q_value :: int
  q_milli :: int

record container_security =
  cs_escalation :: "bool option"
  cs_readonly_root :: "bool option"
  cs_drop :: "string list"

record volume_mount =
  vm_name :: string
  vm_path :: string
  vm_read_only :: bool

record container =
  ct_name :: string
  ct_image :: string
  ct_pull :: string
  ct_security :: container_security
  ct_command :: "string list"
  ct_env :: "env_var list"
  ct_cpu_request :: quantity
  ct_memory_request :: quantity
  ct_cpu_limit :: quantity
  ct_memory_limit :: quantity
  ct_mounts :: "volume_mount list"

datatype volume = Vol_empty string | Vol_secret string string bool

record pod_security =
  ps_non_root :: "bool option"
  ps_user :: "int option"
  ps_group :: "int option"
  ps_fs_group :: "int option"
  ps_seccomp :: string

record dns_config =
  dns_nameservers :: "string list"
  dns_searches :: "string list"
  dns_options :: "(string \<times> string option) list"

record pod_spec =
  pod_restart :: string
  pod_dns_policy :: string
  pod_dns :: "dns_config option"
  pod_security :: pod_security
  pod_node_selector :: "(string \<times> string) list"
  pod_affinity :: "affinity_term list"
  pod_tolerations :: "toleration list"
  pod_runtime_class :: "string option"
  pod_volumes :: "volume list"
  pod_init :: "container list"
  pod_containers :: "container list"

record job_spec =
  js_parallelism :: "int option"
  js_completions :: "int option"
  js_indexed :: bool
  js_backoff :: int
  js_deadline :: int
  js_ttl :: int
  js_pod_labels :: "(string \<times> string) list"
  js_pod :: pod_spec

record job_manifest =
  jm_name :: string
  jm_namespace :: string
  jm_labels :: "(string \<times> string) list"
  jm_spec :: job_spec

record cron_manifest =
  cm_name :: string
  cm_namespace :: string
  cm_labels :: "(string \<times> string) list"
  cm_schedule :: string
  cm_concurrency :: string
  cm_successful_history :: int
  cm_failed_history :: int
  cm_job_labels :: "(string \<times> string) list"
  cm_spec :: job_spec

section \<open>Configuration\<close>

record builder_proxy =
  bp_http :: string
  bp_https :: string
  bp_no_proxy :: string
  bp_go_proxy :: string
  bp_go_private :: string
  bp_go_nosumcheck :: string

record k8s_cfg =
  kc_namespace :: string
  kc_builder_image :: string
  kc_cpu_request :: string
  kc_cpu_limit :: string
  kc_memory_request :: string
  kc_memory_limit :: string
  kc_deadline :: int
  kc_ttl :: int
  kc_backoff :: int
  kc_proxy :: builder_proxy
  kc_builder_dns_policy :: string
  kc_builder_dns :: "(string list \<times> string list) option"
  kr_namespace :: string
  kr_init_image :: string
  kr_init_cpu_request :: string
  kr_init_cpu_limit :: string
  kr_init_memory_request :: string
  kr_init_memory_limit :: string
  kr_default_image :: string
  kr_deadline :: int
  kr_ttl :: int
  kr_backoff :: int
  kr_ndots :: string
  kr_dns_policy :: string
  kr_dns :: "dns_config option"
  kr_dns_disabled :: bool
  k3_endpoint :: string
  k3_region :: string
  k3_bucket :: string
  k3_access_key :: string
  k3_secret_key :: string
  k3_path_style :: bool
  k3_secret_name :: string
  k3_access_key_key :: string
  k3_secret_key_key :: string
  kr_callback_url :: string
  kr_auth_token :: string
  kr_client_id :: string
  kr_client_secret :: string
  kr_token_url :: string

record runner_opts =
  ro_binary_key :: string
  ro_config_key :: string
  ro_worker_index :: "int option"
  ro_worker_count :: "int option"
  ro_barrier :: bool
  ro_barrier_timeout :: duration
  ro_env :: "(string \<times> string) list"
  ro_suffix :: string
  ro_deadline :: "int option"
  ro_secret_ref :: string

definition optional_env :: "string \<Rightarrow> string \<Rightarrow> env_var list" where
  "optional_env name v = (if v = '''' then [] else [(name, Env_value v)])"

definition or_default :: "string \<Rightarrow> string \<Rightarrow> string" where
  "or_default s d = (if trim_space s = '''' then d else trim_space s)"

definition build_s3_env :: "k8s_cfg \<Rightarrow> env_var list" where
  "build_s3_env cfg =
     optional_env ''S3_ENDPOINT'' (k3_endpoint cfg) @ optional_env ''S3_REGION'' (k3_region cfg) @
     optional_env ''S3_BUCKET'' (k3_bucket cfg) @
     (if k3_secret_name cfg \<noteq> '''' then
        [(''S3_ACCESS_KEY_ID'', Env_secret (k3_secret_name cfg)
            (if k3_access_key_key cfg = '''' then ''AWS_ACCESS_KEY_ID'' else k3_access_key_key cfg)),
         (''S3_SECRET_ACCESS_KEY'', Env_secret (k3_secret_name cfg)
            (if k3_secret_key_key cfg = '''' then ''AWS_SECRET_ACCESS_KEY'' else k3_secret_key_key cfg))]
      else
        optional_env ''S3_ACCESS_KEY_ID'' (k3_access_key cfg) @
        optional_env ''S3_SECRET_ACCESS_KEY'' (k3_secret_key cfg)) @
     (if k3_path_style cfg then [(''S3_USE_PATH_STYLE'', Env_value ''true'')] else [])"

definition runner_pod_dns :: "k8s_cfg \<Rightarrow> dns_config option" where
  "runner_pod_dns cfg =
     (let ndots = or_default (kr_ndots cfg) ''2''
      in if kr_dns_disabled cfg then None
         else case kr_dns cfg of
           Some d \<Rightarrow>
             Some \<lparr>dns_nameservers = dns_nameservers d, dns_searches = dns_searches d,
                   dns_options = dns_options d @
                     (if \<not> list_ex (\<lambda>o'. fst o' = ''ndots'') (dns_options d) \<and> ndots \<noteq> ''none''
                      then [(''ndots'', Some ndots)] else [])\<rparr>
         | None \<Rightarrow>
             (if ndots = ''none'' then None
              else Some \<lparr>dns_nameservers = [], dns_searches = [], dns_options = [(''ndots'', Some ndots)]\<rparr>))"

section \<open>The pods of the runners\<close>

text \<open>What the runner jobs and the cron jobs have in common.\<close>

definition runner_security :: pod_security where
  "runner_security = \<lparr>ps_non_root = Some True, ps_user = Some 10001, ps_group = Some 10001, ps_fs_group = Some 10001,
     ps_seccomp = ''RuntimeDefault''\<rparr>"

definition locked_container :: container_security where
  "locked_container = \<lparr>cs_escalation = Some False, cs_readonly_root = Some True, cs_drop = [''ALL'']\<rparr>"

definition runner_deadline :: "k8s_cfg \<Rightarrow> runner_profile \<Rightarrow> runner_opts \<Rightarrow> int" where
  "runner_deadline cfg prof opts =
     (let base = kr_deadline cfg;
          of_prof = (case prof_deadline prof of Some d \<Rightarrow> if 0 < d then d else base | None \<Rightarrow> base);
          of_opts = (case ro_deadline opts of Some d \<Rightarrow> if 0 < d then d else of_prof | None \<Rightarrow> of_prof)
      in if of_opts \<le> 0 then 3600 else of_opts)"

definition runner_ttl :: "k8s_cfg \<Rightarrow> int" where
  "runner_ttl cfg = (if kr_ttl cfg \<le> 0 then 86400 else kr_ttl cfg)"

definition runner_image :: "k8s_cfg \<Rightarrow> runner_profile \<Rightarrow> string" where
  "runner_image cfg prof = or_default (prof_image prof) (or_default (kr_default_image cfg) default_runner_image)"

definition runtime_class :: "runner_profile \<Rightarrow> string option" where
  "runtime_class prof =
     (case prof_runtime_class prof of
        Some c \<Rightarrow> if trim_space c = '''' then None else Some (trim_space c)
      | None \<Rightarrow> None)"

text \<open>The four quantities of the init container, in the order they are parsed.\<close>

definition parse_four ::
  "(string \<Rightarrow> quantity option) \<Rightarrow> string \<Rightarrow> string \<Rightarrow> string \<Rightarrow> string
    \<Rightarrow> (quantity \<times> quantity \<times> quantity \<times> quantity) result" where
  "parse_four pq a b c d =
     (case pq a of None \<Rightarrow> Inl ErrValidation | Some qa \<Rightarrow>
      (case pq b of None \<Rightarrow> Inl ErrValidation | Some qb \<Rightarrow>
       (case pq c of None \<Rightarrow> Inl ErrValidation | Some qc \<Rightarrow>
        (case pq d of None \<Rightarrow> Inl ErrValidation | Some qd \<Rightarrow> Inr (qa, qb, qc, qd)))))"

definition init_quantities :: "(string \<Rightarrow> quantity option) \<Rightarrow> k8s_cfg \<Rightarrow> (quantity \<times> quantity \<times> quantity \<times> quantity) result" where
  "init_quantities pq cfg =
     parse_four pq (or_default (kr_init_cpu_request cfg) ''50m'') (or_default (kr_init_memory_request cfg) ''64Mi'')
       (or_default (kr_init_cpu_limit cfg) ''200m'') (or_default (kr_init_memory_limit cfg) ''256Mi'')"

definition runner_quantities :: "(string \<Rightarrow> quantity option) \<Rightarrow> runner_profile \<Rightarrow> (quantity \<times> quantity \<times> quantity \<times> quantity) result" where
  "runner_quantities pq prof =
     (let r = prof_resources prof
      in parse_four pq (cpu_request r) (cpu_limit r) (memory_request r) (memory_limit r))"

definition workspace_mounts :: "volume_mount list" where
  "workspace_mounts =
     [\<lparr>vm_name = ''shared-workspace'', vm_path = ''/shared'', vm_read_only = False\<rparr>,
      \<lparr>vm_name = ''tmp-volume'', vm_path = ''/tmp'', vm_read_only = False\<rparr>]"

definition init_env :: "k8s_cfg \<Rightarrow> runner_opts \<Rightarrow> env_var list" where
  "init_env cfg opts = build_s3_env cfg @
     [(''S3_BINARY_KEY'', Env_value (trim_space (ro_binary_key opts))),
      (''S3_CONFIG_KEY'', Env_value (trim_space (ro_config_key opts))), (''SHARED_DIR'', Env_value ''/shared'')]"

definition init_container :: "k8s_cfg \<Rightarrow> runner_opts \<Rightarrow> quantity \<times> quantity \<times> quantity \<times> quantity \<Rightarrow> volume_mount list \<Rightarrow> container" where
  "init_container cfg opts q extra = (case q of (cpu_req, mem_req, cpu_lim, mem_lim) \<Rightarrow>
     \<lparr>ct_name = ''fetch-artifacts'',
      ct_image = or_default (kr_init_image cfg) ''ghcr.io/morphy76/vuhive-cloud/runner-init:latest'',
      ct_pull = ''IfNotPresent'', ct_security = locked_container, ct_command = [], ct_env = init_env cfg opts,
      ct_cpu_request = cpu_req, ct_memory_request = mem_req, ct_cpu_limit = cpu_lim, ct_memory_limit = mem_lim,
      ct_mounts = workspace_mounts @ extra\<rparr>)"

definition runner_container ::
  "k8s_cfg \<Rightarrow> runner_profile \<Rightarrow> quantity \<times> quantity \<times> quantity \<times> quantity \<Rightarrow> env_var list \<Rightarrow> volume_mount list \<Rightarrow> container" where
  "runner_container cfg prof q env extra = (case q of (cpu_req, cpu_lim, mem_req, mem_lim) \<Rightarrow>
     \<lparr>ct_name = ''runner'', ct_image = runner_image cfg prof, ct_pull = ''IfNotPresent'', ct_security = locked_container,
      ct_command = [''/shared/entrypoint.sh''], ct_env = env,
      ct_cpu_request = cpu_req, ct_memory_request = mem_req, ct_cpu_limit = cpu_lim, ct_memory_limit = mem_lim,
      ct_mounts = workspace_mounts @ extra\<rparr>)"

definition runner_pod :: "k8s_cfg \<Rightarrow> runner_profile \<Rightarrow> volume list \<Rightarrow> container \<Rightarrow> container \<Rightarrow> pod_spec" where
  "runner_pod cfg prof extra init runner =
     \<lparr>pod_restart = ''Never'', pod_dns_policy = kr_dns_policy cfg, pod_dns = runner_pod_dns cfg, pod_security = runner_security,
      pod_node_selector = prof_node_selector prof, pod_affinity = prof_affinity prof,
      pod_tolerations = prof_tolerations prof, pod_runtime_class = runtime_class prof,
      pod_volumes = [Vol_empty ''shared-workspace'', Vol_empty ''tmp-volume''] @ extra,
      pod_init = [init], pod_containers = [runner]\<rparr>"

text \<open>The address and the credentials for the callback.\<close>

definition callback_env :: "k8s_cfg \<Rightarrow> env_var list" where
  "callback_env cfg =
     optional_env ''API_CALLBACK_URL'' (kr_callback_url cfg) @ optional_env ''VUHIVE_AUTH_TOKEN'' (kr_auth_token cfg) @
     optional_env ''VUHIVE_CLIENT_ID'' (kr_client_id cfg) @ optional_env ''VUHIVE_CLIENT_SECRET'' (kr_client_secret cfg) @
     optional_env ''VUHIVE_TOKEN_URL'' (kr_token_url cfg)"

end
