(* ===== verification/Runner_Jobs.thy ===== *)
theory Runner_Jobs
  imports K8s_Manifests Storage_Keys "HOL-Library.Char_ord" "HOL-Library.List_Lexorder"
begin

text \<open>
  The generators of the runner jobs, the cron jobs and the build jobs over the objects of \<open>K8s_Manifests\<close>, and what
  every generated object guarantees.
\<close>

section \<open>Durations as texts\<close>

text \<open>\<open>Duration.String\<close>: the digits after the point, without trailing zeros.\<close>

definition frac_text :: "nat \<Rightarrow> int \<Rightarrow> string" where
  "frac_text prec v =
     (let ds = nat_digits (nat v); padded = replicate (prec - length ds) (CHR ''0'') @ ds;
          kept = rev (dropWhile (\<lambda>c. c = CHR ''0'') (rev padded))
      in if kept = [] then [] else CHR ''.'' # kept)"

definition duration_text :: "duration \<Rightarrow> string" where
  "duration_text d =
     (let u = abs d; sgn = (if d < 0 then ''-'' else [])
      in if u < 1000000000 then
           (if u = 0 then ''0s''
            else if u < 1000 then sgn @ itoa u @ ''ns''
            else if u < 1000000 then sgn @ itoa (u div 1000) @ frac_text 3 (u mod 1000) @ [CHR 0xC2, CHR 0xB5, CHR ''s'']
            else sgn @ itoa (u div 1000000) @ frac_text 6 (u mod 1000000) @ ''ms'')
         else
           (let s = u div 1000000000; secs = itoa (s mod 60) @ frac_text 9 (u mod 1000000000) @ ''s'';
                m = s div 60
            in if m = 0 then sgn @ secs
               else if m div 60 = 0 then sgn @ itoa (m mod 60) @ ''m'' @ secs
               else sgn @ itoa (m div 60) @ ''h'' @ itoa (m mod 60) @ ''m'' @ secs))"

section \<open>Runner jobs\<close>

definition job_labels :: "test_run \<Rightarrow> runner_opts \<Rightarrow> (string \<times> string) list" where
  "job_labels run opts =
     [(''app.kubernetes.io/name'', ''vuhive-runner''), (''vuhive.io/run-id'', run_id run),
      (''vuhive.io/suite-id'', run_suite_id run)] @
     (case run_schedule_id run of Some s \<Rightarrow> if s \<noteq> '''' then [(''vuhive.io/schedule-id'', s)] else [] | None \<Rightarrow> []) @
     (case ro_worker_index opts of Some i \<Rightarrow> [(''vuhive.io/worker-index'', itoa i)] | None \<Rightarrow> []) @
     (case ro_worker_count opts of Some n \<Rightarrow> [(''vuhive.io/worker-count'', itoa n)] | None \<Rightarrow> [])"

text \<open>The keys of the report and of the logs: of the worker, when the job is for one of them.\<close>

definition job_keys :: "test_run \<Rightarrow> runner_opts \<Rightarrow> (string \<times> string) result" where
  "job_keys run opts =
     (case ro_worker_index opts of
        Some i \<Rightarrow>
          (case key_worker_summary_report (run_id run) i of
             Inl e \<Rightarrow> Inl e
           | Inr rep \<Rightarrow> (case key_worker_execution_logs (run_id run) i of Inl e \<Rightarrow> Inl e | Inr logs \<Rightarrow> Inr (rep, logs)))
      | None \<Rightarrow>
          (case key_summary_report (run_id run) of
             Inl e \<Rightarrow> Inl e
           | Inr rep \<Rightarrow> (case key_execution_logs (run_id run) of Inl e \<Rightarrow> Inl e | Inr logs \<Rightarrow> Inr (rep, logs))))"

text \<open>\<open>GOMEMLIMIT\<close> is 85 percent of the memory limit, \<open>GOMAXPROCS\<close> the whole cores of the limit and at least one.\<close>

definition go_mem_limit :: "quantity \<Rightarrow> int" where
  "go_mem_limit q = float_to_int64 (float_mul (float_of_int (q_value q)) (round64 (85 / 100)))"

definition go_max_procs :: "quantity \<Rightarrow> int" where
  "go_max_procs q = (let n = go_div (q_milli q) 1000 in if n < 1 then 1 else n)"

definition runner_env ::
  "k8s_cfg \<Rightarrow> test_run \<Rightarrow> runner_opts \<Rightarrow> string \<times> string \<Rightarrow> quantity \<Rightarrow> quantity \<Rightarrow> env_var list" where
  "runner_env cfg run opts keys cpu_lim mem_lim =
     build_s3_env cfg @
     [(''VUHIVE_RUN_ID'', Env_value (run_id run)), (''S3_REPORT_KEY'', Env_value (fst keys)),
      (''S3_LOGS_KEY'', Env_value (snd keys)), (''GOMAXPROCS'', Env_value (itoa (go_max_procs cpu_lim))),
      (''GOMEMLIMIT'', Env_value (itoa (go_mem_limit mem_lim) @ ''B''))] @
     callback_env cfg @
     map (\<lambda>(k, v). (k, Env_value v)) (sort_key fst (ro_env opts)) @
     (case ro_worker_count opts of
        Some n \<Rightarrow> if 0 < n then [(''VUHIVE_WORKER_COUNT'', Env_value (itoa n))] else [] | None \<Rightarrow> []) @
     (if ro_barrier opts then [(''VUHIVE_BARRIER_ENABLED'', Env_value ''true'')] else []) @
     (if 0 < ro_barrier_timeout opts
      then [(''VUHIVE_BARRIER_TIMEOUT'', Env_value (duration_text (ro_barrier_timeout opts)))] else []) @
     [(''VUHIVE_WORKER_ID'', Env_field ''metadata.name'')]"

definition secret_volumes :: "runner_opts \<Rightarrow> volume list" where
  "secret_volumes opts = (if ro_secret_ref opts = '''' then [] else [Vol_secret ''vuhive-secrets'' (ro_secret_ref opts) True])"

definition secret_mounts :: "runner_opts \<Rightarrow> volume_mount list" where
  "secret_mounts opts =
     (if ro_secret_ref opts = '''' then []
      else [\<lparr>vm_name = ''vuhive-secrets'', vm_path = ''/etc/vuhive/secrets'', vm_read_only = True\<rparr>])"

definition worker_suffix :: "runner_opts \<Rightarrow> string" where
  "worker_suffix opts =
     (if trim_space (ro_suffix opts) = '''' then (case ro_worker_index opts of Some i \<Rightarrow> ''worker-'' @ itoa i | None \<Rightarrow> '''')
      else trim_space (ro_suffix opts))"

definition int32 :: "int \<Rightarrow> int" where
  "int32 n = (n + 2147483648) mod 4294967296 - 2147483648"

definition generate_job ::
  "(string \<Rightarrow> quantity option) \<Rightarrow> k8s_cfg \<Rightarrow> test_run \<Rightarrow> runner_profile \<Rightarrow> runner_opts \<Rightarrow> job_manifest result" where
  "generate_job pq cfg run prof opts =
     (if trim_space (ro_binary_key opts) = '''' then Inl ErrValidation
      else case init_quantities pq cfg of Inl e \<Rightarrow> Inl e | Inr iq \<Rightarrow>
        (case runner_quantities pq prof of Inl e \<Rightarrow> Inl e | Inr rq \<Rightarrow>
         (case job_keys run opts of Inl e \<Rightarrow> Inl e | Inr keys \<Rightarrow>
          (let labels = job_labels run opts;
               workers = (case ro_worker_count opts of Some n \<Rightarrow> if 1 < n then Some (int32 n) else None | None \<Rightarrow> None)
           in Inr \<lparr>jm_name = format_runner_job_name (run_id run) (worker_suffix opts),
                jm_namespace = job_namespace (kr_namespace cfg) (k8s_namespace run), jm_labels = labels,
                jm_spec = \<lparr>js_parallelism = workers, js_completions = workers, js_indexed = (workers \<noteq> None),
                  js_backoff = kr_backoff cfg, js_deadline = runner_deadline cfg prof opts, js_ttl = runner_ttl cfg,
                  js_pod_labels = labels,
                  js_pod = runner_pod cfg prof (secret_volumes opts) (init_container cfg opts iq (secret_mounts opts))
                    (runner_container cfg prof rq (runner_env cfg run opts keys (fst (snd rq)) (snd (snd (snd rq))))
                      (secret_mounts opts))\<rparr>\<rparr>))))"

section \<open>Cron jobs\<close>

definition cron_env :: "k8s_cfg \<Rightarrow> schedule \<Rightarrow> env_var list" where
  "cron_env cfg s = build_s3_env cfg @
     [(''VUHIVE_RUN_ID'', Env_field (''metadata.labels['' @ [CHR 0x27] @ ''batch.kubernetes.io/job-name'' @ [CHR 0x27] @ '']'')),
      (''VUHIVE_SCHEDULE_ID'', Env_value (sch_id s))] @ callback_env cfg"

definition cron_labels :: "schedule \<Rightarrow> (string \<times> string) list" where
  "cron_labels s =
     [(''app.kubernetes.io/name'', ''vuhive-runner''), (''vuhive.io/schedule-id'', sch_id s), (''vuhive.io/suite-id'', sch_suite_id s)]"

definition cron_job_labels :: "schedule \<Rightarrow> (string \<times> string) list" where
  "cron_job_labels s = cron_labels s @
     [(''vuhive.io/artifact-id'', sch_artifact_id s), (''vuhive.io/runner-profile-id'', sch_profile_id s)]"

definition cron_job_spec ::
  "k8s_cfg \<Rightarrow> schedule \<Rightarrow> runner_profile \<Rightarrow> runner_opts \<Rightarrow> quantity \<times> quantity \<times> quantity \<times> quantity
    \<Rightarrow> quantity \<times> quantity \<times> quantity \<times> quantity \<Rightarrow> job_spec" where
  "cron_job_spec cfg s prof opts iq rq =
     \<lparr>js_parallelism = None, js_completions = None, js_indexed = False,
      js_backoff = kr_backoff cfg, js_deadline = runner_deadline cfg prof opts, js_ttl = runner_ttl cfg,
      js_pod_labels = cron_job_labels s,
      js_pod = runner_pod cfg prof [] (init_container cfg opts iq []) (runner_container cfg prof rq (cron_env cfg s) [])\<rparr>"

definition generate_cron_job ::
  "(string \<Rightarrow> quantity option) \<Rightarrow> k8s_cfg \<Rightarrow> schedule \<Rightarrow> runner_profile \<Rightarrow> runner_opts \<Rightarrow> cron_manifest result" where
  "generate_cron_job pq cfg s prof opts =
     (if trim_space (ro_binary_key opts) = '''' then Inl ErrValidation
      else case init_quantities pq cfg of Inl e \<Rightarrow> Inl e | Inr iq \<Rightarrow>
        (case runner_quantities pq prof of Inl e \<Rightarrow> Inl e | Inr rq \<Rightarrow>
         Inr \<lparr>cm_name = sch_cronjob_name s, cm_namespace = or_default (kr_namespace cfg) default_runner_namespace,
              cm_labels = cron_labels s, cm_schedule = sch_cron s, cm_concurrency = ''Forbid'',
              cm_successful_history = 3, cm_failed_history = 3, cm_job_labels = cron_job_labels s,
              cm_spec = cron_job_spec cfg s prof opts iq rq\<rparr>))"

section \<open>Build jobs\<close>

record build_job_opts =
  bo_suite :: string
  bo_artifact :: string
  bo_platform :: platform
  bo_source_url :: string
  bo_upload_url :: string
  bo_go_version :: string
  bo_go_image :: string

definition build_job_name :: "string \<Rightarrow> string" where
  "build_job_name artifact = trim_right_char (take 63 (''vuhive-build-'' @ to_lower artifact)) (CHR ''-'')"

text \<open>The architecture and the label of a platform; any other is refused.\<close>

definition platform_names :: "platform \<Rightarrow> (string \<times> string) option" where
  "platform_names p =
     (case p of
        PlatformLinuxAmd64 \<Rightarrow> Some (''amd64'', ''linux-amd64'')
      | PlatformLinuxArm64 \<Rightarrow> Some (''arm64'', ''linux-arm64'')
      | _ \<Rightarrow> None)"

definition append_optional_env :: "env_var list \<Rightarrow> string \<Rightarrow> string \<Rightarrow> env_var list" where
  "append_optional_env vars name v = (if trim_space v = '''' then vars else vars @ [(name, Env_value v)])"

definition build_env :: "k8s_cfg \<Rightarrow> build_job_opts \<Rightarrow> string \<Rightarrow> env_var list" where
  "build_env cfg opts arch =
     (let base = [(''CGO_ENABLED'', Env_value ''0''), (''GOOS'', Env_value ''linux''), (''GOARCH'', Env_value arch),
            (''GOCACHE'', Env_value ''/workspace/.cache''), (''GOPATH'', Env_value ''/workspace/go''),
            (''SOURCE_URL'', Env_value (trim_space (bo_source_url opts))),
            (''BINARY_UPLOAD_URL'', Env_value (trim_space (bo_upload_url opts)))];
          p = kc_proxy cfg
      in append_optional_env (append_optional_env (append_optional_env (append_optional_env (append_optional_env
           (append_optional_env base ''HTTP_PROXY'' (bp_http p)) ''HTTPS_PROXY'' (bp_https p)) ''NO_PROXY'' (bp_no_proxy p))
           ''GOPROXY'' (bp_go_proxy p)) ''GOPRIVATE'' (bp_go_private p)) ''GONOSUMCHECK'' (bp_go_nosumcheck p))"

definition builder_pod :: "k8s_cfg \<Rightarrow> container \<Rightarrow> pod_spec" where
  "builder_pod cfg builder =
     \<lparr>pod_restart = ''Never'', pod_dns_policy = kc_builder_dns_policy cfg,
      pod_dns = map_option (\<lambda>(ns, ss). \<lparr>dns_nameservers = ns, dns_searches = ss, dns_options = []\<rparr>) (kc_builder_dns cfg),
      pod_security = runner_security, pod_node_selector = [], pod_affinity = [], pod_tolerations = [],
      pod_runtime_class = None, pod_volumes = [Vol_empty ''workspace''], pod_init = [], pod_containers = [builder]\<rparr>"

definition builder_container ::
  "(string \<Rightarrow> string) \<Rightarrow> k8s_cfg \<Rightarrow> build_job_opts \<Rightarrow> string \<Rightarrow> quantity \<times> quantity \<times> quantity \<times> quantity \<Rightarrow> container" where
  "builder_container script cfg opts arch q = (case q of (cpu_req, mem_req, cpu_lim, mem_lim) \<Rightarrow>
     \<lparr>ct_name = ''builder'',
      ct_image = resolve_compiler_image (kc_builder_image cfg) (bo_go_image opts) (bo_go_version opts),
      ct_pull = ''IfNotPresent'',
      ct_security = \<lparr>cs_escalation = Some False, cs_readonly_root = None, cs_drop = [''ALL'']\<rparr>,
      ct_command = [''/bin/sh'', ''-c'', script arch], ct_env = build_env cfg opts arch,
      ct_cpu_request = cpu_req, ct_memory_request = mem_req, ct_cpu_limit = cpu_lim, ct_memory_limit = mem_lim,
      ct_mounts = [\<lparr>vm_name = ''workspace'', vm_path = ''/workspace'', vm_read_only = False\<rparr>]\<rparr>)"

definition build_manifest :: "k8s_cfg \<Rightarrow> build_job_opts \<Rightarrow> string \<Rightarrow> container \<Rightarrow> job_manifest" where
  "build_manifest cfg opts label builder =
     (let suite = trim_space (bo_suite opts); art = trim_space (bo_artifact opts);
          labels = [(''app.kubernetes.io/name'', ''vuhive-builder''), (''vuhive.io/suite-id'', suite),
            (''vuhive.io/artifact-id'', art), (''vuhive.io/platform'', label)]
      in \<lparr>jm_name = build_job_name art, jm_namespace = kc_namespace cfg, jm_labels = labels,
          jm_spec = \<lparr>js_parallelism = None, js_completions = None, js_indexed = False,
            js_backoff = kc_backoff cfg, js_deadline = kc_deadline cfg, js_ttl = kc_ttl cfg,
            js_pod_labels = labels, js_pod = builder_pod cfg builder\<rparr>\<rparr>)"

text \<open>
  The shell text of the build, a function of the architecture, is the argument \<open>script\<close>.  The quantities of the
  configuration are read with \<open>MustParse\<close>: \<open>None\<close> is its panic.
\<close>

definition generate_build_job ::
  "(string \<Rightarrow> quantity option) \<Rightarrow> (string \<Rightarrow> string) \<Rightarrow> k8s_cfg \<Rightarrow> build_job_opts \<Rightarrow> job_manifest option result" where
  "generate_build_job pq script cfg opts =
     (if trim_space (bo_suite opts) = '''' then Inl ErrValidation
      else if trim_space (bo_artifact opts) = '''' then Inl ErrValidation
      else if \<not> platform_valid (bo_platform opts) then Inl ErrInvalidPlatform
      else if trim_space (bo_source_url opts) = '''' then Inl ErrValidation
      else if trim_space (bo_upload_url opts) = '''' then Inl ErrValidation
      else case platform_names (bo_platform opts) of
        None \<Rightarrow> Inl ErrInvalidPlatform
      | Some (arch, label) \<Rightarrow>
          (case parse_four pq (kc_cpu_request cfg) (kc_memory_request cfg) (kc_cpu_limit cfg) (kc_memory_limit cfg) of
             Inl _ \<Rightarrow> Inr None
           | Inr q \<Rightarrow> Inr (Some (build_manifest cfg opts label (builder_container script cfg opts arch q)))))"

section \<open>What every pod guarantees\<close>

text \<open>A container without privileges: no escalation, no capabilities; a pod that runs as an ordinary user.\<close>

definition container_locked :: "container \<Rightarrow> bool" where
  "container_locked c \<longleftrightarrow> cs_escalation (ct_security c) = Some False \<and> cs_drop (ct_security c) = [''ALL'']"

definition pod_hardened :: "pod_spec \<Rightarrow> bool" where
  "pod_hardened p \<longleftrightarrow>
     ps_non_root (pod_security p) = Some True \<and> (\<forall>u. ps_user (pod_security p) = Some u \<longrightarrow> u \<noteq> 0) \<and>
     ps_user (pod_security p) \<noteq> None \<and> ps_seccomp (pod_security p) = ''RuntimeDefault'' \<and> pod_restart p = ''Never'' \<and>
     list_all container_locked (pod_init p @ pod_containers p)"

text \<open>The mounts of each container name a volume of the pod, and the file systems are read only but for them.\<close>

fun volume_name :: "volume \<Rightarrow> string" where
  "volume_name (Vol_empty n) = n"
| "volume_name (Vol_secret n s opt) = n"

definition mounts_resolve :: "pod_spec \<Rightarrow> bool" where
  "mounts_resolve p \<longleftrightarrow>
     (\<forall>c \<in> set (pod_init p @ pod_containers p). \<forall>m \<in> set (ct_mounts c). vm_name m \<in> volume_name ` set (pod_volumes p))"

definition root_read_only :: "pod_spec \<Rightarrow> bool" where
  "root_read_only p \<longleftrightarrow> (\<forall>c \<in> set (pod_init p @ pod_containers p). cs_readonly_root (ct_security c) = Some True)"

lemmas pod_defs = pod_hardened_def mounts_resolve_def root_read_only_def container_locked_def runner_pod_def builder_pod_def
  runner_security_def locked_container_def init_container_def runner_container_def workspace_mounts_def
  secret_volumes_def secret_mounts_def builder_container_def build_manifest_def cron_job_spec_def

lemma runner_pod_safe:
  "pod_hardened (runner_pod cfg prof vs (init_container cfg opts iq ms) (runner_container cfg prof rq env ms)) \<and>
   root_read_only (runner_pod cfg prof vs (init_container cfg opts iq ms) (runner_container cfg prof rq env ms))"
  by (simp add: pod_defs split: prod.splits)

lemma runner_mounts_resolve:
  "mounts_resolve (runner_pod cfg prof (secret_volumes opts) (init_container cfg opts iq (secret_mounts opts))
     (runner_container cfg prof rq env (secret_mounts opts)))"
  "mounts_resolve (runner_pod cfg prof [] (init_container cfg opts iq []) (runner_container cfg prof rq env []))"
  by (auto simp: pod_defs split: prod.splits)

lemma runner_times_positive: "0 < runner_deadline cfg prof opts" "0 < runner_ttl cfg"
  by (auto simp: runner_deadline_def runner_ttl_def Let_def split: option.splits)

lemma generated_runner_pod:
  assumes "generate_job pq cfg run prof opts = Inr j"
  shows "pod_hardened (js_pod (jm_spec j)) \<and> root_read_only (js_pod (jm_spec j)) \<and> mounts_resolve (js_pod (jm_spec j)) \<and>
    0 < js_deadline (jm_spec j) \<and> 0 < js_ttl (jm_spec j)"
  using assms
  by (auto simp: generate_job_def Let_def runner_pod_safe runner_mounts_resolve runner_times_positive split: if_splits sum.splits)

lemma generated_cron_pod:
  assumes "generate_cron_job pq cfg s prof opts = Inr c"
  shows "pod_hardened (js_pod (cm_spec c)) \<and> root_read_only (js_pod (cm_spec c)) \<and> mounts_resolve (js_pod (cm_spec c)) \<and>
    0 < js_deadline (cm_spec c) \<and> 0 < js_ttl (cm_spec c)"
  using assms
  by (auto simp: generate_cron_job_def cron_job_spec_def Let_def runner_pod_safe runner_mounts_resolve runner_times_positive split: if_splits sum.splits)

lemma generated_builder_pod:
  assumes "generate_build_job pq script cfg opts = Inr (Some j)"
  shows "pod_hardened (js_pod (jm_spec j)) \<and> mounts_resolve (js_pod (jm_spec j)) \<and>
    length (jm_name j) \<le> 63 \<and> jm_labels j = js_pod_labels (jm_spec j)"
proof -
  have le: "length (trim_right_char s c) \<le> length s" for s c
    using length_dropWhile_le[of "\<lambda>x. x = c" "rev s"] by (simp add: trim_right_char_def)
  have "length (build_job_name a) \<le> 63" for a
    unfolding build_job_name_def by (rule order_trans[OF le]) simp
  then show ?thesis using assms
    by (auto simp: generate_build_job_def Let_def pod_defs split: if_splits option.splits sum.splits prod.splits)
qed

section \<open>Properties\<close>

text \<open>
  C20: Every pod that the program asks the cluster for, whatever the run, the profile, the options and the configuration
  are, runs as an ordinary user without privileges, escalation or capabilities, is not restarted, and mounts only volumes
  that it declares; the pods of runners also have a read-only root file system and positive limits on their life time.
\<close>

theorem generated_pods_hardened:
  assumes "generate_job pq cfg run prof opts = Inr j" and "generate_cron_job pq cfg s prof opts = Inr c"
    and "generate_build_job pq script cfg bopts = Inr (Some b)"
  shows "(\<forall>p \<in> {js_pod (jm_spec j), js_pod (cm_spec c), js_pod (jm_spec b)}. pod_hardened p \<and> mounts_resolve p) \<and>
    (\<forall>q \<in> {jm_spec j, cm_spec c}. root_read_only (js_pod q) \<and> 0 < js_deadline q \<and> 0 < js_ttl q)"
  using generated_runner_pod[OF assms(1)] generated_cron_pod[OF assms(2)] generated_builder_pod[OF assms(3)] by auto

definition default_k8s_cfg :: k8s_cfg where
  "default_k8s_cfg = \<lparr>kc_namespace = ''vuhive-system'', kc_builder_image = default_go_image, kc_cpu_request = ''1000m'',
     kc_cpu_limit = ''2000m'', kc_memory_request = ''1Gi'', kc_memory_limit = ''2Gi'', kc_deadline = 600, kc_ttl = 3600,
     kc_backoff = 0, kc_proxy = \<lparr>bp_http = [], bp_https = [], bp_no_proxy = [], bp_go_proxy = [], bp_go_private = [], bp_go_nosumcheck = []\<rparr>,
     kc_builder_dns_policy = [], kc_builder_dns = None, kr_namespace = ''vuhive-runners'',
     kr_init_image = ''ghcr.io/morphy76/vuhive-cloud/runner-init:latest'', kr_init_cpu_request = ''50m'',
     kr_init_cpu_limit = ''200m'', kr_init_memory_request = ''64Mi'', kr_init_memory_limit = ''256Mi'',
     kr_default_image = ''alpine:3.20'', kr_deadline = 3600, kr_ttl = 86400, kr_backoff = 0, kr_ndots = ''2'',
     kr_dns_policy = [], kr_dns = None, kr_dns_disabled = False, k3_endpoint = [], k3_region = [], k3_bucket = [],
     k3_access_key = [], k3_secret_key = [], k3_path_style = False, k3_secret_name = [], k3_access_key_key = [],
     k3_secret_key_key = [], kr_callback_url = [], kr_auth_token = [], kr_client_id = [], kr_client_secret = [], kr_token_url = []\<rparr>"

definition demo_quantity :: "string \<Rightarrow> quantity option" where
  "demo_quantity s = (if s = '''' then None else Some \<lparr>q_value = 1000, q_milli = 1000000\<rparr>)"

definition demo_opts :: runner_opts where
  "demo_opts = \<lparr>ro_binary_key = ''bin'', ro_config_key = [], ro_worker_index = None, ro_worker_count = None, ro_barrier = False,
     ro_barrier_timeout = 0, ro_env = [], ro_suffix = [], ro_deadline = None, ro_secret_ref = ''s1''\<rparr>"

definition demo_test_run :: test_run where
  "demo_test_run = \<lparr>run_id = ''r1'', run_suite_id = ''su1'', run_artifact_id = ''a1'', run_configuration_id = None,
     run_profile_id = ''p1'', run_schedule_id = None, run_state = RunStatusQueued, k8s_job_name = [],
     k8s_namespace = ''vuhive-runners'', started_at = None, finished_at = None, exit_code = None, sla_passed = None,
     run_metrics = zero_metrics, s3_report_key = [], s3_logs_key = [], summary_json = None, abort_reason = [],
     run_created_at = 0\<rparr>"

definition demo_schedule_row :: schedule where
  "demo_schedule_row = \<lparr>sch_id = ''s1'', sch_suite_id = ''su1'', sch_artifact_id = ''a1'', sch_configuration_id = None,
     sch_profile_id = ''p1'', sch_name = ''n'', sch_cron = ''* * * * *'', sch_cronjob_name = ''c1'', sch_active = True,
     sch_created_at = 0, sch_updated_at = 0\<rparr>"

definition demo_build_opts :: build_job_opts where
  "demo_build_opts = \<lparr>bo_suite = ''su1'', bo_artifact = ''a1'', bo_platform = PlatformLinuxArm64, bo_source_url = ''u'',
     bo_upload_url = ''v'', bo_go_version = [], bo_go_image = []\<rparr>"

theorem generated_pods_hardened_witness:
  "\<exists>j c b. generate_job demo_quantity default_k8s_cfg demo_test_run sample_profile demo_opts = Inr j \<and>
     generate_cron_job demo_quantity default_k8s_cfg demo_schedule_row sample_profile demo_opts = Inr c \<and>
     generate_build_job demo_quantity (\<lambda>arch. arch) default_k8s_cfg demo_build_opts = Inr (Some b) \<and>
     pod_hardened (js_pod (jm_spec j)) \<and> root_read_only (js_pod (cm_spec c)) \<and> mounts_resolve (js_pod (jm_spec b))"
proof -
  have "is_ok (generate_job demo_quantity default_k8s_cfg demo_test_run sample_profile demo_opts)"
    "is_ok (generate_cron_job demo_quantity default_k8s_cfg demo_schedule_row sample_profile demo_opts)"
    "\<exists>b. generate_build_job demo_quantity (\<lambda>arch. arch) default_k8s_cfg demo_build_opts = Inr (Some b)"
    by (simp_all add: generate_job_def generate_cron_job_def generate_build_job_def init_quantities_def runner_quantities_def
        parse_four_def demo_quantity_def default_k8s_cfg_def demo_opts_def demo_test_run_def demo_build_opts_def or_default_def
        sample_profile_def job_keys_def key_summary_report_def key_execution_logs_def platform_names_def Let_def trim_space_graphic
        graphic_def)
  then obtain j c b where
    "generate_job demo_quantity default_k8s_cfg demo_test_run sample_profile demo_opts = Inr j"
    "generate_cron_job demo_quantity default_k8s_cfg demo_schedule_row sample_profile demo_opts = Inr c"
    "generate_build_job demo_quantity (\<lambda>arch. arch) default_k8s_cfg demo_build_opts = Inr (Some b)"
    by (auto simp: is_ok_iff)
  then show ?thesis using generated_pods_hardened by blast
qed

end
