(* ===== verification/Runner_Config.thy ===== *)
theory Runner_Config
  imports Runner_Jobs
begin

text \<open>
  How the containers of a runner pod find their configuration: the environment that Kubernetes gives a container, the
  programs that read it (\<^verbatim>\<open>cmd/runner-wrapper/main.go\<close>, \<^verbatim>\<open>cmd/runner-init/main.go\<close>) and the validation that completes it
  (\<^verbatim>\<open>internal/runner/config.go\<close>).  The flags of a program are a record of their parsed values; the settings of the
  object store, which only go to its client, are left out.
\<close>

section \<open>Validation\<close>

text \<open>The errors of the runner programs; those of the operating system say during which call they occurred.\<close>

datatype runner_step = Making_dir | Opening_log | Reading_secrets | Starting | Reading_report | Writing_report | Reading_logs
  | Uploading | Downloading | Temp_file | Copying | Closing | Changing_mode | Renaming | Reading_config | Writing_config

datatype runner_err = Rerr_domain err | Rerr_no_report_key | Rerr_no_logs_key | Rerr_io runner_step string
  | Rerr_no_binary | Rerr_binary_dir | Rerr_not_executable | Rerr_bad_url | Rerr_unreachable
  | Rerr_rejected int string | Rerr_bad_answer

record init_cfg =
  ic_shared_dir :: string
  ic_secrets_dir :: string
  ic_binary_key :: string
  ic_config_key :: string
  ic_wrapper_source :: string
  ic_entrypoint_source :: string

definition init_validate :: "init_cfg \<Rightarrow> runner_err + init_cfg" where
  "init_validate c =
     (if trim_space (ic_binary_key c) = '''' then Inl (Rerr_domain ErrValidation)
      else Inr \<lparr>ic_shared_dir = or_default (ic_shared_dir c) ''/shared'',
                ic_secrets_dir = or_default (ic_secrets_dir c) ''/etc/vuhive/secrets'',
                ic_binary_key = trim_space (ic_binary_key c), ic_config_key = trim_space (ic_config_key c),
                ic_wrapper_source = trim_space (ic_wrapper_source c),
                ic_entrypoint_source = trim_space (ic_entrypoint_source c)\<rparr>)"

record wrapper_cfg =
  wc_runner_path :: string
  wc_config_path :: string
  wc_summary_path :: string
  wc_log_path :: string
  wc_secrets_dir :: string
  wc_run_id :: string
  wc_report_key :: string
  wc_logs_key :: string
  wc_callback :: string
  wc_worker_id :: string
  wc_worker_count :: int
  wc_barrier :: bool
  wc_barrier_timeout :: duration
  wc_release_delay :: duration
  wc_coordinator :: string
  wc_auth_token :: string
  wc_client_id :: string
  wc_client_secret :: string
  wc_token_url :: string

text \<open>The text before the first occurrence of another (\<open>strings.Index\<close>).\<close>

fun text_before :: "string \<Rightarrow> string \<Rightarrow> string option" where
  "text_before t s =
     (if prefix t s then Some []
      else case s of [] \<Rightarrow> None | c # cs \<Rightarrow> map_option (\<lambda>u. c # u) (text_before t cs))"

declare text_before.simps [simp del]

definition runs_path :: string where "runs_path = ''/api/v1/runs''"

definition callback_url :: "string \<Rightarrow> string" where
  "callback_url raw =
     (let base = trim_right_char (trim_space raw) (CHR ''/'')
      in if base = '''' then ''''
         else if suffix ''/complete'' base then base
         else (if contains base runs_path then base else base @ runs_path) @ ''/complete'')"

definition coordinator_url :: "string \<Rightarrow> string \<Rightarrow> string \<Rightarrow> string" where
  "coordinator_url raw callback run =
     (if trim_space raw = '''' \<and> callback \<noteq> '''' \<and> run \<noteq> '''' then
        (case text_before runs_path callback of
           Some pre \<Rightarrow> pre @ ''/api/v1/runs/'' @ run @ ''/barrier''
         | None \<Rightarrow> trim_right_char callback (CHR ''/'') @ ''/api/v1/runs/'' @ run @ ''/barrier'')
      else trim_space raw)"

text \<open>A key that is not given, when there is a run: the one of the object store's layout.\<close>

definition key_or_standard :: "(string \<Rightarrow> string result) \<Rightarrow> string \<Rightarrow> string \<Rightarrow> runner_err + string" where
  "key_or_standard key_of_run run key =
     (if run \<noteq> '''' \<and> key = '''' then (case key_of_run run of Inl e \<Rightarrow> Inl (Rerr_domain e) | Inr k \<Rightarrow> Inr k) else Inr key)"

definition wrapper_validate :: "string option \<Rightarrow> wrapper_cfg \<Rightarrow> runner_err + wrapper_cfg" where
  "wrapper_validate hostname c =
     (let run = trim_space (wc_run_id c); callback = callback_url (wc_callback c)
      in case key_or_standard key_summary_report run (trim_space (wc_report_key c)) of
           Inl e \<Rightarrow> Inl e
         | Inr report \<Rightarrow>
             (case key_or_standard key_execution_logs run (trim_space (wc_logs_key c)) of
                Inl e \<Rightarrow> Inl e
              | Inr logs \<Rightarrow>
                  if report = '''' then Inl Rerr_no_report_key
                  else if logs = '''' then Inl Rerr_no_logs_key
                  else
                    let count = (if wc_worker_count c \<le> 0 then 1 else wc_worker_count c)
                    in Inr (c\<lparr>wc_runner_path := or_default (wc_runner_path c) ''/shared/runner'',
                        wc_config_path := or_default (wc_config_path c) ''/shared/vuhive.yaml'',
                        wc_summary_path := or_default (wc_summary_path c) ''/shared/summary.json'',
                        wc_log_path := or_default (wc_log_path c) ''/shared/run.log'',
                        wc_secrets_dir := or_default (wc_secrets_dir c) ''/etc/vuhive/secrets'',
                        wc_run_id := run, wc_report_key := report, wc_logs_key := logs, wc_callback := callback,
                        wc_worker_id := (if trim_space (wc_worker_id c) \<noteq> '''' then trim_space (wc_worker_id c)
                          else case hostname of Some h \<Rightarrow> if h \<noteq> '''' then h else ''worker-1'' | None \<Rightarrow> ''worker-1''),
                        wc_worker_count := count, wc_barrier := (wc_barrier c \<or> 1 < count),
                        wc_barrier_timeout := (if wc_barrier_timeout c \<le> 0 then 60000000000 else wc_barrier_timeout c),
                        wc_release_delay := (if wc_release_delay c \<le> 0 then 300000000 else wc_release_delay c),
                        wc_coordinator := coordinator_url (wc_coordinator c) callback run\<rparr>)))"

section \<open>The environment\<close>

text \<open>
  The environment of a container: a variable that is listed twice has its last value; references to fields of the
  pod and to keys of secrets are resolved by the cluster (\<open>field\<close>, \<open>secret\<close>); a variable that is not set reads as the
  empty text.
\<close>

definition env_text :: "(string \<Rightarrow> string) \<Rightarrow> (string \<Rightarrow> string \<Rightarrow> string) \<Rightarrow> env_source \<Rightarrow> string" where
  "env_text field secret src =
     (case src of Env_value v \<Rightarrow> v | Env_field f \<Rightarrow> field f | Env_secret n k \<Rightarrow> secret n k)"

definition getenv :: "(string \<Rightarrow> string) \<Rightarrow> (string \<Rightarrow> string \<Rightarrow> string) \<Rightarrow> env_var list \<Rightarrow> string \<Rightarrow> string" where
  "getenv field secret vars name =
     (case map_of (rev vars) name of None \<Rightarrow> '''' | Some src \<Rightarrow> env_text field secret src)"

text \<open>The first text that is not empty, in the order a program looks for it.\<close>

definition first_text :: "string list \<Rightarrow> string" where
  "first_text xs = (case List.find (\<lambda>x. x \<noteq> '''') xs of None \<Rightarrow> '''' | Some x \<Rightarrow> x)"

definition positive_duration :: "duration \<Rightarrow> string \<Rightarrow> duration" where
  "positive_duration flag env =
     (if 0 < flag then flag
      else if env = '''' then flag
      else case parse_duration env of Some d \<Rightarrow> if 0 < d then d else flag | None \<Rightarrow> flag)"

text \<open>
  The configuration that \<open>main\<close> of the wrapper builds from its flags and the environment \<open>env\<close>.  The flags are a
  configuration themselves; the zero value of a flag stands for one that was not given.
\<close>

definition wrapper_main_cfg :: "(string \<Rightarrow> string) \<Rightarrow> wrapper_cfg \<Rightarrow> wrapper_cfg" where
  "wrapper_main_cfg env f =
     (let from_env = fst (atoi (env ''VUHIVE_WORKER_COUNT''));
          counted = (if 0 < wc_worker_count f then wc_worker_count f
            else if env ''VUHIVE_WORKER_COUNT'' \<noteq> '''' \<and> snd (atoi (env ''VUHIVE_WORKER_COUNT'')) \<and> 0 < from_env then from_env
            else wc_worker_count f);
          count = (if counted \<le> 0 then 1 else counted)
      in \<lparr>wc_runner_path = trim_space (first_text [wc_runner_path f, env ''RUNNER_PATH'', ''/shared/runner'']),
          wc_config_path = trim_space (first_text [wc_config_path f, env ''CONFIG_PATH'', ''/shared/vuhive.yaml'']),
          wc_summary_path = trim_space (first_text [wc_summary_path f, env ''SUMMARY_PATH'', ''/shared/summary.json'']),
          wc_log_path = trim_space (first_text [wc_log_path f, env ''LOG_PATH'', ''/shared/run.log'']),
          wc_secrets_dir = trim_space (first_text [wc_secrets_dir f, env ''SECRETS_DIR'', ''/etc/vuhive/secrets'']),
          wc_run_id = trim_space (first_text [wc_run_id f, env ''VUHIVE_RUN_ID'', env ''RUN_ID'']),
          wc_report_key = trim_space (first_text [wc_report_key f, env ''S3_REPORT_KEY'']),
          wc_logs_key = trim_space (first_text [wc_logs_key f, env ''S3_LOGS_KEY'']),
          wc_callback = trim_space (first_text [wc_callback f, env ''API_CALLBACK_URL'', env ''VUHIVE_API_URL'']),
          wc_worker_id = trim_space (first_text [wc_worker_id f, env ''VUHIVE_WORKER_ID'', env ''HOSTNAME'']),
          wc_worker_count = count,
          wc_barrier = (1 < count \<or> wc_barrier f \<or> env ''VUHIVE_BARRIER_ENABLED'' = ''true''),
          wc_barrier_timeout = positive_duration (wc_barrier_timeout f) (env ''VUHIVE_BARRIER_TIMEOUT''),
          wc_release_delay = positive_duration (wc_release_delay f) (env ''VUHIVE_RELEASE_DELAY''),
          wc_coordinator = trim_space (first_text [wc_coordinator f, env ''VUHIVE_COORDINATOR_URL'']),
          wc_auth_token = trim_space (first_text [wc_auth_token f, env ''VUHIVE_AUTH_TOKEN'']),
          wc_client_id = trim_space (first_text [wc_client_id f, env ''VUHIVE_CLIENT_ID'']),
          wc_client_secret = trim_space (first_text [wc_client_secret f, env ''VUHIVE_CLIENT_SECRET'']),
          wc_token_url = trim_space (first_text [wc_token_url f, env ''VUHIVE_TOKEN_URL''])\<rparr>)"

text \<open>The same for the init container; \<open>present\<close> says which of the two candidate files exist in its image.\<close>

definition init_main_cfg :: "(string \<Rightarrow> string) \<Rightarrow> (string \<Rightarrow> bool) \<Rightarrow> init_cfg \<Rightarrow> init_cfg" where
  "init_main_cfg env present f =
     (let candidate = (\<lambda>path. if present path then path else '''')
      in \<lparr>ic_shared_dir = first_text [ic_shared_dir f, env ''SHARED_DIR'', ''/shared''],
          ic_secrets_dir = first_text [ic_secrets_dir f, env ''SECRETS_DIR'', ''/etc/vuhive/secrets''],
          ic_binary_key = trim_space (first_text [ic_binary_key f, env ''S3_BINARY_KEY'']),
          ic_config_key = trim_space (first_text [ic_config_key f, env ''S3_CONFIG_KEY'']),
          ic_wrapper_source = first_text [ic_wrapper_source f, env ''WRAPPER_SOURCE_PATH'', candidate ''/usr/local/bin/runner-wrapper''],
          ic_entrypoint_source =
            first_text [ic_entrypoint_source f, env ''ENTRYPOINT_SOURCE_PATH'', candidate ''/usr/local/bin/entrypoint.sh'']\<rparr>)"

definition no_flags :: wrapper_cfg where
  "no_flags = \<lparr>wc_runner_path = [], wc_config_path = [], wc_summary_path = [], wc_log_path = [], wc_secrets_dir = [],
     wc_run_id = [], wc_report_key = [], wc_logs_key = [], wc_callback = [], wc_worker_id = [], wc_worker_count = 0,
     wc_barrier = False, wc_barrier_timeout = 0, wc_release_delay = 0, wc_coordinator = [], wc_auth_token = [],
     wc_client_id = [], wc_client_secret = [], wc_token_url = []\<rparr>"

section \<open>What a dispatched runner finds\<close>

lemma first_text_simps [simp]:
  "first_text [] = []" "first_text (x # xs) = (if x \<noteq> [] then x else first_text xs)"
  by (simp_all add: first_text_def)

definition env_lookup :: "env_var list \<Rightarrow> string \<Rightarrow> env_source option" where
  "env_lookup vars name = map_of (rev vars) name"

lemma getenv_lookup:
  "getenv field secret vars name = (case env_lookup vars name of None \<Rightarrow> [] | Some src \<Rightarrow> env_text field secret src)"
  by (simp add: getenv_def env_lookup_def)

lemma env_lookup_simps:
  "env_lookup [] name = None"
  "env_lookup ((n, src) # vars) name =
     (case env_lookup vars name of None \<Rightarrow> if n = name then Some src else None | Some v \<Rightarrow> Some v)"
  "env_lookup (xs @ ys) name = (case env_lookup ys name of None \<Rightarrow> env_lookup xs name | Some v \<Rightarrow> Some v)"
  "env_lookup (optional_env n v) name = (if n = name \<and> v \<noteq> [] then Some (Env_value v) else None)"
  by (simp_all add: env_lookup_def optional_env_def map_add_def split: option.split)

lemma s3_env_other:
  "name \<notin> {''S3_ENDPOINT'', ''S3_REGION'', ''S3_BUCKET'', ''S3_ACCESS_KEY_ID'', ''S3_SECRET_ACCESS_KEY'', ''S3_USE_PATH_STYLE''}
    \<Longrightarrow> env_lookup (build_s3_env cfg) name = None"
  by (cases "k3_secret_name cfg = []"; cases "k3_path_style cfg") (auto simp: build_s3_env_def env_lookup_simps)

definition job_env :: "job_manifest \<Rightarrow> env_var list" where
  "job_env j = ct_env (hd (pod_containers (js_pod (jm_spec j))))"

lemma job_env_of:
  assumes "generate_job pq cfg run prof opts = Inr j" and "ro_env opts = []" and "ro_worker_index opts = None"
  obtains cpu mem where "job_env j = runner_env cfg run opts
      (''runs/'' @ trim_space (run_id run) @ ''/summary.json'', ''runs/'' @ trim_space (run_id run) @ ''/run.log'') cpu mem"
    and "trim_space (run_id run) \<noteq> ''''"
  using assms
  by (auto simp: generate_job_def job_keys_def key_summary_report_def key_execution_logs_def job_env_def runner_pod_def
      runner_container_def Let_def split: if_splits sum.splits prod.splits)

lemma runner_env_reads:
  assumes "ro_env opts = []"
  shows
    "getenv field secret (runner_env cfg run opts keys cpu mem) ''VUHIVE_RUN_ID'' = run_id run"
    "getenv field secret (runner_env cfg run opts keys cpu mem) ''S3_REPORT_KEY'' = fst keys"
    "getenv field secret (runner_env cfg run opts keys cpu mem) ''S3_LOGS_KEY'' = snd keys"
    "getenv field secret (runner_env cfg run opts keys cpu mem) ''API_CALLBACK_URL'' = kr_callback_url cfg"
    "getenv field secret (runner_env cfg run opts keys cpu mem) ''VUHIVE_WORKER_ID'' = field ''metadata.name''"
    "getenv field secret (runner_env cfg run opts keys cpu mem) ''VUHIVE_COORDINATOR_URL'' = ''''"
    "getenv field secret (runner_env cfg run opts keys cpu mem) ''VUHIVE_WORKER_COUNT'' =
       (case ro_worker_count opts of Some n \<Rightarrow> if 0 < n then itoa n else '''' | None \<Rightarrow> '''')"
    "getenv field secret (runner_env cfg run opts keys cpu mem) ''VUHIVE_BARRIER_ENABLED'' =
       (if ro_barrier opts then ''true'' else '''')"
  using assms
  by (simp_all add: runner_env_def callback_env_def getenv_lookup env_lookup_simps s3_env_other env_text_def split: option.split)

lemma text_before_here: "text_before t (t @ s) = Some []"
  by (subst text_before.simps) simp

lemma text_before_first:
  assumes "\<not> sublist t (butlast (u @ t))" and "t \<noteq> []"
  shows "text_before t (u @ t @ s) = Some u"
  using assms
proof (induction u)
  case (Cons c u)
  have b: "butlast ((c # u) @ t) = c # butlast (u @ t)" using Cons.prems(2) by simp
  have "\<not> prefix t (c # u @ t @ s)"
  proof
    assume "prefix t (c # u @ t @ s)"
    moreover have "c # u @ t @ s = butlast (c # u @ t) @ last t # s"
      using Cons.prems(2) by (simp add: butlast_append)
    ultimately have "prefix t (butlast (c # u @ t)) \<or> (\<exists>x. t = butlast (c # u @ t) @ x)"
      by (metis prefix_append)
    moreover have "x = []" if "t = butlast (c # u @ t) @ x" for x
    proof -
      have "length t = length (butlast (c # u @ t)) + length x" using that by (metis length_append)
      then show ?thesis using Cons.prems(2) by (simp only: length_butlast) simp
    qed
    ultimately have "prefix t (butlast (c # u @ t))" by (metis append_Nil2 prefix_order.refl)
    then show False using Cons.prems b by (auto dest: prefix_imp_sublist)
  qed
  moreover have "text_before t (u @ t @ s) = Some u"
    using Cons b by (simp add: sublist_Cons_right)
  ultimately show ?case by (subst text_before.simps) simp
qed (simp add: text_before_here)

text \<open>
  The base address of the callback: trimmed, without a slash at its end, and without the path of the runs.  Its last
  condition says that the path does not begin within the base.
\<close>

definition base_url :: "string \<Rightarrow> bool" where
  "base_url base \<longleftrightarrow> base \<noteq> [] \<and> trim_space base = base \<and> last base \<noteq> CHR ''/'' \<and>
     \<not> suffix ''/complete'' base \<and> \<not> contains base runs_path \<and> \<not> sublist runs_path (butlast (base @ runs_path))"

lemma urls_of_base:
  assumes "base_url base" and "run \<noteq> []"
  shows "callback_url base = base @ ''/api/v1/runs/complete''"
    and "coordinator_url [] (callback_url base) run = base @ ''/api/v1/runs/'' @ run @ ''/barrier''"
proof -
  have t: "trim_right_char base (CHR ''/'') = base"
    using assms(1) by (cases base rule: rev_cases) (auto simp: trim_right_char_def base_url_def)
  show c: "callback_url base = base @ ''/api/v1/runs/complete''"
    using assms(1) t by (simp add: callback_url_def base_url_def runs_path_def)
  have "text_before runs_path (base @ runs_path @ ''/complete'') = Some base"
    by (rule text_before_first) (use assms(1) in \<open>auto simp: base_url_def runs_path_def\<close>)
  then show "coordinator_url [] (callback_url base) run = base @ ''/api/v1/runs/'' @ run @ ''/barrier''"
    using assms(2) c by (simp add: coordinator_url_def runs_path_def)
qed

text \<open>
  The address that is configured for the callback: a base address, the address of the runs, or the address of the
  completion itself, the form that the chart ships; white space around it and slashes at its end do not matter.
\<close>

definition callback_address :: "string \<Rightarrow> string \<Rightarrow> bool" where
  "callback_address base url \<longleftrightarrow> base_url base \<and>
     trim_right_char (trim_space url) (CHR ''/'') \<in> {base, base @ runs_path, base @ runs_path @ ''/complete''}"

lemma urls_of_address:
  assumes "callback_address base url" and "run \<noteq> []"
  shows "callback_url (trim_space url) = base @ ''/api/v1/runs/complete''"
    and "coordinator_url [] (callback_url (trim_space url)) run = base @ ''/api/v1/runs/'' @ run @ ''/barrier''"
proof -
  have b: "base_url base" and u: "trim_right_char (trim_space url) (CHR ''/'') \<in> {base, base @ runs_path, base @ runs_path @ ''/complete''}"
    using assms(1) by (simp_all add: callback_address_def)
  have "contains (base @ runs_path) runs_path" by (simp add: contains_def)
  moreover have "\<not> suffix ''/complete'' (base @ runs_path)" by (simp add: suffix_def runs_path_def)
  moreover have "suffix ''/complete'' (base @ runs_path @ ''/complete'')" by (metis append.assoc suffixI)
  ultimately show c: "callback_url (trim_space url) = base @ ''/api/v1/runs/complete''"
    using u b by (auto simp: callback_url_def base_url_def runs_path_def Let_def)
  then show "coordinator_url [] (callback_url (trim_space url)) run = base @ ''/api/v1/runs/'' @ run @ ''/barrier''"
    using urls_of_base[OF b assms(2)] by simp
qed

text \<open>The number of pods of a job.\<close>

definition job_pods :: "job_manifest \<Rightarrow> int" where
  "job_pods j = (case js_completions (jm_spec j) of None \<Rightarrow> 1 | Some n \<Rightarrow> n)"

definition worker_total :: "runner_opts \<Rightarrow> int" where
  "worker_total opts = (case ro_worker_count opts of None \<Rightarrow> 1 | Some n \<Rightarrow> max 1 n)"

lemma job_pods_of:
  assumes "generate_job pq cfg run prof opts = Inr j" and "worker_total opts \<le> 2147483647"
  shows "job_pods j = worker_total opts"
proof -
  have "js_completions (jm_spec j) =
      (case ro_worker_count opts of Some n \<Rightarrow> if 1 < n then Some (int32 n) else None | None \<Rightarrow> None)"
    using assms(1) by (auto simp: generate_job_def Let_def split: if_splits sum.splits)
  then show ?thesis
    using assms(2) by (auto simp: job_pods_def worker_total_def int32_def split: option.split)
qed

lemma counted_workers:
  assumes "env ''VUHIVE_WORKER_COUNT'' = (case ro_worker_count opts of Some n \<Rightarrow> if 0 < n then itoa n else '''' | None \<Rightarrow> '''')"
    and "worker_total opts \<le> max_int64"
  shows "wc_worker_count (wrapper_main_cfg env no_flags) = worker_total opts"
proof (cases "ro_worker_count opts")
  case None
  then show ?thesis using assms(1) by (simp add: wrapper_main_cfg_def no_flags_def worker_total_def Let_def)
next
  case (Some n)
  have "itoa n \<noteq> []" if "0 < n" using nat_digits_Cons[of "nat n"] that by (auto simp: itoa_def)
  moreover have "in_int64 n" if "0 < n" using that assms(2) Some by (simp add: worker_total_def in_int64_def)
  ultimately show ?thesis using assms(1) Some
    by (cases "0 < n") (simp_all add: wrapper_main_cfg_def no_flags_def worker_total_def Let_def atoi_itoa)
qed

text \<open>
  C19: The runner that the control plane dispatches finds its way back.  From the manifest of any job for a run, through
  the environment of the container, \<open>main\<close> and the validation of the wrapper, every pod of the job (whatever its name)
  works on that run, uploads its report and its logs under the keys at which the control plane looks for those of the run,
  calls the completion and the barrier endpoints of the configured server, and waits for as many workers as the job has
  pods, one when no number is given, as in the jobs of the run service.  The address may be configured as a base address, as
  the address of the runs or, as the chart does, as that of the completion.  The options name no further environment and no
  fixed worker.  All pods of a job with several workers use the same two keys, so their reports overwrite each other.
\<close>

theorem dispatched_wrapper_config:
  assumes "generate_job pq cfg run prof opts = Inr j" and "ro_env opts = []" and "ro_worker_index opts = None"
    and "trim_space (run_id run) = run_id run" and "callback_address base (kr_callback_url cfg)"
    and "field ''metadata.name'' = pod" and "trim_space pod = pod" and "pod \<noteq> []"
    and "\<forall>n. ro_worker_count opts = Some n \<longrightarrow> n \<le> 2147483647"
  shows "\<exists>w. wrapper_validate hostname (wrapper_main_cfg (getenv field secret (job_env j)) no_flags) = Inr w \<and>
    wc_run_id w = run_id run \<and> wc_worker_id w = pod \<and> wc_worker_count w = job_pods j \<and>
    job_pods j = (case ro_worker_count opts of None \<Rightarrow> 1 | Some n \<Rightarrow> max 1 n) \<and>
    wc_barrier w = (ro_barrier opts \<or> 1 < job_pods j) \<and>
    key_summary_report (run_id run) = Inr (wc_report_key w) \<and> key_execution_logs (run_id run) = Inr (wc_logs_key w) \<and>
    wc_callback w = base @ ''/api/v1/runs/complete'' \<and>
    wc_coordinator w = base @ ''/api/v1/runs/'' @ run_id run @ ''/barrier''"
proof -
  let ?keys = "(''runs/'' @ run_id run @ ''/summary.json'', ''runs/'' @ run_id run @ ''/run.log'')"
  obtain cpu mem where env: "job_env j = runner_env cfg run opts ?keys cpu mem" and id: "run_id run \<noteq> []"
    using job_env_of[OF assms(1-3)] assms(4) by metis
  note reads = runner_env_reads[OF assms(2), of field secret cfg run ?keys cpu mem, folded env]
  define w0 where "w0 = wrapper_main_cfg (getenv field secret (job_env j)) no_flags"
  have few: "worker_total opts \<le> 2147483647" using assms(9) by (simp add: worker_total_def split: option.split)
  then have total: "wc_worker_count w0 = worker_total opts"
    unfolding w0_def by (intro counted_workers) (simp_all add: reads)
  have pods: "job_pods j = worker_total opts" "1 \<le> worker_total opts"
    using job_pods_of[OF assms(1) few] by (simp_all add: worker_total_def split: option.split)
  have url: "kr_callback_url cfg \<noteq> []" using assms(5) by (auto simp: callback_address_def base_url_def trim_right_char_def)
  have g: "trim_space (''runs/'' @ run_id run @ ''/summary.json'') = ''runs/'' @ run_id run @ ''/summary.json''"
    "trim_space (''runs/'' @ run_id run @ ''/run.log'') = ''runs/'' @ run_id run @ ''/run.log''"
    by (simp_all add: trim_space_graphic graphic_def)
  have w0: "wc_run_id w0 = run_id run" "wc_report_key w0 = ''runs/'' @ run_id run @ ''/summary.json''"
    "wc_logs_key w0 = ''runs/'' @ run_id run @ ''/run.log''" "wc_callback w0 = trim_space (kr_callback_url cfg)"
    "wc_worker_id w0 = pod" "wc_coordinator w0 = []" "wc_barrier w0 = (1 < wc_worker_count w0 \<or> ro_barrier opts)"
    using assms(4,6-8) id url g reads by (simp_all add: w0_def wrapper_main_cfg_def no_flags_def Let_def)
  have urls: "callback_url (wc_callback w0) = base @ ''/api/v1/runs/complete''"
    "coordinator_url (wc_coordinator w0) (callback_url (wc_callback w0)) (run_id run) =
       base @ ''/api/v1/runs/'' @ run_id run @ ''/barrier''"
    using urls_of_address[OF assms(5) id] w0 by simp_all
  have "job_pods j = (case ro_worker_count opts of None \<Rightarrow> 1 | Some n \<Rightarrow> max 1 n)"
    using pods(1) by (simp add: worker_total_def)
  then show ?thesis
    using assms(4,7,8) id w0 urls g total pods
    by (auto simp: w0_def[symmetric] wrapper_validate_def key_or_standard_def key_summary_report_def key_execution_logs_def Let_def)
qed

definition pod_field :: "string \<Rightarrow> string" where
  "pod_field path = (if path = ''metadata.name'' then ''pod-0'' else '''')"

text \<open>The address that the chart ships, and the options of \<open>TriggerRun\<close>: no number of workers.\<close>

definition demo_cfg :: k8s_cfg where
  "demo_cfg = default_k8s_cfg\<lparr>kr_callback_url := ''http://cp:80/api/v1/runs/complete''\<rparr>"

theorem dispatched_wrapper_config_witness:
  "\<exists>j w. generate_job demo_quantity demo_cfg demo_test_run sample_profile demo_opts = Inr j \<and>
     wrapper_validate (Some ''host'') (wrapper_main_cfg (getenv pod_field (\<lambda>_ _. '''') (job_env j)) no_flags) = Inr w \<and>
     wc_callback w = ''http://cp:80/api/v1/runs/complete'' \<and> wc_coordinator w = ''http://cp:80/api/v1/runs/r1/barrier'' \<and>
     wc_report_key w = ''runs/r1/summary.json'' \<and> wc_worker_count w = 1 \<and> \<not> wc_barrier w"
proof -
  have "is_ok (generate_job demo_quantity demo_cfg demo_test_run sample_profile demo_opts)"
    by (simp add: generate_job_def init_quantities_def runner_quantities_def demo_cfg_def
        parse_four_def demo_quantity_def default_k8s_cfg_def demo_opts_def demo_test_run_def or_default_def
        sample_profile_def job_keys_def key_summary_report_def key_execution_logs_def Let_def trim_space_graphic graphic_def)
  then obtain j where j: "generate_job demo_quantity demo_cfg demo_test_run sample_profile demo_opts = Inr j"
    by (cases "generate_job demo_quantity demo_cfg demo_test_run sample_profile demo_opts") auto
  have opts: "ro_env demo_opts = []" "ro_worker_index demo_opts = None" "ro_worker_count demo_opts = None"
    "\<not> ro_barrier demo_opts"
    by (simp_all add: demo_opts_def)
  have run: "trim_space (run_id demo_test_run) = run_id demo_test_run" "run_id demo_test_run = ''r1''"
    by (simp_all add: demo_test_run_def trim_space_graphic graphic_def)
  have pod: "trim_space ''pod-0'' = ''pod-0''" "pod_field ''metadata.name'' = ''pod-0''"
    by (simp_all add: pod_field_def trim_space_graphic graphic_def)
  have addr: "callback_address ''http://cp:80'' (kr_callback_url demo_cfg)"
    by (simp add: callback_address_def base_url_def demo_cfg_def default_k8s_cfg_def trim_space_graphic graphic_def runs_path_def
        contains_def suffix_def sublist_code trim_right_char_def)
  from dispatched_wrapper_config[where hostname = "Some ''host''" and secret = "\<lambda>_ _. ''''" and field = pod_field and
      pod = "''pod-0''", OF j opts(1,2) run(1) addr pod(2,1)] opts run j
  show ?thesis by (auto simp: key_summary_report_def Let_def trim_space_graphic graphic_def)
qed

end
