(* ===== verification/Json_Encode.thy ===== *)
theory Json_Encode
  imports Go_Json
begin

text \<open>
  What the source uses of \<open>json.Marshal\<close> and \<open>json.MarshalIndent\<close>: the text of a value, with the escapes that
  \<open>encoding/json\<close> writes (HTML characters and the line separators included), and the proof that the parser of
  \<open>Go_Json\<close> reads it back.  Bytes that are not valid UTF-8 come back as the replacement character.
\<close>

section \<open>Strings\<close>

definition hex_digit :: "int \<Rightarrow> char" where
  "hex_digit d = byte (if d < 10 then 48 + d else 87 + d)"

definition ascii_escape :: "char \<Rightarrow> string" where
  "ascii_escape c =
     (if c = CHR 0x22 \<or> c = CHR 0x5C then [CHR 0x5C, c]
      else if c = CHR 0x08 then [CHR 0x5C, CHR ''b'']
      else if c = CHR 0x0C then [CHR 0x5C, CHR ''f'']
      else if c = CHR 0x0A then [CHR 0x5C, CHR ''n'']
      else if c = CHR 0x0D then [CHR 0x5C, CHR ''r'']
      else if c = CHR 0x09 then [CHR 0x5C, CHR ''t'']
      else if code c < 0x20 \<or> c = CHR ''<'' \<or> c = CHR ''>'' \<or> c = CHR ''&''
      then CHR 0x5C # ''u00'' @ [hex_digit (code c div 16), hex_digit (code c mod 16)]
      else [c])"

definition rune_escape :: "string \<Rightarrow> string" where
  "rune_escape t =
     (if t = [CHR 0xE2, CHR 0x80, CHR 0xA8] then CHR 0x5C # ''u2028''
      else if t = [CHR 0xE2, CHR 0x80, CHR 0xA9] then CHR 0x5C # ''u2029''
      else t)"

text \<open>The text between the quotes, and the value that it stands for.\<close>

function encode_body :: "string \<Rightarrow> string" where
  "encode_body s =
     (case s of
        [] \<Rightarrow> []
      | c # cs \<Rightarrow>
          if code c < 0x80 then ascii_escape c @ encode_body cs
          else case rune_bytes s of
                 None \<Rightarrow> (CHR 0x5C # ''ufffd'') @ encode_body cs
               | Some t \<Rightarrow> if length (drop (length t) s) < length s
                          then rune_escape t @ encode_body (drop (length t) s) else [])"
  by auto
termination by (relation "measure length") auto

function to_valid_utf8 :: "string \<Rightarrow> string" where
  "to_valid_utf8 s =
     (case s of
        [] \<Rightarrow> []
      | c # cs \<Rightarrow>
          if code c < 0x80 then c # to_valid_utf8 cs
          else case rune_bytes s of
                 None \<Rightarrow> replacement @ to_valid_utf8 cs
               | Some t \<Rightarrow> if length (drop (length t) s) < length s
                          then t @ to_valid_utf8 (drop (length t) s) else [])"
  by auto
termination by (relation "measure length") auto

declare encode_body.simps [simp del] to_valid_utf8.simps [simp del]

definition encode_text :: "string \<Rightarrow> string" where
  "encode_text s = CHR 0x22 # encode_body s @ [CHR 0x22]"

lemma hex_digit_value: "0 \<le> d \<Longrightarrow> d < 16 \<Longrightarrow> hex_value (hex_digit d) = Some d"
proof -
  assume "0 \<le> d" "d < 16"
  then have "d \<in> set [0..15]" by simp
  moreover have "\<forall>d \<in> set [0..15]. hex_value (hex_digit d) = Some d" by code_simp
  ultimately show ?thesis by blast
qed

lemma code_range: "0 \<le> code c" "code c < 256"
  by (cases c, simp add: code_def)+

lemma byte_code [simp]: "byte (code c) = c"
  by (simp add: byte_def code_def)

lemma u_escape:
  assumes "code c < 0x80"
  shows "escape (''u00'' @ [hex_digit (code c div 16), hex_digit (code c mod 16)] @ x) = Some ([c], x)"
proof -
  have h: "hex_value CHR ''0'' = Some 0" by code_simp
  have d: "hex_value (hex_digit (code c div 16)) = Some (code c div 16)"
    "hex_value (hex_digit (code c mod 16)) = Some (code c mod 16)"
    using code_range[of c] assms by (intro hex_digit_value; simp)+
  have "hex4 (''00'' @ [hex_digit (code c div 16), hex_digit (code c mod 16)] @ x) = Some (code c, x)"
    by (simp add: h d)
  then show ?thesis
    using assms code_range[of c] by (simp add: escape_def unicode_escape_def surrogate_def encode_rune_def)
qed

lemma ascii_escape_read:
  assumes "code c < 0x80"
  shows "json_string (ascii_escape c @ x) = map_option (\<lambda>(u, r). (c # u, r)) (json_string x)"
proof (cases "ascii_escape c = [c]")
  case True
  then have "c \<noteq> CHR 0x22" "c \<noteq> CHR 0x5C" "\<not> code c < 0x20" by (auto simp: ascii_escape_def split: if_splits)
  then show ?thesis using True assms by (subst json_string.simps) simp
next
  case False
  then obtain e where e: "ascii_escape c = CHR 0x5C # e" "escape (e @ x) = Some ([c], x)"
    using u_escape[OF assms, of x] by (auto simp: ascii_escape_def escape_def split: if_splits)
  then have "e \<noteq> []" using e by (auto simp: escape_def ascii_escape_def split: if_splits)
  with e show ?thesis by (subst json_string.simps) (simp add: map_option.compositionality)
qed

lemma rune_bytes_shape:
  assumes "rune_bytes s = Some t"
  shows "\<exists>x. s = t @ x" "2 \<le> length t" "0x80 \<le> code (hd t)" "rune_bytes (t @ y) = Some t"
proof -
  obtain a b s1 where s: "s = a # b # s1" using assms by (cases s rule: rune_bytes.cases) auto
  have "(\<exists>x. s = t @ x) \<and> 2 \<le> length t \<and> 0x80 \<le> code (hd t) \<and> rune_bytes (t @ y) = Some t"
  proof (cases "0xC2 \<le> code a \<and> code a \<le> 0xDF \<and> continuation b")
    case True
    with assms s have t: "t = [a, b]" by simp
    then show ?thesis using True s by simp
  next
    case two: False
    then obtain c s2 where c: "s1 = c # s2" using assms s by (cases s1) auto
    show ?thesis
    proof (cases "0xE0 \<le> code a \<and> code a \<le> 0xEF \<and> continuation b \<and> continuation c \<and>
        (code a = 0xE0 \<longrightarrow> 0xA0 \<le> code b) \<and> (code a = 0xED \<longrightarrow> code b \<le> 0x9F)")
      case True
      then have t: "t = [a, b, c]"
        using assms unfolding s c rune_bytes.simps list.simps if_not_P[OF two] if_P[OF True] by simp
      show ?thesis unfolding t append.simps rune_bytes.simps list.simps if_not_P[OF two] if_P[OF True]
        using True s c by simp
    next
      case three: False
      from assms obtain d s3 where d: "s2 = d # s3"
        unfolding s c rune_bytes.simps list.simps if_not_P[OF two] if_not_P[OF three] by (cases s2) simp_all
      have four: "0xF0 \<le> code a \<and> code a \<le> 0xF4 \<and> continuation b \<and> continuation c \<and> continuation d \<and>
              (code a = 0xF0 \<longrightarrow> 0x90 \<le> code b) \<and> (code a = 0xF4 \<longrightarrow> code b \<le> 0x8F)"
        using assms unfolding s c d rune_bytes.simps list.simps if_not_P[OF two] if_not_P[OF three]
        by (rule contrapos_pp) (simp only: if_False option.distinct not_False_eq_True)
      then have t: "t = [a, b, c, d]"
        using assms unfolding s c d rune_bytes.simps list.simps if_not_P[OF two] if_not_P[OF three] if_P[OF four] by simp
      show ?thesis unfolding t append.simps rune_bytes.simps list.simps if_not_P[OF two] if_not_P[OF three] if_P[OF four]
        using four s c d by simp
    qed
  qed
  then show "\<exists>x. s = t @ x" "2 \<le> length t" "0x80 \<le> code (hd t)" "rune_bytes (t @ y) = Some t" by blast+
qed

lemma replacement_read:
  "json_string ((CHR 0x5C # ''ufffd'') @ x) = map_option (\<lambda>(u, r). (replacement @ u, r)) (json_string x)"
proof -
  have "hex4 (''fffd'' @ x) = Some (0xFFFD, x)"
  proof -
    have "hex_value CHR ''f'' = Some 15" "hex_value CHR ''d'' = Some 13" by code_simp+
    then show ?thesis by simp
  qed
  moreover have "encode_rune 0xFFFD = replacement" by code_simp
  ultimately have "escape (''ufffd'' @ x) = Some (replacement, x)"
    by (simp add: escape_def unicode_escape_def surrogate_def)
  then show ?thesis by (subst json_string.simps) simp
qed

lemma separator_read:
  assumes "d = CHR ''8'' \<and> t = [CHR 0xE2, CHR 0x80, CHR 0xA8] \<or> d = CHR ''9'' \<and> t = [CHR 0xE2, CHR 0x80, CHR 0xA9]"
  shows "json_string ((CHR 0x5C # ''u202'' @ [d]) @ x) = map_option (\<lambda>(u, r). (t @ u, r)) (json_string x)"
proof -
  have v: "hex_value CHR ''2'' = Some 2" "hex_value CHR ''0'' = Some 0" "hex_value CHR ''8'' = Some 8" "hex_value CHR ''9'' = Some 9"
    by code_simp+
  have r: "encode_rune 0x2028 = [CHR 0xE2, CHR 0x80, CHR 0xA8]" "encode_rune 0x2029 = [CHR 0xE2, CHR 0x80, CHR 0xA9]" by code_simp+
  have "escape (''u202'' @ d # x) = Some (t, x)"
    using assms by (auto simp: escape_def unicode_escape_def surrogate_def v r)
  then show ?thesis by (subst json_string.simps) simp
qed

lemma rune_read:
  assumes "rune_bytes s = Some t"
  shows "json_string (rune_escape t @ x) = map_option (\<lambda>(u, r). (t @ u, r)) (json_string x)"
proof (cases "rune_escape t = t")
  case True
  obtain c t1 where t: "t = c # t1" using rune_bytes_shape(2)[OF assms] by (cases t) auto
  have c: "0x80 \<le> code c" using rune_bytes_shape(3)[OF assms] t by simp
  then have "c \<noteq> CHR 0x22" "c \<noteq> CHR 0x5C" "\<not> code c < 0x20" by (auto simp: code_def)
  then show ?thesis
    unfolding True using c rune_bytes_shape(4)[OF assms, of x] t by (subst json_string.simps) simp
next
  case False
  then consider "t = [CHR 0xE2, CHR 0x80, CHR 0xA8]" | "t = [CHR 0xE2, CHR 0x80, CHR 0xA9]"
    by (auto simp: rune_escape_def split: if_splits)
  then show ?thesis
    using separator_read[of "CHR ''8''" t x] separator_read[of "CHR ''9''" t x] by cases (simp_all add: rune_escape_def)
qed

lemma encode_body_read: "json_string (encode_body s @ CHR 0x22 # r) = Some (to_valid_utf8 s, r)"
proof (induction s rule: encode_body.induct)
  case (1 s)
  show ?case
  proof (cases s)
    case Nil
    then show ?thesis by (simp add: encode_body.simps to_valid_utf8.simps json_string.simps[of "CHR 0x22 # r"])
  next
    case s: (Cons c cs)
    show ?thesis
    proof (cases "code c < 0x80")
      case True
      then show ?thesis using "1.IH"(1)[OF s True] s
        by (simp add: encode_body.simps[of "c # cs"] to_valid_utf8.simps[of "c # cs"] ascii_escape_read)
    next
      case False
      show ?thesis
      proof (cases "rune_bytes s")
        case None
        then show ?thesis using "1.IH"(2)[OF s False None] s False
          using replacement_read by (simp add: encode_body.simps[of "c # cs"] to_valid_utf8.simps[of "c # cs"])
      next
        case (Some t)
        have "length (drop (length t) s) < length s" using rune_bytes_shape(2)[OF Some] s by simp
        then show ?thesis using "1.IH"(3)[OF s False Some] rune_read[OF Some] s False Some
          by (simp add: encode_body.simps[of "c # cs"] to_valid_utf8.simps[of "c # cs"])
      qed
    qed
  qed
qed

text \<open>Texts of ASCII characters are valid.\<close>

lemma to_valid_ascii: "\<forall>c \<in> set s. code c < 0x80 \<Longrightarrow> to_valid_utf8 s = s"
  by (induction s) (simp_all add: to_valid_utf8.simps)

section \<open>Values\<close>

text \<open>
  \<open>nl k\<close> is what the writer puts before an element at depth \<open>k\<close>, \<open>col\<close> what it puts between a name and its value:
  nothing and a colon for \<open>Marshal\<close>, a line break with indentation and a colon with a blank for \<open>MarshalIndent\<close>.
\<close>

fun write_value :: "(nat \<Rightarrow> string) \<Rightarrow> string \<Rightarrow> nat \<Rightarrow> json \<Rightarrow> string"
  and write_elements :: "(nat \<Rightarrow> string) \<Rightarrow> string \<Rightarrow> nat \<Rightarrow> json list \<Rightarrow> string"
  and write_members :: "(nat \<Rightarrow> string) \<Rightarrow> string \<Rightarrow> nat \<Rightarrow> (string \<times> json) list \<Rightarrow> string" where
  "write_value nl sp k J_null = ''null''"
| "write_value nl sp k (J_bool b) = (if b then ''true'' else ''false'')"
| "write_value nl sp k (J_num n) = n"
| "write_value nl sp k (J_str s) = encode_text s"
| "write_value nl sp k (J_arr vs) =
     (if vs = [] then ''[]'' else CHR 0x5B # write_elements nl sp (Suc k) vs @ nl k @ [CHR 0x5D])"
| "write_value nl sp k (J_obj ms) =
     (if ms = [] then CHR 0x7B # [CHR 0x7D] else CHR 0x7B # write_members nl sp (Suc k) ms @ nl k @ [CHR 0x7D])"
| "write_elements nl sp k [] = []"
| "write_elements nl sp k (v # vs) =
     nl k @ write_value nl sp k v @ (if vs = [] then [] else CHR '','' # write_elements nl sp k vs)"
| "write_members nl sp k [] = []"
| "write_members nl sp k ((name, v) # ms) =
     nl k @ encode_text name @ CHR '':'' # sp @ write_value nl sp k v @
     (if ms = [] then [] else CHR '','' # write_members nl sp k ms)"

definition marshal :: "json \<Rightarrow> string" where
  "marshal v = write_value (\<lambda>_. []) [] 0 v"

definition marshal_indent :: "json \<Rightarrow> string" where
  "marshal_indent v = write_value (\<lambda>k. CHR 0x0A # replicate (2 * k) (CHR '' '')) '' '' 0 v"

text \<open>What is read back, and the values for which it is: integers as numbers, and nesting within the bound of the parser.\<close>

fun valid_texts :: "json \<Rightarrow> json" where
  "valid_texts (J_str s) = J_str (to_valid_utf8 s)"
| "valid_texts (J_arr vs) = J_arr (map valid_texts vs)"
| "valid_texts (J_obj ms) = J_obj (map (\<lambda>(k, v). (to_valid_utf8 k, valid_texts v)) ms)"
| "valid_texts v = v"

fun json_depth :: "json \<Rightarrow> int" where
  "json_depth (J_arr vs) = 1 + foldr max (map json_depth vs) 0"
| "json_depth (J_obj ms) = 1 + foldr max (map (\<lambda>(k, v). json_depth v) ms) 0"
| "json_depth v = 0"

fun int_numbers :: "json \<Rightarrow> bool" where
  "int_numbers (J_num n) \<longleftrightarrow> (\<exists>i. n = itoa i)"
| "int_numbers (J_arr vs) \<longleftrightarrow> (\<forall>v \<in> set vs. int_numbers v)"
| "int_numbers (J_obj ms) \<longleftrightarrow> (\<forall>(k, v) \<in> set ms. int_numbers v)"
| "int_numbers v \<longleftrightarrow> True"

definition number_ends :: "string \<Rightarrow> bool" where
  "number_ends r \<longleftrightarrow> (case r of [] \<Rightarrow> True | c # _ \<Rightarrow> \<not> is_digit c \<and> c \<notin> {CHR ''.'', CHR ''e'', CHR ''E''})"

definition spaces :: "string \<Rightarrow> bool" where
  "spaces s \<longleftrightarrow> (\<forall>c \<in> set s. json_space c)"

lemma skip_spaces: "spaces w \<Longrightarrow> skip_ws (w @ x) = skip_ws x"
  by (induction w) (simp_all add: spaces_def skip_ws_def)

lemma skip_ws_not_space: "\<not> json_space c \<Longrightarrow> skip_ws (c # x) = c # x"
  by (simp add: skip_ws_def)

lemma token_here: "spaces w \<Longrightarrow> \<not> json_space c \<Longrightarrow> token d (w @ c # x) = (if c = d then Some x else None)"
  by (simp add: token_def skip_spaces skip_ws_not_space)

lemma is_digit_char: "d < 10 \<Longrightarrow> is_digit (digit_char d)" "0 < d \<Longrightarrow> d < 10 \<Longrightarrow> digit_char d \<noteq> CHR ''0''"
proof -
  have all: "\<forall>d \<in> set [0..<10]. is_digit (digit_char d) \<and> (0 < d \<longrightarrow> digit_char d \<noteq> CHR ''0'')" by code_simp
  then show "d < 10 \<Longrightarrow> is_digit (digit_char d)" "0 < d \<Longrightarrow> d < 10 \<Longrightarrow> digit_char d \<noteq> CHR ''0''"
    unfolding set_upt by (metis atLeastLessThan_iff le0)+
qed

lemma zero_digits: "nat_digits 0 = ''0''"
  by code_simp

lemma fraction_end: "fraction_part [] = Some ([], [])"
  by (simp add: fraction_part_def)

lemma fraction_other: "c \<noteq> CHR ''.'' \<Longrightarrow> fraction_part (c # cs) = Some ([], c # cs)"
  by (auto simp: fraction_part_def split: char.splits bool.splits)

lemma nat_digits_digits: "\<forall>c \<in> set (nat_digits n). is_digit c"
proof (induction n rule: nat_digits.induct)
  case (1 n)
  then show ?case by (subst nat_digits.simps) (auto simp: is_digit_char)
qed

lemma nat_digits_first: "0 < n \<Longrightarrow> \<exists>c cs. nat_digits n = c # cs \<and> c \<noteq> CHR ''0'' \<and> is_digit c"
proof (induction n rule: nat_digits.induct)
  case (1 n)
  show ?case
  proof (cases "n < 10")
    case True
    with "1.prems" have "digit_char n \<noteq> CHR ''0''" by (simp add: is_digit_char)
    with True show ?thesis by (subst nat_digits.simps) (simp add: is_digit_char)
  next
    case False
    then obtain c cs where "nat_digits (n div 10) = c # cs" "c \<noteq> CHR ''0''" "is_digit c" using "1.IH" div_greater_zero_iff[of n 10] by auto
    with False show ?thesis by (subst nat_digits.simps) simp
  qed
qed

lemma int_part_digits: "number_ends r \<Longrightarrow> int_part (nat_digits n @ r) = Some (nat_digits n, r)"
proof (cases "n = 0")
  case True
  then show ?thesis by (simp add: zero_digits int_part_def)
next
  case False
  assume r: "number_ends r"
  obtain c cs where c: "nat_digits n = c # cs" "c \<noteq> CHR ''0''" using nat_digits_first[of n] False by auto
  have d: "\<forall>x \<in> set (nat_digits n). is_digit x" by (rule nat_digits_digits)
  have "takeWhile is_digit (nat_digits n @ r) = nat_digits n" "dropWhile is_digit (nat_digits n @ r) = r"
    using d r by (auto simp: takeWhile_append dropWhile_append number_ends_def split: list.splits)
  then show ?thesis using c by (simp add: int_part_def digits1_def)
qed

lemma json_number_itoa: "number_ends r \<Longrightarrow> json_number (itoa i @ r) = Some (itoa i, r)"
proof -
  assume r: "number_ends r"
  have f: "fraction_part r = Some ([], r)" using r by (cases r) (simp_all add: fraction_other fraction_end number_ends_def)
  have e: "exponent_part r = Some ([], r)" using r by (auto simp: exponent_part_def number_ends_def split: list.splits)
  show ?thesis
  proof (cases "i < 0")
    case True
    then show ?thesis by (simp add: json_number_def itoa_def int_part_digits[OF r] f e)
  next
    case False
    obtain c cs where c: "nat_digits (nat i) = c # cs"
      by (metis nat_digits.simps append_is_Nil_conv list.exhaust list.simps(3))
    then have "is_digit c" using nat_digits_digits[of "nat i"] by simp
    then have "c \<noteq> CHR ''-''" by (auto simp: is_digit_def code_def)
    then have m: "(case c # cs @ r of CHR ''-'' # x \<Rightarrow> (''-'', x) | _ \<Rightarrow> ('''', c # cs @ r)) = ('''', c # cs @ r)"
      by (auto split: char.splits bool.splits)
    have i: "itoa i = c # cs" using False c by (simp add: itoa_def)
    show ?thesis using int_part_digits[OF r, of "nat i"] f e
      unfolding json_number_def i append.simps m by (simp add: c)
  qed
qed


section \<open>Reading back\<close>

lemma value_start:
  "int_numbers v \<Longrightarrow> \<exists>c cs. write_value nl sp k v @ r = c # cs \<and> \<not> json_space c \<and> c \<noteq> CHR 0x5D"
proof (cases v)
  case (J_num n)
  assume "int_numbers v"
  with J_num obtain i where n: "n = itoa i" by auto
  obtain c cs where c: "nat_digits (nat (abs i)) = c # cs" "is_digit c"
    using nat_digits_first[of "nat (abs i)"] zero_digits by (cases "nat (abs i) = 0") (auto simp: is_digit_def code_def)
  then have "\<not> json_space c" "c \<noteq> CHR 0x5D" by (auto simp: is_digit_def code_def json_space_def)
  then show ?thesis using c J_num n by (cases "i < 0") (auto simp: itoa_def json_space_def)
qed (auto simp: encode_text_def json_space_def)

lemma parse_value_spaces: "spaces w \<Longrightarrow> parse_value d (w @ x) = parse_value d x"
  unfolding parse_value.simps[of d "w @ x"] parse_value.simps[of d x] by (simp only: skip_spaces)

lemma foldr_max_nonneg: "0 \<le> foldr max xs (0 :: int)"
  by (induction xs) auto

lemma number_ends_Cons:
  assumes "json_space c \<or> c = CHR 0x5D \<or> c = CHR 0x7D \<or> c = CHR '',''"
  shows "number_ends (c # x)"
proof -
  have "c \<in> set [CHR '' '', CHR 0x09, CHR 0x0A, CHR 0x0D, CHR 0x5D, CHR 0x7D, CHR '','']"
    using assms by (auto simp: json_space_def)
  moreover have "\<forall>c \<in> set [CHR '' '', CHR 0x09, CHR 0x0A, CHR 0x0D, CHR 0x5D, CHR 0x7D, CHR '','']. number_ends [c]"
    by code_simp
  ultimately have "number_ends [c]" by blast
  then show ?thesis by (simp add: number_ends_def)
qed

lemma number_ends_spaces: "spaces w \<Longrightarrow> number_ends (w @ CHR 0x5D # r)" "spaces w \<Longrightarrow> number_ends (w @ CHR 0x7D # r)"
  "number_ends (CHR '','' # r)"
  by (cases w; simp add: number_ends_Cons spaces_def)+

lemma written_reads:
  assumes nl: "\<And>k. spaces (nl k)" and sp: "spaces sp"
  shows
    "int_numbers v \<Longrightarrow> d + json_depth v \<le> 10000 \<Longrightarrow> number_ends r \<Longrightarrow>
       parse_value d (write_value nl sp k v @ r) = Some (valid_texts v, r)"
    "(\<forall>v \<in> set vs. int_numbers v) \<Longrightarrow> vs \<noteq> [] \<Longrightarrow> d + foldr max (map json_depth vs) 0 \<le> 10000 \<Longrightarrow> spaces w \<Longrightarrow>
       parse_elements d (write_elements nl sp k vs @ w @ CHR 0x5D # r) = Some (map valid_texts vs, r)"
    "(\<forall>(n, v) \<in> set ms. int_numbers v) \<Longrightarrow> ms \<noteq> [] \<Longrightarrow> d + foldr max (map (\<lambda>(n, v). json_depth v) ms) 0 \<le> 10000 \<Longrightarrow> spaces w \<Longrightarrow>
       parse_members d (write_members nl sp k ms @ w @ CHR 0x7D # r) =
         Some (map (\<lambda>(n, v). (to_valid_utf8 n, valid_texts v)) ms, r)"
  using nl sp
proof (induction nl sp k v and nl sp k vs and nl sp k ms arbitrary: d r and d w r and d w r
    rule: write_value_write_elements_write_members.induct)
  case (1 nl sp k)
  then show ?case by (subst parse_value.simps) (simp add: skip_ws_not_space json_space_def literal_def)
next
  case (2 nl sp k b)
  then show ?case by (subst parse_value.simps) (simp add: skip_ws_not_space json_space_def literal_def)
next
  case (3 nl sp k n)
  then obtain i where n: "n = itoa i" by auto
  obtain c cs where c: "itoa i @ r = c # cs" "\<not> json_space c" "c \<notin> {CHR 0x7B, CHR 0x5B, CHR 0x22, CHR ''t'', CHR ''f'', CHR ''n''}"
  proof -
    obtain e es where e: "nat_digits (nat (abs i)) = e # es" "is_digit e"
      using nat_digits_first[of "nat (abs i)"] zero_digits by (cases "nat (abs i) = 0") (auto simp: is_digit_def code_def)
    then have "\<not> json_space e" "e \<notin> {CHR 0x7B, CHR 0x5B, CHR 0x22, CHR ''t'', CHR ''f'', CHR ''n''}"
      by (auto simp: is_digit_def code_def json_space_def)
    then show thesis using e that by (cases "i < 0") (auto simp: itoa_def json_space_def)
  qed
  then show ?case using json_number_itoa[OF "3.prems"(3), of i] n
    by (subst parse_value.simps) (simp add: skip_ws_not_space)
next
  case (4 nl sp k s)
  then show ?case
    using encode_body_read[of s r] by (subst parse_value.simps) (simp add: encode_text_def skip_ws_not_space json_space_def)
next
  case (5 nl sp k vs)
  show ?case
  proof (cases "vs = []")
    case True
    then show ?thesis using "5.prems"
      by (subst parse_value.simps) (simp add: skip_ws_not_space json_space_def token_def)
  next
    case False
    have IH: "parse_elements (d + 1) (write_elements nl sp (Suc k) vs @ nl k @ CHR 0x5D # r) = Some (map valid_texts vs, r)"
      using "5.IH"[OF False, of "d + 1" "nl k" r] "5.prems" False by simp
    obtain v vs' where vs: "vs = v # vs'" using False by (cases vs) auto
    obtain c cs where c: "write_value nl sp (Suc k) v @ (if vs' = [] then [] else CHR '','' # write_elements nl sp (Suc k) vs')
        @ nl k @ CHR 0x5D # r = c # cs" "\<not> json_space c" "c \<noteq> CHR 0x5D"
      using value_start[of v nl sp "Suc k" "(if vs' = [] then [] else CHR '','' # write_elements nl sp (Suc k) vs') @ nl k @ CHR 0x5D # r"]
        "5.prems"(1) vs by auto
    have t: "token (CHR 0x5D) (write_elements nl sp (Suc k) vs @ nl k @ CHR 0x5D # r) = None"
      using c token_here[OF "5.prems"(4)] by (simp add: vs)
    have "d < 10000" using "5.prems"(2) foldr_max_nonneg[of "map json_depth vs"] by simp
    then show ?thesis using t IH False
      by (subst parse_value.simps) (simp add: skip_ws_not_space json_space_def)
  qed
next
  case (6 nl sp k ms)
  show ?case
  proof (cases "ms = []")
    case True
    then show ?thesis using "6.prems"
      by (subst parse_value.simps) (simp add: skip_ws_not_space json_space_def token_def)
  next
    case False
    have IH: "parse_members (d + 1) (write_members nl sp (Suc k) ms @ nl k @ CHR 0x7D # r) =
        Some (map (\<lambda>(n, v). (to_valid_utf8 n, valid_texts v)) ms, r)"
      using "6.IH"[OF False, of "d + 1" "nl k" r] "6.prems" False by (simp add: case_prod_unfold)
    obtain n v ms' where ms: "ms = (n, v) # ms'" using False by (cases ms) auto
    have t: "token (CHR 0x7D) (write_members nl sp (Suc k) ms @ nl k @ CHR 0x7D # r) = None"
      using token_here[OF "6.prems"(4)] by (simp add: ms encode_text_def json_space_def)
    have "d < 10000" using "6.prems"(2) foldr_max_nonneg[of "map (\<lambda>(k, v). json_depth v) ms"] by simp
    then show ?thesis using t IH False
      by (subst parse_value.simps) (simp add: skip_ws_not_space json_space_def)
  qed
next
  case (8 nl sp k v vs)
  define R where "R = (if vs = [] then w @ CHR 0x5D # r else CHR '','' # write_elements nl sp k vs @ w @ CHR 0x5D # r)"
  have e: "write_elements nl sp k (v # vs) @ w @ CHR 0x5D # r = nl k @ write_value nl sp k v @ R"
    by (simp add: R_def)
  have "number_ends R" using "8.prems"(4) by (auto simp: R_def intro: number_ends_spaces)
  then have v: "parse_value d (nl k @ write_value nl sp k v @ R) = Some (valid_texts v, R)"
    using "8.IH"(1)[of d R] "8.prems" by (simp add: parse_value_spaces)
  show ?case
  proof (cases "vs = []")
    case True
    then show ?thesis using v "8.prems"(4) unfolding e
      by (subst parse_elements.simps) (simp add: R_def token_here json_space_def)
  next
    case False
    have IH: "parse_elements d (write_elements nl sp k vs @ w @ CHR 0x5D # r) = Some (map valid_texts vs, r)"
      using "8.IH"(2)[OF False, of d w r] "8.prems" False by simp
    then show ?thesis using v False token_here[of "[]" "CHR '',''"] unfolding e
      by (subst parse_elements.simps) (simp add: R_def json_space_def spaces_def)
  qed
next
  case (10 nl sp k n v ms)
  define R where "R = (if ms = [] then w @ CHR 0x7D # r else CHR '','' # write_members nl sp k ms @ w @ CHR 0x7D # r)"
  define V where "V = sp @ write_value nl sp k v @ R"
  have e: "write_members nl sp k ((n, v) # ms) @ w @ CHR 0x7D # r = nl k @ CHR 0x22 # encode_body n @ CHR 0x22 # CHR '':'' # V"
    by (simp add: R_def V_def encode_text_def)
  have "number_ends R" using "10.prems"(4) by (auto simp: R_def intro: number_ends_spaces)
  then have v: "parse_value d V = Some (valid_texts v, R)"
    using "10.IH"(1)[of d R] "10.prems" by (simp add: V_def parse_value_spaces)
  have t: "token (CHR 0x22) (nl k @ CHR 0x22 # encode_body n @ CHR 0x22 # CHR '':'' # V) = Some (encode_body n @ CHR 0x22 # CHR '':'' # V)"
    using token_here[OF "10.prems"(5)] by (simp add: json_space_def)
  have c: "token (CHR '':'') (CHR '':'' # V) = Some V"
    using token_here[of "[]" "CHR '':''"] by (simp add: json_space_def spaces_def)
  show ?case
  proof (cases "ms = []")
    case True
    have "token (CHR 0x7D) R = Some r" using True token_here[OF "10.prems"(4)] by (simp add: R_def json_space_def)
    then show ?thesis using True v t c encode_body_read[of n "CHR '':'' # V"] unfolding e
      by (subst parse_members.simps) simp
  next
    case False
    have IH: "parse_members d (write_members nl sp k ms @ w @ CHR 0x7D # r) = Some (map (\<lambda>(n, v). (to_valid_utf8 n, valid_texts v)) ms, r)"
      using "10.IH"(2)[OF False, of d w r] "10.prems" False by simp
    have k: "token (CHR 0x7D) R = None" "token (CHR '','') R = Some (write_members nl sp k ms @ w @ CHR 0x7D # r)"
      using False token_here[of "[]" "CHR '',''"] by (simp_all add: R_def json_space_def spaces_def)
    have l: "length (write_members nl sp k ms @ w @ CHR 0x7D # r) < length (nl k @ CHR 0x22 # encode_body n @ CHR 0x22 # CHR '':'' # V)"
      using False by (simp add: V_def R_def)
    show ?thesis using v t c k l IH encode_body_read[of n "CHR '':'' # V"] unfolding e
      by (subst parse_members.simps) simp
  qed
qed simp_all

text \<open>What \<open>Marshal\<close> and \<open>MarshalIndent\<close> write is read back, texts made valid.\<close>

lemma marshal_reads:
  assumes "int_numbers v" and "json_depth v \<le> 10000"
  shows "json_text (marshal v) = Some (valid_texts v)" and "json_first (marshal_indent v) = Some (valid_texts v)"
    and "json_text (marshal_indent v) = Some (valid_texts v)"
proof -
  have s: "spaces (CHR 0x0A # replicate n (CHR '' ''))" "spaces []" "spaces '' ''" "spaces (replicate n (CHR '' ''))" for n
    by (simp_all add: spaces_def json_space_def)
  have "parse_value 0 (marshal v @ []) = Some (valid_texts v, [])"
    unfolding marshal_def by (rule written_reads(1)) (use s assms in \<open>simp_all add: number_ends_def\<close>)
  then show "json_text (marshal v) = Some (valid_texts v)" by (simp add: json_text_def skip_ws_def)
  have "parse_value 0 (marshal_indent v @ []) = Some (valid_texts v, [])"
    unfolding marshal_indent_def by (rule written_reads(1)) (use s assms in \<open>simp_all add: number_ends_def\<close>)
  then show "json_first (marshal_indent v) = Some (valid_texts v)" "json_text (marshal_indent v) = Some (valid_texts v)"
    by (simp_all add: json_first_def json_text_def skip_ws_def)
qed

end
