(* ===== verification/Runner_Pod.thy ===== *)
theory Runner_Pod
  imports Runner_Config Masking Json_Encode "HOL-Library.AList"
begin

text \<open>
  The machine that the programs of a runner pod run on: the files of the pod, the objects of the store, the HTTP requests
  sent with the answers they get, and the failures of the calls.  Paths are cleaned as \<open>filepath.Clean\<close> does.  Every call
  of the operating system or of the store consumes one entry of a list of faults; an entry \<open>Some m\<close> makes it fail with
  the message \<open>m\<close>, and when the list is used up every call works.  Symbolic links, owners and the signals that the
  wrapper forwards are not modelled.  The clock only advances when a program sleeps.
\<close>

section \<open>Paths\<close>

fun clean_parts :: "bool \<Rightarrow> string list \<Rightarrow> string list \<Rightarrow> string list" where
  "clean_parts rooted stack [] = rev stack"
| "clean_parts rooted stack (x # xs) =
     (if x = '''' \<or> x = ''.'' then clean_parts rooted stack xs
      else if x = ''..'' then
        (if stack \<noteq> [] \<and> hd stack \<noteq> ''..'' then clean_parts rooted (tl stack) xs
         else if rooted then clean_parts rooted stack xs
         else clean_parts rooted (''..'' # stack) xs)
      else clean_parts rooted (x # stack) xs)"

definition clean_path :: "string \<Rightarrow> string" where
  "clean_path s =
     (let rooted = (s \<noteq> [] \<and> hd s = CHR ''/'');
          p = (if rooted then ''/'' else '''') @ join ''/'' (clean_parts rooted [] (split_on (CHR ''/'') s))
      in if p = '''' then ''.'' else p)"

definition path_join :: "string \<Rightarrow> string \<Rightarrow> string" where
  "path_join dir name = clean_path (if dir = '''' then name else dir @ ''/'' @ name)"

section \<open>The machine\<close>

text \<open>A file has its content and its permission bits.\<close>

datatype node = File string nat | Dir

record http_request =
  hr_url :: string
  hr_body :: string
  hr_token :: string

record pod =
  pd_files :: "(string \<times> node) list"
  pd_objects :: "string \<Rightarrow> string option"
  pd_sent :: "http_request list"
  pd_answers :: "(int \<times> string) option list"
  pd_faults :: "string option list"
  pd_now :: time

type_synonym 'a pod_op = "pod \<Rightarrow> (runner_err + 'a) \<times> pod"

definition returnP :: "'a \<Rightarrow> 'a pod_op" where "returnP x p = (Inr x, p)"

definition failP :: "runner_err \<Rightarrow> 'a pod_op" where "failP e p = (Inl e, p)"

definition bindP :: "'a pod_op \<Rightarrow> ('a \<Rightarrow> 'b pod_op) \<Rightarrow> 'b pod_op" where
  "bindP m f p = (case m p of (Inl e, p') \<Rightarrow> (Inl e, p') | (Inr x, p') \<Rightarrow> f x p')"

text \<open>An operation whose error the code drops or tests itself.\<close>

definition tryP :: "'a pod_op \<Rightarrow> (runner_err + 'a) pod_op" where
  "tryP m p = (case m p of (r, p') \<Rightarrow> (Inr r, p'))"

definition io :: "runner_step \<Rightarrow> 'a pod_op \<Rightarrow> 'a pod_op" where
  "io st f p =
     (case pd_faults p of
        [] \<Rightarrow> f p
      | None # fs \<Rightarrow> f (p\<lparr>pd_faults := fs\<rparr>)
      | Some m # fs \<Rightarrow> (Inl (Rerr_io st m), p\<lparr>pd_faults := fs\<rparr>))"

section \<open>Files\<close>

definition node_at :: "string \<Rightarrow> pod \<Rightarrow> node option" where
  "node_at path p = map_of (pd_files p) (clean_path path)"

definition set_node :: "string \<Rightarrow> node \<Rightarrow> pod \<Rightarrow> pod" where
  "set_node path n p = p\<lparr>pd_files := AList.update (clean_path path) n (pd_files p)\<rparr>"

definition read_file :: "runner_step \<Rightarrow> string \<Rightarrow> string pod_op" where
  "read_file st path = io st (\<lambda>p.
     case node_at path p of
       None \<Rightarrow> (Inl (Rerr_io st ''no such file or directory''), p)
     | Some Dir \<Rightarrow> (Inl (Rerr_io st ''is a directory''), p)
     | Some (File c m) \<Rightarrow> (Inr c, p))"

text \<open>\<open>os.WriteFile\<close>, and \<open>os.OpenFile\<close> that truncates: a file that exists keeps its permission bits.\<close>

definition write_file :: "runner_step \<Rightarrow> string \<Rightarrow> string \<Rightarrow> nat \<Rightarrow> unit pod_op" where
  "write_file st path c perm = io st (\<lambda>p.
     case node_at path p of
       Some Dir \<Rightarrow> (Inl (Rerr_io st ''is a directory''), p)
     | Some (File _ m) \<Rightarrow> (Inr (), set_node path (File c m) p)
     | None \<Rightarrow> (Inr (), set_node path (File c perm) p))"

text \<open>The names in a directory, sorted, as \<open>os.ReadDir\<close> lists them; \<open>None\<close> when there is no such directory.\<close>

definition dir_names :: "string \<Rightarrow> pod \<Rightarrow> string list" where
  "dir_names dir p =
     (let d = clean_path dir; pre = (if d = ''/'' then d else d @ ''/'')
      in sort (map (drop (length pre))
           (filter (\<lambda>q. prefix pre q \<and> q \<noteq> pre \<and> CHR ''/'' \<notin> set (drop (length pre) q)) (map fst (pd_files p)))))"

definition read_dir :: "runner_step \<Rightarrow> string \<Rightarrow> string list option pod_op" where
  "read_dir st dir = io st (\<lambda>p.
     case node_at dir p of
       None \<Rightarrow> (Inr None, p)
     | Some (File c m) \<Rightarrow> (Inl (Rerr_io st ''not a directory''), p)
     | Some Dir \<Rightarrow> (Inr (Some (dir_names dir p)), p))"

section \<open>The store and the network\<close>

definition pod_upload :: "string \<Rightarrow> string \<Rightarrow> unit pod_op" where
  "pod_upload key content =
     (if trim_space key = '''' then failP (Rerr_domain ErrEmptyS3Key)
      else io Uploading (\<lambda>p. (Inr (), p\<lparr>pd_objects := (pd_objects p)(trim_space key \<mapsto> content)\<rparr>)))"

definition pod_download :: "string \<Rightarrow> string pod_op" where
  "pod_download key =
     (if trim_space key = '''' then failP (Rerr_domain ErrEmptyS3Key)
      else io Downloading (\<lambda>p.
        (case pd_objects p (trim_space key) of None \<Rightarrow> Inl (Rerr_domain ErrNotFound) | Some c \<Rightarrow> Inr c, p)))"

text \<open>A request gets the next answer, a status and a body; without one the server cannot be reached.\<close>

definition send_request :: "http_request \<Rightarrow> (int \<times> string) option pod_op" where
  "send_request r p =
     (case pd_answers p of
        [] \<Rightarrow> (Inr None, p\<lparr>pd_sent := pd_sent p @ [r]\<rparr>)
      | a # as \<Rightarrow> (Inr a, p\<lparr>pd_sent := pd_sent p @ [r], pd_answers := as\<rparr>))"

section \<open>Secrets\<close>

text \<open>
  \<open>loadSecrets\<close>: the files of the directory by name.  Hidden names, which Kubernetes uses for its own links, and
  directories are left out.  Each name costs one call for its kind and one for its content.
\<close>

fun load_entries :: "string \<Rightarrow> string list \<Rightarrow> (string \<times> string) list pod_op" where
  "load_entries dir [] = returnP []"
| "load_entries dir (n # ns) =
     (if take 1 n = ''.'' then load_entries dir ns
      else bindP (io Reading_secrets (\<lambda>p. case node_at (path_join dir n) p of
               None \<Rightarrow> (Inl (Rerr_io Reading_secrets ''no such file or directory''), p)
             | Some k \<Rightarrow> (Inr k, p))) (\<lambda>k.
        if k = Dir then load_entries dir ns
        else bindP (read_file Reading_secrets (path_join dir n)) (\<lambda>c.
          bindP (load_entries dir ns) (\<lambda>rest. returnP ((n, c) # rest)))))"

definition load_secrets :: "string \<Rightarrow> (string \<times> string) list pod_op" where
  "load_secrets dir =
     (if dir = '''' then returnP []
      else bindP (read_dir Reading_secrets dir) (\<lambda>names.
        case names of None \<Rightarrow> returnP [] | Some ns \<Rightarrow> load_entries dir ns))"

section \<open>Clean paths\<close>

text \<open>The parts of a clean path: \<open>..\<close> occurs at the front only, and not at all in a rooted path.\<close>

definition plain_part :: "string \<Rightarrow> bool" where
  "plain_part x \<longleftrightarrow> x \<noteq> '''' \<and> x \<noteq> ''.'' \<and> x \<noteq> ''..'' \<and> CHR ''/'' \<notin> set x"

definition clean_list :: "bool \<Rightarrow> string list \<Rightarrow> bool" where
  "clean_list rooted xs \<longleftrightarrow> (\<exists>k ys. xs = replicate k ''..'' @ ys \<and> (\<forall>y \<in> set ys. plain_part y) \<and> (rooted \<longrightarrow> k = 0))"

lemma clean_list_snoc:
  assumes "clean_list rooted xs" and "plain_part y"
  shows "clean_list rooted (xs @ [y])"
proof -
  obtain k ys where "xs = replicate k ''..'' @ ys" "\<forall>y \<in> set ys. plain_part y" "rooted \<longrightarrow> k = 0"
    using assms(1) by (auto simp: clean_list_def)
  then have "xs @ [y] = replicate k ''..'' @ (ys @ [y]) \<and> (\<forall>y \<in> set (ys @ [y]). plain_part y) \<and> (rooted \<longrightarrow> k = 0)"
    using assms(2) by auto
  then show ?thesis unfolding clean_list_def by blast
qed

lemma clean_list_butlast:
  assumes "clean_list rooted (xs @ [y])" and "y \<noteq> ''..''"
  shows "clean_list rooted xs"
proof -
  obtain k ys where ys: "xs @ [y] = replicate k ''..'' @ ys" "\<forall>y \<in> set ys. plain_part y" "rooted \<longrightarrow> k = 0"
    using assms(1) by (auto simp: clean_list_def)
  show ?thesis
  proof (cases ys rule: rev_cases)
    case Nil
    then have "y \<in> set (replicate k ''..'')" using ys(1) by (metis append_Nil2 in_set_conv_decomp)
    then show ?thesis using assms(2) by simp
  next
    case (snoc zs z)
    then show ?thesis using ys by (auto simp: clean_list_def intro!: exI[of _ k] exI[of _ zs])
  qed
qed

lemma clean_list_up:
  assumes "clean_list False xs" and "xs = [] \<or> last xs = ''..''"
  shows "clean_list False (xs @ [''..''])"
proof -
  obtain k ys where ys: "xs = replicate k ''..'' @ ys" "\<forall>y \<in> set ys. plain_part y"
    using assms(1) by (auto simp: clean_list_def)
  have "ys = []" using ys assms(2) by (cases ys rule: rev_cases) (auto simp: plain_part_def)
  then have "xs @ [''..''] = replicate (Suc k) ''..'' @ []" using ys by (simp add: replicate_append_same)
  then show ?thesis unfolding clean_list_def by (metis empty_iff empty_set)
qed

lemma clean_parts_clean:
  "clean_list rooted (rev stack) \<Longrightarrow> (\<forall>x \<in> set xs. CHR ''/'' \<notin> set x) \<Longrightarrow> clean_list rooted (clean_parts rooted stack xs)"
proof (induction rooted stack xs rule: clean_parts.induct)
  case (2 rooted stack x xs)
  consider "x = '''' \<or> x = ''.''" | "x = ''..''" "stack \<noteq> []" "hd stack \<noteq> ''..''"
    | "x = ''..''" "\<not> (stack \<noteq> [] \<and> hd stack \<noteq> ''..'')" rooted
    | "x = ''..''" "\<not> (stack \<noteq> [] \<and> hd stack \<noteq> ''..'')" "\<not> rooted" | "plain_part x"
    using "2.prems"(2) by (auto simp: plain_part_def)
  then show ?case
  proof cases
    case 2
    then have "clean_list rooted (rev (tl stack))"
      using "2.prems"(1) clean_list_butlast[of rooted "rev (tl stack)" "hd stack"] by (cases stack) auto
    then show ?thesis using "2.IH"(2) "2.prems" 2 by simp
  next
    case 4
    have "clean_list rooted (rev (''..'' # stack))"
      using clean_list_up[of "rev stack"] "2.prems"(1) 4 by (auto simp: last_rev)
    then show ?thesis using "2.IH"(4) "2.prems" 4 by auto
  next
    case 5
    then show ?thesis using "2.IH"(5) "2.prems" clean_list_snoc[of rooted "rev stack" x] by (auto simp: plain_part_def)
  qed (use "2.IH" "2.prems" in auto)
qed simp

lemma clean_parts_plain: "(\<forall>y \<in> set ys. plain_part y) \<Longrightarrow> clean_parts rooted stack ys = rev stack @ ys"
  by (induction ys arbitrary: stack) (auto simp: plain_part_def)

lemma clean_parts_ups: "clean_parts False (replicate m ''..'') (replicate k ''..'' @ ys) = clean_parts False (replicate (k + m) ''..'') ys"
proof (induction k arbitrary: m)
  case (Suc k)
  show ?case using Suc.IH[of "Suc m"] by (cases m) auto
qed simp

lemma clean_parts_id: "clean_list rooted xs \<Longrightarrow> clean_parts rooted [] xs = xs"
  using clean_parts_ups[of 0] by (cases rooted) (auto simp: clean_list_def clean_parts_plain)

lemma clean_parts_snoc: "plain_part y \<Longrightarrow> clean_parts rooted stack (xs @ [y]) = clean_parts rooted stack xs @ [y]"
  by (induction rooted stack xs rule: clean_parts.induct) (auto simp: plain_part_def)

lemma clean_list_parts:
  assumes "clean_list rooted ps" and "p \<in> set ps"
  shows "p \<noteq> '''' \<and> CHR ''/'' \<notin> set p"
proof -
  have "p = ''..'' \<or> plain_part p" using assms by (auto simp: clean_list_def)
  then show ?thesis by (auto simp: plain_part_def)
qed

lemma split_on_parts: "\<forall>p \<in> set (split_on (CHR ''/'') s). CHR ''/'' \<notin> set p"
proof (induction s)
  case (Cons c cs)
  then show ?case using split_on_nonempty[of "CHR ''/''" cs] by (cases "split_on (CHR ''/'') cs") auto
qed simp

lemma split_on_last: "c \<notin> set x \<Longrightarrow> split_on c (d @ c # x) = split_on c d @ [x]"
proof (induction d)
  case (Cons a d)
  then show ?case using split_on_nonempty[of c d] by (cases "split_on c d") auto
qed (simp add: split_on_plain)

lemma split_join: "ps \<noteq> [] \<Longrightarrow> \<forall>p \<in> set ps. CHR ''/'' \<notin> set p \<Longrightarrow> split_on (CHR ''/'') (join ''/'' ps) = ps"
proof (induction ps)
  case (Cons p ps)
  then show ?case
    by (cases ps) (simp_all add: split_on_append_sep split_on_plain)
qed simp

definition rooted_path :: "string \<Rightarrow> bool" where
  "rooted_path s \<longleftrightarrow> s \<noteq> [] \<and> hd s = CHR ''/''"

definition path_of_parts :: "bool \<Rightarrow> string list \<Rightarrow> string" where
  "path_of_parts rooted ps =
     (let p = (if rooted then ''/'' else '''') @ join ''/'' ps in if p = '''' then ''.'' else p)"

lemma clean_path_parts: "clean_path s = path_of_parts (rooted_path s) (clean_parts (rooted_path s) [] (split_on (CHR ''/'') s))"
  by (simp add: clean_path_def path_of_parts_def rooted_path_def)

lemma clean_of_parts:
  assumes "clean_list rooted ps"
  shows "clean_path (path_of_parts rooted ps) = path_of_parts rooted ps"
proof (cases ps)
  case Nil
  then show ?thesis by (simp add: path_of_parts_def clean_path_def)
next
  case (Cons q qs)
  have parts: "\<forall>p \<in> set ps. CHR ''/'' \<notin> set p" using clean_list_parts[OF assms] by blast
  have q: "q \<noteq> ''''" "CHR ''/'' \<notin> set q" using clean_list_parts[OF assms] Cons by auto
  then obtain c q' where c: "q = c # q'" "c \<noteq> CHR ''/''" by (cases q) auto
  have j: "join ''/'' ps = c # q' @ (if qs = [] then [] else CHR ''/'' # join ''/'' qs)"
    using Cons c by (cases qs) simp_all
  have s: "split_on (CHR ''/'') (join ''/'' ps) = ps" using split_join parts Cons by blast
  show ?thesis
  proof (cases rooted)
    case True
    have "split_on (CHR ''/'') (CHR ''/'' # join ''/'' ps) = '''' # ps" using s by simp
    then show ?thesis using True j clean_parts_id[OF assms]
      by (simp add: clean_path_parts path_of_parts_def rooted_path_def)
  next
    case False
    have "\<not> rooted_path (join ''/'' ps)" "join ''/'' ps \<noteq> []" using j c by (simp_all add: rooted_path_def)
    then show ?thesis using False s clean_parts_id[OF assms] by (simp add: clean_path_parts path_of_parts_def)
  qed
qed

lemma clean_path_idem [simp]: "clean_path (clean_path s) = clean_path s"
proof -
  have "clean_list (rooted_path s) (clean_parts (rooted_path s) [] (split_on (CHR ''/'') s))"
    by (rule clean_parts_clean) (simp_all add: split_on_parts clean_list_def)
  then show ?thesis unfolding clean_path_parts[of s] by (rule clean_of_parts)
qed

lemma path_join_clean [simp]: "clean_path (path_join d n) = path_join d n"
  by (simp add: path_join_def)

lemma path_join_inj:
  assumes "path_join d n = path_join d m" and "d \<noteq> ''''" and "plain_part n" and "plain_part m"
  shows "n = m"
proof -
  have f: "path_join d x = path_of_parts (rooted_path d) (clean_parts (rooted_path d) [] (split_on (CHR ''/'') d) @ [x])"
    if "plain_part x" for x
  proof -
    have "CHR ''/'' \<notin> set x" using that by (simp add: plain_part_def)
    then show ?thesis using assms(2)
      by (simp add: path_join_def clean_path_parts rooted_path_def split_on_last clean_parts_snoc[OF that])
  qed
  define ps where "ps = clean_parts (rooted_path d) [] (split_on (CHR ''/'') d)"
  have c: "clean_list (rooted_path d) (ps @ [x])" if "plain_part x" for x
    unfolding ps_def using that by (intro clean_list_snoc clean_parts_clean) (simp_all add: split_on_parts clean_list_def)
  have ne: "join ''/'' (ps @ [x]) \<noteq> ''''" if "plain_part x" for x
  proof -
    have "join ''/'' (ps @ [x]) = (if ps = [] then x else join ''/'' ps @ ''/'' @ x)"
      by (induction ps rule: induct_list012) simp_all
    then show ?thesis using that by (simp add: plain_part_def)
  qed
  have "join ''/'' (ps @ [n]) = join ''/'' (ps @ [m])"
    using assms(1) f[OF assms(3)] f[OF assms(4)] ne[OF assms(3)] ne[OF assms(4)]
    by (simp add: path_of_parts_def ps_def[symmetric] split: if_splits)
  moreover have "split_on (CHR ''/'') (join ''/'' (ps @ [x])) = ps @ [x]" if "plain_part x" for x
    using split_join[of "ps @ [x]"] clean_list_parts[OF c[OF that]] by blast
  ultimately have "ps @ [n] = ps @ [m]" using assms(3,4) by metis
  then show ?thesis by simp
qed

section \<open>Laws\<close>

lemma node_at_set: "node_at q (set_node path n p) = (if clean_path q = clean_path path then Some n else node_at q p)"
  by (simp add: node_at_def set_node_def update_conv')

lemma set_node_frame [simp]:
  "pd_objects (set_node path n p) = pd_objects p" "pd_sent (set_node path n p) = pd_sent p"
  "pd_answers (set_node path n p) = pd_answers p" "pd_faults (set_node path n p) = pd_faults p"
  "pd_now (set_node path n p) = pd_now p"
  by (simp_all add: set_node_def)

lemma node_at_frame [simp]:
  "node_at q (p\<lparr>pd_objects := f\<rparr>) = node_at q p" "node_at q (p\<lparr>pd_sent := r\<rparr>) = node_at q p"
  "node_at q (p\<lparr>pd_answers := as\<rparr>) = node_at q p" "node_at q (p\<lparr>pd_faults := fs\<rparr>) = node_at q p"
  "node_at q (p\<lparr>pd_now := t\<rparr>) = node_at q p"
  by (simp_all add: node_at_def)

lemma io_works: "pd_faults p = [] \<Longrightarrow> io st f p = f p"
  by (simp add: io_def)

lemma bindP_simps:
  "m p = (Inr x, p') \<Longrightarrow> bindP m f p = f x p'" "m p = (Inl e, p') \<Longrightarrow> bindP m f p = (Inl e, p')"
  by (simp_all add: bindP_def)

lemma bindP_Inr:
  assumes "bindP m f p = (Inr y, p'')"
  obtains x p' where "m p = (Inr x, p')" "f x p' = (Inr y, p'')"
  using assms by (auto simp: bindP_def split: prod.splits sum.splits)

lemma io_Inr:
  assumes "io st f p = (Inr y, p')"
  obtains fs where "f (p\<lparr>pd_faults := fs\<rparr>) = (Inr y, p')"
proof (cases "pd_faults p")
  case Nil
  then have e: "p\<lparr>pd_faults := []\<rparr> = p" by (cases p) simp
  show ?thesis by (rule that[of "[]"]) (use assms Nil in \<open>simp add: io_def e\<close>)
next
  case (Cons a fs)
  then show ?thesis using assms that[of fs] by (cases a) (simp_all add: io_def)
qed

end
