(* ===== verification/Runner_Init.thy ===== *)
theory Runner_Init
  imports Runner_Pod
begin

text \<open>
  The init container of a runner pod (\<^verbatim>\<open>internal/runner/init.go\<close>): it puts the compiled test, its configuration with
  the secrets filled in, the wrapper and the start script into the shared directory.  The text of the default start script
  is the argument \<open>script\<close>.  A temporary file never outlives the download that made it, so only the failures of the
  calls on it are modelled.  Permission bits are written in decimal: 493 is \<^verbatim>\<open>0755\<close>, 420 is \<^verbatim>\<open>0644\<close>.
\<close>

section \<open>Operations\<close>

text \<open>\<open>os.MkdirAll\<close>; the directories above are not listed by anything and left out.\<close>

definition make_dir :: "string \<Rightarrow> unit pod_op" where
  "make_dir dir = io Making_dir (\<lambda>p.
     case node_at dir p of
       Some (File c m) \<Rightarrow> (Inl (Rerr_io Making_dir ''not a directory''), p)
     | _ \<Rightarrow> (Inr (), set_node dir Dir p))"

definition rename_to :: "string \<Rightarrow> string \<Rightarrow> nat \<Rightarrow> unit pod_op" where
  "rename_to dst c perm = io Renaming (\<lambda>p.
     if node_at dst p = Some Dir then (Inl (Rerr_io Renaming ''file exists''), p)
     else (Inr (), set_node dst (File c perm) p))"

definition call_only :: "runner_step \<Rightarrow> unit pod_op" where
  "call_only st = io st (returnP ())"

definition download_to_file :: "string \<Rightarrow> string \<Rightarrow> nat \<Rightarrow> unit pod_op" where
  "download_to_file key dst perm =
     bindP (pod_download key) (\<lambda>c. bindP (call_only Temp_file) (\<lambda>_. bindP (call_only Copying) (\<lambda>_.
       bindP (call_only Closing) (\<lambda>_. bindP (call_only Changing_mode) (\<lambda>_. rename_to dst c perm)))))"

definition open_source :: "string \<Rightarrow> unit pod_op" where
  "open_source src = io Copying (\<lambda>p.
     case node_at src p of
       None \<Rightarrow> (Inl (Rerr_io Copying ''no such file or directory''), p) | Some _ \<Rightarrow> (Inr (), p))"

definition fill_file :: "string \<Rightarrow> string \<Rightarrow> unit pod_op" where
  "fill_file src dst = io Copying (\<lambda>p.
     case node_at src p of
       Some (File c _) \<Rightarrow>
         (case node_at dst p of
            Some (File _ m) \<Rightarrow> (Inr (), set_node dst (File c m) p)
          | _ \<Rightarrow> (Inl (Rerr_io Copying ''bad file descriptor''), p))
     | _ \<Rightarrow> (Inl (Rerr_io Copying ''is a directory''), p))"

definition change_mode :: "string \<Rightarrow> nat \<Rightarrow> unit pod_op" where
  "change_mode path perm = io Changing_mode (\<lambda>p.
     case node_at path p of
       None \<Rightarrow> (Inl (Rerr_io Changing_mode ''no such file or directory''), p)
     | Some Dir \<Rightarrow> (Inr (), p)
     | Some (File c _) \<Rightarrow> (Inr (), set_node path (File c perm) p))"

definition copy_file :: "string \<Rightarrow> string \<Rightarrow> nat \<Rightarrow> unit pod_op" where
  "copy_file src dst perm =
     bindP (open_source src) (\<lambda>_. bindP (write_file Copying dst '''' perm) (\<lambda>_. bindP (fill_file src dst) (\<lambda>_. change_mode dst perm)))"

definition resolve_secrets :: "string \<Rightarrow> string \<Rightarrow> unit pod_op" where
  "resolve_secrets dir config =
     bindP (load_secrets dir) (\<lambda>secrets p.
       if secrets = [] then (Inr (), p)
       else if node_at config p = None then (Inr (), p)
       else bindP (read_file Reading_config config) (\<lambda>raw.
              write_file Writing_config config (resolve_template_placeholders raw (map_of secrets)) 420) p)"

definition place_entrypoint :: "string \<Rightarrow> string \<Rightarrow> string \<Rightarrow> unit pod_op" where
  "place_entrypoint script source dst p =
     (if source \<noteq> '''' then copy_file source dst 493 p
      else if node_at dst p = None then write_file Writing_config dst script 493 p
      else (Inr (), p))"

definition runner_init :: "string \<Rightarrow> init_cfg \<Rightarrow> unit pod_op" where
  "runner_init script cfg =
     (case init_validate cfg of
        Inl e \<Rightarrow> failP e
      | Inr c \<Rightarrow>
          (let dir = ic_shared_dir c; config = path_join dir ''vuhive.yaml''
           in bindP (make_dir dir) (\<lambda>_. bindP (download_to_file (ic_binary_key c) (path_join dir ''runner'') 493) (\<lambda>_.
              bindP (if ic_config_key c \<noteq> '''' then download_to_file (ic_config_key c) config 420 else returnP ()) (\<lambda>_.
              bindP (resolve_secrets (ic_secrets_dir c) config) (\<lambda>_.
              bindP (if ic_wrapper_source c \<noteq> '''' then copy_file (ic_wrapper_source c) (path_join dir ''runner-wrapper'') 493
                     else returnP ()) (\<lambda>_.
              place_entrypoint script (ic_entrypoint_source c) (path_join dir ''entrypoint.sh''))))))))"

section \<open>What the operations change\<close>

text \<open>\<open>only path m\<close>: the operation \<open>m\<close> touches no file but the one at \<open>path\<close>, and neither the store nor the network.\<close>

definition only :: "string \<Rightarrow> 'a pod_op \<Rightarrow> bool" where
  "only path m \<longleftrightarrow>
     (\<forall>p r p'. m p = (r, p') \<longrightarrow> pd_objects p' = pd_objects p \<and> pd_sent p' = pd_sent p \<and>
        (\<forall>q. clean_path q \<noteq> clean_path path \<longrightarrow> node_at q p' = node_at q p))"

lemma onlyD:
  assumes "only path m" and "m p = (r, p')"
  shows "pd_objects p' = pd_objects p" and "pd_sent p' = pd_sent p"
    and "clean_path q \<noteq> clean_path path \<Longrightarrow> node_at q p' = node_at q p"
  using assms unfolding only_def by blast+

lemma only_bind:
  assumes "only path m" and "\<And>x. only path (f x)"
  shows "only path (bindP m f)"
  unfolding only_def
proof (intro allI impI)
  fix p r p'
  assume b: "bindP m f p = (r, p')"
  obtain y p1 where m: "m p = (y, p1)" by fastforce
  show "pd_objects p' = pd_objects p \<and> pd_sent p' = pd_sent p \<and> (\<forall>q. clean_path q \<noteq> clean_path path \<longrightarrow> node_at q p' = node_at q p)"
  proof (cases y)
    case (Inl e)
    then show ?thesis using b m onlyD[OF assms(1) m] by (auto simp: bindP_def)
  next
    case (Inr x)
    then have "f x p1 = (r, p')" using b m by (simp add: bindP_def)
    from onlyD[OF assms(2) this] onlyD[OF assms(1) m] show ?thesis by simp
  qed
qed

lemma only_io:
  assumes "\<And>p r p'. f p = (r, p') \<Longrightarrow> pd_objects p' = pd_objects p \<and> pd_sent p' = pd_sent p \<and>
    (\<forall>q. clean_path q \<noteq> clean_path path \<longrightarrow> node_at q p' = node_at q p)"
  shows "only path (io st f)"
  unfolding only_def io_def using assms by (auto split: list.splits option.splits dest!: assms)

lemma only_id: "(\<And>p. snd (f p) = p) \<Longrightarrow> only path (io st f)"
  by (rule only_io) (metis snd_conv)

lemma only_return: "only path (returnP x)" "only path (failP e)"
  by (simp_all add: only_def returnP_def failP_def)

lemma only_reads: "only path (read_file st q)" "only path (read_dir st q)" "only path (pod_download key)"
  "only path (call_only st)" "only path (open_source q)"
  by (auto simp: read_file_def read_dir_def pod_download_def call_only_def open_source_def returnP_def only_return
      intro!: only_id split: option.splits node.splits)

lemma only_writes: "only path (write_file st path c m)" "only path (rename_to path c m)" "only path (fill_file src path)"
  "only path (change_mode path m)" "only path (make_dir path)"
  by (auto simp: write_file_def rename_to_def fill_file_def change_mode_def make_dir_def node_at_set
      intro!: only_io split: option.splits node.splits if_splits)

lemma only_load_entries: "only path (load_entries dir ns)"
  by (induction ns) (auto intro!: only_bind only_return only_reads only_id split: option.splits)

lemma only_load: "only path (load_secrets dir)"
  by (auto simp: load_secrets_def intro!: only_bind only_return only_reads only_load_entries split: option.splits)

lemma only_download: "only dst (download_to_file key dst perm)"
  by (auto simp: download_to_file_def intro!: only_bind only_reads only_writes)

lemma only_copy: "only dst (copy_file src dst perm)"
  by (auto simp: copy_file_def intro!: only_bind only_reads only_writes)

lemma only_place: "only dst (place_entrypoint script src dst)"
  using only_copy[of dst src 493] only_writes(1)[of dst Writing_config script 493]
  by (auto simp: only_def place_entrypoint_def)

lemma only_everywhere:
  assumes "\<And>path. only path m" and "m p = (r, p')"
  shows "node_at q p' = node_at q p"
proof -
  have "clean_path ''a'' \<noteq> clean_path ''b''" by (simp add: clean_path_def)
  then have "clean_path q \<noteq> clean_path ''a'' \<or> clean_path q \<noteq> clean_path ''b''" by metis
  then show ?thesis using onlyD(3)[OF assms(1) assms(2)] by metis
qed

lemma call_only_files: "call_only st p = (r, p') \<Longrightarrow> node_at q p' = node_at q p"
  by (rule only_everywhere[where m = "call_only st"]) (simp_all add: only_reads)

lemma download_files: "pod_download key p = (r, p') \<Longrightarrow> node_at q p' = node_at q p"
  by (rule only_everywhere[where m = "pod_download key"]) (simp_all add: only_reads)

lemma bind_Inl:
  assumes "bindP m f p = (Inl e, p'')"
  obtains "m p = (Inl e, p'')" | x p' where "m p = (Inr x, p')" "f x p' = (Inl e, p'')"
  using assms by (auto simp: bindP_def split: prod.splits sum.splits)

lemma rename_result:
  assumes "rename_to dst c perm p = (r, p')"
  shows "r = Inr () \<Longrightarrow> node_at dst p' = Some (File c perm)" and "r = Inl e \<Longrightarrow> node_at q p' = node_at q p"
  using assms by (auto simp: rename_to_def io_def node_at_set split: list.splits option.splits if_splits)

lemma pod_download_Inr: "pod_download key p = (Inr c, p') \<Longrightarrow> trim_space key \<noteq> '''' \<and> pd_objects p (trim_space key) = Some c"
  by (auto simp: pod_download_def failP_def io_def split: if_splits list.splits option.splits)

lemma download_Inr:
  assumes "download_to_file key dst perm p = (Inr (), p')"
  shows "\<exists>c. pd_objects p (trim_space key) = Some c \<and> node_at dst p' = Some (File c perm)"
  using assms unfolding download_to_file_def
  by (auto elim!: bindP_Inr dest!: pod_download_Inr dest: rename_result)

lemma download_Inl: "download_to_file key dst perm p = (Inl e, p') \<Longrightarrow> node_at q p' = node_at q p"
  unfolding download_to_file_def
  by (elim bind_Inl; simp add: download_files call_only_files rename_result)

section \<open>What the init container leaves behind\<close>

lemma load_files: "load_secrets dir p = (r, p') \<Longrightarrow> node_at q p' = node_at q p"
  by (rule only_everywhere[where m = "load_secrets dir"]) (simp_all add: only_load)

lemma read_file_Inr:
  assumes "read_file st path p = (Inr c, p')"
  shows "(\<exists>m. node_at path p = Some (File c m)) \<and> node_at q p' = node_at q p"
  using assms by (auto simp: read_file_def io_def split: list.splits option.splits node.splits)

lemma write_file_Inr:
  assumes "write_file st path c m p = (Inr (), p')" and "node_at path p = Some (File c' m')"
  shows "node_at path p' = Some (File c m')"
  using assms by (auto simp: write_file_def io_def node_at_set split: list.splits option.splits)

lemma only_resolve: "only config (resolve_secrets dir config)"
proof -
  have "only config (bindP (read_file Reading_config config) (\<lambda>raw. write_file Writing_config config (f raw) 420))" for f
    by (intro only_bind only_reads only_writes)
  then have "only config (\<lambda>p. if secrets = [] then (Inr (), p) else if node_at config p = None then (Inr (), p)
      else bindP (read_file Reading_config config) (\<lambda>raw.
        write_file Writing_config config (resolve_template_placeholders raw (map_of secrets)) 420) p)" for secrets
    by (simp add: only_def)
  then show ?thesis unfolding resolve_secrets_def by (intro only_bind only_load)
qed

lemma resolve_Inr:
  assumes "resolve_secrets dir config p = (Inr (), p')" and "node_at config p = Some (File raw m)"
  obtains secrets q where "load_secrets dir p = (Inr secrets, q)"
    and "node_at config p' = Some (File (if secrets = [] then raw else resolve_template_placeholders raw (map_of secrets)) m)"
proof -
  obtain secrets q where l: "load_secrets dir p = (Inr secrets, q)"
    using assms(1) unfolding resolve_secrets_def by (elim bindP_Inr)
  have n: "node_at config q = Some (File raw m)" using load_files[OF l] assms(2) by simp
  have "node_at config p' = Some (File (if secrets = [] then raw else resolve_template_placeholders raw (map_of secrets)) m)"
  proof (cases "secrets = []")
    case True
    then show ?thesis using assms(1) n by (simp add: resolve_secrets_def bindP_def l)
  next
    case False
    then have "bindP (read_file Reading_config config) (\<lambda>raw.
        write_file Writing_config config (resolve_template_placeholders raw (map_of secrets)) 420) q = (Inr (), p')"
      using assms(1) n by (simp add: resolve_secrets_def bindP_simps(1)[of "load_secrets dir", OF l])
    then obtain c q1 where r: "read_file Reading_config config q = (Inr c, q1)"
      and w: "write_file Writing_config config (resolve_template_placeholders c (map_of secrets)) 420 q1 = (Inr (), p')"
      by (rule bindP_Inr)
    have "c = raw" "node_at config q1 = Some (File raw m)" using read_file_Inr[OF r, of config] n by auto
    then show ?thesis using write_file_Inr[OF w] False by simp
  qed
  with l show ?thesis by (rule that)
qed

lemma init_validated:
  assumes "init_validate cfg = Inr c"
  shows "ic_shared_dir c \<noteq> ''''" "trim_space (ic_binary_key c) = ic_binary_key c" "trim_space (ic_config_key c) = ic_config_key c"
  using assms by (auto simp: init_validate_def or_default_def split: if_splits)

lemma init_parts: "plain_part ''runner''" "plain_part ''vuhive.yaml''" "plain_part ''runner-wrapper''" "plain_part ''entrypoint.sh''"
  by (simp_all add: plain_part_def)

lemma init_files:
  assumes "runner_init script cfg p = (Inr (), p')"
  obtains c bin p3 where "init_validate cfg = Inr c" "pd_objects p (ic_binary_key c) = Some bin"
    "node_at (path_join (ic_shared_dir c) ''runner'') p' = Some (File bin 493)"
    "\<And>q. clean_path q \<notin> {clean_path (ic_shared_dir c), path_join (ic_shared_dir c) ''runner'', path_join (ic_shared_dir c) ''vuhive.yaml''}
       \<Longrightarrow> node_at q p3 = node_at q p"
    "ic_config_key c \<noteq> '''' \<Longrightarrow> \<exists>raw secrets q. pd_objects p (ic_config_key c) = Some raw \<and>
       load_secrets (ic_secrets_dir c) p3 = (Inr secrets, q) \<and>
       node_at (path_join (ic_shared_dir c) ''vuhive.yaml'') p' =
         Some (File (if secrets = [] then raw else resolve_template_placeholders raw (map_of secrets)) 420)"
proof -
  obtain c where c: "init_validate cfg = Inr c" using assms by (auto simp: runner_init_def failP_def split: sum.splits)
  define dir where "dir = ic_shared_dir c"
  define config where "config = path_join dir ''vuhive.yaml''"
  note v = init_validated[OF c]
  have ne: "path_join dir a \<noteq> path_join dir b" if "a \<noteq> b" "plain_part a" "plain_part b" for a b
    using path_join_inj[of dir a b] that v(1) dir_def by auto
  note run = assms[unfolded runner_init_def c sum.case Let_def, folded dir_def, folded config_def]
  obtain p1 where m: "make_dir dir p = (Inr (), p1)" and run1: "bindP (download_to_file (ic_binary_key c) (path_join dir ''runner'') 493) (\<lambda>_.
      bindP (if ic_config_key c \<noteq> '''' then download_to_file (ic_config_key c) config 420 else returnP ()) (\<lambda>_.
      bindP (resolve_secrets (ic_secrets_dir c) config) (\<lambda>_.
      bindP (if ic_wrapper_source c \<noteq> '''' then copy_file (ic_wrapper_source c) (path_join dir ''runner-wrapper'') 493 else returnP ()) (\<lambda>_.
      place_entrypoint script (ic_entrypoint_source c) (path_join dir ''entrypoint.sh''))))) p1 = (Inr (), p')"
    using run by (rule bindP_Inr) auto
  obtain p2 where d: "download_to_file (ic_binary_key c) (path_join dir ''runner'') 493 p1 = (Inr (), p2)" and run2:
      "bindP (if ic_config_key c \<noteq> '''' then download_to_file (ic_config_key c) config 420 else returnP ()) (\<lambda>_.
      bindP (resolve_secrets (ic_secrets_dir c) config) (\<lambda>_.
      bindP (if ic_wrapper_source c \<noteq> '''' then copy_file (ic_wrapper_source c) (path_join dir ''runner-wrapper'') 493 else returnP ()) (\<lambda>_.
      place_entrypoint script (ic_entrypoint_source c) (path_join dir ''entrypoint.sh'')))) p2 = (Inr (), p')"
    using run1 by (rule bindP_Inr) auto
  obtain p3 where g: "(if ic_config_key c \<noteq> '''' then download_to_file (ic_config_key c) config 420 else returnP ()) p2 = (Inr (), p3)"
    and run3: "bindP (resolve_secrets (ic_secrets_dir c) config) (\<lambda>_.
      bindP (if ic_wrapper_source c \<noteq> '''' then copy_file (ic_wrapper_source c) (path_join dir ''runner-wrapper'') 493 else returnP ()) (\<lambda>_.
      place_entrypoint script (ic_entrypoint_source c) (path_join dir ''entrypoint.sh''))) p3 = (Inr (), p')"
    using run2 by (rule bindP_Inr) auto
  obtain p4 where s: "resolve_secrets (ic_secrets_dir c) config p3 = (Inr (), p4)" and run4:
      "bindP (if ic_wrapper_source c \<noteq> '''' then copy_file (ic_wrapper_source c) (path_join dir ''runner-wrapper'') 493 else returnP ()) (\<lambda>_.
      place_entrypoint script (ic_entrypoint_source c) (path_join dir ''entrypoint.sh'')) p4 = (Inr (), p')"
    using run3 by (rule bindP_Inr) auto
  obtain p5 where w: "(if ic_wrapper_source c \<noteq> '''' then copy_file (ic_wrapper_source c) (path_join dir ''runner-wrapper'') 493 else returnP ()) p4 = (Inr (), p5)"
    and e: "place_entrypoint script (ic_entrypoint_source c) (path_join dir ''entrypoint.sh'') p5 = (Inr (), p')"
    using run4 by (rule bindP_Inr) auto
  have og: "only config (if ic_config_key c \<noteq> '''' then download_to_file (ic_config_key c) config 420 else returnP ())"
    and ow: "only (path_join dir ''runner-wrapper'') (if ic_wrapper_source c \<noteq> '''' then copy_file (ic_wrapper_source c) (path_join dir ''runner-wrapper'') 493 else returnP ())"
    by (simp_all add: only_download only_return only_copy)
  note o1 = onlyD[OF only_writes(5) m] and o2 = onlyD[OF only_download d] and o3 = onlyD[OF og g]
    and o4 = onlyD[OF only_resolve s] and o5 = onlyD[OF ow w] and o6 = onlyD[OF only_place e]
  obtain bin where bin: "pd_objects p1 (ic_binary_key c) = Some bin" "node_at (path_join dir ''runner'') p2 = Some (File bin 493)"
    using download_Inr[OF d] v(2) by auto
  have late: "node_at (path_join dir n) p' = node_at (path_join dir n) p4"
    if "n \<noteq> ''runner-wrapper''" "n \<noteq> ''entrypoint.sh''" "plain_part n" for n
    using o6(3)[of "path_join dir n"] o5(3)[of "path_join dir n"] ne[OF that(1) that(3)] ne[OF that(2) that(3)] init_parts by simp
  have early: "node_at q p3 = node_at q p"
    if "clean_path q \<notin> {clean_path dir, path_join dir ''runner'', config}" for q
    using o3(3)[of q] o2(3)[of q] o1(3)[of q] that by (simp add: config_def)
  have "node_at (path_join dir ''runner'') p4 = Some (File bin 493)"
    using o4(3)[of "path_join dir ''runner''"] o3(3)[of "path_join dir ''runner''"] bin(2) ne[of "''runner''" "''vuhive.yaml''"] init_parts
    by (simp add: config_def)
  then have runner: "node_at (path_join dir ''runner'') p' = Some (File bin 493)" using late[of "''runner''"] init_parts by simp
  have conf: "\<exists>raw secrets q. pd_objects p (ic_config_key c) = Some raw \<and> load_secrets (ic_secrets_dir c) p3 = (Inr secrets, q) \<and>
      node_at config p' = Some (File (if secrets = [] then raw else resolve_template_placeholders raw (map_of secrets)) 420)"
    if "ic_config_key c \<noteq> ''''"
  proof -
    note key = that
    obtain raw where raw: "pd_objects p2 (ic_config_key c) = Some raw" "node_at config p3 = Some (File raw 420)"
      using download_Inr[of "ic_config_key c" config 420 p2 p3] g key v(3) by auto
    obtain secrets q where "load_secrets (ic_secrets_dir c) p3 = (Inr secrets, q)"
      "node_at config p4 = Some (File (if secrets = [] then raw else resolve_template_placeholders raw (map_of secrets)) 420)"
      using resolve_Inr[OF s raw(2)] by blast
    moreover have "node_at config p' = node_at config p4" using late[of "''vuhive.yaml''"] init_parts by (simp add: config_def)
    ultimately show ?thesis using raw(1) o1(1) o2(1) by auto
  qed
  show ?thesis
    by (rule that[OF c _ runner[unfolded dir_def] _ conf[unfolded config_def dir_def]])
      (use bin(1) o1(1) early in \<open>auto simp: config_def dir_def\<close>)
qed

section \<open>Properties\<close>

text \<open>
  A download to a file is atomic.  Whatever call fails, every file of the pod is as before; when it succeeds the
  destination holds exactly the stored object with the wanted permissions, and no other file has changed.
\<close>

theorem download_atomic:
  assumes "download_to_file key dst perm p = (r, p')"
  shows "(case r of
       Inl e \<Rightarrow> \<forall>q. node_at q p' = node_at q p
     | Inr u \<Rightarrow> (\<exists>c. pd_objects p (trim_space key) = Some c \<and> node_at dst p' = Some (File c perm)) \<and>
         (\<forall>q. clean_path q \<noteq> clean_path dst \<longrightarrow> node_at q p' = node_at q p)) \<and>
     pd_objects p' = pd_objects p"
  using download_Inr[of key dst perm p p'] download_Inl[of key dst perm p _ p'] onlyD[OF only_download assms] assms
  by (cases r) auto

definition demo_pod :: pod where
  "demo_pod = \<lparr>pd_files = [(''/shared/runner'', File ''old'' 420)], pd_objects = [''bin'' \<mapsto> ''new''], pd_sent = [],
     pd_answers = [], pd_faults = [], pd_now = 0\<rparr>"

theorem download_atomic_witness:
  "node_at ''/shared/runner'' (snd (download_to_file ''bin'' ''/shared/runner'' 493 demo_pod)) = Some (File ''new'' 493) \<and>
   node_at ''/shared/runner'' (snd (download_to_file ''bin'' ''/shared/runner'' 493 (demo_pod\<lparr>pd_faults := [None, None, Some ''disk full'']\<rparr>)))
     = Some (File ''old'' 420)"
proof -
  have a: "fst (download_to_file ''bin'' ''/shared/runner'' 493 demo_pod) = Inr ()"
    by (simp add: download_to_file_def bindP_def pod_download_def io_def call_only_def returnP_def rename_to_def demo_pod_def
        node_at_def clean_path_def trim_space_graphic graphic_def)
  have b: "fst (download_to_file ''bin'' ''/shared/runner'' 493 (demo_pod\<lparr>pd_faults := [None, None, Some ''disk full'']\<rparr>))
      = Inl (Rerr_io Copying ''disk full'')"
    by (simp add: download_to_file_def bindP_def pod_download_def io_def call_only_def returnP_def rename_to_def demo_pod_def
        trim_space_graphic graphic_def)
  have src: "pd_objects demo_pod (trim_space ''bin'') = Some ''new''" "node_at ''/shared/runner'' demo_pod = Some (File ''old'' 420)"
    by (simp_all add: demo_pod_def trim_space_graphic graphic_def node_at_def clean_path_def)
  from download_atomic[OF prod.collapse[symmetric], of "''bin''" "''/shared/runner''" 493 demo_pod] a src
    download_atomic[OF prod.collapse[symmetric], of "''bin''" "''/shared/runner''" 493 "demo_pod\<lparr>pd_faults := [None, None, Some ''disk full'']\<rparr>"] b
  show ?thesis by auto
qed

end
