(* ===== verification/Go_Clock.thy ===== *)
theory Go_Clock
  imports Json_Encode Go_Time
begin

text \<open>
  Times as text: \<open>time.RFC3339\<close> in UTC and \<open>time.RFC3339Nano\<close> in a zone, which \<open>json.Marshal\<close> writes for a time.  The
  parser of \<open>Go_Time\<close> reads the second form back.  A zone is its offset from UTC in seconds.
\<close>

section \<open>Dates\<close>

text \<open>Year and day of the year of a day, by cycles of 400, 100, 4 and 1 years; then the month.\<close>

definition civil_year :: "int \<Rightarrow> int \<times> int" where
  "civil_year days =
     (let n400 = days div 146097; d400 = days mod 146097;
          n100 = min 3 (d400 div 36524); d100 = d400 - n100 * 36524;
          n4 = d100 div 1461; d4 = d100 mod 1461;
          n1 = min 3 (d4 div 365)
      in (400 * n400 + 100 * n100 + 4 * n4 + n1 + 1, d4 - n1 * 365))"

fun month_day :: "int \<Rightarrow> int \<Rightarrow> int list \<Rightarrow> int \<times> int" where
  "month_day y d [] = (12, d + 1)"
| "month_day y d (m # ms) = (if d < days_in_month y m then (m, d + 1) else month_day y (d - days_in_month y m) ms)"

definition zero_padded :: "nat \<Rightarrow> int \<Rightarrow> string" where
  "zero_padded k n = replicate (k - length (itoa n)) (CHR ''0'') @ itoa n"

definition date_clock :: "time \<Rightarrow> string" where
  "date_clock t =
     (let s = t div second; days = s div 86400; r = s mod 86400; (y, yd) = civil_year days; (m, d) = month_day y yd [1..12]
      in zero_padded 4 y @ ''-'' @ zero_padded 2 m @ ''-'' @ zero_padded 2 d @ ''T'' @ zero_padded 2 (r div 3600) @ '':'' @
         zero_padded 2 (r div 60 mod 60) @ '':'' @ zero_padded 2 (r mod 60))"

definition rfc3339 :: "time \<Rightarrow> string" where
  "rfc3339 t = date_clock t @ ''Z''"

text \<open>The fraction without its trailing zeros, and the offset in hours and minutes.\<close>

definition nano_part :: "int \<Rightarrow> string" where
  "nano_part ns = (if ns = 0 then [] else CHR ''.'' # trim_right_char (zero_padded 9 ns) (CHR ''0''))"

definition zone_part :: "int \<Rightarrow> string" where
  "zone_part off =
     (if off = 0 then ''Z''
      else (if off < 0 then CHR ''-'' else CHR ''+'') # zero_padded 2 (abs off div 3600) @ '':'' @ zero_padded 2 (abs off div 60 mod 60))"

definition rfc3339_nano :: "int \<Rightarrow> time \<Rightarrow> string" where
  "rfc3339_nano off t = date_clock (t + off * second) @ nano_part (t mod second) @ zone_part off"

text \<open>\<open>Time.MarshalJSON\<close> fails for a year of more than four digits and for an offset of a day or more.\<close>

definition year_of :: "time \<Rightarrow> int" where
  "year_of t = fst (civil_year (t div second div 86400))"

definition json_time :: "int \<Rightarrow> time \<Rightarrow> json option" where
  "json_time off t =
     (if 0 \<le> year_of (t + off * second) \<and> year_of (t + off * second) \<le> 9999 \<and> abs off < 24 * 3600
      then Some (J_str (rfc3339_nano off t)) else None)"

text \<open>\<open>Time.UnmarshalJSON\<close>.  A time stamp that is written with escapes is refused by Go and does not occur here.\<close>

definition get_time :: "json \<Rightarrow> time \<Rightarrow> time option" where
  "get_time v old = (case v of J_null \<Rightarrow> Some old | J_str s \<Rightarrow> parse_timestamp s | _ \<Rightarrow> None)"

section \<open>The calendar is inverted\<close>

definition year_length :: "int \<Rightarrow> int" where
  "year_length y = (if leap_year y then 366 else 365)"

lemma clamped_div:
  fixes x k n :: int
  assumes "n = min 3 (x div k)" and "0 < k" and "0 \<le> x" and "x < 4 * k + 1"
  shows "0 \<le> n" "n \<le> 3" "0 \<le> x - n * k" "n < 3 \<longrightarrow> x - n * k < k" "x - n * k < k + 1"
proof -
  have m: "x - (x div k) * k = x mod k" "0 \<le> x mod k" "x mod k < k" "0 \<le> x div k"
    using assms(2,3) by (simp_all add: minus_div_mult_eq_mod pos_imp_zdiv_nonneg_iff)
  have "0 \<le> n \<and> n \<le> 3 \<and> 0 \<le> x - n * k \<and> (n < 3 \<longrightarrow> x - n * k < k) \<and> x - n * k < k + 1"
  proof (cases "x div k \<le> 3")
    case True
    then have "n = x div k" using assms(1) by simp
    then show ?thesis using m True by simp
  next
    case False
    then have "n = 3" using assms(1) by simp
    moreover have "4 * k \<le> (x div k) * k" using False assms(2) by (intro mult_right_mono) auto
    then have "4 * k \<le> x" using m(1,2) by linarith
    ultimately show ?thesis using assms(2,4) by simp
  qed
  then show "0 \<le> n" "n \<le> 3" "0 \<le> x - n * k" "n < 3 \<longrightarrow> x - n * k < k" "x - n * k < k + 1" by simp_all
qed

lemma mod_end:
  fixes r k q :: int
  assumes "y = r + k * q" and "0 < r" and "r \<le> k"
  shows "y mod k = 0 \<longleftrightarrow> r = k"
proof (cases "r = k")
  case False
  then have "r mod k = r" using assms by (intro mod_pos_pos_trivial) simp_all
  then show ?thesis using assms False by simp
qed (simp add: assms(1))

lemma civil_year_inverse:
  assumes "civil_year days = (y, yd)"
  shows "365 * (y - 1) + (y - 1) div 4 - (y - 1) div 100 + (y - 1) div 400 + yd = days \<and> 0 \<le> yd \<and> yd < year_length y"
proof -
  define n400 d400 where "n400 = days div 146097" and "d400 = days mod 146097"
  define n100 d100 where "n100 = min 3 (d400 div 36524)" and "d100 = d400 - n100 * 36524"
  define n4 d4 where "n4 = d100 div 1461" and "d4 = d100 mod 1461"
  define n1 where "n1 = min 3 (d4 div 365)"
  have y: "y = 400 * n400 + 100 * n100 + 4 * n4 + n1 + 1" "yd = d4 - n1 * 365"
    using assms by (simp_all only: civil_year_def Let_def n400_def[symmetric] d400_def[symmetric] n100_def[symmetric]
      d100_def[symmetric] n4_def[symmetric] d4_def[symmetric] n1_def[symmetric] prod.inject)
  have a: "days = 146097 * n400 + d400" "0 \<le> d400" "d400 < 146097" by (simp_all add: n400_def d400_def)
  have b: "0 \<le> n100" "n100 \<le> 3" "0 \<le> d100" "n100 < 3 \<longrightarrow> d100 < 36524" "d100 < 36525" "d400 = 36524 * n100 + d100"
    using clamped_div[OF n100_def] a(2,3) unfolding d100_def by simp_all
  have e: "d100 = 1461 * n4 + d4" "0 \<le> d4" "d4 < 1461" by (simp_all add: n4_def d4_def)
  have c: "0 \<le> n4" "n4 \<le> 24" "d100 = 1461 * n4 + d4" "0 \<le> d4" "d4 < 1461" "n4 = 24 \<and> n100 < 3 \<longrightarrow> d4 < 1460"
    using b(3,4,5) e by linarith+
  have d: "0 \<le> n1" "n1 \<le> 3" "0 \<le> d4 - n1 * 365" "n1 < 3 \<longrightarrow> d4 - n1 * 365 < 365" "d4 - n1 * 365 < 366"
    using clamped_div[OF n1_def] c(4,5) by simp_all
  have q: "(y - 1) div 4 = 100 * n400 + 25 * n100 + n4" "(y - 1) div 100 = 4 * n400 + n100" "(y - 1) div 400 = n400"
    using b(1,2) c(1,2) d(1,2) unfolding y(1) by linarith+
  have leap: "leap_year y \<longleftrightarrow> n1 = 3 \<and> (n4 \<noteq> 24 \<or> n100 = 3)"
  proof -
    have "y mod 4 = 0 \<longleftrightarrow> n1 = 3"
      using mod_end[of y "n1 + 1" 4 "100 * n400 + 25 * n100 + n4"] d(1,2) by (simp add: y(1))
    moreover have "4 * n4 + n1 + 1 = 100 \<longleftrightarrow> n4 = 24 \<and> n1 = 3" using c(1,2) d(1,2) by (intro iffI conjI) linarith+
    then have "y mod 100 = 0 \<longleftrightarrow> n4 = 24 \<and> n1 = 3"
      using mod_end[of y "4 * n4 + n1 + 1" 100 "4 * n400 + n100"] c(1,2) d(1,2) by (simp add: y(1))
    moreover have "100 * n100 + 4 * n4 + n1 + 1 = 400 \<longleftrightarrow> n100 = 3 \<and> n4 = 24 \<and> n1 = 3"
      using b(1,2) c(1,2) d(1,2) by (intro iffI conjI) linarith+
    then have "y mod 400 = 0 \<longleftrightarrow> n100 = 3 \<and> n4 = 24 \<and> n1 = 3"
      using mod_end[of y "100 * n100 + 4 * n4 + n1 + 1" 400 n400] b(1,2) c(1,2) d(1,2) by (simp add: y(1))
    ultimately show ?thesis unfolding leap_year_def by metis
  qed
  have "yd < year_length y"
    using b(2) c(2,5,6) d(2,4,5) unfolding year_length_def leap y(2) by auto
  moreover have "365 * (y - 1) + (y - 1) div 4 - (y - 1) div 100 + (y - 1) div 400 + yd = days"
    unfolding q unfolding y a(1) b(6) c(3) by simp
  ultimately show ?thesis using d(3) y(2) by simp
qed

lemma days_in_month_pos: "0 < days_in_month y m" "days_in_month y m \<le> 31"
  by (simp_all add: days_in_month_def)

lemma month_day_inverse:
  assumes "month_day y d ms = (m, e)" and "0 \<le> d" and "d < sum_list (map (days_in_month y) ms)"
  shows "\<exists>as bs. ms = as @ m # bs \<and> sum_list (map (days_in_month y) as) + (e - 1) = d \<and> 1 \<le> e \<and> e \<le> days_in_month y m"
  using assms
proof (induction y d ms rule: month_day.induct)
  case (2 y d m1 ms)
  show ?case
  proof (cases "d < days_in_month y m1")
    case True
    with 2 show ?thesis by (intro exI[of _ "[]"] exI[of _ ms]) auto
  next
    case False
    with 2 obtain as bs where "ms = as @ m # bs" "sum_list (map (days_in_month y) as) + (e - 1) = d - days_in_month y m1"
      "1 \<le> e" "e \<le> days_in_month y m" by auto
    then show ?thesis by (intro exI[of _ "m1 # as"] exI[of _ bs]) simp
  qed
qed simp

lemma twelve_months: "[1..12] = [1, 2, 3, 4, 5, 6, 7, 8, 9, 10, 11, 12 :: int]"
  by code_simp

lemma year_sum: "sum_list (map (days_in_month y) [1..12]) = year_length y"
  unfolding twelve_months by (simp add: days_in_month_def year_length_def)

lemma months_before: "[1..12] = as @ m # bs \<Longrightarrow> as = [1..m - 1] \<and> 1 \<le> m \<and> m \<le> (12 :: int)"
proof -
  assume a: "[1..12] = as @ m # bs"
  have l: "length as < 12" using arg_cong[OF a, of length] by simp
  have m: "m = 1 + int (length as)"
    using arg_cong[OF a, of "\<lambda>l. l ! length as"] l by (simp add: nth_upto nth_append)
  have "as = take (length as) [1..12]" using a by simp
  also have "\<dots> = [1..int (length as)]" using l by (intro nth_equalityI) (simp_all add: nth_upto)
  finally show ?thesis using m l by simp
qed

lemma date_inverse:
  assumes "civil_year days = (y, yd)" and "month_day y yd [1..12] = (m, d)"
  shows "days_before y m d = days" "1 \<le> m" "m \<le> 12" "1 \<le> d" "d \<le> days_in_month y m"
proof -
  have c: "365 * (y - 1) + (y - 1) div 4 - (y - 1) div 100 + (y - 1) div 400 + yd = days" "0 \<le> yd" "yd < year_length y"
    using civil_year_inverse[OF assms(1)] by simp_all
  obtain as bs where a: "[1..12] = as @ m # bs" "sum_list (map (days_in_month y) as) + (d - 1) = yd" "1 \<le> d" "d \<le> days_in_month y m"
    using month_day_inverse[OF assms(2) c(2)] c(3) year_sum by auto
  have m: "as = [1..m - 1]" "1 \<le> m" "m \<le> 12" using months_before[OF a(1)] by simp_all
  show "days_before y m d = days" using c(1) a(2) unfolding m(1) by (simp add: days_before_def)
  show "1 \<le> m" "m \<le> 12" "1 \<le> d" "d \<le> days_in_month y m" using m a by simp_all
qed

section \<open>The text is read back\<close>

lemma code_digit: "k < 10 \<Longrightarrow> code (digit_char k) = 48 + int k"
proof -
  assume "k < 10"
  moreover have "code (digit_char k) = int (of_char (char_of (48 + k) :: char))" by (simp only: code_def digit_char_def of_nat_of_char)
  ultimately show ?thesis unfolding of_char_of by simp
qed

lemma nat_digits_step: "10 \<le> n \<Longrightarrow> nat_digits n = nat_digits (n div 10) @ [digit_char (n mod 10)]"
  by (subst nat_digits.simps) simp

lemma nat_digits_one: "n < 10 \<Longrightarrow> nat_digits n = [digit_char n]"
  by (subst nat_digits.simps) simp

lemma zero_digit: "digit_char 0 = CHR ''0''"
  by code_simp

lemma two_padded_digits: "n < 100 \<Longrightarrow> zero_padded 2 (int n) = [digit_char (n div 10), digit_char (n mod 10)]"
  by (cases "n < 10") (simp_all add: zero_padded_def itoa_def nat_digits_one nat_digits_step zero_digit numeral_2_eq_2)

lemma two_padded:
  assumes "lo \<le> n" and "n \<le> hi" and "0 \<le> n" and "n < 100"
  shows "\<exists>a b. zero_padded 2 n = [a, b] \<and> is_digit a \<and> is_digit b \<and> two_digits a b lo hi = Some n"
proof -
  define k where "k = nat n"
  have k: "n = int k" "k < 100" "k div 10 < 10" using assms by (simp_all add: k_def nat_less_iff)
  have "int (k div 10) * 10 + int (k mod 10) = n" using div_mult_mod_eq[of k 10] k(1) by linarith
  then show ?thesis
    using assms(1,2) k two_padded_digits[OF k(2)] by (simp add: two_digits_def code_digit is_digit_char Let_def)
qed

lemma nat_digits_split: "100 \<le> n \<Longrightarrow> nat_digits n = nat_digits (n div 100) @ zero_padded 2 (int (n mod 100))"
proof -
  assume n: "100 \<le> n"
  have "nat_digits n = nat_digits (n div 100) @ [digit_char (n div 10 mod 10), digit_char (n mod 10)]"
    using n nat_digits_step[of n] nat_digits_step[of "n div 10"] by (simp add: div_mult2_eq[symmetric])
  moreover have "n mod 100 div 10 = n div 10 mod 10" "n mod 100 mod 10 = n mod 10"
    using mod_mult2_eq[of n 10 10] by simp_all
  ultimately show ?thesis using two_padded_digits[of "n mod 100"] by simp
qed

lemma four_padded:
  assumes "0 \<le> y" and "y \<le> 9999"
  shows "zero_padded 4 y = zero_padded 2 (y div 100) @ zero_padded 2 (y mod 100)"
proof (cases "y < 100")
  case True
  have l: "length (itoa y) = 1 \<or> length (itoa y) = 2"
    using True assms by (cases "y < 10") (simp_all add: itoa_def nat_digits_one nat_digits_step nat_less_iff)
  have z: "zero_padded 2 0 = ''00''" using two_padded_digits[of 0] by (simp add: zero_digit)
  have "zero_padded 4 y = ''00'' @ zero_padded 2 y" using l by (auto simp: zero_padded_def numeral_eq_Suc)
  then show ?thesis using True assms z by simp
next
  case False
  then have n: "100 \<le> nat y" by simp
  have s: "itoa y = itoa (y div 100) @ zero_padded 2 (y mod 100)"
    using nat_digits_split[OF n] False assms
    by (simp add: itoa_def nat_div_distrib nat_mod_distrib pos_imp_zdiv_neg_iff zmod_int)
  have l: "length (zero_padded 2 (y mod 100)) = 2"
    using two_padded[of 0 "y mod 100" 99] by auto
  show ?thesis using l unfolding zero_padded_def s by (simp add: zero_padded_def)
qed

lemma digits_value: "foldl (\<lambda>n x. n * 10 + (code x - 0x30)) 0 (nat_digits n) = int n"
proof (induction n rule: nat_digits.induct)
  case (1 n)
  show ?case
  proof (cases "n < 10")
    case True
    then show ?thesis by (subst nat_digits.simps) (simp add: code_digit)
  next
    case False
    have "int (n div 10) * 10 + int (n mod 10) = int n" using div_mult_mod_eq[of n 10] by linarith
    then show ?thesis using False 1 by (subst nat_digits.simps) (simp add: code_digit)
  qed
qed

lemma takeWhile_digits: "\<forall>c \<in> set p. is_digit c \<Longrightarrow> \<not> is_digit d \<Longrightarrow> takeWhile is_digit (p @ d # r) = p \<and> dropWhile is_digit (p @ d # r) = d # r"
  by (induction p) auto

lemma zone_start: "\<exists>c r. zone_part off = c # r \<and> \<not> is_digit c \<and> c \<noteq> CHR ''.'' \<and> c \<noteq> CHR '',''"
proof -
  have "\<not> is_digit (CHR ''Z'')" "\<not> is_digit (CHR ''+'')" "\<not> is_digit (CHR ''-'')" by code_simp+
  then show ?thesis by (simp add: zone_part_def)
qed

lemma zone_inverse:
  assumes "off mod 60 = 0" and "abs off < 24 * 3600"
  shows "parse_zone (zone_part off) = Some off"
proof (cases "off = 0")
  case True
  then show ?thesis by (simp add: zone_part_def parse_zone_def)
next
  case False
  obtain a b where h: "zero_padded 2 (abs off div 3600) = [a, b]" "two_digits a b 0 24 = Some (abs off div 3600)"
    using two_padded[of 0 "abs off div 3600" 24] assms(2) by fastforce
  obtain c d where m: "zero_padded 2 (abs off div 60 mod 60) = [c, d]" "two_digits c d 0 60 = Some (abs off div 60 mod 60)"
    using two_padded[of 0 "abs off div 60 mod 60" 60] by fastforce
  have q: "abs off div 3600 = abs off div 60 div 60" using zdiv_zmult2_eq[of 60 "abs off" 60] by simp
  have "60 dvd abs off" using assms(1) by (simp add: mod_eq_0_iff_dvd)
  then have "(abs off div 3600 * 60 + abs off div 60 mod 60) * 60 = abs off" unfolding q by simp
  then show ?thesis using False h m by (simp add: zone_part_def parse_zone_def Let_def)
qed

lemma nano_inverse:
  assumes "0 \<le> ns" and "ns < second"
  shows "fraction_nanos (nano_part ns @ zone_part off) = (ns, zone_part off)"
proof (cases "ns = 0")
  case True
  then show ?thesis using zone_start[of off] by (auto simp: nano_part_def fraction_nanos_def split: list.splits)
next
  case False
  define dec where "dec = foldl (\<lambda>n x. n * 10 + (code x - 0x30)) (0 :: int)"
  define p where "p = trim_right_char (zero_padded 9 ns) (CHR ''0'')"
  obtain k where k: "zero_padded 9 ns = p @ replicate k (CHR ''0'')"
  proof -
    have "zero_padded 9 ns = p @ rev (takeWhile (\<lambda>x. x = CHR ''0'') (rev (zero_padded 9 ns)))"
      unfolding p_def trim_right_char_def by (metis rev_append rev_rev_ident takeWhile_dropWhile_id)
    moreover have "takeWhile (\<lambda>x. x = CHR ''0'') l = replicate (length (takeWhile (\<lambda>x. x = CHR ''0'') l)) (CHR ''0'')" for l :: string
      by (rule replicate_length_same[symmetric]) (auto dest: set_takeWhileD)
    ultimately show thesis using that by (metis rev_replicate)
  qed
  have z: "dec (replicate n (CHR ''0'') @ s) = dec s" for n s
    by (induction n) (simp_all add: dec_def code_def)
  have zr: "dec (s @ replicate n (CHR ''0'')) = dec s * 10 ^ n" for n s
    by (induction n) (simp_all add: dec_def code_def replicate_append_same[symmetric])
  have v: "dec (zero_padded 9 ns) = ns"
    unfolding zero_padded_def z using assms(1) digits_value[of "nat ns"] by (simp add: dec_def itoa_def)
  have l: "length (zero_padded 9 ns) = 9"
  proof -
    have "length (nat_digits n) \<le> j" if "n < 10 ^ j" "0 < j" for n j :: nat
      using that
    proof (induction j arbitrary: n)
      case (Suc j)
      show ?case
      proof (cases "n < 10")
        case True
        then show ?thesis by (subst nat_digits.simps) simp
      next
        case False
        then have "0 < j" using Suc.prems(1) by (cases j) auto
        then have "length (nat_digits (n div 10)) \<le> j" using Suc by (simp add: less_mult_imp_div_less mult.commute)
        with False show ?thesis by (subst nat_digits.simps) simp
      qed
    qed simp
    from this[of "nat ns" 9] have "length (itoa ns) \<le> 9" using assms by (simp add: itoa_def)
    then show ?thesis by (simp add: zero_padded_def)
  qed
  have d: "\<forall>c \<in> set (zero_padded 9 ns). is_digit c"
  proof -
    have "is_digit CHR ''0''" by code_simp
    then show ?thesis using nat_digits_digits[of "nat ns"] assms(1) by (auto simp: zero_padded_def itoa_def)
  qed
  have pd: "\<forall>c \<in> set p. is_digit c" "length p + k = 9" using d l unfolding k by auto
  have pv: "dec p * 10 ^ (9 - length p) = ns" using v pd(2) unfolding k zr by (metis add_diff_cancel_left')
  have pn: "p \<noteq> []" using pv False by (auto simp: dec_def)
  obtain c r where zc: "zone_part off = c # r" "\<not> is_digit c" using zone_start by blast
  obtain e q where p: "p = e # q" using pn by (cases p) auto
  have t: "takeWhile is_digit (p @ zone_part off) = p" "dropWhile is_digit (p @ zone_part off) = zone_part off"
    using takeWhile_digits[OF pd(1) zc(2)] zc(1) by simp_all
  have n: "nano_part ns = CHR ''.'' # p" using False by (simp add: nano_part_def p_def)
  have "take 9 p = p" using pd(2) by simp
  then show ?thesis using t pv pd(1) unfolding n p by (simp add: fraction_nanos_def dec_def)
qed

lemma hour_read: "zero_padded 2 h = [a, b] \<Longrightarrow> 0 \<le> h \<Longrightarrow> h \<le> 23 \<Longrightarrow> parse_hour (a # b # r) = Some (h, r)"
  using two_padded[of 0 h 23] by (auto simp: parse_hour_def)

lemma timestamp_inverse:
  assumes off: "off mod 60 = 0" "abs off < 24 * 3600"
    and y: "0 \<le> year_of (t + off * second)" "year_of (t + off * second) \<le> 9999"
  shows "parse_timestamp (rfc3339_nano off t) = Some t"
proof -
  define u s where "u = t + off * second" and "s = u div second"
  define days r where "days = s div 86400" and "r = s mod 86400"
  obtain y yd where yd: "civil_year days = (y, yd)" by fastforce
  obtain m d where md: "month_day y yd [1..12] = (m, d)" by fastforce
  note inv = date_inverse[OF yd md]
  have yr: "0 \<le> y" "y \<le> 9999" using assms(3,4) yd by (simp_all add: year_of_def u_def s_def days_def)
  have r: "0 \<le> r" "r < 86400" by (simp_all add: r_def)
  have d31: "d \<le> 31" using inv(5) days_in_month_pos(2)[of y m] by simp
  obtain a1 a2 where Y1: "zero_padded 2 (y div 100) = [a1, a2]" "two_digits a1 a2 0 99 = Some (y div 100)"
    using two_padded[of 0 "y div 100" 99] yr by fastforce
  obtain a3 a4 where Y2: "zero_padded 2 (y mod 100) = [a3, a4]" "two_digits a3 a4 0 99 = Some (y mod 100)"
    using two_padded[of 0 "y mod 100" 99] by fastforce
  obtain b1 b2 where M: "zero_padded 2 m = [b1, b2]" "two_digits b1 b2 1 12 = Some m"
    using two_padded[of 1 m 12] inv(2,3) by fastforce
  obtain c1 c2 where D: "zero_padded 2 d = [c1, c2]" "two_digits c1 c2 1 31 = Some d"
    using two_padded[of 1 d 31] inv(4) d31 by fastforce
  have h: "0 \<le> r div 3600" "r div 3600 \<le> 23" using r by simp_all
  obtain d1 d2 where H: "zero_padded 2 (r div 3600) = [d1, d2]" using two_padded[of 0 "r div 3600" 23] h by fastforce
  obtain e1 e2 where I: "zero_padded 2 (r div 60 mod 60) = [e1, e2]" "two_digits e1 e2 0 59 = Some (r div 60 mod 60)"
    using two_padded[of 0 "r div 60 mod 60" 59] by fastforce
  obtain f1 f2 where S: "zero_padded 2 (r mod 60) = [f1, f2]" "two_digits f1 f2 0 59 = Some (r mod 60)"
    using two_padded[of 0 "r mod 60" 59] by fastforce
  have whole: "rfc3339_nano off t = [a1, a2, a3, a4] @ ''-'' @ [b1, b2] @ ''-'' @ [c1, c2] @ ''T'' @ [d1, d2] @ '':'' @ [e1, e2] @ '':'' @ [f1, f2]
      @ nano_part (t mod second) @ zone_part off"
    unfolding rfc3339_nano_def date_clock_def u_def[symmetric] s_def[symmetric] Let_def days_def[symmetric] r_def[symmetric] yd md
    by (simp add: md four_padded[OF yr] Y1 Y2 M D H I S)
  have ns: "0 \<le> t mod second" "t mod second < second" by (simp_all add:)
  have clock: "parse_clock (r div 3600) ('':'' @ [e1, e2] @ '':'' @ [f1, f2] @ nano_part (t mod second) @ zone_part off) =
      Some ((r - off) * second + t mod second)"
  proof -
    have "r div 3600 = r div 60 div 60" using zdiv_zmult2_eq[of 60 r 60] by simp
    moreover have "r div 60 div 60 * 60 + r div 60 mod 60 = r div 60" "r div 60 * 60 + r mod 60 = r" by simp_all
    ultimately have "r div 3600 * 3600 + r div 60 mod 60 * 60 + r mod 60 = r" by linarith
    then show ?thesis using I(2) S(2) by (simp add: parse_clock_def nano_inverse[OF ns] zone_inverse[OF off])
  qed
  have cd: "y div 100 * 100 + y mod 100 = y" by simp
  have sec: "s = t div second + off" by (simp add: s_def u_def)
  have "days * 24 * hour + ((r - off) * second + t mod second) = t"
  proof -
    have "days * 86400 + r = s" by (simp add: days_def r_def)
    then have "days * 24 * hour + (r - off) * second = (s - off) * second"
      by simp
    moreover have "(s - off) * second + t mod second = t" unfolding sec by simp
    ultimately show ?thesis unfolding add.assoc[symmetric] by simp
  qed
  then show ?thesis
    unfolding whole using Y1(2) Y2(2) M(2) D(2) hour_read[OF H h] clock inv(5)
    by (simp add: parse_timestamp_def cd inv(1) not_less[symmetric])
qed

lemma json_time_read: "json_time off t = Some v \<Longrightarrow> off mod 60 = 0 \<Longrightarrow> get_time v old = Some t"
  using timestamp_inverse[of off t] by (auto simp: json_time_def get_time_def split: if_splits)

lemma ascii_padded: "\<forall>c \<in> set (zero_padded k n). code c < 0x80"
proof -
  have d: "\<forall>c \<in> set (nat_digits j). code c < 0x80" for j using nat_digits_digits[of j] by (auto simp: is_digit_def)
  show ?thesis using d by (auto simp: zero_padded_def itoa_def code_def)
qed

lemma ascii_stamp: "\<forall>c \<in> set (rfc3339_nano off t). code c < 0x80"
proof -
  have clock: "\<forall>c \<in> set (date_clock u). code c < 0x80" for u
    using ascii_padded by (auto simp: date_clock_def Let_def code_def split: prod.splits)
  have sub: "set (trim_right_char s d) \<subseteq> set s" for s d
    unfolding trim_right_char_def by (metis set_rev set_dropWhileD subsetI)
  have dot: "code (CHR ''.'') < 0x80" by (simp add: code_def)
  have nano: "\<forall>c \<in> set (nano_part n). code c < 0x80" for n
    using ascii_padded[of 9 n] sub[of "zero_padded 9 n" "CHR ''0''"] dot unfolding nano_part_def by auto
  have "\<forall>c \<in> set (zone_part off). code c < 0x80" using ascii_padded by (auto simp: zone_part_def code_def)
  then show ?thesis using clock nano by (auto simp: rfc3339_nano_def)
qed

lemma json_time_valid: "json_time off t = Some v \<Longrightarrow> valid_texts v = v \<and> int_numbers v \<and> json_depth v = 0"
  using to_valid_ascii[OF ascii_stamp, of off t] by (auto simp: json_time_def split: if_splits)

end
