(* ===== verification/Runner_Wrapper.thy ===== *)
theory Runner_Wrapper
  imports Runner_Init Report_Parser Go_Clock
begin

text \<open>
  The program that runs a test in its pod (\<^verbatim>\<open>internal/runner/wrapper.go\<close>), with its client of the start barrier
  (\<^verbatim>\<open>internal/runner/barrier_client.go\<close>) and its choice of a token (\<^verbatim>\<open>internal/runner/auth.go\<close>).  What is not in the
  repository is a record of arguments: the test itself with its output, its summary and its end, the token request of the
  OIDC library, the host name, the texts of errors and the check of addresses.  The path of the test contains a slash.
\<close>

section \<open>What surrounds the program\<close>

datatype proc_end = Exited int | Wait_failed

record proc_run =
  pr_writes :: "string list"
  pr_summary :: "string option"
  pr_end :: proc_end

record runner_lib =
  rl_hostname :: "string option"
  rl_valid_url :: "string \<Rightarrow> bool"
  rl_token :: "wrapper_cfg \<Rightarrow> string option"
  rl_text :: "runner_err \<Rightarrow> string"
  rl_process :: "string list \<Rightarrow> proc_run"

section \<open>Requests\<close>

definition resolve_bearer_token :: "runner_lib \<Rightarrow> wrapper_cfg \<Rightarrow> string option" where
  "resolve_bearer_token lib c =
     (if wc_auth_token c \<noteq> '''' then Some (wc_auth_token c)
      else if wc_client_id c \<noteq> '''' \<and> wc_client_secret c \<noteq> '''' \<and> wc_token_url c \<noteq> '''' then rl_token lib c
      else Some '''')"

definition post_json :: "runner_lib \<Rightarrow> wrapper_cfg \<Rightarrow> string \<Rightarrow> json \<Rightarrow> (int \<times> string) pod_op" where
  "post_json lib c url body =
     (if \<not> rl_valid_url lib url then failP Rerr_bad_url
      else bindP (send_request \<lparr>hr_url = url, hr_body = marshal body,
             hr_token = (case resolve_bearer_token lib c of None \<Rightarrow> '''' | Some t \<Rightarrow> t)\<rparr>)
           (\<lambda>a. case a of None \<Rightarrow> failP Rerr_unreachable | Some answer \<Rightarrow> returnP answer))"

definition callback_payload :: "wrapper_cfg \<Rightarrow> int \<Rightarrow> time \<Rightarrow> json" where
  "callback_payload c status now =
     J_obj [(''exit_code'', J_num (itoa status)), (''finished_at'', J_str (rfc3339 now)), (''logs_key'', J_str (wc_logs_key c)),
            (''report_key'', J_str (wc_report_key c)), (''run_id'', J_str (wc_run_id c))]"

definition send_callback :: "runner_lib \<Rightarrow> wrapper_cfg \<Rightarrow> int \<Rightarrow> pod \<Rightarrow> pod" where
  "send_callback lib c status p = snd (post_json lib c (wc_callback c) (callback_payload c status (pd_now p)) p)"

section \<open>The start barrier\<close>

definition executable :: "nat \<Rightarrow> bool" where
  "executable perm \<longleftrightarrow> odd perm \<or> odd (perm div 8) \<or> odd (perm div 64)"

definition preflight_check :: "wrapper_cfg \<Rightarrow> pod \<Rightarrow> runner_err option" where
  "preflight_check c p =
     (case node_at (wc_runner_path c) p of
        None \<Rightarrow> Some Rerr_no_binary
      | Some Dir \<Rightarrow> Some Rerr_binary_dir
      | Some (File _ m) \<Rightarrow> if executable m then None else Some Rerr_not_executable)"

definition signal_abort :: "runner_lib \<Rightarrow> wrapper_cfg \<Rightarrow> string \<Rightarrow> unit pod_op" where
  "signal_abort lib c reason =
     (if wc_coordinator c = '''' then returnP ()
      else bindP (post_json lib c (trim_right_char (wc_coordinator c) (CHR ''/'') @ ''/abort'')
             (J_obj [(''reason'', J_str reason), (''worker_id'', J_str (wc_worker_id c))])) (\<lambda>_. returnP ()))"

definition await_payload :: "wrapper_cfg \<Rightarrow> json" where
  "await_payload c =
     J_obj [(''release_delay_ms'', J_num (itoa (go_div (wc_release_delay c) millisecond))),
            (''timeout_ms'', J_num (itoa (go_div (wc_barrier_timeout c) millisecond))),
            (''total_workers'', J_num (itoa (wc_worker_count c))), (''worker_id'', J_str (wc_worker_id c))]"

text \<open>The message of a refusal: the last text named \<open>error\<close>; values of other types are skipped.\<close>

definition answer_error :: "string \<Rightarrow> string" where
  "answer_error body =
     (case json_text body of
        Some (J_obj ms) \<Rightarrow>
          foldl (\<lambda>e (k, v). case (match_field [''error''] k, v) of (Some _, J_str s) \<Rightarrow> s | _ \<Rightarrow> e) '''' ms
      | _ \<Rightarrow> '''')"

record barrier_answer =
  ba_status :: string
  ba_target :: "string option"
  ba_start_in :: int

definition put_barrier_answer :: "string \<Rightarrow> json \<Rightarrow> barrier_answer \<Rightarrow> barrier_answer option" where
  "put_barrier_answer n v a =
     (if n = ''status'' then map_option (\<lambda>s. a\<lparr>ba_status := s\<rparr>) (get_text v (ba_status a))
      else if n = ''target_start_time'' then map_option (\<lambda>t. a\<lparr>ba_target := t\<rparr>) (get_ptr get_text '''' v)
      else map_option (\<lambda>i. a\<lparr>ba_start_in := i\<rparr>) (get_int64 v (ba_start_in a)))"

definition decode_barrier_answer :: "string \<Rightarrow> barrier_answer option" where
  "decode_barrier_answer body =
     (case json_text body of
        None \<Rightarrow> None
      | Some v \<Rightarrow> decode_struct [''status'', ''target_start_time'', ''start_in_ms''] put_barrier_answer v
          \<lparr>ba_status = '''', ba_target = None, ba_start_in = 0\<rparr>)"

text \<open>The wait for the common start; a text that is no time is skipped.\<close>

definition wait_for_start :: "barrier_answer \<Rightarrow> pod \<Rightarrow> pod" where
  "wait_for_start a p =
     (case ba_target a of
        None \<Rightarrow> p
      | Some s \<Rightarrow>
          if trim_space s = '''' then p
          else (case parse_timestamp s of None \<Rightarrow> p | Some t \<Rightarrow> p\<lparr>pd_now := max (pd_now p) t\<rparr>))"

definition rendezvous :: "runner_lib \<Rightarrow> wrapper_cfg \<Rightarrow> unit pod_op" where
  "rendezvous lib c p =
     (case preflight_check c p of
        Some e \<Rightarrow> (Inl e, snd (signal_abort lib c (''preflight check failed: '' @ rl_text lib e) p))
      | None \<Rightarrow>
          if wc_worker_count c \<le> 1 \<and> \<not> wc_barrier c then (Inr (), p)
          else if wc_coordinator c = '''' then (Inr (), p)
          else bindP (post_json lib c (trim_right_char (wc_coordinator c) (CHR ''/'') @ ''/await'') (await_payload c))
                 (\<lambda>(status, body).
                   if status \<noteq> 200 then
                     failP (Rerr_rejected status (if answer_error body = '''' then ''status code '' @ itoa status else answer_error body))
                   else case decode_barrier_answer body of
                     None \<Rightarrow> failP Rerr_bad_answer
                   | Some a \<Rightarrow> (\<lambda>q. (Inr (), wait_for_start a q))) p)"

section \<open>The report and the log\<close>

definition fallback_report :: "int \<Rightarrow> string \<Rightarrow> time \<Rightarrow> json" where
  "fallback_report status details now =
     J_obj [(''error'', J_str (if details = '''' then ''runner exited with code '' @ itoa status @ '' without generating summary report''
              else details)),
            (''exit_code'', J_num (itoa status)), (''sla_passed'', J_bool False), (''status'', J_str ''FAILED''),
            (''timestamp'', J_str (rfc3339 now))]"

definition report_data :: "wrapper_cfg \<Rightarrow> int \<Rightarrow> string \<Rightarrow> pod \<Rightarrow> string \<times> pod" where
  "report_data c status details p =
     (case read_file Reading_report (wc_summary_path c) p of
        (r, p1) \<Rightarrow>
          let fallback = marshal_indent (fallback_report status details (pd_now p))
          in (case r of
                Inr s \<Rightarrow> if trim_space s \<noteq> '''' then (s, p1) else (fallback, snd (write_file Writing_report (wc_summary_path c) fallback 420 p1))
              | Inl _ \<Rightarrow> (fallback, snd (write_file Writing_report (wc_summary_path c) fallback 420 p1))))"

definition log_data :: "runner_lib \<Rightarrow> wrapper_cfg \<Rightarrow> pod \<Rightarrow> string \<times> pod" where
  "log_data lib c p =
     (case read_file Reading_logs (wc_log_path c) p of
        (Inr s, p1) \<Rightarrow> (s, p1)
      | (Inl e, p1) \<Rightarrow> (''log file read error: '' @ rl_text lib e @ [CHR 0x0A], p1))"

definition guarantee_upload :: "runner_lib \<Rightarrow> wrapper_cfg \<Rightarrow> int \<Rightarrow> string \<Rightarrow> pod \<Rightarrow> pod" where
  "guarantee_upload lib c status details p =
     (case report_data c status details p of
        (report, p1) \<Rightarrow>
          (case log_data lib c (snd (pod_upload (wc_report_key c) report p1)) of
             (logs, p2) \<Rightarrow> snd (pod_upload (wc_logs_key c) logs p2)))"

section \<open>The run\<close>

text \<open>The directory of a path, \<open>filepath.Dir\<close>.\<close>

definition path_dir :: "string \<Rightarrow> string" where
  "path_dir s = clean_path (rev (dropWhile (\<lambda>c. c \<noteq> CHR ''/'') (rev s)))"

definition open_log :: "wrapper_cfg \<Rightarrow> unit pod_op" where
  "open_log c = bindP (make_dir (path_dir (wc_log_path c))) (\<lambda>_. write_file Opening_log (wc_log_path c) '''' 420)"

definition exec_args :: "wrapper_cfg \<Rightarrow> string list \<Rightarrow> pod \<Rightarrow> string list" where
  "exec_args c extra p =
     [''--summary-export='' @ wc_summary_path c] @
     (if node_at (wc_config_path c) p \<noteq> None then [''--config='' @ wc_config_path c] else []) @ extra"

definition secret_values :: "(string \<times> string) list \<Rightarrow> string list" where
  "secret_values secrets = filter (\<lambda>v. v \<noteq> '''') (map (trim_space \<circ> snd) secrets)"

definition start_process :: "wrapper_cfg \<Rightarrow> unit pod_op" where
  "start_process c = io Starting (\<lambda>p.
     case node_at (wc_runner_path c) p of
       None \<Rightarrow> (Inl (Rerr_io Starting ''no such file or directory''), p)
     | Some Dir \<Rightarrow> (Inl (Rerr_io Starting ''permission denied''), p)
     | Some (File _ m) \<Rightarrow> if executable m then (Inr (), p) else (Inl (Rerr_io Starting ''permission denied''), p))"

text \<open>What the test leaves: its output, masked write by write, in the log, and its summary when it wrote one.\<close>

definition after_process :: "wrapper_cfg \<Rightarrow> string list \<Rightarrow> proc_run \<Rightarrow> pod \<Rightarrow> pod" where
  "after_process c values run p =
     (let logged = set_node (wc_log_path c) (File (concat (map (masking_write (new_masking_writer values)) (pr_writes run)))
            (case node_at (wc_log_path c) p of Some (File _ m) \<Rightarrow> m | _ \<Rightarrow> 420)) p
      in case pr_summary run of
           None \<Rightarrow> logged
         | Some s \<Rightarrow> set_node (wc_summary_path c) (File s (case node_at (wc_summary_path c) p of Some (File _ m) \<Rightarrow> m | _ \<Rightarrow> 420)) logged)"

definition exit_code_of :: "proc_end \<Rightarrow> int" where
  "exit_code_of e = (case e of Exited n \<Rightarrow> n | Wait_failed \<Rightarrow> 1)"

definition finish_run :: "runner_lib \<Rightarrow> wrapper_cfg \<Rightarrow> int \<Rightarrow> string \<Rightarrow> pod \<Rightarrow> pod" where
  "finish_run lib c status details p =
     (let p1 = guarantee_upload lib c status details p
      in if wc_callback c \<noteq> '''' then send_callback lib c status p1 else p1)"

definition wrapper_run :: "runner_lib \<Rightarrow> wrapper_cfg \<Rightarrow> string list \<Rightarrow> pod \<Rightarrow> (int \<times> runner_err option) \<times> pod" where
  "wrapper_run lib cfg extra p =
     (case wrapper_validate (rl_hostname lib) cfg of
        Inl e \<Rightarrow> ((1, Some e), p)
      | Inr c \<Rightarrow>
          (case (if wc_barrier c \<or> 1 < wc_worker_count c then rendezvous lib c p else (Inr (), p)) of
             (Inl e, p1) \<Rightarrow> ((1, Some e), finish_run lib c 1 (''barrier rendezvous failed: '' @ rl_text lib e) p1)
           | (Inr _, p1) \<Rightarrow>
               (case open_log c p1 of
                  (Inl e, p2) \<Rightarrow> ((1, Some e), p2)
                | (Inr _, p2) \<Rightarrow>
                    (case load_secrets (wc_secrets_dir c) p2 of
                       (Inl e, p3) \<Rightarrow> ((1, Some e), finish_run lib c 1 (''failed to load secrets: '' @ rl_text lib e) p3)
                     | (Inr secrets, p3) \<Rightarrow>
                         (case start_process c p3 of
                            (Inl e, p4) \<Rightarrow> ((1, Some e), guarantee_upload lib c 1 (''failed to start runner: '' @ rl_text lib e) p4)
                          | (Inr _, p4) \<Rightarrow>
                              (let run = rl_process lib (exec_args c extra p2); status = exit_code_of (pr_end run)
                               in ((status, None), finish_run lib c status '''' (after_process c (secret_values secrets) run p4))))))))"

end
