(* ===== verification/Runner_Outcomes.thy ===== *)
theory Runner_Outcomes
  imports Runner_Wrapper
begin

text \<open>
  What the programs of a runner pod guarantee: the init container leaves a test that can be started, a run that starts
  always leaves a report and its log under the keys of the run and is called back, a crash is never taken for a success;
  and the failures that stay unreported.
\<close>

section \<open>Keys and texts\<close>

lemma key_or_standard_trimmed:
  assumes "key_or_standard f run (trim_space k) = Inr x" and "\<And>y. f run = Inr y \<Longrightarrow> trim_space y = y"
  shows "trim_space x = x"
  using assms by (auto simp: key_or_standard_def split: if_splits sum.splits)

lemma standard_keys_trimmed: "key_summary_report r = Inr y \<Longrightarrow> trim_space y = y" "key_execution_logs r = Inr y \<Longrightarrow> trim_space y = y"
  by (auto simp: key_summary_report_def key_execution_logs_def Let_def trim_space_graphic graphic_def split: if_splits)

lemma validated_keys:
  assumes "wrapper_validate h cfg = Inr c"
  shows "trim_space (wc_report_key c) = wc_report_key c" "trim_space (wc_logs_key c) = wc_logs_key c"
    "wc_report_key c \<noteq> ''''" "wc_logs_key c \<noteq> ''''" "wc_barrier c \<longleftrightarrow> wc_barrier cfg \<or> 1 < wc_worker_count c"
proof -
  obtain report logs where k: "key_or_standard key_summary_report (trim_space (wc_run_id cfg)) (trim_space (wc_report_key cfg)) = Inr report"
      "key_or_standard key_execution_logs (trim_space (wc_run_id cfg)) (trim_space (wc_logs_key cfg)) = Inr logs"
    and c: "wc_report_key c = report" "wc_logs_key c = logs" "report \<noteq> ''''" "logs \<noteq> ''''"
      "wc_barrier c \<longleftrightarrow> wc_barrier cfg \<or> 1 < wc_worker_count c"
    using assms by (auto simp: wrapper_validate_def Let_def split: sum.splits if_splits)
  show "trim_space (wc_report_key c) = wc_report_key c" "trim_space (wc_logs_key c) = wc_logs_key c"
    using key_or_standard_trimmed[OF k(1)] key_or_standard_trimmed[OF k(2)] standard_keys_trimmed c by auto
  show "wc_report_key c \<noteq> ''''" "wc_logs_key c \<noteq> ''''" "wc_barrier c \<longleftrightarrow> wc_barrier cfg \<or> 1 < wc_worker_count c"
    using c by simp_all
qed

section \<open>The fallback report\<close>

lemma fallback_ascii:
  "to_valid_utf8 ''error'' = ''error''" "to_valid_utf8 ''exit_code'' = ''exit_code''"
  "to_valid_utf8 ''sla_passed'' = ''sla_passed''" "to_valid_utf8 ''status'' = ''status''"
  "to_valid_utf8 ''timestamp'' = ''timestamp''" "to_valid_utf8 ''FAILED'' = ''FAILED''"
  by (simp_all add: to_valid_ascii code_def)

lemma fallback_names:
  "match_field summary_fields ''error'' = None" "match_field summary_fields ''exit_code'' = None"
  "match_field summary_fields ''timestamp'' = None"
  "match_field summary_fields ''sla_passed'' = Some ''sla_passed''" "match_field summary_fields ''status'' = Some ''status''"
  by (simp_all add: match_field_def summary_fields_def to_upper_char_def)

lemma fallback_fields:
  "put_summary ''sla_passed'' (J_bool False) d = Some (d\<lparr>sd_sla_passed := Some False\<rparr>)"
  "put_summary ''status'' (J_str s) d = Some (d\<lparr>sd_status := s\<rparr>)"
  by (simp_all add: put_summary_def put_verdict_def ptr_bool_def get_ptr_def get_bool_def get_text_def)

lemma fallback_decoded:
  "decode_summary (marshal_indent (fallback_report ex details now)) =
     Some (empty_doc\<lparr>sd_sla_passed := Some False, sd_status := ''FAILED''\<rparr>)"
proof -
  have i: "int_numbers (fallback_report ex details now)" by (auto simp: fallback_report_def)
  have d: "json_depth (fallback_report ex details now) \<le> 10000" by (simp add: fallback_report_def)
  show ?thesis
    unfolding decode_summary_def marshal_reads(2)[OF i d] option.case
    by (simp add: fallback_report_def decode_struct_def fallback_ascii fallback_names fallback_fields)
qed

lemma indented_object_trimmed:
  assumes "ms \<noteq> []"
  shows "trim_space (marshal_indent (J_obj ms)) = marshal_indent (J_obj ms)"
  using assms by (intro trim_space_graphic) (simp_all add: marshal_indent_def graphic_def)

lemma fallback_failed:
  "\<exists>r. parse_summary_report (marshal_indent (fallback_report ex details now)) = Inr r \<and> \<not> pr_sla_passed r"
proof -
  have "trim_space (marshal_indent (fallback_report ex details now)) = marshal_indent (fallback_report ex details now)"
    unfolding fallback_report_def by (rule indented_object_trimmed) simp
  moreover have "marshal_indent (fallback_report ex details now) \<noteq> ''''"
    by (simp add: marshal_indent_def fallback_report_def)
  ultimately show ?thesis
    by (simp add: parse_summary_report_def fallback_decoded sla_verdict_def or_else_def empty_doc_def)
qed

section \<open>Effects in a working pod\<close>

lemma pod_upload_ok:
  assumes "pd_faults p = []" and "trim_space k = k" and "k \<noteq> ''''"
  shows "pod_upload k c p = (Inr (), p\<lparr>pd_objects := (pd_objects p)(k \<mapsto> c)\<rparr>)"
  using assms by (simp add: pod_upload_def io_works)

lemma read_file_ok:
  assumes "pd_faults p = []"
  shows "read_file st path p =
    ((case node_at path p of None \<Rightarrow> Inl (Rerr_io st ''no such file or directory'') | Some Dir \<Rightarrow> Inl (Rerr_io st ''is a directory'')
      | Some (File c m) \<Rightarrow> Inr c), p)"
  using assms by (simp add: read_file_def io_works split: option.splits node.splits)

text \<open>The report that is uploaded: the content of the summary file unless it is blank or unreadable.\<close>

definition final_report :: "wrapper_cfg \<Rightarrow> int \<Rightarrow> string \<Rightarrow> pod \<Rightarrow> string" where
  "final_report c ex details p =
     (case node_at (wc_summary_path c) p of
        Some (File s m) \<Rightarrow> if trim_space s \<noteq> '''' then s else marshal_indent (fallback_report ex details (pd_now p))
      | _ \<Rightarrow> marshal_indent (fallback_report ex details (pd_now p)))"

lemma write_file_frame:
  assumes "pd_faults p = []"
  shows "pd_faults (snd (write_file st path x m p)) = [] \<and> pd_objects (snd (write_file st path x m p)) = pd_objects p \<and>
    pd_sent (snd (write_file st path x m p)) = pd_sent p \<and> pd_now (snd (write_file st path x m p)) = pd_now p \<and>
    pd_answers (snd (write_file st path x m p)) = pd_answers p \<and>
    (\<forall>q. clean_path q \<noteq> clean_path path \<longrightarrow> node_at q (snd (write_file st path x m p)) = node_at q p)"
  using assms by (simp add: write_file_def io_works node_at_set split: option.splits node.splits)

lemma report_data_ok:
  assumes "pd_faults p = []"
  shows "fst (report_data c ex details p) = final_report c ex details p"
    and "\<exists>m x. snd (report_data c ex details p) = p \<or> snd (report_data c ex details p) = snd (write_file Writing_report (wc_summary_path c) x m p)"
  using assms
  by (auto simp: report_data_def read_file_ok final_report_def Let_def split: option.splits node.splits)

lemma report_data_frame:
  assumes "pd_faults p = []"
  shows "pd_faults (snd (report_data c ex details p)) = [] \<and> pd_objects (snd (report_data c ex details p)) = pd_objects p \<and>
    pd_sent (snd (report_data c ex details p)) = pd_sent p \<and> pd_now (snd (report_data c ex details p)) = pd_now p \<and>
    pd_answers (snd (report_data c ex details p)) = pd_answers p \<and>
    (\<forall>q. clean_path q \<noteq> clean_path (wc_summary_path c) \<longrightarrow> node_at q (snd (report_data c ex details p)) = node_at q p)"
  using report_data_ok(2)[OF assms, of c ex details] write_file_frame[OF assms] assms by (elim exE disjE) simp_all

lemma guarantee_upload_ok:
  assumes "pd_faults p = []" and "wrapper_validate h cfg = Inr c" and "wc_report_key c \<noteq> wc_logs_key c"
    and "clean_path (wc_log_path c) \<noteq> clean_path (wc_summary_path c)" and "node_at (wc_log_path c) p = Some (File logged m)"
  shows "pd_objects (guarantee_upload lib c ex details p) =
      (pd_objects p)(wc_report_key c \<mapsto> final_report c ex details p, wc_logs_key c \<mapsto> logged) \<and>
    pd_sent (guarantee_upload lib c ex details p) = pd_sent p \<and> pd_now (guarantee_upload lib c ex details p) = pd_now p \<and>
    pd_answers (guarantee_upload lib c ex details p) = pd_answers p"
proof -
  note k = validated_keys[OF assms(2)]
  define p1 where "p1 = snd (report_data c ex details p)"
  have r: "report_data c ex details p = (final_report c ex details p, p1)"
    using report_data_ok(1)[OF assms(1)] by (metis p1_def prod.collapse)
  note f = report_data_frame[OF assms(1), of c ex details, folded p1_def]
  have l: "node_at (wc_log_path c) p1 = Some (File logged m)" using f assms(4,5) by simp
  show ?thesis
    using f l by (simp add: guarantee_upload_def r pod_upload_ok k log_data_def read_file_ok)
qed

lemma send_callback_frame:
  "pd_objects (send_callback lib c ex p) = pd_objects p"
  "pd_sent (send_callback lib c ex p) = pd_sent p @
     (if rl_valid_url lib (wc_callback c)
      then [\<lparr>hr_url = wc_callback c, hr_body = marshal (callback_payload c ex (pd_now p)),
              hr_token = (case resolve_bearer_token lib c of None \<Rightarrow> '''' | Some t \<Rightarrow> t)\<rparr>] else [])"
  by (auto simp: send_callback_def post_json_def failP_def bindP_def send_request_def returnP_def split: list.splits option.splits)

definition callback_request :: "runner_lib \<Rightarrow> wrapper_cfg \<Rightarrow> int \<Rightarrow> time \<Rightarrow> http_request" where
  "callback_request lib c ex now =
     \<lparr>hr_url = wc_callback c, hr_body = marshal (callback_payload c ex now),
      hr_token = (case resolve_bearer_token lib c of None \<Rightarrow> '''' | Some t \<Rightarrow> t)\<rparr>"

lemma finish_run_ok:
  assumes "pd_faults p = []" and "wrapper_validate h cfg = Inr c" and "wc_report_key c \<noteq> wc_logs_key c"
    and "clean_path (wc_log_path c) \<noteq> clean_path (wc_summary_path c)" and "node_at (wc_log_path c) p = Some (File logged m)"
  shows "pd_objects (finish_run lib c ex details p) =
      (pd_objects p)(wc_report_key c \<mapsto> final_report c ex details p, wc_logs_key c \<mapsto> logged) \<and>
    pd_sent (finish_run lib c ex details p) = pd_sent p @
      (if wc_callback c \<noteq> '''' \<and> rl_valid_url lib (wc_callback c) then [callback_request lib c ex (pd_now p)] else [])"
  using guarantee_upload_ok[OF assms, of lib ex details]
  by (simp add: finish_run_def Let_def send_callback_frame callback_request_def)

lemma after_process_frame:
  "pd_faults (after_process c vs run p) = pd_faults p" "pd_objects (after_process c vs run p) = pd_objects p"
  "pd_sent (after_process c vs run p) = pd_sent p" "pd_now (after_process c vs run p) = pd_now p"
  by (simp_all add: after_process_def Let_def split: option.splits)

lemma after_process_log:
  "clean_path (wc_log_path c) \<noteq> clean_path (wc_summary_path c) \<Longrightarrow>
     \<exists>m. node_at (wc_log_path c) (after_process c vs run p) =
       Some (File (concat (map (masking_write (new_masking_writer vs)) (pr_writes run))) m)"
  by (simp add: after_process_def Let_def node_at_set split: option.splits)

lemma after_process_summary:
  "clean_path (wc_log_path c) \<noteq> clean_path (wc_summary_path c) \<Longrightarrow>
     node_at (wc_summary_path c) (after_process c vs run p) =
       (case pr_summary run of
          None \<Rightarrow> node_at (wc_summary_path c) p
        | Some s \<Rightarrow> Some (File s (case node_at (wc_summary_path c) p of Some (File _ m) \<Rightarrow> m | _ \<Rightarrow> 420)))"
  by (simp add: after_process_def Let_def node_at_set split: option.splits)

text \<open>
  The steps before a test starts: the rendezvous when the run has a barrier, the log, the secrets and the
  process.
\<close>

definition run_starts :: "runner_lib \<Rightarrow> wrapper_cfg \<Rightarrow> wrapper_cfg \<Rightarrow> string list \<Rightarrow> pod \<Rightarrow> (string \<times> string) list \<Rightarrow> proc_run \<Rightarrow> pod \<Rightarrow> bool" where
  "run_starts lib cfg c extra p secrets run p4 \<longleftrightarrow>
     wrapper_validate (rl_hostname lib) cfg = Inr c \<and>
     (\<exists>p1 p2 p3. (if wc_barrier c then rendezvous lib c p else (Inr (), p)) = (Inr (), p1) \<and>
        open_log c p1 = (Inr (), p2) \<and> load_secrets (wc_secrets_dir c) p2 = (Inr secrets, p3) \<and>
        start_process c p3 = (Inr (), p4) \<and> run = rl_process lib (exec_args c extra p2))"

lemma wrapper_run_started:
  assumes "run_starts lib cfg c extra p secrets run p4"
  shows "wrapper_run lib cfg extra p =
    ((exit_code_of (pr_end run), None), finish_run lib c (exit_code_of (pr_end run)) '''' (after_process c (secret_values secrets) run p4))"
proof -
  obtain p1 p2 p3 where s: "wrapper_validate (rl_hostname lib) cfg = Inr c"
    "(if wc_barrier c then rendezvous lib c p else (Inr (), p)) = (Inr (), p1)" "open_log c p1 = (Inr (), p2)"
    "load_secrets (wc_secrets_dir c) p2 = (Inr secrets, p3)" "start_process c p3 = (Inr (), p4)"
    "run = rl_process lib (exec_args c extra p2)"
    using assms unfolding run_starts_def by blast
  have "wc_barrier c \<or> 1 < wc_worker_count c \<longleftrightarrow> wc_barrier c" using validated_keys(5)[OF s(1)] by blast
  then show ?thesis using s by (simp add: wrapper_run_def Let_def)
qed

text \<open>What has been sent by then: the worker has announced itself once, when there is a coordinator.\<close>

definition await_requests :: "runner_lib \<Rightarrow> wrapper_cfg \<Rightarrow> http_request list" where
  "await_requests lib c =
     (if wc_barrier c \<and> wc_coordinator c \<noteq> '''' then
        [\<lparr>hr_url = trim_right_char (wc_coordinator c) (CHR ''/'') @ ''/await'', hr_body = marshal (await_payload c),
          hr_token = (case resolve_bearer_token lib c of None \<Rightarrow> '''' | Some t \<Rightarrow> t)\<rparr>]
      else [])"

lemma rendezvous_sent:
  assumes "rendezvous lib c p = (Inr (), p1)" and "wc_barrier c"
  shows "pd_sent p1 = pd_sent p @ await_requests lib c"
  using assms
  by (auto simp: rendezvous_def await_requests_def post_json_def failP_def bindP_def send_request_def returnP_def
      wait_for_start_def split: option.splits list.splits if_splits prod.splits)

lemma open_log_sent: "open_log c p = (r, p') \<Longrightarrow> pd_sent p' = pd_sent p"
  using onlyD(2)[OF only_writes(5)] onlyD(2)[OF only_writes(1)]
  by (fastforce simp: open_log_def bindP_def split: prod.splits sum.splits)

lemma only_start: "only path (start_process c)"
  unfolding start_process_def by (rule only_id) (simp split: option.split node.split)

lemma start_process_sent: "start_process c p = (r, p') \<Longrightarrow> pd_sent p' = pd_sent p"
  using onlyD(2)[OF only_start] .

lemma run_starts_sent:
  assumes "run_starts lib cfg c extra p secrets run p4"
  shows "pd_sent p4 = pd_sent p @ await_requests lib c"
proof -
  obtain p1 p2 p3 where s: "(if wc_barrier c then rendezvous lib c p else (Inr (), p)) = (Inr (), p1)"
    "open_log c p1 = (Inr (), p2)" "load_secrets (wc_secrets_dir c) p2 = (Inr secrets, p3)" "start_process c p3 = (Inr (), p4)"
    using assms unfolding run_starts_def by blast
  have "pd_sent p1 = pd_sent p @ await_requests lib c"
    using s(1) rendezvous_sent[of lib c p p1] by (auto simp: await_requests_def split: if_splits)
  then show ?thesis
    using open_log_sent[OF s(2)] onlyD(2)[OF only_load s(3)] start_process_sent[OF s(4)] by simp
qed

section \<open>Properties\<close>

text \<open>
  C17: The outcome of a run whose test starts, alone or after a barrier, when the calls after the start work.  The wrapper
  returns the exit code of the test; under the key of the logs lies the masked output; under the key of the report lies the
  summary that the test wrote, else what lay at the path of the summary before, and the fallback when that is blank or there
  is nothing.  Besides the announcement at the barrier exactly one request is sent: the callback that names the run, the exit
  code and both keys, when an address is configured.
\<close>

theorem run_reports_outcome:
  assumes "run_starts lib cfg c extra p secrets run p4" and "pd_faults p4 = []" and "wc_report_key c \<noteq> wc_logs_key c"
    and "clean_path (wc_log_path c) \<noteq> clean_path (wc_summary_path c)"
  shows "\<exists>p'. wrapper_run lib cfg extra p = ((exit_code_of (pr_end run), None), p') \<and>
    pd_objects p' (wc_logs_key c) =
      Some (concat (map (masking_write (new_masking_writer (secret_values secrets))) (pr_writes run))) \<and>
    (let left = (case pr_summary run of
           Some s \<Rightarrow> s
         | None \<Rightarrow> (case node_at (wc_summary_path c) p4 of Some (File s m) \<Rightarrow> s | _ \<Rightarrow> ''''))
     in pd_objects p' (wc_report_key c) =
       Some (if trim_space left \<noteq> '''' then left
             else marshal_indent (fallback_report (exit_code_of (pr_end run)) '''' (pd_now p4)))) \<and>
    pd_sent p' = pd_sent p @ await_requests lib c @
      (if wc_callback c \<noteq> '''' \<and> rl_valid_url lib (wc_callback c)
       then [callback_request lib c (exit_code_of (pr_end run)) (pd_now p4)] else [])"
proof -
  define q where "q = after_process c (secret_values secrets) run p4"
  obtain m where l: "node_at (wc_log_path c) q = Some (File (concat (map (masking_write (new_masking_writer (secret_values secrets))) (pr_writes run))) m)"
    using after_process_log[OF assms(4)] q_def by blast
  have v: "wrapper_validate (rl_hostname lib) cfg = Inr c" using assms(1) by (simp add: run_starts_def)
  have "pd_faults q = []" using assms(2) by (simp add: q_def after_process_frame)
  note fin = finish_run_ok[OF this v assms(3,4) l, of lib "exit_code_of (pr_end run)" "''''"]
  have q: "pd_sent q = pd_sent p4" "pd_now q = pd_now p4" by (simp_all add: q_def after_process_frame)
  have r: "final_report c ex '''' q = (let left = (case pr_summary run of
           Some s \<Rightarrow> s
         | None \<Rightarrow> (case node_at (wc_summary_path c) p4 of Some (File s m) \<Rightarrow> s | _ \<Rightarrow> ''''))
     in if trim_space left \<noteq> '''' then left else marshal_indent (fallback_report ex '''' (pd_now p4)))" for ex
    using q(2) after_process_summary[OF assms(4), of "secret_values secrets" run p4]
    by (simp add: final_report_def q_def[symmetric] split: option.split node.split)
  show ?thesis
    using fin assms(3) wrapper_run_started[OF assms(1)] run_starts_sent[OF assms(1)]
    by (auto simp: q_def[symmetric] r q Let_def)
qed

text \<open>
  C18: A test that ends without writing a summary is never taken for a success: whatever its exit code is, the report that
  the wrapper stores is accepted by the report parser of the control plane, with a negative verdict.
\<close>

theorem silent_run_never_passes:
  assumes "run_starts lib cfg c extra p secrets run p4" and "pd_faults p4 = []" and "wc_report_key c \<noteq> wc_logs_key c"
    and "clean_path (wc_log_path c) \<noteq> clean_path (wc_summary_path c)"
    and "pr_summary run = None" and "node_at (wc_summary_path c) p4 = None"
  shows "\<exists>s r. pd_objects (snd (wrapper_run lib cfg extra p)) (wc_report_key c) = Some s \<and>
    parse_summary_report s = Inr r \<and> \<not> pr_sla_passed r"
proof -
  define q where "q = after_process c (secret_values secrets) run p4"
  obtain logged m where l: "node_at (wc_log_path c) q = Some (File logged m)"
    using after_process_log[OF assms(4)] q_def by blast
  have v: "wrapper_validate (rl_hostname lib) cfg = Inr c" using assms(1) by (simp add: run_starts_def)
  have f: "pd_faults q = []" using assms(2) by (simp add: q_def after_process_frame)
  have "final_report c (exit_code_of (pr_end run)) '''' q = marshal_indent (fallback_report (exit_code_of (pr_end run)) '''' (pd_now q))"
    using after_process_summary[OF assms(4), of "secret_values secrets" run p4] assms(5,6) by (simp add: final_report_def q_def)
  then show ?thesis
    using finish_run_ok[OF f v assms(3,4) l, of lib "exit_code_of (pr_end run)" "''''"] wrapper_run_started[OF assms(1)]
      fallback_failed assms(3) by (simp add: q_def)
qed

text \<open>
  Failures that the control plane does not hear of.  When the test cannot be started the wrapper stores a report and
  a log but sends no callback, although one is configured; when the log cannot be opened it stores and sends nothing.
\<close>

theorem start_failure_unreported:
  assumes "wrapper_validate (rl_hostname lib) cfg = Inr c" and "\<not> wc_barrier c" and "open_log c p = (Inr (), p2)"
    and "load_secrets (wc_secrets_dir c) p2 = (Inr secrets, p3)" and "start_process c p3 = (Inl e, p4)" and "pd_faults p4 = []"
    and "wc_report_key c \<noteq> wc_logs_key c" and "clean_path (wc_log_path c) \<noteq> clean_path (wc_summary_path c)"
    and "node_at (wc_log_path c) p4 = Some (File logged m)" and "open_log c pf = (Inl ef, pf')"
  shows "fst (wrapper_run lib cfg extra p) = (1, Some e) \<and>
    pd_objects (snd (wrapper_run lib cfg extra p)) (wc_logs_key c) = Some logged \<and>
    pd_objects (snd (wrapper_run lib cfg extra p)) (wc_report_key c) \<noteq> None \<and>
    pd_sent (snd (wrapper_run lib cfg extra p)) = pd_sent p4 \<and>
    wrapper_run lib cfg extra pf = ((1, Some ef), pf')"
proof -
  have n: "\<not> 1 < wc_worker_count c" using validated_keys(5)[OF assms(1)] assms(2) by blast
  have "wrapper_run lib cfg extra p = ((1, Some e), guarantee_upload lib c 1 (''failed to start runner: '' @ rl_text lib e) p4)"
    using assms n by (simp add: wrapper_run_def)
  moreover have "wrapper_run lib cfg extra pf = ((1, Some ef), pf')" using assms n by (simp add: wrapper_run_def)
  ultimately show ?thesis
    using guarantee_upload_ok[OF assms(6,1,7,8,9), of lib 1 "''failed to start runner: '' @ rl_text lib e"] assms(7) by simp
qed

section \<open>A pod\<close>

definition demo_wcfg :: wrapper_cfg where
  "demo_wcfg = \<lparr>wc_runner_path = ''/shared/runner'', wc_config_path = ''/shared/vuhive.yaml'',
     wc_summary_path = ''/shared/summary.json'', wc_log_path = ''/shared/run.log'', wc_secrets_dir = ''/secrets'',
     wc_run_id = ''r1'', wc_report_key = ''rep'', wc_logs_key = ''logs'', wc_callback = ''http://cp/complete'', wc_worker_id = ''w'',
     wc_worker_count = 1, wc_barrier = False, wc_barrier_timeout = 1, wc_release_delay = 1, wc_coordinator = ''http://cp'',
     wc_auth_token = [], wc_client_id = [], wc_client_secret = [], wc_token_url = []\<rparr>"

definition demo_lib :: "string option \<Rightarrow> runner_lib" where
  "demo_lib summary = \<lparr>rl_hostname = None, rl_valid_url = (\<lambda>_. True), rl_token = (\<lambda>_. None), rl_text = (\<lambda>_. ''e''),
     rl_process = (\<lambda>_. \<lparr>pr_writes = [''ok'', ''no''], pr_summary = summary, pr_end = Exited 3\<rparr>)\<rparr>"

definition run_pod :: "nat \<Rightarrow> pod" where
  "run_pod perm = \<lparr>pd_files = [(''/shared'', Dir), (''/shared/runner'', File ''x'' perm)], pd_objects = (\<lambda>_. None), pd_sent = [],
     pd_answers = [], pd_faults = [], pd_now = 0\<rparr>"

definition opened_pod :: "nat \<Rightarrow> pod" where
  "opened_pod perm = (run_pod perm)\<lparr>pd_files := pd_files (run_pod perm) @ [(''/shared/run.log'', File [] 420)]\<rparr>"

lemma demo_validated: "wrapper_validate (rl_hostname (demo_lib s)) demo_wcfg = Inr demo_wcfg"
  by (simp add: wrapper_validate_def demo_wcfg_def key_or_standard_def or_default_def trim_space_graphic graphic_def
      callback_url_def trim_right_char_def coordinator_url_def suffix_def Let_def)

lemma demo_paths:
  "clean_path ''/shared/run.log'' = ''/shared/run.log''" "clean_path ''/shared/summary.json'' = ''/shared/summary.json''"
  "clean_path ''/shared/runner'' = ''/shared/runner''" "clean_path ''/secrets'' = ''/secrets''" "path_dir ''/shared/run.log'' = ''/shared''"
  "clean_path ''/shared'' = ''/shared''"
  by (simp_all add: clean_path_def path_dir_def)

lemma demo_opened: "open_log demo_wcfg (run_pod perm) = (Inr (), opened_pod perm)"
  by (simp add: open_log_def make_dir_def write_file_def bindP_def io_def demo_paths node_at_def set_node_def demo_wcfg_def
      run_pod_def opened_pod_def)

lemma demo_secrets: "load_secrets (wc_secrets_dir demo_wcfg) (opened_pod perm) = (Inr [], opened_pod perm)"
  by (simp add: load_secrets_def demo_wcfg_def read_dir_def bindP_def io_def node_at_def demo_paths opened_pod_def run_pod_def returnP_def)

lemma demo_started: "start_process demo_wcfg (opened_pod 493) = (Inr (), opened_pod 493)"
  "start_process demo_wcfg (opened_pod 420) = (Inl (Rerr_io Starting ''permission denied''), opened_pod 420)"
  by (simp_all add: start_process_def io_def node_at_def demo_paths opened_pod_def run_pod_def demo_wcfg_def executable_def)

lemma demo_starts:
  "run_starts (demo_lib s) demo_wcfg demo_wcfg [] (run_pod 493) [] \<lparr>pr_writes = [''ok'', ''no''], pr_summary = s, pr_end = Exited 3\<rparr>
     (opened_pod 493)"
proof -
  have "rl_process (demo_lib s) (exec_args demo_wcfg [] (opened_pod 493)) = \<lparr>pr_writes = [''ok'', ''no''], pr_summary = s, pr_end = Exited 3\<rparr>"
    "\<not> wc_barrier demo_wcfg"
    by (simp_all add: demo_lib_def demo_wcfg_def)
  then show ?thesis unfolding run_starts_def
    using demo_validated[of s] demo_opened[of 493] demo_secrets[of 493] demo_started(1) by auto
qed

lemma demo_apart:
  "wc_report_key demo_wcfg \<noteq> wc_logs_key demo_wcfg" "clean_path (wc_log_path demo_wcfg) \<noteq> clean_path (wc_summary_path demo_wcfg)"
  "pd_faults (opened_pod perm) = []" "node_at (wc_summary_path demo_wcfg) (opened_pod perm) = None"
  "node_at (wc_log_path demo_wcfg) (opened_pod perm) = Some (File [] 420)"
  by (simp_all add: demo_wcfg_def demo_paths opened_pod_def run_pod_def node_at_def)

text \<open>A worker of two, released by the coordinator.\<close>

definition pair_wcfg :: wrapper_cfg where
  "pair_wcfg = demo_wcfg\<lparr>wc_worker_count := 2, wc_barrier := True\<rparr>"

definition pair_pod :: pod where
  "pair_pod = (run_pod 493)\<lparr>pd_answers := [Some (200, ''{}'')]\<rparr>"

definition met_pod :: pod where
  "met_pod = (run_pod 493)\<lparr>pd_sent := await_requests (demo_lib None) pair_wcfg\<rparr>"

lemma pair_validated: "wrapper_validate (rl_hostname (demo_lib s)) pair_wcfg = Inr pair_wcfg"
  by (simp add: wrapper_validate_def pair_wcfg_def demo_wcfg_def key_or_standard_def or_default_def trim_space_graphic graphic_def
      callback_url_def trim_right_char_def coordinator_url_def suffix_def Let_def)

lemma pair_meets: "rendezvous (demo_lib None) pair_wcfg pair_pod = (Inr (), met_pod)"
proof -
  have b: "wc_barrier pair_wcfg" "wc_coordinator pair_wcfg = ''http://cp''" "wc_runner_path pair_wcfg = ''/shared/runner''"
    by (simp_all add: pair_wcfg_def demo_wcfg_def)
  have "preflight_check pair_wcfg pair_pod = None"
    by (simp add: preflight_check_def b node_at_def demo_paths pair_pod_def run_pod_def executable_def)
  moreover have "decode_barrier_answer ''{}'' = Some \<lparr>ba_status = '''', ba_target = None, ba_start_in = 0\<rparr>"
    by code_simp
  moreover have "rl_valid_url (demo_lib None) u" for u by (simp add: demo_lib_def)
  ultimately show ?thesis
    by (simp add: rendezvous_def b post_json_def bindP_def send_request_def returnP_def wait_for_start_def
        pair_pod_def met_pod_def run_pod_def await_requests_def)
qed

lemma pair_starts:
  "run_starts (demo_lib None) pair_wcfg pair_wcfg [] pair_pod [] \<lparr>pr_writes = [''ok'', ''no''], pr_summary = None, pr_end = Exited 3\<rparr>
     ((opened_pod 493)\<lparr>pd_sent := pd_sent met_pod\<rparr>)"
proof -
  let ?q = "(opened_pod 493)\<lparr>pd_sent := pd_sent met_pod\<rparr>"
  have "open_log pair_wcfg met_pod = (Inr (), ?q)"
    by (simp add: open_log_def make_dir_def write_file_def bindP_def io_def demo_paths node_at_def set_node_def pair_wcfg_def
        demo_wcfg_def run_pod_def opened_pod_def met_pod_def)
  moreover have "load_secrets (wc_secrets_dir pair_wcfg) ?q = (Inr [], ?q)"
    by (simp add: load_secrets_def pair_wcfg_def demo_wcfg_def read_dir_def bindP_def io_def node_at_def demo_paths opened_pod_def
        run_pod_def returnP_def)
  moreover have "start_process pair_wcfg ?q = (Inr (), ?q)"
    by (simp add: start_process_def io_def node_at_def demo_paths opened_pod_def run_pod_def pair_wcfg_def demo_wcfg_def executable_def)
  moreover have "rl_process (demo_lib None) (exec_args pair_wcfg [] ?q) = \<lparr>pr_writes = [''ok'', ''no''], pr_summary = None, pr_end = Exited 3\<rparr>"
    "wc_barrier pair_wcfg"
    by (simp_all add: demo_lib_def pair_wcfg_def)
  ultimately show ?thesis unfolding run_starts_def using pair_validated pair_meets by (auto intro!: exI)
qed

theorem run_reports_outcome_witness:
  "\<exists>p'. wrapper_run (demo_lib None) pair_wcfg [] pair_pod = ((3, None), p') \<and>
     pd_objects p' ''logs'' = Some ''okno'' \<and> length (pd_sent p') = 2 \<and>
     pd_objects p' ''rep'' = Some (marshal_indent (fallback_report 3 '''' 0))"
proof -
  let ?q = "(opened_pod 493)\<lparr>pd_sent := pd_sent met_pod\<rparr>"
  have keys: "wc_report_key pair_wcfg = ''rep''" "wc_logs_key pair_wcfg = ''logs''" "wc_callback pair_wcfg \<noteq> ''''"
    "clean_path (wc_log_path pair_wcfg) \<noteq> clean_path (wc_summary_path pair_wcfg)" "wc_barrier pair_wcfg"
    "wc_coordinator pair_wcfg \<noteq> ''''"
    by (simp_all add: pair_wcfg_def demo_wcfg_def demo_paths)
  have "concat (map (masking_write (new_masking_writer (secret_values []))) [''ok'', ''no'']) = ''okno''"
    by (simp add: secret_values_def new_masking_writer_def masking_write_def)
  moreover have "rl_valid_url (demo_lib None) (wc_callback pair_wcfg)" by (simp add: demo_lib_def)
  moreover have "pd_faults ?q = []" "pd_now ?q = 0" "pd_sent pair_pod = []" "node_at (wc_summary_path pair_wcfg) ?q = None"
    by (simp_all add: opened_pod_def run_pod_def pair_pod_def node_at_def pair_wcfg_def demo_wcfg_def demo_paths)
  ultimately show ?thesis
    using run_reports_outcome[OF pair_starts] keys by (auto simp: exit_code_of_def await_requests_def)
qed

theorem silent_run_never_passes_witness:
  "\<exists>s r. pd_objects (snd (wrapper_run (demo_lib None) demo_wcfg [] (run_pod 493))) ''rep'' = Some s \<and>
     parse_summary_report s = Inr r \<and> \<not> pr_sla_passed r"
proof -
  have "wc_report_key demo_wcfg = ''rep''" by (simp add: demo_wcfg_def)
  then show ?thesis using silent_run_never_passes[OF demo_starts[of None] demo_apart(3,1,2) _ demo_apart(4)] by simp
qed

definition full_pod :: pod where "full_pod = (run_pod 493)\<lparr>pd_faults := [Some ''no space'']\<rparr>"

theorem start_failure_unreported_witness:
  "fst (wrapper_run (demo_lib None) demo_wcfg [] (run_pod 420)) = (1, Some (Rerr_io Starting ''permission denied'')) \<and>
   pd_sent (snd (wrapper_run (demo_lib None) demo_wcfg [] (run_pod 420))) = [] \<and>
   pd_objects (snd (wrapper_run (demo_lib None) demo_wcfg [] full_pod)) ''rep'' = None"
proof -
  have opn: "open_log demo_wcfg full_pod = (Inl (Rerr_io Making_dir ''no space''), run_pod 493)"
    by (simp add: open_log_def make_dir_def bindP_def io_def full_pod_def run_pod_def)
  have b: "\<not> wc_barrier demo_wcfg" by (simp add: demo_wcfg_def)
  have "pd_sent (opened_pod 420) = []" "pd_objects (run_pod 493) ''rep'' = None" by (simp_all add: opened_pod_def run_pod_def)
  then show ?thesis
    using start_failure_unreported[OF demo_validated[of None] b demo_opened demo_secrets demo_started(2) demo_apart(3,1,2) demo_apart(5) opn, where extra = "[]"]
    by simp
qed

section \<open>The init container\<close>

text \<open>
  What the init container leaves when it succeeds: the test is the stored object, with permissions under which the
  pre-flight check of the wrapper accepts it, and the configuration, when one is given, is the stored one with the
  placeholders of the mounted secrets filled in; the secrets are read when only the shared directory, the test and the
  configuration have been written.
\<close>

theorem init_prepares_runner:
  assumes "runner_init script cfg p = (Inr (), p')" and "init_validate cfg = Inr c"
    and "wc_runner_path w = path_join (ic_shared_dir c) ''runner''"
  shows "(\<exists>bin. pd_objects p (ic_binary_key c) = Some bin \<and> node_at (wc_runner_path w) p' = Some (File bin 493)) \<and>
    preflight_check w p' = None \<and>
    (ic_config_key c \<noteq> '''' \<longrightarrow> (\<exists>raw secrets p3 q. pd_objects p (ic_config_key c) = Some raw \<and>
       load_secrets (ic_secrets_dir c) p3 = (Inr secrets, q) \<and>
       (\<forall>x. clean_path x \<notin> {clean_path (ic_shared_dir c), path_join (ic_shared_dir c) ''runner'', path_join (ic_shared_dir c) ''vuhive.yaml''}
          \<longrightarrow> node_at x p3 = node_at x p) \<and>
       node_at (path_join (ic_shared_dir c) ''vuhive.yaml'') p' =
         Some (File (if secrets = [] then raw else resolve_template_placeholders raw (map_of secrets)) 420)))"
proof -
  from init_files[OF assms(1)] obtain c' bin p3 where f: "init_validate cfg = Inr c'" "pd_objects p (ic_binary_key c') = Some bin"
    "node_at (path_join (ic_shared_dir c') ''runner'') p' = Some (File bin 493)"
    "\<And>q. clean_path q \<notin> {clean_path (ic_shared_dir c'), path_join (ic_shared_dir c') ''runner'', path_join (ic_shared_dir c') ''vuhive.yaml''}
       \<Longrightarrow> node_at q p3 = node_at q p"
    "ic_config_key c' \<noteq> '''' \<Longrightarrow> \<exists>raw secrets q. pd_objects p (ic_config_key c') = Some raw \<and>
       load_secrets (ic_secrets_dir c') p3 = (Inr secrets, q) \<and>
       node_at (path_join (ic_shared_dir c') ''vuhive.yaml'') p' =
         Some (File (if secrets = [] then raw else resolve_template_placeholders raw (map_of secrets)) 420)"
    by blast
  have "c' = c" using f(1) assms(2) by simp
  note f = f[unfolded this]
  have "preflight_check w p' = None" using f(3) assms(3) by (simp add: preflight_check_def executable_def)
  moreover have "\<exists>bin. pd_objects p (ic_binary_key c) = Some bin \<and> node_at (wc_runner_path w) p' = Some (File bin 493)"
    using f(2,3) assms(3) by simp
  ultimately show ?thesis using f(4,5) by blast
qed

definition demo_icfg :: init_cfg where
  "demo_icfg = \<lparr>ic_shared_dir = ''/shared'', ic_secrets_dir = ''/s'', ic_binary_key = ''bin'', ic_config_key = ''conf'',
     ic_wrapper_source = [], ic_entrypoint_source = []\<rparr>"

definition init_pod :: pod where
  "init_pod = \<lparr>pd_files = [(''/s'', Dir), (''/s/K'', File ''v'' 420)], pd_objects = [''bin'' \<mapsto> ''test'', ''conf'' \<mapsto> ''key''],
     pd_sent = [], pd_answers = [], pd_faults = [], pd_now = 0\<rparr>"

lemma demo_init_runs: "fst (runner_init ''run'' demo_icfg init_pod) = Inr ()"
  by code_simp

theorem init_prepares_runner_witness:
  "preflight_check (demo_wcfg\<lparr>wc_runner_path := ''/shared/runner''\<rparr>) (snd (runner_init ''run'' demo_icfg init_pod)) = None \<and>
   node_at ''/shared/runner'' (snd (runner_init ''run'' demo_icfg init_pod)) = Some (File ''test'' 493)"
proof -
  have v: "init_validate demo_icfg = Inr demo_icfg"
    by (simp add: init_validate_def demo_icfg_def or_default_def trim_space_graphic graphic_def)
  have w: "wc_runner_path (demo_wcfg\<lparr>wc_runner_path := ''/shared/runner''\<rparr>) = path_join (ic_shared_dir demo_icfg) ''runner''"
    by (simp add: path_join_def demo_icfg_def clean_path_def)
  have r: "runner_init ''run'' demo_icfg init_pod = (Inr (), snd (runner_init ''run'' demo_icfg init_pod))"
    using demo_init_runs by (metis prod.collapse)
  have "pd_objects init_pod (ic_binary_key demo_icfg) = Some ''test''" by (simp add: init_pod_def demo_icfg_def)
  then show ?thesis using init_prepares_runner[OF r v w] by auto
qed

end
