(* ===== verification/Jwt.thy ===== *)
theory Jwt
  imports Access_Control Go_Json Ciphers
begin

text \<open>
  JSON web tokens as the verifier of the control plane (\<^verbatim>\<open>internal/adapters/outbound/auth/keycloak_verifier.go\<close>) and the
  command line client (\<^verbatim>\<open>internal/cli/credentials.go\<close>) read them: base64 for addresses without padding, the header, the
  claims and the sets of keys.
\<close>

section \<open>Base64 for addresses\<close>

text \<open>\<open>base64.RawURLEncoding\<close>: two other letters and no padding; line breaks are skipped.\<close>

definition from_url_letter :: "char \<Rightarrow> char" where
  "from_url_letter c = (if c = CHR ''-'' then CHR ''+'' else if c = CHR ''_'' then CHR ''/'' else c)"

definition to_url_letter :: "char \<Rightarrow> char" where
  "to_url_letter c = (if c = CHR ''+'' then CHR ''-'' else if c = CHR ''/'' then CHR ''_'' else c)"

definition raw_url_decode :: "string \<Rightarrow> string option" where
  "raw_url_decode s =
     (let t = filter (\<lambda>c. c \<noteq> CHR 0x0A \<and> c \<noteq> CHR 0x0D) s
      in if list_ex (\<lambda>c. c = CHR ''+'' \<or> c = CHR ''/'' \<or> c = CHR ''='') t then None
         else if length t mod 4 = 1 then None
         else b64_quanta (map from_url_letter t @ replicate ((4 - length t mod 4) mod 4) (CHR ''='')))"

definition raw_url_encode :: "string \<Rightarrow> string" where
  "raw_url_encode s = filter (\<lambda>c. c \<noteq> CHR ''='') (map to_url_letter (b64_encode s))"

section \<open>Claims\<close>

record jwt_header =
  jh_alg :: string
  jh_typ :: string
  jh_kid :: string

definition put_header :: "string \<Rightarrow> json \<Rightarrow> jwt_header \<Rightarrow> jwt_header option" where
  "put_header n v h =
     (if n = ''alg'' then map_option (\<lambda>s. h\<lparr>jh_alg := s\<rparr>) (get_text v (jh_alg h))
      else if n = ''typ'' then map_option (\<lambda>s. h\<lparr>jh_typ := s\<rparr>) (get_text v (jh_typ h))
      else map_option (\<lambda>s. h\<lparr>jh_kid := s\<rparr>) (get_text v (jh_kid h)))"

definition decode_header :: "string \<Rightarrow> jwt_header option" where
  "decode_header s =
     (case json_text s of
        None \<Rightarrow> None
      | Some v \<Rightarrow> decode_struct [''alg'', ''typ'', ''kid''] put_header v \<lparr>jh_alg = '''', jh_typ = '''', jh_kid = ''''\<rparr>)"

record jwt_payload =
  jp_sub :: string
  jp_username :: string
  jp_email :: string
  jp_exp :: int
  jp_iat :: int
  jp_nbf :: int
  jp_iss :: string
  jp_aud :: json
  jp_realm_roles :: "string list"
  jp_resources :: "(string \<times> string list) list"
  jp_groups :: "string list"

definition no_payload :: jwt_payload where
  "no_payload = \<lparr>jp_sub = '''', jp_username = '''', jp_email = '''', jp_exp = 0, jp_iat = 0, jp_nbf = 0, jp_iss = '''',
     jp_aud = J_null, jp_realm_roles = [], jp_resources = [], jp_groups = []\<rparr>"

text \<open>A struct with the field \<open>roles\<close> only.\<close>

definition decode_roles :: "json \<Rightarrow> string list \<Rightarrow> string list option" where
  "decode_roles = decode_struct [''roles''] (\<lambda>_ v _. get_slice get_text '''' v)"

text \<open>A map: the value of a name that occurs twice is the later one.\<close>

fun decode_resources :: "(string \<times> json) list \<Rightarrow> (string \<times> string list) list \<Rightarrow> (string \<times> string list) list option" where
  "decode_resources [] rs = Some rs"
| "decode_resources ((k, v) # ms) rs =
     (case decode_roles v [] of None \<Rightarrow> None | Some r \<Rightarrow> decode_resources ms ((k, r) # filter (\<lambda>x. fst x \<noteq> k) rs))"

definition get_resources :: "json \<Rightarrow> (string \<times> string list) list \<Rightarrow> (string \<times> string list) list option" where
  "get_resources v old = (case v of J_null \<Rightarrow> Some [] | J_obj ms \<Rightarrow> decode_resources ms old | _ \<Rightarrow> None)"

definition payload_fields :: "string list" where
  "payload_fields = [''sub'', ''preferred_username'', ''email'', ''exp'', ''iat'', ''nbf'', ''iss'', ''aud'', ''realm_access'',
     ''resource_access'', ''groups'']"

definition put_payload :: "string \<Rightarrow> json \<Rightarrow> jwt_payload \<Rightarrow> jwt_payload option" where
  "put_payload n v p =
     (if n = ''sub'' then map_option (\<lambda>s. p\<lparr>jp_sub := s\<rparr>) (get_text v (jp_sub p))
      else if n = ''preferred_username'' then map_option (\<lambda>s. p\<lparr>jp_username := s\<rparr>) (get_text v (jp_username p))
      else if n = ''email'' then map_option (\<lambda>s. p\<lparr>jp_email := s\<rparr>) (get_text v (jp_email p))
      else if n = ''exp'' then map_option (\<lambda>i. p\<lparr>jp_exp := i\<rparr>) (get_int64 v (jp_exp p))
      else if n = ''iat'' then map_option (\<lambda>i. p\<lparr>jp_iat := i\<rparr>) (get_int64 v (jp_iat p))
      else if n = ''nbf'' then map_option (\<lambda>i. p\<lparr>jp_nbf := i\<rparr>) (get_int64 v (jp_nbf p))
      else if n = ''iss'' then map_option (\<lambda>s. p\<lparr>jp_iss := s\<rparr>) (get_text v (jp_iss p))
      else if n = ''aud'' then Some (p\<lparr>jp_aud := v\<rparr>)
      else if n = ''realm_access'' then map_option (\<lambda>r. p\<lparr>jp_realm_roles := r\<rparr>) (decode_roles v (jp_realm_roles p))
      else if n = ''resource_access'' then map_option (\<lambda>r. p\<lparr>jp_resources := r\<rparr>) (get_resources v (jp_resources p))
      else map_option (\<lambda>g. p\<lparr>jp_groups := g\<rparr>) (get_slice get_text '''' v))"

definition decode_payload :: "string \<Rightarrow> jwt_payload option" where
  "decode_payload s =
     (case json_text s of None \<Rightarrow> None | Some v \<Rightarrow> decode_struct payload_fields put_payload v no_payload)"

text \<open>
  Seconds since 1970 as a time; the seconds are counted in 64 bits from the year 1.  The zero time, which says that there
  is no expiry, is \<open>0\<close>.
\<close>

definition unix_epoch :: int where "unix_epoch = 62135596800"

definition from_unix :: "int \<Rightarrow> time" where
  "from_unix s = wrap64 (s + unix_epoch) * second"

definition to_unix :: "time \<Rightarrow> int" where
  "to_unix t = t div second - unix_epoch"

definition expiry_of :: "int \<Rightarrow> time" where
  "expiry_of e = (if 0 < e then from_unix e else 0)"

section \<open>The encoding is read back\<close>

lemma url_letters: "0 \<le> n \<Longrightarrow> n < 64 \<Longrightarrow>
    from_url_letter (to_url_letter (sextet n)) = sextet n \<and> to_url_letter (sextet n) \<notin> {CHR ''='', CHR ''+'', CHR ''/'', CHR 0x0A, CHR 0x0D}"
proof -
  assume n: "0 \<le> n" "n < 64"
  have all: "list_all (\<lambda>k. let c = to_url_letter (b64_table ! k) in from_url_letter c = b64_table ! k \<and>
      c \<noteq> CHR ''='' \<and> c \<noteq> CHR ''+'' \<and> c \<noteq> CHR ''/'' \<and> c \<noteq> CHR 0x0A \<and> c \<noteq> CHR 0x0D) [0..<64]"
    by code_simp
  have "nat n \<in> set [0..<64]" using n by auto
  then show ?thesis using all unfolding list_all_iff Let_def sextet_def by auto
qed

lemma url_letter:
  assumes "0 \<le> n" and "n < 64"
  shows "from_url_letter (to_url_letter (sextet n)) = sextet n" "to_url_letter (sextet n) \<noteq> CHR ''=''"
    "to_url_letter (sextet n) \<noteq> CHR ''+''" "to_url_letter (sextet n) \<noteq> CHR ''/''" "to_url_letter (sextet n) \<noteq> CHR 0x0A"
    "to_url_letter (sextet n) \<noteq> CHR 0x0D"
  using url_letters[OF assms] by auto

lemma url_pad: "to_url_letter (CHR ''='') = CHR ''=''" "from_url_letter (CHR ''='') = CHR ''=''"
  by (simp_all add: to_url_letter_def from_url_letter_def)

lemma raw_url_padded:
  "map from_url_letter (raw_url_encode s) @ replicate ((4 - length (raw_url_encode s) mod 4) mod 4) (CHR ''='') = b64_encode s \<and>
   length (raw_url_encode s) mod 4 \<noteq> 1 \<and>
   (\<forall>c \<in> set (raw_url_encode s). c \<notin> {CHR ''='', CHR ''+'', CHR ''/'', CHR 0x0A, CHR 0x0D})"
proof (induction s rule: b64_encode.induct)
  case (4 a b c s)
  let ?q = "[sextet (of_char a div 4), sextet (bits (of_char a mod 4) 16 (of_char b div 16)),
     sextet (bits (of_char b mod 16) 4 (of_char c div 64)), sextet (of_char c mod 64)]"
  have q: "\<forall>d \<in> set ?q. from_url_letter (to_url_letter d) = d \<and> to_url_letter d \<notin> {CHR ''='', CHR ''+'', CHR ''/'', CHR 0x0A, CHR 0x0D}"
    by (simp add: url_letter byte_parts sextet_parts)
  have e: "raw_url_encode (a # b # c # s) = map to_url_letter ?q @ raw_url_encode s"
    using q by (simp add: raw_url_encode_def Let_def)
  have "length (raw_url_encode (a # b # c # s)) mod 4 = length (raw_url_encode s) mod 4" by (simp add: e)
  then show ?case using 4 q unfolding e by (simp add: Let_def)
qed (simp_all add: raw_url_encode_def Let_def url_pad url_letter byte_parts sextet_parts numeral_2_eq_2)

lemma raw_url_roundtrip: "raw_url_decode (raw_url_encode s) = Some s"
proof -
  have f: "filter (\<lambda>c. c \<noteq> CHR 0x0A \<and> c \<noteq> CHR 0x0D) (raw_url_encode s) = raw_url_encode s"
    using raw_url_padded[of s] by (simp add: filter_id_conv)
  have x: "\<not> list_ex (\<lambda>c. c = CHR ''+'' \<or> c = CHR ''/'' \<or> c = CHR ''='') (raw_url_encode s)"
    using raw_url_padded[of s] by (auto simp: list_ex_iff)
  show ?thesis
    using raw_url_padded[of s] x b64_quanta_encode[of s] by (simp add: raw_url_decode_def f Let_def)
qed

end
