(* ===== verification/Cli_Credentials.thy ===== *)
theory Cli_Credentials
  imports Go_Clock Go_Text Jwt
begin

text \<open>
  The credentials that the client keeps (\<^verbatim>\<open>internal/cli/credentials.go\<close>): their file, their JSON form and the claims
  that the client reads out of the access token for its own checks.
\<close>

section \<open>What the commands share\<close>

text \<open>
  What the commands of the client (\<^verbatim>\<open>internal/cli\<close>) share: the machine they run on with its credentials file, its
  clock, its output and the requests it sends; the flags of the library \<open>flag\<close>; and JSON answers whose decoding errors the
  code drops.  The network is an infinite list of answers, one for each request that is sent, with the time each takes.
  Diagnostics on the error stream are not modelled.
\<close>

section \<open>Answers read leniently\<close>

text \<open>
  \<open>_ = json.Unmarshal(body, &v)\<close>: a body that is not JSON leaves the zero value; a member of the wrong type is skipped
  and the others are stored.
\<close>

fun decode_members_lenient :: "string list \<Rightarrow> (string \<Rightarrow> json \<Rightarrow> 'a \<Rightarrow> 'a option) \<Rightarrow> (string \<times> json) list \<Rightarrow> 'a \<Rightarrow> 'a" where
  "decode_members_lenient names put [] x = x"
| "decode_members_lenient names put ((k, v) # ms) x =
     decode_members_lenient names put ms
       (case match_field names k of None \<Rightarrow> x | Some n \<Rightarrow> (case put n v x of None \<Rightarrow> x | Some y \<Rightarrow> y))"

definition decode_lenient :: "string list \<Rightarrow> (string \<Rightarrow> json \<Rightarrow> 'a \<Rightarrow> 'a option) \<Rightarrow> json option \<Rightarrow> 'a \<Rightarrow> 'a" where
  "decode_lenient names put v x = (case v of Some (J_obj ms) \<Rightarrow> decode_members_lenient names put ms x | _ \<Rightarrow> x)"

lemma lenient_of_strict: "decode_struct names put v x = Some y \<Longrightarrow> decode_lenient names put (Some v) x = y"
proof -
  have "decode_members names put ms x = Some y \<Longrightarrow> decode_members_lenient names put ms x = y" for ms x
    by (induction names put ms x rule: decode_members.induct) (auto split: option.splits)
  then show "decode_struct names put v x = Some y \<Longrightarrow> decode_lenient names put (Some v) x = y"
    by (cases v) (simp_all add: decode_struct_def decode_lenient_def)
qed

section \<open>The machine\<close>

datatype body = No_body | Form "(string \<times> string) list" | Json json | Multipart "(string \<times> string) list" string

record request =
  rq_method :: string
  rq_url :: string
  rq_bearer :: "string option"
  rq_body :: body

datatype reply = Http_failed | Http int string

record machine =
  m_file :: "string option"
  m_readable :: bool
  m_writable :: bool
  m_now :: time
  m_zone :: int
  m_net :: "nat \<Rightarrow> nat \<times> reply"
  m_sent :: "request list"
  m_out :: "string list"

text \<open>\<open>http.Client.Do\<close>: the answer of the network, and the time it has taken.\<close>

definition send :: "request \<Rightarrow> machine \<Rightarrow> reply \<times> machine" where
  "send rq m =
     (case m_net m (length (m_sent m)) of
        (d, r) \<Rightarrow> (r, m\<lparr>m_sent := m_sent m @ [rq], m_now := m_now m + int d\<rparr>))"

definition say :: "string \<Rightarrow> machine \<Rightarrow> machine" where
  "say s m = m\<lparr>m_out := m_out m @ [s]\<rparr>"

definition sleep :: "duration \<Rightarrow> machine \<Rightarrow> machine" where
  "sleep d m = m\<lparr>m_now := m_now m + max 0 d\<rparr>"

section \<open>Flags\<close>

datatype flag_kind = Text_flag | Bool_flag

text \<open>\<open>strconv.ParseBool\<close>.\<close>

definition parse_bool :: "string \<Rightarrow> bool option" where
  "parse_bool s =
     (if s \<in> {''1'', ''t'', ''T'', ''TRUE'', ''true'', ''True''} then Some True
      else if s \<in> {''0'', ''f'', ''F'', ''FALSE'', ''false'', ''False''} then Some False else None)"

definition flag_name :: "string \<Rightarrow> string" where
  "flag_name s = (if prefix ''--'' s then drop 2 s else drop 1 s)"

definition split_equals :: "string \<Rightarrow> string \<times> string option" where
  "split_equals s =
     (let rest = dropWhile (\<lambda>c. c \<noteq> CHR ''='') s
      in if rest = [] then (s, None) else (takeWhile (\<lambda>c. c \<noteq> CHR ''='') s, Some (tl rest)))"

text \<open>
  \<open>FlagSet.Parse\<close> with \<open>ContinueOnError\<close>: the values that were set, the last one of a name in front, and the arguments
  from the first that is no flag on.  A value of a flag that is not boolean may be the next argument.
\<close>

fun parse_flags :: "(string \<times> flag_kind) list \<Rightarrow> (string \<times> string) list \<Rightarrow> string list \<Rightarrow> ((string \<times> string) list \<times> string list) option" where
  "parse_flags defs vals [] = Some (vals, [])"
| "parse_flags defs vals (s # args) =
     (if length s < 2 \<or> \<not> prefix ''-'' s then Some (vals, s # args)
      else if s = ''--'' then Some (vals, args)
      else let n = flag_name s
           in if n = '''' \<or> prefix ''-'' n \<or> prefix ''='' n then None
              else case split_equals n of (name, v) \<Rightarrow>
                (case map_of defs name of
                   None \<Rightarrow> None
                 | Some Bool_flag \<Rightarrow>
                     (case v of
                        None \<Rightarrow> parse_flags defs ((name, ''true'') # vals) args
                      | Some b \<Rightarrow>
                          (case parse_bool b of
                             None \<Rightarrow> None
                           | Some x \<Rightarrow> parse_flags defs ((name, if x then ''true'' else ''false'') # vals) args))
                 | Some Text_flag \<Rightarrow>
                     (case (v, args) of
                        (Some t, _) \<Rightarrow> parse_flags defs ((name, t) # vals) args
                      | (None, []) \<Rightarrow> None
                      | (None, t # args') \<Rightarrow> parse_flags defs ((name, t) # vals) args')))"

definition flag_value :: "(string \<times> string) list \<Rightarrow> string \<Rightarrow> string \<Rightarrow> string" where
  "flag_value vals n dflt = (case map_of vals n of Some v \<Rightarrow> v | None \<Rightarrow> dflt)"

section \<open>The file\<close>

record credentials =
  cr_access :: string
  cr_refresh :: string
  cr_id :: string
  cr_type :: string
  cr_issuer :: string
  cr_server :: string
  cr_expires :: time

definition no_credentials :: credentials where
  "no_credentials = \<lparr>cr_access = '''', cr_refresh = '''', cr_id = '''', cr_type = '''', cr_issuer = '''', cr_server = '''',
     cr_expires = 0\<rparr>"

definition credential_fields :: "string list" where
  "credential_fields = [''access_token'', ''refresh_token'', ''id_token'', ''token_type'', ''issuer_url'', ''server_url'', ''expires_at'']"

definition omit_empty :: "string \<Rightarrow> string \<Rightarrow> (string \<times> json) list" where
  "omit_empty n s = (if s = '''' then [] else [(n, J_str s)])"

definition credentials_json :: "int \<Rightarrow> credentials \<Rightarrow> json option" where
  "credentials_json zone c =
     (case json_time zone (cr_expires c) of
        None \<Rightarrow> None
      | Some v \<Rightarrow> Some (J_obj ((''access_token'', J_str (cr_access c)) # omit_empty ''refresh_token'' (cr_refresh c) @
          omit_empty ''id_token'' (cr_id c) @ omit_empty ''token_type'' (cr_type c) @ omit_empty ''issuer_url'' (cr_issuer c) @
          omit_empty ''server_url'' (cr_server c) @ [(''expires_at'', v)])))"

definition put_credentials :: "string \<Rightarrow> json \<Rightarrow> credentials \<Rightarrow> credentials option" where
  "put_credentials n v c =
     (if n = ''access_token'' then map_option (\<lambda>s. c\<lparr>cr_access := s\<rparr>) (get_text v (cr_access c))
      else if n = ''refresh_token'' then map_option (\<lambda>s. c\<lparr>cr_refresh := s\<rparr>) (get_text v (cr_refresh c))
      else if n = ''id_token'' then map_option (\<lambda>s. c\<lparr>cr_id := s\<rparr>) (get_text v (cr_id c))
      else if n = ''token_type'' then map_option (\<lambda>s. c\<lparr>cr_type := s\<rparr>) (get_text v (cr_type c))
      else if n = ''issuer_url'' then map_option (\<lambda>s. c\<lparr>cr_issuer := s\<rparr>) (get_text v (cr_issuer c))
      else if n = ''server_url'' then map_option (\<lambda>s. c\<lparr>cr_server := s\<rparr>) (get_text v (cr_server c))
      else map_option (\<lambda>t. c\<lparr>cr_expires := t\<rparr>) (get_time v (cr_expires c)))"

text \<open>\<open>Inr None\<close> says that there is no file.\<close>

definition store_load :: "machine \<Rightarrow> unit + credentials option" where
  "store_load m =
     (case m_file m of
        None \<Rightarrow> Inr None
      | Some s \<Rightarrow>
          if \<not> m_readable m then Inl ()
          else case json_text s of
            None \<Rightarrow> Inl ()
          | Some v \<Rightarrow> (case decode_struct credential_fields put_credentials v no_credentials of None \<Rightarrow> Inl () | Some c \<Rightarrow> Inr (Some c)))"

definition store_save :: "credentials \<Rightarrow> machine \<Rightarrow> bool \<times> machine" where
  "store_save c m =
     (case credentials_json (m_zone m) c of
        None \<Rightarrow> (False, m)
      | Some v \<Rightarrow> if m_writable m then (True, m\<lparr>m_file := Some (marshal_indent v)\<rparr>) else (False, m))"

definition store_clear :: "machine \<Rightarrow> bool \<times> machine" where
  "store_clear m = (if m_file m = None then (True, m) else if m_writable m then (True, m\<lparr>m_file := None\<rparr>) else (False, m))"

text \<open>What the callers use that drop the error of \<open>Load\<close>.\<close>

definition loaded :: "machine \<Rightarrow> credentials option" where
  "loaded m = (case store_load m of Inr c \<Rightarrow> c | Inl _ \<Rightarrow> None)"

section \<open>Claims\<close>

definition client_fields :: "string list" where
  "client_fields = [''sub'', ''preferred_username'', ''email'', ''exp'', ''realm_access'', ''groups'']"

definition client_claims :: "credentials \<Rightarrow> claims option" where
  "client_claims c =
     (if cr_access c = '''' then None
      else case split_on (CHR ''.'') (cr_access c) of
        [_, p, _] \<Rightarrow>
          (case raw_url_decode p of
             None \<Rightarrow> None
           | Some bytes \<Rightarrow>
               (case json_text bytes of
                  None \<Rightarrow> None
                | Some v \<Rightarrow>
                    (case decode_struct client_fields put_payload v no_payload of
                       None \<Rightarrow> None
                     | Some q \<Rightarrow> Some (new_claims (jp_sub q) (jp_username q) (jp_email q) (jp_realm_roles q) (jp_groups q) (expiry_of (jp_exp q))))))
      | _ \<Rightarrow> None)"

section \<open>The file is read back\<close>

definition valid_text :: "string \<Rightarrow> bool" where
  "valid_text s \<longleftrightarrow> to_valid_utf8 s = s"

definition valid_credentials :: "credentials \<Rightarrow> bool" where
  "valid_credentials c \<longleftrightarrow> valid_text (cr_access c) \<and> valid_text (cr_refresh c) \<and> valid_text (cr_id c) \<and> valid_text (cr_type c) \<and>
     valid_text (cr_issuer c) \<and> valid_text (cr_server c)"

lemma credential_names:
  "to_valid_utf8 ''access_token'' = ''access_token''" "to_valid_utf8 ''refresh_token'' = ''refresh_token''"
  "to_valid_utf8 ''id_token'' = ''id_token''" "to_valid_utf8 ''token_type'' = ''token_type''"
  "to_valid_utf8 ''issuer_url'' = ''issuer_url''" "to_valid_utf8 ''server_url'' = ''server_url''"
  "to_valid_utf8 ''expires_at'' = ''expires_at''"
  by (simp_all add: to_valid_ascii code_def)

lemma credential_matches: "n \<in> set credential_fields \<Longrightarrow> match_field credential_fields n = Some n"
  by (simp add: match_field_def)

lemma omitted:
  "cr_refresh x = '''' \<Longrightarrow> decode_members credential_fields put_credentials (omit_empty ''refresh_token'' s @ ms) x =
     decode_members credential_fields put_credentials ms (x\<lparr>cr_refresh := s\<rparr>)"
  "cr_id x = '''' \<Longrightarrow> decode_members credential_fields put_credentials (omit_empty ''id_token'' s @ ms) x =
     decode_members credential_fields put_credentials ms (x\<lparr>cr_id := s\<rparr>)"
  "cr_type x = '''' \<Longrightarrow> decode_members credential_fields put_credentials (omit_empty ''token_type'' s @ ms) x =
     decode_members credential_fields put_credentials ms (x\<lparr>cr_type := s\<rparr>)"
  "cr_issuer x = '''' \<Longrightarrow> decode_members credential_fields put_credentials (omit_empty ''issuer_url'' s @ ms) x =
     decode_members credential_fields put_credentials ms (x\<lparr>cr_issuer := s\<rparr>)"
  "cr_server x = '''' \<Longrightarrow> decode_members credential_fields put_credentials (omit_empty ''server_url'' s @ ms) x =
     decode_members credential_fields put_credentials ms (x\<lparr>cr_server := s\<rparr>)"
  by (cases x; cases "s = ''''"; simp add: omit_empty_def credential_matches credential_fields_def[THEN arg_cong, of set] put_credentials_def get_text_def)+

lemma written_credentials_decoded:
  assumes "json_time zone (cr_expires c) = Some v" and "zone mod 60 = 0"
  shows "decode_members credential_fields put_credentials ((''access_token'', J_str (cr_access c)) # omit_empty ''refresh_token'' (cr_refresh c) @
          omit_empty ''id_token'' (cr_id c) @ omit_empty ''token_type'' (cr_type c) @ omit_empty ''issuer_url'' (cr_issuer c) @
          omit_empty ''server_url'' (cr_server c) @ [(''expires_at'', v)]) no_credentials = Some c"
proof -
  have m: "match_field credential_fields ''access_token'' = Some ''access_token''" "match_field credential_fields ''expires_at'' = Some ''expires_at''"
    by (simp_all add: credential_matches credential_fields_def[THEN arg_cong, of set])
  have a: "put_credentials ''access_token'' (J_str s) x = Some (x\<lparr>cr_access := s\<rparr>)" for s x
    by (simp add: put_credentials_def get_text_def)
  have e: "put_credentials ''expires_at'' v x = Some (x\<lparr>cr_expires := cr_expires c\<rparr>)" for x
    using json_time_read[OF assms] by (simp add: put_credentials_def)
  show ?thesis by (simp add: m a e omitted no_credentials_def)
qed

lemma written_credentials_text:
  assumes "credentials_json zone c = Some v" and "valid_credentials c"
  shows "json_text (marshal_indent v) = Some v"
proof -
  obtain w where w: "json_time zone (cr_expires c) = Some w" using assms(1) by (auto simp: credentials_json_def split: option.splits)
  then have v: "v = J_obj ((''access_token'', J_str (cr_access c)) # omit_empty ''refresh_token'' (cr_refresh c) @
          omit_empty ''id_token'' (cr_id c) @ omit_empty ''token_type'' (cr_type c) @ omit_empty ''issuer_url'' (cr_issuer c) @
          omit_empty ''server_url'' (cr_server c) @ [(''expires_at'', w)])"
    using assms(1) by (simp add: credentials_json_def)
  have o1: "map (\<lambda>(k, u). (to_valid_utf8 k, valid_texts u)) (omit_empty n s) = omit_empty n s"
    if "to_valid_utf8 n = n" "valid_text s" for n s
    using that by (simp add: omit_empty_def valid_text_def)

  have i: "int_numbers v" using json_time_valid[OF w] unfolding v by (auto simp: omit_empty_def split: if_splits)
  have "foldr max (map (\<lambda>(k, u). json_depth u) (omit_empty n s)) 0 = 0" for n s by (simp add: omit_empty_def)
  then have d: "json_depth v = 1" using json_time_valid[OF w] unfolding v by simp
  have t: "valid_texts v = v"
    using json_time_valid[OF w] assms(2) unfolding v by (simp add: o1 credential_names valid_credentials_def) (simp add: valid_text_def)
  from marshal_reads(3)[OF i] d t show ?thesis by simp
qed

section \<open>Properties\<close>

text \<open>
  C24: What the client saves it loads.  Credentials with texts in valid UTF-8 that were saved successfully are the credentials
  that the next command loads, with the same tokens, addresses and expiry to the nanosecond, in every zone whose offset is
  a whole number of minutes.
\<close>

theorem saved_credentials_load:
  assumes "store_save c m = (True, m')" and "valid_credentials c" and "m_zone m mod 60 = 0" and "m_readable m"
  shows "store_load m' = Inr (Some c)"
proof -
  obtain v where v: "credentials_json (m_zone m) c = Some v" "m' = m\<lparr>m_file := Some (marshal_indent v)\<rparr>"
    using assms(1) by (auto simp: store_save_def split: option.splits if_splits)
  obtain w where w: "json_time (m_zone m) (cr_expires c) = Some w" using v(1) by (auto simp: credentials_json_def split: option.splits)
  have "decode_struct credential_fields put_credentials v no_credentials = Some c"
    using v(1) written_credentials_decoded[OF w assms(3)] by (auto simp: credentials_json_def w decode_struct_def)
  then show ?thesis using written_credentials_text[OF v(1) assms(2)] assms(4) v(2) by (simp add: store_load_def)
qed

definition new_machine :: machine where
  "new_machine = \<lparr>m_file = None, m_readable = True, m_writable = True, m_now = 63900000000 * second, m_zone = 7200,
     m_net = (\<lambda>_. (0, Http_failed)), m_sent = [], m_out = []\<rparr>"

definition demo_credentials :: credentials where
  "demo_credentials = no_credentials\<lparr>cr_access := ''a.b.c'', cr_type := ''Bearer'', cr_expires := 63900000000 * second + 1500\<rparr>"

theorem saved_credentials_load_witness:
  "\<exists>m'. store_save demo_credentials new_machine = (True, m') \<and> store_load m' = Inr (Some demo_credentials)"
proof -
  have "0 \<le> year_of (cr_expires demo_credentials + 7200 * second) \<and> year_of (cr_expires demo_credentials + 7200 * second) \<le> 9999"
    by code_simp
  then obtain m' where s: "store_save demo_credentials new_machine = (True, m')"
    by (simp add: store_save_def credentials_json_def json_time_def new_machine_def)
  have "valid_credentials demo_credentials"
    by (simp add: valid_credentials_def valid_text_def demo_credentials_def no_credentials_def to_valid_ascii code_def)
  from saved_credentials_load[OF s this] s show ?thesis by (simp add: new_machine_def)
qed

end
