(* ===== verification/Cli_Auth.thy ===== *)
theory Cli_Auth
  imports Cli_Credentials
begin

text \<open>
  The command \<^verbatim>\<open>vuhive auth\<close> (\<^verbatim>\<open>internal/cli/auth.go\<close>): status, logout, and login through the browser or with a device
  code.  The OIDC library, the random values, the loopback listener and the check of addresses are a record of arguments;
  what the browser sends to the loopback server are two lists of requests in the order in which they are handled, those before
  the client waits and those after that.
\<close>

section \<open>Surroundings\<close>

record tokens =
  tk_access :: string
  tk_refresh :: string
  tk_id :: string
  tk_type :: string
  tk_expiry :: time

record cli_lib =
  cl_valid_url :: "string \<Rightarrow> bool"
  cl_verifier_bytes :: string
  cl_state_bytes :: string
  cl_port :: "int option"
  cl_party :: bool
  cl_auth_url :: "string \<Rightarrow> string \<Rightarrow> string"
  cl_early :: "(string \<times> (string \<times> string) list) list"
  cl_callbacks :: "(string \<times> (string \<times> string) list) list"
  cl_pick :: bool
  cl_exchange :: "string \<Rightarrow> string \<Rightarrow> tokens option"

section \<open>Status and logout\<close>

definition status_lines :: "time \<Rightarrow> credentials \<Rightarrow> claims \<Rightarrow> string list" where
  "status_lines now c cl =
     [''=== vuhive-cloud Authentication Status ==='',
      ''User:       '' @ cl_username cl @ '' ('' @ cl_subject cl @ '')''] @
     (if cl_email cl \<noteq> '''' then [''Email:      '' @ cl_email cl] else []) @
     [''Roles:      '' @ join '', '' (cl_roles cl)] @
     (if cl_groups cl \<noteq> [] then [''Groups:     '' @ join '', '' (cl_groups cl)] else []) @
     (if cr_server c \<noteq> '''' then [''Server URL: '' @ cr_server c] else []) @
     [if claims_expired now cl
      then ''Status:     EXPIRED (expired at '' @ rfc3339 (cl_expires cl) @ ''). Run 'vuhive auth login' to refresh.''
      else ''Status:     ACTIVE (expires at '' @ rfc3339 (cl_expires cl) @ '')'']"

definition auth_status :: "machine \<Rightarrow> int \<times> machine" where
  "auth_status m =
     (case store_load m of
        Inl _ \<Rightarrow> (1, m)
      | Inr None \<Rightarrow> (0, say ''Not authenticated. Run 'vuhive auth login' to authenticate.'' m)
      | Inr (Some c) \<Rightarrow>
          if cr_access c = '''' then (0, say ''Not authenticated. Run 'vuhive auth login' to authenticate.'' m)
          else (case client_claims c of
                  None \<Rightarrow> (1, m)
                | Some cl \<Rightarrow> (0, foldl (\<lambda>x l. say l x) m (status_lines (m_now m) c cl))))"

definition revoke_request :: "credentials \<Rightarrow> request" where
  "revoke_request c =
     \<lparr>rq_method = ''POST'', rq_url = trim_right_char (cr_issuer c) (CHR ''/'') @ ''/protocol/openid-connect/revoke'', rq_bearer = None,
      rq_body = Form [(''client_id'', ''vuhive-cloud-cli''), (''token'', cr_refresh c), (''token_type_hint'', ''refresh_token'')]\<rparr>"

definition auth_logout :: "cli_lib \<Rightarrow> machine \<Rightarrow> int \<times> machine" where
  "auth_logout lib m =
     (let m1 = (case loaded m of
                  None \<Rightarrow> m
                | Some c \<Rightarrow>
                    if cr_refresh c \<noteq> '''' \<and> cr_issuer c \<noteq> '''' \<and> cl_valid_url lib (rq_url (revoke_request c))
                    then snd (send (revoke_request c) m) else m)
      in case store_clear m1 of
           (False, m2) \<Rightarrow> (1, m2)
         | (True, m2) \<Rightarrow> (0, say ''Successfully logged out and cleared credentials.'' m2))"

section \<open>Device flow\<close>

record device_answer =
  da_code :: string
  da_user :: string
  da_uri :: string
  da_uri_complete :: string
  da_expires :: int
  da_interval :: int

definition put_device :: "string \<Rightarrow> json \<Rightarrow> device_answer \<Rightarrow> device_answer option" where
  "put_device n v d =
     (if n = ''device_code'' then map_option (\<lambda>s. d\<lparr>da_code := s\<rparr>) (get_text v (da_code d))
      else if n = ''user_code'' then map_option (\<lambda>s. d\<lparr>da_user := s\<rparr>) (get_text v (da_user d))
      else if n = ''verification_uri'' then map_option (\<lambda>s. d\<lparr>da_uri := s\<rparr>) (get_text v (da_uri d))
      else if n = ''verification_uri_complete'' then map_option (\<lambda>s. d\<lparr>da_uri_complete := s\<rparr>) (get_text v (da_uri_complete d))
      else if n = ''expires_in'' then map_option (\<lambda>i. d\<lparr>da_expires := i\<rparr>) (get_int64 v (da_expires d))
      else map_option (\<lambda>i. d\<lparr>da_interval := i\<rparr>) (get_int64 v (da_interval d)))"

definition device_answer_of :: "string \<Rightarrow> device_answer option" where
  "device_answer_of body =
     (case json_first body of
        None \<Rightarrow> None
      | Some v \<Rightarrow> decode_struct [''device_code'', ''user_code'', ''verification_uri'', ''verification_uri_complete'', ''expires_in'', ''interval'']
          put_device v \<lparr>da_code = '''', da_user = '''', da_uri = '''', da_uri_complete = '''', da_expires = 0, da_interval = 0\<rparr>)"

record token_answer =
  ta_access :: string
  ta_refresh :: string
  ta_id :: string
  ta_expires :: int
  ta_type :: string

definition put_token :: "string \<Rightarrow> json \<Rightarrow> token_answer \<Rightarrow> token_answer option" where
  "put_token n v t =
     (if n = ''access_token'' then map_option (\<lambda>s. t\<lparr>ta_access := s\<rparr>) (get_text v (ta_access t))
      else if n = ''refresh_token'' then map_option (\<lambda>s. t\<lparr>ta_refresh := s\<rparr>) (get_text v (ta_refresh t))
      else if n = ''id_token'' then map_option (\<lambda>s. t\<lparr>ta_id := s\<rparr>) (get_text v (ta_id t))
      else if n = ''expires_in'' then map_option (\<lambda>i. t\<lparr>ta_expires := i\<rparr>) (get_int64 v (ta_expires t))
      else map_option (\<lambda>s. t\<lparr>ta_type := s\<rparr>) (get_text v (ta_type t)))"

text \<open>The errors of these two decodings are dropped.\<close>

definition token_answer_of :: "string \<Rightarrow> token_answer" where
  "token_answer_of body =
     decode_lenient [''access_token'', ''refresh_token'', ''id_token'', ''expires_in'', ''token_type''] put_token (json_first body)
       \<lparr>ta_access = '''', ta_refresh = '''', ta_id = '''', ta_expires = 0, ta_type = ''''\<rparr>"

definition poll_error :: "string \<Rightarrow> string" where
  "poll_error body = decode_lenient [''error''] (\<lambda>_ v s. get_text v s) (json_first body) ''''"

definition device_request :: "string \<Rightarrow> string \<Rightarrow> request" where
  "device_request issuer client =
     \<lparr>rq_method = ''POST'', rq_url = issuer @ ''/protocol/openid-connect/auth/device'', rq_bearer = None,
      rq_body = Form [(''client_id'', client), (''scope'', ''openid profile email'')]\<rparr>"

definition poll_request :: "string \<Rightarrow> string \<Rightarrow> string \<Rightarrow> request" where
  "poll_request issuer client device =
     \<lparr>rq_method = ''POST'', rq_url = issuer @ ''/protocol/openid-connect/token'', rq_bearer = None,
      rq_body = Form [(''client_id'', client), (''device_code'', device), (''grant_type'', ''urn:ietf:params:oauth:grant-type:device_code'')]\<rparr>"

text \<open>The tokens of the answer are saved; an error of saving them is dropped.\<close>

definition device_credentials :: "string \<Rightarrow> string \<Rightarrow> token_answer \<Rightarrow> time \<Rightarrow> credentials" where
  "device_credentials issuer server t now =
     \<lparr>cr_access = ta_access t, cr_refresh = ta_refresh t, cr_id = ta_id t, cr_type = ta_type t, cr_issuer = issuer, cr_server = server,
      cr_expires = now + wrap64 (ta_expires t * second)\<rparr>"

definition finish_device :: "string \<Rightarrow> string \<Rightarrow> string \<Rightarrow> machine \<Rightarrow> machine" where
  "finish_device issuer server body m =
     say ''Successfully authenticated via Device Flow!''
       (snd (store_save (device_credentials issuer server (token_answer_of body) (m_now m)) m))"

definition slower :: "duration \<Rightarrow> duration" where
  "slower interval = wrap64 (interval + 2 * second)"

text \<open>
  The loop that polls until the deadline; \<open>None\<close> stands for a loop that never ends.  The polls go to the issuer whose
  device address was a valid one, so their requests can be built.
\<close>

partial_function (option) device_poll ::
  "string \<Rightarrow> string \<Rightarrow> string \<Rightarrow> string \<Rightarrow> time \<Rightarrow> duration \<Rightarrow> machine \<Rightarrow> (int \<times> machine) option" where
  "device_poll issuer server client device deadline interval m =
     (if \<not> m_now m < deadline then Some (1, m)
      else case send (poll_request issuer client device) (sleep interval m) of
        (r, m1) \<Rightarrow>
          (case r of
             Http_failed \<Rightarrow> device_poll issuer server client device deadline interval m1
           | Http status body \<Rightarrow>
               if status = 200 then Some (0, finish_device issuer server body m1)
               else if poll_error body = ''authorization_pending'' then device_poll issuer server client device deadline interval m1
               else if poll_error body = ''slow_down'' then device_poll issuer server client device deadline (slower interval) m1
               else Some (1, m1)))"

definition poll_interval :: "device_answer \<Rightarrow> duration" where
  "poll_interval d = (let i = wrap64 (da_interval d * second) in if i \<le> 0 then 5 * second else i)"

definition device_lines :: "device_answer \<Rightarrow> string list" where
  "device_lines d =
     [''=== Device Authorization Flow ==='',
      ''Navigate to: '' @ (if da_uri_complete d = '''' then da_uri d else da_uri_complete d),
      ''Enter User Code: '' @ da_user d, '''',
      ''Waiting for verification in browser...'']"

definition device_flow :: "cli_lib \<Rightarrow> string \<Rightarrow> string \<Rightarrow> string \<Rightarrow> machine \<Rightarrow> (int \<times> machine) option" where
  "device_flow lib issuer server client m =
     (if \<not> cl_valid_url lib (rq_url (device_request issuer client)) then Some (1, m)
      else case send (device_request issuer client) m of
        (Http_failed, m1) \<Rightarrow> Some (1, m1)
      | (Http status body, m1) \<Rightarrow>
          if status \<noteq> 200 then Some (1, m1)
          else case device_answer_of body of
            None \<Rightarrow> Some (1, m1)
          | Some d \<Rightarrow>
              let m2 = foldl (\<lambda>x l. say l x) m1 (device_lines d)
              in device_poll issuer server client (da_code d) (m_now m2 + wrap64 (da_expires d * second)) (poll_interval d) m2)"

section \<open>Login through the browser\<close>

text \<open>
  The loopback server: the status of its response and what it reports.  A query parameter that is repeated counts with its
  first value.
\<close>

datatype callback_end = Got_code string | Got_error | Timed_out

definition query :: "(string \<times> string) list \<Rightarrow> string \<Rightarrow> string" where
  "query q n = (case map_of q n of Some v \<Rightarrow> v | None \<Rightarrow> '''')"

definition handle_callback :: "string \<Rightarrow> string \<times> (string \<times> string) list \<Rightarrow> int \<times> callback_end option" where
  "handle_callback expected r =
     (case r of (path, q) \<Rightarrow>
        if path \<noteq> ''/callback'' then (404, None)
        else if query q ''state'' \<noteq> expected then (400, Some Got_error)
        else if query q ''error'' \<noteq> '''' then (400, Some Got_error)
        else if query q ''code'' = '''' then (400, Some Got_error)
        else (200, Some (Got_code (query q ''code''))))"

definition reports :: "string \<Rightarrow> (string \<times> (string \<times> string) list) list \<Rightarrow> callback_end list" where
  "reports expected rs = List.map_filter (\<lambda>r. snd (handle_callback expected r)) rs"

definition is_code :: "callback_end \<Rightarrow> bool" where
  "is_code x = (case x of Got_code _ \<Rightarrow> True | _ \<Rightarrow> False)"

text \<open>
  The client waits for one of two channels with room for one value each.  Of the requests that have come in before it waits,
  the first code and the first error are in the channels, and where both are ready the choice is free: \<open>pick\<close> is the code.
  Once it waits, the first request that the handler reports wakes it, or the two minutes are over.
\<close>

definition await_callback ::
  "string \<Rightarrow> (string \<times> (string \<times> string) list) list \<Rightarrow> (string \<times> (string \<times> string) list) list \<Rightarrow> bool \<Rightarrow> callback_end" where
  "await_callback expected early late pick =
     (let done_early = reports expected early
      in case (List.find is_code done_early, List.find (\<lambda>x. \<not> is_code x) done_early) of
           (Some c, Some e) \<Rightarrow> if pick then c else e
         | (Some c, None) \<Rightarrow> c
         | (None, Some e) \<Rightarrow> e
         | (None, None) \<Rightarrow> (case reports expected late of [] \<Rightarrow> Timed_out | x # _ \<Rightarrow> x))"

definition login_credentials :: "string \<Rightarrow> string \<Rightarrow> tokens \<Rightarrow> credentials" where
  "login_credentials issuer server t =
     \<lparr>cr_access = tk_access t, cr_refresh = tk_refresh t, cr_id = tk_id t,
      cr_type = (if tk_type t = '''' then ''Bearer'' else tk_type t), cr_issuer = issuer, cr_server = server, cr_expires = tk_expiry t\<rparr>"

definition login_lines :: "credentials \<Rightarrow> string list" where
  "login_lines c =
     (case client_claims c of
        None \<Rightarrow> [''Successfully authenticated!'']
      | Some cl \<Rightarrow>
          [''Successfully authenticated as '' @ cl_username cl @ '' ('' @ cl_email cl @ '')!'', ''Assigned Roles: '' @ join '', '' (cl_roles cl)] @
          (if cl_groups cl \<noteq> [] then [''Groups:         '' @ join '', '' (cl_groups cl)] else []))"

definition browser_flow :: "cli_lib \<Rightarrow> string \<Rightarrow> string \<Rightarrow> machine \<Rightarrow> int \<times> machine" where
  "browser_flow lib issuer server m =
     (let verifier = raw_url_encode (cl_verifier_bytes lib);
          challenge = raw_url_encode (sha256_bytes verifier);
          state = raw_url_encode (cl_state_bytes lib)
      in if \<not> cl_party lib then (1, m)
         else let m1 = foldl (\<lambda>x l. say l x) m [''Opening browser for authentication...'',
                         ''If browser does not open automatically, navigate to:'', cl_auth_url lib state challenge, '''']
         in case await_callback state (cl_early lib) (cl_callbacks lib) (cl_pick lib) of
              Got_code auth \<Rightarrow>
                (case cl_exchange lib auth verifier of
                   None \<Rightarrow> (1, m1)
                 | Some t \<Rightarrow>
                     (case store_save (login_credentials issuer server t) m1 of
                        (False, m2) \<Rightarrow> (1, m2)
                      | (True, m2) \<Rightarrow> (0, foldl (\<lambda>x l. say l x) m2 (login_lines (login_credentials issuer server t)))))
            | _ \<Rightarrow> (1, m1))"

definition login_flags :: "(string \<times> flag_kind) list" where
  "login_flags = [(''issuer'', Text_flag), (''server'', Text_flag), (''client-id'', Text_flag), (''no-browser'', Bool_flag), (''device'', Bool_flag)]"

definition auth_login :: "cli_lib \<Rightarrow> string list \<Rightarrow> machine \<Rightarrow> (int \<times> machine) option" where
  "auth_login lib args m =
     (case parse_flags login_flags [] args of
        None \<Rightarrow> Some (1, m)
      | Some (vals, _) \<Rightarrow>
          let issuer = trim_right_char (flag_value vals ''issuer'' ''http://localhost:8080/realms/vuhive'') (CHR ''/'');
              server = trim_right_char (flag_value vals ''server'' ''http://localhost:8080'') (CHR ''/'');
              client = flag_value vals ''client-id'' ''vuhive-cloud-cli''
          in if flag_value vals ''device'' ''false'' = ''true'' \<or> cl_port lib = None then device_flow lib issuer server client m
             else Some (browser_flow lib issuer server m))"

definition auth_execute :: "cli_lib \<Rightarrow> string list \<Rightarrow> machine \<Rightarrow> (int \<times> machine) option" where
  "auth_execute lib args m =
     (case args of
        [] \<Rightarrow> Some (1, m)
      | c # rest \<Rightarrow>
          if c = ''login'' then auth_login lib rest m
          else if c = ''status'' then Some (auth_status m)
          else if c = ''logout'' then Some (auth_logout lib m)
          else Some (1, m))"

end
