(* ===== verification/Cli_Commands.thy ===== *)
theory Cli_Commands
  imports Cli_Auth
begin

text \<open>
  The commands \<^verbatim>\<open>vuhive suite\<close>, \<^verbatim>\<open>run\<close> and \<^verbatim>\<open>schedule\<close> (\<^verbatim>\<open>internal/cli/suite.go\<close>, \<^verbatim>\<open>run.go\<close>,
  \<^verbatim>\<open>schedule.go\<close>), the client of the control plane that they use (\<^verbatim>\<open>client.go\<close>) and the dispatch of the program
  (\<^verbatim>\<open>app.go\<close>).  The tree below a source path and the archive format are arguments.
\<close>

section \<open>The client of the control plane\<close>

definition api_server :: "string \<Rightarrow> string" where
  "api_server s = trim_right_char (if s = '''' then ''http://localhost:8080'' else s) (CHR ''/'')"

definition api_do :: "request \<Rightarrow> machine \<Rightarrow> (int \<times> string) option \<times> machine" where
  "api_do rq m =
     (let bearer = (case loaded m of None \<Rightarrow> rq_bearer rq | Some c \<Rightarrow> if cr_access c = '''' then rq_bearer rq else Some (cr_access c))
      in case send (rq\<lparr>rq_bearer := bearer\<rparr>) m of
           (Http_failed, m1) \<Rightarrow> (None, m1)
         | (Http status body, m1) \<Rightarrow> (if status = 401 \<or> status = 403 then None else Some (status, body), m1))"

definition api_get :: "cli_lib \<Rightarrow> string \<Rightarrow> string \<Rightarrow> machine \<Rightarrow> (int \<times> string) option \<times> machine" where
  "api_get lib server path m =
     (if \<not> cl_valid_url lib (server @ path) then (None, m)
      else api_do \<lparr>rq_method = ''GET'', rq_url = server @ path, rq_bearer = None, rq_body = No_body\<rparr> m)"

definition api_post_json :: "cli_lib \<Rightarrow> string \<Rightarrow> string \<Rightarrow> json \<Rightarrow> machine \<Rightarrow> (int \<times> string) option \<times> machine" where
  "api_post_json lib server path payload m =
     (if \<not> cl_valid_url lib (server @ path) then (None, m)
      else api_do \<lparr>rq_method = ''POST'', rq_url = server @ path, rq_bearer = None, rq_body = Json payload\<rparr> m)"

definition chosen_server :: "string \<Rightarrow> machine \<Rightarrow> string" where
  "chosen_server flag m =
     api_server (if flag = '''' then (case loaded m of None \<Rightarrow> '''' | Some c \<Rightarrow> cr_server c) else flag)"

text \<open>The guard of the client: a user whose token can be read and has none of the roles is refused.\<close>

definition guard_refuses :: "string \<Rightarrow> machine \<Rightarrow> bool" where
  "guard_refuses role m =
     (case loaded m of
        None \<Rightarrow> False
      | Some c \<Rightarrow>
          if cr_access c = '''' then False
          else (case client_claims c of
                  None \<Rightarrow> False
                | Some cl \<Rightarrow> \<not> has_role cl role \<and> \<not> has_role cl role_admin))"

section \<open>Arguments\<close>

fun split_args :: "string list \<Rightarrow> string list \<times> string list" where
  "split_args [] = ([], [])"
| "split_args [a] = (if prefix ''-'' a then ([a], []) else ([], [a]))"
| "split_args (a # b # as) =
     (if prefix ''-'' a then
        (if \<not> contains a ''='' \<and> \<not> prefix ''-'' b then (case split_args as of (f, p) \<Rightarrow> (a # b # f, p))
         else (case split_args (b # as) of (f, p) \<Rightarrow> (a # f, p)))
      else (case split_args (b # as) of (f, p) \<Rightarrow> (f, a # p)))"

section \<open>Runs\<close>

text \<open>
  Single fields of an answer.  A pointer field is allocated before its value is looked at, so a value of the wrong type
  leaves a pointer to zero.
\<close>

definition run_answer :: "string \<Rightarrow> string \<Rightarrow> string" where
  "run_answer field body = decode_lenient [field] (\<lambda>_ v s. get_text v s) (json_text body) ''''"

definition lenient_ptr :: "(json \<Rightarrow> 'a \<Rightarrow> 'a option) \<Rightarrow> 'a \<Rightarrow> json \<Rightarrow> 'a option \<Rightarrow> 'a option" where
  "lenient_ptr get zero v old =
     (if v = J_null then None
      else let x = (case old of None \<Rightarrow> zero | Some y \<Rightarrow> y) in Some (case get v x of None \<Rightarrow> x | Some y \<Rightarrow> y))"

definition int_answer :: "string \<Rightarrow> string \<Rightarrow> int option" where
  "int_answer field body = decode_lenient [field] (\<lambda>_ v i. Some (lenient_ptr get_int64 0 v i)) (json_text body) None"

definition bool_answer :: "string \<Rightarrow> string \<Rightarrow> bool option" where
  "bool_answer field body = decode_lenient [field] (\<lambda>_ v b. Some (lenient_ptr get_bool False v b)) (json_text body) None"

definition start_flags :: "(string \<times> flag_kind) list" where
  "start_flags = [(''profile-id'', Text_flag), (''artifact-id'', Text_flag), (''server'', Text_flag)]"

definition say_all :: "string list \<Rightarrow> machine \<Rightarrow> machine" where
  "say_all ls m = foldl (\<lambda>x l. say l x) m ls"

definition run_start_cmd :: "cli_lib \<Rightarrow> string list \<Rightarrow> machine \<Rightarrow> int \<times> machine" where
  "run_start_cmd lib args m =
     (if guard_refuses role_deployer m then (1, m)
      else case split_args args of (flags, positional) \<Rightarrow>
        (case parse_flags start_flags [] flags of
           None \<Rightarrow> (1, m)
         | Some (vals, _) \<Rightarrow>
             (case positional of
                [] \<Rightarrow> (1, m)
              | s # _ \<Rightarrow>
                  let profile = trim_space (flag_value vals ''profile-id'' ''''); artifact = trim_space (flag_value vals ''artifact-id'' '''')
                  in if profile = '''' \<or> artifact = '''' then (1, m)
                     else case api_post_json lib (chosen_server (flag_value vals ''server'' '''') m) ''/api/v1/runs''
                         (J_obj [(''artifact_id'', J_str artifact), (''runner_profile_id'', J_str profile), (''suite_id'', J_str (trim_space s))]) m of
                       (None, m1) \<Rightarrow> (1, m1)
                     | (Some (status, body), m1) \<Rightarrow>
                         if status \<noteq> 201 then (1, m1)
                         else (0, say_all [''=== Test Run Triggered ==='', ''Run ID:     '' @ run_answer ''id'' body,
                                 ''Suite ID:   '' @ run_answer ''suite_id'' body, ''Status:     '' @ run_answer ''status'' body,
                                 ''Created At: '' @ run_answer ''created_at'' body] m1))))"

text \<open>What the commands on one run share: the flags, the identifier and the request.\<close>

definition run_query :: "cli_lib \<Rightarrow> string \<Rightarrow> string list \<Rightarrow> machine \<Rightarrow> string option \<times> machine" where
  "run_query lib tail args m =
     (case split_args args of (flags, positional) \<Rightarrow>
        (case parse_flags [(''server'', Text_flag)] [] flags of
           None \<Rightarrow> (None, m)
         | Some (vals, _) \<Rightarrow>
             (case positional of
                [] \<Rightarrow> (None, m)
              | i # _ \<Rightarrow>
                  (case api_get lib (chosen_server (flag_value vals ''server'' '''') m) (''/api/v1/runs/'' @ trim_space i @ tail) m of
                     (None, m1) \<Rightarrow> (None, m1)
                   | (Some (status, body), m1) \<Rightarrow> (if status = 200 then Some body else None, m1)))))"

definition run_status_cmd :: "cli_lib \<Rightarrow> string list \<Rightarrow> machine \<Rightarrow> int \<times> machine" where
  "run_status_cmd lib args m =
     (case run_query lib '''' args m of
        (None, m1) \<Rightarrow> (1, m1)
      | (Some body, m1) \<Rightarrow>
          (0, say_all ([''=== Test Run Details ==='', ''Run ID:     '' @ run_answer ''id'' body,
             ''Suite ID:   '' @ run_answer ''suite_id'' body, ''Status:     '' @ run_answer ''status'' body] @
             (case int_answer ''exit_code'' body of None \<Rightarrow> [] | Some i \<Rightarrow> [''Exit Code:  '' @ itoa i]) @
             (case bool_answer ''sla_passed'' body of None \<Rightarrow> [] | Some b \<Rightarrow> [''SLA Passed: '' @ (if b then ''true'' else ''false'')])) m1))"

definition run_logs_cmd :: "cli_lib \<Rightarrow> string list \<Rightarrow> machine \<Rightarrow> int \<times> machine" where
  "run_logs_cmd lib args m =
     (case run_query lib ''/logs'' args m of (None, m1) \<Rightarrow> (1, m1) | (Some body, m1) \<Rightarrow> (0, say body m1))"

definition run_report_cmd :: "cli_lib \<Rightarrow> string list \<Rightarrow> machine \<Rightarrow> int \<times> machine" where
  "run_report_cmd lib args m =
     (case run_query lib ''/report'' args m of (None, m1) \<Rightarrow> (1, m1) | (Some body, m1) \<Rightarrow> (0, say body m1))"

definition run_execute :: "cli_lib \<Rightarrow> string list \<Rightarrow> machine \<Rightarrow> int \<times> machine" where
  "run_execute lib args m =
     (case args of
        [] \<Rightarrow> (1, m)
      | c # rest \<Rightarrow>
          if c = ''start'' then run_start_cmd lib rest m
          else if c = ''status'' then run_status_cmd lib rest m
          else if c = ''logs'' then run_logs_cmd lib rest m
          else if c = ''report'' then run_report_cmd lib rest m
          else (1, m))"

section \<open>Schedules\<close>

definition create_flags :: "(string \<times> flag_kind) list" where
  "create_flags = [(''name'', Text_flag), (''suite-id'', Text_flag), (''profile-id'', Text_flag), (''artifact-id'', Text_flag),
     (''cron'', Text_flag), (''server'', Text_flag)]"

definition schedule_create_cmd :: "cli_lib \<Rightarrow> string list \<Rightarrow> machine \<Rightarrow> int \<times> machine" where
  "schedule_create_cmd lib args m =
     (case parse_flags create_flags [] args of
        None \<Rightarrow> (1, m)
      | Some (vals, _) \<Rightarrow>
          let name = trim_space (flag_value vals ''name'' ''''); suite = trim_space (flag_value vals ''suite-id'' '''');
              profile = trim_space (flag_value vals ''profile-id'' ''''); artifact = trim_space (flag_value vals ''artifact-id'' '''');
              cron = trim_space (flag_value vals ''cron'' '''')
          in if name = '''' \<or> suite = '''' \<or> profile = '''' \<or> artifact = '''' \<or> cron = '''' then (1, m)
             else if guard_refuses role_deployer m then (1, m)
             else case api_post_json lib (chosen_server (flag_value vals ''server'' '''') m) ''/api/v1/schedules''
                 (J_obj [(''artifact_id'', J_str artifact), (''cron_expression'', J_str cron), (''name'', J_str name),
                         (''runner_profile_id'', J_str profile), (''suite_id'', J_str suite)]) m of
               (None, m1) \<Rightarrow> (1, m1)
             | (Some (status, body), m1) \<Rightarrow>
                 if status \<noteq> 201 then (1, m1)
                 else (0, say_all [''=== CronJob Schedule Created ==='', ''Schedule ID: '' @ run_answer ''id'' body,
                         ''Name:        '' @ run_answer ''name'' body, ''Cron:        '' @ run_answer ''cron_expression'' body,
                         ''Status:      '' @ run_answer ''status'' body] m1))"

record schedule_item =
  si_id :: string
  si_name :: string
  si_cron :: string
  si_status :: string

definition no_item :: schedule_item where
  "no_item = \<lparr>si_id = '''', si_name = '''', si_cron = '''', si_status = ''''\<rparr>"

definition put_item :: "string \<Rightarrow> json \<Rightarrow> schedule_item \<Rightarrow> schedule_item option" where
  "put_item n v i =
     (if n = ''id'' then map_option (\<lambda>s. i\<lparr>si_id := s\<rparr>) (get_text v (si_id i))
      else if n = ''name'' then map_option (\<lambda>s. i\<lparr>si_name := s\<rparr>) (get_text v (si_name i))
      else if n = ''cron_expression'' then map_option (\<lambda>s. i\<lparr>si_cron := s\<rparr>) (get_text v (si_cron i))
      else map_option (\<lambda>s. i\<lparr>si_status := s\<rparr>) (get_text v (si_status i)))"

definition schedule_items :: "string \<Rightarrow> schedule_item list" where
  "schedule_items body =
     decode_lenient [''items'']
       (\<lambda>_ v _. case v of
          J_null \<Rightarrow> Some []
        | J_arr vs \<Rightarrow> Some (map (\<lambda>x. decode_lenient [''id'', ''name'', ''cron_expression'', ''status''] put_item (Some x) no_item) vs)
        | _ \<Rightarrow> None) (json_text body) []"

definition item_line :: "schedule_item \<Rightarrow> string" where
  "item_line i = ''- ['' @ si_status i @ ''] '' @ si_name i @ '' ('' @ si_cron i @ '') '' @ [CHR 0xE2, CHR 0x80, CHR 0x94] @ '' '' @ si_id i"

definition schedule_list_cmd :: "cli_lib \<Rightarrow> string list \<Rightarrow> machine \<Rightarrow> int \<times> machine" where
  "schedule_list_cmd lib args m =
     (case parse_flags [(''server'', Text_flag)] [] args of
        None \<Rightarrow> (1, m)
      | Some (vals, _) \<Rightarrow>
          (case api_get lib (chosen_server (flag_value vals ''server'' '''') m) ''/api/v1/schedules'' m of
             (None, m1) \<Rightarrow> (1, m1)
           | (Some (status, body), m1) \<Rightarrow>
               if status \<noteq> 200 then (1, m1) else (0, say_all (''=== Schedules ==='' # map item_line (schedule_items body)) m1)))"

definition schedule_execute :: "cli_lib \<Rightarrow> string list \<Rightarrow> machine \<Rightarrow> int \<times> machine" where
  "schedule_execute lib args m =
     (case args of
        [] \<Rightarrow> (1, m)
      | c # rest \<Rightarrow>
          if c = ''create'' then schedule_create_cmd lib rest m else if c = ''list'' then schedule_list_cmd lib rest m else (1, m))"

section \<open>Uploads\<close>

text \<open>
  What is at a source path: nothing that can be read, a file, or a directory as the list of its entries in the order of
  \<open>filepath.Walk\<close>, named relative to it; a regular file that cannot be read ends the walk.
\<close>

datatype entry = Regular "string option" | Other_entry

datatype source = Unreadable | Plain "string option" | Directory "(string \<times> entry) list"

fun archive_entries :: "(string \<times> entry) list \<Rightarrow> (string \<times> string option) list option" where
  "archive_entries [] = Some []"
| "archive_entries ((name, e) # es) =
     (if name = ''.'' then archive_entries es
      else case e of
        Other_entry \<Rightarrow> map_option (\<lambda>xs. (name, None) # xs) (archive_entries es)
      | Regular None \<Rightarrow> None
      | Regular (Some c) \<Rightarrow> map_option (\<lambda>xs. (name, Some c) # xs) (archive_entries es))"

definition create_tar_gz :: "((string \<times> string option) list \<Rightarrow> string) \<Rightarrow> (string \<times> entry) list \<Rightarrow> string option" where
  "create_tar_gz archive es = map_option archive (archive_entries es)"

text \<open>\<open>filepath.Base\<close>.\<close>

definition path_base :: "string \<Rightarrow> string" where
  "path_base s =
     (if s = '''' then ''.''
      else let t = trim_right_char s (CHR ''/'')
           in if t = '''' then ''/'' else rev (takeWhile (\<lambda>c. c \<noteq> CHR ''/'') (rev t)))"

definition upload_flags :: "(string \<times> flag_kind) list" where
  "upload_flags = [(''suite-id'', Text_flag), (''platform'', Text_flag), (''server'', Text_flag), (''insecure'', Bool_flag)]"

definition source_data :: "((string \<times> string option) list \<Rightarrow> string) \<Rightarrow> source \<Rightarrow> string option" where
  "source_data archive src = (case src of Unreadable \<Rightarrow> None | Plain c \<Rightarrow> c | Directory es \<Rightarrow> create_tar_gz archive es)"

record built_item =
  bi_id :: string
  bi_platform :: string
  bi_status :: string

definition put_built :: "string \<Rightarrow> json \<Rightarrow> built_item \<Rightarrow> built_item option" where
  "put_built n v b =
     (if n = ''id'' then map_option (\<lambda>s. b\<lparr>bi_id := s\<rparr>) (get_text v (bi_id b))
      else if n = ''platform'' then map_option (\<lambda>s. b\<lparr>bi_platform := s\<rparr>) (get_text v (bi_platform b))
      else map_option (\<lambda>s. b\<lparr>bi_status := s\<rparr>) (get_text v (bi_status b)))"

definition built_items :: "string \<Rightarrow> built_item list" where
  "built_items body =
     decode_lenient [''artifacts'']
       (\<lambda>_ v _. case v of
          J_null \<Rightarrow> Some []
        | J_arr vs \<Rightarrow> Some (map (\<lambda>x. decode_lenient [''id'', ''platform'', ''status''] put_built (Some x)
              \<lparr>bi_id = '''', bi_platform = '''', bi_status = ''''\<rparr>) vs)
        | _ \<Rightarrow> None) (json_text body) []"

definition suite_upload_cmd ::
  "cli_lib \<Rightarrow> (string \<Rightarrow> source) \<Rightarrow> ((string \<times> string option) list \<Rightarrow> string) \<Rightarrow> string list \<Rightarrow> machine \<Rightarrow> int \<times> machine" where
  "suite_upload_cmd lib files archive args m =
     (case parse_flags upload_flags [] args of
        None \<Rightarrow> (1, m)
      | Some (vals, []) \<Rightarrow> (1, m)
      | Some (vals, path # _) \<Rightarrow>
          let suite = trim_space (flag_value vals ''suite-id'' '''')
          in if suite = '''' then (1, m)
             else if guard_refuses role_developer m then (1, m)
             else case source_data archive (files path) of
               None \<Rightarrow> (1, m)
             | Some bytes \<Rightarrow>
                 let url = chosen_server (flag_value vals ''server'' '''') m @ ''/api/v1/suites/'' @ suite @ ''/builds'';
                     parts = (''source'', path_base path @ ''.tar.gz'') # (''platform'', flag_value vals ''platform'' ''linux/amd64'') #
                       (if flag_value vals ''insecure'' ''false'' = ''true'' then [(''allow_insecure_imports'', ''true'')] else [])
                 in if \<not> cl_valid_url lib url then (1, m)
                    else case api_do \<lparr>rq_method = ''POST'', rq_url = url, rq_bearer = None, rq_body = Multipart parts bytes\<rparr> m of
                      (None, m1) \<Rightarrow> (1, m1)
                    | (Some (status, body), m1) \<Rightarrow>
                        if status \<noteq> 202 \<and> status \<noteq> 200 then (1, m1)
                        else (0, say_all ([''=== Source Uploaded & Compilation Initiated ==='', ''Message:   '' @ run_answer ''message'' body] @
                                map (\<lambda>b. ''Artifact:  '' @ bi_id b @ '' (Platform: '' @ bi_platform b @ '', Status: '' @ bi_status b @ '')'') (built_items body)) m1))"

definition suite_execute ::
  "cli_lib \<Rightarrow> (string \<Rightarrow> source) \<Rightarrow> ((string \<times> string option) list \<Rightarrow> string) \<Rightarrow> string list \<Rightarrow> machine \<Rightarrow> int \<times> machine" where
  "suite_execute lib files archive args m =
     (case args of [] \<Rightarrow> (1, m) | c # rest \<Rightarrow> if c = ''upload'' then suite_upload_cmd lib files archive rest m else (1, m))"

section \<open>The program\<close>

text \<open>The texts of the help and of the version are arguments.\<close>

definition app_execute ::
  "cli_lib \<Rightarrow> (string \<Rightarrow> source) \<Rightarrow> ((string \<times> string option) list \<Rightarrow> string) \<Rightarrow> string \<Rightarrow> string \<Rightarrow> string list \<Rightarrow> machine
    \<Rightarrow> (int \<times> machine) option" where
  "app_execute lib files archive help version args m =
     (case args of
        [] \<Rightarrow> Some (0, say help m)
      | c # rest \<Rightarrow>
          if c = ''auth'' then auth_execute lib rest m
          else if c = ''suite'' then Some (suite_execute lib files archive rest m)
          else if c = ''run'' then Some (run_execute lib rest m)
          else if c = ''schedule'' then Some (schedule_execute lib rest m)
          else if c = ''version'' \<or> c = ''--version'' \<or> c = ''-v'' then Some (0, say version m)
          else if c = ''help'' \<or> c = ''--help'' \<or> c = ''-h'' then Some (0, say help m)
          else Some (1, m))"

end
