(* ===== verification/Token_Verifier.thy ===== *)
theory Token_Verifier
  imports Jwt Json_Encode "HOL-Library.AList"
begin

text \<open>
  The verifier of access tokens (\<^verbatim>\<open>internal/adapters/outbound/auth/keycloak_verifier.go\<close>) with its cache of public keys.
  One call takes the clock and the answer that the key server would give if it were asked; the signature check of
  \<open>crypto/rsa\<close> is the argument \<open>rsa\<close> (key, digest, signature), the check of addresses the argument \<open>ok\<close>.  The locks
  guard single reads and the whole refresh, so calls are taken one after the other.  The roles come out of a map in any
  order; here they have the order of their first occurrence.
\<close>

section \<open>Keys\<close>

record jwks_key =
  jk_kty :: string
  jk_use :: string
  jk_alg :: string
  jk_kid :: string
  jk_n :: string
  jk_e :: string

definition no_key :: jwks_key where
  "no_key = \<lparr>jk_kty = '''', jk_use = '''', jk_alg = '''', jk_kid = '''', jk_n = '''', jk_e = ''''\<rparr>"

definition put_key :: "string \<Rightarrow> json \<Rightarrow> jwks_key \<Rightarrow> jwks_key option" where
  "put_key n v k =
     (if n = ''kty'' then map_option (\<lambda>s. k\<lparr>jk_kty := s\<rparr>) (get_text v (jk_kty k))
      else if n = ''use'' then map_option (\<lambda>s. k\<lparr>jk_use := s\<rparr>) (get_text v (jk_use k))
      else if n = ''alg'' then map_option (\<lambda>s. k\<lparr>jk_alg := s\<rparr>) (get_text v (jk_alg k))
      else if n = ''kid'' then map_option (\<lambda>s. k\<lparr>jk_kid := s\<rparr>) (get_text v (jk_kid k))
      else if n = ''n'' then map_option (\<lambda>s. k\<lparr>jk_n := s\<rparr>) (get_text v (jk_n k))
      else map_option (\<lambda>s. k\<lparr>jk_e := s\<rparr>) (get_text v (jk_e k)))"

definition decode_key :: "json \<Rightarrow> jwks_key \<Rightarrow> jwks_key option" where
  "decode_key = decode_struct [''kty'', ''use'', ''alg'', ''kid'', ''n'', ''e''] put_key"

text \<open>The decoder reads the first value of the body.\<close>

definition decode_jwks :: "string \<Rightarrow> jwks_key list option" where
  "decode_jwks s =
     (case json_first s of
        None \<Rightarrow> None
      | Some v \<Rightarrow> decode_struct [''keys''] (\<lambda>_ w _. get_slice decode_key no_key w) v [])"

record rsa_key =
  rk_n :: int
  rk_e :: int

definition big_int :: "string \<Rightarrow> int" where
  "big_int s = foldl (\<lambda>n c. n * 256 + of_char c) 0 s"

definition exponent :: "string \<Rightarrow> int" where
  "exponent s = foldl (\<lambda>n c. wrap64 (n * 256) + of_char c) 0 s"

definition rsa_of :: "jwks_key \<Rightarrow> rsa_key option" where
  "rsa_of k =
     (if jk_kty k \<noteq> ''RSA'' then None
      else case (raw_url_decode (jk_n k), raw_url_decode (jk_e k)) of
        (Some n, Some e) \<Rightarrow> Some \<lparr>rk_n = big_int n, rk_e = exponent e\<rparr>
      | _ \<Rightarrow> None)"

definition public_keys :: "jwks_key list \<Rightarrow> (string \<times> rsa_key) list" where
  "public_keys ks =
     foldl (\<lambda>m k. case rsa_of k of None \<Rightarrow> m | Some r \<Rightarrow> AList.update (jk_kid k) r m) [] ks"

section \<open>The cache\<close>

record verifier_cfg =
  vc_jwks_url :: string
  vc_issuer :: string
  vc_client :: string

record verifier =
  tv_keys :: "(string \<times> rsa_key) list"
  tv_last_fetch :: time

definition new_verifier :: verifier where
  "new_verifier = \<lparr>tv_keys = [], tv_last_fetch = 0\<rparr>"

type_synonym answer = "(int \<times> string) option"

text \<open>\<open>None\<close> is the error, after which the cache is as before.\<close>

definition refresh_jwks :: "(string \<Rightarrow> bool) \<Rightarrow> verifier_cfg \<Rightarrow> time \<Rightarrow> answer \<Rightarrow> verifier option" where
  "refresh_jwks ok cfg now ans =
     (if vc_jwks_url cfg = '''' then None
      else if \<not> ok (vc_jwks_url cfg) then None
      else case ans of
        None \<Rightarrow> None
      | Some (status, body) \<Rightarrow>
          if status \<noteq> 200 then None
          else (case decode_jwks body of
                  None \<Rightarrow> None
                | Some ks \<Rightarrow> Some \<lparr>tv_keys = public_keys ks, tv_last_fetch = now\<rparr>))"

definition get_key :: "(string \<Rightarrow> bool) \<Rightarrow> verifier_cfg \<Rightarrow> time \<Rightarrow> answer \<Rightarrow> string \<Rightarrow> verifier \<Rightarrow> rsa_key option \<times> verifier" where
  "get_key ok cfg now ans kid st =
     (case map_of (tv_keys st) kid of
        Some k \<Rightarrow> (Some k, st)
      | None \<Rightarrow>
          if time_sub now (tv_last_fetch st) < 10 * second \<and> tv_keys st \<noteq> [] then (None, st)
          else (case refresh_jwks ok cfg now ans of
                  None \<Rightarrow> (None, st)
                | Some st' \<Rightarrow>
                    (case map_of (tv_keys st') kid of
                       Some k \<Rightarrow> (Some k, st')
                     | None \<Rightarrow>
                         (case tv_keys st' of
                            [(_, k)] \<Rightarrow> if kid = '''' then (Some k, st') else (None, st')
                          | _ \<Rightarrow> (None, st')))))"

section \<open>Tokens\<close>

definition token_roles :: "verifier_cfg \<Rightarrow> jwt_payload \<Rightarrow> string list" where
  "token_roles cfg p =
     filter (\<lambda>r. r \<noteq> '''') (remdups (map trim_space (jp_realm_roles p @
       (if vc_client cfg \<noteq> '''' then (case map_of (jp_resources p) (vc_client cfg) of Some rs \<Rightarrow> rs | None \<Rightarrow> []) else []))))"

definition token_claims :: "verifier_cfg \<Rightarrow> jwt_payload \<Rightarrow> claims" where
  "token_claims cfg p =
     new_claims (jp_sub p) (jp_username p) (jp_email p) (token_roles cfg p) (jp_groups p) (expiry_of (jp_exp p))"

definition in_time :: "time \<Rightarrow> jwt_payload \<Rightarrow> bool" where
  "in_time now p \<longleftrightarrow> (0 < jp_exp p \<longrightarrow> to_unix now < jp_exp p) \<and> (0 < jp_nbf p \<longrightarrow> jp_nbf p \<le> to_unix now)"

definition check_signed ::
  "(rsa_key \<Rightarrow> string \<Rightarrow> string \<Rightarrow> bool) \<Rightarrow> verifier_cfg \<Rightarrow> time \<Rightarrow> rsa_key \<Rightarrow> string \<Rightarrow> string \<Rightarrow> string \<Rightarrow> claims result" where
  "check_signed rsa cfg now key h p s =
     (case raw_url_decode s of
        None \<Rightarrow> Inl ErrUnauthorized
      | Some sig \<Rightarrow>
          if \<not> rsa key (sha256_bytes (h @ ''.'' @ p)) sig then Inl ErrUnauthorized
          else case raw_url_decode p of
            None \<Rightarrow> Inl ErrUnauthorized
          | Some bytes \<Rightarrow>
              (case decode_payload bytes of
                 None \<Rightarrow> Inl ErrUnauthorized
               | Some payload \<Rightarrow> if \<not> in_time now payload then Inl ErrUnauthorized else Inr (token_claims cfg payload)))"

definition verify_token ::
  "(rsa_key \<Rightarrow> string \<Rightarrow> string \<Rightarrow> bool) \<Rightarrow> (string \<Rightarrow> bool) \<Rightarrow> verifier_cfg \<Rightarrow> time \<Rightarrow> answer \<Rightarrow> string \<Rightarrow> verifier
    \<Rightarrow> claims result \<times> verifier" where
  "verify_token rsa ok cfg now ans raw st =
     (let tok = trim_space raw
      in if tok = '''' then (Inl ErrUnauthorized, st)
         else case split_on (CHR ''.'') tok of
           [h, p, s] \<Rightarrow>
             (case raw_url_decode h of
                None \<Rightarrow> (Inl ErrUnauthorized, st)
              | Some hb \<Rightarrow>
                  (case decode_header hb of
                     None \<Rightarrow> (Inl ErrUnauthorized, st)
                   | Some hdr \<Rightarrow>
                       if jh_alg hdr \<noteq> ''RS256'' then (Inl ErrUnauthorized, st)
                       else (case get_key ok cfg now ans (jh_kid hdr) st of
                               (None, st') \<Rightarrow> (Inl ErrUnauthorized, st')
                             | (Some key, st') \<Rightarrow> (check_signed rsa cfg now key h p s, st'))))
         | _ \<Rightarrow> (Inl ErrUnauthorized, st))"

section \<open>What a call does\<close>

lemma get_key_found:
  assumes "get_key ok cfg now ans kid st = (Some key, st')"
  shows "(kid, key) \<in> set (tv_keys st') \<or> (kid = '''' \<and> (\<exists>k. tv_keys st' = [(k, key)]))"
  using assms
  by (auto simp: get_key_def dest!: map_of_SomeD split: option.splits if_splits list.splits prod.splits)

lemma verify_token_cases:
  assumes "split_on (CHR ''.'') (trim_space raw) = [h, p, s]" and "raw_url_decode h = Some hb" and "decode_header hb = Some hdr"
    and "jh_alg hdr = ''RS256''"
  shows "verify_token rsa ok cfg now ans raw st =
    (case get_key ok cfg now ans (jh_kid hdr) st of
       (None, st') \<Rightarrow> (Inl ErrUnauthorized, st') | (Some key, st') \<Rightarrow> (check_signed rsa cfg now key h p s, st'))"
proof -
  have "trim_space raw \<noteq> ''''" using assms(1) by auto
  then show ?thesis using assms by (simp add: verify_token_def)
qed

lemma verify_token_Inr:
  assumes "verify_token rsa ok cfg now ans raw st = (Inr cl, st')"
  obtains h p s hb hdr key where "split_on (CHR ''.'') (trim_space raw) = [h, p, s]" "raw_url_decode h = Some hb"
    "decode_header hb = Some hdr" "jh_alg hdr = ''RS256''" "get_key ok cfg now ans (jh_kid hdr) st = (Some key, st')"
    "check_signed rsa cfg now key h p s = Inr cl"
  using assms by (auto simp: verify_token_def Let_def split: if_splits list.splits option.splits prod.splits)

text \<open>Where the keys of the cache come from.\<close>

lemma get_key_cache:
  assumes "get_key ok cfg now ans kid st = (r, st')"
  shows "st' = st \<or> (\<exists>body ks. ok (vc_jwks_url cfg) \<and> ans = Some (200, body) \<and> decode_jwks body = Some ks \<and>
    tv_keys st' = public_keys ks)"
  using assms by (auto simp: get_key_def refresh_jwks_def split: option.splits if_splits list.splits prod.splits)

text \<open>The roles that a payload grants.\<close>

lemma set_nonblank:
  "set (filter (\<lambda>r. r \<noteq> '''') (remdups (map trim_space (xs @ ys)))) = {r. r \<noteq> '''' \<and> r \<in> trim_space ` (set xs \<union> set ys)}"
  by auto

lemma token_roles_exact:
  "set (token_roles cfg p) = {r. r \<noteq> '''' \<and> (\<exists>x. trim_space x = r \<and>
     (x \<in> set (jp_realm_roles p) \<or>
      vc_client cfg \<noteq> '''' \<and> (\<exists>rs. map_of (jp_resources p) (vc_client cfg) = Some rs \<and> x \<in> set rs)))}"
proof -
  define client where "client =
    (if vc_client cfg \<noteq> '''' then (case map_of (jp_resources p) (vc_client cfg) of Some rs \<Rightarrow> rs | None \<Rightarrow> []) else [])"
  have "x \<in> set client \<longleftrightarrow> vc_client cfg \<noteq> '''' \<and> (\<exists>rs. map_of (jp_resources p) (vc_client cfg) = Some rs \<and> x \<in> set rs)" for x
    unfolding client_def
    by (cases "vc_client cfg = []"; cases "map_of (jp_resources p) (vc_client cfg)") simp_all
  then have "set client = {x. vc_client cfg \<noteq> '''' \<and> (\<exists>rs. map_of (jp_resources p) (vc_client cfg) = Some rs \<and> x \<in> set rs)}"
    by blast
  moreover have "set (token_roles cfg p) = {r. r \<noteq> '''' \<and> r \<in> trim_space ` (set (jp_realm_roles p) \<union> set client)}"
    unfolding token_roles_def client_def [symmetric] by (rule set_nonblank)
  ultimately show ?thesis by (auto simp: image_def)
qed

lemma token_roles_distinct: "distinct (token_roles cfg p)"
  unfolding token_roles_def by (rule distinct_filter [OF distinct_remdups])

section \<open>Properties\<close>

text \<open>
  C23: An accepted token is genuine.  It has three parts; its header asks for RS256; the signature over the first two parts
  holds under a key of the cache that has the key id of the header (or under the only key, when the header names none), and
  the cache is the one before the call or what the key server has just published.  Its claims are those of the signed part,
  which is not expired and already valid: the subject, the names, the groups and the expiry, and exactly the non-blank roles
  of the realm and of the configured client, each once, none dropped and none added.
\<close>

theorem accepted_token_genuine:
  assumes "verify_token rsa ok cfg now ans raw st = (Inr cl, st')"
  shows "\<exists>h p s hb hdr key sig bytes payload.
    split_on (CHR ''.'') (trim_space raw) = [h, p, s] \<and> raw_url_decode h = Some hb \<and> decode_header hb = Some hdr \<and>
    jh_alg hdr = ''RS256'' \<and>
    ((jh_kid hdr, key) \<in> set (tv_keys st') \<or> (jh_kid hdr = '''' \<and> (\<exists>k. tv_keys st' = [(k, key)]))) \<and>
    (st' = st \<or> (\<exists>body ks. ok (vc_jwks_url cfg) \<and> ans = Some (200, body) \<and> decode_jwks body = Some ks \<and>
       tv_keys st' = public_keys ks)) \<and>
    raw_url_decode s = Some sig \<and> rsa key (sha256_bytes (h @ ''.'' @ p)) sig \<and>
    raw_url_decode p = Some bytes \<and> decode_payload bytes = Some payload \<and>
    (0 < jp_exp payload \<longrightarrow> to_unix now < jp_exp payload) \<and> (0 < jp_nbf payload \<longrightarrow> jp_nbf payload \<le> to_unix now) \<and>
    cl_subject cl = trim_space (jp_sub payload) \<and> cl_username cl = trim_space (jp_username payload) \<and>
    cl_email cl = trim_space (jp_email payload) \<and> cl_groups cl = jp_groups payload \<and>
    cl_expires cl = (if 0 < jp_exp payload then from_unix (jp_exp payload) else 0) \<and>
    distinct (cl_roles cl) \<and>
    set (cl_roles cl) = {r. r \<noteq> '''' \<and> (\<exists>x. trim_space x = r \<and>
       (x \<in> set (jp_realm_roles payload) \<or>
        vc_client cfg \<noteq> '''' \<and> (\<exists>rs. map_of (jp_resources payload) (vc_client cfg) = Some rs \<and> x \<in> set rs)))}"
proof -
  from verify_token_Inr[OF assms] obtain h p s hb hdr key where v: "split_on (CHR ''.'') (trim_space raw) = [h, p, s]"
    "raw_url_decode h = Some hb" "decode_header hb = Some hdr" "jh_alg hdr = ''RS256''"
    "check_signed rsa cfg now key h p s = Inr cl" and k: "get_key ok cfg now ans (jh_kid hdr) st = (Some key, st')"
    using assms by (auto simp: verify_token_def Let_def split: if_splits list.splits option.splits prod.splits)
  obtain sig bytes payload where c: "raw_url_decode s = Some sig" "rsa key (sha256_bytes (h @ ''.'' @ p)) sig"
    "raw_url_decode p = Some bytes" "decode_payload bytes = Some payload" "in_time now payload" "cl = token_claims cfg payload"
    using v(5) by (auto simp: check_signed_def split: option.splits if_splits)
  note fields = c(6) token_claims_def new_claims_def expiry_of_def
  have times: "0 < jp_exp payload \<longrightarrow> to_unix now < jp_exp payload" "0 < jp_nbf payload \<longrightarrow> jp_nbf payload \<le> to_unix now"
    using c(5) by (simp_all add: in_time_def)
  show ?thesis
    by (rule exI[of _ h], rule exI[of _ p], rule exI[of _ s], rule exI[of _ hb], rule exI[of _ hdr], rule exI[of _ key],
        rule exI[of _ sig], rule exI[of _ bytes], rule exI[of _ payload])
      (intro conjI v(1-4) c(1-4) get_key_found[OF k] get_key_cache[OF k] times;
        simp add: fields token_roles_exact token_roles_distinct)
qed

text \<open>
  A key that has been fetched once is trusted as long as no token asks for an unknown key: whatever the key server
  publishes by then and however long ago the keys were fetched, a token signed with it is judged by its signature and its
  claims alone, the server is not asked and the cache stays as it is.
\<close>

theorem cached_key_outlives_rotation:
  assumes "split_on (CHR ''.'') (trim_space raw) = [h, p, s]" and "raw_url_decode h = Some hb" and "decode_header hb = Some hdr"
    and "jh_alg hdr = ''RS256''" and "map_of (tv_keys st) (jh_kid hdr) = Some key"
  shows "verify_token rsa ok cfg now ans raw st = (check_signed rsa cfg now key h p s, st)"
proof -
  have "get_key ok cfg now ans (jh_kid hdr) st = (Some key, st)" using assms(5) by (simp add: get_key_def)
  then show ?thesis by (simp add: verify_token_cases[OF assms(1-4)])
qed

text \<open>
  A token without a key id is accepted only by the request that fetches the keys.  When the key server publishes a
  single key, that request judges the token by it; every other request with the same token is refused until ten seconds
  have passed, although the key is in the cache.
\<close>

theorem kidless_token_flaps:
  assumes "split_on (CHR ''.'') (trim_space raw) = [h, p, s]" and "raw_url_decode h = Some hb" and "decode_header hb = Some hdr"
    and "jh_alg hdr = ''RS256''" and "jh_kid hdr = ''''"
    and "tv_keys st = []" and "refresh_jwks ok cfg now ans = Some st'" and "tv_keys st' = [(k, key)]" and "k \<noteq> ''''"
    and "now \<le> later" and "later < now + 10 * second"
  shows "verify_token rsa ok cfg now ans raw st = (check_signed rsa cfg now key h p s, st') \<and>
    verify_token rsa ok cfg later ans2 raw st' = (Inl ErrUnauthorized, st')"
proof -
  have "get_key ok cfg now ans '''' st = (Some key, st')" using assms(6-9) by (simp add: get_key_def)
  moreover have "tv_last_fetch st' = now"
    using assms(7) by (auto simp: refresh_jwks_def split: if_splits option.splits prod.splits)
  then have "get_key ok cfg later ans2 '''' st' = (None, st')"
    using assms(8-11) by (simp add: get_key_def time_sub_def)
  ultimately show ?thesis by (simp add: verify_token_cases[OF assms(1-4)] assms(5))
qed

section \<open>A key server and its tokens\<close>

definition demo_vcfg :: verifier_cfg where
  "demo_vcfg = \<lparr>vc_jwks_url = ''u'', vc_issuer = '''', vc_client = ''''\<rparr>"

definition named_token :: string where
  "named_token = ''eyJhbGciOiJSUzI1NiIsImtpZCI6ImsxIn0.eyJzdWIiOiJ1IiwicmVhbG1fYWNjZXNzIjp7InJvbGVzIjpbImEiXX19.c2ln''"

definition nameless_token :: string where
  "nameless_token = ''eyJhbGciOiJSUzI1NiJ9.eyJzdWIiOiJ1IiwicmVhbG1fYWNjZXNzIjp7InJvbGVzIjpbImEiXX19.c2ln''"

definition demo_keys :: string where
  "demo_keys = map (\<lambda>c. if c = CHR 0x60 then CHR 0x22 else c) ''{`keys`:[{`kty`:`RSA`,`kid`:`k1`,`n`:`YWI`,`e`:`Yw`}]}''"

definition demo_cache :: "time \<Rightarrow> verifier" where
  "demo_cache t = \<lparr>tv_keys = [(''k1'', \<lparr>rk_n = 24930, rk_e = 99\<rparr>)], tv_last_fetch = t\<rparr>"

lemma demo_decoded_keys: "map_option public_keys (decode_jwks demo_keys) = Some [(''k1'', \<lparr>rk_n = 24930, rk_e = 99\<rparr>)]"
  by code_simp

lemma demo_refresh: "refresh_jwks (\<lambda>_. True) demo_vcfg t (Some (200, demo_keys)) = Some (demo_cache t)"
  using demo_decoded_keys by (auto simp: refresh_jwks_def demo_vcfg_def demo_cache_def)

lemma demo_header:
  "map_option decode_header (raw_url_decode ''eyJhbGciOiJSUzI1NiIsImtpZCI6ImsxIn0'') =
     Some (Some \<lparr>jh_alg = ''RS256'', jh_typ = '''', jh_kid = ''k1''\<rparr>)"
  "map_option decode_header (raw_url_decode ''eyJhbGciOiJSUzI1NiJ9'') = Some (Some \<lparr>jh_alg = ''RS256'', jh_typ = '''', jh_kid = ''''\<rparr>)"
  by code_simp+

lemma demo_payload:
  "map_option decode_payload (raw_url_decode ''eyJzdWIiOiJ1IiwicmVhbG1fYWNjZXNzIjp7InJvbGVzIjpbImEiXX19'') =
     Some (Some (no_payload\<lparr>jp_sub := ''u'', jp_realm_roles := [''a'']\<rparr>))"
  "raw_url_decode ''c2ln'' = Some ''sig''"
  by code_simp+

lemma demo_split:
  "split_on (CHR ''.'') (trim_space named_token) =
     [''eyJhbGciOiJSUzI1NiIsImtpZCI6ImsxIn0'', ''eyJzdWIiOiJ1IiwicmVhbG1fYWNjZXNzIjp7InJvbGVzIjpbImEiXX19'', ''c2ln'']"
  "split_on (CHR ''.'') (trim_space nameless_token) =
     [''eyJhbGciOiJSUzI1NiJ9'', ''eyJzdWIiOiJ1IiwicmVhbG1fYWNjZXNzIjp7InJvbGVzIjpbImEiXX19'', ''c2ln'']"
  by (simp_all add: named_token_def nameless_token_def trim_space_graphic graphic_def)

lemma demo_checked:
  "check_signed (\<lambda>_ _ s. s = ''sig'') demo_vcfg now key h ''eyJzdWIiOiJ1IiwicmVhbG1fYWNjZXNzIjp7InJvbGVzIjpbImEiXX19'' ''c2ln'' =
     Inr (token_claims demo_vcfg (no_payload\<lparr>jp_sub := ''u'', jp_realm_roles := [''a'']\<rparr>))"
  using demo_payload by (auto simp: check_signed_def in_time_def no_payload_def)

theorem cached_key_outlives_rotation_witness:
  "verify_token (\<lambda>_ _ s. s = ''sig'') (\<lambda>_. True) demo_vcfg (10 ^ 30) (Some (200, ''{}'')) named_token (demo_cache 0) =
     (Inr (token_claims demo_vcfg (no_payload\<lparr>jp_sub := ''u'', jp_realm_roles := [''a'']\<rparr>)), demo_cache 0)"
proof -
  obtain hb hdr where h: "raw_url_decode ''eyJhbGciOiJSUzI1NiIsImtpZCI6ImsxIn0'' = Some hb" "decode_header hb = Some hdr"
    "hdr = \<lparr>jh_alg = ''RS256'', jh_typ = '''', jh_kid = ''k1''\<rparr>"
    using demo_header(1) by auto
  then have "jh_alg hdr = ''RS256''" "map_of (tv_keys (demo_cache 0)) (jh_kid hdr) = Some \<lparr>rk_n = 24930, rk_e = 99\<rparr>"
    by (simp_all add: demo_cache_def)
  from cached_key_outlives_rotation[OF demo_split(1) h(1,2) this] show ?thesis by (simp add: demo_checked)
qed

theorem accepted_token_genuine_witness:
  "\<exists>cl st'. verify_token (\<lambda>_ _ s. s = ''sig'') (\<lambda>_. True) demo_vcfg 0 None named_token (demo_cache 0) = (Inr cl, st') \<and>
     cl_subject cl = ''u'' \<and> set (cl_roles cl) = {''a''}"
proof -
  obtain hb hdr where h: "raw_url_decode ''eyJhbGciOiJSUzI1NiIsImtpZCI6ImsxIn0'' = Some hb" "decode_header hb = Some hdr"
    "hdr = \<lparr>jh_alg = ''RS256'', jh_typ = '''', jh_kid = ''k1''\<rparr>"
    using demo_header(1) by auto
  then have "jh_alg hdr = ''RS256''" "get_key (\<lambda>_. True) demo_vcfg 0 None (jh_kid hdr) (demo_cache 0) = (Some \<lparr>rk_n = 24930, rk_e = 99\<rparr>, demo_cache 0)"
    by (simp_all add: demo_cache_def get_key_def)
  then have v: "verify_token (\<lambda>_ _ s. s = ''sig'') (\<lambda>_. True) demo_vcfg 0 None named_token (demo_cache 0) =
      (Inr (token_claims demo_vcfg (no_payload\<lparr>jp_sub := ''u'', jp_realm_roles := [''a'']\<rparr>)), demo_cache 0)" (is "_ = (Inr ?cl, _)")
    using verify_token_cases[OF demo_split(1) h(1,2)] by (simp add: demo_checked)
  have sub: "jp_sub (no_payload\<lparr>jp_sub := ''u'', jp_realm_roles := [''a'']\<rparr>) = ''u''"
    "jp_realm_roles (no_payload\<lparr>jp_sub := ''u'', jp_realm_roles := [''a'']\<rparr>) = [''a'']" "vc_client demo_vcfg = ''''"
    by (simp_all add: demo_vcfg_def)
  have p: "raw_url_decode ''eyJzdWIiOiJ1IiwicmVhbG1fYWNjZXNzIjp7InJvbGVzIjpbImEiXX19'' = Some bytes \<Longrightarrow> decode_payload bytes = Some payload \<Longrightarrow>
      payload = no_payload\<lparr>jp_sub := ''u'', jp_realm_roles := [''a'']\<rparr>" for bytes payload
    using demo_payload(1) by auto
  have t: "trim_space ''u'' = ''u''" "trim_space ''a'' = ''a''" by (simp_all add: trim_space_graphic graphic_def)
  have "cl_subject ?cl = ''u'' \<and> set (cl_roles ?cl) = {''a''}"
    using accepted_token_genuine[OF v] unfolding demo_split(1) list.inject
    by (elim exE conjE) (use p sub t in auto)
  with v show ?thesis by blast
qed

theorem kidless_token_flaps_witness:
  "is_ok (fst (verify_token (\<lambda>_ _ s. s = ''sig'') (\<lambda>_. True) demo_vcfg 0 (Some (200, demo_keys)) nameless_token new_verifier)) \<and>
   fst (verify_token (\<lambda>_ _ s. s = ''sig'') (\<lambda>_. True) demo_vcfg second None nameless_token (demo_cache 0)) = Inl ErrUnauthorized"
proof -
  obtain hb hdr where h: "raw_url_decode ''eyJhbGciOiJSUzI1NiJ9'' = Some hb" "decode_header hb = Some hdr"
    "hdr = \<lparr>jh_alg = ''RS256'', jh_typ = '''', jh_kid = ''''\<rparr>"
    using demo_header(2) by auto
  have a: "jh_alg hdr = ''RS256''" "jh_kid hdr = ''''" using h(3) by simp_all
  have st: "tv_keys new_verifier = []" "tv_keys (demo_cache 0) = [(''k1'', \<lparr>rk_n = 24930, rk_e = 99\<rparr>)]"
    by (simp_all add: new_verifier_def demo_cache_def)
  from kidless_token_flaps[OF demo_split(2) h(1,2) a st(1) demo_refresh st(2), of second "\<lambda>_ _ s. s = ''sig''" None]
  show ?thesis by (simp add: demo_checked)
qed

end
