(* ===== verification/Cli_Safety.thy ===== *)
theory Cli_Safety
  imports Cli_Commands Token_Verifier
begin

text \<open>
  Properties of the command line client: its device login ends, its browser login needs the state it has sent, a device
  login reports success whatever it got, and its own role guard compared with the one of the server.
\<close>

section \<open>The polling loop\<close>

lemma say_simps [simp]: "m_sent (say s m) = m_sent m" "m_now (say s m) = m_now m" "m_file (say s m) = m_file m"
  "m_writable (say s m) = m_writable m"
  by (simp_all add: say_def)

lemma say_list_simps [simp]: "m_sent (foldl (\<lambda>x l. say l x) m ls) = m_sent m" "m_now (foldl (\<lambda>x l. say l x) m ls) = m_now m"
  "m_file (foldl (\<lambda>x l. say l x) m ls) = m_file m" "m_writable (foldl (\<lambda>x l. say l x) m ls) = m_writable m"
  by (induction ls arbitrary: m) simp_all

lemma say_list_more: "m_out (foldl (\<lambda>x l. say l x) m ls) = m_out m @ ls" "m_zone (foldl (\<lambda>x l. say l x) m ls) = m_zone m"
  by (induction ls arbitrary: m) (simp_all add: say_def)

lemma store_save_sent [simp]: "m_sent (snd (store_save c m)) = m_sent m"
  by (simp add: store_save_def split: option.splits)

lemma finish_device_sent [simp]: "m_sent (finish_device i s b m) = m_sent m"
  by (simp add: finish_device_def)

lemma sleep_simps [simp]: "m_sent (sleep d m) = m_sent m" "0 \<le> d \<Longrightarrow> m_now (sleep d m) = m_now m + d" "m_net (sleep d m) = m_net m"
  "m_file (sleep d m) = m_file m" "m_writable (sleep d m) = m_writable m"
  by (simp_all add: sleep_def)

lemma send_effect:
  assumes "send rq m = (r, m1)"
  shows "m_sent m1 = m_sent m @ [rq]" "m_now m \<le> m_now m1" "m_file m1 = m_file m" "m_writable m1 = m_writable m"
  using assms by (auto simp: send_def split: prod.splits)

lemma poll_over: "\<not> m_now m < deadline \<Longrightarrow> device_poll i s c d deadline interval m = Some (1, m)"
  by (subst device_poll.simps) simp

definition polls_bounded :: "time \<Rightarrow> duration \<Rightarrow> machine \<Rightarrow> machine \<Rightarrow> bool" where
  "polls_bounded deadline interval m m' \<longleftrightarrow>
     (let n = length (m_sent m') - length (m_sent m)
      in length (m_sent m) \<le> length (m_sent m') \<and> (n = 0 \<or> (int n - 1) * interval < deadline - m_now m))"

lemma polls_bounded_refl: "polls_bounded deadline interval m m"
  by (simp add: polls_bounded_def)

lemma polls_bounded_one: "m_now m < deadline \<Longrightarrow> m_sent m' = m_sent m @ [rq] \<Longrightarrow> polls_bounded deadline interval m m'"
  by (simp add: polls_bounded_def)

text \<open>A round more: the rest is bounded with an interval that is no shorter.\<close>

lemma polls_bounded_step:
  assumes "polls_bounded deadline longer m1 m'" and "m_sent m1 = m_sent m @ [rq]" and "m_now m + interval \<le> m_now m1"
    and "0 < interval" and "interval \<le> longer" and "m_now m < deadline"
  shows "polls_bounded deadline interval m m'"
proof -
  define k where "k = length (m_sent m') - length (m_sent m1)"
  have l: "length (m_sent m1) \<le> length (m_sent m')" "k = 0 \<or> (int k - 1) * longer < deadline - m_now m1"
    using assms(1) unfolding polls_bounded_def Let_def k_def[symmetric] by blast+
  have n: "length (m_sent m') - length (m_sent m) = Suc k" using l(1) assms(2) by (simp add: k_def)
  have "int k * interval < deadline - m_now m"
  proof (cases "k = 0")
    case False
    have "(int k - 1) * interval \<le> (int k - 1) * longer" using False assms(5) by (intro mult_left_mono) simp_all
    then show ?thesis using False l(2) assms(3) by (simp add: left_diff_distrib)
  qed (use assms(6) in simp)
  then show ?thesis using n l(1) assms(2) by (simp add: polls_bounded_def)
qed

lemma device_poll_returns:
  assumes "0 < interval" and "deadline - m_now m \<le> max_int64 - 2 * second"
  shows "\<exists>status m'. device_poll i s c d deadline interval m = Some (status, m') \<and> polls_bounded deadline interval m m'"
  using assms
proof (induction "nat (deadline - m_now m)" arbitrary: interval m rule: less_induct)
  case less
  show ?case
  proof (cases "m_now m < deadline")
    case False
    then show ?thesis by (simp add: poll_over polls_bounded_refl)
  next
    case True
    obtain r m1 where send: "send (poll_request i c d) (sleep interval m) = (r, m1)" by fastforce
    have m1: "m_sent m1 = m_sent m @ [poll_request i c d]" "m_now m + interval \<le> m_now m1"
      using send_effect[OF send] less.prems(1) by simp_all
    have again: "\<exists>status m'. device_poll i s c d deadline longer m1 = Some (status, m') \<and> polls_bounded deadline interval m m'"
      if longer: "m_now m1 < deadline \<longrightarrow> interval \<le> longer" for longer
    proof (cases "m_now m1 < deadline")
      case False
      then show ?thesis using polls_bounded_one[OF True m1(1)] by (simp add: poll_over)
    next
      case more: True
      have dec: "nat (deadline - m_now m1) < nat (deadline - m_now m)" using m1(2) less.prems(1) True by simp
      have p: "0 < longer" "deadline - m_now m1 \<le> max_int64 - 2 * second" using longer more less.prems m1(2) by simp_all
      obtain status m' where "device_poll i s c d deadline longer m1 = Some (status, m')" "polls_bounded deadline longer m1 m'"
        using less.hyps[OF dec p] by blast
      then show ?thesis using polls_bounded_step[OF _ m1 less.prems(1) _ True] longer more by blast
    qed
    have slower: "m_now m1 < deadline \<longrightarrow> interval \<le> slower interval"
    proof
      assume "m_now m1 < deadline"
      then have "in_int64 (interval + 2 * second)" using m1(2) less.prems by (simp add: in_int64_def)
      then show "interval \<le> slower interval" by (simp add: slower_def wrap64_id)
    qed
    have fin: "polls_bounded deadline interval m m1" "polls_bounded deadline interval m (finish_device i s b m1)" for b
      using polls_bounded_one[OF True] m1(1) by simp_all
    show ?thesis
      using True send again[of interval] again[OF slower] fin by (subst device_poll.simps) (simp split: reply.splits)
  qed
qed

section \<open>The claims that client and server read\<close>

lemma match_field_inj:
  assumes "inj_on fold_name (set names)"
  shows "match_field names k = Some n \<longleftrightarrow> n \<in> set names \<and> fold_name n = fold_name k"
proof (cases "k \<in> set names")
  case True
  then show ?thesis using assms by (auto simp: match_field_def dest: inj_onD)
next
  case False
  show ?thesis
  proof
    assume "match_field names k = Some n"
    then show "n \<in> set names \<and> fold_name n = fold_name k" using False by (auto simp: match_field_def find_Some_iff)
  next
    assume n: "n \<in> set names \<and> fold_name n = fold_name k"
    then obtain x where x: "List.find (\<lambda>n. fold_name n = fold_name k) names = Some x"
      by (cases "List.find (\<lambda>n. fold_name n = fold_name k) names") (auto simp: find_None_iff)
    then have "x \<in> set names" "fold_name x = fold_name k" by (auto simp: find_Some_iff)
    then have "x = n" using n assms by (metis inj_onD)
    then show "match_field names k = Some n" using x False by (simp add: match_field_def)
  qed
qed

definition client_view :: "jwt_payload \<Rightarrow> jwt_payload" where
  "client_view p = \<lparr>jp_sub = jp_sub p, jp_username = jp_username p, jp_email = jp_email p, jp_exp = jp_exp p, jp_iat = 0, jp_nbf = 0,
     jp_iss = [], jp_aud = J_null, jp_realm_roles = jp_realm_roles p, jp_resources = [], jp_groups = jp_groups p\<rparr>"

lemma client_view_fields [simp]:
  "jp_sub (client_view p) = jp_sub p" "jp_username (client_view p) = jp_username p" "jp_email (client_view p) = jp_email p"
  "jp_exp (client_view p) = jp_exp p" "jp_realm_roles (client_view p) = jp_realm_roles p" "jp_groups (client_view p) = jp_groups p"
  by (simp_all add: client_view_def)

lemma client_view_updates:
  "client_view (p\<lparr>jp_sub := s\<rparr>) = (client_view p)\<lparr>jp_sub := s\<rparr>" "client_view (p\<lparr>jp_username := s\<rparr>) = (client_view p)\<lparr>jp_username := s\<rparr>"
  "client_view (p\<lparr>jp_email := s\<rparr>) = (client_view p)\<lparr>jp_email := s\<rparr>" "client_view (p\<lparr>jp_exp := i\<rparr>) = (client_view p)\<lparr>jp_exp := i\<rparr>"
  "client_view (p\<lparr>jp_realm_roles := r\<rparr>) = (client_view p)\<lparr>jp_realm_roles := r\<rparr>"
  "client_view (p\<lparr>jp_groups := g\<rparr>) = (client_view p)\<lparr>jp_groups := g\<rparr>"
  "client_view (p\<lparr>jp_iat := i\<rparr>) = client_view p" "client_view (p\<lparr>jp_nbf := i\<rparr>) = client_view p"
  "client_view (p\<lparr>jp_iss := s\<rparr>) = client_view p" "client_view (p\<lparr>jp_aud := v\<rparr>) = client_view p"
  "client_view (p\<lparr>jp_resources := q\<rparr>) = client_view p"
  by (simp_all add: client_view_def)

lemma payload_names: "inj_on fold_name (set payload_fields)" "set client_fields \<subseteq> set payload_fields"
proof -
  have "distinct (map fold_name payload_fields)" by (simp add: payload_fields_def to_upper_char_def)
  then show "inj_on fold_name (set payload_fields)" by (simp add: distinct_map)
  show "set client_fields \<subseteq> set payload_fields" by (simp add: client_fields_def payload_fields_def)
qed

lemma put_payload_seen:
  assumes "n \<in> set client_fields"
  shows "put_payload n v (client_view p) = map_option client_view (put_payload n v p)"
proof -
  have "n = ''sub'' \<or> n = ''preferred_username'' \<or> n = ''email'' \<or> n = ''exp'' \<or> n = ''realm_access'' \<or> n = ''groups''"
    using assms by (simp add: client_fields_def)
  then show ?thesis
    by (elim disjE) (simp_all add: put_payload_def client_view_updates option.map_comp comp_def)
qed

lemma put_payload_unseen:
  assumes "n \<in> set payload_fields" and "n \<notin> set client_fields" and "put_payload n v p = Some q"
  shows "client_view q = client_view p"
proof -
  have "n = ''iat'' \<or> n = ''nbf'' \<or> n = ''iss'' \<or> n = ''aud'' \<or> n = ''resource_access''"
    using assms(1,2) unfolding client_fields_def payload_fields_def list.set insert_iff empty_iff by (elim disjE; simp)
  then show ?thesis using assms(3) by (elim disjE) (auto simp: put_payload_def client_view_updates)
qed

lemma client_match:
  "match_field client_fields k =
     (case match_field payload_fields k of None \<Rightarrow> None | Some n \<Rightarrow> if n \<in> set client_fields then Some n else None)"
proof -
  have c: "match_field client_fields k = Some n \<longleftrightarrow> n \<in> set client_fields \<and> match_field payload_fields k = Some n" for n
    unfolding match_field_inj[OF payload_names(1)] match_field_inj[OF inj_on_subset[OF payload_names]] using payload_names(2) by blast
  show ?thesis
  proof (cases "match_field client_fields k")
    case None
    then show ?thesis using c by (simp split: option.split)
  next
    case (Some n)
    then show ?thesis using c[of n] by simp
  qed
qed

lemma client_decodes_members:
  "decode_members payload_fields put_payload ms p = Some q \<Longrightarrow>
     decode_members client_fields put_payload ms (client_view p) = Some (client_view q)"
proof (induction ms arbitrary: p)
  case (Cons kv ms)
  obtain k v where kv: "kv = (k, v)" by fastforce
  show ?case
  proof (cases "match_field payload_fields k")
    case None
    then show ?thesis using Cons kv by (simp add: client_match)
  next
    case (Some n)
    then obtain y where y: "put_payload n v p = Some y" "decode_members payload_fields put_payload ms y = Some q"
      using Cons.prems kv by (auto split: option.splits)
    have n: "n \<in> set payload_fields" using Some match_field_inj[OF payload_names(1)] by blast
    show ?thesis
      using Cons.IH[OF y(2)] put_payload_seen[of n v p] put_payload_unseen[OF n _ y(1)] y(1) Some kv
      by (cases "n \<in> set client_fields") (simp_all add: client_match)
  qed
qed simp

lemma client_decodes:
  assumes "decode_payload bytes = Some p"
  shows "\<exists>v. json_text bytes = Some v \<and> decode_struct client_fields put_payload v no_payload = Some (client_view p)"
proof -
  have z: "client_view no_payload = no_payload" by (simp add: client_view_def no_payload_def)
  obtain v where v: "json_text bytes = Some v" "decode_struct payload_fields put_payload v no_payload = Some p"
    using assms by (auto simp: decode_payload_def split: option.splits)
  then have "decode_struct client_fields put_payload v no_payload = Some (client_view p)"
    using client_decodes_members[of _ no_payload p] z by (cases v) (simp_all add: decode_struct_def)
  with v(1) show ?thesis by blast
qed

lemma has_role_same:
  assumes "cl_groups c = cl_groups d"
    and "\<And>t. t \<noteq> '''' \<Longrightarrow> (\<exists>x \<in> set (cl_roles c). trim_space x = t) = (\<exists>x \<in> set (cl_roles d). trim_space x = t)"
    and "trim_space r \<noteq> ''''"
  shows "has_role c r = has_role d r"
proof -
  have l: "list_ex (\<lambda>x. trim_space x = t) (cl_roles c) = list_ex (\<lambda>x. trim_space x = t) (cl_roles d)" if "t \<noteq> ''''" for t
    using assms(2)[OF that] by (simp add: list_ex_iff)
  have g: "in_group c x = in_group d x" for x by (simp add: in_group_def assms(1))
  have t: "trim_space role_admin \<noteq> ''''" "trim_space role_deployer \<noteq> ''''" "trim_space role_developer \<noteq> ''''" "trim_space role_viewer \<noteq> ''''"
    by (simp_all add: role_names trim_space_graphic graphic_def)
  show ?thesis unfolding has_role_def has_direct_role_def Let_def l[OF assms(3)] l[OF t(1)] l[OF t(2)] l[OF t(3)] l[OF t(4)] g ..
qed

text \<open>Without a configured client the roles of a token are those of the realm.\<close>

lemma client_guard_claims:
  assumes "check_signed rsa cfg now key h p s = Inr cl" and "split_on (CHR ''.'') (cr_access c) = [h, p, s]"
    and "raw_url_decode p = Some bytes" and "decode_payload bytes = Some q"
  shows "cl = token_claims cfg q"
    and "client_claims c = Some (new_claims (jp_sub q) (jp_username q) (jp_email q) (jp_realm_roles q) (jp_groups q) (expiry_of (jp_exp q)))"
proof -
  show "cl = token_claims cfg q" using assms(1,3,4) by (auto simp: check_signed_def split: option.splits if_splits)
  have "cr_access c \<noteq> ''''" using assms(2) by auto
  then show "client_claims c = Some (new_claims (jp_sub q) (jp_username q) (jp_email q) (jp_realm_roles q) (jp_groups q) (expiry_of (jp_exp q)))"
    using client_decodes[OF assms(4)] assms(2,3) by (auto simp: client_claims_def client_view_def)
qed

lemma realm_roles_same:
  assumes "trim_space r \<noteq> ''''"
  shows "has_role (new_claims (jp_sub q) (jp_username q) (jp_email q) (jp_realm_roles q) (jp_groups q) (expiry_of (jp_exp q))) r =
    has_role (token_claims (cfg\<lparr>vc_client := ''''\<rparr>) q) r"
proof (rule has_role_same[OF _ _ assms])
  fix t :: string assume t: "t \<noteq> ''''"
  have "set (token_roles (cfg\<lparr>vc_client := ''''\<rparr>) q) = {x \<in> trim_space ` set (jp_realm_roles q). x \<noteq> ''''}"
    by (auto simp: token_roles_def)
  then show "(\<exists>x \<in> set (cl_roles (new_claims (jp_sub q) (jp_username q) (jp_email q) (jp_realm_roles q) (jp_groups q) (expiry_of (jp_exp q)))). trim_space x = t) =
      (\<exists>x \<in> set (cl_roles (token_claims (cfg\<lparr>vc_client := ''''\<rparr>) q)). trim_space x = t)"
    using t by (auto simp: new_claims_def token_claims_def)
qed (simp add: new_claims_def token_claims_def)

section \<open>The wait for the callback\<close>

lemma is_code_simps [simp]: "is_code (Got_code a)" "\<not> is_code Got_error" "\<not> is_code Timed_out"
  by (simp_all add: is_code_def)

lemma reports_simps [simp]:
  "reports e [] = []"
  "reports e (r # rs) = (case snd (handle_callback e r) of None \<Rightarrow> reports e rs | Some x \<Rightarrow> x # reports e rs)"
  by (simp_all add: reports_def split: option.split)

lemma reported_callback: "snd (handle_callback e r) = None \<longleftrightarrow> fst r \<noteq> ''/callback''"
  by (cases r) (simp add: handle_callback_def)

definition grants :: "string \<Rightarrow> string \<times> (string \<times> string) list \<Rightarrow> bool" where
  "grants e r \<longleftrightarrow> (\<exists>a. snd (handle_callback e r) = Some (Got_code a))"

lemma granted:
  "snd (handle_callback e r) = Some (Got_code a) \<longleftrightarrow> fst r = ''/callback'' \<and> query (snd r) ''state'' = e \<and>
     query (snd r) ''error'' = '''' \<and> query (snd r) ''code'' = a \<and> a \<noteq> ''''"
  by (cases r) (auto simp: handle_callback_def)

lemma not_timed_out: "snd (handle_callback e r) \<noteq> Some Timed_out"
  by (cases r) (simp add: handle_callback_def)

lemma first_code_found:
  "List.find is_code (reports e rs) = Some (Got_code a) \<Longrightarrow>
     \<exists>before r after. rs = before @ r # after \<and> (\<forall>x \<in> set before. \<not> grants e x) \<and> snd (handle_callback e r) = Some (Got_code a)"
proof (induction rs)
  case (Cons r rs)
  show ?case
  proof (cases "grants e r")
    case True
    then show ?thesis using Cons.prems by (intro exI [of _ "[]"]) (auto simp: grants_def)
  next
    case False
    then have "List.find is_code (reports e rs) = Some (Got_code a)"
      using Cons.prems by (auto simp: grants_def split: option.splits if_splits)
    from Cons.IH [OF this] obtain before x after where
      "rs = before @ x # after" "\<forall>y \<in> set before. \<not> grants e y" "snd (handle_callback e x) = Some (Got_code a)" by blast
    then show ?thesis using False by (intro exI [of _ "r # before"] exI [of _ x] exI [of _ after]) simp
  qed
qed simp

lemma first_report_found:
  "reports e rs = x # xs \<Longrightarrow>
     \<exists>before r after. rs = before @ r # after \<and> (\<forall>y \<in> set before. fst y \<noteq> ''/callback'') \<and> snd (handle_callback e r) = Some x"
proof (induction rs)
  case (Cons r rs)
  show ?case
  proof (cases "snd (handle_callback e r)")
    case None
    then have "reports e rs = x # xs" using Cons.prems by simp
    from Cons.IH [OF this] obtain before y after where
      "rs = before @ y # after" "\<forall>z \<in> set before. fst z \<noteq> ''/callback''" "snd (handle_callback e y) = Some x" by blast
    then show ?thesis using None by (intro exI [of _ "r # before"] exI [of _ y] exI [of _ after]) (simp add: reported_callback)
  next
    case (Some z)
    then show ?thesis using Cons.prems by (intro exI [of _ "[]"]) simp
  qed
qed simp

lemma no_reports: "reports e rs = [] \<longleftrightarrow> (\<forall>r \<in> set rs. fst r \<noteq> ''/callback'')"
proof (induction rs)
  case (Cons r rs)
  then show ?case using reported_callback [of e r] by (cases "snd (handle_callback e r)") simp_all
qed simp

lemma no_errors: "List.find (\<lambda>x. \<not> is_code x) (reports e rs) = None \<longleftrightarrow> (\<forall>r \<in> set rs. fst r = ''/callback'' \<longrightarrow> grants e r)"
proof (induction rs)
  case (Cons r rs)
  show ?case
  proof (cases "snd (handle_callback e r)")
    case None
    then show ?thesis using Cons reported_callback [of e r] by simp
  next
    case (Some x)
    then have "fst r = ''/callback''" using reported_callback [of e r] by simp
    moreover have "grants e r \<longleftrightarrow> is_code x" using Some by (cases x) (auto simp: grants_def)
    ultimately show ?thesis using Cons Some by auto
  qed
qed simp

lemma no_codes: "List.find is_code xs = None \<Longrightarrow> List.find (\<lambda>x. \<not> is_code x) xs = None \<Longrightarrow> xs = []"
  by (cases xs) (auto split: if_splits)

lemma found_satisfies: "List.find P xs = Some x \<Longrightarrow> P x \<and> x \<in> set xs"
  by (auto simp: find_Some_iff)

lemma await_code:
  assumes "await_callback e early late pick = Got_code a"
  shows "\<exists>q. query q ''state'' = e \<and> query q ''error'' = '''' \<and> query q ''code'' = a \<and> a \<noteq> '''' \<and>
    (if \<exists>r \<in> set early. fst r = ''/callback''
     then (\<exists>before after. early = before @ (''/callback'', q) # after \<and> (\<forall>r \<in> set before. \<not> grants e r)) \<and>
       (pick \<or> (\<forall>r \<in> set early. fst r = ''/callback'' \<longrightarrow> grants e r))
     else \<exists>before after. late = before @ (''/callback'', q) # after \<and> (\<forall>r \<in> set before. fst r \<noteq> ''/callback''))"
proof (cases "reports e early = []")
  case True
  then have none: "\<not> (\<exists>r \<in> set early. fst r = ''/callback'')" by (simp add: no_reports)
  obtain xs where "reports e late = Got_code a # xs" using assms True by (auto simp: await_callback_def split: list.splits)
  from first_report_found [OF this] obtain before r after where
    "late = before @ r # after" "\<forall>y \<in> set before. fst y \<noteq> ''/callback''" "snd (handle_callback e r) = Some (Got_code a)" by blast
  then show ?thesis unfolding if_not_P [OF none] granted by (intro exI [of _ "snd r"]) (cases r, auto)
next
  case False
  then have some: "\<exists>r \<in> set early. fst r = ''/callback''" by (simp add: no_reports)
  have code: "List.find is_code (reports e early) = Some (Got_code a)"
    and pick: "pick \<or> List.find (\<lambda>x. \<not> is_code x) (reports e early) = None"
    using assms no_codes [of "reports e early"] False
    by (auto simp: await_callback_def Let_def is_code_def dest!: found_satisfies split: option.splits if_splits)
  from first_code_found [OF code] obtain before r after where
    "early = before @ r # after" "\<forall>y \<in> set before. \<not> grants e y" "snd (handle_callback e r) = Some (Got_code a)" by blast
  then show ?thesis using pick unfolding if_P [OF some] no_errors granted by (intro exI [of _ "snd r"]) (cases r, auto)
qed

section \<open>Properties\<close>

text \<open>
  C34: The device login always ends.  When the device code expires within 292 years the polling loop returns, whatever the
  network answers and however often it asks to slow down, and the number of polls exceeds the expiry divided by the
  interval by less than one.
\<close>

theorem device_flow_terminates:
  assumes "send (device_request issuer client) m = (Http 200 body, m1)" and "device_answer_of body = Some d"
    and "0 \<le> da_expires d" and "da_expires d \<le> 9223372034"
  shows "\<exists>status m' polls. device_flow lib issuer server client m = Some (status, m') \<and>
    polls = length (m_sent m') - length (m_sent m1) \<and> (polls = 0 \<or> (int polls - 1) * poll_interval d < da_expires d * second)"
proof (cases "cl_valid_url lib (rq_url (device_request issuer client))")
  case False
  then show ?thesis using send_effect(1)[OF assms(1)] by (simp add: device_flow_def)
next
  case True
  define m2 where "m2 = foldl (\<lambda>x l. say l x) m1 (device_lines d)"
  have w: "wrap64 (da_expires d * second) = da_expires d * second" using assms(3,4) by (intro wrap64_id) (simp add: in_int64_def)
  have f: "device_flow lib issuer server client m =
      device_poll issuer server client (da_code d) (m_now m2 + da_expires d * second) (poll_interval d) m2"
    using True assms(1,2) by (simp add: device_flow_def m2_def w)
  have i: "0 < poll_interval d" by (simp add: poll_interval_def Let_def)
  have "m_now m2 + da_expires d * second - m_now m2 \<le> max_int64 - 2 * second" using assms(4) by simp
  from device_poll_returns[OF i this] obtain status m' where
    p: "device_poll issuer server client (da_code d) (m_now m2 + da_expires d * second) (poll_interval d) m2 = Some (status, m')"
       "polls_bounded (m_now m2 + da_expires d * second) (poll_interval d) m2 m'" by blast
  have s: "m_sent m2 = m_sent m1" and e: "m_now m2 + da_expires d * second - m_now m2 = da_expires d * second"
    by (simp_all add: m2_def)
  have "length (m_sent m') - length (m_sent m1) = 0 \<or>
      (int (length (m_sent m') - length (m_sent m1)) - 1) * poll_interval d < da_expires d * second"
    using p(2) unfolding polls_bounded_def Let_def s e by blast
  then show ?thesis using p(1) unfolding f by blast
qed

text \<open>
  C35: A browser login succeeds only with the answer to its own request.  The code it uses came with a request to the callback
  address that carried the state it had sent and no error.  If requests to that address came in before the client looked,
  this is the first of them that brought a code, and if others of them failed then the choice between a ready code and a
  ready error fell on the code; otherwise it is the first request after that.  The address on the screen carries the state
  and the S256 hash of the verifier, the code is exchanged with this verifier, and the file holds the access, refresh and ID
  token, the type and the expiry of the exchange, with both addresses.
\<close>

theorem browser_login_sound:
  assumes "browser_flow lib issuer server m = (0, m')"
    and "state = raw_url_encode (cl_state_bytes lib)" and "verifier = raw_url_encode (cl_verifier_bytes lib)"
  shows "\<exists>q t w lines.
    query q ''state'' = state \<and> query q ''error'' = '''' \<and> query q ''code'' \<noteq> '''' \<and>
    (if \<exists>r \<in> set (cl_early lib). fst r = ''/callback''
     then (\<exists>before after. cl_early lib = before @ (''/callback'', q) # after \<and> (\<forall>r \<in> set before. \<not> grants state r)) \<and>
       (cl_pick lib \<or> (\<forall>r \<in> set (cl_early lib). fst r = ''/callback'' \<longrightarrow> grants state r))
     else \<exists>before after. cl_callbacks lib = before @ (''/callback'', q) # after \<and> (\<forall>r \<in> set before. fst r \<noteq> ''/callback'')) \<and>
    cl_exchange lib (query q ''code'') verifier = Some t \<and>
    m_out m' = m_out m @ [''Opening browser for authentication...'', ''If browser does not open automatically, navigate to:'',
      cl_auth_url lib state (raw_url_encode (sha256_bytes verifier)), ''''] @ lines \<and>
    json_time (m_zone m) (tk_expiry t) = Some w \<and>
    m_file m' = Some (marshal_indent (J_obj ((''access_token'', J_str (tk_access t)) # omit_empty ''refresh_token'' (tk_refresh t) @
      omit_empty ''id_token'' (tk_id t) @ omit_empty ''token_type'' (if tk_type t = '''' then ''Bearer'' else tk_type t) @
      omit_empty ''issuer_url'' issuer @ omit_empty ''server_url'' server @ [(''expires_at'', w)])))"
proof -
  define ls where "ls = [''Opening browser for authentication...'', ''If browser does not open automatically, navigate to:'',
      cl_auth_url lib state (raw_url_encode (sha256_bytes verifier)), '''']"
  obtain a where a: "await_callback state (cl_early lib) (cl_callbacks lib) (cl_pick lib) = Got_code a"
    using assms by (auto simp: browser_flow_def Let_def split: if_splits callback_end.splits)
  obtain t where t: "cl_exchange lib a verifier = Some t"
    using assms by (auto simp: browser_flow_def Let_def split: if_splits option.splits callback_end.splits) (use a assms in auto)
  define c where "c = login_credentials issuer server t"
  have party: "cl_party lib" using assms by (simp add: browser_flow_def Let_def split: if_splits)
  have f: "browser_flow lib issuer server m =
      (case store_save c (foldl (\<lambda>x l. say l x) m ls) of (False, m2) \<Rightarrow> (1, m2) | (True, m2) \<Rightarrow> (0, foldl (\<lambda>x l. say l x) m2 (login_lines c)))"
    using a t party by (simp add: browser_flow_def Let_def ls_def c_def assms(2,3) split: prod.split bool.split)
  obtain ok m2 where s: "store_save c (foldl (\<lambda>x l. say l x) m ls) = (ok, m2)" by fastforce
  have "ok" and m': "m' = foldl (\<lambda>x l. say l x) m2 (login_lines c)" using assms(1) unfolding f s by (cases ok; simp)+
  then obtain v where v: "credentials_json (m_zone m) c = Some v" "m2 = (foldl (\<lambda>x l. say l x) m ls)\<lparr>m_file := Some (marshal_indent v)\<rparr>"
    using s by (auto simp: store_save_def say_list_more split: option.splits if_splits)
  have out: "m_out m' = m_out m @ ls @ login_lines c" by (simp add: m' v(2) say_list_more)
  obtain w where w: "json_time (m_zone m) (tk_expiry t) = Some w" "v = J_obj ((''access_token'', J_str (tk_access t)) #
      omit_empty ''refresh_token'' (tk_refresh t) @ omit_empty ''id_token'' (tk_id t) @
      omit_empty ''token_type'' (if tk_type t = '''' then ''Bearer'' else tk_type t) @
      omit_empty ''issuer_url'' issuer @ omit_empty ''server_url'' server @ [(''expires_at'', w)])"
    using v(1) by (auto simp: credentials_json_def c_def login_credentials_def split: option.splits)
  have saved: "m_file m' = Some (marshal_indent v)" by (simp add: m' v(2))
  show ?thesis
    using await_code [OF a]
    apply (elim exE conjE)
    subgoal premises prems for q
      using prems(4) t out saved unfolding prems(3) [symmetric] ls_def w(2)
      by (intro exI [of _ q] exI [of _ t] exI [of _ w] exI [of _ "login_lines c"] conjI prems(1,2,5) w(1)) simp_all
    done
qed

text \<open>
  A device login reports success whatever it was given.  When a poll is answered with 200 the client exits with 0 and
  prints its message, even if the file cannot be written, which then stays as it was, and even if the answer holds no
  token.
\<close>

theorem device_login_claims_success:
  assumes "m_now m < deadline" and "send (poll_request issuer client device) (sleep interval m) = (Http 200 body, m1)"
  shows "\<exists>m'. device_poll issuer server client device deadline interval m = Some (0, m') \<and>
    m_out m' = m_out m1 @ [''Successfully authenticated via Device Flow!''] \<and>
    (\<not> m_writable m \<longrightarrow> m_file m' = m_file m) \<and>
    (json_first body = None \<longrightarrow> cr_access (device_credentials issuer server (token_answer_of body) (m_now m1)) = '''')"
proof -
  have "device_poll issuer server client device deadline interval m = Some (0, finish_device issuer server body m1)"
    using assms by (subst device_poll.simps) simp
  moreover have "m_file m1 = m_file m" "m_writable m1 = m_writable m" using send_effect(3,4)[OF assms(2)] by (simp_all add: sleep_def)
  moreover have "m_out (finish_device issuer server body m1) = m_out m1 @ [''Successfully authenticated via Device Flow!'']"
    by (simp add: finish_device_def say_def store_save_def split: option.splits)
  moreover have "\<not> m_writable m1 \<Longrightarrow> m_file (finish_device issuer server body m1) = m_file m1"
    by (simp add: finish_device_def store_save_def split: option.splits)
  moreover have "json_first body = None \<Longrightarrow> cr_access (device_credentials issuer server (token_answer_of body) (m_now m1)) = ''''"
    by (simp add: device_credentials_def token_answer_of_def decode_lenient_def)
  ultimately show ?thesis by auto
qed

text \<open>
  The guard of the client decides as a server would that has no client configured.  For an access token that the server
  accepts, the client refuses a command exactly if the realm roles and the groups of the token do not grant the role; roles
  of the configured client, which the server counts, it does not see.
\<close>

theorem client_guard_exact:
  assumes "verify_token rsa ok cfg now ans raw st = (Inr cl, st')" and "split_on (CHR ''.'') (trim_space raw) = [h, p, s]"
    and "raw_url_decode p = Some bytes" and "decode_payload bytes = Some q"
    and "loaded m = Some c" and "cr_access c = trim_space raw" and "trim_space role \<noteq> ''''"
  shows "cl = token_claims cfg q \<and>
    (guard_refuses role m \<longleftrightarrow> \<not> has_any_role (token_claims (cfg\<lparr>vc_client := ''''\<rparr>) q) [role, role_admin])"
proof -
  from verify_token_Inr[OF assms(1)] assms(2) obtain key where v: "check_signed rsa cfg now key h p s = Inr cl"
    by (metis list.inject)
  have s: "split_on (CHR ''.'') (cr_access c) = [h, p, s]" using assms(2,6) by simp
  then have n: "cr_access c \<noteq> ''''" by auto
  note g = client_guard_claims[OF v s assms(3,4)]
  have a: "trim_space role_admin \<noteq> ''''" by (simp add: role_names trim_space_graphic graphic_def)
  have "guard_refuses role m \<longleftrightarrow> \<not> has_any_role (token_claims (cfg\<lparr>vc_client := ''''\<rparr>) q) [role, role_admin]"
    using n by (simp add: guard_refuses_def assms(5) g(2) realm_roles_same[OF assms(7), of _ cfg] realm_roles_same[OF a, of _ cfg] has_any_role_def)
  then show ?thesis using g(1) by simp
qed

section \<open>Instances\<close>

definition demo_lib :: cli_lib where
  "demo_lib = \<lparr>cl_valid_url = (\<lambda>_. True), cl_verifier_bytes = ''v'', cl_state_bytes = ''s'', cl_port = Some 1, cl_party = True,
     cl_auth_url = (\<lambda>_ _. ''''),
     cl_early = [(''/favicon.ico'', []), (''/callback'', [(''state'', ''no'')]), (''/callback'', [(''state'', ''cw''), (''code'', ''x'')])],
     cl_callbacks = [], cl_pick = True,
     cl_exchange = (\<lambda>_ _. Some \<lparr>tk_access = ''a.b.c'', tk_refresh = ''r'', tk_id = '''', tk_type = '''', tk_expiry = 0\<rparr>)\<rparr>"

definition quoted :: "string \<Rightarrow> string" where
  "quoted s = map (\<lambda>c. if c = CHR 0x60 then CHR 0x22 else c) s"

definition demo_network :: "nat \<Rightarrow> nat \<times> reply" where
  "demo_network n = (if n = 0 then (0, Http 200 (quoted ''{`expires_in`:10,`interval`:3}'')) else (1, Http_failed))"

definition demo_device :: device_answer where
  "demo_device = \<lparr>da_code = '''', da_user = '''', da_uri = '''', da_uri_complete = '''', da_expires = 10, da_interval = 3\<rparr>"

lemma demo_device_decoded: "device_answer_of (quoted ''{`expires_in`:10,`interval`:3}'') = Some demo_device"
  by code_simp

theorem device_flow_terminates_witness:
  "\<exists>status m' polls. device_flow demo_lib ''i'' ''s'' ''c'' (new_machine\<lparr>m_net := demo_network\<rparr>) = Some (status, m') \<and>
     polls = length (m_sent m') - 1 \<and> (polls = 0 \<or> (int polls - 1) * (3 * second) < 10 * second)"
proof -
  define m1 where "m1 = (new_machine\<lparr>m_net := demo_network\<rparr>)\<lparr>m_sent := [device_request ''i'' ''c'']\<rparr>"
  have s: "send (device_request ''i'' ''c'') (new_machine\<lparr>m_net := demo_network\<rparr>) = (Http 200 (quoted ''{`expires_in`:10,`interval`:3}''), m1)"
    by (simp add: send_def new_machine_def demo_network_def m1_def)
  have i: "poll_interval demo_device = 3 * second" by code_simp
  have d: "0 \<le> da_expires demo_device" "da_expires demo_device \<le> 9223372034" "da_expires demo_device = 10" "length (m_sent m1) = 1"
    by (simp_all add: demo_device_def m1_def)
  show ?thesis using device_flow_terminates[OF s demo_device_decoded d(1,2), of demo_lib "''s''"] unfolding i d(3,4) .
qed

theorem browser_login_sound_witness:
  "\<exists>m' w. browser_flow demo_lib ''i'' ''s'' new_machine = (0, m') \<and> json_time 7200 0 = Some w \<and>
    m_file m' = Some (marshal_indent (J_obj [(''access_token'', J_str ''a.b.c''), (''refresh_token'', J_str ''r''),
      (''token_type'', J_str ''Bearer''), (''issuer_url'', J_str ''i''), (''server_url'', J_str ''s''), (''expires_at'', w)]))"
proof -
  have e: "raw_url_encode ''s'' = ''cw''" by code_simp
  have st: "cl_state_bytes demo_lib = ''s''" by (simp add: demo_lib_def)
  have a: "await_callback ''cw'' (cl_early demo_lib) (cl_callbacks demo_lib) (cl_pick demo_lib) = Got_code ''x''"
    by (simp add: await_callback_def demo_lib_def reports_def handle_callback_def query_def is_code_def)
  have "0 \<le> year_of (7200 * second) \<and> year_of (7200 * second) \<le> 9999" by code_simp
  then obtain m' where m: "browser_flow demo_lib ''i'' ''s'' new_machine = (0, m')"
    using a unfolding browser_flow_def Let_def st e
    by (simp add: demo_lib_def store_save_def credentials_json_def json_time_def login_credentials_def new_machine_def say_def)
  have x: "cl_exchange demo_lib c v = Some \<lparr>tk_access = ''a.b.c'', tk_refresh = ''r'', tk_id = '''', tk_type = '''', tk_expiry = 0\<rparr>" for c v
    by (simp add: demo_lib_def)
  have z: "m_zone new_machine = 7200" by (simp add: new_machine_def)
  show ?thesis
    using browser_login_sound [OF m refl refl]
    apply (elim exE conjE)
    subgoal premises prems for q t w
    proof -
      have t: "t = \<lparr>tk_access = ''a.b.c'', tk_refresh = ''r'', tk_id = '''', tk_type = '''', tk_expiry = 0\<rparr>"
        using prems(5) by (simp add: x)
      show ?thesis using m prems(7,8) by (intro exI conjI) (simp_all add: t z omit_empty_def)
    qed
    done
qed

theorem device_login_claims_success_witness:
  "\<exists>m'. device_poll ''i'' ''s'' ''c'' ''d'' (63900000006 * second) (5 * second)
     (new_machine\<lparr>m_writable := False, m_net := \<lambda>_. (0, Http 200 ''oops'')\<rparr>) = Some (0, m') \<and> m_file m' = None"
proof -
  let ?m = "new_machine\<lparr>m_writable := False, m_net := \<lambda>_. (0, Http 200 ''oops'')\<rparr>"
  obtain m1 where s: "send (poll_request ''i'' ''c'' ''d'') (sleep (5 * second) ?m) = (Http 200 ''oops'', m1)"
    by (simp add: send_def sleep_def new_machine_def)
  have "m_now ?m < 63900000006 * second" by (simp add: new_machine_def)
  from device_login_claims_success[OF this s, of "''s''"] show ?thesis by (auto simp: new_machine_def)
qed

definition client_role_token :: string where
  "client_role_token = ''eyJhbGciOiJSUzI1NiIsImtpZCI6ImsxIn0.eyJzdWIiOiJ1IiwicmVzb3VyY2VfYWNjZXNzIjp7ImFwcCI6eyJyb2xlcyI6WyJ2dWhpdmUtZGVwbG95ZXIiXX19fQ.c2ln''"

definition role_machine :: machine where
  "role_machine = new_machine\<lparr>m_file := Some (quoted (''{`access_token`:`'' @ client_role_token @ ''`}''))\<rparr>"

lemma role_machine_loads: "map_option cr_access (loaded role_machine) = Some client_role_token"
  by code_simp

lemma client_role_parts:
  "map_option decode_payload (raw_url_decode ''eyJzdWIiOiJ1IiwicmVzb3VyY2VfYWNjZXNzIjp7ImFwcCI6eyJyb2xlcyI6WyJ2dWhpdmUtZGVwbG95ZXIiXX19fQ'') =
     Some (Some (no_payload\<lparr>jp_sub := ''u'', jp_resources := [(''app'', [''vuhive-deployer''])]\<rparr>))"
  by code_simp

theorem client_guard_exact_witness:
  "\<exists>cl. fst (verify_token (\<lambda>_ _ s. s = ''sig'') (\<lambda>_. True) (demo_vcfg\<lparr>vc_client := ''app''\<rparr>) 0 None client_role_token (demo_cache 0)) = Inr cl \<and>
     has_role cl role_deployer \<and> guard_refuses role_deployer role_machine"
proof -
  let ?cfg = "demo_vcfg\<lparr>vc_client := ''app''\<rparr>" and ?p = "no_payload\<lparr>jp_sub := ''u'', jp_resources := [(''app'', [''vuhive-deployer''])]\<rparr>"
  have sp: "split_on (CHR ''.'') (trim_space client_role_token) = [''eyJhbGciOiJSUzI1NiIsImtpZCI6ImsxIn0'',
      ''eyJzdWIiOiJ1IiwicmVzb3VyY2VfYWNjZXNzIjp7ImFwcCI6eyJyb2xlcyI6WyJ2dWhpdmUtZGVwbG95ZXIiXX19fQ'', ''c2ln'']"
    by (simp add: client_role_token_def trim_space_graphic graphic_def)
  have tr: "trim_space client_role_token = client_role_token" by (simp add: client_role_token_def trim_space_graphic graphic_def)
  obtain hb hdr where h: "raw_url_decode ''eyJhbGciOiJSUzI1NiIsImtpZCI6ImsxIn0'' = Some hb" "decode_header hb = Some hdr"
    "hdr = \<lparr>jh_alg = ''RS256'', jh_typ = '''', jh_kid = ''k1''\<rparr>"
    using demo_header(1) by auto
  have k: "jh_alg hdr = ''RS256''" "get_key (\<lambda>_. True) ?cfg 0 None (jh_kid hdr) (demo_cache 0) = (Some \<lparr>rk_n = 24930, rk_e = 99\<rparr>, demo_cache 0)"
    using h(3) by (simp_all add: demo_cache_def get_key_def)
  have "check_signed (\<lambda>_ _ s. s = ''sig'') ?cfg 0 \<lparr>rk_n = 24930, rk_e = 99\<rparr> ''eyJhbGciOiJSUzI1NiIsImtpZCI6ImsxIn0''
      ''eyJzdWIiOiJ1IiwicmVzb3VyY2VfYWNjZXNzIjp7ImFwcCI6eyJyb2xlcyI6WyJ2dWhpdmUtZGVwbG95ZXIiXX19fQ'' ''c2ln'' = Inr (token_claims ?cfg ?p)"
    using client_role_parts demo_payload(2) by (auto simp: check_signed_def in_time_def no_payload_def)
  then have v: "verify_token (\<lambda>_ _ s. s = ''sig'') (\<lambda>_. True) ?cfg 0 None client_role_token (demo_cache 0) = (Inr (token_claims ?cfg ?p), demo_cache 0)"
    using verify_token_cases[OF sp h(1,2) k(1)] k(2) by simp
  obtain c where c: "loaded role_machine = Some c" "cr_access c = trim_space client_role_token" using role_machine_loads tr by auto
  have r: "trim_space role_deployer \<noteq> ''''" by (simp add: role_names trim_space_graphic graphic_def)
  obtain bytes where b: "raw_url_decode ''eyJzdWIiOiJ1IiwicmVzb3VyY2VfYWNjZXNzIjp7ImFwcCI6eyJyb2xlcyI6WyJ2dWhpdmUtZGVwbG95ZXIiXX19fQ'' = Some bytes"
    "decode_payload bytes = Some ?p" using client_role_parts by auto
  have g: "guard_refuses role_deployer role_machine \<longleftrightarrow> \<not> has_any_role (token_claims (?cfg\<lparr>vc_client := ''''\<rparr>) ?p) [role_deployer, role_admin]"
    using client_guard_exact[OF v sp b c r] by blast
  have "has_role (token_claims ?cfg ?p) role_deployer" by code_simp
  moreover have "\<not> has_any_role (token_claims (?cfg\<lparr>vc_client := ''''\<rparr>) ?p) [role_deployer, role_admin]" by code_simp
  ultimately show ?thesis using v g by simp
qed

end
