(* ===== verification/Event_Hub.thy ===== *)
theory Event_Hub
  imports Bff_Base "HOL-Library.Multiset"
begin

text \<open>
  The hub that distributes events to the connected browsers (\<^verbatim>\<open>internal/bff/adapters/outbound/eventhub/hub.go\<close>).  Its
  critical sections and its uses of channels are the steps of a relation, so that a broadcast, the departure of clients
  and the end of the hub may interleave as their goroutines do.  The poller is the only one that broadcasts, so one
  broadcast is under way at a time.  The order of a map is any order.
\<close>

section \<open>Events and channels\<close>

record sse =
  ev_id :: string
  ev_type :: string
  ev_data :: string
  ev_time :: time

record chan =
  ch_buf :: "sse list"
  ch_closed :: bool

definition open_chan :: chan where
  "open_chan = \<lparr>ch_buf = [], ch_closed = False\<rparr>"

text \<open>
  What is under way: \<open>hb_sending\<close> is a broadcast with the clients it still has to serve, \<open>hb_leaving\<close> the clients that are
  unsubscribing, with whether they have left the map, \<open>hb_closing\<close> those whose channels \<open>Close\<close> still has to close.
  \<open>hb_once\<close> holds the clients whose \<open>sync.Once\<close> is used up.
\<close>

record hub =
  hb_subs :: "nat list"
  hb_next :: nat
  hb_size :: nat
  hb_closed :: bool
  hb_chan :: "nat \<Rightarrow> chan"
  hb_once :: "nat set"
  hb_sending :: "(sse \<times> nat list) option"
  hb_leaving :: "(nat \<times> bool) list"
  hb_closing :: "nat list"
  hb_panic :: bool

definition new_hub :: "int \<Rightarrow> hub" where
  "new_hub cap =
     \<lparr>hb_subs = [], hb_next = 0, hb_size = nat (if cap \<le> 0 then 32 else cap), hb_closed = False, hb_chan = (\<lambda>_. open_chan),
      hb_once = {}, hb_sending = None, hb_leaving = [], hb_closing = [], hb_panic = False\<rparr>"

section \<open>The critical sections\<close>

definition subscribe :: "hub \<Rightarrow> (nat \<times> hub) option" where
  "subscribe h =
     (if hb_closed h then None
      else let i = Suc (hb_next h)
           in Some (i, h\<lparr>hb_next := i, hb_subs := hb_subs h @ [i], hb_chan := (hb_chan h)(i := open_chan)\<rparr>))"

text \<open>A send that does not block: it panics on a closed channel and drops the event on a full one.\<close>

definition try_send :: "sse \<Rightarrow> nat \<Rightarrow> hub \<Rightarrow> hub" where
  "try_send ev i h =
     (let c = hb_chan h i
      in if ch_closed c then h\<lparr>hb_panic := True\<rparr>
         else if length (ch_buf c) < hb_size h then h\<lparr>hb_chan := (hb_chan h)(i := c\<lparr>ch_buf := ch_buf c @ [ev]\<rparr>)\<rparr>
         else h)"

text \<open>\<open>close\<close> of a channel, which panics on a closed one.\<close>

definition close_chan :: "nat \<Rightarrow> hub \<Rightarrow> hub" where
  "close_chan i h =
     (if ch_closed (hb_chan h i) then h\<lparr>hb_panic := True\<rparr>
      else h\<lparr>hb_chan := (hb_chan h)(i := (hb_chan h i)\<lparr>ch_closed := True\<rparr>)\<rparr>)"

definition begin_broadcast :: "sse \<Rightarrow> nat list \<Rightarrow> hub \<Rightarrow> hub" where
  "begin_broadcast ev ids h = h\<lparr>hb_sending := Some (ev, ids)\<rparr>"

definition leave_map :: "nat \<Rightarrow> hub \<Rightarrow> hub" where
  "leave_map i h = h\<lparr>hb_subs := filter (\<lambda>j. j \<noteq> i) (hb_subs h)\<rparr>"

definition begin_close :: "nat list \<Rightarrow> hub \<Rightarrow> hub" where
  "begin_close ids h = h\<lparr>hb_closed := True, hb_subs := [], hb_closing := ids\<rparr>"

section \<open>Steps\<close>

inductive hub_step :: "hub \<Rightarrow> hub \<Rightarrow> bool" where
  Subscribe: "subscribe h = Some (i, h') \<Longrightarrow> hub_step h h'"
| Broadcast: "\<not> hb_closed h \<Longrightarrow> hb_sending h = None \<Longrightarrow> mset ids = mset (hb_subs h) \<Longrightarrow> hub_step h (begin_broadcast ev ids h)"
| Send: "hb_sending h = Some (ev, i # ids) \<Longrightarrow> hub_step h ((try_send ev i h)\<lparr>hb_sending := Some (ev, ids)\<rparr>)"
| Sent: "hb_sending h = Some (ev, []) \<Longrightarrow> hub_step h (h\<lparr>hb_sending := None\<rparr>)"
| Unsubscribe: "0 < i \<Longrightarrow> i \<le> hb_next h \<Longrightarrow> i \<notin> hb_once h \<Longrightarrow>
    hub_step h (h\<lparr>hb_once := insert i (hb_once h), hb_leaving := (i, False) # hb_leaving h\<rparr>)"
| Leave: "hb_leaving h = as @ (i, False) # bs \<Longrightarrow> hub_step h ((leave_map i h)\<lparr>hb_leaving := as @ (i, True) # bs\<rparr>)"
| Left: "hb_leaving h = as @ (i, True) # bs \<Longrightarrow> hub_step h ((close_chan i h)\<lparr>hb_leaving := as @ bs\<rparr>)"
| Close: "\<not> hb_closed h \<Longrightarrow> mset ids = mset (hb_subs h) \<Longrightarrow> hub_step h (begin_close ids h)"
| Close_one: "hb_closing h = i # ids \<Longrightarrow> i \<notin> hb_once h \<Longrightarrow>
    hub_step h ((close_chan i h)\<lparr>hb_once := insert i (hb_once h), hb_closing := ids\<rparr>)"
| Close_skip: "hb_closing h = i # ids \<Longrightarrow> i \<in> hb_once h \<Longrightarrow> hub_step h (h\<lparr>hb_closing := ids\<rparr>)"
| Receive: "ch_buf (hb_chan h i) = ev # evs \<Longrightarrow> hub_step h (h\<lparr>hb_chan := (hb_chan h)(i := (hb_chan h i)\<lparr>ch_buf := evs\<rparr>)\<rparr>)"

inductive hub_reachable :: "int \<Rightarrow> hub \<Rightarrow> bool" for cap where
  Start: "hub_reachable cap (new_hub cap)"
| Step: "hub_reachable cap h \<Longrightarrow> \<not> hb_panic h \<Longrightarrow> hub_step h h' \<Longrightarrow> hub_reachable cap h'"

section \<open>Calls without interference\<close>

definition broadcast :: "sse \<Rightarrow> hub \<Rightarrow> hub option" where
  "broadcast ev h = (if hb_closed h then None else Some (foldl (\<lambda>x i. try_send ev i x) h (hb_subs h)))"

definition client_count :: "hub \<Rightarrow> nat" where
  "client_count h = length (hb_subs h)"

definition unsubscribe :: "nat \<Rightarrow> hub \<Rightarrow> hub" where
  "unsubscribe i h = (if i \<in> hb_once h then h else close_chan i (leave_map i (h\<lparr>hb_once := insert i (hb_once h)\<rparr>)))"

definition close_hub :: "hub \<Rightarrow> hub" where
  "close_hub h =
     (if hb_closed h then h
      else foldl (\<lambda>x i. if i \<in> hb_once x then x else close_chan i (x\<lparr>hb_once := insert i (hb_once x)\<rparr>))
             (h\<lparr>hb_closed := True, hb_subs := []\<rparr>) (hb_subs h))"

section \<open>The invariant\<close>

definition hub_wf :: "hub \<Rightarrow> bool" where
  "hub_wf h \<longleftrightarrow>
     distinct (hb_subs h) \<and> (\<forall>i \<in> set (hb_subs h). 0 < i \<and> i \<le> hb_next h \<and> \<not> ch_closed (hb_chan h i)) \<and>
     (\<forall>i. ch_closed (hb_chan h i) \<longrightarrow> i \<in> hb_once h) \<and>
     (\<forall>i \<in> hb_once h. i \<le> hb_next h) \<and>
     distinct (map fst (hb_leaving h)) \<and>
     (\<forall>(i, gone) \<in> set (hb_leaving h). i \<in> hb_once h \<and> \<not> ch_closed (hb_chan h i) \<and> (gone \<longrightarrow> i \<notin> set (hb_subs h))) \<and>
     (\<forall>i \<in> set (hb_subs h). i \<in> hb_once h \<longrightarrow> (i, False) \<in> set (hb_leaving h)) \<and>
     (\<forall>i. length (ch_buf (hb_chan h i)) \<le> hb_size h) \<and> 0 < hb_size h \<and>
     (\<forall>i \<in> set (hb_closing h). i \<le> hb_next h) \<and> (hb_closed h \<longrightarrow> hb_subs h = []) \<and> (hb_closing h \<noteq> [] \<longrightarrow> hb_closed h)"

lemma new_hub_wf: "hub_wf (new_hub cap)"
  by (simp add: hub_wf_def new_hub_def open_chan_def)

lemma close_chan_open: "\<not> ch_closed (hb_chan h i) \<Longrightarrow>
    close_chan i h = h\<lparr>hb_chan := (hb_chan h)(i := (hb_chan h i)\<lparr>ch_closed := True\<rparr>)\<rparr>"
  by (simp add: close_chan_def)

lemma try_send_same [simp]:
  "hb_subs (try_send ev i h) = hb_subs h" "hb_next (try_send ev i h) = hb_next h" "hb_size (try_send ev i h) = hb_size h"
  "hb_once (try_send ev i h) = hb_once h" "hb_leaving (try_send ev i h) = hb_leaving h" "hb_closing (try_send ev i h) = hb_closing h"
  "hb_closed (try_send ev i h) = hb_closed h" "ch_closed (hb_chan (try_send ev i h) j) = ch_closed (hb_chan h j)"
  by (simp_all add: try_send_def Let_def)

lemma try_send_bound: "\<forall>j. length (ch_buf (hb_chan h j)) \<le> hb_size h \<Longrightarrow> length (ch_buf (hb_chan (try_send ev i h) j)) \<le> hb_size h"
  by (simp add: try_send_def Let_def)

text \<open>Every step keeps the invariant, and only a send can panic.\<close>

lemma leaving_once:
  assumes "hub_wf h" and "hb_leaving h = as @ (i, gone) # bs"
  shows "i \<in> hb_once h" "\<not> ch_closed (hb_chan h i)" "gone \<longrightarrow> i \<notin> set (hb_subs h)" "i \<notin> fst ` set as" "i \<notin> fst ` set bs"
    "distinct (map fst (as @ bs))"
  using assms by (auto simp: hub_wf_def)

lemma hub_wfD:
  assumes "hub_wf h"
  shows "distinct (hb_subs h)" and "\<And>j. j \<in> set (hb_subs h) \<Longrightarrow> 0 < j \<and> j \<le> hb_next h \<and> \<not> ch_closed (hb_chan h j)"
    and "\<And>j. ch_closed (hb_chan h j) \<Longrightarrow> j \<in> hb_once h" and "\<And>j. j \<in> hb_once h \<Longrightarrow> j \<le> hb_next h"
    and "\<And>j g. (j, g) \<in> set (hb_leaving h) \<Longrightarrow> j \<in> hb_once h \<and> \<not> ch_closed (hb_chan h j) \<and> (g \<longrightarrow> j \<notin> set (hb_subs h))"
    and "\<And>j. j \<in> set (hb_subs h) \<Longrightarrow> j \<in> hb_once h \<Longrightarrow> (j, False) \<in> set (hb_leaving h)"
    and "\<And>j. length (ch_buf (hb_chan h j)) \<le> hb_size h" and "0 < hb_size h" and "\<And>j. j \<in> set (hb_closing h) \<Longrightarrow> j \<le> hb_next h"
    and "hb_closed h \<Longrightarrow> hb_subs h = []" and "hb_closing h \<noteq> [] \<Longrightarrow> hb_closed h" and "distinct (map fst (hb_leaving h))"
  using assms unfolding hub_wf_def by blast+

lemma hub_wf_step:
  assumes "hub_step h h'" and "hub_wf h"
  shows "hub_wf h'"
  using assms
proof (cases rule: hub_step.cases)
  case (Subscribe i)
  then show ?thesis using assms(2) by (fastforce simp: hub_wf_def subscribe_def open_chan_def Let_def split: if_splits)
next
  case (Send ev i ids)
  then show ?thesis using assms(2) by (auto simp: hub_wf_def try_send_bound)
next
  case (Unsubscribe i)
  then show ?thesis using assms(2) by (fastforce simp: hub_wf_def)
next
  case (Leave as i bs)
  note l = leaving_once[OF assms(2) Leave(2)]
  show ?thesis using assms(2) l unfolding Leave(1) hub_wf_def leave_map_def by (auto simp: Leave(2))
next
  case (Left as i bs)
  note l = leaving_once[OF assms(2) Left(2)]
  have m: "(j, g) \<in> set as \<Longrightarrow> j \<noteq> i" "(j, g) \<in> set bs \<Longrightarrow> j \<noteq> i" for j g using l(4,5) by force+
  note w = hub_wfD[OF assms(2)]
  have i: "i \<notin> set (hb_subs h)" using l(3) by simp
  have old: "(j, g) \<in> set (as @ bs) \<Longrightarrow> (j, g) \<in> set (hb_leaving h) \<and> j \<noteq> i" for j g using m by (auto simp: Left(2))
  have stay: "(j, False) \<in> set (hb_leaving h) \<Longrightarrow> (j, False) \<in> set (as @ bs)" for j by (auto simp: Left(2))
  show ?thesis unfolding Left(1) hub_wf_def close_chan_open[OF l(2)]
  proof (intro conjI, goal_cases)
    case 2 show ?case using i by (auto dest: w(2))
  next
    case 3 show ?case using w(3) l(1) by simp
  next
    case 6
    have n: "(j, g) \<in> set as \<Longrightarrow> j \<in> hb_once h \<and> \<not> ch_closed (hb_chan h j) \<and> (g \<longrightarrow> j \<notin> set (hb_subs h)) \<and> j \<noteq> i"
      "(j, g) \<in> set bs \<Longrightarrow> j \<in> hb_once h \<and> \<not> ch_closed (hb_chan h j) \<and> (g \<longrightarrow> j \<notin> set (hb_subs h)) \<and> j \<noteq> i" for j g
      using old w(5) by auto
    show ?case by (intro ballI) (auto split: if_splits dest: n)
  next
    case 7 show ?case using w(6) stay by simp
  qed (use w l(6) in simp_all)
next
  case (Close ids)
  then show ?thesis using assms(2) by (auto simp: hub_wf_def begin_close_def dest: mset_eq_setD)
next
  case (Close_one i ids)
  then have o: "\<not> ch_closed (hb_chan h i)" using assms(2) by (auto simp: hub_wf_def)
  note w = hub_wfD[OF assms(2)]
  have e: "hb_subs h = []" "hb_closed h" "i \<le> hb_next h" "j \<in> set ids \<Longrightarrow> j \<le> hb_next h" for j
    using w(9-11) by (auto simp: Close_one(2))
  have n: "(j, g) \<in> set (hb_leaving h) \<Longrightarrow> j \<in> hb_once h \<and> \<not> ch_closed (hb_chan h j) \<and> j \<noteq> i" for j g
    using w(5) Close_one(3) by blast
  show ?thesis unfolding Close_one(1) hub_wf_def close_chan_open[OF o]
  proof (intro conjI, goal_cases)
    case 3 show ?case using w(3) by simp
  next
    case 4 show ?case using w(4) e(3) by simp
  next
    case 6 show ?case by (intro ballI) (auto split: if_splits dest: n simp: e(1))
  qed (simp_all add: w(7,8,12) e)
next
  case (Receive i ev evs)
  note w = hub_wfD[OF assms(2)]
  have l: "length evs \<le> hb_size h" using w(7)[of i] Receive(2) by simp
  have c: "ch_closed (((hb_chan h)(i := (hb_chan h i)\<lparr>ch_buf := evs\<rparr>)) j) = ch_closed (hb_chan h j)" for j by simp
  show ?thesis unfolding Receive(1) hub_wf_def
  proof (intro conjI, goal_cases)
    case 8 show ?case using w(7) l by simp
  qed (use assms(2) in \<open>simp_all add: hub_wf_def c del: fun_upd_apply\<close>)
qed (auto simp: hub_wf_def begin_broadcast_def)

lemma hub_reachable_wf: "hub_reachable cap h \<Longrightarrow> hub_wf h"
  by (induction rule: hub_reachable.induct) (auto simp: new_hub_wf intro: hub_wf_step)

lemma hub_panics_by_send:
  assumes "hub_step h h'" and "hub_wf h" and "\<not> hb_panic h" and "hb_panic h'"
  shows "\<exists>ev i ids. hb_sending h = Some (ev, i # ids) \<and> ch_closed (hb_chan h i)"
  using assms
proof (cases rule: hub_step.cases)
  case (Subscribe i)
  then show ?thesis using assms(3,4) by (auto simp: subscribe_def Let_def split: if_splits)
next
  case (Send ev i ids)
  then show ?thesis using assms(3,4) by (auto simp: try_send_def Let_def split: if_splits)
next
  case (Left as i bs)
  then show ?thesis using assms(3,4) leaving_once(2)[OF assms(2) Left(2)] by (simp add: close_chan_open)
next
  case (Close_one i ids)
  have "\<not> ch_closed (hb_chan h i)" using assms(2) Close_one(3) by (auto simp: hub_wf_def)
  then show ?thesis using assms(3,4) unfolding Close_one(1) by (simp add: close_chan_open)
qed (use assms(3,4) in \<open>simp_all add: leave_map_def begin_close_def begin_broadcast_def\<close>)

section \<open>A broadcast alone\<close>

definition deliver :: "sse \<Rightarrow> nat \<Rightarrow> chan \<Rightarrow> chan" where
  "deliver ev cap c = (if length (ch_buf c) < cap then c\<lparr>ch_buf := ch_buf c @ [ev]\<rparr> else c)"

lemma sends_deliver:
  assumes "distinct ids" and "\<forall>i \<in> set ids. \<not> ch_closed (hb_chan h i)"
  shows "foldl (\<lambda>x i. try_send ev i x) h ids =
    h\<lparr>hb_chan := \<lambda>i. if i \<in> set ids then deliver ev (hb_size h) (hb_chan h i) else hb_chan h i\<rparr>"
  using assms
proof (induction ids arbitrary: h)
  case (Cons i ids)
  have t: "try_send ev i h = h\<lparr>hb_chan := (hb_chan h)(i := deliver ev (hb_size h) (hb_chan h i))\<rparr>"
    using Cons.prems(2) by (simp add: try_send_def deliver_def Let_def)
  have "\<forall>j \<in> set ids. \<not> ch_closed (hb_chan (try_send ev i h) j)" using Cons.prems(2) by simp
  then have "foldl (\<lambda>x i. try_send ev i x) h (i # ids) = (try_send ev i h)\<lparr>hb_chan := \<lambda>j.
      if j \<in> set ids then deliver ev (hb_size (try_send ev i h)) (hb_chan (try_send ev i h) j) else hb_chan (try_send ev i h) j\<rparr>"
    using Cons.IH Cons.prems(1) by simp
  also have "\<dots> = h\<lparr>hb_chan := \<lambda>j. if j \<in> set (i # ids) then deliver ev (hb_size h) (hb_chan h j) else hb_chan h j\<rparr>"
    using Cons.prems(1) unfolding t by (cases h) (auto simp: fun_eq_iff)
  finally show ?case .
qed simp

section \<open>Properties\<close>

text \<open>
  C28: The hub is sound up to one race.  In every reachable state the clients of the map have open channels, no buffer is
  longer than its bound, a closed hub has no clients, and the only step that can panic is the send of a broadcast to a
  client whose channel was closed after the broadcast took its snapshot: no channel is ever closed twice.
\<close>

theorem hub_sound:
  assumes "hub_reachable cap h"
  shows "distinct (hb_subs h) \<and> (\<forall>i \<in> set (hb_subs h). \<not> ch_closed (hb_chan h i)) \<and>
    (\<forall>i. length (ch_buf (hb_chan h i)) \<le> hb_size h) \<and> (hb_closed h \<longrightarrow> hb_subs h = []) \<and>
    (\<forall>h'. hub_step h h' \<longrightarrow> \<not> hb_panic h \<longrightarrow> hb_panic h' \<longrightarrow>
      (\<exists>ev i ids. hb_sending h = Some (ev, i # ids) \<and> ch_closed (hb_chan h i) \<and> i \<notin> set (hb_subs h)))"
proof -
  have w: "hub_wf h" by (rule hub_reachable_wf[OF assms])
  then have b: "distinct (hb_subs h)" "\<forall>i \<in> set (hb_subs h). \<not> ch_closed (hb_chan h i)" "\<forall>i. length (ch_buf (hb_chan h i)) \<le> hb_size h"
    "hb_closed h \<longrightarrow> hb_subs h = []" by (simp_all add: hub_wf_def)
  have "\<exists>ev i ids. hb_sending h = Some (ev, i # ids) \<and> ch_closed (hb_chan h i) \<and> i \<notin> set (hb_subs h)"
    if "hub_step h h'" "\<not> hb_panic h" "hb_panic h'" for h'
    using hub_panics_by_send[OF that(1) w that(2,3)] b(2) by blast
  then show ?thesis using b by blast
qed

text \<open>
  A client that leaves during a broadcast can bring the program down.  The hub reaches, from its start, a panic: a
  client unsubscribes and its channel is closed between the snapshot of a broadcast and the send to it.
\<close>

theorem hub_broadcast_can_panic: "\<exists>h. hub_reachable 1 h \<and> hb_panic h"
proof -
  define ev :: sse where "ev = \<lparr>ev_id = '''', ev_type = '''', ev_data = '''', ev_time = 0\<rparr>"
  define h1 where "h1 = (new_hub 1)\<lparr>hb_next := 1, hb_subs := [1], hb_chan := (\<lambda>_. open_chan)(1 := open_chan)\<rparr>"
  define h2 where "h2 = begin_broadcast ev [1] h1"
  define h3 where "h3 = h2\<lparr>hb_once := insert 1 (hb_once h2), hb_leaving := [(1, False)]\<rparr>"
  define h4 where "h4 = (leave_map 1 h3)\<lparr>hb_leaving := [(1, True)]\<rparr>"
  define h5 where "h5 = (close_chan 1 h4)\<lparr>hb_leaving := []\<rparr>"
  define h6 where "h6 = (try_send ev 1 h5)\<lparr>hb_sending := Some (ev, [])\<rparr>"
  note defs = h1_def h2_def h3_def h4_def h5_def h6_def new_hub_def open_chan_def begin_broadcast_def leave_map_def
    close_chan_def try_send_def
  have p: "\<not> hb_panic (new_hub 1)" "\<not> hb_panic h1" "\<not> hb_panic h2" "\<not> hb_panic h3" "\<not> hb_panic h4" "\<not> hb_panic h5" "hb_panic h6"
    by (simp_all add: defs)
  have "subscribe (new_hub 1) = Some (1, h1)" by (simp add: subscribe_def defs)
  then have 1: "hub_reachable 1 h1" using Start Step[OF _ p(1)] Subscribe by blast
  have "hub_step h1 h2" unfolding h2_def by (rule Broadcast) (simp_all add: defs)
  then have 2: "hub_reachable 1 h2" by (rule Step[OF 1 p(2)])
  have "hub_step h2 h3" using Unsubscribe[of 1 h2] by (simp add: defs)
  then have 3: "hub_reachable 1 h3" by (rule Step[OF 2 p(3)])
  have "hub_step h3 h4" using Leave[of h3 "[]" 1 "[]"] by (simp add: defs)
  then have 4: "hub_reachable 1 h4" by (rule Step[OF 3 p(4)])
  have "hub_step h4 h5" using Left[of h4 "[]" 1 "[]"] by (simp add: defs)
  then have 5: "hub_reachable 1 h5" by (rule Step[OF 4 p(5)])
  have "hub_step h5 h6" using Send[of h5 ev 1 "[]"] by (simp add: defs)
  then show ?thesis using Step[OF 5 p(6)] p(7) by blast
qed

lemma hub_sound_start: "hub_reachable 0 (new_hub 0)"
  by (rule Start)

theorem hub_sound_witness: "distinct (hb_subs (new_hub 0)) \<and> (\<forall>i. length (ch_buf (hb_chan (new_hub 0) i)) \<le> 32)"
  using hub_sound[OF hub_sound_start] by (simp add: new_hub_def)

end
