(* ===== verification/Go_Url.thy ===== *)
theory Go_Url
  imports Json_Encode Storage_Keys "HOL-Library.List_Lexorder" "HOL-Library.Char_ord"
begin

text \<open>
  The parts of \<open>net/url\<close> that the clients use: escaping of a path segment and of a query component, and the encoding of a
  set of parameters, whose names come out sorted.
\<close>

definition unreserved :: "char \<Rightarrow> bool" where
  "unreserved c \<longleftrightarrow>
     (let n = code c
      in (97 \<le> n \<and> n \<le> 122) \<or> (65 \<le> n \<and> n \<le> 90) \<or> (48 \<le> n \<and> n \<le> 57) \<or> n = 45 \<or> n = 95 \<or> n = 46 \<or> n = 126)"

definition upper_hex :: "int \<Rightarrow> char" where
  "upper_hex d = byte (if d < 10 then 48 + d else 55 + d)"

definition percent :: "char \<Rightarrow> string" where
  "percent c = [CHR ''%'', upper_hex (code c div 16), upper_hex (code c mod 16)]"

definition query_char :: "char \<Rightarrow> string" where
  "query_char c = (if unreserved c then [c] else if c = CHR '' '' then ''+'' else percent c)"

definition query_escape :: "string \<Rightarrow> string" where
  "query_escape s = concat (map query_char s)"

definition path_escape :: "string \<Rightarrow> string" where
  "path_escape s = concat (map (\<lambda>c. if unreserved c \<or> List.member ''$&+=:@'' c then [c] else percent c) s)"

definition encode_values :: "(string \<times> string) list \<Rightarrow> string" where
  "encode_values ps = join ''&'' (map (\<lambda>(k, v). query_escape k @ ''='' @ query_escape v) (sort_key fst ps))"

section \<open>Reading back\<close>

text \<open>The pieces of a query, as any reader splits and unescapes them.\<close>

definition hex_upper_value :: "char \<Rightarrow> int" where
  "hex_upper_value c = (if code c < 58 then code c - 48 else code c - 55)"

fun unescape :: "string \<Rightarrow> string" where
  "unescape [] = []"
| "unescape (c # s) =
     (if c = CHR ''%'' then (case s of a # b # t \<Rightarrow> byte (16 * hex_upper_value a + hex_upper_value b) # unescape t | _ \<Rightarrow> [])
      else (if c = CHR ''+'' then CHR '' '' else c) # unescape s)"

definition query_pair :: "string \<Rightarrow> string \<times> string" where
  "query_pair s = (unescape (takeWhile (\<lambda>c. c \<noteq> CHR ''='') s), unescape (drop 1 (dropWhile (\<lambda>c. c \<noteq> CHR ''='') s)))"

definition query_values :: "string \<Rightarrow> (string \<times> string) list" where
  "query_values s = map query_pair (split_on (CHR ''&'') s)"

lemma upper_hex_value:
  assumes "0 \<le> d" and "d < 16"
  shows "hex_upper_value (upper_hex d) = d" "upper_hex d \<noteq> CHR ''&''" "upper_hex d \<noteq> CHR ''=''"
proof -
  have "d \<in> set [0..15]" using assms by simp
  moreover have "\<forall>d \<in> set [0..15]. hex_upper_value (upper_hex d) = d \<and> upper_hex d \<noteq> CHR ''&'' \<and> upper_hex d \<noteq> CHR ''=''"
    by code_simp
  ultimately show "hex_upper_value (upper_hex d) = d" "upper_hex d \<noteq> CHR ''&''" "upper_hex d \<noteq> CHR ''=''" by blast+
qed

lemma percent_value: "percent c = CHR ''%'' # [a, b] \<Longrightarrow> byte (16 * hex_upper_value a + hex_upper_value b) = c"
proof -
  assume "percent c = CHR ''%'' # [a, b]"
  then have "a = upper_hex (code c div 16)" "b = upper_hex (code c mod 16)" by (simp_all add: percent_def)
  moreover have "0 \<le> code c div 16" "code c div 16 < 16" "0 \<le> code c mod 16" "code c mod 16 < 16"
    using code_range[of c] by auto
  ultimately show ?thesis by (simp add: upper_hex_value)
qed

lemma percent_safe: "CHR ''&'' \<notin> set (percent c)" "CHR ''='' \<notin> set (percent c)"
proof -
  have "0 \<le> code c div 16" "code c div 16 < 16" "0 \<le> code c mod 16" "code c mod 16 < 16"
    using code_range[of c] by auto
  then have "upper_hex (code c div 16) \<noteq> CHR ''&''" "upper_hex (code c mod 16) \<noteq> CHR ''&''"
    "upper_hex (code c div 16) \<noteq> CHR ''=''" "upper_hex (code c mod 16) \<noteq> CHR ''=''"
    by (simp_all add: upper_hex_value)
  then show "CHR ''&'' \<notin> set (percent c)" "CHR ''='' \<notin> set (percent c)" by (simp_all add: percent_def eq_commute)
qed

lemma unreserved_other: "\<not> unreserved (CHR ''%'')" "\<not> unreserved (CHR ''+'')" "\<not> unreserved (CHR ''&'')" "\<not> unreserved (CHR ''='')"
  by code_simp+

lemma unescape_char: "unescape (query_char c @ s) = c # unescape s"
proof (cases "unreserved c")
  case True
  then have "c \<noteq> CHR ''%''" "c \<noteq> CHR ''+''" using unreserved_other by auto
  then show ?thesis using True by (simp add: query_char_def)
next
  case False
  show ?thesis
  proof (cases "c = CHR '' ''")
    case True
    then show ?thesis using False by (simp add: query_char_def)
  next
    case sp: False
    show ?thesis using False sp percent_value[of c "upper_hex (code c div 16)" "upper_hex (code c mod 16)"]
      by (simp add: query_char_def percent_def)
  qed
qed

lemma query_escape_roundtrip: "unescape (query_escape s) = s"
  by (induction s) (simp_all add: query_escape_def unescape_char)

lemma query_char_safe: "CHR ''&'' \<notin> set (query_char c)" "CHR ''='' \<notin> set (query_char c)"
  using percent_safe[of c] unreserved_other by (auto simp: query_char_def)

lemma query_escape_safe: "CHR ''&'' \<notin> set (query_escape s)" "CHR ''='' \<notin> set (query_escape s)"
  using query_char_safe by (auto simp: query_escape_def)

lemma query_pair_encoded: "query_pair (query_escape k @ ''='' @ query_escape v) = (k, v)"
proof -
  have n: "\<forall>c \<in> set (query_escape k). c \<noteq> CHR ''=''" using query_escape_safe(2)[of k] by auto
  have "takeWhile (\<lambda>c. c \<noteq> CHR ''='') (query_escape k @ ''='' @ query_escape v) = query_escape k"
    using n by (subst takeWhile_append2) auto
  moreover have "dropWhile (\<lambda>c. c \<noteq> CHR ''='') (query_escape k @ ''='' @ query_escape v) = ''='' @ query_escape v"
    using n by (subst dropWhile_append2) auto
  ultimately show ?thesis by (simp add: query_pair_def query_escape_roundtrip)
qed

lemma split_joined: "ps \<noteq> [] \<Longrightarrow> \<forall>p \<in> set ps. c \<notin> set p \<Longrightarrow> split_on c (join [c] ps) = ps"
proof (induction ps rule: induct_list012)
  case (3 x y zs)
  then have "split_on c (x @ c # join [c] (y # zs)) = x # split_on c (join [c] (y # zs))"
    by (simp add: split_on_append_sep)
  then show ?case using 3 by simp
qed (simp_all add: split_on_plain)

text \<open>The parameters that a server reads from an encoded form are those that were put in, by name.\<close>

lemma encode_values_roundtrip: "ps \<noteq> [] \<Longrightarrow> query_values (encode_values ps) = sort_key fst ps"
proof -
  assume "ps \<noteq> []"
  then have "sort_key fst ps \<noteq> []" by (metis length_0_conv length_sort)
  then have "split_on (CHR ''&'') (encode_values ps) = map (\<lambda>(k, v). query_escape k @ ''='' @ query_escape v) (sort_key fst ps)"
    unfolding encode_values_def by (intro split_joined) (auto simp: query_escape_safe)
  then show ?thesis
    unfolding query_values_def by (simp add: comp_def case_prod_unfold query_pair_encoded del: append.simps append_Cons)
qed

end
