(* ===== verification/Json_Fields.thy ===== *)
theory Json_Fields
  imports Go_Clock
begin

text \<open>
  Records read from JSON objects by their tags, and the lemmas with which an object that the program writes is read back:
  members are read one by one, texts in valid UTF-8 come back unchanged.
\<close>

section \<open>Decoding\<close>

type_synonym 'r setter = "json \<Rightarrow> 'r \<Rightarrow> 'r option"

definition plain :: "(json \<Rightarrow> 'a \<Rightarrow> 'a option) \<Rightarrow> ('r \<Rightarrow> 'a) \<Rightarrow> (('a \<Rightarrow> 'a) \<Rightarrow> 'r \<Rightarrow> 'r) \<Rightarrow> 'r setter" where
  "plain get sel upd v r = map_option (\<lambda>x. upd (\<lambda>_. x) r) (get v (sel r))"

definition pointer :: "(json \<Rightarrow> 'a \<Rightarrow> 'a option) \<Rightarrow> 'a \<Rightarrow> (('a option \<Rightarrow> 'a option) \<Rightarrow> 'r \<Rightarrow> 'r) \<Rightarrow> 'r setter" where
  "pointer get zero upd v r = map_option (\<lambda>x. upd (\<lambda>_. x) r) (get_ptr get zero v)"

definition decode_fields :: "(string \<times> 'r setter) list \<Rightarrow> json \<Rightarrow> 'r \<Rightarrow> 'r option" where
  "decode_fields fs = decode_struct (map fst fs) (\<lambda>n v r. case map_of fs n of None \<Rightarrow> Some r | Some f \<Rightarrow> f v r)"

text \<open>An object of which one field is read.\<close>

definition one_field :: "string \<Rightarrow> (json \<Rightarrow> 'a \<Rightarrow> 'a option) \<Rightarrow> 'a \<Rightarrow> json \<Rightarrow> 'a option" where
  "one_field n get zero v = decode_struct [n] (\<lambda>_ w x. get w x) v zero"

text \<open>A slice, \<open>None\<close> when it is nil; what an element of an existing slice held before does not matter here.\<close>

definition wrapped :: "string \<Rightarrow> (string \<times> 'r setter) list \<Rightarrow> 'r \<Rightarrow> json \<Rightarrow> 'r list option option" where
  "wrapped n fs zero = one_field n (\<lambda>w _. get_ptr (\<lambda>u _. get_slice (decode_fields fs) zero u) [] w) None"

definition or_empty :: "'a list option \<Rightarrow> 'a list" where
  "or_empty x = (case x of None \<Rightarrow> [] | Some xs \<Rightarrow> xs)"

section \<open>Reading back\<close>

lemma decode_fields_nil [simp]: "decode_fields fs (J_obj []) r = Some r"
  by (simp add: decode_fields_def decode_struct_def)

lemma decode_fields_null [simp]: "decode_fields fs J_null r = Some r"
  by (simp add: decode_fields_def decode_struct_def)

lemma decode_fields_member:
  assumes "map_of fs n = Some f"
  shows "decode_fields fs (J_obj ((n, v) # ms)) r = Option.bind (f v r) (decode_fields fs (J_obj ms))"
proof -
  have "n \<in> set (map fst fs)" using map_of_SomeD [OF assms] by force
  then have "match_field (map fst fs) n = Some n" by (simp add: match_field_def)
  then show ?thesis using assms
    by (cases "f v r") (simp_all add: decode_fields_def decode_struct_def)
qed

text \<open>Values that are read as they are written.\<close>

definition plain_json :: "json \<Rightarrow> bool" where
  "plain_json v \<longleftrightarrow> int_numbers v \<and> valid_texts v = v"

definition valid_utf8 :: "string \<Rightarrow> bool" where
  "valid_utf8 s \<longleftrightarrow> to_valid_utf8 s = s"

lemma plain_json_simps [simp]:
  "plain_json J_null" "plain_json (J_bool b)" "plain_json (J_num (itoa i))" "plain_json (J_str s) \<longleftrightarrow> valid_utf8 s"
  by (auto simp: plain_json_def valid_utf8_def)

lemma plain_json_arr [simp]: "plain_json (J_arr vs) \<longleftrightarrow> (\<forall>v \<in> set vs. plain_json v)"
  by (induction vs) (auto simp: plain_json_def)

lemma plain_json_obj [simp]: "plain_json (J_obj ms) \<longleftrightarrow> (\<forall>m \<in> set ms. valid_utf8 (fst m) \<and> plain_json (snd m))"
  by (induction ms) (auto simp: plain_json_def valid_utf8_def)

lemma ascii_valid: "\<forall>c \<in> set s. code c < 0x80 \<Longrightarrow> valid_utf8 s"
  by (simp add: valid_utf8_def to_valid_ascii)

lemma json_time_plain: "json_time off t = Some v \<Longrightarrow> plain_json v"
  using json_time_valid [of off t v] by (simp add: plain_json_def)

lemma plain_reads:
  assumes "plain_json v" "json_depth v \<le> 10000"
  shows "json_text (marshal v) = Some v"
  using marshal_reads(1) [of v] assms by (simp add: plain_json_def)

lemma get_each_texts: "get_each get_text z (map J_str xs) = Some xs"
  by (induction xs) (simp_all add: get_text_def)

lemma foldr_max_le: "(\<forall>x \<in> set xs. x \<le> k) \<Longrightarrow> 0 \<le> k \<Longrightarrow> foldr max xs (0 :: int) \<le> k"
  by (induction xs) simp_all

end
