(* ===== verification/Control_Client.thy ===== *)
theory Control_Client
  imports Bff_Base Go_Float Go_Url Json_Fields
begin

text \<open>
  The client of the BFF for the control plane (\<^verbatim>\<open>internal/bff/adapters/outbound/controlplane/client.go\<close>): requests with
  retries under the circuit breaker, and the reading of every answer.  What the network answers to each attempt, and
  whether the breaker allows each request, are lists in the state; the library of the breaker is outside.  A request that
  is cancelled is one that fails.  What the client logs about the last health check is left out.
\<close>

section \<open>What is received\<close>

text \<open>
  The data that the BFF receives from the control plane (\<^verbatim>\<open>internal/bff/application/ports/outbound/controlplane.go\<close>):
  runs, artifacts, suites, runner profiles and schedules.  A pointer is an option; timestamps stay texts.
\<close>

record bff_metrics =
  bm_iterations :: int
  bm_requests :: int
  bm_avg_tps :: float64
  bm_p50 :: float64
  bm_p90 :: float64
  bm_p95 :: float64
  bm_p99 :: float64
  bm_error_rate :: float64

record bff_run =
  br_id :: string
  br_suite :: string
  br_artifact :: string
  br_config :: "string option"
  br_profile :: string
  br_schedule :: "string option"
  br_status :: string
  br_job :: string
  br_namespace :: string
  br_started :: "string option"
  br_finished :: "string option"
  br_duration :: "int option"
  br_exit :: "int option"
  br_sla :: "bool option"
  br_metrics :: bff_metrics
  br_report :: string
  br_logs :: string
  br_abort :: string
  br_created :: string

record bff_artifact =
  ba_id :: string
  ba_suite :: string
  ba_platform :: string
  ba_key :: string
  ba_checksum :: string
  ba_build_logs :: string
  ba_status :: string
  ba_error :: string
  ba_created :: string

record bff_suite =
  bs_id :: string
  bs_name :: string
  bs_description :: string
  bs_state :: string
  bs_created :: string
  bs_updated :: string

record bff_profile =
  bp_id :: string
  bp_name :: string
  bp_description :: string
  bp_image :: string
  bp_cpu_request :: string
  bp_cpu_limit :: string
  bp_memory_limit :: string
  bp_created :: string

record bff_schedule =
  bd_id :: string
  bd_suite :: string
  bd_artifact :: string
  bd_config :: "string option"
  bd_profile :: string
  bd_name :: string
  bd_cron :: string
  bd_cronjob :: string
  bd_active :: bool
  bd_created :: string
  bd_updated :: string

record bff_version =
  bv_version :: string
  bv_commit :: string
  bv_built :: string

section \<open>Zero values\<close>

definition no_metrics :: bff_metrics where
  "no_metrics = \<lparr>bm_iterations = 0, bm_requests = 0, bm_avg_tps = F_fin 0, bm_p50 = F_fin 0, bm_p90 = F_fin 0,
     bm_p95 = F_fin 0, bm_p99 = F_fin 0, bm_error_rate = F_fin 0\<rparr>"

definition no_run :: bff_run where
  "no_run = \<lparr>br_id = '''', br_suite = '''', br_artifact = '''', br_config = None, br_profile = '''', br_schedule = None,
     br_status = '''', br_job = '''', br_namespace = '''', br_started = None, br_finished = None, br_duration = None,
     br_exit = None, br_sla = None, br_metrics = no_metrics, br_report = '''', br_logs = '''', br_abort = '''', br_created = ''''\<rparr>"

definition no_artifact :: bff_artifact where
  "no_artifact = \<lparr>ba_id = '''', ba_suite = '''', ba_platform = '''', ba_key = '''', ba_checksum = '''', ba_build_logs = '''',
     ba_status = '''', ba_error = '''', ba_created = ''''\<rparr>"

definition no_suite :: bff_suite where
  "no_suite = \<lparr>bs_id = '''', bs_name = '''', bs_description = '''', bs_state = '''', bs_created = '''', bs_updated = ''''\<rparr>"

definition no_profile :: bff_profile where
  "no_profile = \<lparr>bp_id = '''', bp_name = '''', bp_description = '''', bp_image = '''', bp_cpu_request = '''', bp_cpu_limit = '''',
     bp_memory_limit = '''', bp_created = ''''\<rparr>"

definition no_schedule :: bff_schedule where
  "no_schedule = \<lparr>bd_id = '''', bd_suite = '''', bd_artifact = '''', bd_config = None, bd_profile = '''', bd_name = '''', bd_cron = '''',
     bd_cronjob = '''', bd_active = False, bd_created = '''', bd_updated = ''''\<rparr>"

section \<open>Decoding\<close>

definition metrics_fields :: "(string \<times> bff_metrics setter) list" where
  "metrics_fields =
     [(''total_iterations'', plain get_int64 bm_iterations bm_iterations_update), (''total_requests'', plain get_int64 bm_requests bm_requests_update),
      (''avg_tps'', plain get_float bm_avg_tps bm_avg_tps_update), (''p50_duration_ms'', plain get_float bm_p50 bm_p50_update),
      (''p90_duration_ms'', plain get_float bm_p90 bm_p90_update), (''p95_duration_ms'', plain get_float bm_p95 bm_p95_update),
      (''p99_duration_ms'', plain get_float bm_p99 bm_p99_update), (''error_rate_pct'', plain get_float bm_error_rate bm_error_rate_update)]"

definition run_fields :: "(string \<times> bff_run setter) list" where
  "run_fields =
     [(''id'', plain get_text br_id br_id_update), (''suite_id'', plain get_text br_suite br_suite_update),
      (''artifact_id'', plain get_text br_artifact br_artifact_update), (''configuration_id'', pointer get_text '''' br_config_update),
      (''runner_profile_id'', plain get_text br_profile br_profile_update), (''schedule_id'', pointer get_text '''' br_schedule_update),
      (''status'', plain get_text br_status br_status_update), (''k8s_job_name'', plain get_text br_job br_job_update),
      (''k8s_namespace'', plain get_text br_namespace br_namespace_update), (''started_at'', pointer get_text '''' br_started_update),
      (''finished_at'', pointer get_text '''' br_finished_update), (''duration_ms'', pointer get_int64 0 br_duration_update),
      (''exit_code'', pointer get_int64 0 br_exit_update), (''sla_passed'', pointer get_bool False br_sla_update),
      (''metrics'', plain (decode_fields metrics_fields) br_metrics br_metrics_update), (''s3_report_key'', plain get_text br_report br_report_update),
      (''s3_logs_key'', plain get_text br_logs br_logs_update), (''abort_reason'', plain get_text br_abort br_abort_update),
      (''created_at'', plain get_text br_created br_created_update)]"

definition artifact_fields :: "(string \<times> bff_artifact setter) list" where
  "artifact_fields =
     [(''id'', plain get_text ba_id ba_id_update), (''suite_id'', plain get_text ba_suite ba_suite_update),
      (''platform'', plain get_text ba_platform ba_platform_update), (''s3_binary_key'', plain get_text ba_key ba_key_update),
      (''sha256_checksum'', plain get_text ba_checksum ba_checksum_update), (''build_logs_s3_key'', plain get_text ba_build_logs ba_build_logs_update),
      (''status'', plain get_text ba_status ba_status_update), (''error_message'', plain get_text ba_error ba_error_update),
      (''created_at'', plain get_text ba_created ba_created_update)]"

definition suite_fields :: "(string \<times> bff_suite setter) list" where
  "suite_fields =
     [(''id'', plain get_text bs_id bs_id_update), (''name'', plain get_text bs_name bs_name_update),
      (''description'', plain get_text bs_description bs_description_update), (''state'', plain get_text bs_state bs_state_update),
      (''created_at'', plain get_text bs_created bs_created_update), (''updated_at'', plain get_text bs_updated bs_updated_update)]"

definition profile_fields :: "(string \<times> bff_profile setter) list" where
  "profile_fields =
     [(''id'', plain get_text bp_id bp_id_update), (''name'', plain get_text bp_name bp_name_update),
      (''description'', plain get_text bp_description bp_description_update), (''runner_image'', plain get_text bp_image bp_image_update),
      (''cpu_request'', plain get_text bp_cpu_request bp_cpu_request_update), (''cpu_limit'', plain get_text bp_cpu_limit bp_cpu_limit_update),
      (''memory_limit'', plain get_text bp_memory_limit bp_memory_limit_update), (''created_at'', plain get_text bp_created bp_created_update)]"

definition schedule_fields :: "(string \<times> bff_schedule setter) list" where
  "schedule_fields =
     [(''id'', plain get_text bd_id bd_id_update), (''suite_id'', plain get_text bd_suite bd_suite_update),
      (''artifact_id'', plain get_text bd_artifact bd_artifact_update), (''configuration_id'', pointer get_text '''' bd_config_update),
      (''runner_profile_id'', plain get_text bd_profile bd_profile_update), (''name'', plain get_text bd_name bd_name_update),
      (''cron_expression'', plain get_text bd_cron bd_cron_update), (''k8s_cronjob_name'', plain get_text bd_cronjob bd_cronjob_update),
      (''is_active'', plain get_bool bd_active bd_active_update), (''created_at'', plain get_text bd_created bd_created_update),
      (''updated_at'', plain get_text bd_updated bd_updated_update)]"

definition version_fields :: "(string \<times> bff_version setter) list" where
  "version_fields =
     [(''version'', plain get_text bv_version bv_version_update), (''commit'', plain get_text bv_commit bv_commit_update),
      (''build_time'', plain get_text bv_built bv_built_update)]"

section \<open>Requests\<close>

record client_cfg =
  cc_base :: string
  cc_token :: string
  cc_retries :: int
  cc_valid :: "string \<Rightarrow> bool"

text \<open>\<open>Some (status, body)\<close>, with no body when it cannot be read.\<close>

type_synonym cp_answer = "(int \<times> string option) option"

record cp_net =
  cn_answers :: "cp_answer list"
  cn_allows :: "bool list"
  cn_reports :: "bool list"
  cn_sent :: "(string \<times> string option) list"

definition client_base :: "string \<Rightarrow> string" where
  "client_base b = (let t = trim_right_char b (CHR ''/'') in if t = '''' then ''http://localhost:8080'' else t)"

definition bearer :: "client_cfg \<Rightarrow> string option" where
  "bearer c = (if cc_token c \<noteq> '''' then Some (''Bearer '' @ cc_token c) else None)"

definition next_answer :: "client_cfg \<Rightarrow> string \<Rightarrow> cp_net \<Rightarrow> cp_answer \<times> cp_net" where
  "next_answer c url n =
     (case cn_answers n of
        [] \<Rightarrow> (None, n\<lparr>cn_sent := cn_sent n @ [(url, bearer c)]\<rparr>)
      | a # as \<Rightarrow> (a, n\<lparr>cn_answers := as, cn_sent := cn_sent n @ [(url, bearer c)]\<rparr>))"

text \<open>
  The attempts of a \<open>GET\<close>; the number is that of the attempts after this one.  It is counted without a bound: the source
  adds one to the number of retries in an \<open>int\<close>, which wraps only for \<open>2 ^ 63 - 1\<close> retries (then it makes no attempt).
\<close>

fun attempts :: "client_cfg \<Rightarrow> string \<Rightarrow> nat \<Rightarrow> cp_net \<Rightarrow> cp_answer \<times> cp_net" where
  "attempts c url k n =
     (case next_answer c url n of
        (None, n') \<Rightarrow> (case k of 0 \<Rightarrow> (None, n') | Suc j \<Rightarrow> attempts c url j n')
      | (Some (status, body), n') \<Rightarrow>
          (case k of
             0 \<Rightarrow> (Some (status, body), n')
           | Suc j \<Rightarrow> if 500 \<le> status then attempts c url j n' else (Some (status, body), n')))"

declare attempts.simps [simp del]

definition do_execute_request :: "client_cfg \<Rightarrow> string \<Rightarrow> cp_net \<Rightarrow> cp_answer \<times> cp_net" where
  "do_execute_request c url n = (if \<not> cc_valid c url then (None, n) else attempts c url (nat (cc_retries c)) n)"

definition breaker_allows :: "cp_net \<Rightarrow> bool \<times> cp_net" where
  "breaker_allows n = (case cn_allows n of [] \<Rightarrow> (True, n) | b # bs \<Rightarrow> (b, n\<lparr>cn_allows := bs\<rparr>))"

definition report_done :: "bool \<Rightarrow> cp_net \<Rightarrow> cp_net" where
  "report_done ok n = n\<lparr>cn_reports := cn_reports n @ [ok]\<rparr>"

text \<open>Every caller turns an error into the same sentinel.\<close>

definition execute_request :: "client_cfg \<Rightarrow> string \<Rightarrow> cp_net \<Rightarrow> (int \<times> string option) bff \<times> cp_net" where
  "execute_request c url n =
     (case breaker_allows n of (allowed, n0) \<Rightarrow>
        if \<not> allowed then (Inl ErrControlPlaneUnavailable, n0)
        else case do_execute_request c url n0 of
          (None, n') \<Rightarrow> (Inl ErrControlPlaneUnavailable, report_done False n')
        | (Some (status, body), n') \<Rightarrow> (Inr (status, body), report_done (status < 500) n'))"

section \<open>Operations\<close>

definition success :: "int \<Rightarrow> bool" where
  "success status \<longleftrightarrow> 200 \<le> status \<and> status < 300"

definition then_read :: "(int \<times> string option) bff \<times> cp_net \<Rightarrow> (int \<Rightarrow> string option \<Rightarrow> 'a bff) \<Rightarrow> 'a bff \<times> cp_net" where
  "then_read r f = (case r of (Inl e, n) \<Rightarrow> (Inl e, n) | (Inr (status, body), n) \<Rightarrow> (f status body, n))"

text \<open>The first value of a body.\<close>

definition read_first :: "(json \<Rightarrow> 'a option) \<Rightarrow> string option \<Rightarrow> 'a option" where
  "read_first f body = Option.bind (Option.bind body json_first) f"

definition internal :: "'a option \<Rightarrow> 'a bff" where
  "internal x = (case x of None \<Rightarrow> Inl ErrInternal | Some y \<Rightarrow> Inr y)"

definition check_health :: "client_cfg \<Rightarrow> cp_net \<Rightarrow> string bff \<times> cp_net" where
  "check_health c n =
     then_read (execute_request c (cc_base c @ ''/healthz'') n) (\<lambda>status _.
       if \<not> success status then Inl ErrControlPlaneUnavailable else Inr ''UP'')"

definition unknown_version :: bff_version where
  "unknown_version = \<lparr>bv_version = ''unknown'', bv_commit = ''unknown'', bv_built = ''unknown''\<rparr>"

definition get_version :: "client_cfg \<Rightarrow> cp_net \<Rightarrow> bff_version bff \<times> cp_net" where
  "get_version c n =
     then_read (execute_request c (cc_base c @ ''/api/version'') n) (\<lambda>status body.
       if status \<noteq> 200 then Inr unknown_version
       else case read_first (\<lambda>v. decode_fields version_fields v \<lparr>bv_version = '''', bv_commit = '''', bv_built = ''''\<rparr>) body of
         None \<Rightarrow> Inr unknown_version
       | Some v \<Rightarrow> Inr v)"

definition count_runs :: "client_cfg \<Rightarrow> string \<Rightarrow> cp_net \<Rightarrow> int bff \<times> cp_net" where
  "count_runs c status n =
     then_read (execute_request c (cc_base c @ ''/api/v1/runs?status='' @ query_escape status @ ''&limit=1'') n) (\<lambda>code body.
       if code \<noteq> 200 then Inl ErrControlPlaneUnavailable else internal (read_first (one_field ''total'' get_int64 0) body))"

definition get_active_runs_count :: "client_cfg \<Rightarrow> cp_net \<Rightarrow> int bff \<times> cp_net" where
  "get_active_runs_count c n =
     (case count_runs c ''RUNNING'' n of
        (Inl e, n') \<Rightarrow> (Inl e, n')
      | (Inr running, n') \<Rightarrow>
          (case count_runs c ''QUEUED'' n' of
             (Inl e, n'') \<Rightarrow> (Inl e, n'')
           | (Inr queued, n'') \<Rightarrow> (Inr (wrap64 (wrap64 (0 + running) + queued)), n'')))"

text \<open>A list in an object or on its own; anything else counts as empty.\<close>

definition lenient_list :: "string \<Rightarrow> (string \<times> 'r setter) list \<Rightarrow> 'r \<Rightarrow> string option \<Rightarrow> 'r list bff" where
  "lenient_list name fs zero body =
     (case body of
        None \<Rightarrow> Inl ErrInternal
      | Some b \<Rightarrow>
          (case Option.bind (json_text b) (wrapped name fs zero) of
             Some (Some xs) \<Rightarrow> Inr xs
           | _ \<Rightarrow> (case Option.bind (json_text b) (get_slice (decode_fields fs) zero) of Some xs \<Rightarrow> Inr xs | None \<Rightarrow> Inr [])))"

definition list_recent_suites :: "client_cfg \<Rightarrow> int \<Rightarrow> cp_net \<Rightarrow> bff_suite list bff \<times> cp_net" where
  "list_recent_suites c limit n =
     then_read (execute_request c (cc_base c @ ''/api/v1/suites'' @ (if 0 < limit then ''?limit='' @ itoa limit else '''')) n) (\<lambda>status body.
       if status = 404 then Inr []
       else if \<not> success status then Inl ErrControlPlaneUnavailable
       else lenient_list ''suites'' suite_fields no_suite body)"

definition list_profiles :: "client_cfg \<Rightarrow> cp_net \<Rightarrow> bff_profile list bff \<times> cp_net" where
  "list_profiles c n =
     then_read (execute_request c (cc_base c @ ''/api/v1/profiles'') n) (\<lambda>status body.
       if \<not> success status then Inl ErrControlPlaneUnavailable
       else lenient_list ''profiles'' profile_fields no_profile body)"

definition get_total_suites_count :: "client_cfg \<Rightarrow> cp_net \<Rightarrow> int bff \<times> cp_net" where
  "get_total_suites_count c n =
     then_read (execute_request c (cc_base c @ ''/api/v1/suites?limit=1'') n) (\<lambda>status body.
       if status = 404 then Inr 0
       else if \<not> success status then Inl ErrControlPlaneUnavailable
       else internal (read_first (one_field ''count'' get_int64 0) body))"

definition strict_list :: "string \<Rightarrow> (string \<times> 'r setter) list \<Rightarrow> 'r \<Rightarrow> int \<Rightarrow> string option \<Rightarrow> 'r list bff" where
  "strict_list name fs zero status body =
     (if status = 404 then Inr []
      else if \<not> success status then Inl ErrControlPlaneUnavailable
      else internal (map_option or_empty (read_first (wrapped name fs zero) body)))"

definition cp_list_schedules :: "client_cfg \<Rightarrow> cp_net \<Rightarrow> bff_schedule list bff \<times> cp_net" where
  "cp_list_schedules c n =
     then_read (execute_request c (cc_base c @ ''/api/v1/schedules'') n) (strict_list ''schedules'' schedule_fields no_schedule)"

definition get_active_schedules_count :: "client_cfg \<Rightarrow> cp_net \<Rightarrow> int bff \<times> cp_net" where
  "get_active_schedules_count c n =
     (case cp_list_schedules c n of
        (Inl e, n') \<Rightarrow> (Inl e, n')
      | (Inr xs, n') \<Rightarrow> (Inr (int (length (filter bd_active xs))), n'))"

definition cp_get_run :: "client_cfg \<Rightarrow> string \<Rightarrow> cp_net \<Rightarrow> bff_run bff \<times> cp_net" where
  "cp_get_run c i n =
     (if trim_space i = '''' then (Inl ErrInvalidParameter, n)
      else then_read (execute_request c (cc_base c @ ''/api/v1/runs/'' @ path_escape i) n) (\<lambda>status body.
             if status = 404 then Inl ErrRunNotFound
             else if \<not> success status then Inl ErrControlPlaneUnavailable
             else internal (read_first (\<lambda>v. decode_fields run_fields v no_run) body)))"

definition presigned_url :: "client_cfg \<Rightarrow> string \<Rightarrow> string \<Rightarrow> cp_net \<Rightarrow> string bff \<times> cp_net" where
  "presigned_url c kind i n =
     then_read (execute_request c (cc_base c @ ''/api/v1/runs/'' @ path_escape i @ ''/'' @ kind @ ''?presign=true'') n) (\<lambda>status body.
       if status = 404 then Inr ''''
       else if \<not> success status then Inl ErrControlPlaneUnavailable
       else internal (read_first (one_field ''download_url'' get_text '''') body))"

definition cp_report_url :: "client_cfg \<Rightarrow> string \<Rightarrow> cp_net \<Rightarrow> string bff \<times> cp_net" where
  "cp_report_url c = presigned_url c ''report''"

definition cp_logs_url :: "client_cfg \<Rightarrow> string \<Rightarrow> cp_net \<Rightarrow> string bff \<times> cp_net" where
  "cp_logs_url c = presigned_url c ''logs''"

definition runs_url :: "client_cfg \<Rightarrow> string \<Rightarrow> int \<Rightarrow> string" where
  "runs_url c status limit =
     (let ps = (if status \<noteq> '''' then [''status='' @ query_escape status] else []) @ (if 0 < limit then [''limit='' @ itoa limit] else [])
      in cc_base c @ ''/api/v1/runs'' @ (if ps \<noteq> [] then ''?'' @ join ''&'' ps else ''''))"

definition cp_list_runs :: "client_cfg \<Rightarrow> string \<Rightarrow> int \<Rightarrow> cp_net \<Rightarrow> bff_run list bff \<times> cp_net" where
  "cp_list_runs c status limit n = then_read (execute_request c (runs_url c status limit) n) (strict_list ''runs'' run_fields no_run)"

definition cp_list_artifacts :: "client_cfg \<Rightarrow> string \<Rightarrow> cp_net \<Rightarrow> bff_artifact list bff \<times> cp_net" where
  "cp_list_artifacts c suite n =
     (let s = trim_space suite
      in if s = '''' then (Inl ErrInvalidParameter, n)
         else then_read (execute_request c (cc_base c @ ''/api/v1/suites/'' @ path_escape s @ ''/artifacts'') n)
                (strict_list ''artifacts'' artifact_fields no_artifact))"

section \<open>What a request amounts to\<close>

text \<open>The answers of the network to the next attempts; when none is left every attempt fails.\<close>

definition coming :: "nat \<Rightarrow> cp_answer list \<Rightarrow> cp_answer list" where
  "coming k as = take k (as @ replicate k None)"

definition settles :: "cp_answer \<Rightarrow> bool" where
  "settles a = (case a of None \<Rightarrow> False | Some (status, _) \<Rightarrow> status < 500)"

definition decisive :: "cp_answer list \<Rightarrow> cp_answer" where
  "decisive as = (case find settles as of Some a \<Rightarrow> a | None \<Rightarrow> last as)"

lemma coming_Suc: "coming (Suc k) as = (case as of [] \<Rightarrow> None # coming k [] | a # bs \<Rightarrow> a # coming k bs)"
  unfolding coming_def by (cases as) (simp_all add: replicate_append_same take_Cons' flip: replicate_append_same)

lemma coming_1: "coming (Suc 0) as = [case as of [] \<Rightarrow> None | a # _ \<Rightarrow> a]"
  unfolding coming_def by (cases as) simp_all

lemma coming_nonempty: "coming (Suc k) as \<noteq> []"
  by (simp add: coming_Suc split: list.splits)

lemma decisive_Cons: "bs \<noteq> [] \<Longrightarrow> decisive (a # bs) = (if settles a then a else decisive bs)"
  by (simp add: decisive_def split: option.split)

lemma next_answer_eq: "next_answer c url n =
   ((case cn_answers n of [] \<Rightarrow> None | a # _ \<Rightarrow> a), n\<lparr>cn_answers := tl (cn_answers n), cn_sent := cn_sent n @ [(url, bearer c)]\<rparr>)"
  by (cases n) (simp add: next_answer_def split: list.splits)

text \<open>An attempt that is not the last one.\<close>

lemma attempts_Suc: "attempts c url (Suc j) n =
   (case next_answer c url n of (a, n') \<Rightarrow> if settles a then (a, n') else attempts c url j n')"
  by (subst attempts.simps) (auto simp: settles_def split: prod.splits option.splits)

lemma attempts_0: "attempts c url 0 n = next_answer c url n"
  by (subst attempts.simps) (auto split: prod.splits option.splits)

lemma attempts_answer: "fst (attempts c url k n) = decisive (coming (Suc k) (cn_answers n))"
proof (induction k arbitrary: n)
  case 0
  show ?case by (simp add: attempts_0 next_answer_eq coming_1 decisive_def)
next
  case (Suc j)
  have "coming (Suc (Suc j)) (cn_answers n)
      = (case cn_answers n of [] \<Rightarrow> None | a # _ \<Rightarrow> a) # coming (Suc j) (tl (cn_answers n))"
    by (subst coming_Suc) (simp split: list.splits)
  then show ?case
    by (simp add: attempts_Suc next_answer_eq Suc.IH decisive_Cons [OF coming_nonempty])
qed

lemma attempts_sent:
  "\<exists>i \<le> k. cn_sent (snd (attempts c url k n)) = cn_sent n @ replicate (Suc i) (url, bearer c)
     \<and> cn_reports (snd (attempts c url k n)) = cn_reports n"
proof (induction k arbitrary: n)
  case 0
  show ?case by (simp add: attempts_0 next_answer_eq)
next
  case (Suc j)
  let ?n = "n\<lparr>cn_answers := tl (cn_answers n), cn_sent := cn_sent n @ [(url, bearer c)]\<rparr>"
  obtain i where "i \<le> j" "cn_sent (snd (attempts c url j ?n)) = cn_sent ?n @ replicate (Suc i) (url, bearer c)"
    "cn_reports (snd (attempts c url j ?n)) = cn_reports ?n"
    using Suc.IH [of ?n] by blast
  then have again: "cn_sent (snd (attempts c url j ?n)) = cn_sent n @ replicate (Suc (Suc i)) (url, bearer c)"
    "cn_reports (snd (attempts c url j ?n)) = cn_reports n" "Suc i \<le> Suc j" by simp_all
  show ?case
    using again by (cases "settles (case cn_answers n of [] \<Rightarrow> None | a # _ \<Rightarrow> a)") (auto simp: attempts_Suc next_answer_eq)
qed

text \<open>The answer a caller gets, as the sum it is given.\<close>

definition given :: "cp_answer \<Rightarrow> (int \<times> string option) bff" where
  "given a = (case a of None \<Rightarrow> Inl ErrControlPlaneUnavailable | Some x \<Rightarrow> Inr x)"

text \<open>
  C30: A request of the BFF to the control plane is sent at most \<open>1 + MaxRetries\<close> times and always with the same
  address and the bearer token; the caller gets the first answer below 500, or else the last answer, or the error
  \<open>ErrControlPlaneUnavailable\<close> when that one failed; and the circuit breaker, when it allowed the request, is told
  exactly once whether it went well.  A request it refuses is not sent.
\<close>
theorem control_request_settled:
  assumes "cc_valid c url" "execute_request c url n = (r, n')"
  shows "if fst (breaker_allows n)
         then (\<exists>i \<le> nat (cc_retries c). cn_sent n' = cn_sent n @ replicate (Suc i) (url, bearer c))
            \<and> r = given (decisive (coming (Suc (nat (cc_retries c))) (cn_answers n)))
            \<and> cn_reports n' = cn_reports n @ [settles (decisive (coming (Suc (nat (cc_retries c))) (cn_answers n)))]
         else r = Inl ErrControlPlaneUnavailable \<and> cn_sent n' = cn_sent n \<and> cn_reports n' = cn_reports n"
proof -
  obtain ok m where allow: "breaker_allows n = (ok, m)" by force
  have m: "cn_answers m = cn_answers n" "cn_sent m = cn_sent n" "cn_reports m = cn_reports n"
    using allow by (auto simp: breaker_allows_def split: list.splits)
  obtain a n1 where tried: "attempts c url (nat (cc_retries c)) m = (a, n1)" by force
  have a: "a = decisive (coming (Suc (nat (cc_retries c))) (cn_answers n))"
    using attempts_answer [of c url "nat (cc_retries c)" m] tried m by simp
  have sent: "\<exists>i \<le> nat (cc_retries c). cn_sent n1 = cn_sent n @ replicate (Suc i) (url, bearer c)"
    and reports: "cn_reports n1 = cn_reports n"
    using attempts_sent [of "nat (cc_retries c)" c url m] tried m by auto
  show ?thesis
  proof (cases ok)
    case True
    have "r = given a \<and> n' = report_done (settles a) n1"
      using assms True allow tried
      by (auto simp: execute_request_def do_execute_request_def given_def settles_def split: option.splits)
    then show ?thesis using True allow a sent reports by (simp add: report_done_def)
  next
    case False
    then show ?thesis using assms allow m by (auto simp: execute_request_def)
  qed
qed

definition down_then_up :: cp_net where
  "down_then_up = \<lparr>cn_answers = [None, Some (503, None), Some (200, Some ''ok''), Some (404, None)], cn_allows = [], cn_reports = [], cn_sent = []\<rparr>"

definition local_client :: client_cfg where
  "local_client = \<lparr>cc_base = client_base ''http://cp/'', cc_token = ''t'', cc_retries = 3, cc_valid = (\<lambda>_. True)\<rparr>"

lemma down_then_up_run: "execute_request local_client ''http://cp/healthz'' down_then_up
  = (Inr (200, Some ''ok''), \<lparr>cn_answers = [Some (404, None)], cn_allows = [], cn_reports = [True],
      cn_sent = replicate 3 (''http://cp/healthz'', Some ''Bearer t'')\<rparr>)"
  by code_simp

theorem control_request_settled_witness:
  "given (decisive (coming 4 (cn_answers down_then_up))) = Inr (200, Some ''ok'')"
  using control_request_settled [OF _ down_then_up_run]
  by (simp add: local_client_def down_then_up_def breaker_allows_def numeral_eq_Suc)

end
