(* ===== verification/Event_Poller.thy ===== *)
theory Event_Poller
  imports Event_Hub Control_Client Go_Clock "HOL-Library.AList" "HOL-Library.Sublist"
begin

text \<open>
  The events that the BFF pushes to the browsers (\<^verbatim>\<open>internal/bff/domain/model/event.go\<close>) and the poller that finds them
  (\<^verbatim>\<open>internal/bff/application/service/poller.go\<close>).  What the control plane answers during one cycle is an argument.  The runs
  of a cycle are collected in a map, which Go walks through in any order: the order is an argument, any list of the keys
  of the map.  How the library prints a floating-point number is the argument \<open>ft\<close>.
\<close>

section \<open>Events\<close>

definition new_event :: "string \<Rightarrow> string \<Rightarrow> string \<Rightarrow> time \<Rightarrow> time \<Rightarrow> sse bff" where
  "new_event i typ data t now =
     (if trim_space i = '''' then Inl ErrInvalidParameter
      else if trim_space typ = '''' then Inl ErrInvalidParameter
      else if data = '''' then Inl ErrInvalidParameter
      else Inr \<lparr>ev_id = trim_space i, ev_type = trim_space typ, ev_data = data, ev_time = (if t = 0 then now else t)\<rparr>)"

definition omit_text :: "string \<Rightarrow> string \<Rightarrow> (string \<times> json) list" where
  "omit_text n s = (if s = '''' then [] else [(n, J_str s)])"

definition omit_nil :: "string \<Rightarrow> ('a \<Rightarrow> json) \<Rightarrow> 'a option \<Rightarrow> (string \<times> json) list" where
  "omit_nil n f x = (case x of None \<Rightarrow> [] | Some y \<Rightarrow> [(n, f y)])"

definition metrics_json :: "(float64 \<Rightarrow> string) \<Rightarrow> bff_metrics \<Rightarrow> json" where
  "metrics_json ft m =
     J_obj [(''total_iterations'', J_num (itoa (bm_iterations m))), (''total_requests'', J_num (itoa (bm_requests m))),
       (''avg_tps'', J_num (ft (bm_avg_tps m))), (''p50_duration_ms'', J_num (ft (bm_p50 m))), (''p90_duration_ms'', J_num (ft (bm_p90 m))),
       (''p95_duration_ms'', J_num (ft (bm_p95 m))), (''p99_duration_ms'', J_num (ft (bm_p99 m))), (''error_rate_pct'', J_num (ft (bm_error_rate m)))]"

definition run_payload :: "(float64 \<Rightarrow> string) \<Rightarrow> bff_run \<Rightarrow> string \<Rightarrow> time \<Rightarrow> json option" where
  "run_payload ft r prev now =
     (case json_time 0 now of
        None \<Rightarrow> None
      | Some t \<Rightarrow> Some (J_obj ([(''run_id'', J_str (br_id r)), (''suite_id'', J_str (br_suite r)), (''status'', J_str (br_status r))] @
          omit_text ''previous_status'' prev @ omit_text ''k8s_job_name'' (br_job r) @ omit_nil ''started_at'' J_str (br_started r) @
          omit_nil ''finished_at'' J_str (br_finished r) @ omit_nil ''duration_ms'' (\<lambda>i. J_num (itoa i)) (br_duration r) @
          omit_nil ''exit_code'' (\<lambda>i. J_num (itoa i)) (br_exit r) @ omit_nil ''sla_passed'' J_bool (br_sla r) @
          [(''metrics'', metrics_json ft (br_metrics r)), (''timestamp'', t)])))"

definition run_event :: "(float64 \<Rightarrow> string) \<Rightarrow> string \<Rightarrow> bff_run \<Rightarrow> string \<Rightarrow> time \<Rightarrow> sse bff" where
  "run_event ft i r prev now =
     (if trim_space (br_id r) = '''' then Inl ErrInvalidParameter
      else if trim_space (br_status r) = '''' then Inl ErrInvalidParameter
      else case run_payload ft r prev now of
        None \<Rightarrow> Inl ErrInternal
      | Some v \<Rightarrow> new_event i ''run_status_changed'' (marshal v) now now)"

definition build_payload :: "bff_artifact \<Rightarrow> string \<Rightarrow> time \<Rightarrow> json option" where
  "build_payload a prev now =
     (case json_time 0 now of
        None \<Rightarrow> None
      | Some t \<Rightarrow> Some (J_obj ([(''artifact_id'', J_str (ba_id a)), (''suite_id'', J_str (ba_suite a)), (''platform'', J_str (ba_platform a)),
          (''status'', J_str (ba_status a))] @ omit_text ''previous_status'' prev @ omit_text ''s3_binary_key'' (ba_key a) @
          omit_text ''sha256_checksum'' (ba_checksum a) @ omit_text ''error_message'' (ba_error a) @ [(''timestamp'', t)])))"

definition build_event :: "string \<Rightarrow> bff_artifact \<Rightarrow> string \<Rightarrow> time \<Rightarrow> sse bff" where
  "build_event i a prev now =
     (if trim_space (ba_id a) = '''' then Inl ErrInvalidParameter
      else if trim_space (ba_status a) = '''' then Inl ErrInvalidParameter
      else case build_payload a prev now of
        None \<Rightarrow> Inl ErrInternal
      | Some v \<Rightarrow> new_event i ''build_status_changed'' (marshal v) now now)"

definition heartbeat_event :: "string \<Rightarrow> nat \<Rightarrow> int \<Rightarrow> time \<Rightarrow> sse bff" where
  "heartbeat_event i clients runs now =
     (case json_time 0 now of
        None \<Rightarrow> Inl ErrInternal
      | Some t \<Rightarrow> new_event i ''system_heartbeat''
          (marshal (J_obj [(''status'', J_str ''UP''), (''active_clients'', J_num (itoa (int clients))), (''active_runs'', J_num (itoa runs)),
             (''timestamp'', t)])) now now)"

section \<open>The poller\<close>

record poller =
  po_runs :: "(string \<times> string) list"
  po_builds :: "(string \<times> string) list"
  po_seq :: nat

definition new_poller :: poller where
  "new_poller = \<lparr>po_runs = [], po_builds = [], po_seq = 0\<rparr>"

definition poller_interval :: "duration \<Rightarrow> duration" where
  "poller_interval d = (if d \<le> 0 then 2 * second else d)"

definition heartbeat_interval :: "duration \<Rightarrow> duration" where
  "heartbeat_interval d = (if d \<le> 0 then 15 * second else d)"

text \<open>The answers of one cycle.\<close>

record cycle =
  cy_running :: "bff_run list bff"
  cy_queued :: "bff_run list bff"
  cy_recent :: "bff_run list bff"
  cy_suites :: "bff_suite list bff"
  cy_artifacts :: "string \<Rightarrow> bff_artifact list bff"

definition answered :: "'a list bff \<Rightarrow> 'a list" where
  "answered r = (case r of Inr xs \<Rightarrow> xs | Inl _ \<Rightarrow> [])"

definition observed_runs :: "cycle \<Rightarrow> string \<rightharpoonup> bff_run" where
  "observed_runs c =
     foldl (\<lambda>m r. m(br_id r \<mapsto> r)) Map.empty (answered (cy_running c) @ answered (cy_queued c) @ answered (cy_recent c))"

text \<open>The orders in which the loop over the map may go.\<close>

definition range_order :: "(string \<rightharpoonup> 'a) \<Rightarrow> string list \<Rightarrow> bool" where
  "range_order m order \<longleftrightarrow> distinct order \<and> set order = dom m"

definition ranged :: "(string \<rightharpoonup> 'a) \<Rightarrow> string list \<Rightarrow> 'a list" where
  "ranged m order = map (\<lambda>i. the (m i)) order"

definition last_status :: "(string \<times> string) list \<Rightarrow> string \<Rightarrow> string" where
  "last_status m i = (case map_of m i of None \<Rightarrow> '''' | Some s \<Rightarrow> s)"

definition events_of :: "sse bff \<Rightarrow> sse list" where
  "events_of r = (case r of Inr e \<Rightarrow> [e] | Inl _ \<Rightarrow> [])"

definition see_run :: "(float64 \<Rightarrow> string) \<Rightarrow> time \<Rightarrow> bff_run \<Rightarrow> sse list \<times> poller \<Rightarrow> sse list \<times> poller" where
  "see_run ft now r x =
     (case x of (evs, p) \<Rightarrow>
        if map_of (po_runs p) (br_id r) = Some (br_status r) then (evs, p)
        else let n = Suc (po_seq p)
             in (evs @ events_of (run_event ft (''run-'' @ br_id r @ ''-'' @ itoa (int n)) r (last_status (po_runs p) (br_id r)) now),
                 p\<lparr>po_runs := AList.update (br_id r) (br_status r) (po_runs p), po_seq := n\<rparr>))"

definition see_build :: "time \<Rightarrow> bff_artifact \<Rightarrow> sse list \<times> poller \<Rightarrow> sse list \<times> poller" where
  "see_build now a x =
     (case x of (evs, p) \<Rightarrow>
        if map_of (po_builds p) (ba_id a) = Some (ba_status a) then (evs, p)
        else let n = Suc (po_seq p)
             in (evs @ events_of (build_event (''build-'' @ ba_id a @ ''-'' @ itoa (int n)) a (last_status (po_builds p) (ba_id a)) now),
                 p\<lparr>po_builds := AList.update (ba_id a) (ba_status a) (po_builds p), po_seq := n\<rparr>))"

definition observed_builds :: "cycle \<Rightarrow> bff_artifact list" where
  "observed_builds c = concat (map (\<lambda>s. answered (cy_artifacts c (bs_id s))) (answered (cy_suites c)))"

text \<open>
  One cycle, with the order in which it walks through the runs and one reading of the clock for all of its events: the events
  that it broadcasts; whether a broadcast succeeds is not looked at.
\<close>

definition poll_once :: "(float64 \<Rightarrow> string) \<Rightarrow> time \<Rightarrow> string list \<Rightarrow> cycle \<Rightarrow> poller \<Rightarrow> sse list \<times> poller" where
  "poll_once ft now order c p =
     fold (see_build now) (observed_builds c) (fold (see_run ft now) (ranged (observed_runs c) order) ([], p))"

definition emit_heartbeat :: "time \<Rightarrow> int \<Rightarrow> hub \<Rightarrow> poller \<Rightarrow> unit bff \<times> hub \<times> poller" where
  "emit_heartbeat now runs h p =
     (let n = Suc (po_seq p); p1 = p\<lparr>po_seq := n\<rparr>
      in case heartbeat_event (''hb-'' @ itoa (int n)) (client_count h) runs now of
           Inl e \<Rightarrow> (Inl e, h, p1)
         | Inr ev \<Rightarrow> (case broadcast ev h of None \<Rightarrow> (Inl (Bff_other ''event hub is closed''), h, p1) | Some h1 \<Rightarrow> (Inr (), h1, p1)))"

definition broadcast_or_not :: "sse \<Rightarrow> hub \<Rightarrow> hub" where
  "broadcast_or_not ev h = (case broadcast ev h of None \<Rightarrow> h | Some h1 \<Rightarrow> h1)"

definition publish :: "sse list \<Rightarrow> hub \<Rightarrow> hub" where
  "publish evs h = fold broadcast_or_not evs h"

text \<open>What starts the loop: a first cycle and a first heartbeat.\<close>

definition poller_launch :: "(float64 \<Rightarrow> string) \<Rightarrow> time \<Rightarrow> string list \<Rightarrow> cycle \<Rightarrow> int \<Rightarrow> hub \<Rightarrow> poller \<Rightarrow> hub \<times> poller" where
  "poller_launch ft now order c runs h p =
     (case poll_once ft now order c p of (evs, p1) \<Rightarrow> snd (emit_heartbeat now runs (publish evs h) p1))"

section \<open>What one cycle announces\<close>

text \<open>Both halves of a cycle compare the status of things with the last one seen: one definition of that comparison.\<close>

definition see_status :: "('a \<Rightarrow> string) \<Rightarrow> ('a \<Rightarrow> string) \<Rightarrow> (nat \<Rightarrow> string \<Rightarrow> 'a \<Rightarrow> sse list) \<Rightarrow> 'a \<Rightarrow>
    sse list \<times> (string \<times> string) list \<times> nat \<Rightarrow> sse list \<times> (string \<times> string) list \<times> nat" where
  "see_status key st mk r x =
     (case x of (evs, m, n) \<Rightarrow>
        if map_of m (key r) = Some (st r) then x
        else (evs @ mk (Suc n) (last_status m (key r)) r, AList.update (key r) (st r) m, Suc n))"

lemma fold_see_status_keeps:
  "i \<notin> key ` set rs \<Longrightarrow> map_of (fst (snd (fold (see_status key st mk) rs x))) i = map_of (fst (snd x)) i"
proof (induction rs arbitrary: x)
  case (Cons r rs)
  have "map_of (fst (snd (see_status key st mk r x))) i = map_of (fst (snd x)) i"
    using Cons.prems by (cases x) (auto simp: see_status_def update_conv')
  then show ?case using Cons by simp
qed simp

lemma fold_see_status_records:
  "distinct (map key rs) \<Longrightarrow> r \<in> set rs \<Longrightarrow> map_of (fst (snd (fold (see_status key st mk) rs x))) (key r) = Some (st r)"
proof (induction rs arbitrary: x)
  case (Cons a rs)
  show ?case
  proof (cases "r = a")
    case True
    have "map_of (fst (snd (see_status key st mk a x))) (key a) = Some (st a)"
      by (cases x) (simp add: see_status_def update_conv')
    moreover have "key a \<notin> key ` set rs" using Cons.prems by simp
    ultimately show ?thesis using True by (simp add: fold_see_status_keeps)
  next
    case False
    then show ?thesis using Cons by simp
  qed
qed simp

lemma fold_see_status_quiet:
  "\<forall>r\<in>set rs. map_of m (key r) = Some (st r) \<Longrightarrow> fold (see_status key st mk) rs (evs, m, n) = (evs, m, n)"
  by (induction rs) (simp_all add: see_status_def)

lemma in_set_enumerate_member: "(k, x) \<in> set (enumerate n (filter P xs)) \<Longrightarrow> x \<in> set xs"
  by (metis enumerate_eq_zip filter_is_subset set_zip_rightD subsetD)

lemma fold_see_status_events:
  assumes "distinct (map key rs)"
  shows "fold (see_status key st mk) rs (evs, m, n) =
     (evs @ concat (map (\<lambda>(k, r). mk k (last_status m (key r)) r) (enumerate (Suc n) (filter (\<lambda>r. map_of m (key r) \<noteq> Some (st r)) rs))),
      fst (snd (fold (see_status key st mk) rs (evs, m, n))),
      n + length (filter (\<lambda>r. map_of m (key r) \<noteq> Some (st r)) rs))"
  using assms
proof (induction rs arbitrary: evs m n)
  case (Cons r rs)
  show ?case
  proof (cases "map_of m (key r) = Some (st r)")
    case True
    then have "see_status key st mk r (evs, m, n) = (evs, m, n)" by (simp add: see_status_def)
    then show ?thesis using True Cons.IH[of evs m n] Cons.prems by simp
  next
    case False
    let ?m = "AList.update (key r) (st r) m"
    have s: "see_status key st mk r (evs, m, n) = (evs @ mk (Suc n) (last_status m (key r)) r, ?m, Suc n)"
      using False by (simp add: see_status_def)
    have same: "map_of ?m (key x) = map_of m (key x)" if "x \<in> set rs" for x
    proof -
      have "key x \<noteq> key r" using that Cons.prems by (metis distinct.simps(2) image_eqI list.simps(9) list.set_map)
      then show ?thesis by (simp add: update_conv')
    qed
    then have f: "filter (\<lambda>r. map_of ?m (key r) \<noteq> Some (st r)) rs = filter (\<lambda>r. map_of m (key r) \<noteq> Some (st r)) rs"
      by (intro filter_cong) auto
    let ?c = "filter (\<lambda>r. map_of m (key r) \<noteq> Some (st r)) rs"
    have last: "last_status ?m (key x) = last_status m (key x)" if "x \<in> set rs" for x
      using same[OF that] by (simp only: last_status_def)
    have l: "map (\<lambda>(k, r). mk k (last_status ?m (key r)) r) (enumerate (Suc (Suc n)) ?c) =
        map (\<lambda>(k, r). mk k (last_status m (key r)) r) (enumerate (Suc (Suc n)) ?c)"
      by (intro map_cong refl) (auto simp only: split: prod.splits dest!: in_set_enumerate_member simp: last)
    show ?thesis using False Cons.prems Cons.IH[of "evs @ mk (Suc n) (last_status m (key r)) r" ?m "Suc n"]
      by (simp add: s f l)
  qed
qed simp

definition announce_run :: "(float64 \<Rightarrow> string) \<Rightarrow> time \<Rightarrow> nat \<Rightarrow> string \<Rightarrow> bff_run \<Rightarrow> sse list" where
  "announce_run ft now n prev r = events_of (run_event ft (''run-'' @ br_id r @ ''-'' @ itoa (int n)) r prev now)"

definition announce_build :: "time \<Rightarrow> nat \<Rightarrow> string \<Rightarrow> bff_artifact \<Rightarrow> sse list" where
  "announce_build now n prev a = events_of (build_event (''build-'' @ ba_id a @ ''-'' @ itoa (int n)) a prev now)"

lemma see_run_step:
  "see_run ft now r (evs, p) =
     (case see_status br_id br_status (announce_run ft now) r (evs, po_runs p, po_seq p) of (e, m, n) \<Rightarrow> (e, p\<lparr>po_runs := m, po_seq := n\<rparr>))"
  by (simp add: see_run_def see_status_def announce_run_def Let_def)

lemma see_build_step:
  "see_build now a (evs, p) =
     (case see_status ba_id ba_status (announce_build now) a (evs, po_builds p, po_seq p) of
        (e, m, n) \<Rightarrow> (e, p\<lparr>po_builds := m, po_seq := n\<rparr>))"
  by (simp add: see_build_def see_status_def announce_build_def Let_def)

lemma fold_see_run:
  "fold (see_run ft now) rs (evs, p) =
     (case fold (see_status br_id br_status (announce_run ft now)) rs (evs, po_runs p, po_seq p) of
        (e, m, n) \<Rightarrow> (e, p\<lparr>po_runs := m, po_seq := n\<rparr>))"
proof (induction rs arbitrary: evs p)
  case (Cons r rs)
  show ?case
    by (cases "see_status br_id br_status (announce_run ft now) r (evs, po_runs p, po_seq p)") (simp add: see_run_step Cons)
qed simp

lemma fold_see_build:
  "fold (see_build now) as (evs, p) =
     (case fold (see_status ba_id ba_status (announce_build now)) as (evs, po_builds p, po_seq p) of
        (e, m, n) \<Rightarrow> (e, p\<lparr>po_builds := m, po_seq := n\<rparr>))"
proof (induction as arbitrary: evs p)
  case (Cons a as)
  show ?case
    by (cases "see_status ba_id ba_status (announce_build now) a (evs, po_builds p, po_seq p)") (simp add: see_build_step Cons)
qed simp

lemma observed_keyed: "observed_runs c i = Some r \<Longrightarrow> br_id r = i"
proof -
  have "foldl (\<lambda>m r. m(br_id r \<mapsto> r)) m rs i = Some r \<Longrightarrow> (\<And>j x. m j = Some x \<Longrightarrow> br_id x = j) \<Longrightarrow> br_id r = i" for m rs
  proof (induction rs arbitrary: m)
    case (Cons a rs)
    show ?case by (rule Cons.IH [of "m(br_id a \<mapsto> a)"]) (use Cons.prems in \<open>auto split: if_splits\<close>)
  qed simp
  from this [of Map.empty "answered (cy_running c) @ answered (cy_queued c) @ answered (cy_recent c)"]
  show "observed_runs c i = Some r \<Longrightarrow> br_id r = i" unfolding observed_runs_def by blast
qed

lemma ranged_keys: "range_order (observed_runs c) order \<Longrightarrow> map br_id (ranged (observed_runs c) order) = order"
  using observed_keyed [of c] by (auto simp: ranged_def range_order_def dom_def intro!: map_idI)

lemma ranged_distinct: "range_order (observed_runs c) order \<Longrightarrow> distinct (map br_id (ranged (observed_runs c) order))"
  by (simp add: ranged_keys) (simp add: range_order_def)

lemma ranged_set:
  assumes "range_order (observed_runs c) order"
  shows "set (ranged (observed_runs c) order) = ran (observed_runs c)"
proof -
  have "set (ranged (observed_runs c) order) = (\<lambda>i. the (observed_runs c i)) ` dom (observed_runs c)"
    using assms by (simp add: ranged_def range_order_def)
  then show ?thesis by (auto simp: ran_def dom_def image_def)
qed

text \<open>
  C29: one polling cycle announces exactly the changes, in whatever order it walks through the runs.  There is one event per
  observed run whose status differs from the last one seen, in that order, and then one per artifact whose status does (if the
  event can be built at all), the artifacts in the order of the answers; each carries the status seen before and a number of
  its own, counted on without gaps.  No change is announced twice and none is left out, and the same answers a second time,
  in any order, announce nothing.  The artifacts of one cycle have different identifiers.
\<close>
theorem poller_announces_changes:
  assumes "distinct (map ba_id (observed_builds c))" and "range_order (observed_runs c) order"
    and "range_order (observed_runs c) order'" and "poll_once ft now order c p = (evs, p')"
  shows "\<exists>rs bs. distinct (map br_id rs) \<and>
         set rs = {r. \<exists>i. observed_runs c i = Some r \<and> map_of (po_runs p) i \<noteq> Some (br_status r)} \<and>
         subseq (map br_id rs) order \<and>
         bs = filter (\<lambda>a. map_of (po_builds p) (ba_id a) \<noteq> Some (ba_status a)) (observed_builds c) \<and>
         evs = concat (map (\<lambda>(n, r). events_of (run_event ft (''run-'' @ br_id r @ ''-'' @ itoa (int n)) r
                  (last_status (po_runs p) (br_id r)) now)) (enumerate (Suc (po_seq p)) rs)) @
               concat (map (\<lambda>(n, a). events_of (build_event (''build-'' @ ba_id a @ ''-'' @ itoa (int n)) a
                  (last_status (po_builds p) (ba_id a)) now)) (enumerate (Suc (po_seq p + length rs)) bs)) \<and>
         po_seq p' = po_seq p + length rs + length bs \<and> poll_once ft now' order' c p' = ([], p')"
proof -
  let ?rs = "ranged (observed_runs c) order"
  let ?as = "observed_builds c"
  define rs where "rs = filter (\<lambda>r. map_of (po_runs p) (br_id r) \<noteq> Some (br_status r)) ?rs"
  define bs where "bs = filter (\<lambda>a. map_of (po_builds p) (ba_id a) \<noteq> Some (ba_status a)) ?as"
  note dist = ranged_distinct [OF assms(2)]
  obtain e m n where r: "fold (see_status br_id br_status (announce_run ft now)) ?rs ([], po_runs p, po_seq p) = (e, m, n)"
    by (metis prod_cases3)
  obtain e' m' n' where b: "fold (see_status ba_id ba_status (announce_build now)) ?as (e, po_builds p, n) = (e', m', n')"
    by (metis prod_cases3)
  have re: "e = concat (map (\<lambda>(k, r). announce_run ft now k (last_status (po_runs p) (br_id r)) r) (enumerate (Suc (po_seq p)) rs)) \<and>
      n = po_seq p + length rs"
    using fold_see_status_events[OF dist, of br_status "announce_run ft now" "[]" "po_runs p" "po_seq p"]
    by (simp add: r rs_def)
  have be: "e' = e @ concat (map (\<lambda>(k, a). announce_build now k (last_status (po_builds p) (ba_id a)) a) (enumerate (Suc n) bs)) \<and>
      n' = n + length bs"
    using fold_see_status_events[OF assms(1), of ba_status "announce_build now" e "po_builds p" n]
    by (simp add: b bs_def)
  have res: "evs = e' \<and> p' = p\<lparr>po_runs := m, po_builds := m', po_seq := n'\<rparr>"
    using assms(4) by (auto simp: poll_once_def fold_see_run fold_see_build r b)
  have "\<forall>r\<in>set ?rs. map_of m (br_id r) = Some (br_status r)"
    using fold_see_status_records[OF dist, of _ br_status "announce_run ft now" "([], po_runs p, po_seq p)"] by (simp add: r)
  then have mr: "\<forall>r\<in>set (ranged (observed_runs c) order'). map_of m (br_id r) = Some (br_status r)"
    by (simp add: ranged_set assms(2,3))
  have mb: "\<forall>a\<in>set ?as. map_of m' (ba_id a) = Some (ba_status a)"
    using fold_see_status_records[OF assms(1), of _ ba_status "announce_build now" "(e, po_builds p, n)"] by (simp add: b)
  have again: "poll_once ft now' order' c p' = ([], p')"
    using fold_see_status_quiet[OF mr, of "announce_run ft now'" "[]" n'] fold_see_status_quiet[OF mb, of "announce_build now'" "[]" n']
    by (simp add: poll_once_def fold_see_run fold_see_build res)
  have "set rs = {r. \<exists>i. observed_runs c i = Some r \<and> map_of (po_runs p) i \<noteq> Some (br_status r)}"
    using observed_keyed [of c] by (auto simp: rs_def ranged_set [OF assms(2)] ran_def)
  moreover have "distinct (map br_id rs)" using dist by (simp add: rs_def distinct_map_filter)
  moreover have "subseq (map br_id rs) order"
    using subseq_map [OF subseq_filter_left, of br_id _ ?rs] ranged_keys [OF assms(2)] by (simp add: rs_def)
  ultimately show ?thesis using res re be again bs_def
    by (intro exI [of _ rs] exI [of _ bs]) (auto simp: announce_run_def announce_build_def)
qed

text \<open>Two runs that have just finished and a build that was seen before.\<close>

definition sample_bff_run :: "string \<Rightarrow> bff_run" where
  "sample_bff_run i = no_run\<lparr>br_id := i, br_suite := ''s'', br_status := ''COMPLETED'', br_exit := Some 0\<rparr>"

definition sample_build :: bff_artifact where
  "sample_build = no_artifact\<lparr>ba_id := ''a'', ba_suite := ''s'', ba_status := ''READY''\<rparr>"

definition sample_cycle :: cycle where
  "sample_cycle = \<lparr>cy_running = Inr [], cy_queued = Inl ErrInternal, cy_recent = Inr [sample_bff_run ''r1'', sample_bff_run ''r2''],
     cy_suites = Inr [no_suite\<lparr>bs_id := ''s''\<rparr>], cy_artifacts = (\<lambda>s. Inr [sample_build])\<rparr>"

definition sample_poller :: poller where
  "sample_poller = new_poller\<lparr>po_runs := [(''r1'', ''RUNNING'')], po_builds := [(''a'', ''READY'')]\<rparr>"

lemma two_found:
  "a \<noteq> b \<Longrightarrow> (\<exists>i. [a \<mapsto> u, b \<mapsto> v] i = Some x \<and> Q i x) \<longleftrightarrow> (x = u \<and> Q a u) \<or> (x = v \<and> Q b v)"
  by auto

theorem poller_announces_changes_witness:
  "po_seq (snd (poll_once (\<lambda>_. ''0'') 1 [''r2'', ''r1''] sample_cycle sample_poller)) = 2 \<and>
   fst (poll_once (\<lambda>_. ''0'') 2 [''r1'', ''r2''] sample_cycle
     (snd (poll_once (\<lambda>_. ''0'') 1 [''r2'', ''r1''] sample_cycle sample_poller))) = []"
proof -
  have o: "observed_builds sample_cycle = [sample_build]"
    and r: "observed_runs sample_cycle = [''r1'' \<mapsto> sample_bff_run ''r1'', ''r2'' \<mapsto> sample_bff_run ''r2'']"
    by (simp_all add: observed_builds_def observed_runs_def sample_cycle_def answered_def sample_bff_run_def)
  have d: "distinct (map ba_id (observed_builds sample_cycle))" by (simp add: o)
  have ord: "range_order (observed_runs sample_cycle) [''r2'', ''r1'']" "range_order (observed_runs sample_cycle) [''r1'', ''r2'']"
    by (auto simp: range_order_def r)
  have "br_id (sample_bff_run i) = i" for i by (simp add: sample_bff_run_def)
  from this [of "''r1''"] this [of "''r2''"] have two: "sample_bff_run ''r1'' \<noteq> sample_bff_run ''r2''" by auto
  have st: "br_status (sample_bff_run i) = ''COMPLETED''" for i by (simp add: sample_bff_run_def)
  have seen: "map_of (po_runs sample_poller) i \<noteq> Some ''COMPLETED''" for i by (simp add: sample_poller_def)
  have changed: "(\<exists>i. observed_runs sample_cycle i = Some x \<and> map_of (po_runs sample_poller) i \<noteq> Some (br_status x)) \<longleftrightarrow>
      x = sample_bff_run ''r1'' \<or> x = sample_bff_run ''r2''" for x
    unfolding r by (subst two_found [where Q = "\<lambda>i x. map_of (po_runs sample_poller) i \<noteq> Some (br_status x)"]) (auto simp: st seen)
  note announced = poller_announces_changes [OF d ord prod.collapse [symmetric], where ft = "\<lambda>_. ''0''" and now = 1 and p = sample_poller
    and now' = 2]
  show ?thesis
    using announced
    apply (elim exE conjE)
    subgoal premises prems for rs bs
    proof -
      have "bs = []" unfolding prems(4) by (simp add: o sample_poller_def sample_build_def)
      have "set rs = {sample_bff_run ''r1'', sample_bff_run ''r2''}"
        unfolding prems(2) changed by auto
      then have "card (set rs) = 2" using two by (simp add: card_insert_if)
      moreover have "card (set rs) = length rs" using prems(1) by (simp add: distinct_map distinct_card)
      ultimately have "length rs = 2" by simp
      then show ?thesis using \<open>bs = []\<close> unfolding prems(7) prems(6) by (simp add: sample_poller_def new_poller_def)
    qed
    done
qed

end
