(* ===== verification/Oidc_Client.thy ===== *)
theory Oidc_Client
  imports Token_Verifier Go_Url Bff_Base
begin

text \<open>
  The client of the BFF for the identity provider (\<^verbatim>\<open>internal/bff/adapters/outbound/keycloak/client.go\<close>): the login address,
  the exchange, renewal and revocation of tokens, and the verification of logout tokens.  What the provider answers to a
  request is an argument, \<open>None\<close> when the request or the reading of its body fails; \<open>ok\<close> tells whether an address can be
  parsed, \<open>rsa\<close> is the signature check of \<open>crypto/rsa\<close>.  The forms that are sent are definitions of their own.
\<close>

section \<open>Configuration\<close>

record oidc_cfg =
  oc_base :: string
  oc_realm :: string
  oc_client :: string
  oc_secret :: string
  oc_token_url :: string
  oc_revoke_url :: string
  oc_jwks_url :: string
  oc_auth_url :: string
  oc_issuer :: string
  oc_cache_ttl :: duration
  oc_timeout :: duration

definition or_else :: "string \<Rightarrow> bool \<Rightarrow> string \<Rightarrow> string" where
  "or_else s known d = (if s = '''' \<and> known then d else s)"

definition new_oidc_client :: "oidc_cfg \<Rightarrow> oidc_cfg" where
  "new_oidc_client c =
     (let base = trim_right_char (oc_base c) (CHR ''/'');
          known = (base \<noteq> '''' \<and> oc_realm c \<noteq> '''');
          realm = base @ ''/realms/'' @ oc_realm c
      in c\<lparr>oc_token_url := or_else (oc_token_url c) known (realm @ ''/protocol/openid-connect/token''),
           oc_revoke_url := or_else (oc_revoke_url c) known (realm @ ''/protocol/openid-connect/revoke''),
           oc_jwks_url := or_else (oc_jwks_url c) known (realm @ ''/protocol/openid-connect/certs''),
           oc_auth_url := or_else (oc_auth_url c) known (realm @ ''/protocol/openid-connect/auth''),
           oc_issuer := or_else (oc_issuer c) known realm,
           oc_cache_ttl := (if oc_cache_ttl c \<le> 0 then hour else oc_cache_ttl c)\<rparr>)"

definition oidc_timeout :: "oidc_cfg \<Rightarrow> duration" where
  "oidc_timeout c = (if 0 < oc_timeout c then oc_timeout c else 5 * second)"

section \<open>The login address\<close>

record pkce =
  pk_verifier :: string
  pk_challenge :: string
  pk_method :: string

text \<open>From the 32 random bytes; \<open>None\<close> when there are none to be had.\<close>

definition generate_pkce :: "string option \<Rightarrow> pkce bff" where
  "generate_pkce drawn =
     (case drawn of
        None \<Rightarrow> Inl ErrInternal
      | Some b \<Rightarrow> let v = raw_url_encode b
                 in Inr \<lparr>pk_verifier = v, pk_challenge = raw_url_encode (sha256_bytes v), pk_method = ''S256''\<rparr>)"

definition auth_params :: "oidc_cfg \<Rightarrow> string \<Rightarrow> string \<Rightarrow> string \<Rightarrow> pkce \<Rightarrow> string list \<Rightarrow> (string \<times> string) list" where
  "auth_params c state nonce redirect pk scopes =
     [(''response_type'', ''code''), (''client_id'', oc_client c), (''redirect_uri'', redirect), (''state'', state)] @
     (if nonce \<noteq> '''' then [(''nonce'', nonce)] else []) @
     [(''code_challenge'', pk_challenge pk), (''code_challenge_method'', pk_method pk),
      (''scope'', join '' '' (''openid'' # filter (\<lambda>s. s \<noteq> '''' \<and> s \<noteq> ''openid'') (map trim_space scopes)))]"

definition build_authorization_url :: "oidc_cfg \<Rightarrow> string \<Rightarrow> string \<Rightarrow> string \<Rightarrow> pkce option \<Rightarrow> string list \<Rightarrow> string bff" where
  "build_authorization_url c state nonce redirect pk scopes =
     (if oc_auth_url c = '''' then Inl ErrInternal
      else case pk of
        None \<Rightarrow> Inl ErrInvalidParameter
      | Some p \<Rightarrow>
          if pk_challenge p = '''' then Inl ErrInvalidParameter
          else Inr (oc_auth_url c @ (if contains (oc_auth_url c) ''?'' then ''&'' else ''?'') @
                    encode_values (auth_params c state nonce redirect p scopes)))"

section \<open>Tokens\<close>

record token_response =
  tr_access :: string
  tr_refresh :: string
  tr_id :: string
  tr_type :: string
  tr_expires_in :: int
  tr_scope :: string

definition put_response :: "string \<Rightarrow> json \<Rightarrow> token_response \<Rightarrow> token_response option" where
  "put_response n v t =
     (if n = ''access_token'' then map_option (\<lambda>s. t\<lparr>tr_access := s\<rparr>) (get_text v (tr_access t))
      else if n = ''refresh_token'' then map_option (\<lambda>s. t\<lparr>tr_refresh := s\<rparr>) (get_text v (tr_refresh t))
      else if n = ''id_token'' then map_option (\<lambda>s. t\<lparr>tr_id := s\<rparr>) (get_text v (tr_id t))
      else if n = ''token_type'' then map_option (\<lambda>s. t\<lparr>tr_type := s\<rparr>) (get_text v (tr_type t))
      else if n = ''expires_in'' then map_option (\<lambda>i. t\<lparr>tr_expires_in := i\<rparr>) (get_int64 v (tr_expires_in t))
      else map_option (\<lambda>s. t\<lparr>tr_scope := s\<rparr>) (get_text v (tr_scope t)))"

definition decode_response :: "string \<Rightarrow> token_response option" where
  "decode_response s =
     (case json_text s of
        None \<Rightarrow> None
      | Some v \<Rightarrow> decode_struct [''access_token'', ''refresh_token'', ''id_token'', ''token_type'', ''expires_in'', ''scope''] put_response v
          \<lparr>tr_access = '''', tr_refresh = '''', tr_id = '''', tr_type = '''', tr_expires_in = 0, tr_scope = ''''\<rparr>)"

definition with_secret :: "oidc_cfg \<Rightarrow> (string \<times> string) list \<Rightarrow> (string \<times> string) list" where
  "with_secret c ps = ps @ (if oc_secret c \<noteq> '''' then [(''client_secret'', oc_secret c)] else [])"

definition exchange_form :: "oidc_cfg \<Rightarrow> string \<Rightarrow> string \<Rightarrow> string \<Rightarrow> string" where
  "exchange_form c cd verifier redirect =
     encode_values (with_secret c [(''grant_type'', ''authorization_code''), (''client_id'', oc_client c), (''code'', cd),
       (''code_verifier'', verifier), (''redirect_uri'', redirect)])"

definition refresh_form :: "oidc_cfg \<Rightarrow> string \<Rightarrow> string" where
  "refresh_form c refresh =
     encode_values (with_secret c [(''grant_type'', ''refresh_token''), (''client_id'', oc_client c), (''refresh_token'', refresh)])"

definition revoke_form :: "oidc_cfg \<Rightarrow> string \<Rightarrow> string \<Rightarrow> string" where
  "revoke_form c tok hint =
     encode_values (with_secret c ([(''client_id'', oc_client c), (''token'', tok)] @ (if hint \<noteq> '''' then [(''token_type_hint'', hint)] else [])))"

text \<open>\<open>refused\<close> is the error of an answer 400 or 401.\<close>

definition token_answered :: "(string \<Rightarrow> bool) \<Rightarrow> string \<Rightarrow> bff_err \<Rightarrow> answer \<Rightarrow> token_response bff" where
  "token_answered ok url refused ans =
     (if \<not> ok url then Inl ErrInternal
      else case ans of
        None \<Rightarrow> Inl ErrInternal
      | Some (status, body) \<Rightarrow>
          if status \<noteq> 200 then Inl (if status = 400 \<or> status = 401 then refused else ErrInternal)
          else (case decode_response body of None \<Rightarrow> Inl ErrInternal | Some t \<Rightarrow> Inr t))"

definition exchange_code :: "(string \<Rightarrow> bool) \<Rightarrow> oidc_cfg \<Rightarrow> string \<Rightarrow> string \<Rightarrow> string \<Rightarrow> answer \<Rightarrow> token_response bff" where
  "exchange_code ok c cd verifier redirect ans =
     (if cd = '''' \<or> verifier = '''' \<or> redirect = '''' then Inl ErrInvalidParameter
      else token_answered ok (oc_token_url c) ErrBffUnauthorized ans)"

definition refresh_token :: "(string \<Rightarrow> bool) \<Rightarrow> oidc_cfg \<Rightarrow> string \<Rightarrow> answer \<Rightarrow> token_response bff" where
  "refresh_token ok c refresh ans =
     (if refresh = '''' then Inl ErrInvalidParameter else token_answered ok (oc_token_url c) ErrSessionExpired ans)"

definition revoke_token :: "(string \<Rightarrow> bool) \<Rightarrow> oidc_cfg \<Rightarrow> string \<Rightarrow> answer \<Rightarrow> unit bff" where
  "revoke_token ok c tok ans =
     (if tok = '''' then Inl ErrInvalidParameter
      else if \<not> ok (oc_revoke_url c) then Inl ErrInternal
      else case ans of
        None \<Rightarrow> Inl ErrInternal
      | Some (status, _) \<Rightarrow> if status \<noteq> 200 then Inl ErrInternal else Inr ())"

section \<open>Logout tokens\<close>

text \<open>A value without a type: every number in it has to fit a \<open>float64\<close>.\<close>

fun any_value_ok :: "json \<Rightarrow> bool" where
  "any_value_ok (J_num n) = (parse_float n \<noteq> None)"
| "any_value_ok (J_arr vs) = list_all any_value_ok vs"
| "any_value_ok (J_obj ms) = list_all (\<lambda>m. any_value_ok (snd m)) ms"
| "any_value_ok v = True"

definition get_any :: "json \<Rightarrow> json option" where
  "get_any v = (if any_value_ok v then Some v else None)"

record logout_payload =
  lp_iss :: string
  lp_sub :: string
  lp_aud :: json
  lp_iat :: int
  lp_jti :: string
  lp_sid :: string
  lp_nonce :: "string option"
  lp_events :: "(string \<times> json) list option"

definition get_events :: "json \<Rightarrow> (string \<times> json) list option \<Rightarrow> (string \<times> json) list option option" where
  "get_events v old =
     (case v of
        J_null \<Rightarrow> Some None
      | J_obj ms \<Rightarrow>
          if list_all (\<lambda>m. any_value_ok (snd m)) ms
          then Some (Some (foldl (\<lambda>es (k, w). AList.update k w es) (case old of None \<Rightarrow> [] | Some es \<Rightarrow> es) ms)) else None
      | _ \<Rightarrow> None)"

definition put_logout :: "string \<Rightarrow> json \<Rightarrow> logout_payload \<Rightarrow> logout_payload option" where
  "put_logout n v p =
     (if n = ''iss'' then map_option (\<lambda>s. p\<lparr>lp_iss := s\<rparr>) (get_text v (lp_iss p))
      else if n = ''sub'' then map_option (\<lambda>s. p\<lparr>lp_sub := s\<rparr>) (get_text v (lp_sub p))
      else if n = ''aud'' then map_option (\<lambda>w. p\<lparr>lp_aud := w\<rparr>) (get_any v)
      else if n = ''iat'' then map_option (\<lambda>i. p\<lparr>lp_iat := i\<rparr>) (get_int64 v (lp_iat p))
      else if n = ''jti'' then map_option (\<lambda>s. p\<lparr>lp_jti := s\<rparr>) (get_text v (lp_jti p))
      else if n = ''sid'' then map_option (\<lambda>s. p\<lparr>lp_sid := s\<rparr>) (get_text v (lp_sid p))
      else if n = ''nonce'' then map_option (\<lambda>s. p\<lparr>lp_nonce := s\<rparr>) (get_ptr get_text '''' v)
      else map_option (\<lambda>e. p\<lparr>lp_events := e\<rparr>) (get_events v (lp_events p)))"

definition decode_logout :: "string \<Rightarrow> logout_payload option" where
  "decode_logout s =
     (case json_text s of
        None \<Rightarrow> None
      | Some v \<Rightarrow> decode_struct [''iss'', ''sub'', ''aud'', ''iat'', ''jti'', ''sid'', ''nonce'', ''events''] put_logout v
          \<lparr>lp_iss = '''', lp_sub = '''', lp_aud = J_null, lp_iat = 0, lp_jti = '''', lp_sid = '''', lp_nonce = None, lp_events = None\<rparr>)"

definition audience :: "json \<Rightarrow> string list" where
  "audience v =
     (case v of
        J_str s \<Rightarrow> [s]
      | J_arr vs \<Rightarrow> concat (map (\<lambda>w. case w of J_str s \<Rightarrow> [s] | _ \<Rightarrow> []) vs)
      | _ \<Rightarrow> [])"

record logout_claims =
  lc_issuer :: string
  lc_subject :: string
  lc_audience :: "string list"
  lc_sid :: string
  lc_jti :: string
  lc_issued :: time
  lc_events :: "(string \<times> json) list"

definition logout_event :: string where
  "logout_event = ''http://schemas.openid.net/event/backchannel-logout''"

definition check_logout :: "oidc_cfg \<Rightarrow> logout_payload \<Rightarrow> logout_claims bff" where
  "check_logout c p =
     (if oc_issuer c \<noteq> '''' \<and> lp_iss p \<noteq> oc_issuer c then Inl ErrBffUnauthorized
      else if oc_client c \<noteq> '''' \<and> \<not> List.member (audience (lp_aud p)) (oc_client c) then Inl ErrBffUnauthorized
      else if lp_nonce p \<noteq> None then Inl ErrInvalidParameter
      else case lp_events p of
        None \<Rightarrow> Inl ErrInvalidParameter
      | Some es \<Rightarrow>
          if map_of es logout_event = None then Inl ErrInvalidParameter
          else Inr \<lparr>lc_issuer = lp_iss p, lc_subject = lp_sub p, lc_audience = audience (lp_aud p), lc_sid = lp_sid p,
                    lc_jti = lp_jti p, lc_issued = from_unix (lp_iat p), lc_events = es\<rparr>)"

text \<open>The keys: \<open>t1\<close> and \<open>t2\<close> are the times of the two looks into the cache, \<open>t3\<close> the stamp of a refresh.\<close>

definition oidc_refresh_jwks :: "(string \<Rightarrow> bool) \<Rightarrow> oidc_cfg \<Rightarrow> time \<Rightarrow> answer \<Rightarrow> verifier option" where
  "oidc_refresh_jwks ok c t3 ans =
     (if \<not> ok (oc_jwks_url c) then None
      else case ans of
        None \<Rightarrow> None
      | Some (status, body) \<Rightarrow>
          if status \<noteq> 200 then None
          else map_option (\<lambda>ks. \<lparr>tv_keys = public_keys ks, tv_last_fetch = t3\<rparr>) (decode_jwks body))"

definition cached_key :: "oidc_cfg \<Rightarrow> time \<Rightarrow> string \<Rightarrow> verifier \<Rightarrow> rsa_key option" where
  "cached_key c t kid st = (if time_sub t (tv_last_fetch st) < oc_cache_ttl c then map_of (tv_keys st) kid else None)"

definition get_public_key ::
  "(string \<Rightarrow> bool) \<Rightarrow> oidc_cfg \<Rightarrow> time \<Rightarrow> time \<Rightarrow> time \<Rightarrow> answer \<Rightarrow> string \<Rightarrow> verifier \<Rightarrow> rsa_key option \<times> verifier" where
  "get_public_key ok c t1 t2 t3 ans kid st =
     (case cached_key c t1 kid st of
        Some k \<Rightarrow> (Some k, st)
      | None \<Rightarrow>
          (case cached_key c t2 kid st of
             Some k \<Rightarrow> (Some k, st)
           | None \<Rightarrow>
               (case oidc_refresh_jwks ok c t3 ans of
                  None \<Rightarrow> (None, st)
                | Some st' \<Rightarrow> (map_of (tv_keys st') kid, st'))))"

definition check_logout_signed ::
  "(rsa_key \<Rightarrow> string \<Rightarrow> string \<Rightarrow> bool) \<Rightarrow> oidc_cfg \<Rightarrow> rsa_key \<Rightarrow> string \<Rightarrow> string \<Rightarrow> string \<Rightarrow> logout_claims bff" where
  "check_logout_signed rsa c key h p s =
     (case raw_url_decode s of
        None \<Rightarrow> Inl ErrBffUnauthorized
      | Some sig \<Rightarrow>
          if \<not> rsa key (sha256_bytes (h @ ''.'' @ p)) sig then Inl ErrBffUnauthorized
          else case raw_url_decode p of
            None \<Rightarrow> Inl ErrBffUnauthorized
          | Some bytes \<Rightarrow> (case decode_logout bytes of None \<Rightarrow> Inl ErrBffUnauthorized | Some payload \<Rightarrow> check_logout c payload))"

definition verify_logout_token ::
  "(rsa_key \<Rightarrow> string \<Rightarrow> string \<Rightarrow> bool) \<Rightarrow> (string \<Rightarrow> bool) \<Rightarrow> oidc_cfg \<Rightarrow> time \<Rightarrow> time \<Rightarrow> time \<Rightarrow> answer \<Rightarrow> string \<Rightarrow> verifier
    \<Rightarrow> logout_claims bff \<times> verifier" where
  "verify_logout_token rsa ok c t1 t2 t3 ans raw st =
     (case split_on (CHR ''.'') raw of
        [h, p, s] \<Rightarrow>
          (case raw_url_decode h of
             None \<Rightarrow> (Inl ErrBffUnauthorized, st)
           | Some hb \<Rightarrow>
               (case decode_header hb of
                  None \<Rightarrow> (Inl ErrBffUnauthorized, st)
                | Some hdr \<Rightarrow>
                    if jh_alg hdr \<noteq> ''RS256'' then (Inl ErrBffUnauthorized, st)
                    else (case get_public_key ok c t1 t2 t3 ans (jh_kid hdr) st of
                            (None, st') \<Rightarrow> (Inl ErrBffUnauthorized, st')
                          | (Some key, st') \<Rightarrow> (check_logout_signed rsa c key h p s, st'))))
      | _ \<Rightarrow> (Inl ErrBffUnauthorized, st))"

end
