(* ===== verification/Bff_Auth.thy ===== *)
theory Bff_Auth
  imports Oidc_Client Session_Service Go_Time Sha256
begin

text \<open>
  The session guard of the BFF (\<^verbatim>\<open>internal/bff/adapters/inbound/rest/session_middleware.go\<close>) and its handlers for login,
  callback, logout and the profile (\<^verbatim>\<open>auth_handler.go\<close>), over any session store and any answers of the identity provider.
  A request is what the handlers read of it; an answer is a status, the cookies that are set, in order, and a body.
\<close>

section \<open>Cookies and answers\<close>

text \<open>Every cookie is \<open>HttpOnly\<close>; a negative age deletes it.\<close>

record set_cookie =
  ck_name :: string
  ck_value :: string
  ck_age :: int
  ck_path :: string
  ck_domain :: string
  ck_secure :: bool
  ck_lax :: bool

datatype auth_body = Error_text string | Status_ok | Profile client_session | Redirect string

record auth_answer =
  aa_status :: int
  aa_cookies :: "set_cookie list"
  aa_body :: auth_body

section \<open>The provider\<close>

record oidc_port =
  op_pkce :: "string option \<Rightarrow> pkce bff"
  op_auth_url :: "string \<Rightarrow> string \<Rightarrow> string \<Rightarrow> pkce option \<Rightarrow> string list \<Rightarrow> string bff"
  op_exchange :: "string \<Rightarrow> string \<Rightarrow> string \<Rightarrow> token_response bff"
  op_refresh :: "string \<Rightarrow> token_response bff"
  op_verify_logout :: "string \<Rightarrow> logout_claims bff"

text \<open>The port of \<open>KeycloakClient\<close>, given the answers to the one request that an operation makes and the cached keys.\<close>

definition keycloak_port ::
  "(rsa_key \<Rightarrow> string \<Rightarrow> string \<Rightarrow> bool) \<Rightarrow> (string \<Rightarrow> bool) \<Rightarrow> oidc_cfg \<Rightarrow> time \<Rightarrow> time \<Rightarrow> time \<Rightarrow> answer \<Rightarrow> verifier \<Rightarrow> oidc_port" where
  "keycloak_port rsa ok c t1 t2 t3 ans st =
     \<lparr>op_pkce = generate_pkce, op_auth_url = build_authorization_url c, op_exchange = (\<lambda>cd v r. exchange_code ok c cd v r ans),
      op_refresh = (\<lambda>r. refresh_token ok c r ans), op_verify_logout = (\<lambda>raw. fst (verify_logout_token rsa ok c t1 t2 t3 ans raw st))\<rparr>"

section \<open>Unverified claims\<close>

definition expiry_claim :: "string \<Rightarrow> int option" where
  "expiry_claim s = (case json_text s of None \<Rightarrow> None | Some v \<Rightarrow> decode_struct [''exp''] (\<lambda>_ w e. get_int64 w e) v 0)"

definition token_expiring_soon :: "time \<Rightarrow> duration \<Rightarrow> string \<Rightarrow> bool" where
  "token_expiring_soon now window tok =
     (case split_on (CHR ''.'') tok of
        [_, p, _] \<Rightarrow>
          (case raw_url_decode p of
             None \<Rightarrow> False
           | Some bytes \<Rightarrow> (case expiry_claim bytes of None \<Rightarrow> False | Some e \<Rightarrow> if e \<le> 0 then False else from_unix e < now + window))
      | _ \<Rightarrow> False)"

record login_claims =
  lg_sub :: string
  lg_username :: string
  lg_email :: string
  lg_sid :: string
  lg_roles :: "string list"
  lg_resources :: "(string \<times> string list) list"

definition put_login :: "string \<Rightarrow> json \<Rightarrow> login_claims \<Rightarrow> login_claims option" where
  "put_login n v l =
     (if n = ''sub'' then map_option (\<lambda>s. l\<lparr>lg_sub := s\<rparr>) (get_text v (lg_sub l))
      else if n = ''preferred_username'' then map_option (\<lambda>s. l\<lparr>lg_username := s\<rparr>) (get_text v (lg_username l))
      else if n = ''email'' then map_option (\<lambda>s. l\<lparr>lg_email := s\<rparr>) (get_text v (lg_email l))
      else if n = ''sid'' then map_option (\<lambda>s. l\<lparr>lg_sid := s\<rparr>) (get_text v (lg_sid l))
      else if n = ''realm_access'' then map_option (\<lambda>r. l\<lparr>lg_roles := r\<rparr>) (decode_roles v (lg_roles l))
      else map_option (\<lambda>r. l\<lparr>lg_resources := r\<rparr>) (get_resources v (lg_resources l)))"

definition parse_jwt_claims :: "string \<Rightarrow> login_claims option" where
  "parse_jwt_claims tok =
     (case split_on (CHR ''.'') tok of
        [_, p, _] \<Rightarrow>
          (case raw_url_decode p of
             None \<Rightarrow> None
           | Some bytes \<Rightarrow>
               (case json_text bytes of
                  None \<Rightarrow> None
                | Some v \<Rightarrow> decode_struct [''sub'', ''preferred_username'', ''email'', ''sid'', ''realm_access'', ''resource_access''] put_login v
                    \<lparr>lg_sub = '''', lg_username = '''', lg_email = '''', lg_sid = '''', lg_roles = [], lg_resources = []\<rparr>))
      | _ \<Rightarrow> None)"

section \<open>SessionMiddleware\<close>

text \<open>What one request draws and reads: the nonces of the two writes, the times of the lookup, of its own tests and of the rotation.\<close>

record gate_inputs =
  gi_nonces :: nonces
  gi_get :: "time \<times> time \<times> time"
  gi_expired :: time
  gi_soon :: time
  gi_rotate_nonces :: nonces
  gi_rotate :: "time \<times> time \<times> time"

text \<open>\<open>Refuse True\<close> also deletes the cookie; \<open>Let_in\<close> has the session of the context and the \<open>Authorization\<close> header, if it is set.\<close>

datatype gate = Refuse bool | Let_in client_session "string option"

definition gate_ttl :: "token_response \<Rightarrow> client_session \<Rightarrow> duration" where
  "gate_ttl t s =
     (let ttl = wrap64 (tr_expires_in t * second) in if ttl \<le> 0 then time_sub (ses_expires s) (ses_updated s) else ttl)"

definition let_in :: "client_session \<Rightarrow> gate" where
  "let_in s = Let_in s (if ses_access s \<noteq> '''' then Some (''Bearer '' @ ses_access s) else None)"

definition renew :: "session_cfg \<Rightarrow> 'st store_port \<Rightarrow> (string \<Rightarrow> token_response bff) option \<Rightarrow> gate_inputs \<Rightarrow> client_session \<Rightarrow> 'st
    \<Rightarrow> gate \<times> 'st" where
  "renew sc store oidc inp s st =
     (if ses_access s \<noteq> '''' \<and> token_expiring_soon (gi_soon inp) (60 * second) (ses_access s) then
        (case oidc of
           None \<Rightarrow> (let_in s, st)
         | Some refresh \<Rightarrow>
             if ses_refresh s = '''' then (let_in s, st)
             else (case refresh (ses_refresh s) of
                     Inl e \<Rightarrow> (Refuse True, snd (revoke_session store (ses_id s) st))
                   | Inr t \<Rightarrow>
                       (case gi_rotate inp of (r1, r2, r3) \<Rightarrow>
                          (case rotate_session_tokens sc store (gi_rotate_nonces inp) r1 r2 r3
                              \<lparr>rt_session = ses_id s, rt_access = tr_access t, rt_refresh = tr_refresh t, rt_id_token = tr_id t, rt_ttl = gate_ttl t s\<rparr> st of
                             (Inl _, st') \<Rightarrow> (let_in s, st')
                           | (Inr s', st') \<Rightarrow> (let_in s', st')))))
      else (let_in s, st))"

definition session_middleware ::
  "session_cfg \<Rightarrow> 'st store_port \<Rightarrow> (string \<Rightarrow> token_response bff) option \<Rightarrow> gate_inputs \<Rightarrow> string option \<Rightarrow> 'st \<Rightarrow> gate \<times> 'st" where
  "session_middleware sc store oidc inp cookie st =
     (case cookie of
        None \<Rightarrow> (Refuse False, st)
      | Some i \<Rightarrow>
          if i = '''' then (Refuse False, st)
          else (case gi_get inp of (g1, g2, g3) \<Rightarrow>
                  (case get_session sc store (gi_nonces inp) g1 g2 g3 i st of
                     (Inl _, st') \<Rightarrow> (Refuse True, st')
                   | (Inr s, st') \<Rightarrow> if session_expired (gi_expired inp) s then (Refuse True, st') else renew sc store oidc inp s st')))"

definition guard_cookie_name :: "string \<Rightarrow> string" where
  "guard_cookie_name n = (if n = '''' then ''vuhive_session'' else n)"

text \<open>The answer of a refusal.\<close>

definition refusal :: "string \<Rightarrow> bool \<Rightarrow> auth_answer" where
  "refusal name clear =
     \<lparr>aa_status = 401,
      aa_cookies = (if clear then [\<lparr>ck_name = name, ck_value = '''', ck_age = - 1, ck_path = ''/'', ck_domain = '''', ck_secure = True, ck_lax = False\<rparr>] else []),
      aa_body = Error_text ''unauthorized''\<rparr>"

section \<open>AuthHandler\<close>

record handler_cfg =
  hc_cookie :: string
  hc_path :: string
  hc_domain :: string
  hc_secure :: bool
  hc_redirect :: string
  hc_post_login :: string
  hc_ttl :: duration

definition new_auth_handler :: "handler_cfg \<Rightarrow> handler_cfg" where
  "new_auth_handler c =
     c\<lparr>hc_cookie := (if hc_cookie c = '''' then ''vuhive_session'' else hc_cookie c),
       hc_path := (if hc_path c = '''' then ''/'' else hc_path c),
       hc_post_login := (if hc_post_login c = '''' then ''/'' else hc_post_login c),
       hc_ttl := (if hc_ttl c \<le> 0 then 24 * hour else hc_ttl c)\<rparr>"

definition handler_cookie :: "handler_cfg \<Rightarrow> bool \<Rightarrow> string \<Rightarrow> string \<Rightarrow> int \<Rightarrow> set_cookie" where
  "handler_cookie c lax n v age =
     \<lparr>ck_name = n, ck_value = v, ck_age = age, ck_path = hc_path c, ck_domain = hc_domain c, ck_secure = hc_secure c, ck_lax = lax\<rparr>"

definition hex_text :: "string \<Rightarrow> string" where
  "hex_text s = concat (map (\<lambda>c. [Sha256.hex_digit (code c div 16), Sha256.hex_digit (code c mod 16)]) s)"

definition failure :: "int \<Rightarrow> string \<Rightarrow> auth_answer" where
  "failure status text = \<lparr>aa_status = status, aa_cookies = [], aa_body = Error_text text\<rparr>"

text \<open>The random bytes are those of the verifier, the state and the nonce.\<close>

definition login :: "handler_cfg \<Rightarrow> oidc_port option \<Rightarrow> string option \<Rightarrow> string \<Rightarrow> string \<Rightarrow> auth_answer" where
  "login c oidc drawn state_bytes nonce_bytes =
     (case oidc of
        None \<Rightarrow> failure 500 ''oidc client not configured''
      | Some p \<Rightarrow>
          (case op_pkce p drawn of
             Inl _ \<Rightarrow> failure 500 ''failed generating pkce''
           | Inr pk \<Rightarrow>
               (case op_auth_url p (hex_text state_bytes) (hex_text nonce_bytes) (hc_redirect c) (Some pk)
                   [''openid'', ''profile'', ''email'', ''roles''] of
                  Inl _ \<Rightarrow> failure 500 ''failed building authorization url''
                | Inr url \<Rightarrow>
                    \<lparr>aa_status = 302,
                     aa_cookies = [handler_cookie c True ''vuhive_auth_state'' (hex_text state_bytes) 600,
                       handler_cookie c True ''vuhive_auth_verifier'' (pk_verifier pk) 600,
                       handler_cookie c True ''vuhive_auth_nonce'' (hex_text nonce_bytes) 600],
                     aa_body = Redirect url\<rparr>)))"

record auth_request =
  aq_query :: "string \<Rightarrow> string"
  aq_form :: "string \<Rightarrow> string"
  aq_cookies :: "string \<rightharpoonup> string"

definition cookie_text :: "auth_request \<Rightarrow> string \<Rightarrow> string" where
  "cookie_text q n = (case aq_cookies q n of None \<Rightarrow> '''' | Some v \<Rightarrow> v)"

text \<open>The user, the session at the provider and the roles, from the identity token or else the access token.\<close>

definition login_identity :: "token_response \<Rightarrow> string \<times> string \<times> string list" where
  "login_identity t =
     (case parse_jwt_claims (if tr_id t = '''' then tr_access t else tr_id t) of
        None \<Rightarrow> (''user'', '''', [])
      | Some l \<Rightarrow>
          (if lg_username l \<noteq> '''' then lg_username l else if lg_sub l \<noteq> '''' then lg_sub l else ''user'', lg_sid l, lg_roles l))"

definition login_ttl :: "handler_cfg \<Rightarrow> token_response \<Rightarrow> duration" where
  "login_ttl c t = (let ttl = wrap64 (tr_expires_in t * second) in if ttl \<le> 0 then hc_ttl c else ttl)"

definition login_command :: "handler_cfg \<Rightarrow> string \<Rightarrow> token_response \<Rightarrow> session_cmd" where
  "login_command c uuid t =
     (case login_identity t of (user, sid, roles) \<Rightarrow>
        \<lparr>sn_session = uuid, sn_user = user, sn_sid = sid, sn_access = tr_access t, sn_refresh = tr_refresh t, sn_id_token = tr_id t,
         sn_roles = roles, sn_ttl = login_ttl c t, sn_metadata = []\<rparr>)"

definition cleared_cookies :: "handler_cfg \<Rightarrow> set_cookie list" where
  "cleared_cookies c =
     map (\<lambda>n. handler_cookie c False n '''' (- 1)) [''vuhive_auth_state'', ''vuhive_auth_verifier'', ''vuhive_auth_nonce'']"

text \<open>Without a provider the exchange panics, which the recovery of the router answers.\<close>

definition callback ::
  "handler_cfg \<Rightarrow> session_cfg \<Rightarrow> 'st store_port \<Rightarrow> oidc_port option \<Rightarrow> nonces \<Rightarrow> time \<Rightarrow> string \<Rightarrow> auth_request \<Rightarrow> 'st \<Rightarrow> auth_answer \<times> 'st" where
  "callback c sc store oidc n now uuid q st =
     (let saved = cookie_text q ''vuhive_auth_state''; verifier = cookie_text q ''vuhive_auth_verifier'';
          clear = (\<lambda>a. a\<lparr>aa_cookies := cleared_cookies c @ aa_cookies a\<rparr>)
      in if saved = '''' \<or> saved \<noteq> aq_query q ''state'' then (failure 400 ''invalid state parameter'', st)
         else if verifier = '''' then (failure 400 ''missing pkce verifier'', st)
         else if aq_query q ''code'' = '''' then (clear (failure 400 ''missing authorization code''), st)
         else case oidc of
           None \<Rightarrow> (clear (failure 500 ''internal server error''), st)
         | Some p \<Rightarrow>
             (case op_exchange p (aq_query q ''code'') verifier (hc_redirect c) of
                Inl _ \<Rightarrow> (clear (failure 401 ''code exchange failed''), st)
              | Inr t \<Rightarrow>
                  (case create_session sc store n now (login_command c uuid t) st of
                     (Inl _, st') \<Rightarrow> (clear (failure 500 ''failed creating session''), st')
                   | (Inr s, st') \<Rightarrow>
                       (clear \<lparr>aa_status = 302,
                          aa_cookies = [handler_cookie c True (hc_cookie c) (ses_id s) (float_to_int64 (duration_seconds (login_ttl c t)))],
                          aa_body = Redirect (hc_post_login c)\<rparr>, st'))))"

text \<open>The tokens that are sent for revocation come second.\<close>

definition logout ::
  "handler_cfg \<Rightarrow> session_cfg \<Rightarrow> 'st store_port \<Rightarrow> oidc_port option \<Rightarrow> nonces \<Rightarrow> time \<times> time \<times> time \<Rightarrow> auth_request \<Rightarrow> 'st
    \<Rightarrow> auth_answer \<times> string list \<times> 'st" where
  "logout c sc store oidc n ts q st =
     (let i = cookie_text q (hc_cookie c);
          answer = \<lparr>aa_status = 200, aa_cookies = [handler_cookie c True (hc_cookie c) '''' (- 1)], aa_body = Status_ok\<rparr>
      in if i = '''' then (answer, [], st)
         else case ts of (t1, t2, t3) \<Rightarrow>
           (case get_session sc store n t1 t2 t3 i st of
              (Inl _, st') \<Rightarrow> (answer, [], st')
            | (Inr s, st') \<Rightarrow>
                (answer, if oidc \<noteq> None \<and> ses_refresh s \<noteq> '''' then [ses_refresh s] else [], snd (revoke_session store (ses_id s) st'))))"

definition me :: "client_session option \<Rightarrow> auth_answer" where
  "me context =
     (case context of
        None \<Rightarrow> failure 401 ''unauthorized''
      | Some s \<Rightarrow> \<lparr>aa_status = 200, aa_cookies = [], aa_body = Profile s\<rparr>)"

definition backchannel_logout :: "'st store_port \<Rightarrow> oidc_port option \<Rightarrow> auth_request \<Rightarrow> 'st \<Rightarrow> auth_answer \<times> 'st" where
  "backchannel_logout store oidc q st =
     (let tok = aq_form q ''logout_token''; fine = \<lparr>aa_status = 200, aa_cookies = [], aa_body = Status_ok\<rparr>
      in if tok = '''' then (failure 400 ''missing logout_token'', st)
         else case oidc of
           None \<Rightarrow> (failure 500 ''oidc client not configured'', st)
         | Some p \<Rightarrow>
             (case op_verify_logout p tok of
                Inl _ \<Rightarrow> (failure 400 ''invalid logout_token'', st)
              | Inr l \<Rightarrow> if lc_sid l \<noteq> '''' then (fine, snd (revoke_by_sid store (lc_sid l) st)) else (fine, st)))"

end
