(* ===== verification/Bff_Auth_Safety.thy ===== *)
theory Bff_Auth_Safety
  imports Bff_Auth Session_Safety
begin

text \<open>
  What the session guard and the login handlers of the BFF promise: whom the guard lets in, what a login binds together,
  what a callback and a logout notice have to show, and why the program as it is wired never completes a login.
\<close>

section \<open>The guard\<close>

lemma slide_same:
  "slide sc t1 t2 t3 s = Inr (s', b) \<Longrightarrow> ses_id s' = ses_id s \<and> ses_user s' = ses_user s \<and> ses_roles s' = ses_roles s \<and>
    ses_access s' = ses_access s \<and> ses_refresh s' = ses_refresh s \<and> ses_sid s' = ses_sid s \<and> ses_created s' = ses_created s \<and>
    \<not> session_expired t1 s"
  by (auto simp: slide_def session_touch_def Let_def split: if_splits sum.splits)

lemma rotated_same:
  "rotated sc t1 t2 t3 cmd s = Inr s' \<Longrightarrow> ses_id s' = ses_id s \<and> ses_user s' = ses_user s \<and> ses_roles s' = ses_roles s \<and>
    ses_access s' = rt_access cmd \<and> ses_refresh s' = rt_refresh cmd \<and> rt_access cmd \<noteq> '''' \<and> rt_refresh cmd \<noteq> ''''"
  by (auto simp: rotated_def rotate_tokens_def Let_def split: if_splits)

lemma keep_times_roles [simp]: "ses_roles (keep_times f s) = ses_roles s"
  by (simp add: keep_times_def)

text \<open>What a request that is let in shows about the stored session \<open>s0\<close>.\<close>

definition admitted :: "(string \<Rightarrow> token_response bff) option \<Rightarrow> client_session \<Rightarrow> client_session \<Rightarrow> string option \<Rightarrow> bool" where
  "admitted oidc s0 s hdr \<longleftrightarrow>
     ses_id s = ses_id s0 \<and> ses_user s = ses_user s0 \<and> ses_roles s = ses_roles s0 \<and>
     hdr = (if ses_access s \<noteq> '''' then Some (''Bearer '' @ ses_access s) else None) \<and>
     ((ses_access s = ses_access s0 \<and> ses_refresh s = ses_refresh s0) \<or>
      (\<exists>refresh t. oidc = Some refresh \<and> ses_refresh s0 \<noteq> '''' \<and> refresh (ses_refresh s0) = Inr t \<and>
         ses_access s = tr_access t \<and> ses_refresh s = tr_refresh t \<and> tr_access t \<noteq> ''''))"

context session_store begin

lemma get_session_found:
  assumes "ready st" and "drawn n" and "get_session sc store n t1 t2 t3 i st = (Inr s, st')"
  shows "\<exists>s0. i \<noteq> '''' \<and> view st i = Some s0 \<and> \<not> session_expired t1 s0 \<and> ready st' \<and>
    (\<exists>s1. view st' i = Some s1 \<and> ses_user s1 = ses_user s0 \<and> ses_roles s1 = ses_roles s0 \<and> ses_id s1 = i) \<and>
    ses_id s = i \<and> ses_user s = ses_user s0 \<and> ses_roles s = ses_roles s0 \<and> ses_access s = ses_access s0 \<and>
    ses_refresh s = ses_refresh s0"
proof -
  have i: "i \<noteq> ''''" using assms(3) by (auto simp: get_session_def)
  obtain s0 where v: "view st i = Some s0" using assms(3) i get_missing[OF assms(1) i] by (cases "view st i") (auto simp: get_session_def)
  have g: "st_get store i st = (Inr s0, st)" by (rule get_found[OF assms(1) i v])
  have id0: "ses_id s0 = i" by (rule view_id[OF assms(1) v])
  obtain s1 b where sl: "slide sc t1 t2 t3 s0 = Inr (s1, b)"
    using assms(3) i g by (cases "slide sc t1 t2 t3 s0") (auto simp: get_session_def)
  note same = slide_same[OF sl]
  show ?thesis
  proof (cases b)
    case False
    then have "s = s1 \<and> st' = st" using assms(3) i g sl by (simp add: get_session_def)
    then show ?thesis using same id0 i v assms(1) by auto
  next
    case True
    have st1: "storable s1" using storable_times[of s0 s1] same view_storable[OF assms(1) v] by simp
    obtain u where u: "st_update store n s1 st = (Inr (), u)" "ready u" "view u = (view st)(ses_id s1 \<mapsto> keep_times instant s1)"
      using update_present[OF assms(1,2) st1, of s0] same id0 v by auto
    have "s = s1 \<and> st' = u" using assms(3) i g sl True u(1) by (simp add: get_session_def)
    then show ?thesis using same id0 i v u by auto
  qed
qed

lemma rotate_found:
  assumes "ready st" and "rotate_session_tokens sc store n t1 t2 t3 cmd st = (Inr s, st')"
  shows "\<exists>s0. view st (rt_session cmd) = Some s0 \<and> ses_id s = ses_id s0 \<and> ses_user s = ses_user s0 \<and> ses_roles s = ses_roles s0 \<and>
    ses_access s = rt_access cmd \<and> ses_refresh s = rt_refresh cmd \<and> rt_access cmd \<noteq> ''''"
proof -
  have i: "rt_session cmd \<noteq> ''''" using assms(2) by (auto simp: rotate_session_tokens_def)
  obtain s0 where v: "view st (rt_session cmd) = Some s0"
    using assms(2) i get_missing[OF assms(1) i] by (cases "view st (rt_session cmd)") (auto simp: rotate_session_tokens_def)
  have g: "st_get store (rt_session cmd) st = (Inr s0, st)" by (rule get_found[OF assms(1) i v])
  obtain s1 where r: "rotated sc t1 t2 t3 cmd s0 = Inr s1"
    using assms(2) i g by (cases "rotated sc t1 t2 t3 cmd s0") (auto simp: rotate_session_tokens_def)
  have "s = s1" using assms(2) i g r by (auto simp: rotate_session_tokens_def then_do_def split: prod.splits sum.splits)
  then show ?thesis using v rotated_same[OF r] by auto
qed

lemma gate_admits:
  assumes "ready st" and "drawn (gi_nonces inp)" and "session_middleware sc store oidc inp cookie st = (Let_in s hdr, st')"
  shows "\<exists>i s0. cookie = Some i \<and> view st i = Some s0 \<and> \<not> session_expired (fst (gi_get inp)) s0 \<and> admitted oidc s0 s hdr"
proof -
  obtain i where c: "cookie = Some i" "i \<noteq> ''''"
    using assms(3) by (cases cookie) (auto simp: session_middleware_def split: if_splits)
  obtain g1 g2 g3 where g: "gi_get inp = (g1, g2, g3)" by (metis prod_cases3)
  obtain s1 st1 where s1: "get_session sc store (gi_nonces inp) g1 g2 g3 i st = (Inr s1, st1)"
    using assms(3) c g by (cases "get_session sc store (gi_nonces inp) g1 g2 g3 i st") (auto simp: session_middleware_def split: sum.splits)
  have ren: "renew sc store oidc inp s1 st1 = (Let_in s hdr, st')"
    using assms(3) c g s1 by (auto simp: session_middleware_def split: if_splits)
  obtain s0 s2 where s0: "view st i = Some s0" "\<not> session_expired g1 s0" "ready st1" "view st1 i = Some s2"
    "ses_user s2 = ses_user s0" "ses_roles s2 = ses_roles s0" "ses_id s2 = i" "ses_id s1 = i" "ses_user s1 = ses_user s0"
    "ses_roles s1 = ses_roles s0" "ses_access s1 = ses_access s0" "ses_refresh s1 = ses_refresh s0"
    using get_session_found[OF assms(1,2) s1] by blast
  have id0: "ses_id s0 = i" by (rule view_id[OF assms(1) s0(1)])
  have plain: "admitted oidc s0 s1 (if ses_access s1 \<noteq> '''' then Some (''Bearer '' @ ses_access s1) else None)"
    using s0 id0 by (simp add: admitted_def)
  have "admitted oidc s0 s hdr"
  proof (cases "Let_in s hdr = let_in s1")
    case True
    then show ?thesis using plain by (simp add: let_in_def)
  next
    case False
    obtain r1 r2 r3 where r: "gi_rotate inp = (r1, r2, r3)" by (metis prod_cases3)
    obtain refresh t where t: "oidc = Some refresh" "ses_refresh s1 \<noteq> ''''" "refresh (ses_refresh s1) = Inr t"
      "\<exists>st2. rotate_session_tokens sc store (gi_rotate_nonces inp) r1 r2 r3
          \<lparr>rt_session = ses_id s1, rt_access = tr_access t, rt_refresh = tr_refresh t, rt_id_token = tr_id t, rt_ttl = gate_ttl t s1\<rparr> st1
        = (Inr s, st2)" "Let_in s hdr = let_in s"
      using ren False r
      by (auto simp: renew_def let_in_def split: if_splits option.splits sum.splits prod.splits)
    then obtain st2 where "rotate_session_tokens sc store (gi_rotate_nonces inp) r1 r2 r3
          \<lparr>rt_session = ses_id s1, rt_access = tr_access t, rt_refresh = tr_refresh t, rt_id_token = tr_id t, rt_ttl = gate_ttl t s1\<rparr> st1
        = (Inr s, st2)" by blast
    from rotate_found[OF s0(3) this] show ?thesis
      using s0 id0 t by (auto simp: admitted_def let_in_def)
  qed
  then show ?thesis using c g s0 by auto
qed

lemma gate_evicts:
  assumes "ready st" and "drawn (gi_nonces inp)" and "get_session sc store (gi_nonces inp) g1 g2 g3 i st = (Inr s, st1)"
    and "gi_get inp = (g1, g2, g3)" and "\<not> session_expired (gi_expired inp) s" and "ses_access s \<noteq> ''''"
    and "token_expiring_soon (gi_soon inp) (60 * second) (ses_access s)" and "oidc = Some refresh" and "ses_refresh s \<noteq> ''''"
    and "refresh (ses_refresh s) = Inl e"
  shows "\<exists>st'. session_middleware sc store oidc inp (Some i) st = (Refuse True, st') \<and> view st' i = None"
proof -
  obtain s0 where f: "i \<noteq> ''''" "ready st1" "ses_id s = i" using get_session_found[OF assms(1-3)] by blast
  obtain st' where d: "st_delete store i st1 = (Inr (), st')" "view st' = (view st1)(i := None)"
    using delete[OF f(2)] by blast
  have "session_middleware sc store oidc inp (Some i) st = (Refuse True, st')"
    using f d assms by (simp add: session_middleware_def renew_def revoke_session_def)
  then show ?thesis using d by simp
qed

lemma sid_revoked: "ready st \<Longrightarrow> sid \<noteq> '''' \<Longrightarrow> view (snd (revoke_by_sid store sid st)) = drop_where (\<lambda>s. ses_sid s = sid) (view st)"
  using delete_sid[of st sid] by (auto simp: revoke_by_sid_def)

end

text \<open>
  C25: the guard lets in only live sessions.  With the PostgreSQL store at work, a request that passes had the identifier of
  a stored session that was not expired as its cookie; user and roles are those of that session, the header carries its
  access token or the one that the provider returned for its refresh token.  A request whose token is about to expire and
  whose renewal the provider refuses is turned away, and its session is gone.
\<close>
theorem session_gate_sound:
  assumes "pg_ready cipher st" and "drawn_nonces (gi_nonces inp)"
  shows "(session_middleware sc (postgres_port cipher) oidc inp cookie st = (Let_in s hdr, st') \<longrightarrow>
           (\<exists>i s0. cookie = Some i \<and> pg_view cipher st i = Some s0 \<and> \<not> session_expired (fst (gi_get inp)) s0 \<and> admitted oidc s0 s hdr)) \<and>
         (\<forall>i g st1 refresh e. gi_get inp = g \<longrightarrow> get_session sc (postgres_port cipher) (gi_nonces inp) (fst g) (fst (snd g)) (snd (snd g)) i st = (Inr s, st1) \<longrightarrow>
            \<not> session_expired (gi_expired inp) s \<longrightarrow> ses_access s \<noteq> '''' \<longrightarrow> ses_refresh s \<noteq> '''' \<longrightarrow>
            token_expiring_soon (gi_soon inp) (60 * second) (ses_access s) \<longrightarrow> oidc = Some refresh \<longrightarrow> refresh (ses_refresh s) = Inl e \<longrightarrow>
            (\<exists>st2. session_middleware sc (postgres_port cipher) oidc inp (Some i) st = (Refuse True, st2) \<and> pg_view cipher st2 i = None))"
  using postgres.gate_admits[OF assms] postgres.gate_evicts[OF assms] by (auto simp: prod_eq_iff)

section \<open>Logging in\<close>

lemma set_query_values: "ps \<noteq> [] \<Longrightarrow> set (query_values (encode_values ps)) = set ps"
  by (simp add: encode_values_roundtrip)

text \<open>The query of an address, what follows the first question mark.\<close>

definition url_query :: "string \<Rightarrow> string" where
  "url_query u = tl (dropWhile (\<lambda>c. c \<noteq> CHR ''?'') u)"

lemma split_on_both: "split_on c (s @ c # t) = split_on c s @ split_on c t"
proof (induction s)
  case (Cons a s)
  then show ?case using split_on_nonempty [of c s] by (cases "split_on c s") auto
qed simp

lemma query_values_both: "query_values (s @ ''&'' @ t) = query_values s @ query_values t"
  using split_on_both [of "CHR ''&''" s t] by (simp add: query_values_def)

lemma contains_char: "contains s [c] \<longleftrightarrow> c \<in> set s"
  by (auto simp: contains_def sublist_def in_set_conv_decomp)

lemma url_query_joined:
  "query_values (url_query (u @ (if contains u ''?'' then ''&'' else ''?'') @ params)) =
     (if CHR ''?'' \<in> set u then query_values (url_query u) else []) @ query_values params"
proof (cases "CHR ''?'' \<in> set u")
  case True
  then obtain a b where u: "u = a @ CHR ''?'' # b" "CHR ''?'' \<notin> set a" by (metis split_list_first)
  have q: "url_query (a @ CHR ''?'' # x) = x" for x
    unfolding url_query_def using u(2) by (subst dropWhile_append2) auto
  show ?thesis using True q [of b] q [of "b @ ''&'' @ params"] query_values_both [of b params]
    by (simp add: contains_char u(1))
next
  case False
  then have "url_query (u @ ''?'' @ params) = params"
    unfolding url_query_def by (subst dropWhile_append2) auto
  then show ?thesis using False by (simp add: contains_char)
qed

text \<open>
  C33: a login binds the browser to the request.  When the browser is sent to the provider, the address is the configured one
  with a query, behind a question mark or, when the configured address has a query already, behind an ampersand; the provider
  reads the configured parameters and then these: they ask for a code for this client with the state of the state cookie, the
  nonce of the nonce cookie and, as the challenge, the hash of the verifier of the verifier cookie.
\<close>
theorem login_binds_cookies:
  assumes "login c (Some (keycloak_port rsa ok oc t1 t2 t3 ans ks)) (Some drawn) state_bytes nonce_bytes = a" and "aa_status a = 302"
  shows "\<exists>url params verifier.
     aa_body a = Redirect url \<and>
     url = oc_auth_url oc @ (if CHR ''?'' \<in> set (oc_auth_url oc) then ''&'' else ''?'') @ params \<and>
     query_values (url_query url) =
       (if CHR ''?'' \<in> set (oc_auth_url oc) then query_values (url_query (oc_auth_url oc)) else []) @ query_values params \<and>
     {(''response_type'', ''code''), (''client_id'', oc_client oc), (''redirect_uri'', hc_redirect c), (''state'', hex_text state_bytes),
      (''code_challenge'', raw_url_encode (sha256_bytes verifier)), (''code_challenge_method'', ''S256''),
      (''scope'', ''openid profile email roles'')} \<subseteq> set (query_values params) \<and>
     (hex_text nonce_bytes \<noteq> '''' \<longrightarrow> (''nonce'', hex_text nonce_bytes) \<in> set (query_values params)) \<and>
     map (\<lambda>k. (ck_name k, ck_value k)) (aa_cookies a) =
       [(''vuhive_auth_state'', hex_text state_bytes), (''vuhive_auth_verifier'', verifier), (''vuhive_auth_nonce'', hex_text nonce_bytes)]"
proof -
  let ?v = "raw_url_encode drawn"
  let ?pk = "\<lparr>pk_verifier = ?v, pk_challenge = raw_url_encode (sha256_bytes ?v), pk_method = ''S256''\<rparr>"
  let ?ps = "auth_params oc (hex_text state_bytes) (hex_text nonce_bytes) (hc_redirect c) ?pk [''openid'', ''profile'', ''email'', ''roles'']"
  let ?sep = "if contains (oc_auth_url oc) ''?'' then ''&'' else ''?''"
  have pk: "generate_pkce (Some drawn) = Inr ?pk" by (simp add: generate_pkce_def Let_def)
  have u: "build_authorization_url oc (hex_text state_bytes) (hex_text nonce_bytes) (hc_redirect c) (Some ?pk)
      [''openid'', ''profile'', ''email'', ''roles''] = Inr (oc_auth_url oc @ ?sep @ encode_values ?ps)"
    using assms by (auto simp: login_def keycloak_port_def pk failure_def build_authorization_url_def split: if_splits)
  have a: "a = \<lparr>aa_status = 302,
       aa_cookies = [handler_cookie c True ''vuhive_auth_state'' (hex_text state_bytes) 600, handler_cookie c True ''vuhive_auth_verifier'' ?v 600,
         handler_cookie c True ''vuhive_auth_nonce'' (hex_text nonce_bytes) 600],
       aa_body = Redirect (oc_auth_url oc @ ?sep @ encode_values ?ps)\<rparr>"
    using assms(1) u by (simp add: login_def keycloak_port_def pk)
  have sc: "join '' '' (''openid'' # filter (\<lambda>s. s \<noteq> '''' \<and> s \<noteq> ''openid'') (map trim_space [''openid'', ''profile'', ''email'', ''roles''])) =
      ''openid profile email roles''" by code_simp
  have q: "set (query_values (encode_values ?ps)) = set ?ps" by (rule set_query_values) (simp add: auth_params_def)
  have "{(''response_type'', ''code''), (''client_id'', oc_client oc), (''redirect_uri'', hc_redirect c), (''state'', hex_text state_bytes),
      (''code_challenge'', raw_url_encode (sha256_bytes ?v)), (''code_challenge_method'', ''S256''),
      (''scope'', ''openid profile email roles'')} \<subseteq> set ?ps"
    unfolding auth_params_def sc by simp
  moreover have "hex_text nonce_bytes \<noteq> '''' \<longrightarrow> (''nonce'', hex_text nonce_bytes) \<in> set ?ps" by (simp add: auth_params_def)
  moreover have "?sep = (if CHR ''?'' \<in> set (oc_auth_url oc) then ''&'' else ''?'')" by (simp add: contains_char)
  ultimately show ?thesis using q a url_query_joined [of "oc_auth_url oc" "encode_values ?ps"]
    by (intro exI[of _ "oc_auth_url oc @ ?sep @ encode_values ?ps"] exI[of _ "encode_values ?ps"] exI[of _ ?v])
      (simp add: handler_cookie_def)
qed

text \<open>
  C26: a callback logs in only with the state of the browser's cookie, its verifier and a code that the provider exchanged
  for tokens; the session that is created has these tokens, the identity they name and their life time, and the cookie
  carries its identifier.  Any other callback leaves the sessions alone, unless storing the session fails; the nonce
  plays no part.
\<close>
theorem callback_sound:
  assumes "callback c sc store (Some p) n now uuid q st = (a, st')"
  shows "(aa_status a = 302 \<longrightarrow>
           (\<exists>v code t s k. aq_cookies q ''vuhive_auth_state'' = Some (aq_query q ''state'') \<and> aq_query q ''state'' \<noteq> '''' \<and>
              aq_cookies q ''vuhive_auth_verifier'' = Some v \<and> v \<noteq> '''' \<and> code = aq_query q ''code'' \<and> code \<noteq> '''' \<and>
              op_exchange p code v (hc_redirect c) = Inr t \<and>
              create_session sc store n now (login_command c uuid t) st = (Inr s, st') \<and>
              ses_id s = uuid \<and> ses_user s = fst (login_identity t) \<and>
              aa_cookies a = cleared_cookies c @ [k] \<and> ck_name k = hc_cookie c \<and> ck_value k = uuid \<and>
              ck_age k = float_to_int64 (duration_seconds (login_ttl c t)))) \<and>
         (aa_status a \<noteq> 302 \<longrightarrow> st' = st \<or> (\<exists>t e. create_session sc store n now (login_command c uuid t) st = (Inl e, st'))) \<and>
         (\<forall>x. callback c sc store (Some p) n now uuid (q\<lparr>aq_cookies := (aq_cookies q)(''vuhive_auth_nonce'' := x)\<rparr>) st = (a, st'))"
proof (intro conjI impI allI)
  have created: "ses_id s = uuid \<and> ses_user s = fst (login_identity t)"
    if "create_session sc store n now (login_command c uuid t) st = (Inr s, st1)" for s t st1
    using that
    by (auto simp: create_session_def login_command_def new_client_session_def Let_def then_do_def fresh_session_def
        split: sum.splits if_splits prod.splits)
  assume "aa_status a = 302"
  then show "\<exists>v code t s k. aq_cookies q ''vuhive_auth_state'' = Some (aq_query q ''state'') \<and> aq_query q ''state'' \<noteq> '''' \<and>
      aq_cookies q ''vuhive_auth_verifier'' = Some v \<and> v \<noteq> '''' \<and> code = aq_query q ''code'' \<and> code \<noteq> '''' \<and>
      op_exchange p code v (hc_redirect c) = Inr t \<and>
      create_session sc store n now (login_command c uuid t) st = (Inr s, st') \<and>
      ses_id s = uuid \<and> ses_user s = fst (login_identity t) \<and>
      aa_cookies a = cleared_cookies c @ [k] \<and> ck_name k = hc_cookie c \<and> ck_value k = uuid \<and>
      ck_age k = float_to_int64 (duration_seconds (login_ttl c t))"
    using assms created
    by (auto simp: callback_def Let_def failure_def cookie_text_def handler_cookie_def split: if_splits option.splits sum.splits prod.splits)
next
  assume "aa_status a \<noteq> 302"
  then show "st' = st \<or> (\<exists>t e. create_session sc store n now (login_command c uuid t) st = (Inl e, st'))"
    using assms by (auto simp: callback_def Let_def failure_def split: if_splits sum.splits prod.splits)
next
  fix x
  show "callback c sc store (Some p) n now uuid (q\<lparr>aq_cookies := (aq_cookies q)(''vuhive_auth_nonce'' := x)\<rparr>) st = (a, st')"
    unfolding assms[symmetric] by (simp add: callback_def cookie_text_def Let_def)
qed

text \<open>The handler as the program builds it: no secure flag, no domain and no address to return to are configured.\<close>

definition shipped_handler :: "string \<Rightarrow> duration \<Rightarrow> handler_cfg" where
  "shipped_handler cookie ttl =
     new_auth_handler \<lparr>hc_cookie = cookie, hc_path = ''/'', hc_domain = '''', hc_secure = False, hc_redirect = '''', hc_post_login = '''', hc_ttl = ttl\<rparr>"

text \<open>
  C38: the program as it is wired never completes a login.  It builds the handler without the address to return to, and the
  client of the provider refuses to exchange a code without one: no callback creates a session or leads into the
  application, whatever the provider would answer.
\<close>
theorem shipped_login_never_succeeds:
  "snd (callback (shipped_handler cookie ttl) sc store (Some (keycloak_port rsa ok oc t1 t2 t3 ans ks)) n now uuid q st) = st \<and>
   aa_status (fst (callback (shipped_handler cookie ttl) sc store (Some (keycloak_port rsa ok oc t1 t2 t3 ans ks)) n now uuid q st)) \<in> {400, 401}"
  by (simp add: callback_def Let_def failure_def shipped_handler_def new_auth_handler_def keycloak_port_def exchange_code_def)

section \<open>Logging out by notice\<close>

text \<open>
  The key that the client trusts for a key id: the cached one while the cache is fresh at one of the two looks into it, else
  the one that the provider has just published.
\<close>

definition trusted_key :: "(string \<Rightarrow> bool) \<Rightarrow> oidc_cfg \<Rightarrow> time \<Rightarrow> time \<Rightarrow> answer \<Rightarrow> verifier \<Rightarrow> string \<Rightarrow> rsa_key option" where
  "trusted_key ok c t1 t2 ans ks kid =
     (let fresh = (time_sub t1 (tv_last_fetch ks) < oc_cache_ttl c \<or> time_sub t2 (tv_last_fetch ks) < oc_cache_ttl c);
          published = (case ans of
            Some (status, body) \<Rightarrow>
              if ok (oc_jwks_url c) \<and> status = 200
              then (case decode_jwks body of Some jw \<Rightarrow> map_of (public_keys jw) kid | None \<Rightarrow> None) else None
          | None \<Rightarrow> None)
      in if fresh \<and> map_of (tv_keys ks) kid \<noteq> None then map_of (tv_keys ks) kid else published)"

lemma get_public_key_trusted:
  "fst (get_public_key ok c t1 t2 t3 ans kid ks) = trusted_key ok c t1 t2 ans ks kid"
  by (auto simp: get_public_key_def trusted_key_def cached_key_def oidc_refresh_jwks_def Let_def split: option.split prod.split)

text \<open>What a genuine notice is: signed with a key that the client trusts, addressed to this client, an end of a session.\<close>

definition genuine_notice ::
  "(rsa_key \<Rightarrow> string \<Rightarrow> string \<Rightarrow> bool) \<Rightarrow> (string \<Rightarrow> rsa_key option) \<Rightarrow> oidc_cfg \<Rightarrow> string \<Rightarrow> string \<Rightarrow> bool" where
  "genuine_notice rsa trusted c raw sid \<longleftrightarrow>
     (\<exists>h p s hb hdr sig key payload es.
        split_on (CHR ''.'') raw = [h, p, s] \<and> raw_url_decode h = Some hb \<and> decode_header hb = Some hdr \<and> jh_alg hdr = ''RS256'' \<and>
        trusted (jh_kid hdr) = Some key \<and> raw_url_decode s = Some sig \<and> rsa key (sha256_bytes (h @ ''.'' @ p)) sig \<and>
        Option.bind (raw_url_decode p) decode_logout = Some payload \<and>
        (oc_issuer c = '''' \<or> lp_iss payload = oc_issuer c) \<and> (oc_client c = '''' \<or> oc_client c \<in> set (audience (lp_aud payload))) \<and>
        lp_nonce payload = None \<and> lp_events payload = Some es \<and> logout_event \<in> fst ` set es \<and> sid = lp_sid payload)"

lemma check_logout_genuine:
  "(\<exists>l. check_logout c payload = Inr l \<and> lc_sid l = sid) \<longleftrightarrow>
     (oc_issuer c = '''' \<or> lp_iss payload = oc_issuer c) \<and> (oc_client c = '''' \<or> oc_client c \<in> set (audience (lp_aud payload))) \<and>
     lp_nonce payload = None \<and> (\<exists>es. lp_events payload = Some es \<and> logout_event \<in> fst ` set es) \<and> sid = lp_sid payload"
proof (cases "lp_events payload")
  case (Some es)
  have "map_of es logout_event = None \<longleftrightarrow> logout_event \<notin> fst ` set es" by (rule map_of_eq_None_iff)
  then show ?thesis using Some by (auto simp: check_logout_def)
qed (simp add: check_logout_def)

lemma check_signed_genuine:
  "(\<exists>l. check_logout_signed rsa c key h p s = Inr l \<and> lc_sid l = sid) \<longleftrightarrow>
     (\<exists>sig payload. raw_url_decode s = Some sig \<and> rsa key (sha256_bytes (h @ ''.'' @ p)) sig \<and>
        Option.bind (raw_url_decode p) decode_logout = Some payload \<and> (\<exists>l. check_logout c payload = Inr l \<and> lc_sid l = sid))"
proof (cases "raw_url_decode s")
  case (Some sig)
  show ?thesis
  proof (cases "raw_url_decode p")
    case (Some bytes)
    with \<open>raw_url_decode s = Some sig\<close> show ?thesis
      by (cases "decode_logout bytes") (simp_all add: check_logout_signed_def)
  qed (simp add: check_logout_signed_def Some)
qed (simp add: check_logout_signed_def)

lemma verified_genuine:
  "(\<exists>l. fst (verify_logout_token rsa ok c t1 t2 t3 ans raw ks) = Inr l \<and> lc_sid l = sid) \<longleftrightarrow>
     genuine_notice rsa (trusted_key ok c t1 t2 ans ks) c raw sid"
proof (cases "\<exists>h p s hb hdr. split_on (CHR ''.'') raw = [h, p, s] \<and> raw_url_decode h = Some hb \<and> decode_header hb = Some hdr \<and>
    jh_alg hdr = ''RS256''")
  case True
  then obtain h p s hb hdr where t: "split_on (CHR ''.'') raw = [h, p, s]" "raw_url_decode h = Some hb" "decode_header hb = Some hdr"
    "jh_alg hdr = ''RS256''" by blast
  obtain k ks1 where k: "get_public_key ok c t1 t2 t3 ans (jh_kid hdr) ks = (k, ks1)" by fastforce
  then have k': "trusted_key ok c t1 t2 ans ks (jh_kid hdr) = k" using get_public_key_trusted by (metis fst_conv)
  have v: "fst (verify_logout_token rsa ok c t1 t2 t3 ans raw ks) =
      (case k of None \<Rightarrow> Inl ErrBffUnauthorized | Some key \<Rightarrow> check_logout_signed rsa c key h p s)"
    using t k by (simp add: verify_logout_token_def split: option.split)
  show ?thesis
    unfolding v genuine_notice_def
    using t k' check_signed_genuine [of rsa c _ h p s sid]
    by (cases k) (simp, simp add: check_logout_genuine, blast)
next
  case False
  then have "fst (verify_logout_token rsa ok c t1 t2 t3 ans raw ks) = Inl ErrBffUnauthorized"
    by (auto simp: verify_logout_token_def split: list.split option.split)
  with False show ?thesis unfolding genuine_notice_def by auto
qed

text \<open>
  C27: a logout notice works exactly when it is genuine.  With the PostgreSQL store at work the answer is 200 if and only if the
  token was signed, under a key that is in the client's fresh cache or that the provider has just published, for this client and
  ends a session; then no session with the session identifier of the notice is left and all others are as before.  Any other
  answer leaves every session in place.
\<close>
theorem logout_notice_sound:
  assumes "pg_ready cipher st"
    and "backchannel_logout (postgres_port cipher) (Some (keycloak_port rsa ok c t1 t2 t3 ans ks)) q st = (a, st')"
  shows "(aa_status a = 200 \<longleftrightarrow>
       (\<exists>sid. genuine_notice rsa (trusted_key ok c t1 t2 ans ks) c (aq_form q ''logout_token'') sid)) \<and>
    (\<forall>sid. genuine_notice rsa (trusted_key ok c t1 t2 ans ks) c (aq_form q ''logout_token'') sid \<longrightarrow>
       pg_view cipher st' = (if sid = '''' then pg_view cipher st else drop_where (\<lambda>s. ses_sid s = sid) (pg_view cipher st))) \<and>
    (aa_status a \<noteq> 200 \<longrightarrow> st' = st)"
proof -
  obtain r ks' where v: "verify_logout_token rsa ok c t1 t2 t3 ans (aq_form q ''logout_token'') ks = (r, ks')" by fastforce
  note iff = verified_genuine [of rsa ok c t1 t2 t3 ans "aq_form q ''logout_token''" ks, unfolded v fst_conv]
  show ?thesis
  proof (cases r)
    case (Inl e)
    then have "\<not> genuine_notice rsa (trusted_key ok c t1 t2 ans ks) c (aq_form q ''logout_token'') sid" for sid
      using iff [of sid] by simp
    moreover have "aa_status a \<noteq> 200 \<and> st' = st"
      using Inl assms(2) v by (auto simp: backchannel_logout_def keycloak_port_def failure_def Let_def split: if_splits)
    ultimately show ?thesis by simp
  next
    case (Inr l)
    then have g: "genuine_notice rsa (trusted_key ok c t1 t2 ans ks) c (aq_form q ''logout_token'') sid \<longleftrightarrow> sid = lc_sid l" for sid
      using iff [of sid] by auto
    have "aq_form q ''logout_token'' \<noteq> ''''" using v Inr by (auto simp: verify_logout_token_def)
    then have "aa_status a = 200 \<and> st' = (if lc_sid l \<noteq> '''' then snd (revoke_by_sid (postgres_port cipher) (lc_sid l) st) else st)"
      using assms(2) v Inr by (auto simp: backchannel_logout_def keycloak_port_def Let_def split: if_splits)
    then show ?thesis
      using g postgres.sid_revoked[OF assms(1), of "lc_sid l"] by (cases "lc_sid l = ''''") simp_all
  qed
qed

section \<open>Examples\<close>

definition demo_oidc :: oidc_cfg where
  "demo_oidc = new_oidc_client \<lparr>oc_base = ''k/'', oc_realm = ''r'', oc_client = ''b'', oc_secret = '''', oc_token_url = '''', oc_revoke_url = '''',
     oc_jwks_url = '''', oc_auth_url = '''', oc_issuer = ''i'', oc_cache_ttl = 0, oc_timeout = 0\<rparr>"

definition demo_notice :: "string \<times> string \<times> string" where
  "demo_notice = (''eyJhbGciOiJSUzI1NiIsImtpZCI6ImsxIn0'', ''eyJpc3MiOiJpIiwiYXVkIjpbImIiXSwic2lkIjoiazEiLCJldmVudHMiOnsiaHR0cDovL3NjaGVtYXMub3BlbmlkLm5ldC9ldmVudC9iYWNrY2hhbm5lbC1sb2dvdXQiOnt9fX0'', ''c2ln'')"

definition notice_token :: string where
  "notice_token = (case demo_notice of (h, p, s) \<Rightarrow> h @ ''.'' @ p @ ''.'' @ s)"

lemma demo_notice_read:
  "map_option (\<lambda>b. map_option (check_logout demo_oidc) (decode_logout b)) (raw_url_decode (fst (snd demo_notice))) =
     Some (Some (Inr \<lparr>lc_issuer = ''i'', lc_subject = '''', lc_audience = [''b''], lc_sid = ''k1'', lc_jti = '''', lc_issued = from_unix 0,
       lc_events = [(logout_event, J_obj [])]\<rparr>))"
  "split_on (CHR ''.'') notice_token = [fst demo_notice, fst (snd demo_notice), snd (snd demo_notice)]"
  by code_simp+

definition demo_request :: auth_request where
  "demo_request = \<lparr>aq_query = (\<lambda>n. if n = ''state'' then ''x'' else if n = ''code'' then ''y'' else ''''),
     aq_form = (\<lambda>n. if n = ''logout_token'' then notice_token else ''''),
     aq_cookies = [''vuhive_auth_state'' \<mapsto> ''x'', ''vuhive_auth_verifier'' \<mapsto> ''v'']\<rparr>"

definition demo_provider :: oidc_port where
  "demo_provider = (keycloak_port (\<lambda>_ _ s. s = ''sig'') (\<lambda>_. True) demo_oidc 0 0 0 None (demo_cache 0))
     \<lparr>op_exchange := (\<lambda>_ _ _. Inr \<lparr>tr_access = ''at'', tr_refresh = ''rt'', tr_id = '''', tr_type = '''', tr_expires_in = 300, tr_scope = ''''\<rparr>)\<rparr>"

definition demo_handler :: handler_cfg where
  "demo_handler = (shipped_handler '''' hour)\<lparr>hc_redirect := ''b''\<rparr>"

theorem logout_notice_sound_witness:
  "\<exists>a st'. backchannel_logout (postgres_port None)
       (Some (keycloak_port (\<lambda>_ _ s. s = ''sig'') (\<lambda>_. True) demo_oidc 0 0 0 None (demo_cache 0))) demo_request demo_pg = (a, st') \<and>
     aa_status a = 200 \<and> pg_view None st' ''s1'' = None"
proof -
  let ?p = "keycloak_port (\<lambda>_ _ s. s = ''sig'') (\<lambda>_. True) demo_oidc 0 0 0 None (demo_cache 0)"
  obtain a st' where r: "backchannel_logout (postgres_port None) (Some ?p) demo_request demo_pg = (a, st')" by fastforce
  obtain hb hdr where h: "raw_url_decode (fst demo_notice) = Some hb" "decode_header hb = Some hdr"
    "hdr = \<lparr>jh_alg = ''RS256'', jh_typ = '''', jh_kid = ''k1''\<rparr>"
    using demo_header(1) by (auto simp: demo_notice_def)
  have k: "trusted_key (\<lambda>_. True) demo_oidc 0 0 None (demo_cache 0) ''k1'' = Some \<lparr>rk_n = 24930, rk_e = 99\<rparr>"
    by (simp add: trusted_key_def demo_cache_def demo_oidc_def new_oidc_client_def time_sub_def Let_def)
  have "raw_url_decode (snd (snd demo_notice)) = Some ''sig''" using demo_payload(2) by (simp add: demo_notice_def)
  moreover obtain payload where "Option.bind (raw_url_decode (fst (snd demo_notice))) decode_logout = Some payload"
    "\<exists>l. check_logout demo_oidc payload = Inr l \<and> lc_sid l = ''k1''"
    using demo_notice_read(1) by (auto simp: bind_eq_Some_conv)
  ultimately have g: "genuine_notice (\<lambda>_ _ s. s = ''sig'') (trusted_key (\<lambda>_. True) demo_oidc 0 0 None (demo_cache 0)) demo_oidc notice_token ''k1''"
    unfolding genuine_notice_def check_logout_genuine using demo_notice_read(2) h k by auto
  have f: "aq_form demo_request ''logout_token'' = notice_token" by (simp add: demo_request_def)
  from logout_notice_sound[OF demo_pg_ready r] g have l: "aa_status a = 200"
    "pg_view None st' = drop_where (\<lambda>s. ses_sid s = ''k1'') (pg_view None demo_pg)"
    unfolding f by auto
  have "pg_view None demo_pg ''s1'' = Some demo_session"
    using postgres.get[OF demo_pg_ready, of "''s1''"] demo_pg_get by (auto simp: postgres_port_def split: option.splits)
  then have "pg_view None st' ''s1'' = None" using l(2) by (simp add: drop_where_def demo_session_def)
  then show ?thesis using r l(1) by blast
qed

theorem callback_sound_witness:
  "\<exists>a st'. callback demo_handler demo_cfg memory_port (Some demo_provider) demo_nonces 0 ''s9'' demo_request [] = (a, st') \<and>
     aa_status a = 302 \<and> ck_value (last (aa_cookies a)) = ''s9'' \<and> mem_view st' ''s9'' \<noteq> None"
proof -
  obtain a st' where r: "callback demo_handler demo_cfg memory_port (Some demo_provider) demo_nonces 0 ''s9'' demo_request [] = (a, st')"
    by fastforce
  have st: "aa_status a = 302"
    using r by (auto simp: callback_def demo_handler_def shipped_handler_def new_auth_handler_def demo_request_def cookie_text_def
        demo_provider_def create_session_def login_command_def login_identity_def parse_jwt_claims_def new_client_session_def
        login_ttl_def memory_port_def mem_create_def Let_def wrap64_def demo_cfg_def new_session_service_def)
  obtain k t s where k: "aa_cookies a = cleared_cookies demo_handler @ [k]" "ck_value k = ''s9''"
    "create_session demo_cfg memory_port demo_nonces 0 (login_command demo_handler ''s9'' t) [] = (Inr s, st')" "ses_id s = ''s9''"
    using callback_sound[OF r] st by auto
  have "st' = [s]" using k(3) by (auto simp: create_session_def memory_port_def mem_create_def then_do_def Let_def split: sum.splits)
  then show ?thesis using r st k by (simp add: mem_view_def)
qed

theorem login_binds_cookies_witness:
  "\<exists>sep params. aa_body (login demo_handler (Some demo_provider) (Some ''abc'') ''s'' ''n'') = Redirect (oc_auth_url demo_oidc @ sep @ params) \<and>
     (''state'', ''73'') \<in> set (query_values params)"
proof -
  have h: "hex_text ''s'' = ''73''" by code_simp
  have u: "oc_auth_url demo_oidc \<noteq> ''''" by (simp add: demo_oidc_def new_oidc_client_def or_else_def trim_right_char_def Let_def)
  have c: "raw_url_encode (sha256_bytes v) \<noteq> ''''" for v
  proof
    assume "raw_url_encode (sha256_bytes v) = ''''"
    then have "raw_url_decode '''' = Some (sha256_bytes v)" using raw_url_roundtrip[of "sha256_bytes v"] by simp
    moreover have "raw_url_decode '''' = Some ''''" by code_simp
    ultimately show False using length_sha256_bytes[of v] by simp
  qed
  let ?p = "keycloak_port (\<lambda>_ _ s. s = ''sig'') (\<lambda>_. True) demo_oidc 0 0 0 None (demo_cache 0)"
  have s: "aa_status (login demo_handler (Some ?p) (Some ''abc'') ''s'' ''n'') = 302"
    using u c by (simp add: login_def keycloak_port_def generate_pkce_def build_authorization_url_def Let_def)
  have e: "login demo_handler (Some demo_provider) d x y = login demo_handler (Some ?p) d x y" for d x y
    by (simp add: login_def demo_provider_def keycloak_port_def split: sum.splits)
  show ?thesis using login_binds_cookies[OF refl s] unfolding e h by blast
qed

theorem session_gate_sound_witness:
  "\<exists>s hdr st'. session_middleware demo_cfg (postgres_port None) None
       \<lparr>gi_nonces = demo_nonces, gi_get = (2000, 2000, 2000), gi_expired = 2000, gi_soon = 2000, gi_rotate_nonces = demo_nonces,
        gi_rotate = (2000, 2000, 2000)\<rparr> (Some ''s1'') demo_pg = (Let_in s hdr, st') \<and>
     ses_user s = ''u1'' \<and> hdr = Some ''Bearer at''"
proof -
  let ?i = "\<lparr>gi_nonces = demo_nonces, gi_get = (2000, 2000, 2000), gi_expired = 2000, gi_soon = 2000, gi_rotate_nonces = demo_nonces,
        gi_rotate = (2000, 2000, 2000)\<rparr>"
  have g: "get_session demo_cfg (postgres_port None) demo_nonces 2000 2000 2000 ''s1'' demo_pg = (Inr demo_session, demo_pg)"
    using demo_pg_get
    by (simp add: get_session_def postgres_port_def slide_def demo_cfg_def new_session_service_def session_expired_def demo_session_def time_sub_def)
  have r: "session_middleware demo_cfg (postgres_port None) None ?i (Some ''s1'') demo_pg = (Let_in demo_session (Some ''Bearer at''), demo_pg)"
    using g by (simp add: session_middleware_def renew_def let_in_def session_expired_def demo_session_def token_expiring_soon_def)
  have "drawn_nonces (gi_nonces ?i)" by simp
  from session_gate_sound[OF demo_pg_ready this, of demo_cfg None "Some ''s1''" demo_session "Some ''Bearer at''" demo_pg] r
  obtain s0 where s0: "pg_view None demo_pg ''s1'' = Some s0" "admitted None s0 demo_session (Some ''Bearer at'')" by auto
  then have "ses_user demo_session = ''u1''" by (simp add: demo_session_def)
  then show ?thesis using r by blast
qed

end
