(* ===== verification/Static_Analyzer.thy ===== *)
theory Static_Analyzer
  imports Runner_Pod Go_Version
begin

text \<open>
  The static analyzer of uploaded suites (\<^verbatim>\<open>internal/domain/service/static_analyzer.go\<close>): the checks of the sources, the
  generated driver and the archive that is handed to the compiler.  The syntax tree that \<open>go/parser\<close> makes of a file is
  an argument; of a tree the model has what the analyzer looks at.  A map of files is taken in the order of its list.
\<close>

section \<open>Unpacked sources\<close>

text \<open>
  Uploaded sources as the static analyzer unpacks them (\<^verbatim>\<open>internal/domain/service/static_analyzer.go\<close>), and its reading
  of \<^verbatim>\<open>go.mod\<close>.  What the decompressors and the readers of the two archive formats of the standard library find in a
  text is an argument; names are resolved with the \<open>path\<close> package.  The map from names to contents is a list of pairs.
\<close>

section \<open>Archives\<close>

text \<open>
  An entry of a tar or zip archive, its content \<open>None\<close> when it cannot be read.  A tar archive ends properly or at an entry
  that cannot be read; a compressed stream or a directory of a zip archive may be no such thing at all.
\<close>

record arch_entry =
  ae_name :: string
  ae_dir :: bool
  ae_content :: "string option"

record arch_lib =
  al_gunzip_tar :: "string \<Rightarrow> (arch_entry list \<times> bool) option"
  al_bunzip_tar :: "string \<Rightarrow> arch_entry list \<times> bool"
  al_zip :: "string \<Rightarrow> arch_entry list option"

type_synonym source_files = "(string \<times> string) list"

definition clean_name :: "string \<Rightarrow> string" where
  "clean_name n = trim_prefix (clean_path n) ''/''"

fun unpack_entries :: "arch_entry list \<Rightarrow> source_files \<Rightarrow> source_files result" where
  "unpack_entries [] files = Inr files"
| "unpack_entries (e # es) files =
     (if ae_dir e then unpack_entries es files
      else case ae_content e of
        None \<Rightarrow> Inl ErrInvalidArchive
      | Some c \<Rightarrow> unpack_entries es (AList.update (clean_name (ae_name e)) c files))"

definition extract_tar :: "arch_entry list \<times> bool \<Rightarrow> source_files result" where
  "extract_tar t =
     (case t of (es, proper_end) \<Rightarrow>
        (case unpack_entries es [] of
           Inl e \<Rightarrow> Inl e
         | Inr files \<Rightarrow> if proper_end then Inr files else Inl ErrInvalidArchive))"

definition extract_tar_gz :: "arch_lib \<Rightarrow> string \<Rightarrow> source_files result" where
  "extract_tar_gz lib data = (case al_gunzip_tar lib data of None \<Rightarrow> Inl ErrInvalidArchive | Some t \<Rightarrow> extract_tar t)"

definition extract_tar_bz2 :: "arch_lib \<Rightarrow> string \<Rightarrow> source_files result" where
  "extract_tar_bz2 lib data = extract_tar (al_bunzip_tar lib data)"

definition extract_zip :: "arch_lib \<Rightarrow> string \<Rightarrow> source_files result" where
  "extract_zip lib data = (case al_zip lib data of None \<Rightarrow> Inl ErrInvalidArchive | Some es \<Rightarrow> unpack_entries es [])"

text \<open>\<open>None\<close> when the source cannot be read.\<close>

definition extract_archive :: "arch_lib \<Rightarrow> string option \<Rightarrow> source_files result" where
  "extract_archive lib source =
     (case source of
        None \<Rightarrow> Inl ErrInvalidArchive
      | Some data \<Rightarrow>
          if length data < 4 then Inl ErrInvalidArchive
          else if take 2 data = [CHR 0x1F, CHR 0x8B] then extract_tar_gz lib data
          else if take 3 data = ''BZh'' then extract_tar_bz2 lib data
          else if take 2 data = ''PK'' then extract_zip lib data
          else case extract_tar_gz lib data of
            Inr files \<Rightarrow> Inr files
          | Inl _ \<Rightarrow>
              (case extract_tar_bz2 lib data of
                 Inr files \<Rightarrow> Inr files
               | Inl _ \<Rightarrow> (case extract_zip lib data of Inr files \<Rightarrow> Inr files | Inl _ \<Rightarrow> Inl ErrInvalidArchive)))"

section \<open>Lines\<close>

text \<open>
  \<open>bufio.Scanner\<close>: the lines without their ends, up to one that does not fit the buffer of 64 KB, and whether there is
  such a line.
\<close>

definition drop_cr :: "string \<Rightarrow> string" where
  "drop_cr s = (if s \<noteq> [] \<and> last s = CHR 0x0D then butlast s else s)"

fun fitting_lines :: "string list \<Rightarrow> string list \<times> bool" where
  "fitting_lines [] = ([], False)"
| "fitting_lines [s] = (if s = '''' then ([], False) else if 65536 \<le> length s then ([], True) else ([drop_cr s], False))"
| "fitting_lines (s # ss) =
     (if 65536 \<le> length s then ([], True) else case fitting_lines ss of (ls, too_long) \<Rightarrow> (drop_cr s # ls, too_long))"

definition scan_lines :: "string \<Rightarrow> string list \<times> bool" where
  "scan_lines s = fitting_lines (split_on (CHR 0x0A) s)"

section \<open>go.mod\<close>

definition vuhive_module :: string where
  "vuhive_module = ''github.com/morphy76/vuhive''"

definition check_vuhive :: "string \<Rightarrow> bool \<times> bool \<Rightarrow> bool \<times> bool" where
  "check_vuhive line d =
     (case Go_Text.fields line of
        m # _ # _ \<Rightarrow>
          if m \<noteq> vuhive_module then d
          else if contains line ''// indirect'' then (fst d, True) else (True, snd d)
      | _ \<Rightarrow> d)"

record go_mod =
  gm_module :: string
  gm_version :: string
  gm_direct :: bool
  gm_indirect :: bool

definition second_field :: "string \<Rightarrow> string \<Rightarrow> string" where
  "second_field line old = (case Go_Text.fields line of _ # w # _ \<Rightarrow> w | _ \<Rightarrow> old)"

definition note_vuhive :: "string \<Rightarrow> go_mod \<Rightarrow> go_mod" where
  "note_vuhive line g =
     (case check_vuhive line (gm_direct g, gm_indirect g) of (d, i) \<Rightarrow> g\<lparr>gm_direct := d, gm_indirect := i\<rparr>)"

text \<open>The state has whether the line is in a block of requirements.\<close>

definition mod_line :: "string \<Rightarrow> bool \<times> go_mod \<Rightarrow> bool \<times> go_mod" where
  "mod_line raw st =
     (let line = trim_space raw; in_block = fst st; g = snd st
      in if line = '''' \<or> prefix ''//'' line then st
         else if prefix ''module '' line then (in_block, g\<lparr>gm_module := second_field line (gm_module g)\<rparr>)
         else if prefix ''go '' line then (in_block, g\<lparr>gm_version := second_field line (gm_version g)\<rparr>)
         else if line = ''require ('' then (True, g)
         else if in_block \<and> line = '')'' then (False, g)
         else if prefix ''require '' line \<and> \<not> in_block then (in_block, note_vuhive (trim_space (trim_prefix line ''require '')) g)
         else if in_block then (in_block, note_vuhive line g)
         else st)"

definition parse_go_mod :: "string \<Rightarrow> go_mod option" where
  "parse_go_mod data =
     (case scan_lines data of (ls, too_long) \<Rightarrow>
        let g = snd (fold mod_line ls (False, \<lparr>gm_module = '''', gm_version = '''', gm_direct = False, gm_indirect = False\<rparr>))
        in if too_long then None else if gm_module g = '''' then None else Some g)"

definition detect_go_version :: "arch_lib \<Rightarrow> string option \<Rightarrow> string" where
  "detect_go_version lib source =
     (case extract_archive lib source of
        Inl _ \<Rightarrow> ''''
      | Inr files \<Rightarrow>
          (case map_of files ''go.mod'' of
             None \<Rightarrow> ''''
           | Some data \<Rightarrow>
               (case parse_go_mod data of
                  None \<Rightarrow> ''''
                | Some g \<Rightarrow> (case validate_go_version (gm_version g) of Inl _ \<Rightarrow> '''' | Inr v \<Rightarrow> v))))"

section \<open>What an unpacked archive holds\<close>

lemma unpack_distinct:
  "distinct (map fst files) \<Longrightarrow> unpack_entries es files = Inr r \<Longrightarrow> distinct (map fst r)"
  by (induction es files rule: unpack_entries.induct) (auto simp: distinct_update split: if_splits option.splits)

lemma unpack_names:
  "unpack_entries es files = Inr r \<Longrightarrow> (n, c) \<in> set r \<Longrightarrow> (n, c) \<in> set files \<or>
     (\<exists>e \<in> set es. \<not> ae_dir e \<and> ae_content e = Some c \<and> n = clean_name (ae_name e))"
proof (induction es files rule: unpack_entries.induct)
  case (2 e es files)
  show ?case
  proof (cases "ae_dir e")
    case True
    then show ?thesis using 2 by auto
  next
    case False
    then obtain d where d: "ae_content e = Some d" using 2 by (auto split: option.splits)
    have sub: "set (AList.update (clean_name (ae_name e)) d files) \<subseteq> insert (clean_name (ae_name e), d) (set files)"
      by (induction files) auto
    then show ?thesis using 2 False d by auto
  qed
qed simp

lemma extracted_distinct: "extract_archive lib source = Inr files \<Longrightarrow> distinct (map fst files)"
  unfolding extract_archive_def extract_tar_gz_def extract_tar_bz2_def extract_zip_def extract_tar_def
  by (auto split: option.splits if_splits prod.splits sum.splits intro: unpack_distinct[of "[]"])

section \<open>Syntax trees\<close>

datatype go_expr = E_ident string | E_star go_expr | E_sel go_expr string | E_other

text \<open>A node of a body: a call with the expression that is called and its parts, or anything else with its parts.\<close>

datatype go_node = N_call go_expr "go_node list" | N_other "go_node list"

record func_decl =
  fd_name :: string
  fd_params :: "go_expr list"
  fd_results :: "go_expr list"
  fd_body :: "go_node list option"

text \<open>The values of a specification are the called expression where the value is a call.\<close>

record value_spec =
  vs_names :: "string list"
  vs_type :: "go_expr option"
  vs_values :: "go_expr option list"

datatype go_decl = D_func func_decl | D_var "value_spec list" | D_other

record go_file =
  gf_package :: string
  gf_decls :: "go_decl list"
  gf_imports :: "string list"

text \<open>
  The tools: the parser, which takes the name and the text of a file, whether the first letter of a name is an upper case
  letter of Unicode, the readers of the archives and the writer of the prepared one.
\<close>

record go_tools =
  gt_parse :: "string \<Rightarrow> string \<Rightarrow> go_file option"
  gt_exported :: "string \<Rightarrow> bool"
  gt_lib :: arch_lib
  gt_pack :: "(string \<times> string) list \<Rightarrow> string option"

section \<open>The contract of a scenario\<close>

fun type_string :: "go_expr \<Rightarrow> string" where
  "type_string (E_ident n) = n"
| "type_string (E_star e) = ''*'' @ type_string e"
| "type_string (E_sel e n) = type_string e @ ''.'' @ n"
| "type_string E_other = ''''"

datatype entrypoint_kind = Kind_function | Kind_variable | Kind_register

type_synonym entrypoint = "string \<times> entrypoint_kind \<times> bool"

definition first_some :: "('a \<Rightarrow> 'b option) \<Rightarrow> 'a list \<Rightarrow> 'b option" where
  "first_some f xs = (case List.find (\<lambda>x. f x \<noteq> None) xs of None \<Rightarrow> None | Some x \<Rightarrow> f x)"

definition func_contract :: "(string \<Rightarrow> bool) \<Rightarrow> go_decl \<Rightarrow> entrypoint option" where
  "func_contract exported d =
     (case d of
        D_func fn \<Rightarrow>
          if \<not> exported (fd_name fn) then None
          else if (case fd_params fn of
                     [p] \<Rightarrow> contains (type_string p) ''vuhive.Suite'' \<or> contains (type_string p) ''vuhive.Engine''
                   | _ \<Rightarrow> False)
          then Some (fd_name fn, Kind_register, False)
          else (case fd_results fn of
                  [] \<Rightarrow> None
                | r # rs \<Rightarrow>
                    if contains (type_string r) ''vuhive.Scenario''
                    then Some (fd_name fn, Kind_function, (case rs of [] \<Rightarrow> False | e # _ \<Rightarrow> type_string e = ''error'')) else None)
      | _ \<Rightarrow> None)"

definition nth_call :: "go_expr option list \<Rightarrow> nat \<Rightarrow> go_expr option" where
  "nth_call vs i = (if i < length vs then vs ! i else None)"

definition spec_contract :: "(string \<Rightarrow> bool) \<Rightarrow> value_spec \<Rightarrow> entrypoint option" where
  "spec_contract exported s =
     first_some (\<lambda>(i, n).
       if \<not> exported n then None
       else if (case vs_type s of None \<Rightarrow> False | Some t \<Rightarrow> contains (type_string t) ''vuhive.Scenario'') then Some (n, Kind_variable, False)
       else (case nth_call (vs_values s) i of
               None \<Rightarrow> None
             | Some f \<Rightarrow> if contains (type_string f) ''vuhive.NewScenario'' then Some (n, Kind_variable, False) else None))
       (enumerate 0 (vs_names s))"

definition var_contract :: "(string \<Rightarrow> bool) \<Rightarrow> go_decl \<Rightarrow> entrypoint option" where
  "var_contract exported d = (case d of D_var specs \<Rightarrow> first_some (spec_contract exported) specs | _ \<Rightarrow> None)"

fun calls_scenario :: "go_node \<Rightarrow> bool" where
  "calls_scenario (N_call f parts) = (contains (type_string f) ''vuhive.NewScenario'' \<or> list_ex calls_scenario parts)"
| "calls_scenario (N_other parts) = list_ex calls_scenario parts"

definition body_contract :: "(string \<Rightarrow> bool) \<Rightarrow> go_decl \<Rightarrow> entrypoint option" where
  "body_contract exported d =
     (case d of
        D_func fn \<Rightarrow>
          (case fd_body fn of
             None \<Rightarrow> None
           | Some ns \<Rightarrow> if exported (fd_name fn) \<and> list_ex calls_scenario ns then Some (fd_name fn, Kind_function, False) else None)
      | _ \<Rightarrow> None)"

definition find_scenario_contract :: "(string \<Rightarrow> bool) \<Rightarrow> go_file \<Rightarrow> entrypoint option" where
  "find_scenario_contract exported f =
     (case first_some (func_contract exported) (gf_decls f) of
        Some e \<Rightarrow> Some e
      | None \<Rightarrow>
          (case first_some (var_contract exported) (gf_decls f) of
             Some e \<Rightarrow> Some e
           | None \<Rightarrow> first_some (body_contract exported) (gf_decls f)))"

section \<open>Imports\<close>

record analyzer_cfg =
  ac_override :: bool
  ac_whitelist :: "string list"

definition default_forbidden :: "string list" where
  "default_forbidden = [''os/exec'', ''syscall'', ''unsafe'', ''plugin'', ''runtime/cgo'', ''golang.org/x/sys'', ''net/http/pprof'', ''debug/'']"

definition in_package :: "string \<Rightarrow> string \<Rightarrow> bool" where
  "in_package path p \<longleftrightarrow> path = p \<or> prefix (p @ ''/'') path"

definition is_forbidden_import :: "analyzer_cfg \<Rightarrow> string \<Rightarrow> bool" where
  "is_forbidden_import cfg path \<longleftrightarrow>
     \<not> list_ex (in_package path) (ac_whitelist cfg) \<and> list_ex (in_package path) default_forbidden"

text \<open>An import path as the parser has it, with its quotes.\<close>

definition import_path :: "string \<Rightarrow> string" where
  "import_path lit = rev (dropWhile (\<lambda>c. c = CHR 0x22) (rev (dropWhile (\<lambda>c. c = CHR 0x22) lit)))"

definition note_imports :: "analyzer_cfg \<Rightarrow> string list \<Rightarrow> string list \<Rightarrow> string list" where
  "note_imports cfg lits found =
     fold (\<lambda>lit fs. let p = import_path lit in if is_forbidden_import cfg p \<and> p \<notin> set fs then fs @ [p] else fs) lits found"

section \<open>AnalyzeArchive\<close>

record analysis =
  an_module :: string
  an_suite :: string
  an_version :: string
  an_package :: string
  an_entry :: entrypoint
  an_dangerous :: bool
  an_suspicious :: "string list"
  an_files :: source_files

definition is_main :: "go_decl \<Rightarrow> bool" where
  "is_main d = (case d of D_func fn \<Rightarrow> fd_name fn = ''main'' | _ \<Rightarrow> False)"

definition inspect_file :: "go_tools \<Rightarrow> analyzer_cfg \<Rightarrow> string \<Rightarrow> string \<Rightarrow> string list \<times> entrypoint option \<Rightarrow> (string list \<times> entrypoint option) result" where
  "inspect_file tools cfg name content st =
     (case gt_parse tools name content of
        None \<Rightarrow> Inl ErrValidation
      | Some f \<Rightarrow>
          if gf_package f \<noteq> ''scenario'' then Inl ErrForbiddenPackageMain
          else if list_ex is_main (gf_decls f) then Inl ErrForbiddenPackageMain
          else Inr (note_imports cfg (gf_imports f) (fst st),
                    if snd st = None then find_scenario_contract (gt_exported tools) f else snd st))"

fun inspect_files :: "go_tools \<Rightarrow> analyzer_cfg \<Rightarrow> source_files \<Rightarrow> string list \<times> entrypoint option \<Rightarrow> (string list \<times> entrypoint option) result" where
  "inspect_files tools cfg [] st = Inr st"
| "inspect_files tools cfg ((n, c) # fs) st =
     (case inspect_file tools cfg n c st of Inl e \<Rightarrow> Inl e | Inr st' \<Rightarrow> inspect_files tools cfg fs st')"

definition is_go_source :: "string \<Rightarrow> bool" where
  "is_go_source n \<longleftrightarrow> suffix ''.go'' n \<and> \<not> suffix ''_test.go'' n"

definition go_sources :: "source_files \<Rightarrow> source_files" where
  "go_sources files = filter (\<lambda>(n, _). is_go_source n) files"

definition declared_version :: "go_mod \<Rightarrow> string result" where
  "declared_version g = (if gm_version g = '''' then Inr '''' else validate_go_version (gm_version g))"

definition judge_imports :: "analyzer_cfg \<Rightarrow> bool \<Rightarrow> string list \<Rightarrow> bool result" where
  "judge_imports cfg allow found =
     (if found = [] then Inr False
      else if allow then (if \<not> ac_override cfg then Inl ErrInsecureOverrideForbidden else Inr True)
      else Inl ErrForbiddenImport)"

definition analyze_files :: "go_tools \<Rightarrow> analyzer_cfg \<Rightarrow> bool \<Rightarrow> string \<Rightarrow> source_files \<Rightarrow> go_mod \<Rightarrow> analysis result" where
  "analyze_files tools cfg allow suite files g =
     (case declared_version g of
        Inl e \<Rightarrow> Inl e
      | Inr v \<Rightarrow>
          if \<not> gm_direct g then Inl ErrMissingVuhiveDependency
          else if go_sources files = [] then Inl ErrValidation
          else case inspect_files tools cfg (go_sources files) ([], None) of
            Inl e \<Rightarrow> Inl e
          | Inr (found, entry) \<Rightarrow>
              (case judge_imports cfg allow found of
                 Inl e \<Rightarrow> Inl e
               | Inr dangerous \<Rightarrow>
                   (case entry of
                      None \<Rightarrow> Inl ErrMissingScenarioContract
                    | Some e \<Rightarrow>
                        Inr \<lparr>an_module = gm_module g, an_suite = suite, an_version = v, an_package = ''scenario'', an_entry = e,
                             an_dangerous = dangerous, an_suspicious = found, an_files = files\<rparr>)))"

text \<open>The source is absent, cannot be read, or is a text.\<close>

definition analyze_archive :: "go_tools \<Rightarrow> analyzer_cfg \<Rightarrow> bool \<Rightarrow> string \<Rightarrow> string option option \<Rightarrow> analysis result" where
  "analyze_archive tools cfg allow suite source =
     (case source of
        None \<Rightarrow> Inl ErrValidation
      | Some src \<Rightarrow>
          (case extract_archive (gt_lib tools) src of
             Inl e \<Rightarrow> Inl e
           | Inr files \<Rightarrow>
               (case map_of files ''go.mod'' of
                  None \<Rightarrow> Inl ErrMissingGoMod
                | Some data \<Rightarrow>
                    (case parse_go_mod data of None \<Rightarrow> Inl ErrValidation | Some g \<Rightarrow> analyze_files tools cfg allow suite files g))))"

section \<open>GenerateMainDriver\<close>

text \<open>The template, by lines; \<open>@\<close> stands for a double quote, \<open>~\<close> for a tabulator and \<open>|\<close> for a backslash.\<close>

definition template :: "string list \<Rightarrow> string" where
  "template ls =
     map (\<lambda>c. if c = CHR ''@'' then CHR 0x22 else if c = CHR ''~'' then CHR 0x09 else if c = CHR ''|'' then CHR 0x5C else c)
       (join [CHR 0x0A] ls)"

definition driver_head :: "string list" where
  "driver_head =
    [''// Code generated by vuhive-cloud. DO NOT EDIT.'',
     ''package main'',
     [],
     ''import ('',
     ''~@context@'',
     ''~@flag@'',
     ''~@fmt@'',
     ''~@os@'',
     ''~@os/signal@'',
     ''~@syscall@'',
     [],
     ''~@github.com/morphy76/vuhive/pkg/vuhive@'',
     ''~@gopkg.in/yaml.v3@'',
     ''~@'']"

definition driver_config :: "string list" where
  "driver_config =
    [''/scenario@'',
     '')'',
     [],
     ''type scenarioConfig struct {'',
     ''~DefaultScenario string                 `yaml:@default_scenario@`'',
     ''~Scenarios       map[string]interface{} `yaml:@scenarios@`'',
     ''}'',
     [],
     ''func main() {'',
     ''~summaryExport := flag.String(@summary-export@, @@, @Path to export summary report@)'',
     ''~configPath := flag.String(@config@, @@, @Path to configuration YAML@)'',
     ''~scenarioFlag := flag.String(@scenario@, @@, @Name of scenario to execute@)'',
     ''~flag.Parse()'',
     [],
     ''~ctx, stop := signal.NotifyContext(context.Background(), os.Interrupt, syscall.SIGTERM)'',
     ''~defer stop()'',
     [],
     ''~var loadedCfg scenarioConfig'',
     ''~if *configPath != @@ {'',
     ''~~if data, err := os.ReadFile(*configPath); err == nil {'',
     ''~~~_ = yaml.Unmarshal(data, &loadedCfg)'',
     ''~~}'',
     ''~} else if _, err := os.Stat(@vuhive.yaml@); err == nil {'',
     ''~~*configPath = @vuhive.yaml@'',
     ''~~if data, err := os.ReadFile(*configPath); err == nil {'',
     ''~~~_ = yaml.Unmarshal(data, &loadedCfg)'',
     ''~~}'',
     ''~} else {'',
     ''~~defaultYAML := @version: |@1.0|@|ndefault_scenario: |@default|@|nscenarios:|n  default:|n    type: |@constant_vus|@|n    vus: 10|n    run_period: |@30s|@|n@'',
     ''~~*configPath = @vuhive.yaml@'',
     ''~~_ = os.WriteFile(*configPath, []byte(defaultYAML), 0644)'',
     ''~~loadedCfg.DefaultScenario = @default@'',
     ''~~loadedCfg.Scenarios = map[string]interface{}{@default@: nil}'',
     ''~}'',
     [],
     ''~suite := vuhive.NewSuite(@'']"

definition driver_register :: "string list" where
  "driver_register =
    [''@)'',
     [],
     ''~registerTarget := func(sc any) {'',
     ''~~var targetSc vuhive.Scenario'',
     ''~~switch v := sc.(type) {'',
     ''~~case *vuhive.Scenario:'',
     ''~~~if v != nil {'',
     ''~~~~targetSc = *v'',
     ''~~~}'',
     ''~~case vuhive.Scenario:'',
     ''~~~targetSc = v'',
     ''~~default:'',
     ''~~~fmt.Fprintf(os.Stderr, @unsupported scenario type: %T|n@, sc)'',
     ''~~~os.Exit(1)'',
     ''~~}'',
     [],
     ''~~if targetSc.RunVU == nil {'',
     ''~~~targetSc.RunVU = func(ctx vuhive.VUContext) error { return nil }'',
     ''~~}'',
     [],
     ''~~registeredNames := make(map[string]bool)'',
     ''~~for name := range loadedCfg.Scenarios {'',
     ''~~~suite.RegisterScenario(name, targetSc)'',
     ''~~~registeredNames[name] = true'',
     ''~~}'',
     ''~~if loadedCfg.DefaultScenario != @@ && !registeredNames[loadedCfg.DefaultScenario] {'',
     ''~~~suite.RegisterScenario(loadedCfg.DefaultScenario, targetSc)'',
     ''~~~registeredNames[loadedCfg.DefaultScenario] = true'',
     ''~~}'',
     ''~~if *scenarioFlag != @@ && !registeredNames[*scenarioFlag] {'',
     ''~~~suite.RegisterScenario(*scenarioFlag, targetSc)'',
     ''~~~registeredNames[*scenarioFlag] = true'',
     ''~~}'',
     ''~~if !registeredNames[@default@] {'',
     ''~~~suite.RegisterScenario(@default@, targetSc)'',
     ''~~~registeredNames[@default@] = true'',
     ''~~}'',
     ''~~entrypoint := @'']"

definition driver_names :: "string list" where
  "driver_names =
    [''@'',
     ''~~if !registeredNames[entrypoint] {'',
     ''~~~suite.RegisterScenario(entrypoint, targetSc)'',
     ''~~~registeredNames[entrypoint] = true'',
     ''~~}'',
     ''~}'',
     [],
     []]"

definition driver_tail :: "string list" where
  "driver_tail =
    [[],
     [],
     ''~var suiteArgs []string'',
     ''~if *configPath != @@ {'',
     ''~~suiteArgs = append(suiteArgs, @--config=@+*configPath)'',
     ''~}'',
     ''~if *summaryExport != @@ {'',
     ''~~suiteArgs = append(suiteArgs, @--json-report-out=@+*summaryExport)'',
     ''~}'',
     ''~if *scenarioFlag != @@ {'',
     ''~~suiteArgs = append(suiteArgs, @--scenario=@+*scenarioFlag)'',
     ''~}'',
     ''~suiteArgs = append(suiteArgs, flag.Args()...)'',
     [],
     ''~done := make(chan struct{})'',
     ''~go func() {'',
     ''~~select {'',
     ''~~case <-ctx.Done():'',
     ''~~~stop()'',
     ''~~~os.Exit(1)'',
     ''~~case <-done:'',
     ''~~}'',
     ''~}()'',
     [],
     ''~res := suite.ExecuteWithArgs(suiteArgs, os.Stdout)'',
     ''~close(done)'',
     [],
     ''~if res.Error != nil {'',
     ''~~fmt.Fprintf(os.Stderr, @scenario execution error: %v|n@, res.Error)'',
     ''~}'',
     ''~os.Exit(res.ExitCode())'',
     ''}'',
     []]"

definition invocation :: "entrypoint \<Rightarrow> string" where
  "invocation e =
     (case e of (name, kind, returns_err) \<Rightarrow>
        (case kind of
           Kind_register \<Rightarrow> template [''~scenario.''] @ name @ ''(suite)''
         | Kind_variable \<Rightarrow> template [''~registerTarget(scenario.''] @ name @ '')''
         | Kind_function \<Rightarrow>
             if returns_err
             then template [''~sc, err := scenario.''] @ name @
                  template [''()'', ''~if err != nil {'', ''~~fmt.Fprintf(os.Stderr, @scenario initialization error: %v|n@, err)'',
                    ''~~os.Exit(1)'', ''~}'', ''~registerTarget(sc)'']
             else template [''~registerTarget(scenario.''] @ name @ ''())''))"

definition driver_suite :: "analysis \<Rightarrow> string" where
  "driver_suite a =
     (if an_suite a \<noteq> '''' then an_suite a else if an_module a \<noteq> '''' then an_module a else ''vuhive-suite'')"

definition generate_main_driver :: "analysis \<Rightarrow> string" where
  "generate_main_driver a =
     template driver_head @ an_module a @ template driver_config @ driver_suite a @ template driver_register @ fst (an_entry a) @
     template driver_names @ invocation (an_entry a) @ template driver_tail"

section \<open>PrepareSourceArchive\<close>

definition base_name :: "string \<Rightarrow> string" where
  "base_name s =
     (if s = '''' then ''.''
      else let t = trim_right_char s (CHR ''/'')
           in if t = '''' then ''/'' else rev (takeWhile (\<lambda>c. c \<noteq> CHR ''/'') (rev t)))"

definition target_path :: "string \<Rightarrow> string" where
  "target_path n = (if suffix ''.go'' n then ''scenario/'' @ base_name n else n)"

definition prepared_entries :: "analysis \<Rightarrow> (string \<times> string) list" where
  "prepared_entries a =
     (case map_of (an_files a) ''go.mod'' of None \<Rightarrow> [] | Some d \<Rightarrow> [(''go.mod'', d)]) @
     [(''main.go'', generate_main_driver a)] @
     map (\<lambda>(n, c). (target_path n, c)) (filter (\<lambda>(n, _). n \<noteq> ''go.mod'' \<and> n \<noteq> ''main.go'') (an_files a))"

definition prepare_source_archive :: "go_tools \<Rightarrow> analyzer_cfg \<Rightarrow> bool \<Rightarrow> string \<Rightarrow> string option option \<Rightarrow> (string \<times> analysis) result" where
  "prepare_source_archive tools cfg allow suite source =
     (case analyze_archive tools cfg allow suite source of
        Inl e \<Rightarrow> Inl e
      | Inr a \<Rightarrow> (case gt_pack tools (prepared_entries a) of None \<Rightarrow> Inl (Err_Port ''archive/tar'') | Some b \<Rightarrow> Inr (b, a)))"

end
