(* ===== verification/Source_Safety.thy ===== *)
theory Source_Safety
  imports Static_Analyzer Build_Safety
begin

text \<open>
  What the static analyzer guarantees of the sources that reach the object store, the layout of the archive that it
  prepares, and the imports that its check of forbidden packages lets through.
\<close>

section \<open>The inspection\<close>

definition file_checked :: "go_tools \<Rightarrow> analyzer_cfg \<Rightarrow> string list \<Rightarrow> string \<times> string \<Rightarrow> bool" where
  "file_checked tools cfg found nc \<longleftrightarrow>
     (\<exists>f. gt_parse tools (fst nc) (snd nc) = Some f \<and> gf_package f = ''scenario'' \<and> (\<forall>d \<in> set (gf_decls f). \<not> is_main d) \<and>
        (\<forall>lit \<in> set (gf_imports f). is_forbidden_import cfg (import_path lit) \<longrightarrow> import_path lit \<in> set found))"

lemma note_imports_found:
  "set (note_imports cfg lits found) = set found \<union> {p \<in> import_path ` set lits. is_forbidden_import cfg p}"
proof -
  have "set (fold (\<lambda>lit fs. let p = import_path lit in if is_forbidden_import cfg p \<and> p \<notin> set fs then fs @ [p] else fs) lits found) =
      set found \<union> {p \<in> import_path ` set lits. is_forbidden_import cfg p}"
    by (induction lits arbitrary: found) (auto simp: Let_def)
  then show ?thesis by (simp add: note_imports_def)
qed

lemma inspect_file_checked:
  assumes "inspect_file tools cfg n c st = Inr st'"
  shows "file_checked tools cfg (fst st') (n, c)" and "set (fst st) \<subseteq> set (fst st')"
    and "snd st' = snd st \<or> (\<exists>f. gt_parse tools n c = Some f \<and> snd st' = find_scenario_contract (gt_exported tools) f)"
    and "\<forall>p \<in> set (fst st'). p \<in> set (fst st) \<or> is_forbidden_import cfg p"
proof -
  obtain f where f: "gt_parse tools n c = Some f" using assms by (auto simp: inspect_file_def split: option.splits)
  have p: "gf_package f = ''scenario''" "\<not> list_ex is_main (gf_decls f)"
    and st': "st' = (note_imports cfg (gf_imports f) (fst st), if snd st = None then find_scenario_contract (gt_exported tools) f else snd st)"
    using assms f by (auto simp: inspect_file_def split: if_splits)
  show "file_checked tools cfg (fst st') (n, c)"
    using f p by (auto simp: file_checked_def st' note_imports_found list_ex_iff)
  show "set (fst st) \<subseteq> set (fst st')" "\<forall>p \<in> set (fst st'). p \<in> set (fst st) \<or> is_forbidden_import cfg p"
    by (auto simp: st' note_imports_found)
  show "snd st' = snd st \<or> (\<exists>f. gt_parse tools n c = Some f \<and> snd st' = find_scenario_contract (gt_exported tools) f)"
    using f by (auto simp: st')
qed

lemma file_checked_mono: "file_checked tools cfg xs nc \<Longrightarrow> set xs \<subseteq> set ys \<Longrightarrow> file_checked tools cfg ys nc"
  unfolding file_checked_def by blast

lemma inspect_files_checked:
  "inspect_files tools cfg files st = Inr st' \<Longrightarrow>
     (\<forall>nc \<in> set files. file_checked tools cfg (fst st') nc) \<and> set (fst st) \<subseteq> set (fst st') \<and>
     (snd st' = snd st \<or> (\<exists>(n, c) \<in> set files. \<exists>f. gt_parse tools n c = Some f \<and> snd st' = find_scenario_contract (gt_exported tools) f)) \<and>
     (\<forall>p \<in> set (fst st'). p \<in> set (fst st) \<or> is_forbidden_import cfg p)"
proof (induction files arbitrary: st)
  case (Cons nc files)
  obtain n c where nc: "nc = (n, c)" by fastforce
  obtain st1 where s1: "inspect_file tools cfg n c st = Inr st1" "inspect_files tools cfg files st1 = Inr st'"
    using Cons.prems by (auto simp: nc split: sum.splits)
  note one = inspect_file_checked[OF s1(1)] and rest = Cons.IH[OF s1(2)]
  have "file_checked tools cfg (fst st') nc" using file_checked_mono[OF one(1), of "fst st'"] rest nc by simp
  then have "\<forall>nc \<in> set (nc # files). file_checked tools cfg (fst st') nc" using rest by simp
  moreover have "set (fst st) \<subseteq> set (fst st')" using one(2) rest by blast
  moreover have "snd st' = snd st \<or> (\<exists>(n, c) \<in> set (nc # files). \<exists>f. gt_parse tools n c = Some f \<and> snd st' = find_scenario_contract (gt_exported tools) f)"
  proof (cases "snd st' = snd st1")
    case True
    then show ?thesis using one(3) nc by auto
  next
    case False
    then have "\<exists>(n, c) \<in> set files. \<exists>f. gt_parse tools n c = Some f \<and> snd st' = find_scenario_contract (gt_exported tools) f"
      using rest by blast
    then show ?thesis by auto
  qed
  moreover have "\<forall>p \<in> set (fst st'). p \<in> set (fst st) \<or> is_forbidden_import cfg p" using one(4) rest by blast
  ultimately show ?case by blast
qed simp

text \<open>What the analyzer has checked of the sources \<open>files\<close> with the analysis \<open>a\<close>.\<close>

definition sources_checked :: "go_tools \<Rightarrow> analyzer_cfg \<Rightarrow> bool \<Rightarrow> analysis \<Rightarrow> bool" where
  "sources_checked tools cfg allow a \<longleftrightarrow>
     (\<exists>data g. map_of (an_files a) ''go.mod'' = Some data \<and> parse_go_mod data = Some g \<and> gm_direct g \<and> an_module a = gm_module g) \<and>
     (\<forall>(n, c) \<in> set (an_files a). is_go_source n \<longrightarrow> file_checked tools cfg (an_suspicious a) (n, c)) \<and>
     (\<exists>(n, c) \<in> set (an_files a). is_go_source n \<and>
        (\<exists>f. gt_parse tools n c = Some f \<and> find_scenario_contract (gt_exported tools) f = Some (an_entry a))) \<and>
     (\<forall>p \<in> set (an_suspicious a). is_forbidden_import cfg p) \<and>
     (an_dangerous a \<longleftrightarrow> an_suspicious a \<noteq> []) \<and> (an_dangerous a \<longrightarrow> allow \<and> ac_override cfg)"

lemma analyzed_checked:
  assumes "analyze_archive tools cfg allow suite source = Inr a"
  shows "sources_checked tools cfg allow a \<and> an_suite a = suite \<and>
    (\<exists>src. source = Some src \<and> extract_archive (gt_lib tools) src = Inr (an_files a))"
proof -
  obtain src where src: "source = Some src" using assms by (auto simp: analyze_archive_def split: option.splits)
  obtain files where files: "extract_archive (gt_lib tools) src = Inr files"
    using assms src by (auto simp: analyze_archive_def split: sum.splits)
  obtain data where data: "map_of files ''go.mod'' = Some data"
    using assms src files by (auto simp: analyze_archive_def split: option.splits)
  obtain g where g: "parse_go_mod data = Some g"
    using assms src files data by (auto simp: analyze_archive_def split: option.splits)
  have an: "analyze_files tools cfg allow suite files g = Inr a"
    using assms src files data g by (simp add: analyze_archive_def)
  obtain v where v: "declared_version g = Inr v" using an by (auto simp: analyze_files_def split: sum.splits)
  have d: "gm_direct g" "go_sources files \<noteq> []" using an v by (auto simp: analyze_files_def split: if_splits)
  obtain found entry where ins: "inspect_files tools cfg (go_sources files) ([], None) = Inr (found, entry)"
    using an v d by (auto simp: analyze_files_def split: sum.splits)
  obtain dang where j: "judge_imports cfg allow found = Inr dang"
    using an v d ins by (auto simp: analyze_files_def split: sum.splits)
  obtain e where e: "entry = Some e" using an v d ins j by (auto simp: analyze_files_def split: option.splits)
  have a: "a = \<lparr>an_module = gm_module g, an_suite = suite, an_version = v, an_package = ''scenario'', an_entry = e,
      an_dangerous = dang, an_suspicious = found, an_files = files\<rparr>"
    using an v d ins j e by (simp add: analyze_files_def)
  note chk = inspect_files_checked[OF ins]
  have go: "set (go_sources files) = {(n, c) \<in> set files. is_go_source n}" by (auto simp: go_sources_def)
  have "\<exists>(n, c) \<in> set files. is_go_source n \<and> (\<exists>f. gt_parse tools n c = Some f \<and> find_scenario_contract (gt_exported tools) f = Some e)"
    using chk e go by fastforce
  moreover have "(dang \<longleftrightarrow> found \<noteq> []) \<and> (dang \<longrightarrow> allow \<and> ac_override cfg)"
    using j by (auto simp: judge_imports_def split: if_splits)
  ultimately show ?thesis
    using chk go data g d src files unfolding sources_checked_def a by auto
qed

section \<open>The prepared archive\<close>

lemma base_name_flat: "CHR ''/'' \<notin> set (base_name n) \<or> base_name n = ''/''"
  by (auto simp: base_name_def Let_def dest: set_takeWhileD)

lemma base_name_go: "suffix ''.go'' n \<Longrightarrow> CHR ''/'' \<notin> set (base_name n) \<and> suffix ''.go'' (base_name n)"
proof -
  assume "suffix ''.go'' n"
  then obtain d where n: "n = d @ ''.go''" by (auto simp: suffix_def)
  have "rev (takeWhile (\<lambda>c. c \<noteq> CHR ''/'') (rev n)) = rev (takeWhile (\<lambda>c. c \<noteq> CHR ''/'') (rev d)) @ ''.go''"
    by (simp add: n)
  moreover have "trim_right_char n (CHR ''/'') = n" "n \<noteq> ''''" by (simp_all add: n trim_right_char_def)
  moreover have "n \<noteq> ''/''" by (simp add: n)
  ultimately have "base_name n = rev (takeWhile (\<lambda>c. c \<noteq> CHR ''/'') (rev d)) @ ''.go''"
    by (simp add: base_name_def Let_def)
  then show ?thesis by (auto simp: suffix_def dest: set_takeWhileD)
qed

lemma prepared_layout:
  assumes "(n, c) \<in> set (prepared_entries a)" and "suffix ''.go'' n"
  shows "(n, c) = (''main.go'', generate_main_driver a) \<or>
    (\<exists>m. n = ''scenario/'' @ base_name m \<and> CHR ''/'' \<notin> set (base_name m) \<and> (m, c) \<in> set (an_files a))"
proof -
  have "\<not> suffix ''.go'' ''go.mod''" by (simp add: suffix_def suffix_to_prefix)
  then have "(n, c) = (''main.go'', generate_main_driver a) \<or> (\<exists>m. (m, c) \<in> set (an_files a) \<and> n = target_path m)"
    using assms by (auto simp: prepared_entries_def split: option.splits)
  then show ?thesis
  proof
    assume "\<exists>m. (m, c) \<in> set (an_files a) \<and> n = target_path m"
    then obtain m where m: "(m, c) \<in> set (an_files a)" "n = target_path m" by blast
    then have "suffix ''.go'' m" using assms(2) by (auto simp: target_path_def split: if_splits)
    then show ?thesis using m base_name_go[of m] by (auto simp: target_path_def)
  qed simp
qed

section \<open>A triggered build\<close>

text \<open>The static analyzer as the build service calls it.\<close>

definition suite_analyzer :: "go_tools \<Rightarrow> analyzer_cfg \<Rightarrow> analyzer" where
  "suite_analyzer tools cfg src allow suite =
     (case prepare_source_archive tools cfg allow suite (Some (Some src)) of
        Inl e \<Rightarrow> Inl e
      | Inr (b, a) \<Rightarrow> Inr (b, an_version a))"

interpretation objects_view: state_view w_objects
  by unfold_locales simp

abbreviation keeps_objects :: "'a op \<Rightarrow> bool" where
  "keeps_objects \<equiv> state_view.keeps w_objects"

lemma keeps_objects_ports [frame_rules]:
  "keeps_objects (artifact_list_by_suite i)" "keeps_objects (artifact_save a)"
  by (simp_all add: artifact_list_by_suite_def artifact_save_def put_artifact_def objects_view.keeps_call)

lemma keeps_objects_obtain [frame_rules]: "keeps_objects (obtain_artifact uuid now s d existing p)"
  unfolding obtain_artifact_def reset_artifact_def Let_def by (intro frame_rules)

lemma keeps_objects_obtain_all [frame_rules]: "keeps_objects (obtain_artifacts uuid now s d existing ps)"
  by (induction ps) (auto intro: frame_rules)

lemma uploaded: "storage_upload k c w = (Inr (), w') \<Longrightarrow> w_objects w' (trim_space k) = Some c"
  by (auto simp: storage_upload_def port_call_def failW_def split: if_splits list.splits fault.splits)

text \<open>A build hands the bytes that the analysis returned to what stores them.\<close>

lemma checked_bytes:
  assumes "bindW m (\<lambda>version. bindW k (\<lambda>name. bindW (bindW (liftW (check name)) (\<lambda>(bytes, detected). returnW (bytes, g version detected)))
      (\<lambda>(bytes, resolved). up bytes resolved))) w = (Inr r, w')"
  shows "\<exists>name bytes detected resolved w2. check name = Inr (bytes, detected) \<and> up bytes resolved w2 = (Inr r, w')"
proof -
  obtain version w4 where v4: "bindW k (\<lambda>name. bindW (bindW (liftW (check name)) (\<lambda>(bytes, detected). returnW (bytes, g version detected)))
      (\<lambda>(bytes, resolved). up bytes resolved)) w4 = (Inr r, w')"
    using bindW_success[OF assms] by blast
  from bindW_success[OF v4] obtain name w5 where n: "bindW (bindW (liftW (check name)) (\<lambda>(bytes, detected). returnW (bytes, g version detected)))
      (\<lambda>(bytes, resolved). up bytes resolved) w5 = (Inr r, w')"
    by blast
  obtain x w6 where x: "bindW (liftW (check name)) (\<lambda>(bytes, detected). returnW (bytes, g version detected)) w5 = (Inr x, w6)"
    "up (fst x) (snd x) w6 = (Inr r, w')"
    using bindW_success[OF n] by (auto simp: case_prod_unfold)
  obtain q w7 where "liftW (check name) w5 = (Inr q, w7)" "fst x = fst q"
    using bindW_success[OF x(1)] by (auto simp: returnW_def case_prod_unfold)
  then have "check name = Inr (fst x, snd q)" by (cases q) (simp add: liftW_def)
  then show ?thesis using x(2) by blast
qed

lemma analyzed_upload:
  assumes "trigger_build env (Some (suite_analyzer tools cfg)) uuid now suite platform source opts w = (Inr r, w')"
  shows "\<exists>archive name bytes detected. suite_analyzer tools cfg archive (bo_insecure opts) name = Inr (bytes, detected)
     \<and> w_objects w' (trim_space (format_source_key (trim_space suite))) = Some bytes"
proof -
  let ?sid = "trim_space suite"
  have sid: "?sid \<noteq> ''''" using assms by (auto simp: trigger_build_def Let_def failW_def)
  obtain archive where src: "source = Some archive"
    using assms sid by (cases source) (auto simp: trigger_build_def Let_def failW_def)
  note run = assms[unfolded trigger_build_def Let_def src, simplified sid option.case if_False]
  let ?rest = "\<lambda>ps resolved. bindW (artifact_list_by_suite ?sid) (\<lambda>existing.
      bindW (obtain_artifacts uuid now ?sid [bo_description opts] existing ps) (\<lambda>as.
      returnW (as, opts\<lparr>bo_go_version := resolved, bo_go_image := trim_space (bo_go_image opts)\<rparr>)))"
  obtain ps w1 where 1: "bindW (liftW (validate_go_version (trim_space (bo_go_version opts)))) (\<lambda>version.
      bindW (suite_name_for_build env ?sid) (\<lambda>name.
      bindW (bindW (liftW (suite_analyzer tools cfg archive (bo_insecure opts) name)) (\<lambda>(bytes, detected).
          returnW (bytes, if version = '''' \<and> trim_space (bo_go_image opts) = '''' \<and> detected \<noteq> '''' then detected else version)))
        (\<lambda>(bytes, resolved). bindW (storage_upload (format_source_key ?sid) bytes) (\<lambda>_. ?rest ps resolved)))) w1 = (Inr r, w')"
    using bindW_success[OF run] by blast
  obtain name bytes detected resolved w2 where an: "suite_analyzer tools cfg archive (bo_insecure opts) name = Inr (bytes, detected)"
    and st: "bindW (storage_upload (format_source_key ?sid) bytes) (\<lambda>_. ?rest ps resolved) w2 = (Inr r, w')"
    using checked_bytes[OF 1] by blast
  obtain w3 where up: "storage_upload (format_source_key ?sid) bytes w2 = (Inr (), w3)" and rest: "?rest ps resolved w3 = (Inr r, w')"
    using bindW_success[OF st] by auto
  have "keeps_objects (?rest ps resolved)" by (intro frame_rules)
  from objects_view.keeps_result[OF this rest] uploaded[OF up] an show ?thesis by auto
qed

text \<open>
  C12: only checked sources are compiled.  When a build is triggered with the static analyzer, under any failures of the
  ports, success means that the object under the source key is the packed form of an archive whose sources were all
  checked: a direct requirement of the framework, package \<open>scenario\<close> without a \<open>main\<close>, a scenario contract, and no import
  recognised as forbidden unless the request and the cluster both allow it.  In that archive every Go file is the
  generated driver or a file directly under \<open>scenario/\<close>.
\<close>
theorem built_sources_checked:
  assumes "trigger_build env (Some (suite_analyzer tools cfg)) uuid now suite platform source opts w = (Inr r, w')"
  shows "\<exists>a bytes. gt_pack tools (prepared_entries a) = Some bytes \<and>
      w_objects w' (trim_space (format_source_key (trim_space suite))) = Some bytes \<and>
      sources_checked tools cfg (bo_insecure opts) a \<and>
      (\<forall>(n, c) \<in> set (prepared_entries a). suffix ''.go'' n \<longrightarrow>
         (n, c) = (''main.go'', generate_main_driver a) \<or>
         (\<exists>m. n = ''scenario/'' @ base_name m \<and> CHR ''/'' \<notin> set (base_name m) \<and> (m, c) \<in> set (an_files a)))"
proof -
  obtain archive name bytes detected where an: "suite_analyzer tools cfg archive (bo_insecure opts) name = Inr (bytes, detected)"
    and obj: "w_objects w' (trim_space (format_source_key (trim_space suite))) = Some bytes"
    using analyzed_upload [OF assms] by blast
  obtain a where a: "prepare_source_archive tools cfg (bo_insecure opts) name (Some (Some archive)) = Inr (bytes, a)"
    using an by (auto simp: suite_analyzer_def split: sum.splits)
  then have pk: "gt_pack tools (prepared_entries a) = Some bytes"
    and ok: "analyze_archive tools cfg (bo_insecure opts) name (Some (Some archive)) = Inr a"
    by (auto simp: prepare_source_archive_def split: sum.splits option.splits)
  show ?thesis
    using pk obj analyzed_checked[OF ok] prepared_layout[of _ _ a] by blast
qed

text \<open>
  C39: the check of forbidden packages is easily passed.  Whatever the whitelist, no import that is written in back quotes
  is recognised, be it \<open>os/exec\<close>, and no package below \<open>debug\<close> is, because the entry \<open>debug/\<close> is compared with another
  slash behind it.
\<close>
theorem forbidden_imports_slip:
  "(\<forall>path. \<not> is_forbidden_import cfg (import_path (CHR ''`'' # path @ ''`''))) \<and>
   {path. is_forbidden_import cfg (''debug/'' @ path)} \<subseteq> {path. path = '''' \<or> hd path = CHR ''/''}"
  by (auto simp: is_forbidden_import_def default_forbidden_def in_package_def import_path_def prefix_def)

section \<open>An example\<close>

text \<open>An archive with one source that imports \<open>os/exec\<close> in back quotes.\<close>

definition demo_mod :: string where
  "demo_mod = join [CHR 0x0A] [''module m'', ''require github.com/morphy76/vuhive v1'']"

definition demo_source :: go_file where
  "demo_source = \<lparr>gf_package = ''scenario'',
     gf_decls = [D_func \<lparr>fd_name = ''New'', fd_params = [], fd_results = [E_star (E_sel (E_ident ''vuhive'') ''Scenario'')], fd_body = Some []\<rparr>],
     gf_imports = [''`os/exec`'']\<rparr>"

definition demo_tools :: go_tools where
  "demo_tools = \<lparr>gt_parse = (\<lambda>_ _. Some demo_source), gt_exported = (\<lambda>_. True),
     gt_lib = \<lparr>al_gunzip_tar = (\<lambda>_. Some ([\<lparr>ae_name = ''go.mod'', ae_dir = False, ae_content = Some demo_mod\<rparr>,
         \<lparr>ae_name = ''a/b.go'', ae_dir = False, ae_content = Some ''x''\<rparr>], True)),
       al_bunzip_tar = (\<lambda>_. ([], False)), al_zip = (\<lambda>_. None)\<rparr>,
     gt_pack = (\<lambda>_. Some ''packed'')\<rparr>"

definition demo_analyzer_cfg :: analyzer_cfg where
  "demo_analyzer_cfg = \<lparr>ac_override = False, ac_whitelist = []\<rparr>"

definition demo_analysis :: analysis where
  "demo_analysis = \<lparr>an_module = ''m'', an_suite = '''', an_version = '''', an_package = ''scenario'', an_entry = (''New'', Kind_function, False),
     an_dangerous = False, an_suspicious = [], an_files = [(''go.mod'', demo_mod), (''a/b.go'', ''x'')]\<rparr>"

lemma demo_lines: "scan_lines demo_mod = ([''module m'', ''require github.com/morphy76/vuhive v1''], False)"
  by (simp add: scan_lines_def demo_mod_def drop_cr_def)

lemma demo_parts:
  "snd (fold mod_line [''module m'', ''require github.com/morphy76/vuhive v1'']
     (False, \<lparr>gm_module = '''', gm_version = '''', gm_direct = False, gm_indirect = False\<rparr>)) =
     \<lparr>gm_module = ''m'', gm_version = '''', gm_direct = True, gm_indirect = False\<rparr>"
  "note_imports demo_analyzer_cfg [''`os/exec`''] [] = []"
  "find_scenario_contract (\<lambda>_. True) demo_source = Some (''New'', Kind_function, False)"
  "clean_name ''go.mod'' = ''go.mod''" "clean_name ''a/b.go'' = ''a/b.go''"
  "is_go_source ''a/b.go''" "\<not> is_go_source ''go.mod''"
  by code_simp+

lemma demo_mod_read: "parse_go_mod demo_mod = Some \<lparr>gm_module = ''m'', gm_version = '''', gm_direct = True, gm_indirect = False\<rparr>"
  unfolding parse_go_mod_def demo_lines prod.case demo_parts(1) by simp

lemma demo_analyzed: "analyze_archive demo_tools demo_analyzer_cfg False '''' (Some (Some ''data'')) = Inr demo_analysis"
proof -
  have f: "extract_archive (gt_lib demo_tools) (Some ''data'') = Inr [(''go.mod'', demo_mod), (''a/b.go'', ''x'')]"
    by (simp add: extract_archive_def extract_tar_gz_def extract_tar_def demo_tools_def demo_parts)
  have g: "go_sources [(''go.mod'', demo_mod), (''a/b.go'', ''x'')] = [(''a/b.go'', ''x'')]" by (simp add: go_sources_def demo_parts)
  have t: "gt_parse demo_tools n c = Some demo_source" "gt_exported demo_tools = (\<lambda>_. True)" for n c by (simp_all add: demo_tools_def)
  have s: "gf_imports demo_source = [''`os/exec`'']" "gf_package demo_source = ''scenario''" "\<not> list_ex is_main (gf_decls demo_source)"
    by (simp_all add: demo_source_def is_main_def)
  show ?thesis
    by (simp add: analyze_archive_def f demo_parts demo_mod_read analyze_files_def g inspect_file_def t s declared_version_def judge_imports_def demo_analysis_def)
qed

theorem built_sources_checked_witness:
  "\<exists>r w' a bytes. trigger_build \<lparr>be_suites = False, be_orchestrator = True, be_namespace = ''n'', be_storage = True\<rparr>
       (Some (suite_analyzer demo_tools demo_analyzer_cfg)) (\<lambda>_. ''a1'') 5 ''s1'' (Some PlatformLinuxAmd64) (Some ''data'')
       \<lparr>bo_insecure = False, bo_go_version = '''', bo_go_image = '''', bo_description = ''''\<rparr> build_world = (Inr r, w') \<and>
     w_objects w' (trim_space (format_source_key (trim_space ''s1''))) = Some bytes \<and>
     sources_checked demo_tools demo_analyzer_cfg False a"
proof -
  let ?opts = "\<lparr>bo_insecure = False, bo_go_version = '''', bo_go_image = '''', bo_description = ''''\<rparr>"
  let ?run = "trigger_build \<lparr>be_suites = False, be_orchestrator = True, be_namespace = ''n'', be_storage = True\<rparr>
       (Some (suite_analyzer demo_tools demo_analyzer_cfg)) (\<lambda>_. ''a1'') 5 ''s1'' (Some PlatformLinuxAmd64) (Some ''data'') ?opts build_world"
  have "gt_pack demo_tools es = Some ''packed''" for es by (simp add: demo_tools_def)
  moreover have "an_version demo_analysis = ''''" by (simp add: demo_analysis_def)
  ultimately have an: "suite_analyzer demo_tools demo_analyzer_cfg ''data'' False '''' = Inr (''packed'', '''')"
    using demo_analyzed by (simp add: suite_analyzer_def prepare_source_archive_def)
  have t: "trim_space ''s1'' = ''s1''" "trim_space '''' = ''''" "trim_space (format_source_key ''s1'') \<noteq> ''''" "validate_go_version '''' = Inr ''''"
    "is_ok (new_artifact ''a1'' 5 ''s1'' PlatformLinuxAmd64 [''''])" "platform_valid PlatformLinuxAmd64"
    by code_simp+
  obtain art where art: "new_artifact ''a1'' 5 ''s1'' PlatformLinuxAmd64 [''''] = Inr art" using t(5) by (auto simp: is_ok_iff)
  have w: "w_faults build_world = []" "w_artifacts build_world = []" by (simp_all add: build_world_def sample_world_def)
  have "is_ok (fst ?run)"
    by (simp add: trigger_build_def Let_def target_platforms_def suite_name_for_build_def an t art w bindW_def liftW_def returnW_def
        storage_upload_def port_call_def artifact_list_by_suite_def obtain_artifact_def artifact_save_def put_artifact_def)
  then obtain r w' where run: "?run = (Inr r, w')" by (cases ?run) (auto simp: is_ok_iff)
  from built_sources_checked[OF run] show ?thesis using run by auto
qed

end
