(* ===== verification/Bff_Service.thy ===== *)
theory Bff_Service
  imports Control_Client Event_Poller Session_Service Report_Safety
begin

text \<open>
  The use cases of the BFF (\<^verbatim>\<open>internal/bff/application/service/bff_service.go\<close>) with its cache
  (\<^verbatim>\<open>internal/bff/adapters/outbound/cache/memory.go\<close>).  \<^verbatim>\<open>cmd/bff/main.go\<close> attaches no session service to it, so
  the sessions of its own are those of the cache.  The answers of the control plane to a dashboard are a record: the
  goroutines that ask for them write to different variables.  \<open>off\<close> is the offset of the local time zone.
\<close>

section \<open>The cache\<close>

type_synonym cache = "string \<rightharpoonup> string \<times> time"

definition cache_get :: "time \<Rightarrow> string \<Rightarrow> cache \<Rightarrow> string option" where
  "cache_get now key c = (case c key of None \<Rightarrow> None | Some (v, expires) \<Rightarrow> if expires < now then None else Some v)"

definition cache_set :: "time \<Rightarrow> string \<Rightarrow> string \<Rightarrow> duration \<Rightarrow> cache \<Rightarrow> cache" where
  "cache_set now key v ttl c = c(key \<mapsto> (v, now + ttl))"

definition cache_delete :: "string \<Rightarrow> cache \<Rightarrow> cache" where
  "cache_delete key c = c(key := None)"

section \<open>Sessions in the cache\<close>

text \<open>
  \<open>ClientSession\<close> has no tags: its JSON names are those of its fields.  The metadata are listed in the order in which
  the encoder writes the keys of a map.
\<close>

definition session_json :: "int \<Rightarrow> (string \<times> string) list \<Rightarrow> client_session \<Rightarrow> json option" where
  "session_json off md s =
     (case (json_time off (ses_created s), json_time off (ses_updated s), json_time off (ses_expires s)) of
        (Some c, Some u, Some e) \<Rightarrow>
          Some (J_obj [(''ID'', J_str (ses_id s)), (''UserID'', J_str (ses_user s)), (''KeycloakSID'', J_str (ses_sid s)),
            (''AccessToken'', J_str (ses_access s)), (''RefreshToken'', J_str (ses_refresh s)), (''IDToken'', J_str (ses_id_token s)),
            (''Roles'', J_arr (map J_str (ses_roles s))), (''CreatedAt'', c), (''UpdatedAt'', u), (''ExpiresAt'', e),
            (''Metadata'', J_obj (map (\<lambda>(k, v). (k, J_str v)) md))])
      | _ \<Rightarrow> None)"

text \<open>A map: \<open>null\<close> makes it nil, the members of an object are added to it.\<close>

fun add_members :: "(string \<times> json) list \<Rightarrow> (string \<rightharpoonup> string) \<Rightarrow> (string \<rightharpoonup> string) option" where
  "add_members [] m = Some m"
| "add_members ((k, v) # ms) m = (case get_text v '''' of None \<Rightarrow> None | Some s \<Rightarrow> add_members ms (m(k \<mapsto> s)))"

definition get_text_map :: "json \<Rightarrow> (string \<rightharpoonup> string) \<Rightarrow> (string \<rightharpoonup> string) option" where
  "get_text_map v old = (case v of J_null \<Rightarrow> Some Map.empty | J_obj ms \<Rightarrow> add_members ms old | _ \<Rightarrow> None)"

definition session_fields :: "(string \<times> client_session setter) list" where
  "session_fields =
     [(''ID'', plain get_text ses_id ses_id_update), (''UserID'', plain get_text ses_user ses_user_update),
      (''KeycloakSID'', plain get_text ses_sid ses_sid_update), (''AccessToken'', plain get_text ses_access ses_access_update),
      (''RefreshToken'', plain get_text ses_refresh ses_refresh_update), (''IDToken'', plain get_text ses_id_token ses_id_token_update),
      (''Roles'', plain (\<lambda>v _. get_slice get_text '''' v) ses_roles ses_roles_update),
      (''CreatedAt'', plain get_time ses_created ses_created_update), (''UpdatedAt'', plain get_time ses_updated ses_updated_update),
      (''ExpiresAt'', plain get_time ses_expires ses_expires_update), (''Metadata'', plain get_text_map ses_metadata ses_metadata_update)]"

definition no_session :: client_session where
  "no_session =
     \<lparr>ses_id = '''', ses_user = '''', ses_sid = '''', ses_access = '''', ses_refresh = '''', ses_id_token = '''', ses_roles = [],
      ses_created = 0, ses_updated = 0, ses_expires = 0, ses_metadata = Map.empty\<rparr>"

definition cache_key :: "string \<Rightarrow> string" where
  "cache_key i = ''session:'' @ i"

definition bff_create_session :: "int \<Rightarrow> time \<Rightarrow> time \<Rightarrow> session_cmd \<Rightarrow> cache \<Rightarrow> client_session bff \<times> cache" where
  "bff_create_session off t1 t2 cmd c =
     (case new_client_session t1 (sn_session cmd) (sn_user cmd) (sn_ttl cmd) [] of
        Inl e \<Rightarrow> (Inl e, c)
      | Inr s0 \<Rightarrow>
          (let s = s0\<lparr>ses_metadata := map_of (sn_metadata cmd)\<rparr>
           in case session_json off (sn_metadata cmd) s of
                None \<Rightarrow> (Inl ErrInternal, c)
              | Some v \<Rightarrow> (Inr s, cache_set t2 (cache_key (ses_id s)) (marshal v) (sn_ttl cmd) c)))"

definition bff_get_session :: "time \<Rightarrow> time \<Rightarrow> string \<Rightarrow> cache \<Rightarrow> client_session bff \<times> cache" where
  "bff_get_session t1 t2 i c =
     (if i = '''' then (Inl ErrInvalidParameter, c)
      else case cache_get t1 (cache_key i) c of
        None \<Rightarrow> (Inl ErrSessionNotFound, c)
      | Some data \<Rightarrow>
          (case Option.bind (json_text data) (\<lambda>v. decode_fields session_fields v no_session) of
             None \<Rightarrow> (Inl ErrInternal, c)
           | Some s \<Rightarrow> if session_expired t2 s then (Inl ErrSessionNotFound, cache_delete (cache_key i) c) else (Inr s, c)))"

section \<open>Status\<close>

record system_status =
  sy_bff :: string
  sy_version :: string
  sy_control :: string
  sy_control_version :: string
  sy_time :: time

definition get_status :: "client_cfg option \<Rightarrow> string \<Rightarrow> time \<Rightarrow> cp_net \<Rightarrow> system_status \<times> cp_net" where
  "get_status cp version now n =
     (let s = \<lparr>sy_bff = ''UP'', sy_version = version, sy_control = ''UNKNOWN'', sy_control_version = '''', sy_time = now\<rparr>
      in case cp of
           None \<Rightarrow> (s, n)
         | Some c \<Rightarrow>
             (case check_health c n of
                (Inl _, n1) \<Rightarrow> (s\<lparr>sy_control := ''DOWN''\<rparr>, n1)
              | (Inr h, n1) \<Rightarrow>
                  if h = ''UP'' then
                    (case get_version c n1 of
                       (Inl _, n2) \<Rightarrow> (s\<lparr>sy_control := h\<rparr>, n2)
                     | (Inr v, n2) \<Rightarrow> (s\<lparr>sy_control := h, sy_control_version := bv_version v\<rparr>, n2))
                  else (s\<lparr>sy_control := h\<rparr>, n1)))"

section \<open>The dashboard\<close>

record answers =
  as_health :: "string bff"
  as_version :: "bff_version bff"
  as_active :: "int bff"
  as_suites :: "bff_suite list bff"
  as_total :: "int bff"
  as_profiles :: "bff_profile list bff"
  as_schedules :: "int bff"
  as_runs :: "bff_run list bff"

record dashboard =
  db_bff :: string
  db_version :: string
  db_control :: string
  db_control_version :: string
  db_active :: int
  db_suites_count :: int
  db_suites :: "bff_suite list"
  db_profiles_count :: int
  db_profiles :: "bff_profile list"
  db_schedules :: int
  db_runs :: "bff_run list"
  db_rate :: "float64 option"
  db_total :: int
  db_time :: time

definition or_zero :: "int bff \<Rightarrow> int" where
  "or_zero r = (case r of Inl _ \<Rightarrow> 0 | Inr n \<Rightarrow> n)"

definition run_finished :: "bff_run \<Rightarrow> bool" where
  "run_finished r \<longleftrightarrow> br_status r = ''COMPLETED'' \<or> br_status r = ''FAILED''"

definition sla_rate :: "bff_run list \<Rightarrow> float64 option" where
  "sla_rate rs =
     (let completed = filter run_finished rs; passed = filter (\<lambda>r. br_sla r = Some True) completed
      in if 0 < length completed
         then Some (float_mul (float_div (float_of_int (int (length passed))) (float_of_int (int (length completed)))) (F_fin 100))
         else None)"

definition empty_dashboard :: "string \<Rightarrow> time \<Rightarrow> dashboard" where
  "empty_dashboard version now =
     \<lparr>db_bff = ''UP'', db_version = version, db_control = ''UNKNOWN'', db_control_version = '''', db_active = 0, db_suites_count = 0,
      db_suites = [], db_profiles_count = 0, db_profiles = [], db_schedules = 0, db_runs = [], db_rate = None, db_total = 0, db_time = now\<rparr>"

text \<open>\<open>None\<close> when there is no client for the control plane.\<close>

definition get_dashboard :: "string \<Rightarrow> time \<Rightarrow> answers option \<Rightarrow> dashboard" where
  "get_dashboard version now a =
     (case a of
        None \<Rightarrow> (empty_dashboard version now)\<lparr>db_control := ''DOWN''\<rparr>
      | Some x \<Rightarrow>
          (let suites = answered (as_suites x); profiles = answered (as_profiles x)
           in (empty_dashboard version now)
                \<lparr>db_control := (case as_health x of Inl _ \<Rightarrow> ''DOWN'' | Inr h \<Rightarrow> h),
                 db_control_version := (case (as_health x, as_version x) of (Inr _, Inr v) \<Rightarrow> bv_version v | _ \<Rightarrow> ''''),
                 db_active := or_zero (as_active x), db_suites := suites,
                 db_suites_count := (case as_total x of Inl _ \<Rightarrow> int (length suites) | Inr t \<Rightarrow> t),
                 db_profiles := profiles, db_profiles_count := int (length profiles), db_schedules := or_zero (as_schedules x),
                 db_runs := answered (as_runs x), db_total := int (length (answered (as_runs x))), db_rate := sla_rate (answered (as_runs x))\<rparr>))"

section \<open>The details of a run\<close>

record run_view =
  rv_run :: bff_run
  rv_report :: string
  rv_logs :: string

text \<open>The two addresses are asked for side by side; here the report comes first.\<close>

definition or_none :: "string bff \<Rightarrow> string" where
  "or_none r = (case r of Inl _ \<Rightarrow> '''' | Inr u \<Rightarrow> u)"

definition get_run_detail :: "client_cfg option \<Rightarrow> string \<Rightarrow> cp_net \<Rightarrow> run_view bff \<times> cp_net" where
  "get_run_detail cp i n =
     (let r = trim_space i
      in if r = '''' then (Inl ErrInvalidParameter, n)
         else case cp of
           None \<Rightarrow> (Inl ErrControlPlaneUnavailable, n)
         | Some c \<Rightarrow>
             (case cp_get_run c r n of
                (Inl e, n1) \<Rightarrow> (Inl e, n1)
              | (Inr run, n1) \<Rightarrow>
                  (case cp_report_url c r n1 of
                     (report, n2) \<Rightarrow>
                       (case cp_logs_url c r n2 of
                          (logs, n3) \<Rightarrow> (Inr \<lparr>rv_run = run, rv_report = or_none report, rv_logs = or_none logs\<rparr>, n3)))))"

section \<open>Events\<close>

definition subscribe_events :: "hub option \<Rightarrow> (nat \<times> hub) bff" where
  "subscribe_events h =
     (case h of
        None \<Rightarrow> Inl ErrInternal
      | Some x \<Rightarrow> (case subscribe x of None \<Rightarrow> Inl (Bff_other ''event hub is closed'') | Some y \<Rightarrow> Inr y))"

definition broadcast_event :: "sse \<Rightarrow> hub option \<Rightarrow> hub bff" where
  "broadcast_event ev h =
     (case h of
        None \<Rightarrow> Inl ErrInternal
      | Some x \<Rightarrow> (case broadcast ev x of None \<Rightarrow> Inl (Bff_other ''event hub is closed'') | Some y \<Rightarrow> Inr y))"

section \<open>The rate on the dashboard\<close>

text \<open>
  C32: The rate of the dashboard is there exactly when one of the recent runs has the status COMPLETED or FAILED, and then it
  is the percentage of them that met their objectives: a number from 0 to 100 that is at most \<open>1 / 2 ^ 45\<close> away from the
  exact quotient, 100 when all of them did and 0 when none did.  Aborted and archived runs, which are over as well, are not
  counted.
\<close>
theorem dashboard_rate_sound:
  assumes "length (answered (as_runs a)) < 2 ^ 53"
    and "finished = filter (\<lambda>r. br_status r \<in> {''COMPLETED'', ''FAILED''}) (answered (as_runs a))"
    and "passed = filter (\<lambda>r. br_sla r = Some True) finished"
  shows "case db_rate (get_dashboard version now (Some a)) of
           None \<Rightarrow> finished = []
         | Some r \<Rightarrow> finished \<noteq> [] \<and> (\<exists>x. r = F_fin x \<and> 0 \<le> x \<and> x \<le> 100
             \<and> \<bar>x - 100 * of_nat (length passed) / of_nat (length finished)\<bar> \<le> 1 / 2 ^ 45
             \<and> (passed = finished \<longrightarrow> x = 100) \<and> (passed = [] \<longrightarrow> x = 0))"
proof -
  have fin: "filter run_finished (answered (as_runs a)) = finished"
    unfolding assms(2) by (intro filter_cong) (auto simp: run_finished_def)
  have rate: "db_rate (get_dashboard version now (Some a)) =
      (if 0 < length finished
       then Some (float_mul (float_div (float_of_int (int (length passed))) (float_of_int (int (length finished)))) (F_fin 100)) else None)"
    by (simp add: get_dashboard_def sla_rate_def fin assms(3) Let_def)
  have le: "int (length passed) \<le> int (length finished)" by (simp add: assms(3))
  have "length finished < 2 ^ 53" unfolding assms(2) using length_filter_le assms(1) by (rule le_less_trans)
  then have small: "int (length finished) < 2 ^ 53" by simp
  show ?thesis
  proof (cases "finished = []")
    case True
    then show ?thesis using rate by simp
  next
    case False
    then have pos: "0 < int (length finished)" by simp
    have nn: "0 \<le> int (length passed)" by simp
    note p = percentage_between [OF nn le pos small]
    obtain x where x: "float_mul (float_div (float_of_int (int (length passed))) (float_of_int (int (length finished)))) (F_fin 100) = F_fin x"
        "0 \<le> x" "x \<le> 100" using p(1) by blast
    note near = percentage_near [OF nn le pos small x(1)]
    have "passed = finished \<longrightarrow> x = 100" using p(2) x(1) by auto
    moreover have "passed = [] \<longrightarrow> x = 0" using p(3) x(1) by auto
    ultimately show ?thesis unfolding rate using False x near by simp
  qed
qed

definition finished_sample :: "bool option \<Rightarrow> bff_run" where
  "finished_sample sla = no_run\<lparr>br_status := ''COMPLETED'', br_sla := sla\<rparr>"

definition sample_answers :: answers where
  "sample_answers = \<lparr>as_health = Inl ErrInternal, as_version = Inl ErrInternal, as_active = Inr 1, as_suites = Inr [], as_total = Inr 0,
     as_profiles = Inr [], as_schedules = Inr 0,
     as_runs = Inr [finished_sample (Some True), finished_sample None, no_run, finished_sample (Some True)]\<rparr>"

theorem dashboard_rate_sound_witness:
  "\<exists>x. db_rate (get_dashboard ''1'' 0 (Some sample_answers)) = Some (F_fin x) \<and> 66666 / 1000 \<le> x \<and> x \<le> 66667 / 1000"
proof -
  have s: "length (answered (as_runs sample_answers)) < 2 ^ 53" by (simp add: sample_answers_def answered_def)
  have f: "filter (\<lambda>r. br_status r \<in> {''COMPLETED'', ''FAILED''}) (answered (as_runs sample_answers)) =
      [finished_sample (Some True), finished_sample None, finished_sample (Some True)]"
    by (simp add: sample_answers_def answered_def finished_sample_def no_run_def)
  have p: "filter (\<lambda>r. br_sla r = Some True) [finished_sample (Some True), finished_sample None, finished_sample (Some True)] =
      [finished_sample (Some True), finished_sample (Some True)]"
    by (simp add: finished_sample_def)
  obtain x where "db_rate (get_dashboard ''1'' 0 (Some sample_answers)) = Some (F_fin x)" "\<bar>x - 200 / 3\<bar> \<le> 1 / 2 ^ 45"
    using dashboard_rate_sound [OF s f [symmetric] p [symmetric], of "''1''" 0] by (auto split: option.splits)
  moreover from this(2) have "x - 200 / 3 \<le> 1 / 2 ^ 45" "- (x - 200 / 3) \<le> 1 / 2 ^ 45" by (simp_all only: abs_le_iff)
  then have "66666 / 1000 \<le> x" "x \<le> 66667 / 1000" by simp_all
  ultimately show ?thesis by blast
qed

section \<open>The sessions of the cache\<close>

lemma add_members_texts: "add_members (map (\<lambda>(k, v). (k, J_str v)) md) m = Some (m ++ map_of (rev md))"
  by (induction md arbitrary: m) (auto simp: get_text_def map_add_def fun_eq_iff split: option.splits)

lemma map_of_rev_distinct: "distinct (map fst md) \<Longrightarrow> map_of (rev md) = map_of md"
  by (metis distinct_rev map_of_eq_Some_iff map_of_eq_None_iff not_None_eq rev_map rev_rev_ident set_rev ext)

definition session_valid :: "(string \<times> string) list \<Rightarrow> client_session \<Rightarrow> bool" where
  "session_valid md s \<longleftrightarrow> valid_utf8 (ses_id s) \<and> valid_utf8 (ses_user s) \<and> valid_utf8 (ses_sid s) \<and> valid_utf8 (ses_access s) \<and>
     valid_utf8 (ses_refresh s) \<and> valid_utf8 (ses_id_token s) \<and> (\<forall>r \<in> set (ses_roles s). valid_utf8 r) \<and>
     (\<forall>(k, v) \<in> set md. valid_utf8 k \<and> valid_utf8 v) \<and> distinct (map fst md) \<and> ses_metadata s = map_of md"

lemma session_names:
  "valid_utf8 ''ID''" "valid_utf8 ''UserID''" "valid_utf8 ''KeycloakSID''" "valid_utf8 ''AccessToken''" "valid_utf8 ''RefreshToken''"
  "valid_utf8 ''IDToken''" "valid_utf8 ''Roles''" "valid_utf8 ''CreatedAt''" "valid_utf8 ''UpdatedAt''" "valid_utf8 ''ExpiresAt''"
  "valid_utf8 ''Metadata''"
  by (simp_all add: ascii_valid code_def)


lemma session_json_reads:
  assumes "session_json off md s = Some v" "session_valid md s" "off mod 60 = 0"
  shows "json_text (marshal v) = Some v" and "decode_fields session_fields v no_session = Some s"
proof -
  obtain c u e where t: "json_time off (ses_created s) = Some c" "json_time off (ses_updated s) = Some u"
      "json_time off (ses_expires s) = Some e"
    and v: "v = J_obj [(''ID'', J_str (ses_id s)), (''UserID'', J_str (ses_user s)), (''KeycloakSID'', J_str (ses_sid s)),
            (''AccessToken'', J_str (ses_access s)), (''RefreshToken'', J_str (ses_refresh s)), (''IDToken'', J_str (ses_id_token s)),
            (''Roles'', J_arr (map J_str (ses_roles s))), (''CreatedAt'', c), (''UpdatedAt'', u), (''ExpiresAt'', e),
            (''Metadata'', J_obj (map (\<lambda>(k, v). (k, J_str v)) md))]"
    using assms(1) by (auto simp: session_json_def split: option.splits)
  have "plain_json v"
    using assms(2) json_time_plain [OF t(1)] json_time_plain [OF t(2)] json_time_plain [OF t(3)]
    unfolding v session_valid_def by (auto simp: session_names)
  moreover have "json_depth v \<le> 10000"
  proof -
    have a: "foldr max (map json_depth (map J_str xs)) (0::int) \<le> 0" for xs by (rule foldr_max_le) auto
    have b: "foldr max (map (\<lambda>(k, v). json_depth v) (map (\<lambda>(k, v). (k, J_str v)) md)) (0::int) \<le> 0" by (rule foldr_max_le) auto
    show ?thesis
      using a [of "ses_roles s"] b json_time_valid [OF t(1)] json_time_valid [OF t(2)] json_time_valid [OF t(3)]
      unfolding v by simp
  qed
  ultimately show "json_text (marshal v) = Some v" by (rule plain_reads)
  note r = json_time_read [OF t(1) assms(3)] json_time_read [OF t(2) assms(3)] json_time_read [OF t(3) assms(3)]
  show "decode_fields session_fields v no_session = Some s"
    using assms(2) unfolding v session_valid_def
    by (simp add: decode_fields_member session_fields_def plain_def get_text_def r get_slice_def get_each_texts
      get_text_map_def add_members_texts map_of_rev_distinct no_session_def)
qed

text \<open>Requests that the BFF serves from its cache, each with the times at which it looks at the clock.\<close>

datatype session_request = Ask_create time time session_cmd | Ask_get time time string

fun serve_session :: "int \<Rightarrow> session_request \<Rightarrow> cache \<Rightarrow> cache" where
  "serve_session off (Ask_create t1 t2 cmd) c = snd (bff_create_session off t1 t2 cmd c)"
| "serve_session off (Ask_get t1 t2 i) c = snd (bff_get_session t1 t2 i c)"

fun request_by :: "time \<Rightarrow> session_request \<Rightarrow> bool" where
  "request_by u (Ask_create t1 t2 cmd) \<longleftrightarrow> t1 \<le> u \<and> t2 \<le> u"
| "request_by u (Ask_get t1 t2 i) \<longleftrightarrow> t1 \<le> u \<and> t2 \<le> u"

fun creates :: "string \<Rightarrow> session_request \<Rightarrow> bool" where
  "creates i (Ask_create t1 t2 cmd) \<longleftrightarrow> sn_session cmd = i"
| "creates i (Ask_get t1 t2 j) \<longleftrightarrow> False"

lemma cache_key_eq [simp]: "cache_key i = cache_key j \<longleftrightarrow> i = j"
  by (simp add: cache_key_def)

lemma create_elsewhere:
  assumes "sn_session cmd \<noteq> i"
  shows "snd (bff_create_session off t1 t2 cmd c) (cache_key i) = c (cache_key i)"
  using assms by (auto simp: bff_create_session_def Let_def cache_set_def new_client_session_def fresh_session_def
    split: sum.splits option.splits if_splits)

text \<open>The entry of a session stays, unless a lookup finds the session expired.\<close>

definition entry_kept :: "client_session \<Rightarrow> string \<Rightarrow> time \<Rightarrow> time \<Rightarrow> cache \<Rightarrow> bool" where
  "entry_kept s text until now c \<longleftrightarrow>
     c (cache_key (ses_id s)) = Some (text, until) \<or> c (cache_key (ses_id s)) = None \<and> ses_expires s < now"

lemma get_keeps:
  assumes "entry_kept s (marshal v) until u c" and "t2 \<le> u" and "json_text (marshal v) = Some v"
    and "decode_fields session_fields v no_session = Some s"
  shows "entry_kept s (marshal v) until u (snd (bff_get_session t1 t2 i c))"
proof (cases "i = ses_id s")
  case True
  then show ?thesis using assms
    by (auto simp: entry_kept_def bff_get_session_def cache_get_def cache_delete_def session_expired_def split: if_splits)
next
  case False
  then have "snd (bff_get_session t1 t2 i c) (cache_key (ses_id s)) = c (cache_key (ses_id s))"
    by (auto simp: bff_get_session_def cache_delete_def split: option.splits)
  then show ?thesis using assms(1) by (simp add: entry_kept_def)
qed

lemma requests_keep:
  assumes "json_text (marshal v) = Some v" and "decode_fields session_fields v no_session = Some s"
  shows "entry_kept s (marshal v) until u c \<Longrightarrow> \<forall>r \<in> set reqs. request_by u r \<and> \<not> creates (ses_id s) r \<Longrightarrow>
    entry_kept s (marshal v) until u (fold (serve_session off) reqs c)"
proof (induction reqs arbitrary: c)
  case (Cons r reqs)
  have "entry_kept s (marshal v) until u (serve_session off r c)"
  proof (cases r)
    case (Ask_create t1 t2 cmd)
    then show ?thesis using Cons.prems by (simp add: entry_kept_def create_elsewhere)
  next
    case (Ask_get t1 t2 i)
    then show ?thesis using Cons.prems get_keeps [OF _ _ assms] by simp
  qed
  then show ?case using Cons by simp
qed simp

text \<open>
  C31: A session that the BFF creates in its cache is found there, identical, until it expires or the cache lets it go, and
  afterwards it is reported as missing and never returned, whatever requests come in between: the creation of sessions under
  other identifiers and lookups under any.  Its texts are valid UTF-8 (the encoder would replace other bytes), its metadata
  have distinct names, the local time zone is a whole number of minutes (the encoder writes no seconds of it), and the
  requests in between look at the clock before the lookup does.
\<close>
theorem cached_session_lives:
  assumes "bff_create_session off t1 t2 cmd c = (Inr s, c')" and "session_valid (sn_metadata cmd) s" and "off mod 60 = 0"
    and "\<forall>r \<in> set reqs. request_by u1 r \<and> \<not> creates (ses_id s) r" and "u1 \<le> u2"
  shows "fst (bff_get_session u1 u2 (ses_id s) (fold (serve_session off) reqs c'))
    = (if u1 \<le> t2 + sn_ttl cmd \<and> u2 \<le> ses_expires s then Inr s else Inl ErrSessionNotFound)
    \<and> ses_id s = sn_session cmd \<and> ses_user s = sn_user cmd \<and> ses_expires s = t1 + sn_ttl cmd"
proof -
  obtain s0 v where s0: "new_client_session t1 (sn_session cmd) (sn_user cmd) (sn_ttl cmd) [] = Inr s0"
    and s: "s = s0\<lparr>ses_metadata := map_of (sn_metadata cmd)\<rparr>"
    and v: "session_json off (sn_metadata cmd) s = Some v"
    and c': "c' = cache_set t2 (cache_key (ses_id s)) (marshal v) (sn_ttl cmd) c"
    using assms(1) by (auto simp: bff_create_session_def Let_def split: sum.splits option.splits)
  have "ses_id s = sn_session cmd \<and> ses_user s = sn_user cmd \<and> ses_expires s = t1 + sn_ttl cmd" "ses_id s \<noteq> ''''"
    using s0 s by (auto simp: new_client_session_def fresh_session_def split: if_splits)
  moreover note reads = session_json_reads [OF v assms(2,3)]
  have "entry_kept s (marshal v) (t2 + sn_ttl cmd) u1 c'" by (simp add: entry_kept_def c' cache_set_def)
  from requests_keep [OF reads this assms(4)]
  have "entry_kept s (marshal v) (t2 + sn_ttl cmd) u1 (fold (serve_session off) reqs c')" .
  ultimately show ?thesis using reads assms(5)
    by (auto simp: entry_kept_def bff_get_session_def cache_get_def session_expired_def)
qed

definition sample_session_cmd :: session_cmd where
  "sample_session_cmd = \<lparr>sn_session = ''s1'', sn_user = ''ann'', sn_sid = '''', sn_access = '''', sn_refresh = '''', sn_id_token = '''',
     sn_roles = [], sn_ttl = hour, sn_metadata = [(''theme'', ''dark'')]\<rparr>"

theorem cached_session_lives_witness:
  "\<exists>s c. bff_create_session 0 0 0 sample_session_cmd Map.empty = (Inr s, c)
     \<and> (let c1 = fold (serve_session 0) [Ask_create 1 2 (sample_session_cmd\<lparr>sn_session := ''s2''\<rparr>), Ask_get 3 4 ''s1''] c
        in fst (bff_get_session hour hour ''s1'' c1) = Inr s \<and> fst (bff_get_session 5 (hour + 1) ''s1'' c1) = Inl ErrSessionNotFound)"
proof -
  define s where "s = (fresh_session 0 ''s1'' ''ann'' hour)\<lparr>ses_metadata := map_of [(''theme'', ''dark'')]\<rparr>"
  have t: "ses_created s = 0" "ses_updated s = 0" "ses_expires s = hour" by (simp_all add: s_def fresh_session_def)
  have y: "0 \<le> year_of (0 + 0 * second) \<and> year_of (0 + 0 * second) \<le> 9999" "0 \<le> year_of (hour + 0 * second) \<and> year_of (hour + 0 * second) \<le> 9999"
    by code_simp+
  obtain v where v: "session_json 0 (sn_metadata sample_session_cmd) s = Some v"
    using y by (simp add: session_json_def t json_time_def)
  have "new_client_session 0 (sn_session sample_session_cmd) (sn_user sample_session_cmd) (sn_ttl sample_session_cmd) []
      = Inr (fresh_session 0 ''s1'' ''ann'' hour)"
    by (simp add: new_client_session_def sample_session_cmd_def)
  then obtain c where c: "bff_create_session 0 0 0 sample_session_cmd Map.empty = (Inr s, c)"
    using v by (simp add: bff_create_session_def s_def sample_session_cmd_def)
  have "session_valid (sn_metadata sample_session_cmd) s"
    by (simp add: session_valid_def s_def fresh_session_def sample_session_cmd_def ascii_valid code_def)
  note lives = cached_session_lives [OF c this, of "[Ask_create 1 2 (sample_session_cmd\<lparr>sn_session := ''s2''\<rparr>), Ask_get 3 4 ''s1'']"]
  have i: "ses_id s = ''s1''" by (simp add: s_def fresh_session_def)
  from lives [of hour hour] lives [of 5 "hour + 1"] c show ?thesis
    by (auto simp: i t Let_def sample_session_cmd_def)
qed

end
