(* ===== verification/Spec2Isabelle.thy ===== *)
theory Spec2Isabelle
  imports Templates Partitioner Barrier_System Run_Outcomes Housekeeping_Safety Build_Outcomes Schedule_Safety
    Secret_Safety Catalogue_Services Session_Safety Report_Safety Access_Control Masking Network_Policy
    Runner_Outcomes Cli_Safety Event_Poller Bff_Auth_Safety Source_Safety Bff_Service
begin

text \<open>
  \<^bold>\<open>What this is.\<close>  A model of vuhive-cloud: a Go control plane that builds load test suites, runs them as Kubernetes
  jobs and keeps their reports, the programs that run inside the pods of those jobs, its browser backend (BFF) and its
  command line client.  Every definition is translated from the Go sources under \<^verbatim>\<open>internal/\<close> and \<^verbatim>\<open>cmd/\<close>; the names of
  the sources are kept in snake case (\<^verbatim>\<open>RunService.CompleteRun\<close> is \<open>complete_run\<close>).

  \<^bold>\<open>The program.\<close>  REST handlers call application services (\<^verbatim>\<open>internal/application/service\<close>).  A service loads
  aggregates of the domain (\<^verbatim>\<open>internal/domain/model\<close>) from the PostgreSQL repositories, calls their operations,
  writes them back, and drives the object store (\<^verbatim>\<open>s3\<close>) and the cluster (\<^verbatim>\<open>k8s\<close>).  A watcher of the cluster's
  jobs writes the same rows as the services.  A dispatched job has an init container and a wrapper (\<^verbatim>\<open>internal/runner\<close>),
  which fetch the compiled test, run it, store its report and call the control plane back; the runners of one run meet
  at a start barrier that is kept in memory.  The BFF (\<^verbatim>\<open>internal/bff\<close>) logs browsers in at the identity provider,
  keeps their sessions, asks the control plane on their behalf and pushes events to them.

  \<^bold>\<open>Prelude.\<close>
  \<^item> \<open>Go_Base\<close>, \<open>Go_Text\<close>, \<open>Go_Float\<close>, \<open>Go_Time\<close>, \<open>Go_Clock\<close>, \<open>Go_Json\<close>, \<open>Json_Encode\<close>, \<open>Json_Fields\<close>, \<open>Go_Url\<close>: what the
    code uses of Go and its library: errors, 64-bit arithmetic, times and durations, strings, decimal numbers, IEEE
    doubles, durations and timestamps as texts and back, the JSON decoder of \<^verbatim>\<open>encoding/json\<close> with the scan of the
    text, its encoder with the proof that the decoder inverts it, records read by their tags, and the escapes of URLs.
  \<^item> \<open>Sha256\<close>, \<open>Aes_Gcm\<close>: SHA-256, HMAC, PBKDF2 and AES-256-GCM on bytes.  \<open>Jwt\<close>: base64 and the parts of a token.
  \<^item> \<open>Tables\<close>: rows keyed by identifier and the locale \<open>repository\<close> with the laws of lookup, save and delete.
  \<^item> \<open>Lifecycle\<close>: the locales \<open>lifecycle\<close> and \<open>lifecycle_invariant\<close>, for aggregates with a status.

  \<^bold>\<open>Aggregates of the domain.\<close>
  \<^item> \<open>Runs\<close> (\<^verbatim>\<open>run.go\<close>), \<open>Artifacts\<close> (\<^verbatim>\<open>artifact.go\<close>), \<open>Suites\<close> (\<^verbatim>\<open>suite.go\<close>, \<^verbatim>\<open>retention.go\<close>), \<open>Configs_Secrets\<close>
    (\<^verbatim>\<open>configuration.go\<close>, \<^verbatim>\<open>secret.go\<close>), \<open>Profiles\<close> (\<^verbatim>\<open>profile.go\<close>, with the resource quantities), \<open>Schedules\<close>
    (\<^verbatim>\<open>schedule.go\<close>), \<open>Go_Version\<close>, \<open>Storage_Keys\<close> (\<^verbatim>\<open>s3/keys.go\<close>): the records, each operation with its error branches,
    and the well-formedness that every operation keeps.
  \<^item> \<open>Templates\<close> (\<^verbatim>\<open>template_resolver.go\<close>), \<open>Partitioner\<close> (\<^verbatim>\<open>workload_partitioner.go\<close>), \<open>Report_Parser\<close> and
    \<open>Report_Safety\<close> (\<^verbatim>\<open>report_parser.go\<close>, and the rounding of doubles), \<open>Static_Analyzer\<close> with \<open>Source_Safety\<close>
    (\<^verbatim>\<open>static_analyzer.go\<close>: unpacking, checks, the generated driver; every source a build stores has passed the checks):
    the domain services.

  \<^bold>\<open>The start barrier.\<close>  \<open>Barrier\<close> (the session), \<open>Barrier_Coordinator\<close> (the in-memory coordinator and the service; a
  blocked call is a pair of run and worker, each critical section one function) and \<open>Barrier_System\<close> (all
  interleavings as an inductive step relation with the workers that called as ghost state).

  \<^bold>\<open>The control plane.\<close>  \<open>Control_State\<close> has the record \<open>world\<close>: the tables, the objects of the store, the jobs and
  the CronJobs, the published events, and a script of faults.  An operation is a function
  \<open>world \<Rightarrow> result \<times> world\<close>; every call of a port consumes one entry of the script, which lets it fail before or
  after its effect.  So a theorem over all worlds is a theorem over all failures.
  \<^item> \<open>Control_State\<close>, \<open>Catalogue\<close>: the repositories; \<open>Control_Ports\<close>: the object store and the cluster.
  \<^item> \<open>Run_Service\<close>, \<open>Watcher\<close>, \<open>Housekeeping\<close>, \<open>Build_Service\<close>, \<open>Catalogue_Services\<close>, and the schedule and secret
    services at the head of \<open>Schedule_Safety\<close> and \<open>Secret_Safety\<close>, with \<open>Ciphers\<close>: one definition per use case.
  \<^item> \<open>Run_Safety\<close>: the logic \<open>holds\<close> (an invariant kept under every fault script, a postcondition of a success), the
    locale \<open>run_guard\<close> between an invariant of the stored runs and the code that writes them, and its two
    interpretations (well-formed tables, immutable terminal runs); \<open>Housekeeping_Safety\<close> adds the retention cycle,
    \<open>Build_Safety\<close> has the like for artifacts, with builds in flight and retention cycles among its steps.
  \<^item> \<open>Run_Outcomes\<close>, \<open>Build_Outcomes\<close>, \<open>Schedule_Safety\<close>, \<open>Secret_Safety\<close>: what the use cases do on their branches,
    where two of them interfere, and what a failing port leaves behind.
  \<^item> \<open>Access_Control\<close> (\<^verbatim>\<open>auth.go\<close>, \<^verbatim>\<open>auth_middleware.go\<close>, \<^verbatim>\<open>router.go\<close>, \<^verbatim>\<open>errors.go\<close>): claims, guards, routes, status codes,
    against an access policy stated on methods and resources.  \<open>Token_Verifier\<close> (\<^verbatim>\<open>keycloak_verifier.go\<close>): the tokens that
    are accepted, with the cache of the keys.

  \<^bold>\<open>Jobs and their pods.\<close>
  \<^item> \<open>K8s_Manifests\<close> and \<open>Runner_Jobs\<close> (\<^verbatim>\<open>internal/adapters/outbound/k8s\<close>): the objects that are created in the cluster;
    \<open>Network_Policy\<close>: the egress policy and the connections that it lets through.
  \<^item> \<open>Runner_Config\<close>, \<open>Runner_Pod\<close>, \<open>Runner_Init\<close>, \<open>Runner_Wrapper\<close>, \<open>Masking\<close> (\<^verbatim>\<open>internal/runner\<close>): configuration, the
    machine of a pod with failing calls, the two programs and the masking of secrets; \<open>Runner_Outcomes\<close> has what they
    guarantee together with the control plane: the key of a report is the one that the dispatch has chosen, and the
    parser accepts what the wrapper writes.

  \<^bold>\<open>The BFF.\<close>
  \<^item> \<open>Bff_Base\<close>, \<open>Sessions\<close> (the aggregate), \<open>Session_Stores\<close> (the port and its two adapters, the one on PostgreSQL with
    database faults and the token cipher), \<open>Session_Contract\<close> (the locale \<open>session_store\<close>, a refinement of a map,
    interpreted on both), \<open>Session_Service\<close> (service and cleaner) and \<open>Session_Safety\<close> (when the answers do not
    depend on the store and where the stores differ; all interleavings of reads and writes).
  \<^item> \<open>Oidc_Client\<close> (\<^verbatim>\<open>keycloak/client.go\<close>), \<open>Bff_Auth\<close> (\<^verbatim>\<open>session_middleware.go\<close>, \<^verbatim>\<open>auth_handler.go\<close>) and
    \<open>Bff_Auth_Safety\<close>: login, callback, logout and the guard of the sessions.
  \<^item> \<open>Control_Client\<close> (\<^verbatim>\<open>controlplane/client.go\<close>): requests with retries under the circuit breaker and the decoding of the
    answers.  \<open>Bff_Service\<close> (\<^verbatim>\<open>bff_service.go\<close>, \<^verbatim>\<open>cache/memory.go\<close>): status, dashboard, details of a run, and the
    sessions of the cache, which survive their way through JSON and the requests in between.
  \<^item> \<open>Event_Hub\<close> (\<^verbatim>\<open>eventhub/hub.go\<close>): the hub as a step relation with a reachability invariant; \<open>Event_Poller\<close>
    (\<^verbatim>\<open>poller.go\<close>, \<^verbatim>\<open>event.go\<close>): the changes that a cycle announces, in whatever order it walks through its runs.

  \<^bold>\<open>The command line client.\<close>  \<open>Cli_Credentials\<close> (what the commands share, and the credentials file), \<open>Cli_Auth\<close>,
  \<open>Cli_Commands\<close> and \<open>Cli_Safety\<close> (\<^verbatim>\<open>internal/cli\<close>): the machine that a command runs on, the commands, and what the logins
  and the role guard guarantee.

  \<^bold>\<open>Recursion and bounds.\<close>  No definition uses fuel.  The scanners, the JSON decoder and encoder, the duration parser
  and the wait of the barrier are total functions with a measure; loops of the services are folds over the rows they
  selected (with the row limits of the code); the attempts of a request recurse on the number of retries left.  Loops
  that run until shutdown (retention cycle, session cleaner, poller) are folds over the list of their ticks, or one
  tick.  The device login of the client (\<open>device_poll\<close>) is a \<open>partial_function\<close> whose value \<open>None\<close> is a loop
  that never ends; that it ends is proved.

  \<^bold>\<open>Parameters.\<close>  Code that is not in the repository is an argument: the cron parser, the YAML decoder and encoder,
  identifiers and nonces drawn at random, the clock, the RSA signature check, the check of addresses, the printing of
  floating-point numbers, the syntax trees of \<^verbatim>\<open>go/parser\<close>, the archive readers and decompressors, the OIDC library of the
  client, the answers of the network and of the circuit breaker, and the test that a wrapper runs.

  \<^bold>\<open>Abstractions.\<close>  Times are nanoseconds; PostgreSQL rounds them to microseconds, which is modelled for the
  sessions only.  JSON columns are kept as values (their texts are valid UTF-8).  The merge of duplicate object
  members follows \<^verbatim>\<open>encoding/json\<close> for scalars and replaces slices.  Floats are their rational values without the
  sign of zero, and conversions that overflow behave as on amd64.  A cancelled request is a failed one.  Maps whose order
  does not matter are lists of pairs in some order; where the order of a map shows (the runs of the poller) or a \<^verbatim>\<open>select\<close>
  has a choice (the browser login of the client) it is an argument.  Logs and diagnostics are left out.

  \<^bold>\<open>Not modelled.\<close>  The binding of requests and the transfer objects of both REST layers with the static files and the
  reverse proxy of the BFF, the circuit breaker (a wrapper around a third-party state machine), the migrations and the
  connections, and the wiring of the servers in \<^verbatim>\<open>cmd/\<close>: these copy fields and call libraries.
\<close>

end
